(* ===== verification/Prelude.thy ===== *)
theory Prelude
  imports Main "HOL-Library.Word"
begin

text \<open>
  What every component shares: the machine integers of the targets (all of them 32-bit:
  Cortex-M0+, M3, M4, M7 and ESP32), the ways a C program goes wrong, the state-and-error
  monad in which the stateful functions are written, its total-correctness calculus
  \<open>runs\<close>, and facts about lists and words that several components use.

  The collections: \<open>run_simps\<close> holds the equations that execute a program of the monad
  under \<open>runs\<close> down to its accesses to memory, \<open>access_simps\<close> those that unfold an access.
\<close>

named_theorems run_simps \<open>execution of the state-and-error monad\<close>
named_theorems access_simps \<open>execution of the monad's fallible reads and updates\<close>

unbundle bit_operations_syntax

section \<open>Machine integers\<close>

type_synonym uint8_t = "8 word"
type_synonym uint16_t = "16 word"
type_synonym uint32_t = "32 word"
type_synonym uint64_t = "64 word"
type_synonym int32_t = "32 word"
type_synonym int64_t = "64 word"
type_synonym size_t = "32 word"

section \<open>Undefined behaviour as values\<close>

text \<open>
  Each operation that C leaves undefined (or that stops the program) is a branch of the
  model and returns one of these.
\<close>

datatype c_error =
    NullDereference
  | OutOfBounds
  | UseAfterFree
  | InvalidFree
  | UninitialisedRead
  | AssertionFailed
  | SignedOverflow
  | DivisionByZero
  | ConversionOverflow

section \<open>The state-and-error monad\<close>

type_synonym ('s, 'a) cmd = "'s \<Rightarrow> c_error + 'a \<times> 's"

definition creturn :: "'a \<Rightarrow> ('s, 'a) cmd" where
  "creturn x = (\<lambda>s. Inr (x, s))"

definition cfail :: "c_error \<Rightarrow> ('s, 'a) cmd" where
  "cfail e = (\<lambda>s. Inl e)"

definition cbind :: "('s, 'a) cmd \<Rightarrow> ('a \<Rightarrow> ('s, 'b) cmd) \<Rightarrow> ('s, 'b) cmd" where
  "cbind f g = (\<lambda>s. case f s of Inl e \<Rightarrow> Inl e | Inr (x, t) \<Rightarrow> g x t)"

text \<open>A statement whose value is not used.\<close>

definition cseq :: "('s, 'a) cmd \<Rightarrow> ('s, 'b) cmd \<Rightarrow> ('s, 'b) cmd" where
  "cseq f g = cbind f (\<lambda>_. g)"

definition cwhen :: "bool \<Rightarrow> ('s, unit) cmd \<Rightarrow> ('s, unit) cmd" where
  "cwhen b f = (if b then f else creturn ())"

definition cget :: "('s \<Rightarrow> 'a) \<Rightarrow> ('s, 'a) cmd" where
  "cget f = (\<lambda>s. Inr (f s, s))"

definition cmodify :: "('s \<Rightarrow> 's) \<Rightarrow> ('s, unit) cmd" where
  "cmodify f = (\<lambda>s. Inr ((), f s))"

text \<open>A read that may fail, and an update that may fail.\<close>

definition cread :: "('s \<Rightarrow> c_error + 'a) \<Rightarrow> ('s, 'a) cmd" where
  "cread f = (\<lambda>s. case f s of Inl e \<Rightarrow> Inl e | Inr x \<Rightarrow> Inr (x, s))"

definition cupdate :: "('s \<Rightarrow> c_error + 's) \<Rightarrow> ('s, unit) cmd" where
  "cupdate f = (\<lambda>s. case f s of Inl e \<Rightarrow> Inl e | Inr t \<Rightarrow> Inr ((), t))"

text \<open>
  \<open>runs f s P\<close>: started in \<open>s\<close> the program returns (no undefined behaviour) and its
  value and final state satisfy \<open>P\<close>. All of these programs terminate, so this is total
  correctness.
\<close>

definition runs :: "('s, 'a) cmd \<Rightarrow> 's \<Rightarrow> ('a \<Rightarrow> 's \<Rightarrow> bool) \<Rightarrow> bool" where
  "runs f s P = (case f s of Inl e \<Rightarrow> False | Inr (x, t) \<Rightarrow> P x t)"

lemma runs_creturn [run_simps]: "runs (creturn x) s P = P x s"
  by (simp add: runs_def creturn_def)

lemma runs_cfail [run_simps]: "runs (cfail e) s P = False"
  by (simp add: runs_def cfail_def)

lemma runs_cbind [run_simps]: "runs (cbind f g) s P = runs f s (\<lambda>x t. runs (g x) t P)"
  by (simp add: runs_def cbind_def split: sum.splits)

lemma runs_cseq [run_simps]: "runs (cseq f g) s P = runs f s (\<lambda>_ t. runs g t P)"
  by (simp add: cseq_def runs_cbind)

lemma runs_cwhen [run_simps]: "runs (cwhen b f) s P = (if b then runs f s P else P () s)"
  by (simp add: cwhen_def runs_creturn)

lemma runs_cget [run_simps]: "runs (cget f) s P = P (f s) s"
  by (simp add: runs_def cget_def)

lemma runs_cmodify [run_simps]: "runs (cmodify f) s P = P () (f s)"
  by (simp add: runs_def cmodify_def)

lemma runs_cread [access_simps]: "runs (cread f) s P = (case f s of Inl e \<Rightarrow> False | Inr x \<Rightarrow> P x s)"
  by (simp add: runs_def cread_def split: sum.splits)

lemma runs_cupdate [access_simps]: "runs (cupdate f) s P = (case f s of Inl e \<Rightarrow> False | Inr t \<Rightarrow> P () t)"
  by (simp add: runs_def cupdate_def split: sum.splits)

lemma runs_mono: "runs f s P \<Longrightarrow> (\<And>x t. P x t \<Longrightarrow> Q x t) \<Longrightarrow> runs f s Q"
  by (auto simp: runs_def split: sum.splits)

lemma runs_conj: "runs f s P \<Longrightarrow> runs f s Q \<Longrightarrow> runs f s (\<lambda>x t. P x t \<and> Q x t)"
  by (auto simp: runs_def split: sum.splits)

lemma runs_Inr: "runs f s P \<Longrightarrow> \<exists>x t. f s = Inr (x, t) \<and> P x t"
  by (auto simp: runs_def split: sum.splits)

lemma runs_of_Inr: "f s = Inr (x, t) \<Longrightarrow> runs f s P = P x t"
  by (simp add: runs_def)

lemmas cmd_defs = creturn_def cfail_def cbind_def cseq_def cwhen_def cget_def cmodify_def
  cread_def cupdate_def

section \<open>Words\<close>

lemma unat_of_nat_small [simp]: "n < 2 ^ 32 \<Longrightarrow> unat (of_nat n :: 32 word) = n"
  by (simp add: unat_of_nat)

lemma unat_less_2p32: "unat (w :: 32 word) < 2 ^ 32"
  using unsigned_less [of w] by simp

lemma unat_add_small:
  "unat a + unat b < 2 ^ 32 \<Longrightarrow> unat (a + b :: 32 word) = unat a + unat b"
  by (simp add: unat_word_ariths)

lemma unat_mult_small:
  "unat a * unat b < 2 ^ 32 \<Longrightarrow> unat (a * b :: 32 word) = unat a * unat b"
  by (simp add: unat_word_ariths)

lemma unat_diff_small: "b \<le> a \<Longrightarrow> unat (a - b :: 32 word) = unat a - unat b"
  by (rule unat_sub)

section \<open>Lists\<close>

text \<open>\<open>overwrite ofs xs ys\<close>: \<open>ys\<close> with \<open>xs\<close> written over it from index \<open>ofs\<close> on.\<close>

definition overwrite :: "nat \<Rightarrow> 'a list \<Rightarrow> 'a list \<Rightarrow> 'a list" where
  "overwrite ofs xs ys = take ofs ys @ xs @ drop (ofs + length xs) ys"

lemma length_overwrite [simp]:
  "ofs + length xs \<le> length ys \<Longrightarrow> length (overwrite ofs xs ys) = length ys"
  by (simp add: overwrite_def)

lemma overwrite_Nil [simp]: "overwrite ofs [] ys = ys"
  by (simp add: overwrite_def)

lemma take_drop_overwrite_same [simp]:
  "ofs + length xs \<le> length ys \<Longrightarrow> n = length xs \<Longrightarrow>
   take n (drop ofs (overwrite ofs xs ys)) = xs"
  by (simp add: overwrite_def)

lemma nth_overwrite:
  "ofs + length xs \<le> length ys \<Longrightarrow> i < length ys \<Longrightarrow>
   overwrite ofs xs ys ! i = (if ofs \<le> i \<and> i < ofs + length xs then xs ! (i - ofs) else ys ! i)"
  by (auto simp: overwrite_def nth_append)

lemma take_drop_overwrite_other:
  assumes "ofs + length xs \<le> length ys" and "j + n \<le> ofs \<or> ofs + length xs \<le> j"
  shows "take n (drop j (overwrite ofs xs ys)) = take n (drop j ys)"
proof (rule nth_equalityI)
  fix i
  assume "i < length (take n (drop j (overwrite ofs xs ys)))"
  then show "take n (drop j (overwrite ofs xs ys)) ! i = take n (drop j ys) ! i"
    using assms by (auto simp: nth_overwrite)
qed (use assms in simp)

end
