(* ===== verification/C_Memory.thy ===== *)
theory C_Memory
  imports Prelude
begin

text \<open>
  The memory of the C abstract machine, as far as the modelled code uses it, and the
  allocator interface of \<^verbatim>\<open>src/rcutils/allocator.h\<close>.

  Memory is a collection of blocks of bytes. A block is an object of the program (a
  variable, a buffer of the caller) or was handed out by an allocator. Every access is
  checked: an access through NULL, to a block that was freed, or outside a block is an
  error value. A scalar that was stored (a \<open>size_t\<close> or a pointer) occupies four bytes,
  each of which remembers the scalar and its position; zero and NULL are four zero bytes,
  so that \<^verbatim>\<open>memset(p, 0, n)\<close> makes zeroes and NULL pointers.
\<close>

section \<open>Pointers, bytes and blocks\<close>

datatype ptr = NULL | Ptr nat nat

datatype scalar = SizeV size_t | PtrV ptr

datatype mbyte = Undef | Byte char | Frag scalar nat

datatype block_kind = ObjectBlock | HeapBlock

text \<open>Blocks are numbered in the order in which they come into being; \<open>None\<close> marks a freed one.\<close>

type_synonym mem = "(block_kind \<times> mbyte list) option list"

definition blocks :: "mem \<Rightarrow> nat \<Rightarrow> (block_kind \<times> mbyte list) option" where
  "blocks m b = (if b < length m then m ! b else None)"

lemma blocks_update: "b < length m \<Longrightarrow> blocks (m[b := v]) = (blocks m)(b := v)"
  by (auto simp: blocks_def)

lemma blocks_Some_less: "blocks m b = Some v \<Longrightarrow> b < length m"
  by (auto simp: blocks_def split: if_splits)

lemma blocks_append: "blocks (m @ [v]) = (blocks m)(length m := v)"
  by (auto simp: blocks_def nth_append)

lemma blocks_beyond [simp]: "length m \<le> b \<Longrightarrow> blocks m b = None"
  by (simp add: blocks_def)

text \<open>
  Pointer arithmetic. An offset added to NULL gives a pointer that no access may use; it
  is represented by NULL itself, whose accesses all fail.
\<close>

fun ptr_add :: "ptr \<Rightarrow> size_t \<Rightarrow> ptr" where
  "ptr_add NULL n = NULL"
| "ptr_add (Ptr b ofs) n = Ptr b (ofs + unat n)"

abbreviation zero_byte :: mbyte where
  "zero_byte \<equiv> Byte (CHR 0x00)"

section \<open>Byte accesses\<close>

fun load_bytes :: "nat \<Rightarrow> ptr \<Rightarrow> mem \<Rightarrow> c_error + mbyte list" where
  "load_bytes n NULL m = Inl NullDereference"
| "load_bytes n (Ptr b ofs) m =
     (case blocks m b of
        None \<Rightarrow> Inl UseAfterFree
      | Some (k, bs) \<Rightarrow> if ofs + n \<le> length bs then Inr (take n (drop ofs bs)) else Inl OutOfBounds)"

fun store_bytes :: "mbyte list \<Rightarrow> ptr \<Rightarrow> mem \<Rightarrow> c_error + mem" where
  "store_bytes xs NULL m = Inl NullDereference"
| "store_bytes xs (Ptr b ofs) m =
     (case blocks m b of
        None \<Rightarrow> Inl UseAfterFree
      | Some (k, bs) \<Rightarrow>
          if ofs + length xs \<le> length bs
          then Inr (m[b := Some (k, overwrite ofs xs bs)])
          else Inl OutOfBounds)"

text \<open>\<^verbatim>\<open>memset(p, 0, n)\<close>, the only use of memset in the code.\<close>

definition memset_zero :: "ptr \<Rightarrow> size_t \<Rightarrow> mem \<Rightarrow> c_error + mem" where
  "memset_zero p n = store_bytes (replicate (unat n) zero_byte) p"

section \<open>Scalars\<close>

definition scalar_frags :: "scalar \<Rightarrow> mbyte list" where
  "scalar_frags v = [Frag v 0, Frag v 1, Frag v 2, Frag v 3]"

definition ptr_bytes :: "ptr \<Rightarrow> mbyte list" where
  "ptr_bytes p = (if p = NULL then replicate 4 zero_byte else scalar_frags (PtrV p))"

definition size_bytes :: "size_t \<Rightarrow> mbyte list" where
  "size_bytes w = (if w = 0 then replicate 4 zero_byte else scalar_frags (SizeV w))"

fun decode_ptr :: "mbyte list \<Rightarrow> c_error + ptr" where
  "decode_ptr [Frag (PtrV p) i, b1, b2, b3] =
     (if [Frag (PtrV p) i, b1, b2, b3] = ptr_bytes p then Inr p else Inl UninitialisedRead)"
| "decode_ptr bs = (if bs = replicate 4 zero_byte then Inr NULL else Inl UninitialisedRead)"

fun decode_size :: "mbyte list \<Rightarrow> c_error + size_t" where
  "decode_size [Frag (SizeV w) i, b1, b2, b3] =
     (if [Frag (SizeV w) i, b1, b2, b3] = size_bytes w then Inr w else Inl UninitialisedRead)"
| "decode_size bs = (if bs = replicate 4 zero_byte then Inr 0 else Inl UninitialisedRead)"

definition load_ptr :: "ptr \<Rightarrow> mem \<Rightarrow> c_error + ptr" where
  "load_ptr p m = (case load_bytes 4 p m of Inl e \<Rightarrow> Inl e | Inr bs \<Rightarrow> decode_ptr bs)"

definition load_size :: "ptr \<Rightarrow> mem \<Rightarrow> c_error + size_t" where
  "load_size p m = (case load_bytes 4 p m of Inl e \<Rightarrow> Inl e | Inr bs \<Rightarrow> decode_size bs)"

definition store_ptr :: "ptr \<Rightarrow> ptr \<Rightarrow> mem \<Rightarrow> c_error + mem" where
  "store_ptr p v = store_bytes (ptr_bytes v) p"

definition store_size :: "ptr \<Rightarrow> size_t \<Rightarrow> mem \<Rightarrow> c_error + mem" where
  "store_size p w = store_bytes (size_bytes w) p"

lemma length_ptr_bytes [simp]: "length (ptr_bytes p) = 4"
  by (simp add: ptr_bytes_def scalar_frags_def)

lemma length_size_bytes [simp]: "length (size_bytes w) = 4"
  by (simp add: size_bytes_def scalar_frags_def)

lemma decode_ptr_bytes [simp]: "decode_ptr (ptr_bytes p) = Inr p"
  by (cases "p = NULL") (simp_all add: ptr_bytes_def scalar_frags_def eval_nat_numeral)

lemma decode_size_bytes [simp]: "decode_size (size_bytes w) = Inr w"
  by (cases "w = 0") (simp_all add: size_bytes_def scalar_frags_def eval_nat_numeral)

lemma ptr_bytes_NULL [simp]: "ptr_bytes NULL = replicate 4 zero_byte"
  by (simp add: ptr_bytes_def)

lemma size_bytes_0 [simp]: "size_bytes 0 = replicate 4 zero_byte"
  by (simp add: size_bytes_def)

section \<open>The bytes of a region\<close>

text \<open>
  \<open>region m b ofs n\<close>: the \<open>n\<close> bytes at \<open>ofs\<close> of block \<open>b\<close>, if the block is live and
  they are inside it. It is the view through which the proofs see memory: what a store
  does to every region, and which regions decide the result of a load.
\<close>

definition region :: "mem \<Rightarrow> nat \<Rightarrow> nat \<Rightarrow> nat \<Rightarrow> mbyte list option" where
  "region m b ofs n =
     (case blocks m b of
        None \<Rightarrow> None
      | Some (k, bs) \<Rightarrow> if ofs + n \<le> length bs then Some (take n (drop ofs bs)) else None)"

text \<open>The number of bytes of a block (0 when it is not live).\<close>

definition block_length :: "mem \<Rightarrow> nat \<Rightarrow> nat" where
  "block_length m b = (case blocks m b of None \<Rightarrow> 0 | Some (k, bs) \<Rightarrow> length bs)"

lemma block_length_Some [simp]: "blocks m b = Some (k, bs) \<Longrightarrow> block_length m b = length bs"
  by (simp add: block_length_def)

lemma load_bytes_region:
  "load_bytes n (Ptr b ofs) m = Inr bs \<longleftrightarrow> region m b ofs n = Some bs"
  by (auto simp: region_def split: option.splits)

lemma load_ptr_region:
  "region m b ofs 4 = Some bs \<Longrightarrow> load_ptr (Ptr b ofs) m = decode_ptr bs"
  by (auto simp: load_ptr_def region_def split: option.splits prod.splits if_splits)

lemma load_size_region:
  "region m b ofs 4 = Some bs \<Longrightarrow> load_size (Ptr b ofs) m = decode_size bs"
  by (auto simp: load_size_def region_def split: option.splits prod.splits if_splits)

lemma region_sub:
  assumes "region m b ofs n = Some bs" and "i + k \<le> n"
  shows "region m b (ofs + i) k = Some (take k (drop i bs))"
  using assms
  by (auto simp: region_def take_drop ac_simps min_def split: option.splits if_splits prod.splits)

text \<open>What a store does: it succeeds on a live region and changes that region only.\<close>

lemma store_bytes_ok:
  assumes "region m b ofs n = Some old" and "n = length xs"
  obtains m' where "store_bytes xs (Ptr b ofs) m = Inr m'"
    and "length m' = length m"
    and "\<And>c. c \<noteq> b \<Longrightarrow> blocks m' c = blocks m c"
    and "region m' b ofs (length xs) = Some xs"
    and "\<And>i k. i + k \<le> ofs \<or> ofs + length xs \<le> i \<Longrightarrow> region m' b i k = region m b i k"
    and "map_option fst (blocks m' b) = map_option fst (blocks m b)"
    and "map_option (length \<circ> snd) (blocks m' b) = map_option (length \<circ> snd) (blocks m b)"
proof -
  from assms obtain k bs where b: "blocks m b = Some (k, bs)" and le: "ofs + length xs \<le> length bs"
    by (auto simp: region_def split: option.splits if_splits)
  let ?m = "m[b := Some (k, overwrite ofs xs bs)]"
  show thesis
    by (rule that [of ?m])
      (use b le in \<open>auto simp: region_def take_drop_overwrite_other blocks_update blocks_Some_less\<close>)
qed

end
