(* ===== verification/Allocator.thy ===== *)
theory Allocator
  imports C_Memory
begin

text \<open>
  The allocator interface of \<^verbatim>\<open>src/rcutils/allocator.h\<close>: the record of function
  pointers, and the locale \<open>c_allocator\<close> of what a client may rely on. The functions
  behind the pointers are not in the repository; the default allocator is documented in
  that header as wrapping \<^verbatim>\<open>malloc\<close>, \<^verbatim>\<open>free\<close>, \<^verbatim>\<open>realloc\<close> and \<^verbatim>\<open>calloc\<close>, whose standard
  behaviour is modelled here and interprets the locale. What the C standard leaves to the
  implementation (when memory is exhausted, how many bytes a block really has, whether
  \<^verbatim>\<open>realloc\<close> grows a block where it is) is a policy, over which every result is general.
\<close>

section \<open>The interface\<close>

record rcutils_allocator_t =
  allocate :: "size_t \<Rightarrow> ptr \<Rightarrow> mem \<Rightarrow> ptr \<times> mem"
  deallocate :: "ptr \<Rightarrow> ptr \<Rightarrow> mem \<Rightarrow> c_error + mem"
  reallocate :: "ptr \<Rightarrow> size_t \<Rightarrow> ptr \<Rightarrow> mem \<Rightarrow> c_error + ptr \<times> mem"
  zero_allocate :: "size_t \<Rightarrow> size_t \<Rightarrow> ptr \<Rightarrow> mem \<Rightarrow> ptr \<times> mem"
  state :: ptr

text \<open>Calls through the function pointers, as the code writes them.\<close>

definition call_allocate :: "rcutils_allocator_t \<Rightarrow> size_t \<Rightarrow> (mem, ptr) cmd" where
  "call_allocate al n = (\<lambda>m. Inr (allocate al n (state al) m))"

definition call_deallocate :: "rcutils_allocator_t \<Rightarrow> ptr \<Rightarrow> (mem, unit) cmd" where
  "call_deallocate al p = cupdate (deallocate al p (state al))"

definition call_reallocate :: "rcutils_allocator_t \<Rightarrow> ptr \<Rightarrow> size_t \<Rightarrow> (mem, ptr) cmd" where
  "call_reallocate al p n = reallocate al p n (state al)"

section \<open>What a client relies on\<close>

text \<open>\<open>resize k bs\<close>: the first \<open>k\<close> bytes of \<open>bs\<close>, the new ones (if any) indeterminate.\<close>

definition resize :: "nat \<Rightarrow> mbyte list \<Rightarrow> mbyte list" where
  "resize k bs = take k (bs @ replicate (k - length bs) Undef)"

locale c_allocator =
  fixes al :: rcutils_allocator_t
  assumes allocate_null:
      "allocate al n st m = (NULL, m') \<Longrightarrow> blocks m' = blocks m"
    and allocate_block:
      "allocate al n st m = (p, m') \<Longrightarrow> p \<noteq> NULL \<Longrightarrow>
       \<exists>b k. p = Ptr b 0 \<and> blocks m b = None \<and> unat n \<le> k \<and>
             blocks m' = (blocks m)(b \<mapsto> (HeapBlock, replicate k Undef))"
    and deallocate_null:
      "\<exists>m'. deallocate al NULL st m = Inr m' \<and> blocks m' = blocks m"
    and deallocate_block:
      "blocks m b = Some (HeapBlock, bs) \<Longrightarrow>
       \<exists>m'. deallocate al (Ptr b 0) st m = Inr m' \<and> blocks m' = (blocks m)(b := None)"
    and reallocate_block:
      "blocks m b = Some (HeapBlock, bs) \<Longrightarrow>
       \<exists>p m'. reallocate al (Ptr b 0) n st m = Inr (p, m') \<and>
         (p = NULL \<and> blocks m' = blocks m \<or>
          (\<exists>c k. p = Ptr c 0 \<and> (c = b \<or> blocks m c = None) \<and> unat n \<le> k \<and>
             blocks m' = (blocks m)(b := None, c \<mapsto> (HeapBlock, resize k bs))))"
begin

text \<open>The laws as rules for the calculus of the monad.\<close>

lemma runs_call_allocate:
  assumes "\<And>m'. blocks m' = blocks m \<Longrightarrow> P NULL m'"
    and "\<And>b k m'. blocks m b = None \<Longrightarrow> unat n \<le> k \<Longrightarrow>
           blocks m' = (blocks m)(b \<mapsto> (HeapBlock, replicate k Undef)) \<Longrightarrow> P (Ptr b 0) m'"
  shows "runs (call_allocate al n) m P"
proof -
  obtain p m' where eq: "allocate al n (state al) m = (p, m')" by (cases "allocate al n (state al) m")
  have "P p m'"
  proof (cases "p = NULL")
    case True
    with eq assms(1) allocate_null show ?thesis by blast
  next
    case False
    with eq assms(2) allocate_block show ?thesis by blast
  qed
  with eq show ?thesis by (simp add: call_allocate_def runs_def)
qed

lemma runs_call_deallocate_block:
  assumes "blocks m b = Some (HeapBlock, bs)"
    and "\<And>m'. blocks m' = (blocks m)(b := None) \<Longrightarrow> P () m'"
  shows "runs (call_deallocate al (Ptr b 0)) m P"
  using deallocate_block [OF assms(1), of "state al"] assms(2)
  by (auto simp: call_deallocate_def access_simps)

lemma runs_call_deallocate_null:
  assumes "\<And>m'. blocks m' = blocks m \<Longrightarrow> P () m'"
  shows "runs (call_deallocate al NULL) m P"
  using deallocate_null [of "state al" m] assms
  by (auto simp: call_deallocate_def access_simps)

end

text \<open>An allocator that never refuses.\<close>

locale total_allocator = c_allocator +
  assumes allocate_total: "fst (allocate al n st m) \<noteq> NULL"
    and reallocate_total: "reallocate al p n st m \<noteq> Inr (NULL, m')"
begin

lemma runs_call_allocate_total:
  assumes "\<And>b k m'. blocks m b = None \<Longrightarrow> unat n \<le> k \<Longrightarrow>
           blocks m' = (blocks m)(b \<mapsto> (HeapBlock, replicate k Undef)) \<Longrightarrow> P (Ptr b 0) m'"
  shows "runs (call_allocate al n) m P"
proof -
  obtain p m' where eq: "allocate al n (state al) m = (p, m')" by (cases "allocate al n (state al) m")
  with allocate_total [of n "state al" m] have "p \<noteq> NULL" by simp
  with eq assms allocate_block have "P p m'" by blast
  with eq show ?thesis by (simp add: call_allocate_def runs_def)
qed

lemma runs_call_reallocate_total:
  assumes "blocks m b = Some (HeapBlock, bs)"
    and "\<And>c k m'. c = b \<or> blocks m c = None \<Longrightarrow> unat n \<le> k \<Longrightarrow>
           blocks m' = (blocks m)(b := None, c \<mapsto> (HeapBlock, resize k bs)) \<Longrightarrow> P (Ptr c 0) m'"
  shows "runs (call_reallocate al (Ptr b 0) n) m P"
  using reallocate_block [OF assms(1), of n "state al"] reallocate_total assms(2)
  by (fastforce simp: call_reallocate_def runs_def)

end

section \<open>The default allocator\<close>

record malloc_policy =
  exhausted :: "nat \<Rightarrow> size_t \<Rightarrow> bool"
  usable :: "size_t \<Rightarrow> nat"
  in_place :: "nat \<Rightarrow> size_t \<Rightarrow> bool"

definition block_size :: "malloc_policy \<Rightarrow> size_t \<Rightarrow> nat" where
  "block_size pol n = max (unat n) (usable pol n)"

text \<open>The block handed out is the next number: it is never one that was in use before.\<close>

definition c_malloc :: "malloc_policy \<Rightarrow> size_t \<Rightarrow> mem \<Rightarrow> ptr \<times> mem" where
  "c_malloc pol n m =
     (if exhausted pol (length m) n then (NULL, m)
      else (Ptr (length m) 0, m @ [Some (HeapBlock, replicate (block_size pol n) Undef)]))"

definition c_free :: "ptr \<Rightarrow> mem \<Rightarrow> c_error + mem" where
  "c_free p m =
     (case p of
        NULL \<Rightarrow> Inr m
      | Ptr b ofs \<Rightarrow>
          (case blocks m b of
             Some (HeapBlock, bs) \<Rightarrow> if ofs = 0 then Inr (m[b := None]) else Inl InvalidFree
           | _ \<Rightarrow> Inl InvalidFree))"

definition c_realloc :: "malloc_policy \<Rightarrow> ptr \<Rightarrow> size_t \<Rightarrow> mem \<Rightarrow> c_error + ptr \<times> mem" where
  "c_realloc pol p n m =
     (case p of
        NULL \<Rightarrow> Inr (c_malloc pol n m)
      | Ptr b ofs \<Rightarrow>
          (case blocks m b of
             Some (HeapBlock, bs) \<Rightarrow>
               if ofs \<noteq> 0 then Inl InvalidFree
               else let new = Some (HeapBlock, resize (block_size pol n) bs)
                    in if in_place pol b n then Inr (Ptr b 0, m[b := new])
                       else if exhausted pol (length m) n then Inr (NULL, m)
                       else Inr (Ptr (length m) 0, m[b := None] @ [new])
           | _ \<Rightarrow> Inl InvalidFree))"

definition c_calloc :: "malloc_policy \<Rightarrow> size_t \<Rightarrow> size_t \<Rightarrow> mem \<Rightarrow> ptr \<times> mem" where
  "c_calloc pol k n m =
     (if exhausted pol (length m) (k * n) \<or> 2 ^ 32 \<le> unat k * unat n then (NULL, m)
      else (Ptr (length m) 0,
            m @ [Some (HeapBlock, replicate (block_size pol (k * n)) zero_byte)]))"

definition default_allocator :: "malloc_policy \<Rightarrow> rcutils_allocator_t" where
  "default_allocator pol =
     \<lparr>allocate = (\<lambda>n st. c_malloc pol n), deallocate = (\<lambda>p st. c_free p),
      reallocate = (\<lambda>p n st. c_realloc pol p n), zero_allocate = (\<lambda>k n st. c_calloc pol k n),
      state = NULL\<rparr>"

lemmas default_allocator_simps =
  default_allocator_def c_malloc_def c_free_def c_realloc_def c_calloc_def Let_def block_size_def

interpretation malloc: c_allocator "default_allocator pol" for pol
proof unfold_locales
  fix n st m m' assume "allocate (default_allocator pol) n st m = (NULL, m')"
  then show "blocks m' = blocks m"
    by (auto simp: default_allocator_simps split: if_splits)
next
  fix n st m p m' assume "allocate (default_allocator pol) n st m = (p, m')" "p \<noteq> NULL"
  then show "\<exists>b k. p = Ptr b 0 \<and> blocks m b = None \<and> unat n \<le> k \<and>
      blocks m' = (blocks m)(b \<mapsto> (HeapBlock, replicate k Undef))"
    by (intro exI [of _ "length m"] exI [of _ "block_size pol n"])
      (auto simp: default_allocator_simps blocks_append split: if_splits)
next
  fix st m show "\<exists>m'. deallocate (default_allocator pol) NULL st m = Inr m' \<and> blocks m' = blocks m"
    by (simp add: default_allocator_simps)
next
  fix m b bs st assume "blocks m b = Some (HeapBlock, bs)"
  then show "\<exists>m'. deallocate (default_allocator pol) (Ptr b 0) st m = Inr m' \<and>
      blocks m' = (blocks m)(b := None)"
    by (simp add: default_allocator_simps blocks_update blocks_Some_less)
next
  fix m b bs n st assume b: "blocks m b = Some (HeapBlock, bs)"
  show "\<exists>p m'. reallocate (default_allocator pol) (Ptr b 0) n st m = Inr (p, m') \<and>
         (p = NULL \<and> blocks m' = blocks m \<or>
          (\<exists>c k. p = Ptr c 0 \<and> (c = b \<or> blocks m c = None) \<and> unat n \<le> k \<and>
             blocks m' = (blocks m)(b := None, c \<mapsto> (HeapBlock, resize k bs))))"
    using b blocks_Some_less [OF b]
    by (auto simp: default_allocator_simps blocks_update blocks_append
        intro!: exI [of _ "block_size pol n"])
qed

text \<open>A policy that always finds room makes an allocator that never refuses.\<close>

interpretation roomy: total_allocator "default_allocator (pol\<lparr>exhausted := (\<lambda>_ _. False)\<rparr>)" for pol
proof unfold_locales
  fix n st m
  show "fst (allocate (default_allocator (pol\<lparr>exhausted := (\<lambda>_ _. False)\<rparr>)) n st m) \<noteq> NULL"
    by (simp add: default_allocator_simps)
next
  fix p n st m m'
  show "reallocate (default_allocator (pol\<lparr>exhausted := (\<lambda>_ _. False)\<rparr>)) p n st m \<noteq> Inr (NULL, m')"
    by (auto simp: default_allocator_simps split: ptr.splits option.splits block_kind.splits)
qed

end
