(* ===== verification/String_Utilities.thy ===== *)
theory String_Utilities
  imports Allocator
begin

text \<open>
  \<^verbatim>\<open>src/string_utilities.c\<close>: the growable strings of micro-ROS. Every operation of the file
  is here, on the memory of \<open>C_Memory\<close>; the allocator that
  \<^verbatim>\<open>rcutils_get_default_allocator()\<close> returns is the parameter \<open>dal\<close>. \<open>holds_string\<close>
  says that a string object represents a text; the lemmas show what every operation does to
  the text, and where the capacity check lets a write pass the end of the buffer.
\<close>

section \<open>Data\<close>

record rosidl_runtime_c__String =
  str_data :: ptr
  str_size :: size_t
  str_capacity :: size_t

text \<open>A C string argument: its characters and the terminating null character.\<close>

definition c_string :: "string \<Rightarrow> mbyte list" where
  "c_string s = map Byte s @ [zero_byte]"

definition strlen :: "string \<Rightarrow> size_t" where
  "strlen s = of_nat (length s)"

text \<open>\<^verbatim>\<open>memcpy(p, src, n)\<close> from an object that holds the bytes \<open>src\<close>.\<close>

definition memcpy_from :: "ptr \<Rightarrow> mbyte list \<Rightarrow> size_t \<Rightarrow> mem \<Rightarrow> c_error + mem" where
  "memcpy_from p src n m =
     (if unat n \<le> length src then store_bytes (take (unat n) src) p m else Inl OutOfBounds)"

section \<open>Operations\<close>

definition micro_ros_string_utilities_init ::
    "rcutils_allocator_t \<Rightarrow> string \<Rightarrow> (mem, rosidl_runtime_c__String) cmd" where
  "micro_ros_string_utilities_init dal data =
     (let size = strlen data; capacity = size + 1 in
      cbind (call_allocate dal capacity) (\<lambda>p.
      cseq (cupdate (memset_zero p capacity))
      (cseq (cupdate (memcpy_from p (c_string data) size))
      (creturn \<lparr>str_data = p, str_size = size, str_capacity = capacity\<rparr>))))"

definition micro_ros_string_utilities_set ::
    "rcutils_allocator_t \<Rightarrow> rosidl_runtime_c__String \<Rightarrow> string \<Rightarrow>
     (mem, rosidl_runtime_c__String) cmd" where
  "micro_ros_string_utilities_set dal str data =
     (let ret = str\<lparr>str_size := strlen data\<rparr> in
      cbind (if str_size ret > str_capacity ret
             then cbind (call_reallocate dal (str_data ret) (str_size ret + 1)) (\<lambda>p.
                  creturn (ret\<lparr>str_data := p, str_capacity := str_size ret + 1\<rparr>))
             else creturn ret) (\<lambda>ret.
      cseq (cupdate (memcpy_from (str_data ret) (c_string data) (str_size ret + 1)))
      (creturn ret)))"

definition micro_ros_string_utilities_get_c_str :: "rosidl_runtime_c__String \<Rightarrow> ptr" where
  "micro_ros_string_utilities_get_c_str str = str_data str"

definition micro_ros_string_utilities_append ::
    "rcutils_allocator_t \<Rightarrow> rosidl_runtime_c__String \<Rightarrow> string \<Rightarrow>
     (mem, rosidl_runtime_c__String) cmd" where
  "micro_ros_string_utilities_append dal str data =
     (let append_size = strlen data in
      cbind (if append_size + str_size str > str_capacity str
             then cbind (call_reallocate dal (str_data str) (str_size str + append_size + 1)) (\<lambda>p.
                  creturn (str\<lparr>str_data := p, str_capacity := str_size str + append_size + 1\<rparr>))
             else creturn str) (\<lambda>ret.
      cseq (cupdate (memcpy_from (ptr_add (str_data ret) (str_size ret)) (c_string data)
                       (append_size + 1)))
      (creturn (ret\<lparr>str_size := str_size ret + append_size\<rparr>))))"

definition micro_ros_string_utilities_remove_tail_chars ::
    "rosidl_runtime_c__String \<Rightarrow> size_t \<Rightarrow> (mem, rosidl_runtime_c__String) cmd" where
  "micro_ros_string_utilities_remove_tail_chars str n =
     (let ret = str\<lparr>str_size := str_size str - n\<rparr> in
      cseq (cupdate (store_bytes [zero_byte] (ptr_add (str_data ret) (str_size ret))))
      (creturn ret))"

definition micro_ros_string_utilities_destroy ::
    "rcutils_allocator_t \<Rightarrow> rosidl_runtime_c__String \<Rightarrow> (mem, rosidl_runtime_c__String) cmd" where
  "micro_ros_string_utilities_destroy dal str =
     cseq (call_deallocate dal (str_data str))
     (creturn (str\<lparr>str_data := NULL, str_size := 0, str_capacity := 0\<rparr>))"

lemmas string_op_defs =
  micro_ros_string_utilities_init_def micro_ros_string_utilities_set_def
  micro_ros_string_utilities_append_def micro_ros_string_utilities_remove_tail_chars_def
  micro_ros_string_utilities_destroy_def

section \<open>What a string object represents\<close>

text \<open>
  The object points to a live heap block of at least its capacity, and the block begins with
  the text and a null character. This is the invariant of the operations; the documented
  convention of the runtime (the capacity counts the null character too) is the stronger
  \<open>roomy_string\<close>, which the operations do not always keep.
\<close>

definition holds_string :: "mem \<Rightarrow> rosidl_runtime_c__String \<Rightarrow> string \<Rightarrow> bool" where
  "holds_string m str s \<longleftrightarrow>
     (\<exists>b bs. str_data str = Ptr b 0 \<and> blocks m b = Some (HeapBlock, bs) \<and>
        unat (str_capacity str) \<le> length bs \<and> unat (str_size str) = length s \<and>
        length s < length bs \<and> take (Suc (length s)) bs = c_string s)"

definition roomy_string :: "rosidl_runtime_c__String \<Rightarrow> bool" where
  "roomy_string str \<longleftrightarrow> str_size str < str_capacity str"

text \<open>No other block is touched: the frame of an operation that works on block \<open>b\<close>.\<close>

definition only_block :: "nat \<Rightarrow> mem \<Rightarrow> mem \<Rightarrow> bool" where
  "only_block b m m' \<longleftrightarrow> (\<forall>c. c \<noteq> b \<longrightarrow> blocks m c \<noteq> None \<longrightarrow> blocks m' c = blocks m c)"

definition block_of :: "rosidl_runtime_c__String \<Rightarrow> nat" where
  "block_of str = (case str_data str of NULL \<Rightarrow> 0 | Ptr b _ \<Rightarrow> b)"

lemma length_c_string [simp]: "length (c_string s) = Suc (length s)"
  by (simp add: c_string_def)

lemma unat_strlen [simp]: "length s < 2 ^ 32 \<Longrightarrow> unat (strlen s) = length s"
  by (simp add: strlen_def)

lemma strlen_append: "strlen (s @ t) = strlen s + strlen t"
  by (simp add: strlen_def)

lemma unat_strlen_Suc:
  "Suc (length s) < 2 ^ 32 \<Longrightarrow> unat (strlen s + 1) = Suc (length s)"
  using unat_of_nat_small [of "Suc (length s)"] by (simp add: strlen_def add.commute)

text \<open>Writing text and terminator behind a prefix of the text.\<close>

lemma take_overwrite_c_string:
  assumes "take (Suc (length s)) bs = c_string s" and "length s + Suc (length t) \<le> length bs"
  shows "take (Suc (length (s @ t))) (overwrite (length s) (c_string t) bs) = c_string (s @ t)"
proof -
  have "take (length s) bs = map Byte s"
    using arg_cong [OF assms(1), of "take (length s)"] by (simp add: c_string_def)
  with assms(2) show ?thesis by (simp add: overwrite_def c_string_def)
qed

lemma take_overwrite_zero:
  assumes "take (Suc (length s)) bs = c_string s" and "k \<le> length s"
  shows "take (Suc k) (overwrite k [zero_byte] bs) = c_string (take k s)"
proof -
  have "take k bs = map Byte (take k s)"
    using arg_cong [OF assms(1), of "take k"] assms(2) by (simp add: c_string_def take_map min_def)
  moreover have "k < length bs"
    using arg_cong [OF assms(1), of length] assms(2) by simp
  ultimately show ?thesis using assms(2) by (simp add: overwrite_def c_string_def min_def)
qed

section \<open>The operations on the text\<close>

text \<open>A store of characters into the block of a string.\<close>

lemma runs_memcpy:
  assumes "blocks m b = Some (k, bs)" and "unat n \<le> length src" and "ofs + unat n \<le> length bs"
    and "\<And>m'. blocks m' = (blocks m)(b \<mapsto> (k, overwrite ofs (take (unat n) src) bs)) \<Longrightarrow> P () m'"
  shows "runs (cupdate (memcpy_from (Ptr b ofs) src n)) m P"
  using assms by (simp add: access_simps memcpy_from_def blocks_update blocks_Some_less)

lemma string_parts:
  assumes "holds_string m str s"
  obtains b bs where "str = \<lparr>str_data = Ptr b 0, str_size = str_size str, str_capacity = str_capacity str\<rparr>"
    and "str_data str = Ptr b 0" "block_of str = b" and "blocks m b = Some (HeapBlock, bs)"
    and "unat (str_capacity str) \<le> length bs" and "unat (str_size str) = length s"
    and "length s < length bs" and "take (Suc (length s)) bs = c_string s"
  using assms by (cases str) (auto simp: holds_string_def block_of_def)

text \<open>What the block represents after text was written behind a prefix \<open>s\<close>.\<close>

lemma holds_string_written:
  assumes "blocks m' = (blocks m)(b \<mapsto> (HeapBlock, overwrite (length s) (c_string t) bs))"
    and "take (Suc (length s)) bs = c_string s" and "length s + length t < length bs"
    and "str_data str = Ptr b 0" and "unat (str_size str) = length s + length t"
    and "unat (str_capacity str) \<le> length bs"
  shows "holds_string m' str (s @ t)"
  using assms take_overwrite_c_string [of s bs t] by (simp add: holds_string_def)

lemma only_block_upd: "blocks m' = (blocks m)(b := v) \<Longrightarrow> only_block b m m'"
  by (simp add: only_block_def)

lemma append_size:
  assumes "unat w = length s" and "length s + length t + 1 < 2 ^ 32"
  shows "unat (strlen t + w) = length s + length t" "unat (w + strlen t) = length s + length t"
    "unat (w + strlen t + 1) = length s + length t + 1" "unat (strlen t + 1) = Suc (length t)"
proof -
  show 1: "unat (strlen t + w) = length s + length t"
    using assms by (subst unat_add_small) auto
  then show 2: "unat (w + strlen t) = length s + length t" by (simp add: add.commute)
  show "unat (w + strlen t + 1) = length s + length t + 1"
    using assms(2) by (subst unat_add_small) (simp_all add: 2)
  show "unat (strlen t + 1) = Suc (length t)"
    using assms(2) by (simp add: unat_strlen_Suc)
qed

text \<open>
  Appending in place: the text and its terminator fit into the block. Nothing is allocated.
\<close>

lemma append_in_place:
  assumes str: "holds_string m str s" and len: "length s + length t + 1 < 2 ^ 32"
    and cap: "length s + length t \<le> unat (str_capacity str)"
    and room: "length s + length t < block_length m (block_of str)"
  shows "runs (micro_ros_string_utilities_append dal str t) m (\<lambda>str' m'.
           holds_string m' str' (s @ t) \<and> str_capacity str' = str_capacity str \<and>
           str_data str' = str_data str \<and> only_block (block_of str) m m' \<and>
           block_length m' (block_of str) = block_length m (block_of str))"
proof -
  obtain b bs where b: "str_data str = Ptr b 0" "block_of str = b" "blocks m b = Some (HeapBlock, bs)"
    and c: "unat (str_capacity str) \<le> length bs" "unat (str_size str) = length s"
      "length s < length bs" "take (Suc (length s)) bs = c_string s"
    using string_parts [OF str] by metis
  note sum = append_size [OF c(2) len]
  have nogrow: "\<not> strlen t + str_size str > str_capacity str"
    using cap sum by (simp add: word_less_nat_alt)
  let ?str' = "str\<lparr>str_size := str_size str + strlen t\<rparr>"
  have "runs (cupdate (memcpy_from (Ptr b (length s)) (c_string t) (strlen t + 1))) m
      (\<lambda>_ m'. holds_string m' ?str' (s @ t) \<and> only_block b m m' \<and> block_length m' b = block_length m b)"
  proof (rule runs_memcpy [OF b(3)])
    fix m' assume "blocks m' = (blocks m)
        (b \<mapsto> (HeapBlock, overwrite (length s) (take (unat (strlen t + 1)) (c_string t)) bs))"
    then show "holds_string m' ?str' (s @ t) \<and> only_block b m m' \<and> block_length m' b = block_length m b"
      using holds_string_written [of m' m b s t bs ?str'] b c room sum
      by (simp add: only_block_upd block_length_def)
  qed (use b room sum in simp_all)
  then show ?thesis
    using nogrow b c by (simp add: micro_ros_string_utilities_append_def Let_def run_simps)
qed

text \<open>The same write when the block ends right behind the text: it passes the end.\<close>

lemma append_past_the_end:
  assumes str: "holds_string m str s" and len: "length s + length t + 1 < 2 ^ 32"
    and cap: "length s + length t = unat (str_capacity str)"
    and exact: "block_length m (block_of str) = unat (str_capacity str)"
  shows "micro_ros_string_utilities_append dal str t m = Inl OutOfBounds"
proof -
  obtain b bs where b: "str_data str = Ptr b 0" "block_of str = b" "blocks m b = Some (HeapBlock, bs)"
    and c: "unat (str_capacity str) \<le> length bs" "unat (str_size str) = length s"
      "length s < length bs" "take (Suc (length s)) bs = c_string s"
    using string_parts [OF str] by metis
  note sum = append_size [OF c(2) len]
  have nogrow: "\<not> strlen t + str_size str > str_capacity str"
    using cap sum by (simp add: word_less_nat_alt)
  show ?thesis
    using nogrow b c exact cap sum
    by (simp add: micro_ros_string_utilities_append_def Let_def cmd_defs memcpy_from_def)
qed

text \<open>Removing characters from the end, and the other operations that never allocate.\<close>

lemma remove_tail_ok:
  assumes str: "holds_string m str s" and n: "unat n \<le> length s"
  shows "runs (micro_ros_string_utilities_remove_tail_chars str n) m (\<lambda>str' m'.
           holds_string m' str' (take (length s - unat n) s) \<and>
           str_capacity str' = str_capacity str \<and> str_data str' = str_data str \<and>
           str_size str' = str_size str - n \<and> only_block (block_of str) m m' \<and>
           block_length m' (block_of str) = block_length m (block_of str))"
proof -
  obtain b bs where b: "str_data str = Ptr b 0" "block_of str = b" "blocks m b = Some (HeapBlock, bs)"
    and c: "unat (str_capacity str) \<le> length bs" "unat (str_size str) = length s"
      "length s < length bs" "take (Suc (length s)) bs = c_string s"
    using string_parts [OF str] by metis
  have sub: "unat (str_size str - n) = length s - unat n"
    using n c(2) by (subst unat_diff_small) (simp_all add: word_le_nat_alt)
  show ?thesis
    using b c n take_overwrite_zero [OF c(4), of "length s - unat n"]
    by (auto simp: micro_ros_string_utilities_remove_tail_chars_def Let_def run_simps access_simps
        sub holds_string_def only_block_def block_length_def blocks_update blocks_Some_less)
qed

text \<open>Removing more characters than there are: the size wraps and the write is far outside.\<close>

lemma remove_tail_underflow:
  assumes str: "holds_string m str s" and n: "length s < unat n"
    and small: "block_length m (block_of str) + unat n \<le> 2 ^ 32 + length s"
  shows "micro_ros_string_utilities_remove_tail_chars str n m = Inl OutOfBounds"
proof -
  obtain b bs where b: "str_data str = Ptr b 0" "block_of str = b" "blocks m b = Some (HeapBlock, bs)"
    and c: "unat (str_size str) = length s"
    using string_parts [OF str] by metis
  have "unat (str_size str - n) = (2 ^ 32 + length s) - unat n"
    using n c unat_less_2p32 [of n] by (simp add: unat_sub_if_size word_size)
  then show ?thesis
    using b n small
    by (simp add: micro_ros_string_utilities_remove_tail_chars_def Let_def cmd_defs)
qed

lemma take_resize: "n \<le> k \<Longrightarrow> n \<le> length bs \<Longrightarrow> take n (resize k bs) = take n bs"
  by (simp add: resize_def min_def)

lemma length_resize [simp]: "length (resize k bs) = k"
  by (simp add: resize_def)

context c_allocator
begin

lemma destroy_ok:
  assumes "holds_string m str s"
  shows "runs (micro_ros_string_utilities_destroy al str) m (\<lambda>str' m'.
           str' = \<lparr>str_data = NULL, str_size = 0, str_capacity = 0\<rparr> \<and>
           blocks m' = (blocks m)(block_of str := None))"
proof -
  obtain b bs where b: "str_data str = Ptr b 0" "block_of str = b" "blocks m b = Some (HeapBlock, bs)"
    using string_parts [OF assms] by metis
  then show ?thesis
    by (simp add: micro_ros_string_utilities_destroy_def run_simps)
      (rule runs_call_deallocate_block, assumption, simp)
qed

lemma destroy_twice:
  "runs (micro_ros_string_utilities_destroy al \<lparr>str_data = NULL, str_size = 0, str_capacity = 0\<rparr>) m
     (\<lambda>str' m'. str' = \<lparr>str_data = NULL, str_size = 0, str_capacity = 0\<rparr> \<and> blocks m' = blocks m)"
  by (auto simp: micro_ros_string_utilities_destroy_def run_simps intro!: runs_call_deallocate_null)

end

context total_allocator
begin

lemma init_ok:
  assumes len: "length data + 1 < 2 ^ 32"
  shows "runs (micro_ros_string_utilities_init al data) m (\<lambda>str m'.
           holds_string m' str data \<and> roomy_string str \<and> str_capacity str = strlen data + 1 \<and>
           blocks m (block_of str) = None \<and> only_block (block_of str) m m')"
proof -
  have cap: "unat (strlen data + 1) = Suc (length data)" and sz: "unat (strlen data) = length data"
    using len by (simp_all add: unat_strlen_Suc)
  show ?thesis
    unfolding micro_ros_string_utilities_init_def Let_def run_simps
  proof (rule runs_call_allocate_total)
    fix b k m1
    assume b: "blocks m b = None" and k: "unat (strlen data + 1) \<le> k"
      and m1: "blocks m1 = (blocks m)(b \<mapsto> (HeapBlock, replicate k Undef))"
    let ?z = "overwrite 0 (replicate (Suc (length data)) zero_byte) (replicate k Undef)"
    let ?bs = "overwrite 0 (map Byte data) ?z"
    have "take (Suc (length data)) ?bs = c_string data"
      using k cap by (auto simp: overwrite_def c_string_def simp flip: replicate_append_same)
    then show "runs (cupdate (memset_zero (Ptr b 0) (strlen data + 1))) m1 (\<lambda>_ t.
        runs (cupdate (memcpy_from (Ptr b 0) (c_string data) (strlen data))) t (\<lambda>_ m'.
          holds_string m' \<lparr>str_data = Ptr b 0, str_size = strlen data, str_capacity = strlen data + 1\<rparr> data \<and>
          roomy_string \<lparr>str_data = Ptr b 0, str_size = strlen data, str_capacity = strlen data + 1\<rparr> \<and>
          str_capacity \<lparr>str_data = Ptr b 0, str_size = strlen data, str_capacity = strlen data + 1\<rparr>
            = strlen data + 1 \<and>
          blocks m (block_of \<lparr>str_data = Ptr b 0, str_size = strlen data, str_capacity = strlen data + 1\<rparr>) = None \<and>
          only_block (block_of \<lparr>str_data = Ptr b 0, str_size = strlen data, str_capacity = strlen data + 1\<rparr>) m m'))"
      using b k m1 cap sz
      by (auto simp: access_simps memset_zero_def memcpy_from_def blocks_update blocks_Some_less
          holds_string_def roomy_string_def word_less_nat_alt block_of_def only_block_def c_string_def)
  qed
qed

lemma append_growing:
  assumes str: "holds_string m str s" and len: "length s + length t + 1 < 2 ^ 32"
    and cap: "unat (str_capacity str) < length s + length t"
  shows "runs (micro_ros_string_utilities_append al str t) m (\<lambda>str' m'.
           holds_string m' str' (s @ t) \<and> roomy_string str' \<and> only_block (block_of str) m m' \<and>
           (block_of str' = block_of str \<or> blocks m (block_of str') = None) \<and>
           str_capacity str' = str_size str' + 1)"
proof -
  obtain b bs where b: "str_data str = Ptr b 0" "block_of str = b" "blocks m b = Some (HeapBlock, bs)"
    and c: "unat (str_capacity str) \<le> length bs" "unat (str_size str) = length s"
      "length s < length bs" "take (Suc (length s)) bs = c_string s"
    using string_parts [OF str] by metis
  note sum = append_size [OF c(2) len]
  have grow: "strlen t + str_size str > str_capacity str"
    using cap sum by (simp add: word_less_nat_alt)
  let ?n = "str_size str + strlen t + 1"
  have "runs (call_reallocate al (Ptr b 0) ?n) m (\<lambda>p m1.
      runs (cupdate (memcpy_from (ptr_add p (str_size str)) (c_string t) (strlen t + 1))) m1 (\<lambda>_ m'.
        holds_string m' (str\<lparr>str_data := p, str_capacity := ?n, str_size := str_size str + strlen t\<rparr>) (s @ t) \<and>
        only_block b m m' \<and> (block_of (str\<lparr>str_data := p\<rparr>) = b \<or> blocks m (block_of (str\<lparr>str_data := p\<rparr>)) = None)))"
  proof (rule runs_call_reallocate_total [OF b(3)])
    fix d k m1
    assume d: "d = b \<or> blocks m d = None" and k: "unat ?n \<le> k"
      and m1: "blocks m1 = (blocks m)(b := None, d \<mapsto> (HeapBlock, resize k bs))"
    have old: "take (Suc (length s)) (resize k bs) = c_string s"
      using k sum c by (simp add: take_resize)
    show "runs (cupdate (memcpy_from (ptr_add (Ptr d 0) (str_size str)) (c_string t) (strlen t + 1))) m1
      (\<lambda>_ m'. holds_string m' (str\<lparr>str_data := Ptr d 0, str_capacity := ?n, str_size := str_size str + strlen t\<rparr>) (s @ t) \<and>
        only_block b m m' \<and> (block_of (str\<lparr>str_data := Ptr d 0\<rparr>) = b \<or> blocks m (block_of (str\<lparr>str_data := Ptr d 0\<rparr>)) = None))"
      unfolding ptr_add.simps c(2)
    proof (rule runs_memcpy [of m1 d HeapBlock "resize k bs"])
      fix m' assume m': "blocks m' = (blocks m1)
        (d \<mapsto> (HeapBlock, overwrite (0 + length s) (take (unat (strlen t + 1)) (c_string t)) (resize k bs)))"
      then show "holds_string m' (str\<lparr>str_data := Ptr d 0, str_capacity := ?n, str_size := str_size str + strlen t\<rparr>) (s @ t) \<and>
        only_block b m m' \<and> (block_of (str\<lparr>str_data := Ptr d 0\<rparr>) = b \<or> blocks m (block_of (str\<lparr>str_data := Ptr d 0\<rparr>)) = None)"
        using holds_string_written [of m' m1 d s t "resize k bs"
            "str\<lparr>str_data := Ptr d 0, str_capacity := ?n, str_size := str_size str + strlen t\<rparr>"] old k sum m1 d
        by (auto simp: only_block_def block_of_def)
    qed (use m1 k sum in simp_all)
  qed
  then show ?thesis
    using grow b c sum
    by (auto simp: micro_ros_string_utilities_append_def Let_def run_simps roomy_string_def
        word_less_nat_alt block_of_def elim!: runs_mono)
qed

lemma set_ok:
  assumes str: "holds_string m str s" and len: "length t + 1 < 2 ^ 32"
    and room: "length t \<le> unat (str_capacity str) \<Longrightarrow> length t < block_length m (block_of str)"
  shows "runs (micro_ros_string_utilities_set al str t) m (\<lambda>str' m'.
           holds_string m' str' t \<and> only_block (block_of str) m m' \<and>
           (length t \<noteq> unat (str_capacity str) \<longrightarrow> roomy_string str'))"
proof -
  obtain b bs where b: "str_data str = Ptr b 0" "block_of str = b" "blocks m b = Some (HeapBlock, bs)"
    and c: "unat (str_capacity str) \<le> length bs" "unat (str_size str) = length s"
      "length s < length bs" "take (Suc (length s)) bs = c_string s"
    using string_parts [OF str] by metis
  have sz: "unat (strlen t) = length t" "unat (strlen t + 1) = Suc (length t)"
    using len by (simp_all add: unat_strlen_Suc)
  have put: "runs (cupdate (memcpy_from (Ptr d 0) (c_string t) (strlen t + 1))) m1 (\<lambda>_ m'.
      holds_string m' r t \<and> only_block b m m')"
    if "blocks m1 d = Some (HeapBlock, ds)" "length t < length ds" "only_block b m m1"
      "d = b \<or> blocks m d = None" "str_data r = Ptr d 0" "str_size r = strlen t"
      "unat (str_capacity r) \<le> length ds" for d m1 ds r
    by (rule runs_memcpy [OF that(1)])
      (use that sz in \<open>auto simp: holds_string_def only_block_def overwrite_def\<close>)
  show ?thesis
  proof (cases "length t \<le> unat (str_capacity str)")
    case True
    then have "\<not> strlen t > str_capacity str" by (simp add: word_less_nat_alt sz)
    then show ?thesis
      using put [OF b(3), of "str\<lparr>str_size := strlen t\<rparr>"] b c room True sz
      by (auto simp: micro_ros_string_utilities_set_def Let_def run_simps only_block_def
          roomy_string_def word_less_nat_alt elim!: runs_mono)
  next
    case False
    then have grow: "strlen t > str_capacity str" by (simp add: word_less_nat_alt sz)
    have "runs (call_reallocate al (Ptr b 0) (strlen t + 1)) m (\<lambda>p m1.
        runs (cupdate (memcpy_from p (c_string t) (strlen t + 1))) m1 (\<lambda>_ m'.
          holds_string m' (str\<lparr>str_size := strlen t, str_data := p, str_capacity := strlen t + 1\<rparr>) t \<and>
          only_block b m m'))"
    proof (rule runs_call_reallocate_total [OF b(3)])
      fix d k m1
      assume d: "d = b \<or> blocks m d = None" and k: "unat (strlen t + 1) \<le> k"
        and m1: "blocks m1 = (blocks m)(b := None, d \<mapsto> (HeapBlock, resize k bs))"
      show "runs (cupdate (memcpy_from (Ptr d 0) (c_string t) (strlen t + 1))) m1 (\<lambda>_ m'.
          holds_string m' (str\<lparr>str_size := strlen t, str_data := Ptr d 0, str_capacity := strlen t + 1\<rparr>) t \<and>
          only_block b m m')"
        by (rule put [of m1 d "resize k bs"]) (use d k m1 sz in \<open>auto simp: only_block_def\<close>)
    qed
    then show ?thesis
      using grow b sz
      by (auto simp: micro_ros_string_utilities_set_def Let_def run_simps roomy_string_def
          word_less_nat_alt elim!: runs_mono)
  qed
qed

text \<open>Both ways of appending together.\<close>

lemma append_ok:
  assumes str: "holds_string m str s" and len: "length s + length t + 1 < 2 ^ 32"
    and room: "length s + length t = unat (str_capacity str) \<Longrightarrow>
               length s + length t < block_length m (block_of str)"
  shows "runs (micro_ros_string_utilities_append al str t) m (\<lambda>str' m'.
           holds_string m' str' (s @ t) \<and> only_block (block_of str) m m' \<and>
           (length s + length t \<noteq> unat (str_capacity str) \<longrightarrow> roomy_string str'))"
proof (cases "length s + length t \<le> unat (str_capacity str)")
  case True
  obtain bs where "blocks m (block_of str) = Some (HeapBlock, bs)" "unat (str_capacity str) \<le> length bs"
    using string_parts [OF str] by metis
  with True room have "length s + length t < block_length m (block_of str)" by fastforce
  from append_in_place [OF str len True this, of al] True append_size [OF _ len]
  show ?thesis
    by (elim runs_mono) (auto simp: roomy_string_def word_less_nat_alt holds_string_def)
next
  case False
  with append_growing [OF str len] show ?thesis by (auto elim!: runs_mono)
qed

end

section \<open>Properties\<close>

lemma roomy_total: "total_allocator (default_allocator (pol\<lparr>exhausted := (\<lambda>_ _. False)\<rparr>))"
  by unfold_locales

text \<open>An exact heap: every block has as many bytes as were asked for, and \<open>realloc\<close> moves.\<close>

definition exact_policy :: malloc_policy where
  "exact_policy = \<lparr>exhausted = (\<lambda>_ _. False), usable = unat, in_place = (\<lambda>_ _. False)\<rparr>"

lemma exact_total: "total_allocator (default_allocator exact_policy)"
  using roomy_total [of exact_policy] by (simp add: exact_policy_def)

text \<open>A string object that \<open>init\<close> leaves on the exact heap, for the witnesses.\<close>

definition sample_string :: rosidl_runtime_c__String where
  "sample_string = \<lparr>str_data = Ptr 0 0, str_size = 2, str_capacity = 3\<rparr>"

definition sample_memory :: mem where
  "sample_memory = [Some (HeapBlock, c_string ''ab'')]"

lemma sample_holds: "holds_string sample_memory sample_string ''ab''"
  by (simp add: holds_string_def sample_memory_def sample_string_def blocks_def c_string_def)

lemma sample_block_length: "block_length sample_memory (block_of sample_string) = 3"
  by (simp add: block_length_def sample_memory_def sample_string_def blocks_def c_string_def block_of_def)

text \<open>
  C9: \<^verbatim>\<open>micro_ros_string_utilities_append\<close>, with an allocator that does not refuse, leaves a
  string object that represents the old text followed by the argument, touches no other live
  block, and leaves room for the null character within the capacity; except that when the
  new length equals the capacity the block must be larger than the capacity, and then the
  capacity no longer counts the null character.
\<close>

theorem append_correct:
  assumes "total_allocator al" and "holds_string m str s" and "length s + length t + 1 < 2 ^ 32"
    and "length s + length t = unat (str_capacity str) \<Longrightarrow>
         length s + length t < block_length m (block_of str)"
  shows "runs (micro_ros_string_utilities_append al str t) m (\<lambda>str' m'.
           holds_string m' str' (s @ t) \<and> only_block (block_of str) m m' \<and>
           (length s + length t \<noteq> unat (str_capacity str) \<longrightarrow> roomy_string str'))"
  using assms by (rule total_allocator.append_ok)

theorem append_correct_witness:
  "runs (micro_ros_string_utilities_append (default_allocator exact_policy) sample_string ''cde'')
     sample_memory (\<lambda>str' m'. holds_string m' str' ''abcde'' \<and> roomy_string str')"
  by (rule runs_mono [OF append_correct [OF exact_total sample_holds]])
    (auto simp: sample_string_def)

lemma empty_append_past_end:
  "cbind (micro_ros_string_utilities_init (default_allocator exact_policy) [])
     (\<lambda>str. micro_ros_string_utilities_append (default_allocator exact_policy) str [c]) m
   = Inl OutOfBounds"
proof -
  obtain str m' where init: "micro_ros_string_utilities_init (default_allocator exact_policy) [] m = Inr (str, m')"
    and holds: "holds_string m' str []" and cap: "str_capacity str = 1"
    using runs_Inr [OF total_allocator.init_ok [OF exact_total, of "[]" m]]
    by (auto simp: strlen_def)
  have "block_length m' (block_of str) = 1"
    using init
    by (auto simp: micro_ros_string_utilities_init_def Let_def cmd_defs call_allocate_def
        default_allocator_simps exact_policy_def strlen_def memset_zero_def memcpy_from_def
        blocks_append block_of_def blocks_def block_length_def nth_append)
  with cap have "micro_ros_string_utilities_append (default_allocator exact_policy) str [c] m' = Inl OutOfBounds"
    by (intro append_past_the_end [OF holds]) simp_all
  with init show ?thesis by (simp add: cbind_def)
qed

text \<open>
  The capacity check of \<^verbatim>\<open>micro_ros_string_utilities_append\<close> forgets the null character:
  on a heap whose blocks are exactly as large as requested, appending any single character to
  the string that \<^verbatim>\<open>micro_ros_string_utilities_init("")\<close> returned writes one byte past the
  end of the block, whatever the memory.
\<close>

lemma first_append_overflows:
  "cbind (micro_ros_string_utilities_init (default_allocator exact_policy) [])
     (\<lambda>str. micro_ros_string_utilities_append (default_allocator exact_policy) str [c]) m
   = Inl OutOfBounds"
  by (rule empty_append_past_end)

text \<open>
  \<^verbatim>\<open>micro_ros_string_utilities_remove_tail_chars\<close> undoes
  \<^verbatim>\<open>micro_ros_string_utilities_append\<close>: after appending \<open>t\<close> and removing as many characters as
  \<open>t\<close> has, the object represents the old text again.
\<close>

lemma append_remove_roundtrip:
  assumes "total_allocator al" and "holds_string m str s" and "length s + length t + 1 < 2 ^ 32"
    and "length s + length t = unat (str_capacity str) \<Longrightarrow>
         length s + length t < block_length m (block_of str)"
  shows "runs (cbind (micro_ros_string_utilities_append al str t)
           (\<lambda>str'. micro_ros_string_utilities_remove_tail_chars str' (strlen t))) m
           (\<lambda>str'' m''. holds_string m'' str'' s)"
  unfolding runs_cbind
proof (rule runs_mono [OF total_allocator.append_ok [OF assms]])
  fix str' m'
  assume "holds_string m' str' (s @ t) \<and> only_block (block_of str) m m' \<and>
    (length s + length t \<noteq> unat (str_capacity str) \<longrightarrow> roomy_string str')"
  then have h: "holds_string m' str' (s @ t)" by simp
  have t: "unat (strlen t) = length t" using assms(3) by simp
  show "runs (micro_ros_string_utilities_remove_tail_chars str' (strlen t)) m' (\<lambda>str'' m''. holds_string m'' str'' s)"
    using remove_tail_ok [OF h, of "strlen t"] t by (auto elim!: runs_mono)
qed

end
