(* ===== verification/Introspection.thy ===== *)
theory Introspection
  imports Prelude
begin

text \<open>
  The introspection data of ROS message types:
  \<^verbatim>\<open>src/rosidl_typesupport_introspection_c/field_types.h\<close>,
  \<^verbatim>\<open>message_introspection.h\<close>, \<^verbatim>\<open>src/rosidl_runtime_c/message_type_support_struct.h\<close> and
  \<^verbatim>\<open>src/identifier.c\<close>. A message type is a tree of member descriptions. Fields of the C
  structures that the code never reads (default values, accessor and initialisation
  function pointers) are left out; \<^verbatim>\<open>members_\<close> and its count \<^verbatim>\<open>member_count_\<close> are one list.
\<close>

section \<open>Field types\<close>

datatype ros_field_type =
    ROS_TYPE_FLOAT | ROS_TYPE_DOUBLE | ROS_TYPE_LONG_DOUBLE | ROS_TYPE_CHAR | ROS_TYPE_WCHAR
  | ROS_TYPE_BOOLEAN | ROS_TYPE_OCTET | ROS_TYPE_UINT8 | ROS_TYPE_INT8 | ROS_TYPE_UINT16
  | ROS_TYPE_INT16 | ROS_TYPE_UINT32 | ROS_TYPE_INT32 | ROS_TYPE_UINT64 | ROS_TYPE_INT64
  | ROS_TYPE_STRING | ROS_TYPE_WSTRING | ROS_TYPE_MESSAGE

primrec field_type_id :: "ros_field_type \<Rightarrow> uint8_t" where
  "field_type_id ROS_TYPE_FLOAT = 1"
| "field_type_id ROS_TYPE_DOUBLE = 2"
| "field_type_id ROS_TYPE_LONG_DOUBLE = 3"
| "field_type_id ROS_TYPE_CHAR = 4"
| "field_type_id ROS_TYPE_WCHAR = 5"
| "field_type_id ROS_TYPE_BOOLEAN = 6"
| "field_type_id ROS_TYPE_OCTET = 7"
| "field_type_id ROS_TYPE_UINT8 = 8"
| "field_type_id ROS_TYPE_INT8 = 9"
| "field_type_id ROS_TYPE_UINT16 = 10"
| "field_type_id ROS_TYPE_INT16 = 11"
| "field_type_id ROS_TYPE_UINT32 = 12"
| "field_type_id ROS_TYPE_INT32 = 13"
| "field_type_id ROS_TYPE_UINT64 = 14"
| "field_type_id ROS_TYPE_INT64 = 15"
| "field_type_id ROS_TYPE_STRING = 16"
| "field_type_id ROS_TYPE_WSTRING = 17"
| "field_type_id ROS_TYPE_MESSAGE = 18"

definition rosidl_typesupport_introspection_c__identifier :: string where
  "rosidl_typesupport_introspection_c__identifier = ''rosidl_typesupport_introspection_c''"

section \<open>Message descriptions\<close>

datatype rosidl_typesupport_introspection_c__MessageMember =
    MessageMember (member_name: string) (type_id: uint8_t) (string_upper_bound: size_t)
      (members: "rosidl_message_type_support_t option") (is_array: bool) (array_size: size_t)
      (is_upper_bound: bool) (member_offset: uint32_t)
and rosidl_typesupport_introspection_c__MessageMembers =
    MessageMembers (message_namespace: string) (message_name: string) (size_of: size_t)
      (member_list: "rosidl_typesupport_introspection_c__MessageMember list")
and rosidl_message_type_support_t =
    TypeSupport (typesupport_identifier: string)
      (type_support_func: "(string \<times> rosidl_typesupport_introspection_c__MessageMembers) list")

type_synonym message_member = rosidl_typesupport_introspection_c__MessageMember
type_synonym message_members = rosidl_typesupport_introspection_c__MessageMembers
type_synonym type_support = rosidl_message_type_support_t

text \<open>
  A type support handle carries a pointer to a function of the (generated) type support
  library, \<^verbatim>\<open>func\<close>, which maps an identifier to the handle of that identifier or to NULL.
  The library is not in the repository: the function is part of the data, as the finite list
  of the identifiers it answers with the description behind each answer.
  \<^verbatim>\<open>get_message_typesupport_handle\<close> calls it.
\<close>

definition get_message_typesupport_handle :: "type_support \<Rightarrow> string \<Rightarrow> message_members option" where
  "get_message_typesupport_handle handle identifier = map_of (type_support_func handle) identifier"

text \<open>
  What the code does at every composed member: it asks for the introspection handle and
  follows its \<^verbatim>\<open>data\<close> pointer. A NULL type support fails the library's assertion; a type
  support that does not answer gives a NULL handle, and reading its \<^verbatim>\<open>data\<close> is an error.
\<close>

definition introspect :: "type_support option \<Rightarrow> c_error + message_members" where
  "introspect handle =
     (case handle of
        None \<Rightarrow> Inl AssertionFailed
      | Some ts \<Rightarrow>
          (case get_message_typesupport_handle ts rosidl_typesupport_introspection_c__identifier of
             None \<Rightarrow> Inl NullDereference
           | Some mm \<Rightarrow> Inr mm))"

abbreviation rec_members :: "message_member \<Rightarrow> c_error + message_members" where
  "rec_members x \<equiv> introspect (members x)"

lemma size_assoc_value:
  "(k, v) \<in> set xs \<Longrightarrow> size v < size_list (size_prod (\<lambda>_. 0) size) xs"
  by (induction xs) auto

lemma introspect_size:
  assumes "introspect (Some ts) = Inr mm"
  shows "size mm < size ts"
proof -
  from assms have "(rosidl_typesupport_introspection_c__identifier, mm) \<in> set (type_support_func ts)"
    by (auto simp: introspect_def get_message_typesupport_handle_def dest: map_of_SomeD
        split: option.splits)
  from size_assoc_value [OF this] show ?thesis by (cases ts) simp
qed

lemma rec_members_size [termination_simp]: "rec_members x = Inr mm \<Longrightarrow> size mm < size x"
  by (cases x; cases "members x") (auto simp: introspect_def dest!: introspect_size [unfolded introspect_def option.case])

lemma message_members_size: "size_list size (member_list mm) < size mm"
  by (cases mm) simp

end
