(* ===== verification/Type_Utilities.thy ===== *)
theory Type_Utilities
  imports String_Utilities Introspection
begin

text \<open>
  \<^verbatim>\<open>src/type_utilities.c\<close> and the data types of
  \<^verbatim>\<open>src/micro_ros_utilities/type_utilities.h\<close>: the memory of ROS messages. This theory holds
  the definitions, function by function; the theories that import it hold the proofs.

  The state of the file is the heap and its two static variables. \<open>dal\<close> stands for what
  \<^verbatim>\<open>rcutils_get_default_allocator()\<close> returns. Sizes are those of the targets, where a
  pointer and a \<^verbatim>\<open>size_t\<close> have four bytes.
\<close>

section \<open>Configuration\<close>

record micro_ros_utilities_memory_rule_t =
  rule :: string
  rule_size :: size_t

record micro_ros_utilities_memory_conf_t =
  max_string_capacity :: size_t
  max_ros2_type_sequence_capacity :: size_t
  max_basic_type_sequence_capacity :: size_t
  rules :: "micro_ros_utilities_memory_rule_t list option"
  n_rules :: size_t
  allocator :: "rcutils_allocator_t option"

type_synonym memory_conf = micro_ros_utilities_memory_conf_t

definition micro_ros_utilities_memory_conf_default :: memory_conf where
  "micro_ros_utilities_memory_conf_default =
     \<lparr>max_string_capacity = 20, max_ros2_type_sequence_capacity = 5,
      max_basic_type_sequence_capacity = 5, rules = None, n_rules = 0, allocator = None\<rparr>"

definition get_configuration :: "memory_conf \<Rightarrow> memory_conf" where
  "get_configuration conf =
     (let ret = micro_ros_utilities_memory_conf_default;
          ret = ret\<lparr>max_basic_type_sequence_capacity :=
                  (if max_basic_type_sequence_capacity conf = 0
                   then max_basic_type_sequence_capacity micro_ros_utilities_memory_conf_default
                   else max_basic_type_sequence_capacity conf)\<rparr>;
          ret = ret\<lparr>max_ros2_type_sequence_capacity :=
                  (if max_ros2_type_sequence_capacity conf = 0
                   then max_ros2_type_sequence_capacity micro_ros_utilities_memory_conf_default
                   else max_ros2_type_sequence_capacity conf)\<rparr>;
          ret = ret\<lparr>max_string_capacity :=
                  (if max_string_capacity conf = 0
                   then max_string_capacity micro_ros_utilities_memory_conf_default
                   else max_string_capacity conf)\<rparr>;
          ret = ret\<lparr>rules := (case rules conf of
                    None \<Rightarrow> rules micro_ros_utilities_memory_conf_default
                  | Some rs \<Rightarrow> Some rs)\<rparr>;
          ret = ret\<lparr>n_rules := n_rules conf\<rparr>
      in ret\<lparr>allocator := allocator conf\<rparr>)"

section \<open>Basic types\<close>

definition TYPE_STRING :: uint8_t where
  "TYPE_STRING = field_type_id ROS_TYPE_STRING"

definition TYPE_COMPOSED :: uint8_t where
  "TYPE_COMPOSED = field_type_id ROS_TYPE_MESSAGE"

definition ALIGNMENT :: size_t where
  "ALIGNMENT = 4"

definition basic_type_names :: "string list" where
  "basic_type_names =
     [''none'', ''float'', ''double'', ''long double'', ''char'', ''wchar'', ''bool'', ''octec'',
      ''uint8'', ''int8'', ''uint16'', ''int16'', ''uint32'', ''int32'', ''uint64'', ''int64'',
      ''string'', ''wstring'', ''ROS2 type'']"

text \<open>\<^verbatim>\<open>sizeof\<close> of float, double, char, bool and the fixed-width integers on the targets.\<close>

definition basic_types_size :: "size_t list" where
  "basic_types_size = [0, 4, 8, 8, 1, 1, 1, 1, 1, 1, 2, 2, 4, 4, 8, 8, 1, 1, 0]"

definition basic_type_size :: "uint8_t \<Rightarrow> c_error + size_t" where
  "basic_type_size tid =
     (if unat tid < length basic_types_size then Inr (basic_types_size ! unat tid) else Inl OutOfBounds)"

section \<open>State\<close>

record tu_state =
  heap :: mem
  operation_buffer :: ptr
  operation_buffer_index :: size_t

definition on_heap :: "(mem, 'a) cmd \<Rightarrow> (tu_state, 'a) cmd" where
  "on_heap f = (\<lambda>s. case f (heap s) of Inl e \<Rightarrow> Inl e | Inr (x, m) \<Rightarrow> Inr (x, s\<lparr>heap := m\<rparr>))"

lemma runs_on_heap [run_simps]: "runs (on_heap f) s P = runs f (heap s) (\<lambda>x m. P x (s\<lparr>heap := m\<rparr>))"
  by (simp add: runs_def on_heap_def split: sum.splits)

section \<open>\<^verbatim>\<open>get_static_memory\<close>\<close>

text \<open>The alignment loop: \<^verbatim>\<open>while (operation_buffer_index % ALIGNMENT != 0) operation_buffer_index++\<close>.\<close>

function align_index :: "size_t \<Rightarrow> size_t" where
  "align_index i = (if i mod ALIGNMENT \<noteq> 0 then align_index (i + 1) else i)"
  by pat_completeness auto

lemma unat_mod_ALIGNMENT: "unat (i mod ALIGNMENT) = unat i mod 4"
  by (simp add: ALIGNMENT_def unat_mod)

lemma unat_Suc_mod4: "unat (i + 1 :: size_t) mod 4 = (unat i + 1) mod 4"
  by (simp add: unat_word_ariths mod_mod_cancel)

termination align_index
proof (relation "measure (\<lambda>i. (4 - unat i mod 4) mod 4)")
  fix i :: size_t
  assume "i mod ALIGNMENT \<noteq> 0"
  then have "unat i mod 4 \<noteq> 0"
    using unat_mod_ALIGNMENT [of i] by (metis unat_eq_zero)
  moreover have "unat i mod 4 < 4" by simp
  ultimately show "(i + 1, i) \<in> measure (\<lambda>i. (4 - unat i mod 4) mod 4)"
    using unat_Suc_mod4 [of i] by (simp add: mod_Suc) arith
qed simp

declare align_index.simps [simp del]

definition get_static_memory :: "size_t \<Rightarrow> (tu_state, ptr) cmd" where
  "get_static_memory sz =
     cseq (cmodify (\<lambda>s. s\<lparr>operation_buffer_index := align_index (operation_buffer_index s)\<rparr>))
     (cbind (cget (\<lambda>s. if operation_buffer s = NULL then NULL
                        else ptr_add (operation_buffer s) (operation_buffer_index s))) (\<lambda>ptr.
     cseq (cmodify (\<lambda>s. s\<lparr>operation_buffer_index := operation_buffer_index s + sz\<rparr>))
     (creturn ptr)))"

section \<open>Memory rules\<close>

text \<open>
  \<^verbatim>\<open>memcmp(a, b, n) == 0\<close>: the bytes are compared one by one, up to the first difference.
\<close>

fun memcmp_zero :: "nat \<Rightarrow> mbyte list \<Rightarrow> mbyte list \<Rightarrow> c_error + bool" where
  "memcmp_zero 0 xs ys = Inr True"
| "memcmp_zero (Suc n) (x # xs) (y # ys) =
     (if x = Undef \<or> y = Undef then Inl UninitialisedRead
      else if x = y then memcmp_zero n xs ys else Inr False)"
| "memcmp_zero (Suc n) xs ys = Inl OutOfBounds"

text \<open>The bytes from a pointer to the end of its block: what a comparison may read.\<close>

definition bytes_from :: "ptr \<Rightarrow> mem \<Rightarrow> c_error + mbyte list" where
  "bytes_from p m =
     (case p of
        NULL \<Rightarrow> Inl NullDereference
      | Ptr b ofs \<Rightarrow> (case blocks m b of None \<Rightarrow> Inl UseAfterFree | Some (k, bs) \<Rightarrow> Inr (drop ofs bs)))"

definition rule_matches ::
    "micro_ros_utilities_memory_rule_t \<Rightarrow> rosidl_runtime_c__String \<Rightarrow> (mem, bool) cmd" where
  "rule_matches r name_tree =
     cbind (cread (bytes_from (str_data name_tree))) (\<lambda>name.
     cread (\<lambda>_. case memcmp_zero (unat (strlen (rule r))) (c_string (rule r)) name of
         Inl e \<Rightarrow> Inl e
       | Inr False \<Rightarrow> Inr False
       | Inr True \<Rightarrow> memcmp_zero (unat (str_size name_tree - 1)) (c_string (rule r)) name))"

text \<open>The loop over the rules; the first that matches decides.\<close>

fun match_rules ::
    "micro_ros_utilities_memory_rule_t list \<Rightarrow> nat \<Rightarrow> rosidl_runtime_c__String \<Rightarrow> size_t \<Rightarrow>
     (mem, size_t) cmd" where
  "match_rules rs 0 name_tree sequence_size = creturn sequence_size"
| "match_rules [] (Suc n) name_tree sequence_size = cfail OutOfBounds"
| "match_rules (r # rs) (Suc n) name_tree sequence_size =
     cbind (rule_matches r name_tree) (\<lambda>b.
       if b then creturn (rule_size r) else match_rules rs n name_tree sequence_size)"

definition apply_rules ::
    "memory_conf \<Rightarrow> rosidl_runtime_c__String \<Rightarrow> size_t \<Rightarrow> (mem, size_t) cmd" where
  "apply_rules conf name_tree sequence_size =
     (if n_rules conf > 0
      then (case rules conf of
              None \<Rightarrow> cfail NullDereference
            | Some rs \<Rightarrow> match_rules rs (unat (n_rules conf)) name_tree sequence_size)
      else creturn sequence_size)"

section \<open>\<^verbatim>\<open>handle_message_memory\<close>\<close>

datatype handle_message_memory_operation_t =
    CREATE_OPERATION
  | CREATE_PREALLOCATED_OPERATION
  | DESTROY_OPERATION
  | CALCULATE_SIZE_OPERATION
  | CALCULATE_SIZE_PREALLOCATED_OPERATION

text \<open>
  \<^verbatim>\<open>generic_sequence_t\<close>: the three words at the head of every string and sequence, at offsets
  0 (data), 4 (size) and 8 (capacity).
\<close>

definition set_data :: "ptr \<Rightarrow> ptr \<Rightarrow> (tu_state, unit) cmd" where
  "set_data p v = on_heap (cupdate (store_ptr p v))"

definition set_size :: "ptr \<Rightarrow> size_t \<Rightarrow> (tu_state, unit) cmd" where
  "set_size p v = on_heap (cupdate (store_size (ptr_add p 4) v))"

definition set_capacity :: "ptr \<Rightarrow> size_t \<Rightarrow> (tu_state, unit) cmd" where
  "set_capacity p v = on_heap (cupdate (store_size (ptr_add p 8) v))"

definition get_data :: "ptr \<Rightarrow> (tu_state, ptr) cmd" where
  "get_data p = on_heap (cread (load_ptr p))"

definition chosen_allocator :: "rcutils_allocator_t \<Rightarrow> memory_conf \<Rightarrow> rcutils_allocator_t" where
  "chosen_allocator dal conf = (case allocator conf of None \<Rightarrow> dal | Some al \<Rightarrow> al)"

definition is_sequence :: "message_member \<Rightarrow> bool" where
  "is_sequence m \<longleftrightarrow> is_array m \<and> array_size m = 0"

text \<open>A member that the code gives memory of its own: a string or a sequence.\<close>

definition has_header :: "message_member \<Rightarrow> bool" where
  "has_header m \<longleftrightarrow> type_id m = TYPE_STRING \<or> is_sequence m"

text \<open>The name of the member is pushed on the name tree, with a dot, when there are rules.\<close>

definition push_name ::
    "rcutils_allocator_t \<Rightarrow> memory_conf \<Rightarrow> rosidl_runtime_c__String \<Rightarrow> message_member \<Rightarrow>
     (tu_state, rosidl_runtime_c__String) cmd" where
  "push_name dal conf name_tree m =
     (if n_rules conf > 0
      then on_heap (cbind (micro_ros_string_utilities_append dal name_tree (member_name m)) (\<lambda>name_tree.
                    micro_ros_string_utilities_append dal name_tree ''.''))
      else creturn name_tree)"

definition pop_name ::
    "memory_conf \<Rightarrow> rosidl_runtime_c__String \<Rightarrow> message_member \<Rightarrow>
     (tu_state, rosidl_runtime_c__String) cmd" where
  "pop_name conf name_tree m =
     (if n_rules conf > 0
      then on_heap (micro_ros_string_utilities_remove_tail_chars name_tree (strlen (member_name m) + 1))
      else creturn name_tree)"

definition member_size :: "message_member \<Rightarrow> c_error + size_t" where
  "member_size m =
     (if type_id m = TYPE_COMPOSED
      then (case rec_members m of Inl e \<Rightarrow> Inl e | Inr mm \<Rightarrow> Inr (size_of mm))
      else basic_type_size (type_id m))"

text \<open>The capacity before the rules are applied.\<close>

definition default_sequence_size :: "memory_conf \<Rightarrow> message_member \<Rightarrow> size_t" where
  "default_sequence_size conf m =
     (if type_id m = TYPE_COMPOSED then max_ros2_type_sequence_capacity conf
      else if type_id m = TYPE_STRING then max_string_capacity conf
      else max_basic_type_sequence_capacity conf)"

text \<open>
  The branches on the operation. The result is the number of bytes to add to the used memory,
  or \<open>None\<close> where the code leaves the function at once with the value 0.
\<close>

definition create_branch ::
    "rcutils_allocator_t \<Rightarrow> ptr \<Rightarrow> size_t \<Rightarrow> size_t \<Rightarrow> (tu_state, size_t option) cmd" where
  "create_branch al p sequence_size msize =
     cbind (on_heap (call_allocate al (sequence_size * msize))) (\<lambda>d.
     cseq (set_data p d)
     (if d = NULL then creturn None
      else cseq (on_heap (cupdate (memset_zero d (sequence_size * msize))))
           (cseq (set_size p 0)
           (cseq (set_capacity p sequence_size)
           (creturn (Some (sequence_size * msize)))))))"

definition create_preallocated_branch ::
    "ptr \<Rightarrow> size_t \<Rightarrow> size_t \<Rightarrow> (tu_state, size_t option) cmd" where
  "create_preallocated_branch p sequence_size msize =
     cbind (cget operation_buffer_index) (\<lambda>previous_size.
     cbind (get_static_memory (sequence_size * msize)) (\<lambda>d.
     cseq (set_data p d)
     (if d = NULL then creturn None
      else cseq (set_size p 0)
           (cseq (set_capacity p sequence_size)
           (cbind (cget operation_buffer_index) (\<lambda>index.
           creturn (Some (index - previous_size))))))))"

definition calculate_preallocated_branch :: "size_t \<Rightarrow> size_t \<Rightarrow> (tu_state, size_t option) cmd" where
  "calculate_preallocated_branch sequence_size msize =
     cbind (cget operation_buffer_index) (\<lambda>previous_size.
     cseq (get_static_memory (sequence_size * msize))
     (cbind (cget operation_buffer_index) (\<lambda>index.
     creturn (Some (index - previous_size)))))"

definition operation_branch ::
    "rcutils_allocator_t \<Rightarrow> handle_message_memory_operation_t \<Rightarrow> ptr \<Rightarrow> size_t \<Rightarrow> size_t \<Rightarrow>
     (tu_state, size_t option) cmd" where
  "operation_branch al operation p sequence_size msize =
     (if operation = CREATE_OPERATION then create_branch al p sequence_size msize
      else if operation = CREATE_PREALLOCATED_OPERATION
      then create_preallocated_branch p sequence_size msize
      else if operation = CALCULATE_SIZE_PREALLOCATED_OPERATION
      then calculate_preallocated_branch sequence_size msize
      else creturn (Some (sequence_size * msize)))"

text \<open>
  The part of the loop body for strings and sequences: the sequence size (0 for other
  members) and the used memory after it, or \<open>None\<close> where the code returns 0.
\<close>

definition open_member ::
    "rcutils_allocator_t \<Rightarrow> memory_conf \<Rightarrow> handle_message_memory_operation_t \<Rightarrow>
     message_member \<Rightarrow> ptr \<Rightarrow> rosidl_runtime_c__String \<Rightarrow> size_t \<Rightarrow>
     (tu_state, (size_t \<times> size_t) option) cmd" where
  "open_member dal conf operation m ros_msg name_tree used_memory =
     (if has_header m
      then cbind (cread (\<lambda>_. member_size m)) (\<lambda>msize.
           cbind (on_heap (apply_rules conf name_tree (default_sequence_size conf m))) (\<lambda>sequence_size.
           cbind (operation_branch (chosen_allocator dal conf) operation
                    (ptr_add ros_msg (member_offset m)) sequence_size msize) (\<lambda>r.
           creturn (case r of None \<Rightarrow> None
                    | Some n \<Rightarrow> Some (sequence_size, used_memory + n)))))
      else creturn (Some (0, used_memory)))"

text \<open>The part of the loop body that releases a string or sequence.\<close>

definition close_member ::
    "rcutils_allocator_t \<Rightarrow> memory_conf \<Rightarrow> handle_message_memory_operation_t \<Rightarrow>
     message_member \<Rightarrow> ptr \<Rightarrow> (tu_state, unit) cmd" where
  "close_member dal conf operation m ros_msg =
     cwhen (has_header m \<and> operation = DESTROY_OPERATION)
       (let p = ptr_add ros_msg (member_offset m) in
        cbind (get_data p) (\<lambda>d.
        cseq (on_heap (call_deallocate (chosen_allocator dal conf) d))
        (cseq (set_size p 0)
        (set_capacity p 0))))"

text \<open>The address of element \<open>i\<close> of a sequence of messages; the size calculations use NULL.\<close>

definition element_address ::
    "handle_message_memory_operation_t \<Rightarrow> message_members \<Rightarrow> ptr \<Rightarrow> nat \<Rightarrow> (tu_state, ptr) cmd" where
  "element_address operation mm p i =
     (if operation = CALCULATE_SIZE_OPERATION \<or> operation = CALCULATE_SIZE_PREALLOCATED_OPERATION
      then creturn NULL
      else cbind (get_data p) (\<lambda>d. creturn (ptr_add d (of_nat i * size_of mm))))"

text \<open>
  The function itself; its loop over the members; its loop over the elements of a sequence of
  messages, of which \<open>n\<close> are left, the next being number \<open>i\<close>.
\<close>

function handle_message_memory ::
    "rcutils_allocator_t \<Rightarrow> memory_conf \<Rightarrow> handle_message_memory_operation_t \<Rightarrow> message_members \<Rightarrow>
     ptr \<Rightarrow> rosidl_runtime_c__String \<Rightarrow> (tu_state, size_t) cmd"
  and handle_members ::
    "rcutils_allocator_t \<Rightarrow> memory_conf \<Rightarrow> handle_message_memory_operation_t \<Rightarrow> message_member list \<Rightarrow>
     ptr \<Rightarrow> rosidl_runtime_c__String \<Rightarrow> size_t \<Rightarrow> (tu_state, size_t) cmd"
  and handle_elements ::
    "rcutils_allocator_t \<Rightarrow> memory_conf \<Rightarrow> handle_message_memory_operation_t \<Rightarrow> message_members \<Rightarrow>
     ptr \<Rightarrow> nat \<Rightarrow> nat \<Rightarrow> rosidl_runtime_c__String \<Rightarrow> size_t \<Rightarrow> (tu_state, size_t) cmd"
where
  "handle_message_memory dal conf operation mm ros_msg name_tree =
     handle_members dal conf operation (member_list mm) ros_msg name_tree 0"
| "handle_members dal conf operation [] ros_msg name_tree used_memory = creturn used_memory"
| "handle_members dal conf operation (m # ms) ros_msg name_tree used_memory =
     cbind (push_name dal conf name_tree m) (\<lambda>name_tree.
     cbind (open_member dal conf operation m ros_msg name_tree used_memory) (\<lambda>opened.
     case opened of
       None \<Rightarrow> creturn 0
     | Some (sequence_size, used_memory) \<Rightarrow>
         cbind (if type_id m = TYPE_COMPOSED
                then (case rec_members m of
                        Inl e \<Rightarrow> cfail e
                      | Inr mm \<Rightarrow>
                          if is_sequence m
                          then handle_elements dal conf operation mm
                                 (ptr_add ros_msg (member_offset m)) (unat sequence_size) 0
                                 name_tree used_memory
                          else cbind (handle_message_memory dal conf operation mm
                                        (ptr_add ros_msg (member_offset m)) name_tree) (\<lambda>n.
                               creturn (used_memory + n)))
                else creturn used_memory) (\<lambda>used_memory.
         cseq (close_member dal conf operation m ros_msg)
         (cbind (pop_name conf name_tree m) (\<lambda>name_tree.
         handle_members dal conf operation ms ros_msg name_tree used_memory)))))"
| "handle_elements dal conf operation mm p 0 i name_tree used_memory = creturn used_memory"
| "handle_elements dal conf operation mm p (Suc n) i name_tree used_memory =
     cbind (element_address operation mm p i) (\<lambda>data.
     cbind (handle_message_memory dal conf operation mm data name_tree) (\<lambda>k.
     handle_elements dal conf operation mm p n (Suc i) name_tree (used_memory + k)))"
  by pat_completeness auto

termination handle_message_memory
  by (relation "measures
        [\<lambda>x. case x of Inl (dal, conf, opn, mm, msg, nt) \<Rightarrow> size mm
                    | Inr (Inl (dal, conf, opn, ms, msg, nt, used)) \<Rightarrow> size_list size ms
                    | Inr (Inr (dal, conf, opn, mm, p, n, i, nt, used)) \<Rightarrow> size mm,
         \<lambda>x. case x of Inr (Inr (dal, conf, opn, mm, p, n, i, nt, used)) \<Rightarrow> Suc n | _ \<Rightarrow> 0]")
    (auto dest!: rec_members_size simp: message_members_size)

declare handle_message_memory.simps [simp del] handle_members.simps [simp del]
  handle_elements.simps [simp del]

section \<open>The public functions\<close>

text \<open>
  The handle of a message type is a pointer to its type support: a NULL handle fails the
  assertion of the library, like one at a composed member.
\<close>

definition empty_name_tree :: rosidl_runtime_c__String where
  "empty_name_tree = \<lparr>str_data = NULL, str_size = 0, str_capacity = 0\<rparr>"

text \<open>The name tree exists when the caller's configuration has rules.\<close>

definition init_name_tree :: "rcutils_allocator_t \<Rightarrow> memory_conf \<Rightarrow> (tu_state, rosidl_runtime_c__String) cmd" where
  "init_name_tree dal conf =
     (if n_rules conf > 0 then on_heap (micro_ros_string_utilities_init dal []) else creturn empty_name_tree)"

definition destroy_name_tree ::
    "rcutils_allocator_t \<Rightarrow> memory_conf \<Rightarrow> rosidl_runtime_c__String \<Rightarrow> (tu_state, unit) cmd" where
  "destroy_name_tree dal conf name_tree =
     (if n_rules conf > 0
      then on_heap (cseq (micro_ros_string_utilities_destroy dal name_tree) (creturn ()))
      else creturn ())"

definition with_members ::
    "type_support option \<Rightarrow> (message_members \<Rightarrow> (tu_state, 'a) cmd) \<Rightarrow> (tu_state, 'a) cmd" where
  "with_members type_support f = cbind (cread (\<lambda>_. introspect type_support)) f"

text \<open>One traversal between the creation and the destruction of the name tree.\<close>

definition traverse ::
    "rcutils_allocator_t \<Rightarrow> memory_conf \<Rightarrow> handle_message_memory_operation_t \<Rightarrow> message_members \<Rightarrow>
     ptr \<Rightarrow> rosidl_runtime_c__String \<Rightarrow> (tu_state, size_t) cmd" where
  "traverse dal conf operation mm ros_msg name_tree =
     handle_message_memory dal (get_configuration conf) operation mm ros_msg name_tree"

definition micro_ros_utilities_get_dynamic_size ::
    "rcutils_allocator_t \<Rightarrow> type_support option \<Rightarrow> memory_conf \<Rightarrow> (tu_state, size_t) cmd" where
  "micro_ros_utilities_get_dynamic_size dal type_support conf =
     with_members type_support (\<lambda>mm.
     cbind (init_name_tree dal conf) (\<lambda>name_tree.
     cbind (traverse dal conf CALCULATE_SIZE_OPERATION mm NULL name_tree) (\<lambda>sz.
     cseq (destroy_name_tree dal conf name_tree)
     (creturn sz))))"

definition micro_ros_utilities_get_static_size ::
    "rcutils_allocator_t \<Rightarrow> type_support option \<Rightarrow> memory_conf \<Rightarrow> (tu_state, size_t) cmd" where
  "micro_ros_utilities_get_static_size dal type_support conf =
     with_members type_support (\<lambda>mm.
     cbind (init_name_tree dal conf) (\<lambda>name_tree.
     cseq (cmodify (\<lambda>s. s\<lparr>operation_buffer := NULL, operation_buffer_index := 0\<rparr>))
     (cbind (traverse dal conf CALCULATE_SIZE_PREALLOCATED_OPERATION mm NULL name_tree) (\<lambda>sz.
     cseq (destroy_name_tree dal conf name_tree)
     (creturn sz)))))"

definition micro_ros_utilities_create_message_memory ::
    "rcutils_allocator_t \<Rightarrow> type_support option \<Rightarrow> ptr \<Rightarrow> memory_conf \<Rightarrow> (tu_state, bool) cmd" where
  "micro_ros_utilities_create_message_memory dal type_support ros_msg conf =
     cbind (micro_ros_utilities_get_dynamic_size dal type_support conf) (\<lambda>calculated_size.
     with_members type_support (\<lambda>mm.
     cbind (init_name_tree dal conf) (\<lambda>name_tree.
     cseq (on_heap (cupdate (memset_zero ros_msg (size_of mm))))
     (cbind (traverse dal conf CREATE_OPERATION mm ros_msg name_tree) (\<lambda>used_size.
     cseq (destroy_name_tree dal conf name_tree)
     (creturn (used_size = calculated_size)))))))"

definition micro_ros_utilities_create_static_message_memory ::
    "rcutils_allocator_t \<Rightarrow> type_support option \<Rightarrow> ptr \<Rightarrow> memory_conf \<Rightarrow> ptr \<Rightarrow> size_t \<Rightarrow>
     (tu_state, bool) cmd" where
  "micro_ros_utilities_create_static_message_memory dal type_support ros_msg conf buffer buffer_len =
     cbind (micro_ros_utilities_get_static_size dal type_support conf) (\<lambda>calculated_size.
     if calculated_size > buffer_len then creturn False
     else
       cseq (on_heap (cupdate (memset_zero buffer calculated_size)))
       (cseq (cmodify (\<lambda>s. s\<lparr>operation_buffer := buffer, operation_buffer_index := 0\<rparr>))
       (with_members type_support (\<lambda>mm.
       cbind (init_name_tree dal conf) (\<lambda>name_tree.
       cseq (on_heap (cupdate (memset_zero ros_msg (size_of mm))))
       (cbind (traverse dal conf CREATE_PREALLOCATED_OPERATION mm ros_msg name_tree) (\<lambda>used_size.
       cseq (destroy_name_tree dal conf name_tree)
       (cbind (cget operation_buffer_index) (\<lambda>index.
       creturn (used_size = calculated_size \<and> used_size = index))))))))))"

definition micro_ros_utilities_destroy_message_memory ::
    "rcutils_allocator_t \<Rightarrow> type_support option \<Rightarrow> ptr \<Rightarrow> memory_conf \<Rightarrow> (tu_state, bool) cmd" where
  "micro_ros_utilities_destroy_message_memory dal type_support ros_msg conf =
     cbind (micro_ros_utilities_get_dynamic_size dal type_support conf) (\<lambda>calculated_size.
     with_members type_support (\<lambda>mm.
     cbind (init_name_tree dal conf) (\<lambda>name_tree.
     cbind (traverse dal conf DESTROY_OPERATION mm ros_msg name_tree) (\<lambda>released_size.
     cseq (on_heap (cupdate (memset_zero ros_msg (size_of mm))))
     (cseq (destroy_name_tree dal conf name_tree)
     (creturn (calculated_size = released_size)))))))"

end
