(* ===== verification/Memory_Regions.thy ===== *)
theory Memory_Regions
  imports Allocator
begin

text \<open>
  Memory seen as bytes at addresses: the vocabulary in which the proofs about message memory
  say what an operation may change (\<open>same_on\<close>), what is accessible (\<open>live\<close>) and what a
  stretch of bytes holds (\<open>holds_at\<close>).
\<close>

type_synonym addr = "nat \<times> nat"

definition byte_at :: "mem \<Rightarrow> addr \<Rightarrow> (block_kind \<times> mbyte) option" where
  "byte_at m a =
     (case blocks m (fst a) of
        None \<Rightarrow> None
      | Some (k, bs) \<Rightarrow> if snd a < length bs then Some (k, bs ! snd a) else None)"

definition span :: "nat \<Rightarrow> nat \<Rightarrow> nat \<Rightarrow> addr set" where
  "span b ofs n = {b} \<times> {ofs..<ofs + n}"

definition live :: "mem \<Rightarrow> addr set \<Rightarrow> bool" where
  "live m A \<longleftrightarrow> (\<forall>a\<in>A. byte_at m a \<noteq> None)"

definition same_on :: "addr set \<Rightarrow> mem \<Rightarrow> mem \<Rightarrow> bool" where
  "same_on A m m' \<longleftrightarrow> (\<forall>a\<in>A. byte_at m' a = byte_at m a)"

definition holds_at :: "mem \<Rightarrow> nat \<Rightarrow> nat \<Rightarrow> mbyte list \<Rightarrow> bool" where
  "holds_at m b ofs xs \<longleftrightarrow> (\<forall>i<length xs. \<exists>k. byte_at m (b, ofs + i) = Some (k, xs ! i))"

section \<open>Sets of addresses\<close>

lemma span_0 [simp]: "span b ofs 0 = {}"
  by (simp add: span_def)

lemma mem_span: "a \<in> span b ofs n \<longleftrightarrow> fst a = b \<and> ofs \<le> snd a \<and> snd a < ofs + n"
  by (cases a) (auto simp: span_def)

lemma span_add: "span b ofs (n + k) = span b ofs n \<union> span b (ofs + n) k"
  by (auto simp: mem_span)

lemma span_mono: "i + k \<le> n \<Longrightarrow> span b (ofs + i) k \<subseteq> span b ofs n"
  by (auto simp: mem_span)

lemma span_disjoint_block: "b \<noteq> c \<Longrightarrow> span b i n \<inter> span c j k = {}"
  by (auto simp: mem_span)

lemma span_disjoint: "i + n \<le> j \<or> j + k \<le> i \<Longrightarrow> span b i n \<inter> span b j k = {}"
  by (auto simp: mem_span)

section \<open>Frames\<close>

lemma same_on_refl [simp]: "same_on A m m"
  by (simp add: same_on_def)

lemma same_on_trans: "same_on A m m' \<Longrightarrow> same_on A m' m'' \<Longrightarrow> same_on A m m''"
  by (simp add: same_on_def)

lemma same_on_mono: "same_on A m m' \<Longrightarrow> B \<subseteq> A \<Longrightarrow> same_on B m m'"
  by (auto simp: same_on_def)

lemma live_same_on: "live m A \<Longrightarrow> same_on A m m' \<Longrightarrow> live m' A"
  by (simp add: live_def same_on_def)

lemma live_mono: "live m A \<Longrightarrow> B \<subseteq> A \<Longrightarrow> live m B"
  by (auto simp: live_def)

lemma live_Un: "live m (A \<union> B) \<longleftrightarrow> live m A \<and> live m B"
  by (auto simp: live_def)

lemma holds_at_same_on:
  "holds_at m b ofs xs \<Longrightarrow> same_on (span b ofs (length xs)) m m' \<Longrightarrow> holds_at m' b ofs xs"
  by (auto simp: holds_at_def same_on_def mem_span)

lemma holds_at_live: "holds_at m b ofs xs \<Longrightarrow> live m (span b ofs (length xs))"
proof -
  assume h: "holds_at m b ofs xs"
  have "byte_at m a \<noteq> None" if "a \<in> span b ofs (length xs)" for a
  proof -
    from that have a: "fst a = b" "a = (b, ofs + (snd a - ofs))" "snd a - ofs < length xs"
      by (auto simp: mem_span prod_eq_iff)
    with h show ?thesis by (metis holds_at_def not_None_eq)
  qed
  then show ?thesis by (simp add: live_def)
qed

section \<open>Accesses in terms of bytes\<close>

lemma live_block:
  assumes "live m (span b ofs n)" and "0 < n"
  obtains k bs where "blocks m b = Some (k, bs)" and "ofs + n \<le> length bs"
proof -
  have "(b, ofs + (n - 1)) \<in> span b ofs n" using assms(2) by (simp add: mem_span)
  with assms(1) have "byte_at m (b, ofs + (n - 1)) \<noteq> None" unfolding live_def by blast
  then obtain k bs where "blocks m b = Some (k, bs)" "ofs + (n - 1) < length bs"
    by (auto simp: byte_at_def split: option.splits if_splits)
  with assms(2) show thesis by (intro that [of k bs]) auto
qed

lemma load_bytes_holds:
  assumes "holds_at m b ofs xs" and "0 < length xs"
  shows "load_bytes (length xs) (Ptr b ofs) m = Inr xs"
proof -
  obtain k bs where b: "blocks m b = Some (k, bs)" "ofs + length xs \<le> length bs"
    using live_block [OF holds_at_live [OF assms(1)] assms(2)] by blast
  have "bs ! (ofs + i) = xs ! i" if "i < length xs" for i
    using assms(1) b that by (auto simp: holds_at_def byte_at_def split: if_splits)
  then have "take (length xs) (drop ofs bs) = xs"
    using b(2) by (intro nth_equalityI) auto
  with b show ?thesis by simp
qed

lemma load_ptr_holds: "holds_at m b ofs (ptr_bytes p) \<Longrightarrow> load_ptr (Ptr b ofs) m = Inr p"
  using load_bytes_holds [of m b ofs "ptr_bytes p"] by (simp add: load_ptr_def)

lemma load_size_holds: "holds_at m b ofs (size_bytes w) \<Longrightarrow> load_size (Ptr b ofs) m = Inr w"
  using load_bytes_holds [of m b ofs "size_bytes w"] by (simp add: load_size_def)

lemma runs_store_bytes:
  assumes live: "live m (span b ofs (length xs))" and ne: "0 < length xs"
    and post: "\<And>m'. same_on (- span b ofs (length xs)) m m' \<Longrightarrow> holds_at m' b ofs xs \<Longrightarrow>
      length m' = length m \<Longrightarrow>
      (\<And>c. map_option fst (blocks m' c) = map_option fst (blocks m c)) \<Longrightarrow>
      (\<And>c. block_length m' c = block_length m c) \<Longrightarrow> P () m'"
  shows "runs (cupdate (store_bytes xs (Ptr b ofs))) m P"
proof -
  obtain k bs where b: "blocks m b = Some (k, bs)" "ofs + length xs \<le> length bs"
    using live_block [OF live ne] by blast
  let ?m = "m[b := Some (k, overwrite ofs xs bs)]"
  have bl: "blocks ?m = (blocks m)(b \<mapsto> (k, overwrite ofs xs bs))"
    by (simp add: blocks_update blocks_Some_less [OF b(1)])
  have "P () ?m"
  proof (rule post)
    show "same_on (- span b ofs (length xs)) m ?m"
      using b by (auto simp: same_on_def byte_at_def bl mem_span nth_overwrite)
    show "holds_at ?m b ofs xs"
      using b by (auto simp: holds_at_def byte_at_def bl nth_overwrite)
    fix c show "map_option fst (blocks ?m c) = map_option fst (blocks m c)"
      using b by (simp add: bl)
    show "block_length ?m c = block_length m c"
      using b by (simp add: bl block_length_def)
  qed simp
  with b show ?thesis by (simp add: access_simps)
qed

text \<open>Stores of scalars and of zeroes change the bytes they write, and those only.\<close>

lemma runs_store_ptr:
  assumes "live m (span b ofs 4)"
    and "\<And>m'. same_on (- span b ofs 4) m m' \<Longrightarrow> holds_at m' b ofs (ptr_bytes p) \<Longrightarrow>
      (\<And>c. map_option fst (blocks m' c) = map_option fst (blocks m c)) \<Longrightarrow> P () m'"
  shows "runs (cupdate (store_ptr (Ptr b ofs) p)) m P"
  unfolding store_ptr_def by (rule runs_store_bytes) (use assms in simp_all)

lemma runs_store_size:
  assumes "live m (span b ofs 4)"
    and "\<And>m'. same_on (- span b ofs 4) m m' \<Longrightarrow> holds_at m' b ofs (size_bytes w) \<Longrightarrow>
      (\<And>c. map_option fst (blocks m' c) = map_option fst (blocks m c)) \<Longrightarrow> P () m'"
  shows "runs (cupdate (store_size (Ptr b ofs) w)) m P"
  unfolding store_size_def by (rule runs_store_bytes) (use assms in simp_all)

lemma runs_memset_zero:
  assumes "live m (span b ofs (unat n))" and "0 < unat n"
    and "\<And>m'. same_on (- span b ofs (unat n)) m m' \<Longrightarrow>
      holds_at m' b ofs (replicate (unat n) zero_byte) \<Longrightarrow>
      (\<And>c. map_option fst (blocks m' c) = map_option fst (blocks m c)) \<Longrightarrow> P () m'"
  shows "runs (cupdate (memset_zero (Ptr b ofs) n)) m P"
  unfolding memset_zero_def by (rule runs_store_bytes) (use assms in simp_all)

text \<open>
  A store keeps every live byte live: \<open>same_live\<close> is the part of a frame that also holds for
  the bytes that were written.
\<close>

lemma live_store:
  assumes "same_on (- span b ofs n) m m'" and "holds_at m' b ofs xs" and "n = length xs" and "live m A"
  shows "live m' A"
proof -
  have "live m' (A \<inter> span b ofs n)"
    using holds_at_live [OF assms(2)] assms(3) by (auto intro: live_mono)
  moreover have "live m' (A - span b ofs n)"
    using assms(1,4) by (auto simp: live_def same_on_def)
  ultimately show ?thesis by (metis Int_Diff_Un live_Un)
qed

section \<open>Allocation in terms of bytes\<close>

text \<open>The addresses of blocks that are not live: where an allocator takes its blocks from.\<close>

definition unallocated :: "mem \<Rightarrow> addr set" where
  "unallocated m = {a. blocks m (fst a) = None}"

lemma unallocated_same:
  assumes "\<And>c. map_option fst (blocks m' c) = map_option fst (blocks m c)"
  shows "unallocated m' = unallocated m"
proof -
  have "blocks m' c = None \<longleftrightarrow> blocks m c = None" for c
    using assms [of c] by (metis option.map_disc_iff)
  then show ?thesis by (simp add: unallocated_def)
qed

lemma live_not_unallocated: "live m A \<Longrightarrow> A \<inter> unallocated m = {}"
  by (fastforce simp: live_def unallocated_def byte_at_def)

lemma new_block:
  assumes "blocks m b = None" and "n \<le> k"
    and "blocks m' = (blocks m)(b \<mapsto> (HeapBlock, replicate k x))"
  shows "same_on (- unallocated m) m m'" and "live m' (span b 0 n)"
    and "span b 0 n \<subseteq> unallocated m" and "unallocated m' = unallocated m - {a. fst a = b}"
proof -
  show "same_on (- unallocated m) m m'"
    using assms by (auto simp: same_on_def unallocated_def byte_at_def)
  show "live m' (span b 0 n)"
    using assms by (auto simp: live_def mem_span byte_at_def)
  show "span b 0 n \<subseteq> unallocated m"
    using assms(1) by (auto simp: mem_span unallocated_def)
  show "unallocated m' = unallocated m - {a. fst a = b}"
    using assms by (auto simp: unallocated_def)
qed

end
