(* ===== verification/Message_Layout.thy ===== *)
theory Message_Layout
  imports Type_Utilities Memory_Regions
begin

text \<open>
  What the traversal of \<^verbatim>\<open>src/type_utilities.c\<close> is about, said without the code: which
  descriptions are well formed (\<open>wf_message\<close>), where each string and sequence of a message
  gets its bytes (\<open>walk_message\<close>, a position in an ideal buffer), and when the memory of a
  message is in place (\<open>built_message\<close>, the list of its extents). The first results: the two
  size calculations compute positions, and \<open>built_message\<close> depends on the bytes of the
  message and of its extents only.
\<close>

named_theorems traversal_simps \<open>the traversal without memory rules\<close>

section \<open>Well-formed descriptions\<close>

definition elem_size :: "message_member \<Rightarrow> nat" where
  "elem_size m = (case member_size m of Inl e \<Rightarrow> 0 | Inr w \<Rightarrow> unat w)"

definition capacity_of :: "memory_conf \<Rightarrow> message_member \<Rightarrow> nat" where
  "capacity_of c m = unat (default_sequence_size c m)"

definition extent_length :: "memory_conf \<Rightarrow> message_member \<Rightarrow> nat" where
  "extent_length c m = capacity_of c m * elem_size m"

text \<open>The bytes of the message that the traversal reads or writes at a member.\<close>

definition touched :: "message_member \<Rightarrow> nat" where
  "touched m =
     (if has_header m then 12
      else if type_id m = TYPE_COMPOSED
      then (case rec_members m of Inl e \<Rightarrow> 0 | Inr mm \<Rightarrow> unat (size_of mm))
      else 0)"

text \<open>
  The type identifiers are those of the enumeration, the members lie one behind the other
  inside the message, no message is empty, and every composed member has an introspection
  description, well formed in turn.
\<close>

function wf_message :: "message_members \<Rightarrow> bool"
  and wf_members :: "nat \<Rightarrow> nat \<Rightarrow> message_member list \<Rightarrow> bool"
where
  "wf_message mm = (size_of mm \<noteq> 0 \<and> wf_members 0 (unat (size_of mm)) (member_list mm))"
| "wf_members lo hi [] = (lo \<le> hi)"
| "wf_members lo hi (m # ms) =
     (1 \<le> unat (type_id m) \<and> unat (type_id m) \<le> 18 \<and> lo \<le> unat (member_offset m) \<and>
      (if type_id m = TYPE_COMPOSED
       then (case rec_members m of Inl e \<Rightarrow> False | Inr mm \<Rightarrow> wf_message mm)
       else True) \<and>
      wf_members (unat (member_offset m) + touched m) hi ms)"
  by pat_completeness auto

termination wf_message
  by (relation "measure (\<lambda>x. case x of Inl mm \<Rightarrow> size mm | Inr (lo, hi, ms) \<Rightarrow> size_list size ms)")
    (auto dest!: rec_members_size simp: message_members_size)

declare wf_message.simps [simp del] wf_members.simps [simp del]

lemma composed_not_string: "type_id m = TYPE_COMPOSED \<Longrightarrow> type_id m \<noteq> TYPE_STRING"
  by (simp add: TYPE_STRING_def TYPE_COMPOSED_def)

lemma composed_header: "type_id m = TYPE_COMPOSED \<Longrightarrow> has_header m \<longleftrightarrow> is_sequence m"
  using composed_not_string [of m] by (simp add: has_header_def)

lemma composed_extent_length:
  "type_id m = TYPE_COMPOSED \<Longrightarrow> rec_members m = Inr mm \<Longrightarrow>
   extent_length c m = capacity_of c m * unat (size_of mm)"
  by (simp add: extent_length_def elem_size_def member_size_def)

lemma wf_members_le: "wf_members lo hi ms \<Longrightarrow> lo \<le> hi"
proof (induction ms arbitrary: lo)
  case Nil
  then show ?case by (simp add: wf_members.simps)
next
  case (Cons m ms)
  from Cons.prems have "lo \<le> unat (member_offset m)" "wf_members (unat (member_offset m) + touched m) hi ms"
    by (simp_all add: wf_members.simps)
  with Cons.IH show ?case by fastforce
qed

definition positive_conf :: "memory_conf \<Rightarrow> bool" where
  "positive_conf c \<longleftrightarrow> n_rules c = 0 \<and> max_string_capacity c \<noteq> 0 \<and>
     max_ros2_type_sequence_capacity c \<noteq> 0 \<and> max_basic_type_sequence_capacity c \<noteq> 0"

lemma get_configuration_positive: "n_rules conf = 0 \<Longrightarrow> positive_conf (get_configuration conf)"
  by (simp add: positive_conf_def get_configuration_def micro_ros_utilities_memory_conf_default_def Let_def)

lemma basic_size_positive:
  assumes "1 \<le> unat tid" and "unat tid \<le> 18" and "tid \<noteq> TYPE_COMPOSED"
  shows "\<exists>w. basic_type_size tid = Inr w \<and> w \<noteq> 0"
proof -
  have "unat tid \<noteq> 18"
    using assms(3) by (simp add: TYPE_COMPOSED_def word_unat_eq_iff)
  with assms have "unat tid \<in> {1..17}" by simp
  then have "unat tid \<in> set [1..<18]" by auto
  then have "basic_types_size ! unat tid \<noteq> 0"
    by (simp add: upt_rec [of _ 18] basic_types_size_def) auto
  with \<open>unat tid \<in> {1..17}\<close> show ?thesis
    by (simp add: basic_type_size_def basic_types_size_def)
qed

lemma wf_member_size:
  assumes "wf_members lo hi (m # ms)"
  obtains w where "member_size m = Inr w" and "w \<noteq> 0" and "elem_size m = unat w" and "0 < elem_size m"
proof -
  have "\<exists>w. member_size m = Inr w \<and> w \<noteq> 0"
    using assms basic_size_positive [of "type_id m"]
    by (auto simp: wf_members.simps member_size_def wf_message.simps split: sum.splits if_splits)
  then obtain w where "member_size m = Inr w" "w \<noteq> 0" by blast
  then show thesis by (intro that) (simp_all add: elem_size_def unat_gt_0)
qed

lemma capacity_positive: "positive_conf c \<Longrightarrow> 0 < capacity_of c m"
  by (simp add: positive_conf_def capacity_of_def default_sequence_size_def unat_gt_0)

lemma extent_length_positive:
  "wf_members lo hi (m # ms) \<Longrightarrow> positive_conf c \<Longrightarrow> 0 < extent_length c m"
  using capacity_positive by (auto simp: extent_length_def elim: wf_member_size)

section \<open>Positions\<close>

text \<open>
  \<open>adv\<close> says where the next free byte is after \<open>n\<close> bytes were taken at position \<open>p\<close>: the sum
  for memory from an allocator, the sum after rounding \<open>p\<close> up to a multiple of four for the
  static buffer.
\<close>

definition align4 :: "nat \<Rightarrow> nat" where
  "align4 p = (p + 3) div 4 * 4"

definition adv_static :: "nat \<Rightarrow> nat \<Rightarrow> nat" where
  "adv_static p n = align4 p + n"

definition walk_open :: "(nat \<Rightarrow> nat \<Rightarrow> nat) \<Rightarrow> memory_conf \<Rightarrow> message_member \<Rightarrow> nat \<Rightarrow> nat" where
  "walk_open adv c m p = (if has_header m then adv p (extent_length c m) else p)"

function walk_message :: "(nat \<Rightarrow> nat \<Rightarrow> nat) \<Rightarrow> memory_conf \<Rightarrow> message_members \<Rightarrow> nat \<Rightarrow> nat"
  and walk_members :: "(nat \<Rightarrow> nat \<Rightarrow> nat) \<Rightarrow> memory_conf \<Rightarrow> message_member list \<Rightarrow> nat \<Rightarrow> nat"
  and walk_inner :: "(nat \<Rightarrow> nat \<Rightarrow> nat) \<Rightarrow> memory_conf \<Rightarrow> message_member \<Rightarrow> nat \<Rightarrow> nat"
where
  "walk_message adv c mm p = walk_members adv c (member_list mm) p"
| "walk_members adv c [] p = p"
| "walk_members adv c (m # ms) p = walk_members adv c ms (walk_inner adv c m (walk_open adv c m p))"
| "walk_inner adv c m p =
     (if type_id m = TYPE_COMPOSED
      then (case rec_members m of
              Inl e \<Rightarrow> p
            | Inr mm \<Rightarrow> if is_sequence m then ((\<lambda>q. walk_message adv c mm q) ^^ capacity_of c m) p
                       else walk_message adv c mm p)
      else p)"
  by pat_completeness auto

termination walk_message
  by (relation "measure (\<lambda>x. case x of Inl (adv, c, mm, p) \<Rightarrow> size mm
        | Inr (Inl (adv, c, ms, p)) \<Rightarrow> size_list size ms
        | Inr (Inr (adv, c, m, p)) \<Rightarrow> size m)")
    (auto dest!: rec_members_size simp: message_members_size)

declare walk_message.simps [simp del] walk_members.simps [simp del] walk_inner.simps [simp del]

lemmas walk_simps = walk_message.simps walk_members.simps walk_inner.simps

lemma align4_mod: "align4 p mod 4 = 0"
  by (simp add: align4_def)

lemma align4_ge: "p \<le> align4 p"
  unfolding align4_def by arith

lemma align4_fixed: "p mod 4 = 0 \<Longrightarrow> align4 p = p"
  unfolding align4_def by arith

lemma align4_Suc: "p mod 4 \<noteq> 0 \<Longrightarrow> align4 (Suc p) = align4 p"
  unfolding align4_def by arith

lemma align4_step: "p mod 4 \<noteq> 0 \<Longrightarrow> align4 p = p \<Longrightarrow> False"
  unfolding align4_def by arith

lemma align_index_of_nat: "align_index (of_nat p) = of_nat (align4 p)"
proof (induction "align4 p - p" arbitrary: p rule: less_induct)
  case less
  have m: "unat (of_nat p :: size_t) mod 4 = p mod 4"
    by (simp add: unat_of_nat mod_mod_cancel)
  show ?case
  proof (cases "p mod 4 = 0")
    case True
    then have "(of_nat p :: size_t) mod ALIGNMENT = 0"
      using m unat_mod_ALIGNMENT [of "of_nat p"] by (metis unat_eq_zero)
    with True show ?thesis by (subst align_index.simps) (simp add: align4_fixed)
  next
    case False
    then have "(of_nat p :: size_t) mod ALIGNMENT \<noteq> 0"
      using m unat_mod_ALIGNMENT [of "of_nat p"] by (metis unat_0)
    moreover have "align4 (Suc p) - Suc p < align4 p - p"
      using align4_Suc [OF False] align4_step [OF False] align4_ge [of p]
      by (cases "align4 p = p") auto
    from less [OF this] align4_Suc [OF False] have "align_index (of_nat p + 1) = of_nat (align4 p)"
      by (simp add: add.commute)
    ultimately show ?thesis by (subst align_index.simps) simp
  qed
qed

text \<open>Positions never go back, and each string or sequence moves them on.\<close>

lemma funpow_ge: "(\<And>q. q \<le> (f q :: nat)) \<Longrightarrow> p \<le> (f ^^ n) p"
  by (induction n) (auto intro: le_trans)

definition advancing :: "(nat \<Rightarrow> nat \<Rightarrow> nat) \<Rightarrow> bool" where
  "advancing adv \<longleftrightarrow> (\<forall>p n. p + n \<le> adv p n)"

lemma walk_open_ge: "advancing adv \<Longrightarrow> p \<le> walk_open adv c m p"
  by (auto simp: walk_open_def advancing_def dest: add_leD1 spec)

lemma walk_ge:
  "advancing adv \<Longrightarrow> p \<le> walk_message adv c mm p"
  "advancing adv \<Longrightarrow> p \<le> walk_members adv c ms p"
  "advancing adv \<Longrightarrow> p \<le> walk_inner adv c m p"
proof (induction adv c mm p and adv c ms p and adv c m p rule: walk_message_walk_members_walk_inner.induct)
  case (1 adv c mm p)
  then show ?case by (simp add: walk_simps)
next
  case (2 adv c p)
  then show ?case by (simp add: walk_simps)
next
  case (3 adv c m ms p)
  from 3(1) 3(2) [OF 3(3)] walk_open_ge [OF 3(3), of p c m] 3(3) show ?case
    by (metis walk_members.simps(2) le_trans)
next
  case (4 adv c m p)
  then show ?case by (auto simp: walk_inner.simps intro!: funpow_ge split: sum.splits)
qed

section \<open>Induction over descriptions\<close>

lemma message_induct:
  assumes message: "\<And>mm. Q (member_list mm) \<Longrightarrow> P mm"
    and none: "Q []"
    and member: "\<And>m ms. (\<And>mm. type_id m = TYPE_COMPOSED \<Longrightarrow> rec_members m = Inr mm \<Longrightarrow> P mm) \<Longrightarrow>
      Q ms \<Longrightarrow> Q (m # ms)"
  shows "P mm" and "Q ms"
proof -
  have "P mm \<and> Q ms"
  proof -
    have "P mm" "Q ms" for lo hi :: nat
    proof (induction mm and lo hi ms rule: wf_message_wf_members.induct)
      case (1 mm)
      then show ?case by (rule message)
    next
      case (2 lo hi)
      show ?case by (rule none)
    next
      case (3 lo hi m ms)
      then show ?case by (intro member) auto
    qed
    then show ?thesis by blast
  qed
  then show "P mm" and "Q ms" by simp_all
qed

section \<open>The traversal without memory rules\<close>

text \<open>What the loop body does with a composed member once the member was opened.\<close>

definition handle_inner ::
    "rcutils_allocator_t \<Rightarrow> memory_conf \<Rightarrow> handle_message_memory_operation_t \<Rightarrow> message_member \<Rightarrow>
     ptr \<Rightarrow> rosidl_runtime_c__String \<Rightarrow> size_t \<Rightarrow> size_t \<Rightarrow> (tu_state, size_t) cmd" where
  "handle_inner dal conf operation m ros_msg name_tree sequence_size used_memory =
     (if type_id m = TYPE_COMPOSED
      then (case rec_members m of
              Inl e \<Rightarrow> cfail e
            | Inr mm \<Rightarrow>
                if is_sequence m
                then handle_elements dal conf operation mm (ptr_add ros_msg (member_offset m))
                       (unat sequence_size) 0 name_tree used_memory
                else cbind (handle_message_memory dal conf operation mm
                              (ptr_add ros_msg (member_offset m)) name_tree) (\<lambda>n.
                     creturn (used_memory + n)))
      else creturn used_memory)"

lemma cbind_creturn [simp]: "cbind (creturn x) f = f x"
  by (simp add: cbind_def creturn_def)

lemma handle_members_Cons [traversal_simps]:
  "n_rules conf = 0 \<Longrightarrow> handle_members dal conf operation (m # ms) ros_msg name_tree used_memory =
     cbind (open_member dal conf operation m ros_msg name_tree used_memory) (\<lambda>opened.
     case opened of
       None \<Rightarrow> creturn 0
     | Some (sequence_size, used_memory) \<Rightarrow>
         cbind (handle_inner dal conf operation m ros_msg name_tree sequence_size used_memory) (\<lambda>used_memory.
         cseq (close_member dal conf operation m ros_msg)
         (handle_members dal conf operation ms ros_msg name_tree used_memory)))"
  by (simp add: handle_members.simps push_name_def pop_name_def handle_inner_def fun_eq_iff cong: option.case_cong)

lemma apply_rules_none [traversal_simps]:
  "n_rules conf = 0 \<Longrightarrow> apply_rules conf name_tree n = creturn n"
  by (simp add: apply_rules_def)

lemma on_heap_creturn [simp]: "on_heap (creturn x) = creturn x"
  by (simp add: on_heap_def creturn_def)

text \<open>Opening a member with memory of its own, when the size of an element is known.\<close>

lemma open_member_header [traversal_simps]:
  "n_rules conf = 0 \<Longrightarrow> member_size m = Inr w \<Longrightarrow>
   open_member dal conf operation m ros_msg name_tree used_memory =
     (if has_header m
      then cbind (operation_branch (chosen_allocator dal conf) operation
                    (ptr_add ros_msg (member_offset m)) (default_sequence_size conf m) w) (\<lambda>r.
           creturn (case r of None \<Rightarrow> None
                    | Some n \<Rightarrow> Some (default_sequence_size conf m, used_memory + n)))
      else creturn (Some (0, used_memory)))"
  by (simp add: open_member_def apply_rules_none cbind_def cread_def creturn_def on_heap_def)

section \<open>The size calculations\<close>

definition adv_of :: "handle_message_memory_operation_t \<Rightarrow> nat \<Rightarrow> nat \<Rightarrow> nat" where
  "adv_of operation =
     (if operation = CREATE_PREALLOCATED_OPERATION \<or> operation = CALCULATE_SIZE_PREALLOCATED_OPERATION
      then adv_static else (+))"

text \<open>Where the static index is, and where it is afterwards.\<close>

definition index_at :: "handle_message_memory_operation_t \<Rightarrow> nat \<Rightarrow> tu_state \<Rightarrow> bool" where
  "index_at operation p s \<longleftrightarrow>
     (operation = CALCULATE_SIZE_PREALLOCATED_OPERATION \<longrightarrow> operation_buffer_index s = of_nat p)"

definition move_index :: "handle_message_memory_operation_t \<Rightarrow> nat \<Rightarrow> tu_state \<Rightarrow> tu_state" where
  "move_index operation p s =
     (if operation = CALCULATE_SIZE_PREALLOCATED_OPERATION then s\<lparr>operation_buffer_index := of_nat p\<rparr> else s)"

definition calculates :: "handle_message_memory_operation_t \<Rightarrow> bool" where
  "calculates operation \<longleftrightarrow>
     operation = CALCULATE_SIZE_OPERATION \<or> operation = CALCULATE_SIZE_PREALLOCATED_OPERATION"

lemma index_at_move [simp]: "index_at operation p (move_index operation p s)"
  by (simp add: index_at_def move_index_def)

lemma move_move [simp]: "move_index operation q (move_index operation p s) = move_index operation q s"
  by (simp add: move_index_def)

lemma move_same [simp]: "index_at operation p s \<Longrightarrow> move_index operation p s = s"
  by (auto simp: move_index_def index_at_def)

lemma calculate_branch:
  assumes "calculates operation" and "index_at operation p s"
  shows "operation_branch al operation q n w s =
     Inr (Some (of_nat (adv_of operation p (unat n * unat w)) - of_nat p),
          move_index operation (adv_of operation p (unat n * unat w)) s)"
proof (cases "operation = CALCULATE_SIZE_OPERATION")
  case True
  then show ?thesis
    by (simp add: operation_branch_def creturn_def adv_of_def move_index_def)
next
  case False
  with assms have op: "operation = CALCULATE_SIZE_PREALLOCATED_OPERATION" by (simp add: calculates_def)
  then show ?thesis
    using assms(2)
    by (simp add: operation_branch_def calculate_preallocated_branch_def get_static_memory_def cmd_defs
        adv_of_def move_index_def index_at_def align_index_of_nat adv_static_def)
qed

lemma calculate_open:
  assumes "calculates operation" and "index_at operation p s" and "n_rules c = 0"
    and "member_size m = Inr w"
  shows "open_member dal c operation m msg nt used s =
     Inr (Some (if has_header m then default_sequence_size c m else 0,
                used + (of_nat (walk_open (adv_of operation) c m p) - of_nat p)),
          move_index operation (walk_open (adv_of operation) c m p) s)"
  using assms calculate_branch [OF assms(1,2)]
  by (simp add: open_member_header cbind_def creturn_def walk_open_def extent_length_def capacity_of_def
      elem_size_def)

text \<open>The loop over the elements: each element is one walk of its message.\<close>

lemma calculate_elements:
  assumes op: "calculates operation"
    and message: "\<And>msg p s. index_at operation p s \<Longrightarrow> handle_message_memory dal c operation mm msg nt s =
      Inr (of_nat (walk_message (adv_of operation) c mm p) - of_nat p,
           move_index operation (walk_message (adv_of operation) c mm p) s)"
  shows "index_at operation p s \<Longrightarrow> handle_elements dal c operation mm a n i nt used s =
    Inr (used + (of_nat ((walk_message (adv_of operation) c mm ^^ n) p) - of_nat p),
         move_index operation ((walk_message (adv_of operation) c mm ^^ n) p) s)"
proof (induction n arbitrary: i p s used)
  case 0
  then show ?case by (simp add: creturn_def handle_elements.simps)
next
  case (Suc n)
  have "element_address operation mm a i = creturn NULL"
    using op by (auto simp: element_address_def calculates_def)
  with message [OF Suc.prems] Suc.IH [OF index_at_move] show ?case
    by (simp add: handle_elements.simps cbind_def creturn_def funpow_swap1)
qed

lemma close_calculates [simp]: "calculates operation \<Longrightarrow> close_member dal c operation m msg = creturn ()"
  by (auto simp: close_member_def calculates_def cwhen_def)

lemma calculate_walk:
  assumes op: "calculates operation" and c: "n_rules c = 0"
  shows "wf_message mm \<Longrightarrow> index_at operation p s \<Longrightarrow> handle_message_memory dal c operation mm msg nt s =
      Inr (of_nat (walk_message (adv_of operation) c mm p) - of_nat p,
           move_index operation (walk_message (adv_of operation) c mm p) s)"
    and "wf_members lo hi ms \<Longrightarrow> index_at operation p s \<Longrightarrow> handle_members dal c operation ms msg nt used s =
      Inr (used + (of_nat (walk_members (adv_of operation) c ms p) - of_nat p),
           move_index operation (walk_members (adv_of operation) c ms p) s)"
proof (induction mm and ms arbitrary: msg p s and lo hi msg p s used rule: message_induct)
  case (1 mm)
  then show ?case by (fastforce simp: wf_message.simps walk_message.simps handle_message_memory.simps)
next
  case 2
  then show ?case by (simp add: creturn_def walk_members.simps handle_members.simps)
next
  case (3 m ms)
  let ?adv = "adv_of operation"
  obtain w where w: "member_size m = Inr w" using 3(3) by (rule wf_member_size)
  let ?p1 = "walk_open ?adv c m p"
  let ?p2 = "walk_inner ?adv c m ?p1"
  have inner: "handle_inner dal c operation m msg nt (default_sequence_size c m) used' s' =
      Inr (used' + (of_nat ?p2 - of_nat ?p1), move_index operation ?p2 s')"
    if s': "index_at operation ?p1 s'" and "sz = (if has_header m then default_sequence_size c m else 0)"
    for used' s' sz
  proof (cases "type_id m = TYPE_COMPOSED")
    case False
    with s' show ?thesis by (simp add: handle_inner_def walk_inner.simps creturn_def)
  next
    case True
    with 3(3) obtain mm where mm: "rec_members m = Inr mm" "wf_message mm"
      by (auto simp: wf_members.simps split: sum.splits)
    note message = 3(1) [OF True mm]
    show ?thesis
    proof (cases "is_sequence m")
      case True
      with \<open>type_id m = TYPE_COMPOSED\<close> mm calculate_elements [OF op message s'] show ?thesis
        by (simp add: handle_inner_def walk_inner.simps capacity_of_def)
    next
      case False
      with \<open>type_id m = TYPE_COMPOSED\<close> mm message [OF s'] show ?thesis
        by (simp add: handle_inner_def walk_inner.simps cbind_def creturn_def)
    qed
  qed
  have same: "handle_inner dal c operation m msg nt (if has_header m then default_sequence_size c m else 0) =
      handle_inner dal c operation m msg nt (default_sequence_size c m)"
    by (auto simp: handle_inner_def has_header_def fun_eq_iff split: sum.split)
  have rest: "wf_members (unat (member_offset m) + touched m) hi ms"
    using 3(3) by (simp add: wf_members.simps)
  show ?case
    using 3(2) [OF rest index_at_move] op inner [OF index_at_move refl]
    by (simp add: handle_members_Cons [OF c] cbind_def [of _ "\<lambda>x. _ x"] calculate_open [OF op 3(4) c w] same
        cseq_def creturn_def walk_members.simps)
qed

text \<open>The number of bytes that the two ways of creating a message take.\<close>

definition dynamic_size :: "memory_conf \<Rightarrow> message_members \<Rightarrow> nat" where
  "dynamic_size c mm = walk_message (+) c mm 0"

definition static_size :: "memory_conf \<Rightarrow> message_members \<Rightarrow> nat" where
  "static_size c mm = walk_message adv_static c mm 0"

lemma advancing_plus: "advancing (+)"
  by (simp add: advancing_def)

lemma advancing_static: "advancing adv_static"
  by (simp add: advancing_def adv_static_def align4_ge)

lemma funpow_shift: "(\<And>q. f (q :: nat) = q + k) \<Longrightarrow> (f ^^ n) p = p + n * k"
  by (induction n) (auto simp: algebra_simps)

text \<open>With the sum the position only shifts the result.\<close>

lemma walk_inner_shift:
  assumes "\<And>mm p. type_id m = TYPE_COMPOSED \<Longrightarrow> rec_members m = Inr mm \<Longrightarrow>
    walk_message (+) c mm p = p + walk_message (+) c mm 0"
  shows "walk_inner (+) c m q = q + walk_inner (+) c m 0"
proof (cases "type_id m = TYPE_COMPOSED")
  case True
  show ?thesis
  proof (cases "rec_members m")
    case (Inl e)
    with True show ?thesis by (simp add: walk_inner.simps)
  next
    case (Inr mm)
    note message = assms [OF True Inr]
    then have "(walk_message (+) c mm ^^ n) q = q + n * walk_message (+) c mm 0" for n q
      by (rule funpow_shift)
    with True Inr message [of q] show ?thesis by (simp add: walk_inner.simps)
  qed
qed (simp add: walk_inner.simps)

lemma walk_plus:
  "walk_message (+) c mm p = p + walk_message (+) c mm 0"
  "walk_members (+) c ms p = p + walk_members (+) c ms 0"
proof (induction mm and ms arbitrary: p and p rule: message_induct)
  case (1 mm)
  then show ?case by (metis walk_message.simps)
next
  case 2
  then show ?case by (simp add: walk_members.simps)
next
  case (3 m ms)
  have inner: "walk_inner (+) c m q = q + walk_inner (+) c m 0" for q
    using 3(1) by (rule walk_inner_shift)
  have opened: "walk_open (+) c m q = q + walk_open (+) c m 0" for q
    by (simp add: walk_open_def)
  show ?case
    using 3(2) inner opened unfolding walk_members.simps by (metis add.assoc)
qed

lemma walk_members_plus:
  "walk_members (+) c (m # ms) 0 =
     walk_open (+) c m 0 + walk_inner (+) c m 0 + walk_members (+) c ms 0"
proof -
  have "walk_inner (+) c m q = q + walk_inner (+) c m 0" for q
    by (rule walk_inner_shift) (rule walk_plus)
  from this [of "walk_open (+) c m 0"]
    walk_plus(2) [of c ms "walk_open (+) c m 0 + walk_inner (+) c m 0"]
  show ?thesis by (simp only: walk_members.simps)
qed

text \<open>The dynamic size by recursion over the description, without positions.\<close>

lemma walk_message_dynamic: "walk_message (+) c mm q = q + dynamic_size c mm"
  unfolding dynamic_size_def by (rule walk_plus)

lemma walk_inner_dynamic:
  assumes "type_id m = TYPE_COMPOSED" and "rec_members m = Inr mm"
  shows "walk_inner (+) c m 0 = (if is_sequence m then capacity_of c m else 1) * dynamic_size c mm"
  using assms funpow_shift [of "walk_message (+) c mm" "dynamic_size c mm" "capacity_of c m" 0]
  by (simp add: walk_inner.simps walk_message_dynamic)

lemma walk_inner_eval:
  "walk_inner (+) c m 0 =
     (if type_id m = TYPE_COMPOSED
      then (case rec_members m of
              Inl e \<Rightarrow> 0
            | Inr mm \<Rightarrow> (if is_sequence m then capacity_of c m else 1) * dynamic_size c mm)
      else 0)"
  using walk_inner_dynamic [of m _ c] by (auto simp: walk_inner.simps split: sum.split)

lemma dynamic_size_members: "dynamic_size c mm = walk_members (+) c (member_list mm) 0"
  by (simp add: dynamic_size_def walk_message.simps)

section \<open>Memory in place\<close>

text \<open>
  An extent is a stretch of memory that a header points to: block, offset and length.
  \<open>built_message\<close> follows the message like the traversal does and returns its extents in the
  order in which the traversal meets them, if every header points to accessible memory of the
  configured length. With \<open>fresh\<close> it also asks for what a message looks like when it was just
  created: size 0, the configured capacity, and zeroes in every extent that does not consist of
  messages (so that every string is an empty, terminated one).
\<close>

type_synonym extent = "nat \<times> nat \<times> nat"

definition fresh_header :: "memory_conf \<Rightarrow> message_member \<Rightarrow> ptr \<Rightarrow> mbyte list \<Rightarrow> mem \<Rightarrow> bool" where
  "fresh_header c m p bs mem \<longleftrightarrow>
     load_size (ptr_add p 4) mem = Inr 0 \<and>
     load_size (ptr_add p 8) mem = Inr (default_sequence_size c m) \<and>
     (type_id m \<noteq> TYPE_COMPOSED \<longrightarrow> bs = replicate (extent_length c m) zero_byte)"

definition header_extent :: "bool \<Rightarrow> memory_conf \<Rightarrow> message_member \<Rightarrow> ptr \<Rightarrow> mem \<Rightarrow> extent option" where
  "header_extent fresh c m p mem =
     (case load_ptr p mem of
        Inr (Ptr d o') \<Rightarrow>
          (case load_bytes (extent_length c m) (Ptr d o') mem of
             Inl e \<Rightarrow> None
           | Inr bs \<Rightarrow> if fresh \<longrightarrow> fresh_header c m p bs mem then Some (d, o', extent_length c m) else None)
      | _ \<Rightarrow> None)"

lemma header_extent_Some:
  "header_extent fresh c m p mem = Some (d, o', n) \<longleftrightarrow>
     load_ptr p mem = Inr (Ptr d o') \<and> n = extent_length c m \<and>
     (\<exists>bs. load_bytes n (Ptr d o') mem = Inr bs \<and> (fresh \<longrightarrow> fresh_header c m p bs mem))"
  unfolding header_extent_def
  by (cases "load_ptr p mem"; cases "projr (load_ptr p mem)"; cases "load_bytes (extent_length c m) (Ptr d o') mem")
    (auto simp del: load_bytes.simps split: sum.split ptr.split)

definition append_extents :: "extent list option \<Rightarrow> extent list option \<Rightarrow> extent list option" where
  "append_extents x y = (case (x, y) of (Some L, Some M) \<Rightarrow> Some (L @ M) | _ \<Rightarrow> None)"

lemma append_extents_Some [simp]:
  "append_extents x y = Some N \<longleftrightarrow> (\<exists>L M. x = Some L \<and> y = Some M \<and> N = L @ M)"
  by (auto simp: append_extents_def split: option.splits)

primrec built_elements :: "(nat \<Rightarrow> extent list option) \<Rightarrow> nat \<Rightarrow> nat \<Rightarrow> nat \<Rightarrow> extent list option" where
  "built_elements f k 0 a = Some []"
| "built_elements f k (Suc n) a = append_extents (f a) (built_elements f k n (a + k))"

lemma built_elements_cong [fundef_cong]:
  "(\<And>a. f a = g a) \<Longrightarrow> k = k' \<Longrightarrow> n = n' \<Longrightarrow> a = a' \<Longrightarrow> built_elements f k n a = built_elements g k' n' a'"
proof -
  assume "\<And>a. f a = g a" "k = k'" "n = n'" "a = a'"
  then have "f = g" by auto
  with \<open>k = k'\<close> \<open>n = n'\<close> \<open>a = a'\<close> show ?thesis by simp
qed

function built_message ::
    "bool \<Rightarrow> memory_conf \<Rightarrow> message_members \<Rightarrow> nat \<Rightarrow> nat \<Rightarrow> mem \<Rightarrow> extent list option"
  and built_members ::
    "bool \<Rightarrow> memory_conf \<Rightarrow> message_member list \<Rightarrow> nat \<Rightarrow> nat \<Rightarrow> mem \<Rightarrow> extent list option"
  and built_inner ::
    "bool \<Rightarrow> memory_conf \<Rightarrow> message_member \<Rightarrow> nat \<Rightarrow> nat \<Rightarrow> mem \<Rightarrow> extent list option"
where
  "built_message fresh c mm b a mem = built_members fresh c (member_list mm) b a mem"
| "built_members fresh c [] b a mem = Some []"
| "built_members fresh c (m # ms) b a mem =
     append_extents
       (let p = a + unat (member_offset m) in
        if has_header m
        then (case header_extent fresh c m (Ptr b p) mem of
                None \<Rightarrow> None
              | Some (d, o', n) \<Rightarrow>
                  append_extents (Some [(d, o', n)]) (built_inner fresh c m d o' mem))
        else built_inner fresh c m b p mem)
       (built_members fresh c ms b a mem)"
| "built_inner fresh c m b a mem =
     (if type_id m = TYPE_COMPOSED
      then (case rec_members m of
              Inl e \<Rightarrow> None
            | Inr mm \<Rightarrow>
                built_elements (\<lambda>q. built_message fresh c mm b q mem) (unat (size_of mm))
                  (if is_sequence m then capacity_of c m else 1) a)
      else Some [])"
  by pat_completeness auto

termination built_message
  by (relation "measure (\<lambda>x. case x of Inl (fresh, c, mm, b, a, mem) \<Rightarrow> size mm
        | Inr (Inl (fresh, c, ms, b, a, mem)) \<Rightarrow> size_list size ms
        | Inr (Inr (fresh, c, m, b, a, mem)) \<Rightarrow> size m)")
    (auto dest!: rec_members_size simp: message_members_size)

declare built_message.simps [simp del] built_members.simps [simp del] built_inner.simps [simp del]

lemmas built_simps = built_message.simps built_members.simps built_inner.simps

definition extents :: "extent list \<Rightarrow> addr set" where
  "extents L = (\<Union>(d, o', n)\<in>set L. span d o' n)"

lemma extents_simps [simp]:
  "extents [] = {}"
  "extents ((d, o', n) # L) = span d o' n \<union> extents L"
  "extents (L @ M) = extents L \<union> extents M"
  by (auto simp: extents_def)

lemma wf_members_first:
  assumes "wf_members lo hi (m # ms)"
  shows "lo \<le> unat (member_offset m)" and "unat (member_offset m) + touched m \<le> hi"
    and "wf_members (unat (member_offset m) + touched m) hi ms"
    and "type_id m = TYPE_COMPOSED \<Longrightarrow> \<exists>mm. rec_members m = Inr mm \<and> wf_message mm"
  using assms by (auto simp: wf_members.simps dest: wf_members_le split: sum.splits)

lemma touched_header [simp]: "has_header m \<Longrightarrow> touched m = 12"
  by (simp add: touched_def)

lemma touched_message:
  "\<not> has_header m \<Longrightarrow> type_id m = TYPE_COMPOSED \<Longrightarrow> rec_members m = Inr mm \<Longrightarrow> touched m = unat (size_of mm)"
  by (simp add: touched_def)

text \<open>A load depends on the bytes it reads.\<close>

lemma load_bytes_same:
  assumes "load_bytes n (Ptr b ofs) m = Inr xs" and "same_on (span b ofs n) m m'" and "0 < n"
  shows "load_bytes n (Ptr b ofs) m' = Inr xs"
proof -
  obtain k bs where b: "blocks m b = Some (k, bs)" "ofs + n \<le> length bs" "xs = take n (drop ofs bs)"
    using assms(1) by (auto split: option.splits if_splits)
  have "holds_at m b ofs xs"
    using b by (auto simp: holds_at_def byte_at_def)
  then have "holds_at m' b ofs xs"
    using assms(2) b by (auto intro: holds_at_same_on)
  from load_bytes_holds [OF this] b assms(3) show ?thesis by simp
qed

lemma load_ptr_same:
  "load_ptr (Ptr b ofs) m = Inr p \<Longrightarrow> same_on (span b ofs 4) m m' \<Longrightarrow> load_ptr (Ptr b ofs) m' = Inr p"
  using load_bytes_same [of 4 b ofs m _ m'] by (auto simp: load_ptr_def simp del: load_bytes.simps split: sum.splits)

lemma load_size_same:
  "load_size (Ptr b ofs) m = Inr w \<Longrightarrow> same_on (span b ofs 4) m m' \<Longrightarrow> load_size (Ptr b ofs) m' = Inr w"
  using load_bytes_same [of 4 b ofs m _ m'] by (auto simp: load_size_def simp del: load_bytes.simps split: sum.splits)

lemma header_extent_same:
  assumes E: "header_extent fresh c m (Ptr b a) mem = Some (d, o', n)" and "0 < extent_length c m"
    and same: "same_on (span b a 12 \<union> span d o' n) mem mem'"
  shows "header_extent fresh c m (Ptr b a) mem' = Some (d, o', n)"
proof -
  obtain bs where l: "load_ptr (Ptr b a) mem = Inr (Ptr d o')" "load_bytes n (Ptr d o') mem = Inr bs"
    and n: "n = extent_length c m" and f: "fresh \<longrightarrow> fresh_header c m (Ptr b a) bs mem"
    using E unfolding header_extent_Some by blast
  have head: "same_on (span b (a + i) 4) mem mem'" if "i + 4 \<le> 12" for i
    using same span_mono [OF that] by (auto intro: same_on_mono)
  have "load_ptr (Ptr b a) mem' = Inr (Ptr d o')"
    using load_ptr_same [OF l(1)] head [of 0] by simp
  moreover have "load_bytes n (Ptr d o') mem' = Inr bs"
    using load_bytes_same [OF l(2)] same n assms(2) by (auto intro: same_on_mono)
  moreover have "fresh_header c m (Ptr b a) bs mem'" if "fresh_header c m (Ptr b a) bs mem"
    using that load_size_same [OF _ head [of 4]] load_size_same [OF _ head [of 8]]
    unfolding fresh_header_def ptr_add.simps by simp
  ultimately show ?thesis
    using f n unfolding header_extent_Some by blast
qed

lemma built_elements_same:
  assumes "\<And>q L. f q = Some L \<Longrightarrow> same_on (span b q k \<union> extents L) m m' \<Longrightarrow> g q = Some L"
  shows "built_elements f k n a = Some L \<Longrightarrow> same_on (span b a (n * k) \<union> extents L) m m' \<Longrightarrow>
    built_elements g k n a = Some L"
proof (induction n arbitrary: a L)
  case (Suc n)
  then obtain L1 L2 where L: "f a = Some L1" "built_elements f k n (a + k) = Some L2" "L = L1 @ L2"
    by auto
  have "same_on (span b a k \<union> extents L1) m m'" "same_on (span b (a + k) (n * k) \<union> extents L2) m m'"
    using Suc.prems(2) L(3) span_add [of b a k "n * k"] by (auto intro: same_on_mono)
  with assms [OF L(1)] Suc.IH [OF L(2)] L(3) show ?case by auto
qed simp

lemma built_same:
  assumes c: "positive_conf c"
  shows "wf_message mm \<Longrightarrow> built_message fresh c mm b a mem = Some L \<Longrightarrow>
      same_on (span b a (unat (size_of mm)) \<union> extents L) mem mem' \<Longrightarrow>
      built_message fresh c mm b a mem' = Some L"
    and "wf_members lo hi ms \<Longrightarrow> built_members fresh c ms b a mem = Some L \<Longrightarrow>
      same_on (span b (a + lo) (hi - lo) \<union> extents L) mem mem' \<Longrightarrow>
      built_members fresh c ms b a mem' = Some L"
proof (induction mm and ms arbitrary: b a L and lo hi b a L rule: message_induct)
  case (1 mm)
  have "wf_members 0 (unat (size_of mm)) (member_list mm)"
    using 1(2) by (simp add: wf_message.simps)
  from 1(1) [OF this, of b a L] 1(3,4) show ?case by (simp add: built_message.simps)
next
  case 2
  then show ?case by (simp add: built_members.simps)
next
  case (3 m ms)
  note w = wf_members_first [OF 3(3)]
  let ?p = "a + unat (member_offset m)"
  have inner: "built_inner fresh c m d q mem' = Some M"
    if M: "built_inner fresh c m d q mem = Some M"
      and same: "same_on (span d q n \<union> extents M) mem mem'"
      and n: "\<And>mm. type_id m = TYPE_COMPOSED \<Longrightarrow> rec_members m = Inr mm \<Longrightarrow>
        (if is_sequence m then capacity_of c m else 1) * unat (size_of mm) = n"
    for d q n M
  proof (cases "type_id m = TYPE_COMPOSED")
    case True
    then obtain mm where mm: "rec_members m = Inr mm" "wf_message mm" using w(4) by blast
    from M True mm have "built_elements (\<lambda>q. built_message fresh c mm d q mem) (unat (size_of mm))
        (if is_sequence m then capacity_of c m else 1) q = Some M"
      by (simp add: built_inner.simps)
    from built_elements_same [OF _ this, of d mem mem' "\<lambda>q. built_message fresh c mm d q mem'"]
      3(1) [OF True mm] same n [OF True mm(1)]
    show ?thesis using True mm by (simp add: built_inner.simps)
  qed (use M in \<open>simp add: built_inner.simps\<close>)
  from 3(4) obtain L1 L2 where L: "L = L1 @ L2" and ms: "built_members fresh c ms b a mem = Some L2"
    and m: "(if has_header m
        then (case header_extent fresh c m (Ptr b ?p) mem of
                None \<Rightarrow> None
              | Some (d, o', n) \<Rightarrow>
                  append_extents (Some [(d, o', n)]) (built_inner fresh c m d o' mem))
        else built_inner fresh c m b ?p mem) = Some L1"
    by (auto simp: built_members.simps Let_def)
  have sub: "span b ?p (touched m) \<subseteq> span b (a + lo) (hi - lo)"
    "span b (a + (unat (member_offset m) + touched m)) (hi - (unat (member_offset m) + touched m))
      \<subseteq> span b (a + lo) (hi - lo)"
    using w by (auto simp: mem_span)
  have rest: "built_members fresh c ms b a mem' = Some L2"
    using 3(2) [OF w(3) ms] 3(5) sub(2) L by (auto intro: same_on_mono)
  have "(if has_header m
        then (case header_extent fresh c m (Ptr b ?p) mem' of
                None \<Rightarrow> None
              | Some (d, o', n) \<Rightarrow>
                  append_extents (Some [(d, o', n)]) (built_inner fresh c m d o' mem'))
        else built_inner fresh c m b ?p mem') = Some L1"
  proof (cases "has_header m")
    case True
    with m obtain d o' n M where E: "header_extent fresh c m (Ptr b ?p) mem = Some (d, o', n)"
      and M: "built_inner fresh c m d o' mem = Some M" and L1: "L1 = (d, o', n) # M"
      by (auto split: option.splits)
    have n: "n = extent_length c m" using E by (simp add: header_extent_Some)
    have same: "same_on (span b ?p 12 \<union> span d o' n) mem mem'" "same_on (span d o' n \<union> extents M) mem mem'"
      using 3(5) sub(1) True L L1 by (auto intro: same_on_mono)
    have "header_extent fresh c m (Ptr b ?p) mem' = Some (d, o', n)"
      by (rule header_extent_same [OF E extent_length_positive [OF 3(3) c] same(1)])
    moreover have "built_inner fresh c m d o' mem' = Some M"
    proof (rule inner [OF M same(2)])
      fix mm assume "type_id m = TYPE_COMPOSED" "rec_members m = Inr mm"
      with True n show "(if is_sequence m then capacity_of c m else 1) * unat (size_of mm) = n"
        by (auto simp: has_header_def TYPE_STRING_def TYPE_COMPOSED_def extent_length_def elem_size_def member_size_def)
    qed
    ultimately show ?thesis using True L1 by simp
  next
    case False
    with m have M: "built_inner fresh c m b ?p mem = Some L1" by simp
    have "built_inner fresh c m b ?p mem' = Some L1"
    proof (rule inner [OF M])
      show "same_on (span b ?p (touched m) \<union> extents L1) mem mem'"
        using 3(5) sub(1) L by (auto intro: same_on_mono)
      fix mm assume "type_id m = TYPE_COMPOSED" "rec_members m = Inr mm"
      with False show "(if is_sequence m then capacity_of c m else 1) * unat (size_of mm) = touched m"
        by (simp add: touched_message) (simp add: has_header_def)
    qed
    with False show ?thesis by simp
  qed
  with rest L show ?case by (simp add: built_members.simps Let_def)
qed

text \<open>The part of a message that belongs to one member.\<close>

definition built_member ::
    "bool \<Rightarrow> memory_conf \<Rightarrow> message_member \<Rightarrow> nat \<Rightarrow> nat \<Rightarrow> mem \<Rightarrow> extent list option" where
  "built_member fresh c m b a mem = built_members fresh c [m] b a mem"

lemma built_members_Cons:
  "built_members fresh c (m # ms) b a mem =
     append_extents (built_member fresh c m b a mem) (built_members fresh c ms b a mem)"
  by (auto simp: built_member_def built_members.simps append_extents_def split: option.splits)

lemma built_member_plain:
  "\<not> has_header m \<Longrightarrow>
   built_member fresh c m b a mem = built_inner fresh c m b (a + unat (member_offset m)) mem"
  by (auto simp: built_member_def built_members.simps append_extents_def split: option.splits)

lemma built_member_header:
  "has_header m \<Longrightarrow> header_extent fresh c m (Ptr b (a + unat (member_offset m))) mem = Some (d, o', n) \<Longrightarrow>
   built_member fresh c m b a mem = append_extents (Some [(d, o', n)]) (built_inner fresh c m d o' mem)"
  by (auto simp: built_member_def built_members.simps append_extents_def split: option.splits)

lemma built_member_headerE:
  assumes "built_member fresh c m b a mem = Some L" and "has_header m"
  obtains d o' n M where "header_extent fresh c m (Ptr b (a + unat (member_offset m))) mem = Some (d, o', n)"
    and "built_inner fresh c m d o' mem = Some M" and "L = (d, o', n) # M"
  using assms by (auto simp: built_member_def built_members.simps Let_def split: option.splits)

lemma wf_members_single:
  assumes "wf_members lo hi (m # ms)"
  shows "wf_members (unat (member_offset m)) (unat (member_offset m) + touched m) [m]"
  using assms by (simp add: wf_members.simps)

lemma built_member_same:
  assumes "positive_conf c" and "wf_members lo hi (m # ms)"
    and "built_member fresh c m b a mem = Some L"
    and "same_on (span b (a + unat (member_offset m)) (touched m) \<union> extents L) mem mem'"
  shows "built_member fresh c m b a mem' = Some L"
  using built_same(2) [OF assms(1) wf_members_single [OF assms(2)] assms(3) [unfolded built_member_def],
      of mem'] assms(4)
  by (simp add: built_member_def)

text \<open>A fresh message is in place whatever its contents become.\<close>

lemma built_fresh:
  "built_message True c mm b a mem = Some L \<Longrightarrow> built_message False c mm b a mem = Some L"
  "built_members True c ms b a mem = Some L \<Longrightarrow> built_members False c ms b a mem = Some L"
proof (induction mm and ms arbitrary: b a L and b a L rule: message_induct)
  case (1 mm)
  then show ?case by (simp add: built_message.simps)
next
  case 2
  then show ?case by (simp add: built_members.simps)
next
  case (3 m ms)
  have inner: "built_inner False c m d q mem = Some M" if M: "built_inner True c m d q mem = Some M" for d q M
  proof (cases "type_id m = TYPE_COMPOSED")
    case True
    with M obtain mm where mm: "rec_members m = Inr mm" by (auto simp: built_inner.simps split: sum.splits)
    have "built_elements (\<lambda>q. built_message False c mm d q mem) k n a = Some N"
      if "built_elements (\<lambda>q. built_message True c mm d q mem) k n a = Some N" for k n a N
      using that 3(1) [OF True mm] by (induction n arbitrary: a N) auto
    with True M mm show ?thesis by (simp add: built_inner.simps)
  qed (use M in \<open>simp add: built_inner.simps\<close>)
  from 3(3) obtain L1 L2 where L: "L = L1 @ L2" "built_member True c m b a mem = Some L1"
    "built_members True c ms b a mem = Some L2"
    by (auto simp: built_members_Cons)
  have "built_member False c m b a mem = Some L1"
  proof (cases "has_header m")
    case True
    from built_member_headerE [OF L(2) True] obtain d o' n M where
      "header_extent True c m (Ptr b (a + unat (member_offset m))) mem = Some (d, o', n)"
      "built_inner True c m d o' mem = Some M" "L1 = (d, o', n) # M" .
    with True show ?thesis
      by (subst built_member_header [of m False c b a mem d o' n]) (auto simp: header_extent_Some inner)
  next
    case False
    with L(2) show ?thesis by (simp add: built_member_plain inner)
  qed
  with L 3(2) show ?case by (auto simp: built_members_Cons)
qed

end
