(* ===== verification/Message_Create.thy ===== *)
theory Message_Create
  imports Message_Layout
begin

text \<open>
  Creation of message memory. The traversal asks one of two providers for memory: the
  allocator, which may refuse, and the static buffer, which does not. The locale
  \<open>memory_provider\<close> is what the traversal relies on; its client lemmas say that the traversal
  changes the message and memory of the provider only, and that it builds the whole message
  exactly when the number of bytes it returns is the calculated one. Both providers of the
  code interpret it.
\<close>

section \<open>Frames\<close>

text \<open>
  \<open>frame P A P' m m'\<close>: memory was taken from the pool \<open>P\<close>, of which \<open>P'\<close> is left; bytes
  outside the pool and outside \<open>A\<close> did not change, and no byte outside the pool was lost.
\<close>

definition frame :: "addr set \<Rightarrow> addr set \<Rightarrow> addr set \<Rightarrow> mem \<Rightarrow> mem \<Rightarrow> bool" where
  "frame P A P' m m' \<longleftrightarrow> P' \<subseteq> P \<and> same_on (- (P \<union> A)) m m' \<and>
     (\<forall>x. x \<notin> P \<longrightarrow> byte_at m x \<noteq> None \<longrightarrow> byte_at m' x \<noteq> None)"

lemma frame_refl [simp]: "frame P A P m m"
  by (simp add: frame_def)

lemma frame_pool: "frame P A P' m m' \<Longrightarrow> P' \<subseteq> P"
  by (simp add: frame_def)

lemma frame_same: "frame P A P' m m' \<Longrightarrow> B \<inter> (P \<union> A) = {} \<Longrightarrow> same_on B m m'"
  by (auto simp: frame_def intro: same_on_mono)

lemma frame_live: "frame P A P' m m' \<Longrightarrow> live m B \<Longrightarrow> B \<inter> P = {} \<Longrightarrow> live m' B"
  unfolding frame_def live_def by blast

lemma frame_trans:
  assumes "frame P A P' m m'" and "frame P' B P'' m' m''" and "A \<union> B \<subseteq> P \<union> C"
  shows "frame P C P'' m m''"
proof -
  have sub: "P' \<subseteq> P" "P'' \<subseteq> P'" using assms by (simp_all add: frame_def)
  then have "same_on (- (P \<union> C)) m m'" "same_on (- (P \<union> C)) m' m''"
    using assms by (auto simp: frame_def intro: same_on_mono)
  moreover have "byte_at m'' x \<noteq> None" if "x \<notin> P" "byte_at m x \<noteq> None" for x
    using that assms(1,2) sub unfolding frame_def by blast
  ultimately show ?thesis
    using sub by (auto simp: frame_def intro: same_on_trans)
qed

lemma frame_mono: "frame P A P' m m' \<Longrightarrow> A \<subseteq> P \<union> C \<Longrightarrow> frame P C P' m m'"
  using frame_trans [of P A P' m m' "{}" P' m' C] by simp

section \<open>Extents\<close>

definition disjoint_extents :: "extent list \<Rightarrow> bool" where
  "disjoint_extents L \<longleftrightarrow>
     sorted_wrt (\<lambda>(d, o', n) (d', o'', n'). span d o' n \<inter> span d' o'' n' = {}) L"

lemma disjoint_extents_simps [simp]:
  "disjoint_extents []"
  "disjoint_extents [E]"
  "disjoint_extents (L @ M) \<longleftrightarrow> disjoint_extents L \<and> disjoint_extents M \<and> extents L \<inter> extents M = {}"
  by (fastforce simp: disjoint_extents_def sorted_wrt_append extents_def)+

lemma disjoint_extents_Cons [simp]:
  "disjoint_extents ((d, o', n) # L) \<longleftrightarrow> disjoint_extents L \<and> span d o' n \<inter> extents L = {}"
  using disjoint_extents_simps(3) [of "[(d, o', n)]" L] by auto

section \<open>Counting\<close>

text \<open>
  \<open>gain mf p q used u\<close>: between the positions \<open>p\<close> and \<open>q\<close> the used memory grew from \<open>used\<close> to
  \<open>u\<close>, by the whole difference (\<open>complete\<close>), or by less if memory may be refused.
\<close>

definition complete :: "nat \<Rightarrow> nat \<Rightarrow> size_t \<Rightarrow> size_t \<Rightarrow> bool" where
  "complete p q used u \<longleftrightarrow> unat u + p = unat used + q"

definition gain :: "bool \<Rightarrow> nat \<Rightarrow> nat \<Rightarrow> size_t \<Rightarrow> size_t \<Rightarrow> bool" where
  "gain mf p q used u \<longleftrightarrow> unat u + p \<le> unat used + q \<and> (mf \<or> complete p q used u)"

lemma gain_refl [simp]: "gain mf p p u u"
  by (simp add: gain_def complete_def)

lemma complete_refl [simp]: "complete p p u u"
  by (simp add: complete_def)

lemma gain_trans: "gain mf p q used u \<Longrightarrow> gain mf q r u v \<Longrightarrow> gain mf p r used v"
  by (auto simp: gain_def complete_def)

lemma complete_split:
  "complete p r used v \<Longrightarrow> gain mf p q used u \<Longrightarrow> gain mf q r u v \<Longrightarrow> complete p q used u \<and> complete q r u v"
  by (auto simp: gain_def complete_def)

lemma gain_bound: "gain mf p q used u \<Longrightarrow> unat used \<le> p \<Longrightarrow> unat u \<le> q"
  by (simp add: gain_def)

text \<open>Adding what a nested call returned.\<close>

lemma gain_add:
  assumes "gain mf p q 0 n" and "unat used \<le> p" and "q < 2 ^ 32"
  shows "gain mf p q used (used + n)" and "complete p q used (used + n) \<longleftrightarrow> complete p q 0 n"
proof -
  have "unat used + unat n \<le> q" using assms(1,2) by (simp add: gain_def)
  then have "unat (used + n) = unat used + unat n"
    using assms(3) by (intro unat_add_small) simp
  then show "gain mf p q used (used + n)" "complete p q used (used + n) \<longleftrightarrow> complete p q 0 n"
    using assms(1) by (auto simp: gain_def complete_def)
qed

section \<open>The interface of a provider of memory\<close>

text \<open>What a provider did for one header at \<open>a\<close> of block \<open>b\<close>.\<close>

definition header_set :: "mem \<Rightarrow> nat \<Rightarrow> nat \<Rightarrow> ptr \<Rightarrow> size_t \<Rightarrow> bool" where
  "header_set m b a p cnt \<longleftrightarrow> holds_at m b a (ptr_bytes p) \<and> holds_at m b (a + 4) (size_bytes 0) \<and>
     holds_at m b (a + 8) (size_bytes cnt)"

lemma header_set_same:
  assumes "header_set m b a p cnt" and "same_on (span b a 12) m m'"
  shows "header_set m' b a p cnt"
proof -
  have "same_on (span b (a + i) 4) m m'" if "i + 4 \<le> 12" for i
    using assms(2) span_mono [OF that] by (auto intro: same_on_mono)
  from this [of 0] this [of 4] this [of 8] assms(1) show ?thesis
    by (auto simp: header_set_def intro!: holds_at_same_on [of m])
qed

lemma live_load_bytes:
  assumes "live m (span d o' n)" and "0 < n"
  shows "\<exists>bs. load_bytes n (Ptr d o') m = Inr bs"
  using live_block [OF assms] by fastforce

lemma header_extent_set:
  assumes h: "header_set mem b a (Ptr d o') (default_sequence_size c m)"
    and n: "n = extent_length c m" "0 < n" and live: "live mem (span d o' n)"
    and zero: "type_id m \<noteq> TYPE_COMPOSED \<Longrightarrow> holds_at mem d o' (replicate n zero_byte)"
  shows "header_extent True c m (Ptr b a) mem = Some (d, o', n)"
proof -
  obtain bs where bs: "load_bytes n (Ptr d o') mem = Inr bs"
    using live_load_bytes [OF live n(2)] by blast
  have "bs = replicate n zero_byte" if "type_id m \<noteq> TYPE_COMPOSED"
    using load_bytes_holds [OF zero [OF that]] n(2) bs by simp
  with h n bs show ?thesis
    unfolding header_extent_Some fresh_header_def header_set_def
    by (simp add: load_ptr_holds load_size_holds del: load_bytes.simps)
qed

locale memory_provider =
  fixes al :: rcutils_allocator_t
    and operation :: handle_message_memory_operation_t
    and ready :: "nat \<Rightarrow> tu_state \<Rightarrow> bool"
    and pool :: "tu_state \<Rightarrow> addr set"
    and acquired :: "extent list \<Rightarrow> tu_state \<Rightarrow> tu_state \<Rightarrow> bool"
    and limit :: nat
    and may_fail :: bool
  assumes creates: "operation = CREATE_OPERATION \<or> operation = CREATE_PREALLOCATED_OPERATION"
    and limit_small: "limit < 2 ^ 32"
    and acquired_Nil: "acquired [] s s"
    and acquired_append: "acquired L s s' \<Longrightarrow> acquired M s' s'' \<Longrightarrow> acquired (L @ M) s s''"
    and relax: "may_fail \<Longrightarrow> ready p s \<Longrightarrow> ready q s"
    and provide: "ready p s \<Longrightarrow> live (heap s) (span b a 12) \<Longrightarrow> span b a 12 \<inter> pool s = {} \<Longrightarrow>
      n = unat cnt * unat w \<Longrightarrow> 0 < n \<Longrightarrow> adv_of operation p n \<le> limit \<Longrightarrow>
      runs (operation_branch al operation (Ptr b a) cnt w) s (\<lambda>r s'.
        frame (pool s) (span b a 12) (pool s') (heap s) (heap s') \<and>
        (case r of
           None \<Rightarrow> may_fail \<and> ready p s'
         | Some u \<Rightarrow> unat u + p = adv_of operation p n \<and> ready (adv_of operation p n) s' \<and>
             (\<exists>d o'. acquired [(d, o', n)] s s' \<and> span d o' n \<subseteq> pool s - pool s' \<and>
               header_set (heap s') b a (Ptr d o') cnt \<and>
               holds_at (heap s') d o' (replicate n zero_byte))))"
begin

definition grows :: "addr set \<Rightarrow> nat \<Rightarrow> nat \<Rightarrow> size_t \<Rightarrow> tu_state \<Rightarrow> size_t \<Rightarrow> tu_state \<Rightarrow> bool" where
  "grows A p q used s u s' \<longleftrightarrow>
     frame (pool s) A (pool s') (heap s) (heap s') \<and> ready q s' \<and> gain may_fail p q used u"

definition owns :: "extent list \<Rightarrow> tu_state \<Rightarrow> tu_state \<Rightarrow> bool" where
  "owns L s s' \<longleftrightarrow> acquired L s s' \<and> disjoint_extents L \<and> extents L \<subseteq> pool s - pool s'"

lemma grows_refl: "ready p s \<Longrightarrow> grows A p p u s u s"
  by (simp add: grows_def)

lemma grows_trans:
  "grows A p q used s u s' \<Longrightarrow> grows B q r u s' v s'' \<Longrightarrow> A \<union> B \<subseteq> pool s \<union> C \<Longrightarrow>
   grows C p r used s v s''"
  by (auto simp: grows_def intro: frame_trans gain_trans)

lemma grows_mono: "grows A p q used s u s' \<Longrightarrow> A \<subseteq> pool s \<union> C \<Longrightarrow> grows C p q used s u s'"
  by (auto simp: grows_def intro: frame_mono)

lemma grows_pool: "grows A p q used s u s' \<Longrightarrow> pool s' \<subseteq> pool s"
  by (auto simp: grows_def dest: frame_pool)

lemma grows_complete:
  "complete p r used v \<Longrightarrow> grows A p q used s u s' \<Longrightarrow> grows B q r u s' v s'' \<Longrightarrow>
   complete p q used u \<and> complete q r u v"
  unfolding grows_def by (blast intro: complete_split [THEN conjunct1] complete_split [THEN conjunct2])

lemma grows_live: "grows A p q used s u s' \<Longrightarrow> live (heap s) B \<Longrightarrow> B \<inter> pool s = {} \<Longrightarrow> live (heap s') B"
  by (auto simp: grows_def intro: frame_live)

lemma grows_same: "grows A p q used s u s' \<Longrightarrow> B \<inter> (pool s \<union> A) = {} \<Longrightarrow> same_on B (heap s) (heap s')"
  by (auto simp: grows_def intro: frame_same)

lemma owns_Nil: "owns [] s s"
  by (simp add: owns_def acquired_Nil)

lemma owns_append:
  "owns L s s' \<Longrightarrow> owns M s' s'' \<Longrightarrow> pool s'' \<subseteq> pool s' \<Longrightarrow> pool s' \<subseteq> pool s \<Longrightarrow> owns (L @ M) s s''"
  by (auto simp: owns_def intro: acquired_append)

text \<open>The traversal of one message, and of the elements of a sequence of messages.\<close>

definition message_ok :: "rcutils_allocator_t \<Rightarrow> memory_conf \<Rightarrow> message_members \<Rightarrow> bool" where
  "message_ok dal c mm \<longleftrightarrow> (\<forall>b a p s nt.
     let q = walk_message (adv_of operation) c mm p; A = span b a (unat (size_of mm)) in
     ready p s \<longrightarrow> live (heap s) A \<longrightarrow> A \<inter> pool s = {} \<longrightarrow> q \<le> limit \<longrightarrow>
     runs (handle_message_memory dal c operation mm (Ptr b a) nt) s (\<lambda>u s'.
       grows A p q 0 s u s' \<and>
       (complete p q 0 u \<longrightarrow> (\<exists>L. built_message True c mm b a (heap s') = Some L \<and> owns L s s'))))"

lemma message_okD:
  assumes "message_ok dal c mm" and "ready p s" and "live (heap s) (span b a (unat (size_of mm)))"
    and "span b a (unat (size_of mm)) \<inter> pool s = {}" and "walk_message (adv_of operation) c mm p \<le> limit"
  shows "runs (handle_message_memory dal c operation mm (Ptr b a) nt) s (\<lambda>u s'.
    grows (span b a (unat (size_of mm))) p (walk_message (adv_of operation) c mm p) 0 s u s' \<and>
    (complete p (walk_message (adv_of operation) c mm p) 0 u \<longrightarrow>
      (\<exists>L. built_message True c mm b a (heap s') = Some L \<and> owns L s s')))"
  using assms unfolding message_ok_def Let_def by blast

lemma runs_get_data:
  "holds_at (heap s) b a (ptr_bytes p) \<Longrightarrow> runs (get_data (Ptr b a)) s P = P p s"
  by (simp add: get_data_def run_simps access_simps load_ptr_holds)

lemma element_address_create:
  "element_address operation mm p i = cbind (get_data p) (\<lambda>d. creturn (ptr_add d (of_nat i * size_of mm)))"
  using creates by (auto simp: element_address_def)

lemma advancing_adv_of: "advancing (adv_of operation)"
  by (simp add: adv_of_def advancing_plus advancing_static)

lemma funpow_walk_ge: "p \<le> (walk_message (adv_of operation) c mm ^^ n) p"
  by (intro funpow_ge walk_ge advancing_adv_of)

lemma create_elements:
  assumes message: "message_ok dal c mm" and wf: "wf_message mm" and c: "positive_conf c"
    and k: "k = unat (size_of mm)"
  shows "ready p s \<Longrightarrow> holds_at (heap s) hb ha (ptr_bytes (Ptr d o')) \<Longrightarrow>
    live (heap s) (span d (o' + i * k) (n * k)) \<Longrightarrow> span d (o' + i * k) (n * k) \<inter> pool s = {} \<Longrightarrow>
    span hb ha 4 \<inter> (pool s \<union> span d (o' + i * k) (n * k)) = {} \<Longrightarrow> (i + n) * k < 2 ^ 32 \<Longrightarrow>
    q = (walk_message (adv_of operation) c mm ^^ n) p \<Longrightarrow> q \<le> limit \<Longrightarrow> unat used \<le> p \<Longrightarrow>
    runs (handle_elements dal c operation mm (Ptr hb ha) n i nt used) s (\<lambda>u s'.
      grows (span d (o' + i * k) (n * k)) p q used s u s' \<and>
      (complete p q used u \<longrightarrow> (\<exists>L. owns L s s' \<and>
        built_elements (\<lambda>x. built_message True c mm d x (heap s')) k n (o' + i * k) = Some L)))"
proof (induction n arbitrary: i p s used)
  case 0
  then show ?case by (auto simp: handle_elements.simps run_simps grows_refl intro: owns_Nil)
next
  case (Suc n)
  let ?adv = "adv_of operation"
  let ?p1 = "walk_message ?adv c mm p"
  let ?x = "o' + i * k"
  let ?A = "span d ?x k" and ?B = "span d (o' + Suc i * k) (n * k)"
  have split: "span d ?x (Suc n * k) = ?A \<union> ?B"
    using span_add [of d ?x k "n * k"] by (simp add: algebra_simps)
  have q: "q = (walk_message ?adv c mm ^^ n) ?p1" using Suc.prems(7) by (simp add: funpow_swap1)
  then have p1: "?p1 \<le> q" by (simp add: funpow_walk_ge)
  have "i * k < 2 ^ 32" using Suc.prems(6) by (simp add: algebra_simps)
  have "unat (of_nat i * size_of mm) = i * k"
  proof (cases "k = 0")
    case True
    then have "size_of mm = 0" using k by (simp add: unat_eq_zero)
    with k show ?thesis by simp
  next
    case False
    with \<open>i * k < 2 ^ 32\<close> have "i < 2 ^ 32" by (metis One_nat_def Suc_leI le_less_trans mult.right_neutral mult_le_mono2 neq0_conv)
    with \<open>i * k < 2 ^ 32\<close> k show ?thesis by (subst unat_mult_small) simp_all
  qed
  then have address: "ptr_add (Ptr d o') (of_nat i * size_of mm) = Ptr d ?x" by simp
  have "runs (handle_message_memory dal c operation mm (Ptr d ?x) nt) s (\<lambda>u s'.
      grows ?A p ?p1 0 s u s' \<and>
      (complete p ?p1 0 u \<longrightarrow> (\<exists>L. built_message True c mm d ?x (heap s') = Some L \<and> owns L s s')))"
    unfolding k
    by (rule message_okD [OF message Suc.prems(1)])
      (use Suc.prems(3,4,8) p1 in \<open>auto simp: live_Un split simp flip: k simp del: mult_Suc\<close>)
  then have "runs (handle_message_memory dal c operation mm (Ptr d ?x) nt) s (\<lambda>u1.
      \<lambda>s1. runs (handle_elements dal c operation mm (Ptr hb ha) n (Suc i) nt (used + u1)) s1 (\<lambda>u s'.
      grows (span d ?x (Suc n * k)) p q used s u s' \<and>
      (complete p q used u \<longrightarrow> (\<exists>L. owns L s s' \<and>
        built_elements (\<lambda>x. built_message True c mm d x (heap s')) k (Suc n) ?x = Some L))))"
  proof (rule runs_mono, elim conjE)
    fix u1 s1
    assume g1: "grows ?A p ?p1 0 s u1 s1"
      and L1: "complete p ?p1 0 u1 \<longrightarrow> (\<exists>L. built_message True c mm d ?x (heap s1) = Some L \<and> owns L s s1)"
    have small: "?p1 < 2 ^ 32" using p1 Suc.prems(8) limit_small by simp
    note add = gain_add [OF _ Suc.prems(9) small, of may_fail u1]
    have gain1: "gain may_fail p ?p1 0 u1" and r1: "ready ?p1 s1" using g1 by (simp_all add: grows_def)
    have g1': "grows ?A p ?p1 used s (used + u1) s1" using g1 add by (simp add: grows_def)
    have pool: "pool s1 \<subseteq> pool s" by (rule grows_pool [OF g1])
    have header: "holds_at (heap s1) hb ha (ptr_bytes (Ptr d o'))"
      using Suc.prems(2) by (rule holds_at_same_on) (use Suc.prems(5) split in \<open>auto intro!: grows_same [OF g1]\<close>)
    have liveB: "live (heap s1) ?B"
      using Suc.prems(3,4) split by (auto simp: live_Un intro!: grows_live [OF g1])
    have "runs (handle_elements dal c operation mm (Ptr hb ha) n (Suc i) nt (used + u1)) s1 (\<lambda>u s'.
      grows ?B ?p1 q (used + u1) s1 u s' \<and>
      (complete ?p1 q (used + u1) u \<longrightarrow> (\<exists>L. owns L s1 s' \<and>
        built_elements (\<lambda>x. built_message True c mm d x (heap s')) k n (o' + Suc i * k) = Some L)))"
      by (rule Suc.IH [OF r1 header liveB _ _ _ q Suc.prems(8)])
        (use Suc.prems(4,5,6,9) split pool gain_bound [OF add(1) [OF gain1]] in auto)
    then show "runs (handle_elements dal c operation mm (Ptr hb ha) n (Suc i) nt (used + u1)) s1 (\<lambda>u s'.
      grows (span d ?x (Suc n * k)) p q used s u s' \<and>
      (complete p q used u \<longrightarrow> (\<exists>L. owns L s s' \<and>
        built_elements (\<lambda>x. built_message True c mm d x (heap s')) k (Suc n) ?x = Some L)))"
    proof (rule runs_mono, elim conjE)
      fix u s'
      assume g2: "grows ?B ?p1 q (used + u1) s1 u s'"
        and L2: "complete ?p1 q (used + u1) u \<longrightarrow> (\<exists>L. owns L s1 s' \<and>
          built_elements (\<lambda>x. built_message True c mm d x (heap s')) k n (o' + Suc i * k) = Some L)"
      have "\<exists>L. owns L s s' \<and>
          built_elements (\<lambda>x. built_message True c mm d x (heap s')) k (Suc n) ?x = Some L"
        if "complete p q used u"
      proof -
        from grows_complete [OF that g1' g2] have
          "complete p ?p1 used (used + u1)" "complete ?p1 q (used + u1) u"
          by simp_all
        with L1 L2 add(2) [OF gain1] obtain M N where
          M: "built_message True c mm d ?x (heap s1) = Some M" "owns M s s1" and
          N: "owns N s1 s'" "built_elements (\<lambda>x. built_message True c mm d x (heap s')) k n (o' + Suc i * k) = Some N"
          by blast
        have "same_on (?A \<union> extents M) (heap s1) (heap s')"
          by (rule grows_same [OF g2])
            (use M(2) Suc.prems(4) split pool in \<open>auto simp: owns_def mem_span\<close>)
        with built_same(1) [OF c wf M(1)] k have "built_message True c mm d ?x (heap s') = Some M" by simp
        with owns_append [OF M(2) N(1) grows_pool [OF g2] pool] N(2) show ?thesis
          by (auto simp: algebra_simps)
      qed
      with grows_trans [OF g1' g2, of "span d ?x (Suc n * k)"] split
      show "grows (span d ?x (Suc n * k)) p q used s u s' \<and>
        (complete p q used u \<longrightarrow> (\<exists>L. owns L s s' \<and>
          built_elements (\<lambda>x. built_message True c mm d x (heap s')) k (Suc n) ?x = Some L))" by blast
    qed
  qed
  then show ?case
    using Suc.prems(2) by (simp add: handle_elements.simps element_address_create run_simps runs_get_data address del: ptr_add.simps)
qed

text \<open>Opening a member: what the provider did, in the vocabulary of the traversal.\<close>

lemma create_open:
  assumes ready: "ready p s" and wf: "wf_members lo hi (m # ms)" and c: "positive_conf c"
    and B: "B = span b (a + unat (member_offset m)) (touched m)"
    and live: "live (heap s) B" "B \<inter> pool s = {}" and n: "n = extent_length c m"
    and p1: "p1 = walk_open (adv_of operation) c m p" "p1 \<le> limit"
    and used: "unat used \<le> p" and al: "chosen_allocator dal c = al"
  shows "runs (open_member dal c operation m (Ptr b a) nt used) s (\<lambda>r s'.
    case r of
      None \<Rightarrow> may_fail \<and> has_header m \<and> ready p s' \<and> frame (pool s) B (pool s') (heap s) (heap s')
    | Some (cnt, u) \<Rightarrow> grows B p p1 used s u s' \<and> complete p p1 used u \<and>
        (if has_header m
         then cnt = default_sequence_size c m \<and>
           (\<exists>d o'. owns [(d, o', n)] s s' \<and>
              header_set (heap s') b (a + unat (member_offset m)) (Ptr d o') cnt \<and>
              holds_at (heap s') d o' (replicate n zero_byte))
         else cnt = 0 \<and> s' = s))"
proof -
  obtain w where w: "member_size m = Inr w" "w \<noteq> 0" "elem_size m = unat w"
    using wf by (rule wf_member_size)
  have c0: "n_rules c = 0" using c by (simp add: positive_conf_def)
  show ?thesis
  proof (cases "has_header m")
    case False
    with p1 ready show ?thesis
      by (simp add: open_member_header [OF c0 w(1)] run_simps walk_open_def grows_refl)
  next
    case True
    let ?cnt = "default_sequence_size c m"
    let ?x = "a + unat (member_offset m)"
    have n': "n = unat ?cnt * unat w" using n w by (simp add: extent_length_def capacity_of_def)
    have pos: "0 < n" using extent_length_positive [OF wf c] n by simp
    have p1': "p1 = adv_of operation p n" using p1 True n by (simp add: walk_open_def)
    have B': "B = span b ?x 12" using B True by simp
    have "runs (operation_branch al operation (Ptr b ?x) ?cnt w) s (\<lambda>r s'.
        frame (pool s) B (pool s') (heap s) (heap s') \<and>
        (case r of
           None \<Rightarrow> may_fail \<and> ready p s'
         | Some u \<Rightarrow> unat u + p = p1 \<and> ready p1 s' \<and>
             (\<exists>d o'. acquired [(d, o', n)] s s' \<and> span d o' n \<subseteq> pool s - pool s' \<and>
               header_set (heap s') b ?x (Ptr d o') ?cnt \<and>
               holds_at (heap s') d o' (replicate n zero_byte))))"
      unfolding B' p1' by (rule provide [OF ready _ _ n' pos]) (use live B' p1 p1' in auto)
    then show ?thesis
      unfolding open_member_header [OF c0 w(1)] using True al
      apply (simp add: run_simps)
      apply (erule runs_mono)
      subgoal for r s'
        using gain_add [of may_fail p p1 "the r" used, OF _ used] p1(2) limit_small
        by (cases r) (auto simp: grows_def gain_def complete_def owns_def)
      done
  qed
qed

text \<open>The members of a composed member: of each element of a sequence, or of the member itself.\<close>

lemma create_inner_sequence:
  assumes IH: "\<And>mm. type_id m = TYPE_COMPOSED \<Longrightarrow> rec_members m = Inr mm \<Longrightarrow> wf_message mm \<Longrightarrow> message_ok dal c mm"
    and wf: "wf_members lo hi (m # ms)" and c: "positive_conf c" and header: "has_header m"
    and x: "x = a + unat (member_offset m)" and n: "n = extent_length c m" "n < 2 ^ 32"
    and ready: "ready p s" and data: "holds_at (heap s) b x (ptr_bytes (Ptr d o'))"
    and live: "live (heap s) (span d o' n)" "span d o' n \<inter> pool s = {}"
    and apart: "span b x 12 \<inter> (pool s \<union> span d o' n) = {}"
    and q: "q = walk_inner (adv_of operation) c m p" "q \<le> limit" and used: "unat used \<le> p"
  shows "runs (handle_inner dal c operation m (Ptr b a) nt (default_sequence_size c m) used) s (\<lambda>u s'.
    grows (span d o' n) p q used s u s' \<and> (type_id m \<noteq> TYPE_COMPOSED \<longrightarrow> s' = s) \<and>
    (complete p q used u \<longrightarrow> (\<exists>M. built_inner True c m d o' (heap s') = Some M \<and> owns M s s')))"
proof (cases "type_id m = TYPE_COMPOSED")
  case False
  with q ready show ?thesis
    by (simp add: handle_inner_def run_simps walk_inner.simps built_inner.simps grows_refl owns_Nil)
next
  case True
  obtain mm where mm: "rec_members m = Inr mm" "wf_message mm"
    using wf_members_first(4) [OF wf True] by blast
  let ?k = "unat (size_of mm)" and ?cap = "capacity_of c m"
  have n': "n = ?cap * ?k" using n composed_extent_length [OF True mm(1)] by simp
  have seq: "is_sequence m" using header composed_header [OF True] by simp
  have apart4: "span b x 4 \<inter> (pool s \<union> span d (o' + 0 * ?k) (?cap * ?k)) = {}"
    using apart span_mono [of 0 4 12 b x] n' by auto
  have "runs (handle_elements dal c operation mm (Ptr b x) ?cap 0 nt used) s (\<lambda>u s'.
      grows (span d (o' + 0 * ?k) (?cap * ?k)) p q used s u s' \<and>
      (complete p q used u \<longrightarrow> (\<exists>L. owns L s s' \<and>
        built_elements (\<lambda>x. built_message True c mm d x (heap s')) ?k ?cap (o' + 0 * ?k) = Some L)))"
    by (rule create_elements [OF IH [OF True mm] mm(2) c refl ready data _ _ apart4])
      (use live n n' q used mm seq True in \<open>auto simp: walk_inner.simps\<close>)
  then show ?thesis
    using True mm seq x n' by (auto simp: handle_inner_def capacity_of_def built_inner.simps elim: runs_mono)
qed

lemma create_inner_plain:
  assumes IH: "\<And>mm. type_id m = TYPE_COMPOSED \<Longrightarrow> rec_members m = Inr mm \<Longrightarrow> wf_message mm \<Longrightarrow> message_ok dal c mm"
    and wf: "wf_members lo hi (m # ms)" and plain: "\<not> has_header m"
    and x: "x = a + unat (member_offset m)" and B: "B = span b x (touched m)"
    and ready: "ready p s" and live: "live (heap s) B" "B \<inter> pool s = {}"
    and q: "q = walk_inner (adv_of operation) c m p" "q \<le> limit" and used: "unat used \<le> p"
  shows "runs (handle_inner dal c operation m (Ptr b a) nt cnt used) s (\<lambda>u s'.
    grows B p q used s u s' \<and>
    (complete p q used u \<longrightarrow> (\<exists>M. built_inner True c m b x (heap s') = Some M \<and> owns M s s')))"
proof (cases "type_id m = TYPE_COMPOSED")
  case False
  with q ready show ?thesis
    by (simp add: handle_inner_def run_simps walk_inner.simps built_inner.simps grows_refl owns_Nil)
next
  case True
  obtain mm where mm: "rec_members m = Inr mm" "wf_message mm"
    using wf_members_first(4) [OF wf True] by blast
  have single: "\<not> is_sequence m" using plain composed_header [OF True] by simp
  have q': "q = walk_message (adv_of operation) c mm p"
    using q True mm single by (simp add: walk_inner.simps)
  have B': "B = span b x (unat (size_of mm))" using B touched_message [OF plain True mm(1)] by simp
  have "runs (handle_message_memory dal c operation mm (Ptr b x) nt) s (\<lambda>u s'.
      grows B p q 0 s u s' \<and>
      (complete p q 0 u \<longrightarrow> (\<exists>L. built_message True c mm b x (heap s') = Some L \<and> owns L s s')))"
    unfolding B' q' by (rule message_okD [OF IH [OF True mm] ready]) (use live q q' B' in simp_all)
  then have "runs (handle_message_memory dal c operation mm (Ptr b x) nt) s (\<lambda>u s'.
      grows B p q used s (used + u) s' \<and>
      (complete p q used (used + u) \<longrightarrow> (\<exists>L. built_message True c mm b x (heap s') = Some L \<and> owns L s s')))"
    by (rule runs_mono) (use gain_add [of may_fail p q _ used] used q limit_small in \<open>auto simp: grows_def\<close>)
  then show ?thesis
    using True mm single x by (simp add: handle_inner_def run_simps built_inner.simps)
qed

text \<open>One member, opened and filled.\<close>

lemma create_member:
  assumes IH: "\<And>mm. type_id m = TYPE_COMPOSED \<Longrightarrow> rec_members m = Inr mm \<Longrightarrow> wf_message mm \<Longrightarrow> message_ok dal c mm"
    and wf: "wf_members lo hi (m # ms)" and c: "positive_conf c" and al: "chosen_allocator dal c = al"
    and B: "B = span b (a + unat (member_offset m)) (touched m)"
    and ready: "ready p s" and live: "live (heap s) B" "B \<inter> pool s = {}"
    and q: "q = walk_inner (adv_of operation) c m (walk_open (adv_of operation) c m p)" "q \<le> limit"
    and used: "unat used \<le> p"
  shows "runs (open_member dal c operation m (Ptr b a) nt used) s (\<lambda>r t.
    case r of
      None \<Rightarrow> may_fail \<and> has_header m \<and> ready p t \<and> frame (pool s) B (pool t) (heap s) (heap t)
    | Some (cnt, u) \<Rightarrow>
        runs (handle_inner dal c operation m (Ptr b a) nt cnt u) t (\<lambda>v s'.
          grows B p q used s v s' \<and>
          (complete p q used v \<longrightarrow> (\<exists>L. built_member True c m b a (heap s') = Some L \<and> owns L s s'))))"
proof -
  let ?adv = "adv_of operation"
  let ?x = "a + unat (member_offset m)"
  define p1 where "p1 = walk_open ?adv c m p"
  define n where "n = extent_length c m"
  have q': "q = walk_inner ?adv c m p1" using q p1_def by simp
  have p1q: "p1 \<le> q" unfolding q' by (rule walk_ge(3) [OF advancing_adv_of])
  have opened: "runs (open_member dal c operation m (Ptr b a) nt used) s (\<lambda>r s'.
    case r of
      None \<Rightarrow> may_fail \<and> has_header m \<and> ready p s' \<and> frame (pool s) B (pool s') (heap s) (heap s')
    | Some (cnt, u) \<Rightarrow> grows B p p1 used s u s' \<and> complete p p1 used u \<and>
        (if has_header m
         then cnt = default_sequence_size c m \<and>
           (\<exists>d o'. owns [(d, o', n)] s s' \<and> header_set (heap s') b ?x (Ptr d o') cnt \<and>
              holds_at (heap s') d o' (replicate n zero_byte))
         else cnt = 0 \<and> s' = s))"
    by (rule create_open [OF ready wf c B live n_def p1_def _ used al]) (use p1q q in simp)
  show ?thesis
  proof (rule runs_mono [OF opened], goal_cases)
    case (1 r t)
    show ?case
    proof (cases r)
      case None
      with 1 show ?thesis by simp
    next
      case (Some cu)
      obtain cnt u where r: "r = Some (cnt, u)" using Some by (cases cu) simp
      with 1 have g1: "grows B p p1 used s u t" and u: "complete p p1 used u" by auto
      have u1: "unat u \<le> p1" using used u by (simp add: complete_def)
      show ?thesis
      proof (cases "has_header m")
        case False
        with 1 r have t: "t = s" by simp
        have "runs (handle_inner dal c operation m (Ptr b a) nt cnt u) s (\<lambda>v s'.
            grows B p1 q u s v s' \<and>
            (complete p1 q u v \<longrightarrow> (\<exists>M. built_inner True c m b ?x (heap s') = Some M \<and> owns M s s')))"
          by (rule create_inner_plain [OF IH wf False refl B _ live q' q(2) u1])
            (use g1 t in \<open>auto simp: grows_def\<close>)
        then show ?thesis
          unfolding r t option.case prod.case
        proof (rule runs_mono, elim conjE, intro conjI impI)
          fix v s' assume g2: "grows B p1 q u s v s'"
          then show "grows B p q used s v s'" by (rule grows_trans [OF g1 [unfolded t]]) simp
          assume "complete p q used v" "complete p1 q u v \<longrightarrow> (\<exists>M. built_inner True c m b ?x (heap s') = Some M \<and> owns M s s')"
          with grows_complete [OF _ g1 [unfolded t] g2] False
          show "\<exists>L. built_member True c m b a (heap s') = Some L \<and> owns L s s'"
            by (simp add: built_member_plain)
        qed
      next
        case True
        with 1 r obtain d o' where cnt: "cnt = default_sequence_size c m" and own: "owns [(d, o', n)] s t"
          and h: "header_set (heap t) b ?x (Ptr d o') cnt"
          and zero: "holds_at (heap t) d o' (replicate n zero_byte)" by auto
        have B': "B = span b ?x 12" using B True by simp
        have pos: "0 < n" using extent_length_positive [OF wf c] n_def by simp
        have E: "span d o' n \<subseteq> pool s - pool t" using own by (simp add: owns_def)
        have liveE: "live (heap t) (span d o' n)" using holds_at_live [OF zero] by simp
        have apart: "span b ?x 12 \<inter> (pool t \<union> span d o' n) = {}"
          using live(2) E grows_pool [OF g1] B' by auto
        have "runs (handle_inner dal c operation m (Ptr b a) nt cnt u) t (\<lambda>v s'.
            grows (span d o' n) p1 q u t v s' \<and> (type_id m \<noteq> TYPE_COMPOSED \<longrightarrow> s' = t) \<and>
            (complete p1 q u v \<longrightarrow> (\<exists>M. built_inner True c m d o' (heap s') = Some M \<and> owns M t s')))"
          unfolding cnt
        proof (rule create_inner_sequence [OF IH wf c True refl n_def _ _ _ liveE _ apart q' q(2) u1])
          have "n + p \<le> p1"
            using advancing_adv_of True unfolding p1_def n_def walk_open_def advancing_def by (simp add: add.commute)
          then show "n < 2 ^ 32" using p1q q(2) limit_small by simp
          show "ready p1 t" using g1 by (simp add: grows_def)
          show "holds_at (heap t) b ?x (ptr_bytes (Ptr d o'))" using h by (simp add: header_set_def)
          show "span d o' n \<inter> pool t = {}" using E by blast
        qed
        then show ?thesis
          unfolding r option.case prod.case
        proof (rule runs_mono, elim conjE, intro conjI impI)
          fix v s' assume g2: "grows (span d o' n) p1 q u t v s'" and same: "type_id m \<noteq> TYPE_COMPOSED \<longrightarrow> s' = t"
          show "grows B p q used s v s'"
            by (rule grows_trans [OF g1 g2]) (use E in auto)
          assume "complete p q used v" "complete p1 q u v \<longrightarrow> (\<exists>M. built_inner True c m d o' (heap s') = Some M \<and> owns M t s')"
          with grows_complete [OF _ g1 g2] obtain M where
            M: "built_inner True c m d o' (heap s') = Some M" "owns M t s'" by blast
          have "header_extent True c m (Ptr b ?x) (heap s') = Some (d, o', n)"
          proof (rule header_extent_set [OF _ n_def pos])
            show "header_set (heap s') b ?x (Ptr d o') (default_sequence_size c m)"
              using h unfolding cnt by (rule header_set_same) (use apart in \<open>auto intro!: grows_same [OF g2]\<close>)
            show "live (heap s') (span d o' n)"
              using E by (auto intro!: grows_live [OF g2 liveE])
            show "holds_at (heap s') d o' (replicate n zero_byte)" if "type_id m \<noteq> TYPE_COMPOSED"
              using same that zero by simp
          qed
          with M(1) True have "built_member True c m b a (heap s') = Some ([(d, o', n)] @ M)"
            by (simp add: built_member_header)
          then show "\<exists>L. built_member True c m b a (heap s') = Some L \<and> owns L s s'"
            using owns_append [OF own M(2) grows_pool [OF g2] grows_pool [OF g1]] by blast
        qed
      qed
    qed
  qed
qed

lemma close_creates [simp]: "close_member dal c operation m msg = creturn ()"
  using creates by (auto simp: close_member_def cwhen_def)

text \<open>The whole traversal, by induction over the description.\<close>

lemma create_traversal:
  assumes c: "positive_conf c" and al: "chosen_allocator dal c = al"
  shows "wf_message mm \<Longrightarrow> message_ok dal c mm"
    and "wf_members lo hi ms \<Longrightarrow> ready p s \<Longrightarrow> live (heap s) (span b (a + lo) (hi - lo)) \<Longrightarrow>
      span b (a + lo) (hi - lo) \<inter> pool s = {} \<Longrightarrow> walk_members (adv_of operation) c ms p \<le> limit \<Longrightarrow>
      unat used \<le> p \<Longrightarrow>
      runs (handle_members dal c operation ms (Ptr b a) nt used) s (\<lambda>u s'.
        grows (span b (a + lo) (hi - lo)) p (walk_members (adv_of operation) c ms p) used s u s' \<and>
        (complete p (walk_members (adv_of operation) c ms p) used u \<longrightarrow>
          (\<exists>L. built_members True c ms b a (heap s') = Some L \<and> owns L s s')))"
proof (induction mm and ms arbitrary: and lo hi b a p s nt used rule: message_induct)
  case (1 mm)
  have wf: "wf_members 0 (unat (size_of mm)) (member_list mm)" using 1(2) by (simp add: wf_message.simps)
  show ?case
    unfolding message_ok_def Let_def handle_message_memory.simps walk_message.simps built_message.simps
  proof (intro allI impI)
    fix b a p s nt
    assume "ready p s" "live (heap s) (span b a (unat (size_of mm)))"
      "span b a (unat (size_of mm)) \<inter> pool s = {}"
      "walk_members (adv_of operation) c (member_list mm) p \<le> limit"
    then show "runs (handle_members dal c operation (member_list mm) (Ptr b a) nt 0) s (\<lambda>u s'.
        grows (span b a (unat (size_of mm))) p (walk_members (adv_of operation) c (member_list mm) p) 0 s u s' \<and>
        (complete p (walk_members (adv_of operation) c (member_list mm) p) 0 u \<longrightarrow>
          (\<exists>L. built_members True c (member_list mm) b a (heap s') = Some L \<and> owns L s s')))"
      using 1(1) [OF wf, of p s b a 0 nt] by simp
  qed
next
  case 2
  then show ?case
    by (simp add: handle_members.simps run_simps walk_members.simps built_members.simps grows_refl owns_Nil)
next
  case (3 m ms)
  let ?adv = "adv_of operation"
  note wf = wf_members_first [OF 3(3)]
  let ?A = "span b (a + lo) (hi - lo)"
  let ?off = "unat (member_offset m)"
  let ?B = "span b (a + ?off) (touched m)"
  let ?C = "span b (a + (?off + touched m)) (hi - (?off + touched m))"
  define p1 where "p1 = walk_open ?adv c m p"
  define p2 where "p2 = walk_inner ?adv c m p1"
  define q where "q = walk_members ?adv c ms p2"
  have q: "walk_members ?adv c (m # ms) p = q" by (simp add: walk_members.simps p1_def p2_def q_def)
  have p12: "p \<le> p1" "p1 \<le> p2" "p2 \<le> q"
    unfolding p1_def p2_def q_def by (intro walk_open_ge walk_ge advancing_adv_of)+
  have sub: "?B \<subseteq> ?A" "?C \<subseteq> ?A" "?B \<inter> ?C = {}"
    using wf(1,2) by (auto simp: mem_span)
  have step: "runs (open_member dal c operation m (Ptr b a) nt used) s (\<lambda>r t.
    case r of
      None \<Rightarrow> may_fail \<and> has_header m \<and> ready p t \<and> frame (pool s) ?B (pool t) (heap s) (heap t)
    | Some (cnt, u) \<Rightarrow>
        runs (handle_inner dal c operation m (Ptr b a) nt cnt u) t (\<lambda>v s'.
          grows ?B p p2 used s v s' \<and>
          (complete p p2 used v \<longrightarrow> (\<exists>L. built_member True c m b a (heap s') = Some L \<and> owns L s s'))))"
    by (rule create_member [OF _ 3(3) c al refl 3(4) _ _ _ _ 3(8)])
      (use 3(1,5,6,7) sub(1) q p12 in \<open>auto simp: p2_def p1_def intro: live_mono\<close>)
  have c0: "n_rules c = 0" using c by (simp add: positive_conf_def)
  show ?case
    unfolding handle_members_Cons [OF c0] q runs_cbind
  proof (rule runs_mono [OF step], goal_cases)
    case (1 r t)
    show ?case
    proof (cases r)
      case None
      with 1 have fail: may_fail "has_header m" "ready p t" "frame (pool s) ?B (pool t) (heap s) (heap t)" by auto
      have "0 < extent_length c m" by (rule extent_length_positive [OF 3(3) c])
      moreover have "p + extent_length c m \<le> p1"
        using advancing_adv_of fail(2) by (simp add: p1_def walk_open_def advancing_def)
      ultimately have "p < q" using p12 by linarith
      moreover have "ready q t" by (rule relax [OF fail(1,3)])
      moreover have "frame (pool s) ?A (pool t) (heap s) (heap t)"
        by (rule frame_mono [OF fail(4)]) (use sub in blast)
      ultimately show ?thesis
        using None fail(1) unfolding grows_def gain_def complete_def by (simp add: run_simps)
    next
      case (Some cu)
      obtain cnt u where r: "r = Some (cnt, u)" using Some by (cases cu) simp
      from 1 have inner: "runs (handle_inner dal c operation m (Ptr b a) nt cnt u) t (\<lambda>v s'.
          grows ?B p p2 used s v s' \<and>
          (complete p p2 used v \<longrightarrow> (\<exists>L. built_member True c m b a (heap s') = Some L \<and> owns L s s')))"
        by (simp add: r)
      show ?thesis
        unfolding r option.case prod.case runs_cbind
      proof (rule runs_mono [OF inner], elim conjE)
        fix v s1
        assume g1: "grows ?B p p2 used s v s1"
          and L1: "complete p p2 used v \<longrightarrow> (\<exists>L. built_member True c m b a (heap s1) = Some L \<and> owns L s s1)"
        have "ready p2 s1" "unat v \<le> p2"
          using g1 3(8) by (auto simp: grows_def dest: gain_bound)
        moreover have "live (heap s1) ?C"
          by (rule grows_live [OF g1]) (use 3(5,6) sub in \<open>auto intro: live_mono\<close>)
        moreover have "?C \<inter> pool s1 = {}" using 3(6) sub(2) grows_pool [OF g1] by blast
        moreover have "walk_members ?adv c ms p2 \<le> limit" using 3(7) q q_def by simp
        ultimately have "runs (handle_members dal c operation ms (Ptr b a) nt v) s1 (\<lambda>u s'.
          grows ?C p2 q v s1 u s' \<and>
          (complete p2 q v u \<longrightarrow> (\<exists>L. built_members True c ms b a (heap s') = Some L \<and> owns L s1 s')))"
          using 3(2) [OF wf(3), of p2 s1 b a v nt] by (simp add: q_def)
        then show "runs (cseq (close_member dal c operation m (Ptr b a))
            (handle_members dal c operation ms (Ptr b a) nt v)) s1 (\<lambda>u s'.
            grows ?A p q used s u s' \<and>
            (complete p q used u \<longrightarrow>
              (\<exists>L. built_members True c (m # ms) b a (heap s') = Some L \<and> owns L s s')))"
          unfolding close_creates runs_cseq runs_creturn
        proof (rule runs_mono, elim conjE, intro conjI impI)
          fix u s' assume g2: "grows ?C p2 q v s1 u s'"
          show "grows ?A p q used s u s'" by (rule grows_trans [OF g1 g2]) (use sub in blast)
          assume "complete p q used u"
            and L2: "complete p2 q v u \<longrightarrow> (\<exists>L. built_members True c ms b a (heap s') = Some L \<and> owns L s1 s')"
          with grows_complete [OF _ g1 g2] L1 obtain M N where
            M: "built_member True c m b a (heap s1) = Some M" "owns M s s1"
            and N: "built_members True c ms b a (heap s') = Some N" "owns N s1 s'" by blast
          have "same_on (?B \<union> extents M) (heap s1) (heap s')"
            by (rule grows_same [OF g2])
              (use M(2) 3(6) sub grows_pool [OF g1] in \<open>auto simp: owns_def\<close>)
          then have "built_member True c m b a (heap s') = Some M"
            by (rule built_member_same [OF c 3(3) M(1)])
          with N(1) owns_append [OF M(2) N(2) grows_pool [OF g2] grows_pool [OF g1]]
          show "\<exists>L. built_members True c (m # ms) b a (heap s') = Some L \<and> owns L s s'"
            by (auto simp: built_members_Cons)
        qed
      qed
    qed
  qed
qed

text \<open>A whole message, from position 0.\<close>

lemma create_message:
  assumes "positive_conf c" and "chosen_allocator dal c = al" and "wf_message mm" and "ready 0 s"
    and "live (heap s) (span b a (unat (size_of mm)))" and "span b a (unat (size_of mm)) \<inter> pool s = {}"
    and "q = walk_message (adv_of operation) c mm 0" and "q \<le> limit"
  shows "runs (handle_message_memory dal c operation mm (Ptr b a) nt) s (\<lambda>u s'.
    frame (pool s) (span b a (unat (size_of mm))) (pool s') (heap s) (heap s') \<and>
    ready q s' \<and> unat u \<le> q \<and> (may_fail \<or> unat u = q) \<and>
    (unat u = q \<longrightarrow> (\<exists>L. built_message True c mm b a (heap s') = Some L \<and> acquired L s s' \<and>
        disjoint_extents L \<and> extents L \<subseteq> pool s - pool s')))"
  using message_okD [OF create_traversal(1) [OF assms(1,2,3)] assms(4,5,6), of nt] assms(7,8)
  by (auto simp: grows_def gain_def complete_def owns_def elim!: runs_mono)

end

section \<open>Writing a header\<close>

definition kind_of :: "mem \<Rightarrow> nat \<Rightarrow> block_kind option" where
  "kind_of m d = map_option fst (blocks m d)"

text \<open>\<open>wrote b a xs m m'\<close>: a store of \<open>xs\<close>.\<close>

definition wrote :: "nat \<Rightarrow> nat \<Rightarrow> mbyte list \<Rightarrow> mem \<Rightarrow> mem \<Rightarrow> bool" where
  "wrote b a xs m m' \<longleftrightarrow> same_on (- span b a (length xs)) m m' \<and> holds_at m' b a xs \<and>
     kind_of m' = kind_of m \<and> (\<forall>A. live m A \<longrightarrow> live m' A)"

lemma runs_wrote:
  assumes "live m (span b a (length xs))" and "0 < length xs" and "\<And>m'. wrote b a xs m m' \<Longrightarrow> P () m'"
  shows "runs (cupdate (store_bytes xs (Ptr b a))) m P"
  using assms(1,2)
  by (rule runs_store_bytes) (auto simp: wrote_def kind_of_def fun_eq_iff intro!: assms(3) live_store)

lemma runs_set_data:
  assumes "live (heap s) (span b a 4)" and "\<And>m'. wrote b a (ptr_bytes p) (heap s) m' \<Longrightarrow> P () (s\<lparr>heap := m'\<rparr>)"
  shows "runs (set_data (Ptr b a) p) s P"
  unfolding set_data_def runs_on_heap store_ptr_def by (rule runs_wrote) (use assms in simp_all)

lemma unat_4: "unat (4 :: size_t) = 4" and unat_8: "unat (8 :: size_t) = 8"
  by simp_all

lemma runs_set_size:
  assumes "live (heap s) (span b (a + 4) 4)"
    and "\<And>m'. wrote b (a + 4) (size_bytes w) (heap s) m' \<Longrightarrow> P () (s\<lparr>heap := m'\<rparr>)"
  shows "runs (set_size (Ptr b a) w) s P"
  unfolding set_size_def runs_on_heap store_size_def ptr_add.simps unat_4
  by (rule runs_wrote) (use assms in simp_all)

lemma runs_set_capacity:
  assumes "live (heap s) (span b (a + 8) 4)"
    and "\<And>m'. wrote b (a + 8) (size_bytes w) (heap s) m' \<Longrightarrow> P () (s\<lparr>heap := m'\<rparr>)"
  shows "runs (set_capacity (Ptr b a) w) s P"
  unfolding set_capacity_def runs_on_heap store_size_def ptr_add.simps unat_8
  by (rule runs_wrote) (use assms in simp_all)

lemma wrote_live: "wrote b a xs m m' \<Longrightarrow> live m A \<Longrightarrow> live m' A"
  by (simp add: wrote_def)

lemma wrote_holds: "wrote b a xs m m' \<Longrightarrow> holds_at m' b a xs"
  by (simp add: wrote_def)

lemma wrote_kind: "wrote b a xs m m' \<Longrightarrow> kind_of m' = kind_of m"
  by (simp add: wrote_def)

lemma wrote_same: "wrote b a xs m m' \<Longrightarrow> A \<inter> span b a (length xs) = {} \<Longrightarrow> same_on A m m'"
  by (auto simp: wrote_def intro: same_on_mono)

lemma wrote_keeps:
  "wrote b a xs m m' \<Longrightarrow> span d i (length ys) \<inter> span b a (length xs) = {} \<Longrightarrow> holds_at m d i ys \<Longrightarrow>
   holds_at m' d i ys"
  by (rule holds_at_same_on [OF _ wrote_same])

lemma unallocated_kind: "kind_of m = kind_of m' \<Longrightarrow> unallocated m = unallocated m'"
  unfolding kind_of_def by (rule unallocated_same) metis

text \<open>The two stores that finish a header.\<close>

lemma runs_finish_header:
  assumes live: "live (heap s) (span b a 12)" and data: "holds_at (heap s) b a (ptr_bytes p)"
    and post: "\<And>m'. same_on (- span b a 12) (heap s) m' \<Longrightarrow> header_set m' b a p cnt \<Longrightarrow>
      kind_of m' = kind_of (heap s) \<Longrightarrow> (\<And>A. live (heap s) A \<Longrightarrow> live m' A) \<Longrightarrow> runs f (s\<lparr>heap := m'\<rparr>) P"
  shows "runs (cseq (set_size (Ptr b a) 0) (cseq (set_capacity (Ptr b a) cnt) f)) s P"
  unfolding runs_cseq
proof (rule runs_set_size)
  have sub: "span b (a + i) 4 \<subseteq> span b a 12" if "i + 4 \<le> 12" for i using span_mono [OF that] .
  show "live (heap s) (span b (a + 4) 4)" using live sub [of 4] by (auto intro: live_mono)
  fix m1 assume w1: "wrote b (a + 4) (size_bytes 0) (heap s) m1"
  show "runs (set_capacity (Ptr b a) cnt) (s\<lparr>heap := m1\<rparr>) (\<lambda>_ t. runs f t P)"
  proof (rule runs_set_capacity, goal_cases)
    case 1
    show ?case using wrote_live [OF w1 live] sub [of 8] by (auto intro: live_mono)
  next
    case (2 m2)
    then have w2: "wrote b (a + 8) (size_bytes cnt) m1 m2" by simp
    have "same_on (- span b a 12) (heap s) m1" "same_on (- span b a 12) m1 m2"
      by (rule wrote_same [OF w1], use sub [of 4] in auto) (rule wrote_same [OF w2], use sub [of 8] in auto)
    moreover have "holds_at m2 b a (ptr_bytes p)"
      using data by (intro wrote_keeps [OF w2] wrote_keeps [OF w1]) (auto simp: mem_span)
    moreover have "holds_at m2 b (a + 4) (size_bytes 0)"
      by (rule wrote_keeps [OF w2 _ wrote_holds [OF w1]]) (auto simp: mem_span)
    ultimately have "runs f (s\<lparr>heap := m2\<rparr>) P"
      using wrote_holds [OF w2] wrote_kind [OF w1] wrote_kind [OF w2] wrote_live [OF w1] wrote_live [OF w2]
      by (intro post) (auto simp: header_set_def intro: same_on_trans)
    then show ?case by simp
  qed
qed

end
