(* ===== verification/Message_Providers.thy ===== *)
theory Message_Providers
  imports Message_Create
begin

text \<open>
  The two providers of message memory of \<^verbatim>\<open>src/type_utilities.c\<close>: an allocator (the branch
  \<^verbatim>\<open>CREATE_OPERATION\<close>) and the static buffer with \<^verbatim>\<open>get_static_memory\<close> (the branch
  \<^verbatim>\<open>CREATE_PREALLOCATED_OPERATION\<close>). Each is shown to keep the contract \<open>memory_provider\<close>,
  so that the traversal's lemmas hold for both.
\<close>

section \<open>The allocator\<close>

text \<open>\<open>allocated L m m'\<close>: exactly the blocks of the extents \<open>L\<close> came into being.\<close>

definition allocated :: "extent list \<Rightarrow> mem \<Rightarrow> mem \<Rightarrow> bool" where
  "allocated L m m' \<longleftrightarrow>
     (\<forall>d. kind_of m' d = (if d \<in> set (map fst L) then Some HeapBlock else kind_of m d)) \<and>
     (\<forall>E\<in>set L. fst (snd E) = 0 \<and> kind_of m (fst E) = None) \<and> distinct (map fst L)"

lemma allocated_Nil: "allocated [] m m"
  by (simp add: allocated_def)

lemma allocated_append:
  assumes "allocated L m m'" and "allocated M m' m''"
  shows "allocated (L @ M) m m''"
proof -
  have apart: "kind_of m (fst E) = None \<and> fst E \<notin> set (map fst L)" if "E \<in> set M" for E
    using assms that unfolding allocated_def by (metis option.distinct(1))
  then have "set (map fst L) \<inter> set (map fst M) = {}" by force
  with apart show ?thesis
    using assms unfolding allocated_def by (auto simp: distinct_append)
qed

lemma kind_of_new: "blocks m' = (blocks m)(b \<mapsto> (k, bs)) \<Longrightarrow> kind_of m' = (kind_of m)(b \<mapsto> k)"
  by (auto simp: kind_of_def)

lemma kind_of_None: "kind_of m b = None \<longleftrightarrow> blocks m b = None"
  by (simp add: kind_of_def)

text \<open>Zeroes over a whole extent.\<close>

lemma runs_wrote_zero:
  assumes "live m (span b a n)" and "unat w = n" and "0 < n"
    and "\<And>m'. wrote b a (replicate n zero_byte) m m' \<Longrightarrow> P () m'"
  shows "runs (cupdate (memset_zero (Ptr b a) w)) m P"
  unfolding memset_zero_def assms(2) by (rule runs_wrote) (use assms in simp_all)

context c_allocator
begin

lemma create_branch_provides:
  assumes live: "live (heap s) (span b a 12)" and n: "n = unat cnt * unat w" "0 < n" "n < 2 ^ 32"
  shows "runs (create_branch al (Ptr b a) cnt w) s (\<lambda>r s'.
    frame (unallocated (heap s)) (span b a 12) (unallocated (heap s')) (heap s) (heap s') \<and>
    (case r of
       None \<Rightarrow> \<not> total_allocator al
     | Some u \<Rightarrow> unat u = n \<and>
         (\<exists>d o'. allocated [(d, o', n)] (heap s) (heap s') \<and>
           span d o' n \<subseteq> unallocated (heap s) - unallocated (heap s') \<and>
           header_set (heap s') b a (Ptr d o') cnt \<and> holds_at (heap s') d o' (replicate n zero_byte))))"
  (is "runs _ _ ?P")
proof -
  have nw: "unat (cnt * w) = n" using n by (subst unat_mult_small) simp_all
  have apart: "span b a 12 \<inter> unallocated (heap s) = {}" by (rule live_not_unallocated [OF live])
  have live4: "live m (span b a 12) \<Longrightarrow> live m (span b a 4)" for m
    using span_mono [of 0 4 12 b a] by (auto intro: live_mono)
  let ?rest = "\<lambda>d. cseq (set_data (Ptr b a) d)
     (if d = NULL then creturn None
      else cseq (on_heap (cupdate (memset_zero d (cnt * w))))
           (cseq (set_size (Ptr b a) 0)
           (cseq (set_capacity (Ptr b a) cnt)
           (creturn (Some (cnt * w))))))"
  have null: "runs (?rest NULL) (s\<lparr>heap := m'\<rparr>) ?P"
    if "blocks m' = blocks (heap s)" "\<not> total_allocator al" for m'
  proof -
    have same: "byte_at m' = byte_at (heap s)" using that by (simp add: byte_at_def fun_eq_iff)
    have kind: "kind_of m' = kind_of (heap s)" using that by (simp add: kind_of_def fun_eq_iff)
    have live': "live m' (span b a 12)" using live by (simp add: live_def same)
    show ?thesis
      unfolding runs_cseq
    proof (rule runs_set_data, goal_cases)
      case (2 m1)
      then have w: "wrote b a (ptr_bytes NULL) m' m1" by simp
      have "same_on (- (unallocated (heap s) \<union> span b a 12)) m' m1"
        by (rule wrote_same [OF w]) (use span_mono [of 0 4 12 b a] in auto)
      moreover have "byte_at m1 x \<noteq> None" if "byte_at (heap s) x \<noteq> None" for x
        using wrote_live [OF w, of "{x}"] that by (simp add: live_def same)
      ultimately have "frame (unallocated (heap s)) (span b a 12) (unallocated m1) (heap s) m1"
        using unallocated_kind [of m1 "heap s"] wrote_kind [OF w] kind
        by (simp add: frame_def same_on_def same)
      with that show ?case by (simp add: runs_creturn)
    qed (simp add: live' live4)
  qed
  have block: "runs (?rest (Ptr d 0)) (s\<lparr>heap := m'\<rparr>) ?P"
    if d: "blocks (heap s) d = None" and k: "unat (cnt * w) \<le> k"
      and m': "blocks m' = (blocks (heap s))(d \<mapsto> (HeapBlock, replicate k Undef))" for d k m'
  proof -
    note new = new_block [OF d k [unfolded nw] m']
    have kind: "kind_of m' = (kind_of (heap s))(d \<mapsto> HeapBlock)" by (rule kind_of_new [OF m'])
    have "live m' (span b a 12)"
      by (rule live_same_on [OF live same_on_mono [OF new(1)]]) (use apart in blast)
    then show ?thesis
      unfolding runs_cseq
    proof (intro runs_set_data, goal_cases)
      case 1
      then show ?case by (simp add: live4)
    next
      case (2 m1)
      then have w1: "wrote b a (ptr_bytes (Ptr d 0)) m' m1" by simp
      have E1: "live m1 (span d 0 n)" using wrote_live [OF w1 new(2)] .
      have off: "span b a 12 \<inter> span d 0 n = {}" using new(3) apart by blast
      have "runs (cupdate (memset_zero (Ptr d 0) (cnt * w))) m1 (\<lambda>_ m2.
          runs (cseq (set_size (Ptr b a) 0) (cseq (set_capacity (Ptr b a) cnt) (creturn (Some (cnt * w)))))
            (s\<lparr>heap := m2\<rparr>) ?P)"
      proof (rule runs_wrote_zero [OF E1 nw n(2)], rule runs_finish_header [where p = "Ptr d 0"], goal_cases)
        case (1 m2)
        show ?case using wrote_live [OF 1] wrote_live [OF w1] 2(1) by simp
      next
        case (2 m2)
        show ?case
          using wrote_keeps [OF 2 _ wrote_holds [OF w1]] off span_mono [of 0 4 12 b a] by fastforce
      next
        case (3 m2 m3)
        have same23: "same_on (- span b a 12) m2 m3" using 3(2) by simp
        have kind3: "kind_of m3 = (kind_of (heap s))(d \<mapsto> HeapBlock)"
          using 3(4) wrote_kind [OF 3(1)] wrote_kind [OF w1] kind by simp
        have live3: "live m' A \<Longrightarrow> live m3 A" for A
          using 3(5) wrote_live [OF 3(1)] wrote_live [OF w1] by simp
        have unalloc: "unallocated m3 = unallocated m'" by (rule unallocated_kind) (simp add: kind3 kind)
        have same: "same_on (- (unallocated (heap s) \<union> span b a 12)) (heap s) m3"
        proof -
          let ?A = "- (unallocated (heap s) \<union> span b a 12)"
          have "same_on ?A (heap s) m'" using new(1) by (rule same_on_mono) blast
          moreover have "same_on ?A m' m1"
            by (rule wrote_same [OF w1]) (use span_mono [of 0 4 12 b a] in auto)
          moreover have "same_on ?A m1 m2" by (rule wrote_same [OF 3(1)]) (use new(3) in auto)
          moreover have "same_on ?A m2 m3" using same23 by (rule same_on_mono) auto
          ultimately show ?thesis by (blast intro: same_on_trans)
        qed
        have "byte_at m3 x \<noteq> None" if "x \<notin> unallocated (heap s)" "byte_at (heap s) x \<noteq> None" for x
          using live3 [of "{x}"] new(1) that by (auto simp: live_def same_on_def)
        with same new(4) unalloc have "frame (unallocated (heap s)) (span b a 12) (unallocated m3) (heap s) m3"
          by (auto simp: frame_def)
        moreover have "allocated [(d, 0, n)] (heap s) m3"
          using d by (simp add: allocated_def kind3 kind_of_None)
        moreover have "span d 0 n \<subseteq> unallocated (heap s) - unallocated m3"
          using new(3,4) unalloc by (auto simp: mem_span)
        moreover have "holds_at m3 d 0 (replicate n zero_byte)"
          by (rule holds_at_same_on [OF wrote_holds [OF 3(1)] same_on_mono [OF same23]]) (use off in auto)
        ultimately show ?case using 3(3) nw by (auto simp: runs_creturn)
      qed
      then show ?case by (simp add: run_simps)
    qed
  qed
  show ?thesis
  proof (cases "total_allocator al")
    case True
    show ?thesis
      unfolding create_branch_def runs_cbind runs_on_heap
      by (rule total_allocator.runs_call_allocate_total [OF True]) (rule block)
  next
    case False
    show ?thesis
      unfolding create_branch_def runs_cbind runs_on_heap
      by (rule runs_call_allocate) (use null [OF _ False] block in blast)+
  qed
qed

end

sublocale c_allocator \<subseteq> from_heap: memory_provider al CREATE_OPERATION "\<lambda>p s. True"
    "\<lambda>s. unallocated (heap s)" "\<lambda>L s s'. allocated L (heap s) (heap s')" "2 ^ 32 - 1" "\<not> total_allocator al"
proof unfold_locales
  fix L M :: "extent list" and s s' s'' :: tu_state
  show "allocated L (heap s) (heap s') \<Longrightarrow> allocated M (heap s') (heap s'') \<Longrightarrow>
      allocated (L @ M) (heap s) (heap s'')"
    by (rule allocated_append)
next
  fix p n b a and cnt w :: size_t and s :: tu_state
  assume "live (heap s) (span b a 12)" "n = unat cnt * unat w" "0 < n" "adv_of CREATE_OPERATION p n \<le> 2 ^ 32 - 1"
  then show "runs (operation_branch al CREATE_OPERATION (Ptr b a) cnt w) s (\<lambda>r s'.
      frame (unallocated (heap s)) (span b a 12) (unallocated (heap s')) (heap s) (heap s') \<and>
      (case r of
         None \<Rightarrow> \<not> total_allocator al \<and> True
       | Some u \<Rightarrow> unat u + p = adv_of CREATE_OPERATION p n \<and> True \<and>
           (\<exists>d o'. allocated [(d, o', n)] (heap s) (heap s') \<and>
             span d o' n \<subseteq> unallocated (heap s) - unallocated (heap s') \<and>
             header_set (heap s') b a (Ptr d o') cnt \<and>
             holds_at (heap s') d o' (replicate n zero_byte))))"
    unfolding operation_branch_def
    by simp (rule runs_mono [OF create_branch_provides], auto simp: adv_of_def split: option.splits)
qed (auto simp: allocated_Nil)

section \<open>The static buffer\<close>

text \<open>
  The buffer starts at \<open>o0\<close> of block \<open>b0\<close> and has \<open>len\<close> bytes; what is behind the index is
  still zero and free.
\<close>

definition static_pool :: "nat \<Rightarrow> nat \<Rightarrow> nat \<Rightarrow> tu_state \<Rightarrow> addr set" where
  "static_pool b0 o0 len s =
     span b0 (o0 + unat (operation_buffer_index s)) (len - unat (operation_buffer_index s))"

definition static_ready :: "nat \<Rightarrow> nat \<Rightarrow> nat \<Rightarrow> nat \<Rightarrow> tu_state \<Rightarrow> bool" where
  "static_ready b0 o0 len p s \<longleftrightarrow>
     operation_buffer s = Ptr b0 o0 \<and> operation_buffer_index s = of_nat p \<and> p \<le> len \<and>
     holds_at (heap s) b0 (o0 + p) (replicate (len - p) zero_byte)"

definition in_buffer :: "nat \<Rightarrow> nat \<Rightarrow> nat \<Rightarrow> extent list \<Rightarrow> bool" where
  "in_buffer b0 o0 len L \<longleftrightarrow>
     (\<forall>(d, o', n)\<in>set L. d = b0 \<and> o0 \<le> o' \<and> (o' - o0) mod 4 = 0 \<and> o' + n \<le> o0 + len)"

lemma in_buffer_append: "in_buffer b0 o0 len L \<Longrightarrow> in_buffer b0 o0 len M \<Longrightarrow> in_buffer b0 o0 len (L @ M)"
  by (auto simp: in_buffer_def)

lemma holds_zero_sub:
  assumes "holds_at m b a (replicate n zero_byte)" and "i + k \<le> n"
  shows "holds_at m b (a + i) (replicate k zero_byte)"
  unfolding holds_at_def
proof (intro allI impI)
  fix j assume j: "j < length (replicate k zero_byte)"
  have "\<exists>k. byte_at m (b, a + (i + j)) = Some (k, replicate n zero_byte ! (i + j))"
    using assms j unfolding holds_at_def length_replicate by (meson add_less_cancel_left less_le_trans)
  with assms(2) j show "\<exists>k'. byte_at m (b, a + i + j) = Some (k', replicate k zero_byte ! j)"
    by (simp add: add.assoc)
qed

lemma create_preallocated_provides:
  assumes ready: "static_ready b0 o0 len p s" and len: "len < 2 ^ 32"
    and live: "live (heap s) (span b a 12)" and apart: "span b a 12 \<inter> static_pool b0 o0 len s = {}"
    and n: "n = unat cnt * unat w" "0 < n" and q: "q = align4 p + n" "q \<le> len"
  shows "runs (create_preallocated_branch (Ptr b a) cnt w) s (\<lambda>r s'.
    frame (static_pool b0 o0 len s) (span b a 12) (static_pool b0 o0 len s') (heap s) (heap s') \<and>
    (\<exists>u. r = Some u \<and> unat u + p = q) \<and> static_ready b0 o0 len q s' \<and>
    (\<exists>d o'. in_buffer b0 o0 len [(d, o', n)] \<and>
      span d o' n \<subseteq> static_pool b0 o0 len s - static_pool b0 o0 len s' \<and>
      header_set (heap s') b a (Ptr d o') cnt \<and> holds_at (heap s') d o' (replicate n zero_byte)))"
  (is "runs _ _ ?P")
proof -
  have st: "operation_buffer s = Ptr b0 o0" "operation_buffer_index s = of_nat p" "p \<le> len"
    and zero: "holds_at (heap s) b0 (o0 + p) (replicate (len - p) zero_byte)"
    using ready by (simp_all add: static_ready_def)
  have pa: "p \<le> align4 p" "align4 p \<le> q" "q < 2 ^ 32" using align4_ge q len by auto
  have index: "unat (operation_buffer_index s) = p" using st len by simp
  have pool: "static_pool b0 o0 len s = span b0 (o0 + p) (len - p)" by (simp add: static_pool_def index)
  have cw: "cnt * w = of_nat n" using n by simp
  have next_index: "align_index (operation_buffer_index s) + cnt * w = of_nat q"
    unfolding st align_index_of_nat cw using q by simp
  let ?d = "Ptr b0 (o0 + align4 p)"
  let ?E = "span b0 (o0 + align4 p) n"
  let ?s = "s\<lparr>operation_buffer_index := of_nat q\<rparr>"
  have pool': "static_pool b0 o0 len (?s\<lparr>heap := m\<rparr>) = span b0 (o0 + q) (len - q)" for m
    using pa by (simp add: static_pool_def)
  have sub: "span b0 (o0 + q) (len - q) \<subseteq> span b0 (o0 + p) (len - p)"
    "?E \<subseteq> span b0 (o0 + p) (len - p) - span b0 (o0 + q) (len - q)"
    using pa q by (auto simp: mem_span)
  have apart': "span b a 12 \<inter> span b0 (o0 + p) (len - p) = {}" using apart pool by simp
  have "runs (set_data (Ptr b a) ?d) ?s (\<lambda>_ t.
      runs (cseq (set_size (Ptr b a) 0) (cseq (set_capacity (Ptr b a) cnt)
        (cbind (cget operation_buffer_index) (\<lambda>index. creturn (Some (index - of_nat p)))))) t ?P)"
  proof (rule runs_set_data, goal_cases)
    case 1
    show ?case using live span_mono [of 0 4 12 b a] by (auto intro: live_mono)
  next
    case (2 m1)
    then have w1: "wrote b a (ptr_bytes ?d) (heap s) m1" by simp
    show ?case
    proof (rule runs_finish_header [where p = ?d], goal_cases)
      case 1
      show ?case using wrote_live [OF w1 live] by simp
    next
      case 2
      show ?case using wrote_holds [OF w1] by simp
    next
      case (3 m2)
      have same: "same_on (- span b a 12) (heap s) m2"
      proof -
        have "same_on (- span b a 12) (heap s) m1"
          by (rule wrote_same [OF w1]) (use span_mono [of 0 4 12 b a] in auto)
        moreover have "same_on (- span b a 12) m1 m2" using 3(1) by simp
        ultimately show ?thesis by (rule same_on_trans)
      qed
      have live2: "live (heap s) A \<Longrightarrow> live m2 A" for A using 3(4) wrote_live [OF w1] by simp
      have "byte_at m2 x \<noteq> None" if "byte_at (heap s) x \<noteq> None" for x
        using live2 [of "{x}"] that by (simp add: live_def)
      then have fr: "frame (span b0 (o0 + p) (len - p)) (span b a 12) (span b0 (o0 + q) (len - q)) (heap s) m2"
        using sub(1) same by (auto simp: frame_def intro: same_on_mono)
      have zero2: "holds_at m2 b0 (o0 + p) (replicate (len - p) zero_byte)"
        by (rule holds_at_same_on [OF zero same_on_mono [OF same]]) (use apart' in auto)
      have "holds_at m2 b0 (o0 + align4 p) (replicate n zero_byte)"
        using holds_zero_sub [OF zero2, of "align4 p - p" n] pa q by simp
      moreover have "holds_at m2 b0 (o0 + q) (replicate (len - q) zero_byte)"
        using holds_zero_sub [OF zero2, of "q - p" "len - q"] pa q by simp
      moreover have "unat (of_nat q - of_nat p :: size_t) + p = q"
        using pa st(3) len by (subst unat_diff_small) (simp_all add: word_le_nat_alt)
      moreover have "in_buffer b0 o0 len [(b0, o0 + align4 p, n)]"
        using q by (simp add: in_buffer_def align4_mod)
      moreover have "static_ready b0 o0 len q (?s\<lparr>heap := m2\<rparr>)"
        unfolding static_ready_def using st(1) q(2) calculation(2) by simp
      ultimately have "?P (Some (of_nat q - of_nat p)) (?s\<lparr>heap := m2\<rparr>)"
        unfolding pool pool' using fr 3(2) sub(2) by auto
      then show ?case by (simp add: run_simps)
    qed
  qed
  then show ?thesis
    unfolding create_preallocated_branch_def get_static_memory_def using st next_index pa q len
    by (simp add: run_simps align_index_of_nat)
qed

interpretation static_buffer: memory_provider al CREATE_PREALLOCATED_OPERATION
    "static_ready b0 o0 (unat len)" "static_pool b0 o0 (unat len)"
    "\<lambda>L s s'. in_buffer b0 o0 (unat len) L" "unat len" False
  for al b0 o0 and len :: size_t
proof unfold_locales
  show "unat len < 2 ^ 32" by (rule unat_less_2p32)
  fix p n b a and cnt w :: size_t and s :: tu_state
  let ?R = "static_ready b0 o0 (unat len)" and ?P = "static_pool b0 o0 (unat len)"
  assume *: "?R p s" "live (heap s) (span b a 12)" "span b a 12 \<inter> ?P s = {}"
    "n = unat cnt * unat w" "0 < n" "adv_of CREATE_PREALLOCATED_OPERATION p n \<le> unat len"
  then have "align4 p + n \<le> unat len" by (simp add: adv_of_def adv_static_def)
  from create_preallocated_provides [OF *(1) unat_less_2p32 *(2-5) refl this]
  show "runs (operation_branch al CREATE_PREALLOCATED_OPERATION (Ptr b a) cnt w) s (\<lambda>r s'.
      frame (?P s) (span b a 12) (?P s') (heap s) (heap s') \<and>
      (case r of
         None \<Rightarrow> False \<and> ?R p s'
       | Some u \<Rightarrow> unat u + p = adv_of CREATE_PREALLOCATED_OPERATION p n \<and>
           ?R (adv_of CREATE_PREALLOCATED_OPERATION p n) s' \<and>
           (\<exists>d o'. in_buffer b0 o0 (unat len) [(d, o', n)] \<and> span d o' n \<subseteq> ?P s - ?P s' \<and>
             header_set (heap s') b a (Ptr d o') cnt \<and>
             holds_at (heap s') d o' (replicate n zero_byte))))"
    unfolding operation_branch_def adv_of_def adv_static_def
    by simp (erule runs_mono, elim conjE exE, simp, blast)
qed (auto simp: in_buffer_append, simp add: in_buffer_def)

end
