(* ===== verification/Message_Destroy.thy ===== *)
theory Message_Destroy
  imports Message_Providers
begin

text \<open>
  Destruction of message memory (the branch \<^verbatim>\<open>DESTROY_OPERATION\<close> of
  \<^verbatim>\<open>src/type_utilities.c\<close>), for every allocator that keeps the contract \<open>c_allocator\<close>: the
  traversal of a message whose memory is in place frees exactly the blocks of its extents,
  changes nothing but the message itself, and returns the calculated size.
\<close>

section \<open>What was released\<close>

definition in_blocks :: "nat set \<Rightarrow> addr set" where
  "in_blocks D = {x. fst x \<in> D}"

lemma in_blocks_empty [simp]: "in_blocks {} = {}"
  by (simp add: in_blocks_def)

text \<open>\<open>released D A m m'\<close>: the blocks \<open>D\<close> are gone, and of the others only bytes of \<open>A\<close> changed.\<close>

definition released :: "nat set \<Rightarrow> addr set \<Rightarrow> mem \<Rightarrow> mem \<Rightarrow> bool" where
  "released D A m m' \<longleftrightarrow>
     (\<forall>d. kind_of m' d = (if d \<in> D then None else kind_of m d)) \<and>
     same_on (- (A \<union> in_blocks D)) m m' \<and>
     (\<forall>x. fst x \<notin> D \<longrightarrow> byte_at m x \<noteq> None \<longrightarrow> byte_at m' x \<noteq> None)"

lemma released_refl [simp]: "released {} A m m"
  by (simp add: released_def)

lemma released_trans:
  assumes "released D A m m'" and "released D' A' m' m''" and "A \<union> A' \<subseteq> B \<union> in_blocks (D \<union> D')"
  shows "released (D \<union> D') B m m''"
proof -
  from assms have same: "same_on (- (A \<union> in_blocks D)) m m'" "same_on (- (A' \<union> in_blocks D')) m' m''"
    by (simp_all add: released_def)
  have "same_on (- (B \<union> in_blocks (D \<union> D'))) m m'"
    by (rule same_on_mono [OF same(1)]) (use assms(3) in \<open>auto simp: in_blocks_def\<close>)
  moreover have "same_on (- (B \<union> in_blocks (D \<union> D'))) m' m''"
    by (rule same_on_mono [OF same(2)]) (use assms(3) in \<open>auto simp: in_blocks_def\<close>)
  ultimately have "same_on (- (B \<union> in_blocks (D \<union> D'))) m m''" by (rule same_on_trans)
  with assms(1,2) show ?thesis
    unfolding released_def by (simp del: not_None_eq)
qed

lemma released_mono: "released D A m m' \<Longrightarrow> A \<subseteq> B \<union> in_blocks D \<Longrightarrow> released D B m m'"
  using released_trans [of D A m m' "{}" "{}" m' B] by simp

lemma released_same: "released D A m m' \<Longrightarrow> B \<inter> (A \<union> in_blocks D) = {} \<Longrightarrow> same_on B m m'"
  by (rule same_on_mono [of "- (A \<union> in_blocks D)"]) (auto simp: released_def)

lemma released_live: "released D A m m' \<Longrightarrow> live m B \<Longrightarrow> B \<inter> in_blocks D = {} \<Longrightarrow> live m' B"
  unfolding released_def live_def in_blocks_def by blast

lemma released_kind: "released D A m m' \<Longrightarrow> d \<notin> D \<Longrightarrow> kind_of m' d = kind_of m d"
  by (simp add: released_def)

lemma span_in_blocks: "b \<notin> D \<Longrightarrow> span b i n \<inter> in_blocks D = {}"
  by (auto simp: mem_span in_blocks_def)

lemma extents_in_blocks: "extents L \<subseteq> in_blocks (set (map fst L))"
  by (auto simp: extents_def in_blocks_def mem_span) force

lemma extents_apart: "D \<inter> set (map fst L) = {} \<Longrightarrow> extents L \<inter> in_blocks D = {}"
  using extents_in_blocks [of L] by (auto simp: in_blocks_def)

lemma extents_span: "d \<notin> set (map fst L) \<Longrightarrow> extents L \<inter> span d i n = {}"
  using extents_in_blocks [of L] by (fastforce simp: in_blocks_def mem_span dest: subsetD)

text \<open>The extents that a heap owns: whole blocks from an allocator.\<close>

definition owned :: "extent list \<Rightarrow> mem \<Rightarrow> bool" where
  "owned L m \<longleftrightarrow> (\<forall>E\<in>set L. fst (snd E) = 0 \<and> kind_of m (fst E) = Some HeapBlock)"

lemma owned_simps [simp]:
  "owned [] m" "owned (E # L) m \<longleftrightarrow> fst (snd E) = 0 \<and> kind_of m (fst E) = Some HeapBlock \<and> owned L m"
  "owned (L @ M) m \<longleftrightarrow> owned L m \<and> owned M m"
  by (auto simp: owned_def)

lemma released_owned:
  "released D A m m' \<Longrightarrow> owned L m \<Longrightarrow> D \<inter> set (map fst L) = {} \<Longrightarrow> owned L m'"
  unfolding owned_def by (metis (no_types, lifting) disjoint_iff image_eqI list.set_map released_kind)

lemma wrote_released: "wrote b a xs m m' \<Longrightarrow> released {} (span b a (length xs)) m m'"
  unfolding released_def wrote_def by (auto simp: in_blocks_def live_def)

lemma freed_released: "blocks m' = (blocks m)(d := None) \<Longrightarrow> released {d} {} m m'"
  by (auto simp: released_def kind_of_def same_on_def byte_at_def in_blocks_def)

section \<open>The traversal\<close>

lemma runs_get_data_load:
  "load_ptr (Ptr b a) (heap s) = Inr p \<Longrightarrow> runs (get_data (Ptr b a)) s P = P p s"
  by (simp add: get_data_def run_simps access_simps)

lemma element_address_destroy:
  "element_address DESTROY_OPERATION mm p i =
     cbind (get_data p) (\<lambda>d. creturn (ptr_add d (of_nat i * size_of mm)))"
  by (simp add: element_address_def)

lemma open_destroy:
  assumes "n_rules c = 0" and "member_size m = Inr w"
  shows "open_member dal c DESTROY_OPERATION m msg nt used =
    creturn (Some (if has_header m then default_sequence_size c m else 0,
                   used + of_nat (walk_open (+) c m 0)))"
  using assms by (simp add: open_member_header operation_branch_def walk_open_def extent_length_def
      capacity_of_def elem_size_def)

context c_allocator
begin

definition destroy_ok :: "rcutils_allocator_t \<Rightarrow> memory_conf \<Rightarrow> message_members \<Rightarrow> bool" where
  "destroy_ok dal c mm \<longleftrightarrow> (\<forall>b a s nt L.
     built_message False c mm b a (heap s) = Some L \<longrightarrow> distinct (b # map fst L) \<longrightarrow> owned L (heap s) \<longrightarrow>
     live (heap s) (span b a (unat (size_of mm))) \<longrightarrow>
     runs (handle_message_memory dal c DESTROY_OPERATION mm (Ptr b a) nt) s (\<lambda>u s'.
       u = of_nat (dynamic_size c mm) \<and>
       released (set (map fst L)) (span b a (unat (size_of mm))) (heap s) (heap s')))"

lemma destroy_okD:
  assumes "destroy_ok dal c mm" and "built_message False c mm b a (heap s) = Some L"
    and "distinct (b # map fst L)" and "owned L (heap s)" and "live (heap s) (span b a (unat (size_of mm)))"
  shows "runs (handle_message_memory dal c DESTROY_OPERATION mm (Ptr b a) nt) s (\<lambda>u s'.
    u = of_nat (dynamic_size c mm) \<and>
    released (set (map fst L)) (span b a (unat (size_of mm))) (heap s) (heap s'))"
  using assms unfolding destroy_ok_def by blast

lemma destroy_elements:
  assumes message: "destroy_ok dal c mm" and wf: "wf_message mm" and c: "positive_conf c"
    and k: "k = unat (size_of mm)" and hb: "hb \<noteq> d"
  shows "load_ptr (Ptr hb ha) (heap s) = Inr (Ptr d o') \<Longrightarrow>
    built_elements (\<lambda>x. built_message False c mm d x (heap s)) k n (o' + i * k) = Some M \<Longrightarrow>
    distinct (hb # d # map fst M) \<Longrightarrow> owned M (heap s) \<Longrightarrow> live (heap s) (span d (o' + i * k) (n * k)) \<Longrightarrow>
    (i + n) * k < 2 ^ 32 \<Longrightarrow>
    runs (handle_elements dal c DESTROY_OPERATION mm (Ptr hb ha) n i nt used) s (\<lambda>u s'.
      u = used + of_nat (n * dynamic_size c mm) \<and>
      released (set (map fst M)) (span d (o' + i * k) (n * k)) (heap s) (heap s'))"
proof (induction n arbitrary: i s used M)
  case 0
  then show ?case by (simp add: handle_elements.simps run_simps)
next
  case (Suc n)
  let ?x = "o' + i * k"
  let ?A = "span d ?x k" and ?B = "span d (o' + Suc i * k) (n * k)"
  have split: "span d ?x (Suc n * k) = ?A \<union> ?B"
    using span_add [of d ?x k "n * k"] by (simp add: algebra_simps)
  from Suc.prems(2) obtain L N where M: "M = L @ N"
    and L: "built_message False c mm d ?x (heap s) = Some L"
    and N: "built_elements (\<lambda>x. built_message False c mm d x (heap s)) k n (o' + Suc i * k) = Some N"
    by (auto simp: algebra_simps)
  have "0 < k" using wf k by (simp add: wf_message.simps unat_gt_0)
  have "i * k < 2 ^ 32" using Suc.prems(6) by (simp add: algebra_simps)
  with \<open>0 < k\<close> have "i < 2 ^ 32"
    by (metis One_nat_def Suc_leI le_less_trans mult.right_neutral mult_le_mono2)
  with \<open>i * k < 2 ^ 32\<close> k have "unat (of_nat i * size_of mm) = i * k"
    by (subst unat_mult_small) simp_all
  then have address: "ptr_add (Ptr d o') (of_nat i * size_of mm) = Ptr d ?x" by simp
  have "runs (handle_message_memory dal c DESTROY_OPERATION mm (Ptr d ?x) nt) s (\<lambda>u s'.
      u = of_nat (dynamic_size c mm) \<and> released (set (map fst L)) ?A (heap s) (heap s'))"
    unfolding k by (rule destroy_okD [OF message L [unfolded k]])
      (use Suc.prems(3,4,5) M in \<open>auto simp: live_Un split simp flip: k simp del: mult_Suc\<close>)
  then have "runs (handle_message_memory dal c DESTROY_OPERATION mm (Ptr d ?x) nt) s (\<lambda>u1 s1.
      runs (handle_elements dal c DESTROY_OPERATION mm (Ptr hb ha) n (Suc i) nt (used + u1)) s1 (\<lambda>u s'.
        u = used + of_nat (Suc n * dynamic_size c mm) \<and>
        released (set (map fst M)) (span d ?x (Suc n * k)) (heap s) (heap s')))"
  proof (rule runs_mono, elim conjE)
    fix u1 :: size_t and s1 :: tu_state
    assume u1: "u1 = of_nat (dynamic_size c mm)"
      and r1: "released (set (map fst L)) ?A (heap s) (heap s1)"
    have outside: "hb \<notin> set (map fst L)" "d \<notin> set (map fst L)" "set (map fst L) \<inter> set (map fst N) = {}"
      using Suc.prems(3) M by auto
    have "load_ptr (Ptr hb ha) (heap s1) = Inr (Ptr d o')"
      by (rule load_ptr_same [OF Suc.prems(1) released_same [OF r1]])
        (use outside(1) hb in \<open>auto simp: mem_span in_blocks_def image_iff\<close>)
    moreover have "built_elements (\<lambda>x. built_message False c mm d x (heap s1)) k n (o' + Suc i * k) = Some N"
    proof (rule built_elements_same [OF built_same(1) [OF c wf, of False, folded k] N])
      show "same_on (?B \<union> extents N) (heap s) (heap s1)"
      proof (rule released_same [OF r1])
        have "d \<notin> set (map fst N)" using Suc.prems(3) M by auto
        then show "(?B \<union> extents N) \<inter> (?A \<union> in_blocks (set (map fst L))) = {}"
          using span_in_blocks [OF outside(2), of "o' + Suc i * k" "n * k"] extents_apart [OF outside(3)]
            extents_span [of d N ?x k] span_disjoint [of ?x k "o' + Suc i * k" "n * k" d]
          by (simp add: Int_Un_distrib Int_Un_distrib2) blast
      qed
    qed
    moreover have "distinct (hb # d # map fst N)" using Suc.prems(3) M by auto
    moreover have "owned N (heap s1)" by (rule released_owned [OF r1]) (use Suc.prems(4) M outside in auto)
    moreover have "live (heap s1) ?B"
      by (rule released_live [OF r1]) (use Suc.prems(5) split outside in \<open>auto simp: live_Un span_in_blocks\<close>)
    moreover have "(Suc i + n) * k < 2 ^ 32" using Suc.prems(6) by simp
    ultimately have "runs (handle_elements dal c DESTROY_OPERATION mm (Ptr hb ha) n (Suc i) nt (used + u1)) s1 (\<lambda>u s'.
        u = used + u1 + of_nat (n * dynamic_size c mm) \<and>
        released (set (map fst N)) ?B (heap s1) (heap s'))"
      by (rule Suc.IH)
    then show "runs (handle_elements dal c DESTROY_OPERATION mm (Ptr hb ha) n (Suc i) nt (used + u1)) s1 (\<lambda>u s'.
        u = used + of_nat (Suc n * dynamic_size c mm) \<and>
        released (set (map fst M)) (span d ?x (Suc n * k)) (heap s) (heap s'))"
    proof (rule runs_mono, elim conjE, intro conjI)
      fix u :: size_t and s' assume "u = used + u1 + of_nat (n * dynamic_size c mm)"
        and r2: "released (set (map fst N)) ?B (heap s1) (heap s')"
      then show "u = used + of_nat (Suc n * dynamic_size c mm)" using u1 by (simp add: algebra_simps)
      show "released (set (map fst M)) (span d ?x (Suc n * k)) (heap s) (heap s')"
        using released_trans [OF r1 r2, of "span d ?x (Suc n * k)"] split M by auto
    qed
  qed
  then show ?case
    using Suc.prems(1)
    by (simp add: handle_elements.simps element_address_destroy run_simps runs_get_data_load address
        del: ptr_add.simps)
qed

text \<open>One member: what is inside it, then its own block.\<close>

lemma destroy_inner_sequence:
  assumes IH: "\<And>mm. type_id m = TYPE_COMPOSED \<Longrightarrow> rec_members m = Inr mm \<Longrightarrow> wf_message mm \<Longrightarrow>
      dynamic_size c mm < 2 ^ 32 \<Longrightarrow> destroy_ok dal c mm"
    and small: "walk_inner (+) c m 0 < 2 ^ 32"
    and wf: "wf_members lo hi (m # ms)" and c: "positive_conf c" and header: "has_header m"
    and x: "x = a + unat (member_offset m)" and n: "n = extent_length c m" "n < 2 ^ 32"
    and data: "load_ptr (Ptr b x) (heap s) = Inr (Ptr d o')" and live: "live (heap s) (span d o' n)"
    and M: "built_inner False c m d o' (heap s) = Some M" "distinct (b # d # map fst M)" "owned M (heap s)"
  shows "runs (handle_inner dal c DESTROY_OPERATION m (Ptr b a) nt (default_sequence_size c m) used) s (\<lambda>u s'.
    u = used + of_nat (walk_inner (+) c m 0) \<and>
    released (set (map fst M)) (span d o' n) (heap s) (heap s'))"
proof (cases "type_id m = TYPE_COMPOSED")
  case False
  with M(1) show ?thesis by (simp add: handle_inner_def run_simps walk_inner.simps built_inner.simps)
next
  case True
  obtain mm where mm: "rec_members m = Inr mm" "wf_message mm"
    using wf_members_first(4) [OF wf True] by blast
  let ?k = "unat (size_of mm)" and ?cap = "capacity_of c m"
  have n': "n = ?cap * ?k" using n composed_extent_length [OF True mm(1)] by simp
  have seq: "is_sequence m" using header composed_header [OF True] by simp
  have w: "walk_inner (+) c m 0 = ?cap * dynamic_size c mm"
    using walk_inner_dynamic [OF True mm(1)] seq by simp
  have "1 * dynamic_size c mm \<le> ?cap * dynamic_size c mm"
    by (rule mult_le_mono1) (use capacity_positive [OF c, of m] in simp)
  then have small': "dynamic_size c mm < 2 ^ 32" using small w by linarith
  have "runs (handle_elements dal c DESTROY_OPERATION mm (Ptr b x) ?cap 0 nt used) s (\<lambda>u s'.
      u = used + of_nat (?cap * dynamic_size c mm) \<and>
      released (set (map fst M)) (span d (o' + 0 * ?k) (?cap * ?k)) (heap s) (heap s'))"
    by (rule destroy_elements [OF IH [OF True mm small'] mm(2) c refl _ data])
      (use M live n n' True mm seq in \<open>auto simp: built_inner.simps\<close>)
  then show ?thesis
    using True mm seq x n' w by (simp add: handle_inner_def capacity_of_def)
qed

lemma destroy_inner_plain:
  assumes IH: "\<And>mm. type_id m = TYPE_COMPOSED \<Longrightarrow> rec_members m = Inr mm \<Longrightarrow> wf_message mm \<Longrightarrow>
      dynamic_size c mm < 2 ^ 32 \<Longrightarrow> destroy_ok dal c mm"
    and small: "walk_inner (+) c m 0 < 2 ^ 32"
    and wf: "wf_members lo hi (m # ms)" and plain: "\<not> has_header m"
    and x: "x = a + unat (member_offset m)" and live: "live (heap s) (span b x (touched m))"
    and M: "built_inner False c m b x (heap s) = Some M" "distinct (b # map fst M)" "owned M (heap s)"
  shows "runs (handle_inner dal c DESTROY_OPERATION m (Ptr b a) nt cnt used) s (\<lambda>u s'.
    u = used + of_nat (walk_inner (+) c m 0) \<and>
    released (set (map fst M)) (span b x (touched m)) (heap s) (heap s'))"
proof (cases "type_id m = TYPE_COMPOSED")
  case False
  with M(1) show ?thesis by (simp add: handle_inner_def run_simps walk_inner.simps built_inner.simps)
next
  case True
  obtain mm where mm: "rec_members m = Inr mm" "wf_message mm"
    using wf_members_first(4) [OF wf True] by blast
  have single: "\<not> is_sequence m" using plain composed_header [OF True] by simp
  have w: "walk_inner (+) c m 0 = dynamic_size c mm"
    using walk_inner_dynamic [OF True mm(1)] single by simp
  have t: "touched m = unat (size_of mm)" by (rule touched_message [OF plain True mm(1)])
  have "runs (handle_message_memory dal c DESTROY_OPERATION mm (Ptr b x) nt) s (\<lambda>u s'.
      u = of_nat (dynamic_size c mm) \<and>
      released (set (map fst M)) (span b x (unat (size_of mm))) (heap s) (heap s'))"
    by (rule destroy_okD [OF IH [OF True mm small [unfolded w]]]) (use M live t True mm single in \<open>auto simp: built_inner.simps\<close>)
  then show ?thesis
    using True mm single x w t by (auto simp: handle_inner_def run_simps elim: runs_mono)
qed

text \<open>Freeing the block of a header and clearing the header.\<close>

lemma close_header:
  assumes header: "has_header m" and al: "chosen_allocator dal c = al"
    and data: "load_ptr (Ptr b (a + unat (member_offset m))) (heap s) = Inr (Ptr d 0)"
    and d: "kind_of (heap s) d = Some HeapBlock" "b \<noteq> d"
    and live: "live (heap s) (span b (a + unat (member_offset m)) 12)"
  shows "runs (close_member dal c DESTROY_OPERATION m (Ptr b a)) s (\<lambda>_ s'.
    released {d} (span b (a + unat (member_offset m)) 12) (heap s) (heap s'))"
proof -
  let ?x = "a + unat (member_offset m)"
  obtain bs where bs: "blocks (heap s) d = Some (HeapBlock, bs)"
    using d(1) by (auto simp: kind_of_def)
  have sub: "span b (?x + i) 4 \<subseteq> span b ?x 12" if "i + 4 \<le> 12" for i using span_mono [OF that] .
  have "runs (on_heap (call_deallocate al (Ptr d 0))) s (\<lambda>_ s1.
      runs (cseq (set_size (Ptr b ?x) 0) (set_capacity (Ptr b ?x) 0)) s1 (\<lambda>_ s'.
        released {d} (span b ?x 12) (heap s) (heap s')))"
    unfolding runs_on_heap
  proof (rule runs_call_deallocate_block [OF bs], goal_cases)
    case (1 m1)
    note r1 = freed_released [OF 1]
    have live1: "live m1 (span b ?x 12)"
      by (rule released_live [OF r1 live span_in_blocks]) (use d in simp)
    show ?case
      unfolding runs_cseq
    proof (rule runs_set_size, goal_cases)
      case 1
      show ?case using live1 sub [of 4] by (auto intro: live_mono)
    next
      case (2 m2)
      then have w2: "wrote b (?x + 4) (size_bytes 0) m1 m2" by simp
      show ?case
      proof (rule runs_set_capacity, goal_cases)
        case 1
        show ?case using wrote_live [OF w2 live1] sub [of 8] by (auto intro: live_mono)
      next
        case (2 m3)
        then have w3: "wrote b (?x + 8) (size_bytes 0) m2 m3" by simp
        have "released {} (span b ?x 12) m1 m3"
          using released_trans [OF wrote_released [OF w2] wrote_released [OF w3], of "span b ?x 12"]
            sub [of 4] sub [of 8] by simp
        from released_trans [OF r1 this] show ?case by simp
      qed
    qed
  qed
  then show ?thesis
    using header al data
    by (simp add: close_member_def run_simps runs_get_data_load Let_def)
qed

lemma destroy_member:
  assumes IH: "\<And>mm. type_id m = TYPE_COMPOSED \<Longrightarrow> rec_members m = Inr mm \<Longrightarrow> wf_message mm \<Longrightarrow>
      dynamic_size c mm < 2 ^ 32 \<Longrightarrow> destroy_ok dal c mm"
    and small: "walk_open (+) c m 0 + walk_inner (+) c m 0 < 2 ^ 32"
    and wf: "wf_members lo hi (m # ms)" and c: "positive_conf c" and al: "chosen_allocator dal c = al"
    and x: "x = a + unat (member_offset m)"
    and M: "built_member False c m b a (heap s) = Some M" "distinct (b # map fst M)" "owned M (heap s)"
    and live: "live (heap s) (span b x (touched m))"
  shows "runs (handle_inner dal c DESTROY_OPERATION m (Ptr b a) nt
      (if has_header m then default_sequence_size c m else 0) used) s (\<lambda>u s1.
    u = used + of_nat (walk_inner (+) c m 0) \<and>
    runs (close_member dal c DESTROY_OPERATION m (Ptr b a)) s1 (\<lambda>_ s2.
      released (set (map fst M)) (span b x (touched m)) (heap s) (heap s2)))"
proof (cases "has_header m")
  case False
  have "runs (handle_inner dal c DESTROY_OPERATION m (Ptr b a) nt 0 used) s (\<lambda>u s1.
      u = used + of_nat (walk_inner (+) c m 0) \<and>
      released (set (map fst M)) (span b x (touched m)) (heap s) (heap s1))"
    by (rule destroy_inner_plain [OF IH _ wf False x live _ M(2,3)])
      (use M(1) small False x in \<open>auto simp: built_member_plain\<close>)
  with False show ?thesis
    by (auto simp: close_member_def run_simps elim!: runs_mono)
next
  case True
  from built_member_headerE [OF M(1) True] obtain d o' n N where
    E: "header_extent False c m (Ptr b x) (heap s) = Some (d, o', n)"
    and N: "built_inner False c m d o' (heap s) = Some N" and MN: "M = (d, o', n) # N"
    unfolding x .
  have d: "o' = 0" "kind_of (heap s) d = Some HeapBlock" "owned N (heap s)" using M(3) MN by simp_all
  from E obtain bs where n: "n = extent_length c m" and data: "load_ptr (Ptr b x) (heap s) = Inr (Ptr d o')"
    and bs: "load_bytes n (Ptr d o') (heap s) = Inr bs"
    unfolding header_extent_Some by blast
  have "n < 2 ^ 32" using small True n by (simp add: walk_open_def)
  have outside: "b \<noteq> d" "b \<notin> set (map fst N)" "d \<notin> set (map fst N)" "distinct (b # d # map fst N)"
    using M(2) MN by auto
  have liveE: "live (heap s) (span d o' n)"
    using bs by (auto simp: live_def mem_span byte_at_def split: option.splits if_splits)
  have "runs (handle_inner dal c DESTROY_OPERATION m (Ptr b a) nt (default_sequence_size c m) used) s (\<lambda>u s1.
      u = used + of_nat (walk_inner (+) c m 0) \<and>
      released (set (map fst N)) (span d o' n) (heap s) (heap s1))"
    by (rule destroy_inner_sequence [OF IH _ wf c True x n \<open>n < 2 ^ 32\<close> data liveE N outside(4) d(3)])
      (use small in auto)
  then have "runs (handle_inner dal c DESTROY_OPERATION m (Ptr b a) nt (default_sequence_size c m) used) s (\<lambda>u s1.
    u = used + of_nat (walk_inner (+) c m 0) \<and>
    runs (close_member dal c DESTROY_OPERATION m (Ptr b a)) s1 (\<lambda>_ s2.
      released (set (map fst M)) (span b x (touched m)) (heap s) (heap s2)))"
  proof (rule runs_mono, elim conjE, intro conjI)
    fix u :: size_t and s1 :: tu_state assume "u = used + of_nat (walk_inner (+) c m 0)"
      and r1: "released (set (map fst N)) (span d o' n) (heap s) (heap s1)"
    then show "u = used + of_nat (walk_inner (+) c m 0)" by simp
    have apart: "span b x i \<inter> (span d o' n \<union> in_blocks (set (map fst N))) = {}" for i
      using span_in_blocks [OF outside(2)] span_disjoint_block [OF outside(1)] by (simp add: Int_Un_distrib)
    have data1: "load_ptr (Ptr b x) (heap s1) = Inr (Ptr d 0)"
      using load_ptr_same [OF data released_same [OF r1 apart]] d(1) by simp
    have live1: "live (heap s1) (span b x 12)"
      by (rule released_live [OF r1 _ span_in_blocks [OF outside(2)]]) (use live True in simp)
    have kind1: "kind_of (heap s1) d = Some HeapBlock" using released_kind [OF r1 outside(3)] d(2) by simp
    show "runs (close_member dal c DESTROY_OPERATION m (Ptr b a)) s1 (\<lambda>_ s2.
      released (set (map fst M)) (span b x (touched m)) (heap s) (heap s2))"
    proof (rule runs_mono [OF close_header [OF True al, of b a s1 d, folded x, OF data1 kind1 outside(1) live1]])
      fix y s2 assume r2: "released {d} (span b x 12) (heap s1) (heap s2)"
      have "span d o' n \<subseteq> in_blocks (set (map fst N) \<union> {d})" by (auto simp: in_blocks_def mem_span)
      then show "released (set (map fst M)) (span b x (touched m)) (heap s) (heap s2)"
        using released_trans [OF r1 r2, of "span b x 12"] True MN by auto
    qed
  qed
  with True show ?thesis by simp
qed

lemma destroy_traversal:
  assumes c: "positive_conf c" and al: "chosen_allocator dal c = al"
  shows "wf_message mm \<Longrightarrow> dynamic_size c mm < 2 ^ 32 \<Longrightarrow> destroy_ok dal c mm"
    and "wf_members lo hi ms \<Longrightarrow> walk_members (+) c ms 0 < 2 ^ 32 \<Longrightarrow>
      built_members False c ms b a (heap s) = Some L \<Longrightarrow> distinct (b # map fst L) \<Longrightarrow> owned L (heap s) \<Longrightarrow>
      live (heap s) (span b (a + lo) (hi - lo)) \<Longrightarrow>
      runs (handle_members dal c DESTROY_OPERATION ms (Ptr b a) nt used) s (\<lambda>u s'.
        u = used + of_nat (walk_members (+) c ms 0) \<and>
        released (set (map fst L)) (span b (a + lo) (hi - lo)) (heap s) (heap s'))"
proof (induction mm and ms arbitrary: and lo hi b a s nt used L rule: message_induct)
  case (1 mm)
  have wf: "wf_members 0 (unat (size_of mm)) (member_list mm)" using 1(2) by (simp add: wf_message.simps)
  have size: "dynamic_size c mm = walk_members (+) c (member_list mm) 0"
    by (rule dynamic_size_members)
  show ?case
    unfolding destroy_ok_def handle_message_memory.simps built_message.simps size
  proof (intro allI impI)
    fix b a nt L and s :: tu_state
    assume "built_members False c (member_list mm) b a (heap s) = Some L" "distinct (b # map fst L)"
      "owned L (heap s)" "live (heap s) (span b a (unat (size_of mm)))"
    then show "runs (handle_members dal c DESTROY_OPERATION (member_list mm) (Ptr b a) nt 0) s (\<lambda>u s'.
        u = of_nat (walk_members (+) c (member_list mm) 0) \<and>
        released (set (map fst L)) (span b a (unat (size_of mm))) (heap s) (heap s'))"
      using 1(1) [OF wf, where used = 0] 1(3) size by simp
  qed
next
  case 2
  then show ?case by (simp add: handle_members.simps run_simps walk_members.simps built_members.simps)
next
  case (3 m ms)
  note wf = wf_members_first [OF 3(3)]
  have c0: "n_rules c = 0" using c by (simp add: positive_conf_def)
  obtain w where w: "member_size m = Inr w" using 3(3) by (rule wf_member_size)
  let ?A = "span b (a + lo) (hi - lo)"
  let ?off = "unat (member_offset m)"
  let ?x = "a + ?off"
  let ?B = "span b ?x (touched m)"
  let ?C = "span b (a + (?off + touched m)) (hi - (?off + touched m))"
  have sub: "?B \<subseteq> ?A" "?C \<subseteq> ?A" "?B \<inter> ?C = {}" using wf(1,2) by (auto simp: mem_span)
  have walk: "walk_members (+) c (m # ms) 0 =
      walk_open (+) c m 0 + walk_inner (+) c m 0 + walk_members (+) c ms 0"
    by (rule walk_members_plus)
  from 3(5) obtain M N where L: "L = M @ N" and M: "built_member False c m b a (heap s) = Some M"
    and N: "built_members False c ms b a (heap s) = Some N"
    by (auto simp: built_members_Cons)
  have outside: "b \<notin> set (map fst M)" "b \<notin> set (map fst N)" "set (map fst M) \<inter> set (map fst N) = {}"
    "distinct (map fst M)" "distinct (map fst N)" "owned M (heap s)" "owned N (heap s)"
    using 3(6,7) L by auto
  have IH: "destroy_ok dal c mm" if "type_id m = TYPE_COMPOSED" "rec_members m = Inr mm" "wf_message mm"
    "dynamic_size c mm < 2 ^ 32" for mm using 3(1) that by blast
  let ?used = "used + of_nat (walk_open (+) c m 0)"
  let ?cnt = "if has_header m then default_sequence_size c m else 0"
  have member: "runs (handle_inner dal c DESTROY_OPERATION m (Ptr b a) nt ?cnt ?used) s (\<lambda>u s1.
      u = ?used + of_nat (walk_inner (+) c m 0) \<and>
      runs (close_member dal c DESTROY_OPERATION m (Ptr b a)) s1 (\<lambda>_ s2.
        released (set (map fst M)) ?B (heap s) (heap s2)))"
    by (rule destroy_member [OF IH _ 3(3) c al refl M]) (use outside 3(4,8) walk sub in \<open>auto intro: live_mono\<close>)
  show ?case
    unfolding handle_members_Cons [OF c0] open_destroy [OF c0 w] cbind_creturn option.case prod.case runs_cbind
  proof (rule runs_mono [OF member], elim conjE)
    fix u :: size_t and s1 :: tu_state
    assume u: "u = ?used + of_nat (walk_inner (+) c m 0)"
      and close: "runs (close_member dal c DESTROY_OPERATION m (Ptr b a)) s1 (\<lambda>_ s2.
        released (set (map fst M)) ?B (heap s) (heap s2))"
    show "runs (cseq (close_member dal c DESTROY_OPERATION m (Ptr b a))
        (handle_members dal c DESTROY_OPERATION ms (Ptr b a) nt u)) s1 (\<lambda>u s'.
        u = used + of_nat (walk_members (+) c (m # ms) 0) \<and>
        released (set (map fst L)) ?A (heap s) (heap s'))"
      unfolding runs_cseq
    proof (rule runs_mono [OF close])
      fix y and s2 :: tu_state assume r1: "released (set (map fst M)) ?B (heap s) (heap s2)"
      have "same_on (?C \<union> extents N) (heap s) (heap s2)"
        by (rule released_same [OF r1])
          (use sub(3) span_in_blocks [OF outside(1), of "a + (?off + touched m)"]
            extents_apart [OF outside(3)] extents_span [OF outside(2), of ?x "touched m"] in blast)
      from built_same(2) [OF c wf(3) N this] have "built_members False c ms b a (heap s2) = Some N" .
      moreover have "distinct (b # map fst N)" using outside by simp
      moreover have "owned N (heap s2)" by (rule released_owned [OF r1 outside(7,3)])
      moreover have "live (heap s2) ?C"
        by (rule released_live [OF r1 live_mono [OF 3(8) sub(2)] span_in_blocks [OF outside(1)]])
      ultimately have "runs (handle_members dal c DESTROY_OPERATION ms (Ptr b a) nt u) s2 (\<lambda>v s'.
          v = u + of_nat (walk_members (+) c ms 0) \<and> released (set (map fst N)) ?C (heap s2) (heap s'))"
        using 3(2) [OF wf(3)] 3(4) walk by simp
      then show "runs (handle_members dal c DESTROY_OPERATION ms (Ptr b a) nt u) s2 (\<lambda>u s'.
          u = used + of_nat (walk_members (+) c (m # ms) 0) \<and>
          released (set (map fst L)) ?A (heap s) (heap s'))"
      proof (rule runs_mono, elim conjE, intro conjI)
        fix v :: size_t and s' :: tu_state assume "v = u + of_nat (walk_members (+) c ms 0)"
          and r2: "released (set (map fst N)) ?C (heap s2) (heap s')"
        then show "v = used + of_nat (walk_members (+) c (m # ms) 0)" by (simp add: u walk)
        show "released (set (map fst L)) ?A (heap s) (heap s')"
          using released_trans [OF r1 r2, of ?A] sub L by auto
      qed
    qed
  qed
qed

end

end
