(* ===== verification/Message_Memory.thy ===== *)
theory Message_Memory
  imports Message_Destroy
begin

text \<open>
  The public functions of \<^verbatim>\<open>src/type_utilities.c\<close>, for configurations without memory rules:
  what the size functions compute, what creation and destruction do to memory, and that the
  one undoes the other. The last section has what goes wrong: sequences of strings, and
  destroying a message whose creation failed.
\<close>

section \<open>Steps shared by the public functions\<close>

lemma init_name_tree_none [simp]: "n_rules conf = 0 \<Longrightarrow> init_name_tree dal conf = creturn empty_name_tree"
  by (simp add: init_name_tree_def)

lemma destroy_name_tree_none [simp]: "n_rules conf = 0 \<Longrightarrow> destroy_name_tree dal conf nt = creturn ()"
  by (simp add: destroy_name_tree_def)

lemma with_members_Inr [simp]: "introspect ts = Inr mm \<Longrightarrow> with_members ts f = f mm"
  by (simp add: with_members_def cbind_def cread_def)

lemma cseq_creturn [simp]: "cseq (creturn x) f = f"
  by (simp add: cseq_def)

lemma chosen_allocator_configuration [simp]:
  "chosen_allocator dal (get_configuration conf) = chosen_allocator dal conf"
  by (simp add: chosen_allocator_def get_configuration_def Let_def)

lemma frame_memset:
  assumes "live m (span b a (unat w))" and "w \<noteq> 0"
    and "\<And>m'. frame (unallocated m) (span b a (unat w)) (unallocated m') m m' \<Longrightarrow>
      holds_at m' b a (replicate (unat w) zero_byte) \<Longrightarrow> kind_of m' = kind_of m \<Longrightarrow>
      same_on (- span b a (unat w)) m m' \<Longrightarrow> P () m'"
  shows "runs (cupdate (memset_zero (Ptr b a) w)) m P"
proof (rule runs_wrote_zero [OF assms(1) refl])
  show "0 < unat w" using assms(2) by (simp add: unat_gt_0)
  fix m' assume w: "wrote b a (replicate (unat w) zero_byte) m m'"
  have "byte_at m' x \<noteq> None" if "byte_at m x \<noteq> None" for x
    using wrote_live [OF w, of "{x}"] that by (simp add: live_def)
  then have "frame (unallocated m) (span b a (unat w)) (unallocated m') m m'"
    using w unallocated_kind [of m' m] by (auto simp: frame_def wrote_def intro: same_on_mono)
  then show "P () m'" using w assms(3) by (simp add: wrote_def)
qed

lemma live_disjoint_unallocated: "live m A \<Longrightarrow> A \<inter> unallocated m = {}"
  by (rule live_not_unallocated)

section \<open>Sizes\<close>

lemma get_dynamic_size_eq:
  assumes "n_rules conf = 0" and "introspect ts = Inr mm" and "wf_message mm"
  shows "micro_ros_utilities_get_dynamic_size dal ts conf s =
    Inr (of_nat (dynamic_size (get_configuration conf) mm), s)"
proof -
  have n: "n_rules (get_configuration conf) = 0"
    using get_configuration_positive [OF assms(1)] by (simp add: positive_conf_def)
  show ?thesis
    using calculate_walk(1) [OF _ n assms(3), of CALCULATE_SIZE_OPERATION 0 s] assms
    by (simp add: micro_ros_utilities_get_dynamic_size_def traverse_def calculates_def index_at_def
        move_index_def adv_of_def dynamic_size_def cbind_def cseq_def creturn_def)
qed

lemma get_static_size_eq:
  assumes "n_rules conf = 0" and "introspect ts = Inr mm" and "wf_message mm"
  shows "micro_ros_utilities_get_static_size dal ts conf s =
    Inr (of_nat (static_size (get_configuration conf) mm),
         s\<lparr>operation_buffer := NULL,
           operation_buffer_index := of_nat (static_size (get_configuration conf) mm)\<rparr>)"
proof -
  let ?s = "s\<lparr>operation_buffer := NULL, operation_buffer_index := 0\<rparr>"
  have n: "n_rules (get_configuration conf) = 0"
    using get_configuration_positive [OF assms(1)] by (simp add: positive_conf_def)
  show ?thesis
    using calculate_walk(1) [OF _ n assms(3), of CALCULATE_SIZE_PREALLOCATED_OPERATION 0 ?s] assms
    by (simp add: micro_ros_utilities_get_static_size_def traverse_def calculates_def index_at_def
        move_index_def adv_of_def static_size_def cbind_def cseq_def cmodify_def creturn_def)
qed

section \<open>Creation with an allocator\<close>

lemma of_nat_eq_unat: "n < 2 ^ 32 \<Longrightarrow> u = (of_nat n :: size_t) \<longleftrightarrow> unat u = n"
  by (auto simp: unat_of_nat)

text \<open>The result of a successful creation: everything in place, in new blocks of its own.\<close>

definition created :: "memory_conf \<Rightarrow> message_members \<Rightarrow> nat \<Rightarrow> nat \<Rightarrow> mem \<Rightarrow> mem \<Rightarrow> bool" where
  "created c mm b a m m' \<longleftrightarrow> (\<exists>L. built_message True c mm b a m' = Some L \<and> allocated L m m')"

text \<open>The message itself, before it is filled.\<close>

definition message_span :: "message_members \<Rightarrow> nat \<Rightarrow> nat \<Rightarrow> addr set" where
  "message_span mm b a = span b a (unat (size_of mm))"

lemma allocated_kind: "kind_of m1 = kind_of m \<Longrightarrow> allocated L m1 m' \<Longrightarrow> allocated L m m'"
  by (simp add: allocated_def)

lemma create_unfold:
  assumes "n_rules conf = 0" and "introspect ts = Inr mm" and "wf_message mm"
  shows "runs (micro_ros_utilities_create_message_memory dal ts msg conf) s P \<longleftrightarrow>
    runs (cupdate (memset_zero msg (size_of mm))) (heap s) (\<lambda>_ m.
      runs (handle_message_memory dal (get_configuration conf) CREATE_OPERATION mm msg empty_name_tree)
        (s\<lparr>heap := m\<rparr>)
        (\<lambda>u. P (u = of_nat (dynamic_size (get_configuration conf) mm))))"
  using assms
  by (simp add: micro_ros_utilities_create_message_memory_def runs_cbind
      runs_of_Inr [OF get_dynamic_size_eq [OF assms]] traverse_def run_simps)

context c_allocator
begin

lemma create_message_memory_ok:
  assumes al: "chosen_allocator dal conf = al" and conf: "n_rules conf = 0"
    and mm: "introspect ts = Inr mm" "wf_message mm"
    and size: "dynamic_size (get_configuration conf) mm < 2 ^ 32"
    and live: "live (heap s) (message_span mm b a)"
  shows "runs (micro_ros_utilities_create_message_memory dal ts (Ptr b a) conf) s (\<lambda>ok s'.
    frame (unallocated (heap s)) (message_span mm b a) (unallocated (heap s')) (heap s) (heap s') \<and>
    (ok \<longrightarrow> created (get_configuration conf) mm b a (heap s) (heap s')) \<and>
    (total_allocator al \<longrightarrow> ok))"
  unfolding create_unfold [OF conf mm]
proof (rule frame_memset)
  let ?c = "get_configuration conf" and ?A = "message_span mm b a"
  let ?d = "dynamic_size ?c mm"
  show "live (heap s) (span b a (unat (size_of mm)))" using live by (simp add: message_span_def)
  show "size_of mm \<noteq> 0" using mm(2) by (simp add: wf_message.simps)
  fix m1
  assume fr: "frame (unallocated (heap s)) (span b a (unat (size_of mm))) (unallocated m1) (heap s) m1"
    and kind: "kind_of m1 = kind_of (heap s)"
  have live1: "live m1 (span b a (unat (size_of mm)))"
    by (rule frame_live [OF fr]) (use live live_not_unallocated in \<open>auto simp: message_span_def\<close>)
  have "runs (handle_message_memory dal ?c CREATE_OPERATION mm (Ptr b a) empty_name_tree) (s\<lparr>heap := m1\<rparr>) (\<lambda>u s'.
      frame (unallocated m1) (span b a (unat (size_of mm))) (unallocated (heap s')) m1 (heap s') \<and>
      True \<and> unat u \<le> ?d \<and> (\<not> total_allocator al \<or> unat u = ?d) \<and>
      (unat u = ?d \<longrightarrow> (\<exists>L. built_message True ?c mm b a (heap s') = Some L \<and> allocated L m1 (heap s') \<and>
        disjoint_extents L \<and> extents L \<subseteq> unallocated m1 - unallocated (heap s'))))"
    using from_heap.create_message [OF get_configuration_positive [OF conf] _ mm(2), of dal "s\<lparr>heap := m1\<rparr>" b a ?d]
      al live1 live_not_unallocated [OF live1] size
    by (simp add: adv_of_def dynamic_size_def)
  then show "runs (handle_message_memory dal ?c CREATE_OPERATION mm (Ptr b a) empty_name_tree) (s\<lparr>heap := m1\<rparr>)
      (\<lambda>u s'. frame (unallocated (heap s)) ?A (unallocated (heap s')) (heap s) (heap s') \<and>
        (u = of_nat ?d \<longrightarrow> created ?c mm b a (heap s) (heap s')) \<and> (total_allocator al \<longrightarrow> u = of_nat ?d))"
  proof (rule runs_mono, elim conjE, intro conjI impI)
    fix u :: size_t and s' :: tu_state
    assume fr2: "frame (unallocated m1) (span b a (unat (size_of mm))) (unallocated (heap s')) m1 (heap s')"
      and full: "\<not> total_allocator al \<or> unat u = ?d"
      and built: "unat u = ?d \<longrightarrow> (\<exists>L. built_message True ?c mm b a (heap s') = Some L \<and>
        allocated L m1 (heap s') \<and> disjoint_extents L \<and> extents L \<subseteq> unallocated m1 - unallocated (heap s'))"
    show "frame (unallocated (heap s)) ?A (unallocated (heap s')) (heap s) (heap s')"
      by (rule frame_trans [OF fr fr2]) (simp add: message_span_def)
    show "u = of_nat ?d \<Longrightarrow> created ?c mm b a (heap s) (heap s')"
      using built allocated_kind [OF kind] of_nat_eq_unat [OF size] by (auto simp: created_def)
    show "total_allocator al \<Longrightarrow> u = of_nat ?d"
      using full of_nat_eq_unat [OF size] by simp
  qed
qed

end

section \<open>Creation in a static buffer\<close>

text \<open>
  The caller's buffer: \<open>len\<close> bytes at \<open>o0\<close> of a live block, apart from the message.
\<close>

definition usable_buffer :: "mem \<Rightarrow> nat \<Rightarrow> nat \<Rightarrow> nat \<Rightarrow> bool" where
  "usable_buffer m b0 o0 len \<longleftrightarrow> blocks m b0 \<noteq> None \<and> o0 + len \<le> block_length m b0"

lemma usable_live: "usable_buffer m b0 o0 len \<Longrightarrow> n \<le> len \<Longrightarrow> live m (span b0 o0 n)"
  by (auto simp: usable_buffer_def live_def mem_span byte_at_def block_length_def split: option.splits)

lemma runs_clear_buffer:
  assumes "usable_buffer m b0 o0 len" and "unat w \<le> len"
    and "\<And>m'. same_on (- span b0 o0 (unat w)) m m' \<Longrightarrow> holds_at m' b0 o0 (replicate (unat w) zero_byte) \<Longrightarrow>
      (\<And>A. live m A \<Longrightarrow> live m' A) \<Longrightarrow> P () m'"
  shows "runs (cupdate (memset_zero (Ptr b0 o0) w)) m P"
proof (cases "w = 0")
  case True
  obtain k bs where b: "blocks m b0 = Some (k, bs)" "o0 \<le> length bs"
    using assms(1) by (auto simp: usable_buffer_def block_length_def split: option.splits)
  then have "m[b0 := Some (k, bs)] = m"
    using blocks_Some_less [OF b(1)] by (simp add: blocks_def list_update_same_conv)
  with b True assms(3) [of m] show ?thesis
    by (simp add: memset_zero_def access_simps holds_at_def)
next
  case False
  then have "0 < unat w" by (simp add: unat_gt_0)
  from usable_live [OF assms(1,2)] refl this show ?thesis
    by (rule runs_wrote_zero) (use assms(3) in \<open>simp add: wrote_def\<close>)
qed

lemma create_static_unfold:
  assumes "n_rules conf = 0" and "introspect ts = Inr mm" and "wf_message mm"
    and sz: "sz = (of_nat (static_size (get_configuration conf) mm) :: size_t)"
  shows "runs (micro_ros_utilities_create_static_message_memory dal ts msg conf buf len) s P \<longleftrightarrow>
    (if sz > len then P False (s\<lparr>operation_buffer := NULL, operation_buffer_index := sz\<rparr>)
     else runs (cupdate (memset_zero buf sz)) (heap s) (\<lambda>_ m1.
       runs (cupdate (memset_zero msg (size_of mm))) m1 (\<lambda>_ m2.
         runs (handle_message_memory dal (get_configuration conf) CREATE_PREALLOCATED_OPERATION mm msg empty_name_tree)
           (s\<lparr>operation_buffer := buf, operation_buffer_index := 0, heap := m2\<rparr>)
           (\<lambda>u t. P (u = sz \<and> u = operation_buffer_index t) t))))"
  using assms
  by (simp add: micro_ros_utilities_create_static_message_memory_def runs_cbind
      runs_of_Inr [OF get_static_size_eq [OF assms(1-3)]] traverse_def run_simps)

lemma create_static_message_memory_ok:
  assumes conf: "n_rules conf = 0" and mm: "introspect ts = Inr mm" "wf_message mm"
    and size: "static_size (get_configuration conf) mm < 2 ^ 32"
    and live: "live (heap s) (message_span mm b a)"
    and buf: "usable_buffer (heap s) b0 o0 (unat len)"
    and apart: "message_span mm b a \<inter> span b0 o0 (unat len) = {}"
  shows "runs (micro_ros_utilities_create_static_message_memory dal ts (Ptr b a) conf (Ptr b0 o0) len) s (\<lambda>ok s'.
    ok = (static_size (get_configuration conf) mm \<le> unat len) \<and>
    same_on (- (message_span mm b a \<union> span b0 o0 (unat len))) (heap s) (heap s') \<and>
    (if ok
     then operation_buffer_index s' = of_nat (static_size (get_configuration conf) mm) \<and>
       (\<exists>L. built_message True (get_configuration conf) mm b a (heap s') = Some L \<and>
         in_buffer b0 o0 (static_size (get_configuration conf) mm) L \<and> disjoint_extents L)
     else heap s' = heap s))"
proof -
  let ?c = "get_configuration conf" and ?A = "message_span mm b a"
  define d where "d = static_size ?c mm"
  define sz where "sz = (of_nat d :: size_t)"
  have sz: "unat sz = d" using size by (simp add: sz_def d_def)
  note unfolded = create_static_unfold [OF conf mm sz_def [unfolded d_def]]
  show ?thesis
  proof (cases "len < sz")
    case True
    then have "\<not> d \<le> unat len" using sz by (simp add: word_less_nat_alt)
    with True show ?thesis unfolding unfolded by (simp add: d_def)
  next
    case False
    then have fits: "d \<le> unat len" using sz by (simp add: word_less_nat_alt)
    have "runs (cupdate (memset_zero (Ptr b0 o0) sz)) (heap s) (\<lambda>_ m1.
       runs (cupdate (memset_zero (Ptr b a) (size_of mm))) m1 (\<lambda>_ m2.
         runs (handle_message_memory dal ?c CREATE_PREALLOCATED_OPERATION mm (Ptr b a) empty_name_tree)
           (s\<lparr>operation_buffer := Ptr b0 o0, operation_buffer_index := 0, heap := m2\<rparr>)
           (\<lambda>u s'. u = sz \<and> operation_buffer_index s' = sz \<and>
             same_on (- (?A \<union> span b0 o0 (unat len))) (heap s) (heap s') \<and>
             (\<exists>L. built_message True ?c mm b a (heap s') = Some L \<and> in_buffer b0 o0 d L \<and> disjoint_extents L))))"
    proof (rule runs_clear_buffer [OF buf], goal_cases)
      case 1
      show ?case using fits sz by simp
    next
      case (2 m1)
      note m1 = 2 [unfolded sz]
      have liveA: "live m1 (span b a (unat (size_of mm)))" using m1(3) live by (simp add: message_span_def)
      show ?case
      proof (rule frame_memset [OF liveA], goal_cases)
        case 1
        show ?case using mm(2) by (simp add: wf_message.simps)
      next
        case (2 m2)
        let ?s = "s\<lparr>operation_buffer := Ptr b0 o0, operation_buffer_index := 0, heap := m2\<rparr>"
        have liveA2: "live m2 (span b a (unat (size_of mm)))"
          by (rule frame_live [OF 2(1) liveA]) (rule live_not_unallocated [OF liveA])
        have sub: "span b0 o0 d \<subseteq> span b0 o0 (unat len)" using span_mono [of 0 d "unat len" b0 o0] fits by simp
        have apart2: "span b a (unat (size_of mm)) \<inter> span b0 o0 d = {}"
          using apart sub by (auto simp: message_span_def)
        have "holds_at m2 b0 o0 (replicate d zero_byte)"
          by (rule holds_at_same_on [OF m1(2) same_on_mono [OF 2(4)]]) (use apart2 in auto)
        then have ready: "static_ready b0 o0 d 0 ?s" by (simp add: static_ready_def)
        have pool: "static_pool b0 o0 d ?s = span b0 o0 d" by (simp add: static_pool_def)
        have walk: "d = walk_message (adv_of CREATE_PREALLOCATED_OPERATION) ?c mm 0"
          by (simp add: d_def static_size_def adv_of_def)
        have "runs (handle_message_memory dal ?c CREATE_PREALLOCATED_OPERATION mm (Ptr b a) empty_name_tree) ?s (\<lambda>u s'.
            frame (span b0 o0 d) (span b a (unat (size_of mm))) (static_pool b0 o0 d s') m2 (heap s') \<and>
            static_ready b0 o0 d d s' \<and> unat u \<le> d \<and> (False \<or> unat u = d) \<and>
            (unat u = d \<longrightarrow> (\<exists>L. built_message True ?c mm b a (heap s') = Some L \<and> in_buffer b0 o0 d L \<and>
              disjoint_extents L \<and> extents L \<subseteq> span b0 o0 d - static_pool b0 o0 d s')))"
          using static_buffer.create_message [of ?c dal "chosen_allocator dal ?c" mm b0 o0 sz ?s b a d empty_name_tree]
            get_configuration_positive [OF conf] mm(2) ready liveA2 apart2 pool walk
          unfolding sz by simp
        then show ?case
        proof (rule runs_mono, elim conjE, intro conjI)
          fix u :: size_t and s' :: tu_state
          assume fr: "frame (span b0 o0 d) (span b a (unat (size_of mm))) (static_pool b0 o0 d s') m2 (heap s')"
            and r: "static_ready b0 o0 d d s'" and full: "False \<or> unat u = d"
            and built: "unat u = d \<longrightarrow> (\<exists>L. built_message True ?c mm b a (heap s') = Some L \<and> in_buffer b0 o0 d L \<and>
              disjoint_extents L \<and> extents L \<subseteq> span b0 o0 d - static_pool b0 o0 d s')"
          show "u = sz" using full sz by (simp add: word_unat_eq_iff)
          show "operation_buffer_index s' = sz" using r by (simp add: static_ready_def sz_def)
          show "\<exists>L. built_message True ?c mm b a (heap s') = Some L \<and> in_buffer b0 o0 d L \<and> disjoint_extents L"
            using built full by blast
          let ?R = "- (?A \<union> span b0 o0 (unat len))"
          have "same_on ?R (heap s) m1" using m1(1) by (rule same_on_mono) (use sub in blast)
          moreover have "same_on ?R m1 m2" using 2(4) by (rule same_on_mono) (auto simp: message_span_def)
          moreover have "same_on ?R m2 (heap s')"
            by (rule frame_same [OF fr]) (use sub in \<open>auto simp: message_span_def\<close>)
          ultimately show "same_on ?R (heap s) (heap s')" by (blast intro: same_on_trans)
        qed
      qed
    qed
    then show ?thesis
      using False fits unfolding unfolded
      by (auto simp: d_def sz_def elim!: runs_mono)
  qed
qed

section \<open>Destruction\<close>

lemma destroy_unfold:
  assumes "n_rules conf = 0" and "introspect ts = Inr mm" and "wf_message mm"
  shows "runs (micro_ros_utilities_destroy_message_memory dal ts msg conf) s P \<longleftrightarrow>
    runs (handle_message_memory dal (get_configuration conf) DESTROY_OPERATION mm msg empty_name_tree) s (\<lambda>u t.
      runs (cupdate (memset_zero msg (size_of mm))) (heap t) (\<lambda>_ m.
        P (of_nat (dynamic_size (get_configuration conf) mm) = u) (t\<lparr>heap := m\<rparr>)))"
  using assms
  by (simp add: micro_ros_utilities_destroy_message_memory_def runs_cbind
      runs_of_Inr [OF get_dynamic_size_eq [OF assms]] traverse_def run_simps)

lemma allocated_owned: "allocated L m m' \<Longrightarrow> owned L m'"
  unfolding allocated_def owned_def by (metis image_eqI list.set_map)

lemma allocated_distinct:
  "allocated L m m' \<Longrightarrow> kind_of m b \<noteq> None \<Longrightarrow> distinct (b # map fst L)"
  unfolding allocated_def by auto

lemma live_kind: "live m (span b a n) \<Longrightarrow> 0 < n \<Longrightarrow> kind_of m b \<noteq> None"
  by (erule (1) live_block) (simp add: kind_of_def)

lemma byte_at_kind: "kind_of m (fst x) = None \<Longrightarrow> byte_at m x = None"
  by (simp add: kind_of_def byte_at_def)

context c_allocator
begin

lemma destroy_message_memory_ok:
  assumes al: "chosen_allocator dal conf = al" and conf: "n_rules conf = 0"
    and mm: "introspect ts = Inr mm" "wf_message mm"
    and size: "dynamic_size (get_configuration conf) mm < 2 ^ 32"
    and built: "built_message False (get_configuration conf) mm b a (heap s) = Some L"
    and L: "distinct (b # map fst L)" "owned L (heap s)"
    and live: "live (heap s) (message_span mm b a)"
  shows "runs (micro_ros_utilities_destroy_message_memory dal ts (Ptr b a) conf) s (\<lambda>ok s'.
    ok \<and> released (set (map fst L)) (message_span mm b a) (heap s) (heap s') \<and>
    holds_at (heap s') b a (replicate (unat (size_of mm)) zero_byte))"
  unfolding destroy_unfold [OF conf mm]
proof (rule runs_mono, rule destroy_okD)
  let ?c = "get_configuration conf"
  show "destroy_ok dal ?c mm"
    by (rule destroy_traversal(1) [OF get_configuration_positive [OF conf] _ mm(2) size]) (simp add: al)
  show "built_message False ?c mm b a (heap s) = Some L" by (rule built)
  show "distinct (b # map fst L)" "owned L (heap s)" by (rule L)+
  show liveA: "live (heap s) (span b a (unat (size_of mm)))" using live by (simp add: message_span_def)
  fix u :: size_t and t :: tu_state
  assume u: "u = of_nat (dynamic_size ?c mm) \<and>
    released (set (map fst L)) (span b a (unat (size_of mm))) (heap s) (heap t)"
  then have r: "released (set (map fst L)) (span b a (unat (size_of mm))) (heap s) (heap t)" by simp
  have "live (heap t) (span b a (unat (size_of mm)))"
    by (rule released_live [OF r liveA span_in_blocks]) (use L(1) in simp)
  then show "runs (cupdate (memset_zero (Ptr b a) (size_of mm))) (heap t) (\<lambda>_ m.
      of_nat (dynamic_size ?c mm) = u \<and>
      released (set (map fst L)) (message_span mm b a) (heap s) (heap (t\<lparr>heap := m\<rparr>)) \<and>
      holds_at (heap (t\<lparr>heap := m\<rparr>)) b a (replicate (unat (size_of mm)) zero_byte))"
  proof (rule runs_wrote_zero [OF _ refl])
    show "0 < unat (size_of mm)" using mm(2) by (simp add: wf_message.simps unat_gt_0)
    fix m assume w: "wrote b a (replicate (unat (size_of mm)) zero_byte) (heap t) m"
    show "of_nat (dynamic_size ?c mm) = u \<and>
      released (set (map fst L)) (message_span mm b a) (heap s) (heap (t\<lparr>heap := m\<rparr>)) \<and>
      holds_at (heap (t\<lparr>heap := m\<rparr>)) b a (replicate (unat (size_of mm)) zero_byte)"
      using u wrote_holds [OF w] released_trans [OF r wrote_released [OF w], of "message_span mm b a"]
      by (simp add: message_span_def)
  qed
qed

text \<open>What creation built, destruction gives back.\<close>

lemma created_destroyed:
  assumes al: "chosen_allocator dal conf = al" and conf: "n_rules conf = 0"
    and mm: "introspect ts = Inr mm" "wf_message mm"
    and size: "dynamic_size (get_configuration conf) mm < 2 ^ 32"
    and live: "live m (message_span mm b a)"
    and fr: "frame (unallocated m) (message_span mm b a) (unallocated (heap s)) m (heap s)"
    and created: "created (get_configuration conf) mm b a m (heap s)"
  shows "runs (micro_ros_utilities_destroy_message_memory dal ts (Ptr b a) conf) s (\<lambda>ok s'.
    ok \<and> kind_of (heap s') = kind_of m \<and> same_on (- message_span mm b a) m (heap s'))"
proof -
  obtain L where L: "built_message True (get_configuration conf) mm b a (heap s) = Some L"
    "allocated L m (heap s)"
    using created by (auto simp: created_def)
  have "0 < unat (size_of mm)" using mm(2) by (simp add: wf_message.simps unat_gt_0)
  with live have b: "kind_of m b \<noteq> None" unfolding message_span_def by (rule live_kind)
  have live1: "live (heap s) (message_span mm b a)"
    by (rule frame_live [OF fr live live_not_unallocated [OF live]])
  show ?thesis
  proof (rule runs_mono [OF destroy_message_memory_ok [OF al conf mm size built_fresh(1) [OF L(1)]
          allocated_distinct [OF L(2) b] allocated_owned [OF L(2)] live1]], elim conjE, intro conjI)
    fix ok and s' :: tu_state
    assume r: "released (set (map fst L)) (message_span mm b a) (heap s) (heap s')"
    have new: "kind_of m d = None" if "d \<in> set (map fst L)" for d
      using that L(2) by (auto simp: allocated_def)
    show kind: "kind_of (heap s') = kind_of m"
    proof
      fix d show "kind_of (heap s') d = kind_of m d"
        using r L(2) new [of d] by (auto simp: released_def allocated_def)
    qed
    show "same_on (- message_span mm b a) m (heap s')"
      unfolding same_on_def
    proof
      fix x assume x: "x \<in> - message_span mm b a"
      show "byte_at (heap s') x = byte_at m x"
      proof (cases "kind_of m (fst x) = None")
        case True
        then show ?thesis using kind by (simp add: byte_at_kind)
      next
        case False
        then have "x \<notin> unallocated m" "x \<notin> in_blocks (set (map fst L))"
          using new [of "fst x"] unfolding unallocated_def in_blocks_def by (simp_all only: kind_of_None mem_Collect_eq) blast+
        with x fr r show ?thesis by (simp add: frame_def released_def same_on_def)
      qed
    qed
  qed simp
qed

end

end
