(* ===== verification/C_Structs.thy ===== *)
theory C_Structs
  imports Message_Layout
begin

text \<open>
  Message structures as C declares them in the \<^verbatim>\<open>__struct.h\<close> headers of the message packages,
  their layout on the 32-bit targets, and what it means that introspection data describes
  such a structure. The introspection tables themselves are generated and not in the
  repository; \<open>describes\<close> is the contract the traversal relies on (names, \<^verbatim>\<open>offsetof\<close>,
  \<^verbatim>\<open>sizeof\<close>, the type of each member), and it implies the well-formedness that the theorems
  about message memory assume.
\<close>

section \<open>Declarations\<close>

text \<open>
  \<open>Sequence t bound\<close> is a \<^verbatim>\<open>...__Sequence\<close> member (bound 0: unbounded), \<open>Array t n\<close> a C array,
  \<open>Text\<close> a \<^verbatim>\<open>rosidl_runtime_c__String\<close>, \<open>Text16\<close> a \<^verbatim>\<open>rosidl_runtime_c__U16String\<close>.
\<close>

datatype c_type =
    Prim ros_field_type
  | Text
  | Text16
  | Sequence c_type nat
  | Array c_type nat
  | Struct c_struct
and c_struct = C_Struct (struct_package: string) (struct_name: string) (fields: "(string \<times> c_type) list")

section \<open>Layout\<close>

primrec prim_size :: "ros_field_type \<Rightarrow> nat" where
  "prim_size ROS_TYPE_FLOAT = 4"
| "prim_size ROS_TYPE_DOUBLE = 8"
| "prim_size ROS_TYPE_LONG_DOUBLE = 8"
| "prim_size ROS_TYPE_CHAR = 1"
| "prim_size ROS_TYPE_WCHAR = 2"
| "prim_size ROS_TYPE_BOOLEAN = 1"
| "prim_size ROS_TYPE_OCTET = 1"
| "prim_size ROS_TYPE_UINT8 = 1"
| "prim_size ROS_TYPE_INT8 = 1"
| "prim_size ROS_TYPE_UINT16 = 2"
| "prim_size ROS_TYPE_INT16 = 2"
| "prim_size ROS_TYPE_UINT32 = 4"
| "prim_size ROS_TYPE_INT32 = 4"
| "prim_size ROS_TYPE_UINT64 = 8"
| "prim_size ROS_TYPE_INT64 = 8"
| "prim_size ROS_TYPE_STRING = 12"
| "prim_size ROS_TYPE_WSTRING = 12"
| "prim_size ROS_TYPE_MESSAGE = 0"

definition round_up :: "nat \<Rightarrow> nat \<Rightarrow> nat" where
  "round_up a n = (n + (a - 1)) div a * a"

text \<open>Sizes and alignments of a natural-alignment ABI whose pointers have four bytes.\<close>

fun alignof :: "c_type \<Rightarrow> nat"
  and alignof_struct :: "c_struct \<Rightarrow> nat"
  and alignof_fields :: "(string \<times> c_type) list \<Rightarrow> nat"
where
  "alignof (Prim f) = prim_size f"
| "alignof Text = 4"
| "alignof Text16 = 4"
| "alignof (Sequence t b) = 4"
| "alignof (Array t n) = alignof t"
| "alignof (Struct st) = alignof_struct st"
| "alignof_struct (C_Struct p n fs) = alignof_fields fs"
| "alignof_fields [] = 1"
| "alignof_fields ((n, t) # fs) = max (alignof t) (alignof_fields fs)"

fun sizeof :: "c_type \<Rightarrow> nat"
  and sizeof_struct :: "c_struct \<Rightarrow> nat"
  and end_of_fields :: "nat \<Rightarrow> (string \<times> c_type) list \<Rightarrow> nat"
where
  "sizeof (Prim f) = prim_size f"
| "sizeof Text = 12"
| "sizeof Text16 = 12"
| "sizeof (Sequence t b) = 12"
| "sizeof (Array t n) = n * sizeof t"
| "sizeof (Struct st) = sizeof_struct st"
| "sizeof_struct (C_Struct p n fs) = round_up (alignof_fields fs) (end_of_fields 0 fs)"
| "end_of_fields ofs [] = ofs"
| "end_of_fields ofs ((n, t) # fs) = end_of_fields (round_up (alignof t) ofs + sizeof t) fs"

lemma round_up_ge: "n \<le> round_up a n" if "0 < a"
proof -
  have "(n + (a - 1)) mod a < a" using that by simp
  moreover have "(n + (a - 1)) div a * a + (n + (a - 1)) mod a = n + (a - 1)" by (rule div_mult_mod_eq)
  ultimately show ?thesis using that unfolding round_up_def by linarith
qed

lemma end_of_fields_ge: "(\<forall>(n, t)\<in>set fs. 0 < alignof t) \<Longrightarrow> ofs \<le> end_of_fields ofs fs"
proof (induction fs arbitrary: ofs)
  case (Cons f fs)
  obtain n t where f: "f = (n, t)" by (cases f)
  have "ofs \<le> round_up (alignof t) ofs" using Cons.prems f by (intro round_up_ge) simp
  moreover have "round_up (alignof t) ofs + sizeof t \<le> end_of_fields (round_up (alignof t) ofs + sizeof t) fs"
    using Cons by simp
  ultimately show ?case using f by simp
qed simp

section \<open>Introspection data\<close>

text \<open>The kind of a member's elements.\<close>

fun elem_type :: "c_type \<Rightarrow> ros_field_type" where
  "elem_type (Prim f) = f"
| "elem_type Text = ROS_TYPE_STRING"
| "elem_type Text16 = ROS_TYPE_WSTRING"
| "elem_type (Sequence t b) = elem_type t"
| "elem_type (Array t n) = elem_type t"
| "elem_type (Struct st) = ROS_TYPE_MESSAGE"

text \<open>
  The type identifiers that a member may have: IDL types of the same size share a C type
  (an octet and an unsigned 8-bit integer are both \<^verbatim>\<open>uint8_t\<close>).
\<close>

definition basic_field_types :: "ros_field_type list" where
  "basic_field_types =
     [ROS_TYPE_FLOAT, ROS_TYPE_DOUBLE, ROS_TYPE_LONG_DOUBLE, ROS_TYPE_CHAR, ROS_TYPE_WCHAR,
      ROS_TYPE_BOOLEAN, ROS_TYPE_OCTET, ROS_TYPE_UINT8, ROS_TYPE_INT8, ROS_TYPE_UINT16, ROS_TYPE_INT16,
      ROS_TYPE_UINT32, ROS_TYPE_INT32, ROS_TYPE_UINT64, ROS_TYPE_INT64]"

definition has_type_id :: "c_type \<Rightarrow> message_member \<Rightarrow> bool" where
  "has_type_id t m \<longleftrightarrow>
     (case elem_type t of
        ROS_TYPE_STRING \<Rightarrow> type_id m = field_type_id ROS_TYPE_STRING
      | ROS_TYPE_WSTRING \<Rightarrow> type_id m = field_type_id ROS_TYPE_WSTRING
      | ROS_TYPE_MESSAGE \<Rightarrow> type_id m = field_type_id ROS_TYPE_MESSAGE
      | f \<Rightarrow> list_ex (\<lambda>g. type_id m = field_type_id g \<and> prim_size g = prim_size f) basic_field_types)"

text \<open>How an array member is described; for a bounded sequence the tables may hold the bound.\<close>

fun array_fields :: "c_type \<Rightarrow> message_member \<Rightarrow> bool" where
  "array_fields (Sequence t b) m \<longleftrightarrow>
     is_array m \<and> (array_size m = 0 \<or> b \<noteq> 0 \<and> array_size m = of_nat b \<and> is_upper_bound m)"
| "array_fields (Array t n) m \<longleftrightarrow> is_array m \<and> array_size m = of_nat n"
| "array_fields t m \<longleftrightarrow> \<not> is_array m"

fun describes :: "c_struct \<Rightarrow> message_members \<Rightarrow> bool"
  and describes_type :: "c_type \<Rightarrow> message_member \<Rightarrow> bool"
  and describes_fields :: "nat \<Rightarrow> (string \<times> c_type) list \<Rightarrow> message_member list \<Rightarrow> bool"
where
  "describes (C_Struct p n fs) mm \<longleftrightarrow>
     message_name mm = n \<and> unat (size_of mm) = sizeof_struct (C_Struct p n fs) \<and>
     describes_fields 0 fs (member_list mm)"
| "describes_type (Struct st) m \<longleftrightarrow> (case rec_members m of Inl e \<Rightarrow> False | Inr mm \<Rightarrow> describes st mm)"
| "describes_type (Sequence t b) m \<longleftrightarrow> describes_type t m"
| "describes_type (Array t k) m \<longleftrightarrow> describes_type t m"
| "describes_type t m \<longleftrightarrow> True"
| "describes_fields ofs [] ms \<longleftrightarrow> ms = []"
| "describes_fields ofs ((n, t) # fs) [] \<longleftrightarrow> False"
| "describes_fields ofs ((n, t) # fs) (m # ms) \<longleftrightarrow>
     member_name m = n \<and> has_type_id t m \<and> array_fields t m \<and>
     unat (member_offset m) = round_up (alignof t) ofs \<and> describes_type t m \<and>
     describes_fields (round_up (alignof t) ofs + sizeof t) fs ms"

section \<open>Declarations that IDL can produce\<close>

text \<open>
  A message structure has a member (an empty message gets a dummy one), arrays are not
  empty, sequences and arrays are over plain types, and only \<open>Prim\<close> types with a size occur.
  Bounded sequences of messages are left out: the traversal does not treat them as sequences.
\<close>

fun plain_type :: "c_type \<Rightarrow> bool" where
  "plain_type (Sequence t b) = False"
| "plain_type (Array t n) = False"
| "plain_type t = True"

fun idl_struct :: "c_struct \<Rightarrow> bool"
  and idl_type :: "c_type \<Rightarrow> bool"
  and idl_fields :: "(string \<times> c_type) list \<Rightarrow> bool"
where
  "idl_struct (C_Struct p n fs) \<longleftrightarrow> fs \<noteq> [] \<and> idl_fields fs"
| "idl_type (Struct st) \<longleftrightarrow> idl_struct st"
| "idl_type (Prim f) \<longleftrightarrow> f \<noteq> ROS_TYPE_STRING \<and> f \<noteq> ROS_TYPE_WSTRING \<and> f \<noteq> ROS_TYPE_MESSAGE"
| "idl_type (Sequence t b) \<longleftrightarrow> plain_type t \<and> idl_type t \<and> (elem_type t = ROS_TYPE_MESSAGE \<longrightarrow> b = 0)"
| "idl_type (Array t n) \<longleftrightarrow> 0 < n \<and> n < 2 ^ 32 \<and> plain_type t \<and> idl_type t"
| "idl_type t \<longleftrightarrow> True"
| "idl_fields [] \<longleftrightarrow> True"
| "idl_fields ((n, t) # fs) \<longleftrightarrow> idl_type t \<and> idl_fields fs"

section \<open>Described structures are well formed\<close>

lemma idl_positive:
  "idl_struct st \<Longrightarrow> 0 < alignof_struct st \<and> 0 < sizeof_struct st"
  "idl_type t \<Longrightarrow> 0 < alignof t \<and> 0 < sizeof t"
  "idl_fields fs \<Longrightarrow> (\<forall>(n, t)\<in>set fs. 0 < alignof t \<and> 0 < sizeof t) \<and> 0 < alignof_fields fs"
proof (induction st and t and fs rule: idl_struct_idl_type_idl_fields.induct)
  case (1 p n fs)
  then have pos: "\<forall>(n, t)\<in>set fs. 0 < alignof t \<and> 0 < sizeof t" "0 < alignof_fields fs" by auto
  obtain f fs' where fs: "fs = f # fs'" using 1 by (cases fs) auto
  obtain n' t where f: "f = (n', t)" by (cases f)
  have "0 < round_up (alignof t) 0 + sizeof t" using pos(1) fs f by simp
  also have "\<dots> \<le> end_of_fields (round_up (alignof t) 0 + sizeof t) fs'"
    by (rule end_of_fields_ge) (use pos(1) fs in auto)
  also have "\<dots> \<le> sizeof_struct (C_Struct p n fs)"
    using round_up_ge [OF pos(2)] fs f by simp
  finally show ?case using pos by simp
next
  case (3 f)
  then show ?case by (cases f) auto
qed auto

lemma wf_members_lower: "wf_members lo hi ms \<Longrightarrow> lo' \<le> lo \<Longrightarrow> wf_members lo' hi ms"
  by (cases ms) (auto simp: wf_members.simps)

lemma has_type_id_kind:
  assumes "has_type_id t m"
  shows "type_id m = TYPE_COMPOSED \<longleftrightarrow> elem_type t = ROS_TYPE_MESSAGE"
    and "type_id m = TYPE_STRING \<longleftrightarrow> elem_type t = ROS_TYPE_STRING"
    and "1 \<le> unat (type_id m) \<and> unat (type_id m) \<le> 18"
  using assms
  by (auto simp: has_type_id_def basic_field_types_def TYPE_COMPOSED_def TYPE_STRING_def
      split: ros_field_type.splits)

lemma has_type_id_exact: "idl_type t \<Longrightarrow> type_id m = field_type_id (elem_type t) \<Longrightarrow> has_type_id t m"
  by (cases "elem_type t") (simp_all add: has_type_id_def basic_field_types_def)

text \<open>What the traversal touches of a member lies inside the member.\<close>

lemma plain_composed:
  "plain_type t \<Longrightarrow> idl_type t \<Longrightarrow> elem_type t = ROS_TYPE_MESSAGE \<Longrightarrow> \<exists>st. t = Struct st"
  by (cases t) auto

lemma plain_string: "plain_type t \<Longrightarrow> idl_type t \<Longrightarrow> elem_type t = ROS_TYPE_STRING \<Longrightarrow> t = Text"
  by (cases t) auto

lemma struct_touched:
  assumes "type_id m = TYPE_COMPOSED" and "\<not> has_header m" and "describes_type (Struct st) m"
  shows "touched m = sizeof_struct st"
  using assms by (cases st) (auto simp: touched_def split: sum.splits)

lemma touched_le:
  assumes idl: "idl_type t" and id: "has_type_id t m"
    and arr: "array_fields t m" and d: "describes_type t m"
  shows "touched m \<le> sizeof t"
proof (cases t)
  case (Prim f)
  then have "\<not> is_array m" "type_id m \<noteq> TYPE_COMPOSED" "type_id m \<noteq> TYPE_STRING"
    using idl arr has_type_id_kind [OF id] by auto
  then show ?thesis by (simp add: touched_def has_header_def is_sequence_def)
next
  case Text
  then have "has_header m" using has_type_id_kind [OF id] by (simp add: has_header_def)
  with Text show ?thesis by simp
next
  case Text16
  then have "\<not> is_array m" "type_id m \<noteq> TYPE_COMPOSED" "type_id m \<noteq> TYPE_STRING"
    using arr has_type_id_kind [OF id] by simp_all
  then show ?thesis by (simp add: touched_def has_header_def is_sequence_def)
next
  case (Array u n)
  then have u: "plain_type u" "idl_type u" "0 < n" and a: "is_array m" "array_size m = of_nat n" "n < 2 ^ 32"
    using idl arr by auto
  have "array_size m \<noteq> 0" using a u(3) by (simp add: word_unat_eq_iff)
  then have not_seq: "\<not> is_sequence m" by (simp add: is_sequence_def)
  have n: "sizeof u \<le> n * sizeof u" using u(3) by simp
  show ?thesis
  proof (cases "has_header m")
    case True
    then have "elem_type u = ROS_TYPE_STRING"
      using not_seq has_type_id_kind [OF id] Array by (simp add: has_header_def)
    with True n plain_string [OF u(1,2)] Array show ?thesis by simp
  next
    case False
    show ?thesis
    proof (cases "type_id m = TYPE_COMPOSED")
      case True
      then obtain st where st: "u = Struct st"
        using plain_composed [OF u(1,2)] has_type_id_kind [OF id] Array by auto
      with struct_touched [OF True False] d Array n show ?thesis by simp
    qed (use False in \<open>simp add: touched_def\<close>)
  qed
next
  case (Struct st)
  then have "type_id m = TYPE_COMPOSED" "\<not> is_array m"
    using has_type_id_kind [OF id] arr Struct by simp_all
  moreover have "\<not> has_header m"
    using calculation composed_not_string [of m] by (simp add: has_header_def is_sequence_def)
  ultimately show ?thesis using struct_touched d Struct by simp
next
  case (Sequence u b)
  show ?thesis
  proof (cases "has_header m")
    case False
    then have "array_size m \<noteq> 0" using arr Sequence by (auto simp: has_header_def is_sequence_def)
    then have "b \<noteq> 0" using arr Sequence by auto
    then have "type_id m \<noteq> TYPE_COMPOSED" using idl Sequence has_type_id_kind [OF id] by auto
    with False show ?thesis by (simp add: touched_def)
  qed (use Sequence in simp)
qed

lemma describes_wf_aux:
  "idl_struct st \<Longrightarrow> describes st mm \<Longrightarrow> wf_message mm"
  "idl_type t \<Longrightarrow> describes_type t m \<Longrightarrow> elem_type t = ROS_TYPE_MESSAGE \<Longrightarrow>
     (case rec_members m of Inl e \<Rightarrow> False | Inr mm \<Rightarrow> wf_message mm)"
  "idl_fields fs \<Longrightarrow> describes_fields ofs fs ms \<Longrightarrow> end_of_fields ofs fs \<le> hi \<Longrightarrow> wf_members ofs hi ms"
proof (induction st and t and fs arbitrary: mm and m and ofs hi ms rule: idl_struct_idl_type_idl_fields.induct)
  case (1 p n fs)
  then have pos: "0 < alignof_fields fs" "0 < sizeof_struct (C_Struct p n fs)"
    using idl_positive(1) [OF 1(2)] by auto
  have size: "unat (size_of mm) = sizeof_struct (C_Struct p n fs)" using 1(3) by simp
  have "wf_members 0 (unat (size_of mm)) (member_list mm)"
    by (rule 1(1)) (use 1(2,3) size round_up_ge [OF pos(1)] in simp_all)
  moreover have "size_of mm \<noteq> 0" using size pos(2) by (auto simp: unat_eq_zero)
  ultimately show ?case by (simp add: wf_message.simps)
next
  case (2 st)
  then show ?case by (auto split: sum.splits)
next
  case (8 n t fs)
  obtain m ms' where ms: "ms = m # ms'" using 8(4) by (cases ms) auto
  let ?o = "round_up (alignof t) ofs"
  from 8(4) ms have m: "has_type_id t m" "array_fields t m"
    "unat (member_offset m) = ?o" "describes_type t m"
    and rest: "describes_fields (?o + sizeof t) fs ms'" by simp_all
  have idl: "idl_type t" "idl_fields fs" using 8(3) by simp_all
  have "wf_members (?o + sizeof t) hi ms'"
    by (rule 8(2) [OF idl(2) rest]) (use 8(5) in simp)
  then have "wf_members (unat (member_offset m) + touched m) hi ms'"
    by (rule wf_members_lower) (use touched_le [OF idl(1) m(1,2,4)] m(3) in simp)
  moreover have "ofs \<le> ?o" using idl_positive(2) [OF idl(1)] by (intro round_up_ge) simp
  ultimately show ?case
    using ms m(3) has_type_id_kind [OF m(1)] 8(1) [OF idl(1) m(4)]
    by (simp add: wf_members.simps)
qed (auto simp: wf_members.simps)

text \<open>The statement for whole messages.\<close>

lemma describes_wf: "idl_struct st \<Longrightarrow> describes st mm \<Longrightarrow> wf_message mm"
  by (rule describes_wf_aux(1))

section \<open>Introspection data for a structure\<close>

text \<open>
  Tables that satisfy the contract: an instance of what the generator provides, used to show
  that the contract can be met for every declaration that fits into the address space.
\<close>

fun describe_array :: "c_type \<Rightarrow> bool \<times> nat" where
  "describe_array (Sequence t b) = (True, 0)"
| "describe_array (Array t n) = (True, n)"
| "describe_array t = (False, 0)"

fun describe :: "c_struct \<Rightarrow> message_members"
  and describe_support :: "c_type \<Rightarrow> type_support option"
  and describe_fields :: "nat \<Rightarrow> (string \<times> c_type) list \<Rightarrow> message_member list"
where
  "describe (C_Struct p n fs) =
     MessageMembers p n (of_nat (sizeof_struct (C_Struct p n fs))) (describe_fields 0 fs)"
| "describe_support (Struct st) =
     Some (TypeSupport rosidl_typesupport_introspection_c__identifier
             [(rosidl_typesupport_introspection_c__identifier, describe st)])"
| "describe_support (Sequence t b) = describe_support t"
| "describe_support (Array t n) = describe_support t"
| "describe_support t = None"
| "describe_fields ofs [] = []"
| "describe_fields ofs ((n, t) # fs) =
     MessageMember n (field_type_id (elem_type t)) 0 (describe_support t) (fst (describe_array t))
       (of_nat (snd (describe_array t))) False (of_nat (round_up (alignof t) ofs)) #
     describe_fields (round_up (alignof t) ofs + sizeof t) fs"

definition type_support_of :: "c_struct \<Rightarrow> type_support" where
  "type_support_of st =
     TypeSupport rosidl_typesupport_introspection_c__identifier
       [(rosidl_typesupport_introspection_c__identifier, describe st)]"

lemma introspect_type_support_of [simp]: "introspect (Some (type_support_of st)) = Inr (describe st)"
  by (simp add: introspect_def type_support_of_def get_message_typesupport_handle_def)

lemma array_fields_describe:
  "idl_type t \<Longrightarrow> array_fields t (MessageMember n i u s (fst (describe_array t)) (of_nat (snd (describe_array t))) b v)"
  by (cases t) auto

text \<open>Every structure met on the way fits into the address space.\<close>

fun fits :: "c_struct \<Rightarrow> bool"
  and fits_type :: "c_type \<Rightarrow> bool"
  and fits_fields :: "(string \<times> c_type) list \<Rightarrow> bool"
where
  "fits (C_Struct p n fs) \<longleftrightarrow> sizeof_struct (C_Struct p n fs) < 2 ^ 32 \<and> fits_fields fs"
| "fits_type (Struct st) \<longleftrightarrow> fits st"
| "fits_type (Sequence t b) \<longleftrightarrow> fits_type t"
| "fits_type (Array t n) \<longleftrightarrow> fits_type t"
| "fits_type t \<longleftrightarrow> True"
| "fits_fields [] \<longleftrightarrow> True"
| "fits_fields ((n, t) # fs) \<longleftrightarrow> fits_type t \<and> fits_fields fs"

lemma describes_describe_aux:
  "fits st \<Longrightarrow> idl_struct st \<Longrightarrow> describes st (describe st)"
  "fits_type t \<Longrightarrow> idl_type t \<Longrightarrow> describes_type t (MessageMember n i u (describe_support t) a k b v)"
  "fits_fields fs \<Longrightarrow> idl_fields fs \<Longrightarrow> end_of_fields ofs fs < 2 ^ 32 \<Longrightarrow>
     describes_fields ofs fs (describe_fields ofs fs)"
proof (induction st and t and fs arbitrary: and n i u a k b v and ofs rule: fits_fits_type_fits_fields.induct)
  case (1 p n fs)
  have "0 < alignof_fields fs" using 1(3) idl_positive(3) [of fs] by simp
  then have "end_of_fields 0 fs \<le> sizeof_struct (C_Struct p n fs)" using round_up_ge by simp
  with 1 show ?case by simp
next
  case (2 st)
  then show ?case by (simp add: introspect_def get_message_typesupport_handle_def)
next
  case (3 t b)
  then have "plain_type t" by simp
  with 3 show ?case
    by (cases t) (auto simp: introspect_def get_message_typesupport_handle_def)
next
  case (4 t n)
  then have "plain_type t" by simp
  with 4 show ?case
    by (cases t) (auto simp: introspect_def get_message_typesupport_handle_def)
next
  case (7 n t fs)
  let ?o = "round_up (alignof t) ofs"
  have "\<forall>(n, t)\<in>set fs. 0 < alignof t" using 7(4) idl_positive(3) [of fs] by auto
  then have "?o + sizeof t \<le> end_of_fields (?o + sizeof t) fs" by (rule end_of_fields_ge)
  with 7(5) have "?o < 2 ^ 32" "end_of_fields (?o + sizeof t) fs < 2 ^ 32" by simp_all
  with 7 array_fields_describe [of t] has_type_id_exact [of t] show ?case by simp
qed simp_all

lemma describes_describe: "fits st \<Longrightarrow> idl_struct st \<Longrightarrow> describes st (describe st)"
  by (rule describes_describe_aux(1))

section \<open>A structure for the witnesses\<close>

text \<open>A scalar, a string and a sequence of messages that have strings (the shape of a diagnostic status).\<close>

definition sample_struct :: c_struct where
  "sample_struct = C_Struct ''sample__msg'' ''Status''
     [(''level'', Prim ROS_TYPE_UINT8), (''name'', Text),
      (''values'', Sequence (Struct (C_Struct ''sample__msg'' ''KeyValue'' [(''key'', Text), (''value'', Text)])) 0)]"

lemma sample_describes: "describes sample_struct (describe sample_struct)"
  by (rule describes_describe) (simp_all add: sample_struct_def round_up_def)

lemma sample_wf: "wf_message (describe sample_struct)"
  by (rule describes_wf [OF _ sample_describes]) (simp add: sample_struct_def)

lemma sample_size: "unat (size_of (describe sample_struct)) = 28"
  by (simp add: sample_struct_def round_up_def)

text \<open>Evaluation of the size of a described message.\<close>

lemmas size_evaluation =
  walk_members_plus walk_members.simps(1) dynamic_size_members walk_inner_eval walk_open_def
  has_header_def is_sequence_def TYPE_STRING_def TYPE_COMPOSED_def extent_length_def capacity_of_def
  elem_size_def default_sequence_size_def member_size_def introspect_def
  get_message_typesupport_handle_def basic_type_size_def basic_types_size_def
  get_configuration_def Let_def micro_ros_utilities_memory_conf_default_def

lemma sample_dynamic_size:
  "dynamic_size (get_configuration micro_ros_utilities_memory_conf_default) (describe sample_struct) = 340"
  by (simp add: sample_struct_def round_up_def size_evaluation del: One_nat_def)

end
