(* ===== verification/Memory_Rules.thy ===== *)
theory Memory_Rules
  imports Message_Memory C_Structs "HOL-Library.Sublist"
begin

text \<open>
  The memory rules of \<^verbatim>\<open>src/type_utilities.c\<close>: which member a rule is about, which rule
  decides, and what the name tree does to memory. The name tree of a member holds the names on
  the way to it, each followed by a dot.
\<close>

section \<open>Matching\<close>

lemma c_string_Nil: "c_string [] = [zero_byte]"
  by (simp add: c_string_def)

lemma c_string_Cons: "c_string (x # xs) = Byte x # c_string xs"
  by (simp add: c_string_def)

text \<open>The two comparisons stop at the null character of the shorter text, so neither reads on.\<close>

lemma memcmp_rule:
  "CHR 0x00 \<notin> set a \<Longrightarrow> memcmp_zero (length a) (c_string a) (c_string s @ rest) = Inr (prefix a s)"
proof (induction a arbitrary: s)
  case (Cons x a)
  then show ?case by (cases s) (auto simp: c_string_Cons c_string_Nil)
qed simp

lemma memcmp_path:
  "CHR 0x00 \<notin> set p \<Longrightarrow> memcmp_zero (length p) (c_string a) (c_string (p @ s) @ rest) = Inr (prefix p a)"
proof (induction p arbitrary: a)
  case (Cons x p)
  then show ?case by (cases a) (auto simp: c_string_Cons c_string_Nil)
qed simp

lemma prefix_both: "prefix a (p @ [c]) \<and> prefix p a \<longleftrightarrow> a = p \<or> a = p @ [c]"
  by (auto simp: prefix_def append_eq_append_conv2 Cons_eq_append_conv append_eq_Cons_conv)

definition rule_names :: "micro_ros_utilities_memory_rule_t \<Rightarrow> string \<Rightarrow> bool" where
  "rule_names r path \<longleftrightarrow> rule r = path \<or> rule r = path @ ''.''"

lemma rule_matches_eq:
  assumes nt: "holds_string m nt (path @ ''.'')" and zero: "CHR 0x00 \<notin> set path" "CHR 0x00 \<notin> set (rule r)"
    and len: "length (rule r) < 2 ^ 32"
  shows "rule_matches r nt m = Inr (rule_names r path, m)"
proof -
  let ?s = "path @ ''.''"
  obtain b bs where b: "str_data nt = Ptr b 0" "blocks m b = Some (HeapBlock, bs)"
    and size: "unat (str_size nt) = length ?s" and bs: "length ?s < length bs" "take (Suc (length ?s)) bs = c_string ?s"
    using string_parts [OF nt] by metis
  have bytes: "bs = c_string ?s @ drop (Suc (length ?s)) bs"
    using bs(2) by (metis append_take_drop_id)
  have path: "unat (str_size nt - 1) = length path"
    using size by (subst unat_diff_small) (simp_all add: word_le_nat_alt)
  have 1: "memcmp_zero (unat (strlen (rule r))) (c_string (rule r)) bs = Inr (prefix (rule r) ?s)"
    using memcmp_rule [OF zero(2), of ?s "drop (Suc (length ?s)) bs"] bytes len by simp
  have 2: "memcmp_zero (unat (str_size nt - 1)) (c_string (rule r)) bs = Inr (prefix path (rule r))"
    using memcmp_path [OF zero(1), of "rule r" "''.''" "drop (Suc (length ?s)) bs"] bytes path by simp
  show ?thesis
    using b 1 2 unfolding rule_names_def prefix_both [symmetric]
    by (simp add: rule_matches_def bytes_from_def cbind_def cread_def del: prefix_snoc split: bool.split)
qed

text \<open>The first rule that names the member decides.\<close>

definition ruled_size :: "micro_ros_utilities_memory_rule_t list \<Rightarrow> string \<Rightarrow> size_t \<Rightarrow> size_t" where
  "ruled_size rs path sz = (case List.find (\<lambda>r. rule_names r path) rs of None \<Rightarrow> sz | Some r \<Rightarrow> rule_size r)"

lemma match_rules_eq:
  assumes "holds_string m nt (path @ ''.'')" and "CHR 0x00 \<notin> set path"
  shows "\<forall>r\<in>set rs. CHR 0x00 \<notin> set (rule r) \<and> length (rule r) < 2 ^ 32 \<Longrightarrow>
    match_rules rs (length rs) nt sz m = Inr (ruled_size rs path sz, m)"
proof (induction rs)
  case Nil
  then show ?case by (simp add: creturn_def ruled_size_def)
next
  case (Cons r rs)
  then have "rule_matches r nt m = Inr (rule_names r path, m)" using assms by (intro rule_matches_eq) auto
  with Cons show ?case by (simp add: cbind_def creturn_def ruled_size_def)
qed

section \<open>The name tree on a heap without slack\<close>

text \<open>
  On a heap whose blocks are exactly as large as requested the dot that follows the first
  name never fits: the name either overflows the one-byte block of the empty name tree itself,
  or was given a block with exactly its length and a null character.
\<close>

lemma exact_init:
  "\<exists>str m'. micro_ros_string_utilities_init (default_allocator exact_policy) [] m = Inr (str, m') \<and>
     holds_string m' str [] \<and> str_capacity str = 1 \<and> block_length m' (block_of str) = 1"
proof -
  obtain str m' where init: "micro_ros_string_utilities_init (default_allocator exact_policy) [] m = Inr (str, m')"
    and holds: "holds_string m' str []" and cap: "str_capacity str = 1"
    using runs_Inr [OF total_allocator.init_ok [OF exact_total, of "[]" m]]
    by (auto simp: strlen_def)
  have "block_length m' (block_of str) = 1"
    using init
    by (auto simp: micro_ros_string_utilities_init_def Let_def cmd_defs call_allocate_def
        default_allocator_simps exact_policy_def strlen_def memset_zero_def memcpy_from_def
        blocks_append block_of_def blocks_def block_length_def nth_append)
  with init holds cap show ?thesis by blast
qed

lemma exact_append_growing:
  assumes str: "holds_string m str s" and len: "length s + length t + 1 < 2 ^ 32"
    and cap: "unat (str_capacity str) < length s + length t"
  shows "\<exists>str' m'. micro_ros_string_utilities_append (default_allocator exact_policy) str t m = Inr (str', m') \<and>
     holds_string m' str' (s @ t) \<and> unat (str_capacity str') = length s + length t + 1 \<and>
     block_length m' (block_of str') = length s + length t + 1"
proof -
  obtain str' m' where app: "micro_ros_string_utilities_append (default_allocator exact_policy) str t m = Inr (str', m')"
    and holds: "holds_string m' str' (s @ t)"
    using runs_Inr [OF total_allocator.append_ok [OF exact_total str len]] cap by auto
  obtain b bs where b: "str_data str = Ptr b 0" "blocks m b = Some (HeapBlock, bs)"
    and size: "unat (str_size str) = length s"
    using string_parts [OF str] by metis
  note sum = append_size [OF size len]
  have grow: "strlen t + str_size str > str_capacity str"
    using cap sum by (simp add: word_less_nat_alt)
  let ?n = "str_size str + strlen t + 1"
  have "call_reallocate (default_allocator exact_policy) (Ptr b 0) ?n m =
      Inr (Ptr (length m) 0, m[b := None] @ [Some (HeapBlock, resize (unat ?n) bs)])"
    using b by (simp add: call_reallocate_def default_allocator_simps exact_policy_def)
  with app grow b have "unat (str_capacity str') = unat ?n" "block_length m' (block_of str') = unat ?n"
    using sum
    by (auto simp: micro_ros_string_utilities_append_def Let_def cmd_defs memcpy_from_def blocks_def
        block_of_def block_length_def nth_append split: if_splits)
  with app holds sum show ?thesis by auto
qed

lemma rules_overflow_push:
  assumes name: "name \<noteq> []" "length name + 2 < 2 ^ 32"
  shows "cbind (micro_ros_string_utilities_init (default_allocator exact_policy) []) (\<lambda>nt.
     cbind (micro_ros_string_utilities_append (default_allocator exact_policy) nt name) (\<lambda>nt.
     micro_ros_string_utilities_append (default_allocator exact_policy) nt ''.'')) m = Inl OutOfBounds"
proof -
  obtain str m1 where init: "micro_ros_string_utilities_init (default_allocator exact_policy) [] m = Inr (str, m1)"
    and h1: "holds_string m1 str []" and c1: "str_capacity str = 1" "block_length m1 (block_of str) = 1"
    using exact_init by blast
  show ?thesis
  proof (cases "length name = 1")
    case True
    then have "micro_ros_string_utilities_append (default_allocator exact_policy) str name m1 = Inl OutOfBounds"
      using c1 by (intro append_past_the_end [OF h1]) simp_all
    with init show ?thesis by (simp add: cbind_def)
  next
    case False
    with name have "1 < length name" by (cases name) auto
    then obtain str' m2 where
      app: "micro_ros_string_utilities_append (default_allocator exact_policy) str name m1 = Inr (str', m2)"
      and h2: "holds_string m2 str' name" and c2: "unat (str_capacity str') = length name + 1"
        "block_length m2 (block_of str') = length name + 1"
      using exact_append_growing [OF h1, of name] name c1 by auto
    have "micro_ros_string_utilities_append (default_allocator exact_policy) str' ''.'' m2 = Inl OutOfBounds"
      using c2 name by (intro append_past_the_end [OF h2]) simp_all
    with init app show ?thesis by (simp add: cbind_def)
  qed
qed

section \<open>Properties\<close>

text \<open>
  C6: a memory rule is about exactly the member whose dotted name it spells, with or without a
  dot at the end, and of several rules the first such one decides the capacity; the
  comparisons never read past the end of the rule or of the name tree.
\<close>

theorem first_matching_rule_decides:
  assumes "holds_string m nt (path @ ''.'')" and "CHR 0x00 \<notin> set path"
    and "\<forall>r\<in>set rs. CHR 0x00 \<notin> set (rule r) \<and> length (rule r) < 2 ^ 32"
    and "rules conf = Some rs" and "unat (n_rules conf) = length rs"
  shows "apply_rules conf nt sz m =
    Inr (case List.find (\<lambda>r. rule r = path \<or> rule r = path @ ''.'') rs of None \<Rightarrow> sz | Some r \<Rightarrow> rule_size r, m)"
proof (cases rs)
  case Nil
  with assms(5) show ?thesis by (simp add: apply_rules_def creturn_def unat_eq_zero)
next
  case (Cons r rs')
  with assms(5) have "n_rules conf > 0" by (cases "n_rules conf = 0") (simp_all add: word_gt_0)
  with assms(4,5) match_rules_eq [OF assms(1,2,3), of sz] show ?thesis
    by (simp add: apply_rules_def ruled_size_def rule_names_def)
qed

definition sample_rules :: "micro_ros_utilities_memory_rule_t list" where
  "sample_rules = [\<lparr>rule = ''a.b'', rule_size = 3\<rparr>, \<lparr>rule = ''a'', rule_size = 7\<rparr>, \<lparr>rule = ''a'', rule_size = 9\<rparr>]"

definition sample_rules_conf :: memory_conf where
  "sample_rules_conf = micro_ros_utilities_memory_conf_default\<lparr>rules := Some sample_rules, n_rules := 3\<rparr>"

theorem first_matching_rule_decides_witness:
  "apply_rules sample_rules_conf \<lparr>str_data = Ptr 0 0, str_size = 2, str_capacity = 3\<rparr> 5
     [Some (HeapBlock, c_string ''a.'')] = Inr (7, [Some (HeapBlock, c_string ''a.'')])"
  by (subst first_matching_rule_decides [where path = "''a''" and rs = sample_rules])
    (simp_all add: holds_string_def blocks_def c_string_def sample_rules_def sample_rules_conf_def)

text \<open>
  C8: on a heap whose blocks are exactly as large as requested, no function of message memory
  can be used with a memory rule: computing the size of any message with a (named) member
  already writes past the end of the name tree, because \<^verbatim>\<open>micro_ros_string_utilities_append\<close>
  does not count the null character.
\<close>

theorem rules_always_overflow:
  assumes "n_rules conf > 0" and "introspect ts = Inr mm" and "member_list mm = m # ms"
    and "member_name m \<noteq> []" and "length (member_name m) + 2 < 2 ^ 32"
  shows "micro_ros_utilities_get_dynamic_size (default_allocator exact_policy) ts conf s = Inl OutOfBounds"
proof -
  have n: "n_rules (get_configuration conf) = n_rules conf"
    by (simp add: get_configuration_def Let_def)
  obtain nt m1 where init: "micro_ros_string_utilities_init (default_allocator exact_policy) [] (heap s) = Inr (nt, m1)"
    using exact_init [of "heap s"] by blast
  have "cbind (micro_ros_string_utilities_append (default_allocator exact_policy) nt (member_name m)) (\<lambda>nt.
      micro_ros_string_utilities_append (default_allocator exact_policy) nt ''.'') m1 = Inl OutOfBounds"
    using rules_overflow_push [OF assms(4,5), of "heap s"] init by (simp add: cbind_def)
  then show ?thesis
    using assms(1-3) init n
    by (simp add: micro_ros_utilities_get_dynamic_size_def init_name_tree_def traverse_def
        handle_message_memory.simps handle_members.simps push_name_def on_heap_def cbind_def [of _ "\<lambda>x. _ x"])
qed

theorem rules_always_overflow_witness:
  "micro_ros_utilities_get_dynamic_size (default_allocator exact_policy) (Some (type_support_of sample_struct))
     sample_rules_conf \<lparr>heap = [], operation_buffer = NULL, operation_buffer_index = 0\<rparr> = Inl OutOfBounds"
  by (rule rules_always_overflow [OF _ introspect_type_support_of, where m = "hd (member_list (describe sample_struct))"
        and ms = "tl (member_list (describe sample_struct))"])
    (simp_all add: sample_rules_conf_def sample_struct_def)

end
