(* ===== verification/Message_Properties.thy ===== *)
theory Message_Properties
  imports Memory_Rules
begin

text \<open>
  The properties of message memory: what the public functions of
  \<^verbatim>\<open>src/type_utilities.c\<close> promise to a caller without memory rules, and where they break
  the promise. \<open>start n\<close> is a heap with one object of \<open>n\<close> indeterminate bytes, the message.
\<close>

definition start :: "nat \<Rightarrow> tu_state" where
  "start n = \<lparr>heap = [Some (ObjectBlock, replicate n Undef)], operation_buffer = NULL, operation_buffer_index = 0\<rparr>"

abbreviation default_conf :: memory_conf where
  "default_conf \<equiv> micro_ros_utilities_memory_conf_default"

lemma start_live: "live (heap (start n)) (span 0 0 n)"
  by (simp add: live_def mem_span byte_at_def blocks_def start_def)

lemma default_conf_simps [simp]:
  "n_rules default_conf = 0" "chosen_allocator dal default_conf = dal"
  by (simp_all add: micro_ros_utilities_memory_conf_default_def chosen_allocator_def)

lemma sample_message_span: "message_span (describe sample_struct) b a = span b a 28"
  by (simp add: message_span_def sample_size)

section \<open>Creation and destruction\<close>



text \<open>
  C2: creation followed by destruction is the identity on memory: when
  \<^verbatim>\<open>micro_ros_utilities_create_message_memory\<close> returned true,
  \<^verbatim>\<open>micro_ros_utilities_destroy_message_memory\<close> with the same configuration returns true,
  exactly the blocks that were live before are live afterwards (nothing leaks, nothing is freed
  twice), and no byte outside the message has changed.
\<close>

theorem create_destroy_roundtrip:
  assumes "c_allocator (chosen_allocator dal conf)" and "n_rules conf = 0"
    and "introspect ts = Inr mm" and "wf_message mm"
    and "dynamic_size (get_configuration conf) mm < 2 ^ 32"
    and "live (heap s) (message_span mm b a)"
  shows "runs (micro_ros_utilities_create_message_memory dal ts (Ptr b a) conf) s (\<lambda>ok s1.
    ok \<longrightarrow> runs (micro_ros_utilities_destroy_message_memory dal ts (Ptr b a) conf) s1 (\<lambda>ok2 s2.
      ok2 \<and> kind_of (heap s2) = kind_of (heap s) \<and>
      same_on (- message_span mm b a) (heap s) (heap s2)))"
  by (rule runs_mono [OF c_allocator.create_message_memory_ok [OF assms(1) refl assms(2-6)]])
    (use c_allocator.created_destroyed [OF assms(1) refl assms(2-6)] in blast)

theorem create_destroy_roundtrip_witness:
  "runs (micro_ros_utilities_create_message_memory (default_allocator exact_policy)
      (Some (type_support_of sample_struct)) (Ptr 0 0) default_conf) (start 28) (\<lambda>ok s1.
    ok \<longrightarrow> runs (micro_ros_utilities_destroy_message_memory (default_allocator exact_policy)
      (Some (type_support_of sample_struct)) (Ptr 0 0) default_conf) s1 (\<lambda>ok2 s2.
      ok2 \<and> kind_of (heap s2) = kind_of (heap (start 28)) \<and>
      same_on (- span 0 0 28) (heap (start 28)) (heap s2)))"
  by (rule create_destroy_roundtrip [OF _ _ introspect_type_support_of sample_wf, unfolded sample_message_span])
    (use exact_total sample_dynamic_size start_live [of 28] in \<open>simp_all add: total_allocator.axioms(1)\<close>)

text \<open>
  C3: \<^verbatim>\<open>micro_ros_utilities_destroy_message_memory\<close>, called on any message whose strings and
  sequences have memory of the configured size in blocks of their own (whatever their contents
  and current sizes), frees exactly these blocks, zeroes the message, changes nothing else, and
  returns true.
\<close>

theorem destroy_message_memory_correct:
  assumes "c_allocator (chosen_allocator dal conf)" and "n_rules conf = 0"
    and "introspect ts = Inr mm" and "wf_message mm"
    and "dynamic_size (get_configuration conf) mm < 2 ^ 32"
    and "built_message False (get_configuration conf) mm b a (heap s) = Some L"
    and "distinct (b # map fst L)" and "owned L (heap s)"
    and "live (heap s) (message_span mm b a)"
  shows "runs (micro_ros_utilities_destroy_message_memory dal ts (Ptr b a) conf) s (\<lambda>ok s'.
    ok \<and> (\<forall>d. kind_of (heap s') d = (if d \<in> set (map fst L) then None else kind_of (heap s) d)) \<and>
    same_on (- (message_span mm b a \<union> in_blocks (set (map fst L)))) (heap s) (heap s') \<and>
    holds_at (heap s') b a (replicate (unat (size_of mm)) zero_byte))"
  by (rule runs_mono [OF c_allocator.destroy_message_memory_ok [OF assms(1) refl assms(2-9)]])
    (simp add: released_def)

text \<open>A message with one string of capacity 20 in block 1.\<close>

definition text_struct :: c_struct where
  "text_struct = C_Struct ''sample__msg'' ''Text'' [(''data'', Text)]"

definition text_state :: tu_state where
  "text_state = (start 12)\<lparr>heap :=
     [Some (ObjectBlock, ptr_bytes (Ptr 1 0) @ size_bytes 3 @ size_bytes 20),
      Some (HeapBlock, replicate 20 Undef)]\<rparr>"

lemma text_wf: "wf_message (describe text_struct)"
  by (rule describes_wf [of text_struct]) (simp_all add: text_struct_def round_up_def has_type_id_def)

lemma text_size: "dynamic_size (get_configuration default_conf) (describe text_struct) = 20"
  by (simp add: text_struct_def round_up_def size_evaluation del: One_nat_def)

lemma text_message_span: "message_span (describe text_struct) b a = span b a 12"
  by (simp add: message_span_def text_struct_def round_up_def)

theorem destroy_message_memory_correct_witness:
  "runs (micro_ros_utilities_destroy_message_memory (default_allocator exact_policy)
      (Some (type_support_of text_struct)) (Ptr 0 0) default_conf) text_state
      (\<lambda>ok s'. ok \<and> kind_of (heap s') 1 = None)"
proof (rule runs_mono [OF destroy_message_memory_correct [OF _ _ introspect_type_support_of text_wf]])
  show "built_message False (get_configuration default_conf) (describe text_struct) 0 0 (heap text_state) = Some [(1, 0, 20)]"
    by code_simp
  show "live (heap text_state) (message_span (describe text_struct) 0 0)"
    by (simp add: text_message_span live_def mem_span byte_at_def blocks_def text_state_def)
qed (use exact_total text_size in \<open>simp_all add: total_allocator.axioms(1) owned_def kind_of_def blocks_def text_state_def\<close>)

section \<open>The static buffer\<close>

text \<open>
  C4: \<^verbatim>\<open>micro_ros_utilities_create_static_message_memory\<close> returns true exactly when the size
  calculated by \<^verbatim>\<open>micro_ros_utilities_get_static_size\<close> fits into the buffer; it writes only the
  message and the buffer; and when it returns true, every string and sequence at every depth
  lies inside the first \<^verbatim>\<open>calculated_size\<close> bytes of the buffer, at a multiple of four bytes from
  its start, apart from all others, empty and zeroed. When it returns false memory is untouched.
\<close>

theorem create_static_message_memory_correct:
  assumes "n_rules conf = 0" and "introspect ts = Inr mm" and "wf_message mm"
    and "static_size (get_configuration conf) mm < 2 ^ 32"
    and "live (heap s) (message_span mm b a)"
    and "usable_buffer (heap s) b0 o0 (unat len)"
    and "message_span mm b a \<inter> span b0 o0 (unat len) = {}"
  shows "runs (micro_ros_utilities_create_static_message_memory dal ts (Ptr b a) conf (Ptr b0 o0) len) s (\<lambda>ok s'.
    ok = (static_size (get_configuration conf) mm \<le> unat len) \<and>
    same_on (- (message_span mm b a \<union> span b0 o0 (unat len))) (heap s) (heap s') \<and>
    (if ok
     then operation_buffer_index s' = of_nat (static_size (get_configuration conf) mm) \<and>
       (\<exists>L. built_message True (get_configuration conf) mm b a (heap s') = Some L \<and>
         in_buffer b0 o0 (static_size (get_configuration conf) mm) L \<and> disjoint_extents L)
     else heap s' = heap s))"
  using assms by (rule create_static_message_memory_ok)

definition buffer_state :: tu_state where
  "buffer_state = (start 12)\<lparr>heap :=
     [Some (ObjectBlock, replicate 12 Undef), Some (ObjectBlock, replicate 32 Undef)]\<rparr>"

lemma text_static_size: "static_size (get_configuration default_conf) (describe text_struct) = 20"
  by code_simp

theorem create_static_message_memory_correct_witness:
  "runs (micro_ros_utilities_create_static_message_memory (default_allocator exact_policy)
      (Some (type_support_of text_struct)) (Ptr 0 0) default_conf (Ptr 1 0) 32) buffer_state (\<lambda>ok s'. ok)"
proof (rule runs_mono [OF create_static_message_memory_correct [OF _ introspect_type_support_of text_wf]])
  show "live (heap buffer_state) (message_span (describe text_struct) 0 0)"
    by (simp add: text_message_span live_def mem_span byte_at_def blocks_def buffer_state_def)
  show "message_span (describe text_struct) 0 0 \<inter> span 1 0 (unat (32 :: size_t)) = {}"
    by (simp add: text_message_span span_disjoint_block)
qed (simp_all add: text_static_size usable_buffer_def buffer_state_def blocks_def block_length_def)

text \<open>
  C5: the size functions and the creation agree: \<^verbatim>\<open>micro_ros_utilities_get_dynamic_size\<close> returns the
  sum over all strings and sequences of capacity times element size (without touching memory),
  and \<^verbatim>\<open>micro_ros_utilities_get_static_size\<close> returns the final position of the walk through an ideal
  buffer in which every extent is rounded up to a multiple of four (leaving the static index there).
\<close>

theorem sizes_correct:
  assumes "n_rules conf = 0" and "introspect ts = Inr mm" and "wf_message mm"
  shows "micro_ros_utilities_get_dynamic_size dal ts conf s =
      Inr (of_nat (walk_message (+) (get_configuration conf) mm 0), s) \<and>
    micro_ros_utilities_get_static_size dal ts conf s =
      Inr (of_nat (walk_message adv_static (get_configuration conf) mm 0),
           s\<lparr>operation_buffer := NULL,
             operation_buffer_index := of_nat (walk_message adv_static (get_configuration conf) mm 0)\<rparr>)"
  using get_dynamic_size_eq [OF assms] get_static_size_eq [OF assms]
  by (simp add: dynamic_size_def static_size_def)

theorem sizes_correct_witness:
  "micro_ros_utilities_get_dynamic_size (default_allocator exact_policy)
     (Some (type_support_of sample_struct)) default_conf (start 28) = Inr (340, start 28)"
  using sizes_correct [OF _ introspect_type_support_of sample_wf, of default_conf
      "default_allocator exact_policy" "start 28"] sample_dynamic_size
  by (simp add: dynamic_size_def)

section \<open>Where the promises are broken\<close>

definition names_struct :: c_struct where
  "names_struct = C_Struct ''sample__msg'' ''Names'' [(''name'', Sequence Text 0)]"

text \<open>
  A sequence of strings (such as the joint names of a \<^verbatim>\<open>sensor_msgs/JointState\<close>) is given one
  byte per element, although its elements are 12-byte string structures: with the default
  configuration creation succeeds and announces a capacity of 20 strings in a block of 20 bytes,
  so that writing the second string passes the end of the block.
\<close>

lemma string_sequence_too_small:
  "case micro_ros_utilities_create_message_memory (default_allocator exact_policy)
     (Some (type_support_of names_struct)) (Ptr 0 0) default_conf (start 12) of
     Inl e \<Rightarrow> False
   | Inr (ok, s) \<Rightarrow>
       ok \<and> load_size (Ptr 0 8) (heap s) = Inr 20 \<and>
       (case load_ptr (Ptr 0 0) (heap s) of
          Inr names \<Rightarrow> set_capacity (ptr_add names (1 * 12)) 1 s = Inl OutOfBounds
        | Inl e \<Rightarrow> False)"
  by code_simp

text \<open>A message with an array of two messages that have a string each, and a wide string.\<close>

definition pair_struct :: c_struct where
  "pair_struct = C_Struct ''sample__msg'' ''Pair''
     [(''pair'', Array (Struct (C_Struct ''sample__msg'' ''Note'' [(''text'', Text)])) 2), (''title'', Text16)]"

text \<open>
  Of an array of messages only the first element is given memory, and wide strings are given
  none, although the creation returns true: the string of the first element has its capacity of 20,
  that of the second and the wide string are NULL.
\<close>

lemma array_elements_left_out:
  "case micro_ros_utilities_create_message_memory (default_allocator exact_policy)
     (Some (type_support_of pair_struct)) (Ptr 0 0) default_conf (start 36) of
     Inl e \<Rightarrow> False
   | Inr (ok, s) \<Rightarrow>
       ok \<and> load_ptr (Ptr 0 0) (heap s) = Inr (Ptr 1 0) \<and> load_size (Ptr 0 8) (heap s) = Inr 20 \<and>
       load_ptr (Ptr 0 12) (heap s) = Inr NULL \<and> load_ptr (Ptr 0 24) (heap s) = Inr NULL"
  by code_simp

definition refusing_after :: "nat \<Rightarrow> malloc_policy" where
  "refusing_after k = \<lparr>exhausted = (\<lambda>n _. k \<le> n), usable = unat, in_place = (\<lambda>_ _. False)\<rparr>"

definition small_conf :: memory_conf where
  "small_conf = default_conf\<lparr>max_string_capacity := 2, max_ros2_type_sequence_capacity := 1\<rparr>"

text \<open>
  When the allocator refuses the memory of a sequence of messages,
  \<^verbatim>\<open>micro_ros_utilities_create_message_memory\<close> returns false, and the documented clean-up with
  \<^verbatim>\<open>micro_ros_utilities_destroy_message_memory\<close> dereferences NULL: destruction visits the configured
  number of elements, whatever the sequence holds. The memory that was already allocated stays
  allocated.
\<close>

lemma failed_creation_cannot_be_destroyed:
  "case micro_ros_utilities_create_message_memory (default_allocator (refusing_after 2))
      (Some (type_support_of sample_struct)) (Ptr 0 0) small_conf (start 28) of
     Inl e \<Rightarrow> False
   | Inr (ok, s) \<Rightarrow>
       \<not> ok \<and> kind_of (heap s) 1 = Some HeapBlock \<and>
       micro_ros_utilities_destroy_message_memory (default_allocator (refusing_after 2))
         (Some (type_support_of sample_struct)) (Ptr 0 0) small_conf s = Inl NullDereference"
  by code_simp

end
