(* ===== verification/Std_Messages.thy ===== *)
theory Std_Messages
  imports C_Structs
begin

text \<open>
  The message structures of the packages builtin_interfaces, std_msgs and geometry_msgs, one
  definition for each \<^verbatim>\<open>__struct.h\<close> header under \<^verbatim>\<open>src/\<close> (the structure and its sequence type, which
  is the same three words for every message).
\<close>

section \<open>\<^verbatim>\<open>builtin_interfaces\<close>\<close>

definition builtin_interfaces__msg__Duration :: c_struct where
  "builtin_interfaces__msg__Duration = C_Struct ''builtin_interfaces__msg'' ''Duration''
     [(''sec'', Prim ROS_TYPE_INT32), (''nanosec'', Prim ROS_TYPE_UINT32)]"

definition builtin_interfaces__msg__Time :: c_struct where
  "builtin_interfaces__msg__Time = C_Struct ''builtin_interfaces__msg'' ''Time''
     [(''sec'', Prim ROS_TYPE_INT32), (''nanosec'', Prim ROS_TYPE_UINT32)]"

section \<open>\<^verbatim>\<open>geometry_msgs\<close>\<close>

definition geometry_msgs__msg__Vector3 :: c_struct where
  "geometry_msgs__msg__Vector3 = C_Struct ''geometry_msgs__msg'' ''Vector3''
     [(''x'', Prim ROS_TYPE_DOUBLE), (''y'', Prim ROS_TYPE_DOUBLE),
      (''z'', Prim ROS_TYPE_DOUBLE)]"

definition geometry_msgs__msg__Accel :: c_struct where
  "geometry_msgs__msg__Accel = C_Struct ''geometry_msgs__msg'' ''Accel''
     [(''linear'', Struct geometry_msgs__msg__Vector3),
      (''angular'', Struct geometry_msgs__msg__Vector3)]"

section \<open>\<^verbatim>\<open>std_msgs\<close>\<close>

definition std_msgs__msg__Header :: c_struct where
  "std_msgs__msg__Header = C_Struct ''std_msgs__msg'' ''Header''
     [(''stamp'', Struct builtin_interfaces__msg__Time), (''frame_id'', Text)]"

section \<open>\<^verbatim>\<open>geometry_msgs\<close>\<close>

definition geometry_msgs__msg__AccelStamped :: c_struct where
  "geometry_msgs__msg__AccelStamped = C_Struct ''geometry_msgs__msg'' ''AccelStamped''
     [(''header'', Struct std_msgs__msg__Header), (''accel'', Struct geometry_msgs__msg__Accel)]"

definition geometry_msgs__msg__AccelWithCovariance :: c_struct where
  "geometry_msgs__msg__AccelWithCovariance = C_Struct ''geometry_msgs__msg'' ''AccelWithCovariance''
     [(''accel'', Struct geometry_msgs__msg__Accel),
      (''covariance'', Array (Prim ROS_TYPE_DOUBLE) 36)]"

definition geometry_msgs__msg__AccelWithCovarianceStamped :: c_struct where
  "geometry_msgs__msg__AccelWithCovarianceStamped = C_Struct ''geometry_msgs__msg'' ''AccelWithCovarianceStamped''
     [(''header'', Struct std_msgs__msg__Header),
      (''accel'', Struct geometry_msgs__msg__AccelWithCovariance)]"

definition geometry_msgs__msg__Inertia :: c_struct where
  "geometry_msgs__msg__Inertia = C_Struct ''geometry_msgs__msg'' ''Inertia''
     [(''m'', Prim ROS_TYPE_DOUBLE), (''com'', Struct geometry_msgs__msg__Vector3),
      (''ixx'', Prim ROS_TYPE_DOUBLE), (''ixy'', Prim ROS_TYPE_DOUBLE),
      (''ixz'', Prim ROS_TYPE_DOUBLE), (''iyy'', Prim ROS_TYPE_DOUBLE),
      (''iyz'', Prim ROS_TYPE_DOUBLE), (''izz'', Prim ROS_TYPE_DOUBLE)]"

definition geometry_msgs__msg__InertiaStamped :: c_struct where
  "geometry_msgs__msg__InertiaStamped = C_Struct ''geometry_msgs__msg'' ''InertiaStamped''
     [(''header'', Struct std_msgs__msg__Header),
      (''inertia'', Struct geometry_msgs__msg__Inertia)]"

definition geometry_msgs__msg__Point :: c_struct where
  "geometry_msgs__msg__Point = C_Struct ''geometry_msgs__msg'' ''Point''
     [(''x'', Prim ROS_TYPE_DOUBLE), (''y'', Prim ROS_TYPE_DOUBLE),
      (''z'', Prim ROS_TYPE_DOUBLE)]"

definition geometry_msgs__msg__Point32 :: c_struct where
  "geometry_msgs__msg__Point32 = C_Struct ''geometry_msgs__msg'' ''Point32''
     [(''x'', Prim ROS_TYPE_FLOAT), (''y'', Prim ROS_TYPE_FLOAT), (''z'', Prim ROS_TYPE_FLOAT)]"

definition geometry_msgs__msg__PointStamped :: c_struct where
  "geometry_msgs__msg__PointStamped = C_Struct ''geometry_msgs__msg'' ''PointStamped''
     [(''header'', Struct std_msgs__msg__Header), (''point'', Struct geometry_msgs__msg__Point)]"

definition geometry_msgs__msg__Polygon :: c_struct where
  "geometry_msgs__msg__Polygon = C_Struct ''geometry_msgs__msg'' ''Polygon''
     [(''points'', Sequence (Struct geometry_msgs__msg__Point32) 0)]"

definition geometry_msgs__msg__PolygonStamped :: c_struct where
  "geometry_msgs__msg__PolygonStamped = C_Struct ''geometry_msgs__msg'' ''PolygonStamped''
     [(''header'', Struct std_msgs__msg__Header),
      (''polygon'', Struct geometry_msgs__msg__Polygon)]"

definition geometry_msgs__msg__Quaternion :: c_struct where
  "geometry_msgs__msg__Quaternion = C_Struct ''geometry_msgs__msg'' ''Quaternion''
     [(''x'', Prim ROS_TYPE_DOUBLE), (''y'', Prim ROS_TYPE_DOUBLE),
      (''z'', Prim ROS_TYPE_DOUBLE), (''w'', Prim ROS_TYPE_DOUBLE)]"

definition geometry_msgs__msg__Pose :: c_struct where
  "geometry_msgs__msg__Pose = C_Struct ''geometry_msgs__msg'' ''Pose''
     [(''position'', Struct geometry_msgs__msg__Point),
      (''orientation'', Struct geometry_msgs__msg__Quaternion)]"

definition geometry_msgs__msg__Pose2D :: c_struct where
  "geometry_msgs__msg__Pose2D = C_Struct ''geometry_msgs__msg'' ''Pose2D''
     [(''x'', Prim ROS_TYPE_DOUBLE), (''y'', Prim ROS_TYPE_DOUBLE),
      (''theta'', Prim ROS_TYPE_DOUBLE)]"

definition geometry_msgs__msg__PoseArray :: c_struct where
  "geometry_msgs__msg__PoseArray = C_Struct ''geometry_msgs__msg'' ''PoseArray''
     [(''header'', Struct std_msgs__msg__Header),
      (''poses'', Sequence (Struct geometry_msgs__msg__Pose) 0)]"

definition geometry_msgs__msg__PoseStamped :: c_struct where
  "geometry_msgs__msg__PoseStamped = C_Struct ''geometry_msgs__msg'' ''PoseStamped''
     [(''header'', Struct std_msgs__msg__Header), (''pose'', Struct geometry_msgs__msg__Pose)]"

definition geometry_msgs__msg__PoseWithCovariance :: c_struct where
  "geometry_msgs__msg__PoseWithCovariance = C_Struct ''geometry_msgs__msg'' ''PoseWithCovariance''
     [(''pose'', Struct geometry_msgs__msg__Pose),
      (''covariance'', Array (Prim ROS_TYPE_DOUBLE) 36)]"

definition geometry_msgs__msg__PoseWithCovarianceStamped :: c_struct where
  "geometry_msgs__msg__PoseWithCovarianceStamped = C_Struct ''geometry_msgs__msg'' ''PoseWithCovarianceStamped''
     [(''header'', Struct std_msgs__msg__Header),
      (''pose'', Struct geometry_msgs__msg__PoseWithCovariance)]"

definition geometry_msgs__msg__QuaternionStamped :: c_struct where
  "geometry_msgs__msg__QuaternionStamped = C_Struct ''geometry_msgs__msg'' ''QuaternionStamped''
     [(''header'', Struct std_msgs__msg__Header),
      (''quaternion'', Struct geometry_msgs__msg__Quaternion)]"

definition geometry_msgs__msg__Transform :: c_struct where
  "geometry_msgs__msg__Transform = C_Struct ''geometry_msgs__msg'' ''Transform''
     [(''translation'', Struct geometry_msgs__msg__Vector3),
      (''rotation'', Struct geometry_msgs__msg__Quaternion)]"

definition geometry_msgs__msg__TransformStamped :: c_struct where
  "geometry_msgs__msg__TransformStamped = C_Struct ''geometry_msgs__msg'' ''TransformStamped''
     [(''header'', Struct std_msgs__msg__Header), (''child_frame_id'', Text),
      (''transform'', Struct geometry_msgs__msg__Transform)]"

definition geometry_msgs__msg__Twist :: c_struct where
  "geometry_msgs__msg__Twist = C_Struct ''geometry_msgs__msg'' ''Twist''
     [(''linear'', Struct geometry_msgs__msg__Vector3),
      (''angular'', Struct geometry_msgs__msg__Vector3)]"

definition geometry_msgs__msg__TwistStamped :: c_struct where
  "geometry_msgs__msg__TwistStamped = C_Struct ''geometry_msgs__msg'' ''TwistStamped''
     [(''header'', Struct std_msgs__msg__Header), (''twist'', Struct geometry_msgs__msg__Twist)]"

definition geometry_msgs__msg__TwistWithCovariance :: c_struct where
  "geometry_msgs__msg__TwistWithCovariance = C_Struct ''geometry_msgs__msg'' ''TwistWithCovariance''
     [(''twist'', Struct geometry_msgs__msg__Twist),
      (''covariance'', Array (Prim ROS_TYPE_DOUBLE) 36)]"

definition geometry_msgs__msg__TwistWithCovarianceStamped :: c_struct where
  "geometry_msgs__msg__TwistWithCovarianceStamped = C_Struct ''geometry_msgs__msg'' ''TwistWithCovarianceStamped''
     [(''header'', Struct std_msgs__msg__Header),
      (''twist'', Struct geometry_msgs__msg__TwistWithCovariance)]"

definition geometry_msgs__msg__Vector3Stamped :: c_struct where
  "geometry_msgs__msg__Vector3Stamped = C_Struct ''geometry_msgs__msg'' ''Vector3Stamped''
     [(''header'', Struct std_msgs__msg__Header),
      (''vector'', Struct geometry_msgs__msg__Vector3)]"

definition geometry_msgs__msg__Wrench :: c_struct where
  "geometry_msgs__msg__Wrench = C_Struct ''geometry_msgs__msg'' ''Wrench''
     [(''force'', Struct geometry_msgs__msg__Vector3),
      (''torque'', Struct geometry_msgs__msg__Vector3)]"

definition geometry_msgs__msg__WrenchStamped :: c_struct where
  "geometry_msgs__msg__WrenchStamped = C_Struct ''geometry_msgs__msg'' ''WrenchStamped''
     [(''header'', Struct std_msgs__msg__Header),
      (''wrench'', Struct geometry_msgs__msg__Wrench)]"

section \<open>\<^verbatim>\<open>std_msgs\<close>\<close>

definition std_msgs__msg__Bool :: c_struct where
  "std_msgs__msg__Bool = C_Struct ''std_msgs__msg'' ''Bool''
     [(''data'', Prim ROS_TYPE_BOOLEAN)]"

definition std_msgs__msg__Byte :: c_struct where
  "std_msgs__msg__Byte = C_Struct ''std_msgs__msg'' ''Byte''
     [(''data'', Prim ROS_TYPE_UINT8)]"

definition std_msgs__msg__MultiArrayDimension :: c_struct where
  "std_msgs__msg__MultiArrayDimension = C_Struct ''std_msgs__msg'' ''MultiArrayDimension''
     [(''label'', Text), (''size'', Prim ROS_TYPE_UINT32), (''stride'', Prim ROS_TYPE_UINT32)]"

definition std_msgs__msg__MultiArrayLayout :: c_struct where
  "std_msgs__msg__MultiArrayLayout = C_Struct ''std_msgs__msg'' ''MultiArrayLayout''
     [(''dim'', Sequence (Struct std_msgs__msg__MultiArrayDimension) 0),
      (''data_offset'', Prim ROS_TYPE_UINT32)]"

definition std_msgs__msg__ByteMultiArray :: c_struct where
  "std_msgs__msg__ByteMultiArray = C_Struct ''std_msgs__msg'' ''ByteMultiArray''
     [(''layout'', Struct std_msgs__msg__MultiArrayLayout),
      (''data'', Sequence (Prim ROS_TYPE_OCTET) 0)]"

definition std_msgs__msg__Char :: c_struct where
  "std_msgs__msg__Char = C_Struct ''std_msgs__msg'' ''Char''
     [(''data'', Prim ROS_TYPE_UINT8)]"

definition std_msgs__msg__ColorRGBA :: c_struct where
  "std_msgs__msg__ColorRGBA = C_Struct ''std_msgs__msg'' ''ColorRGBA''
     [(''r'', Prim ROS_TYPE_FLOAT), (''g'', Prim ROS_TYPE_FLOAT), (''b'', Prim ROS_TYPE_FLOAT),
      (''a'', Prim ROS_TYPE_FLOAT)]"

definition std_msgs__msg__Empty :: c_struct where
  "std_msgs__msg__Empty = C_Struct ''std_msgs__msg'' ''Empty''
     [(''structure_needs_at_least_one_member'', Prim ROS_TYPE_UINT8)]"

definition std_msgs__msg__Float32 :: c_struct where
  "std_msgs__msg__Float32 = C_Struct ''std_msgs__msg'' ''Float32''
     [(''data'', Prim ROS_TYPE_FLOAT)]"

definition std_msgs__msg__Float32MultiArray :: c_struct where
  "std_msgs__msg__Float32MultiArray = C_Struct ''std_msgs__msg'' ''Float32MultiArray''
     [(''layout'', Struct std_msgs__msg__MultiArrayLayout),
      (''data'', Sequence (Prim ROS_TYPE_FLOAT) 0)]"

definition std_msgs__msg__Float64 :: c_struct where
  "std_msgs__msg__Float64 = C_Struct ''std_msgs__msg'' ''Float64''
     [(''data'', Prim ROS_TYPE_DOUBLE)]"

definition std_msgs__msg__Float64MultiArray :: c_struct where
  "std_msgs__msg__Float64MultiArray = C_Struct ''std_msgs__msg'' ''Float64MultiArray''
     [(''layout'', Struct std_msgs__msg__MultiArrayLayout),
      (''data'', Sequence (Prim ROS_TYPE_DOUBLE) 0)]"

definition std_msgs__msg__Int16 :: c_struct where
  "std_msgs__msg__Int16 = C_Struct ''std_msgs__msg'' ''Int16''
     [(''data'', Prim ROS_TYPE_INT16)]"

definition std_msgs__msg__Int16MultiArray :: c_struct where
  "std_msgs__msg__Int16MultiArray = C_Struct ''std_msgs__msg'' ''Int16MultiArray''
     [(''layout'', Struct std_msgs__msg__MultiArrayLayout),
      (''data'', Sequence (Prim ROS_TYPE_INT16) 0)]"

definition std_msgs__msg__Int32 :: c_struct where
  "std_msgs__msg__Int32 = C_Struct ''std_msgs__msg'' ''Int32''
     [(''data'', Prim ROS_TYPE_INT32)]"

definition std_msgs__msg__Int32MultiArray :: c_struct where
  "std_msgs__msg__Int32MultiArray = C_Struct ''std_msgs__msg'' ''Int32MultiArray''
     [(''layout'', Struct std_msgs__msg__MultiArrayLayout),
      (''data'', Sequence (Prim ROS_TYPE_INT32) 0)]"

definition std_msgs__msg__Int64 :: c_struct where
  "std_msgs__msg__Int64 = C_Struct ''std_msgs__msg'' ''Int64''
     [(''data'', Prim ROS_TYPE_INT64)]"

definition std_msgs__msg__Int64MultiArray :: c_struct where
  "std_msgs__msg__Int64MultiArray = C_Struct ''std_msgs__msg'' ''Int64MultiArray''
     [(''layout'', Struct std_msgs__msg__MultiArrayLayout),
      (''data'', Sequence (Prim ROS_TYPE_INT64) 0)]"

definition std_msgs__msg__Int8 :: c_struct where
  "std_msgs__msg__Int8 = C_Struct ''std_msgs__msg'' ''Int8''
     [(''data'', Prim ROS_TYPE_INT8)]"

definition std_msgs__msg__Int8MultiArray :: c_struct where
  "std_msgs__msg__Int8MultiArray = C_Struct ''std_msgs__msg'' ''Int8MultiArray''
     [(''layout'', Struct std_msgs__msg__MultiArrayLayout),
      (''data'', Sequence (Prim ROS_TYPE_INT8) 0)]"

definition std_msgs__msg__String :: c_struct where
  "std_msgs__msg__String = C_Struct ''std_msgs__msg'' ''String''
     [(''data'', Text)]"

definition std_msgs__msg__UInt16 :: c_struct where
  "std_msgs__msg__UInt16 = C_Struct ''std_msgs__msg'' ''UInt16''
     [(''data'', Prim ROS_TYPE_UINT16)]"

definition std_msgs__msg__UInt16MultiArray :: c_struct where
  "std_msgs__msg__UInt16MultiArray = C_Struct ''std_msgs__msg'' ''UInt16MultiArray''
     [(''layout'', Struct std_msgs__msg__MultiArrayLayout),
      (''data'', Sequence (Prim ROS_TYPE_UINT16) 0)]"

definition std_msgs__msg__UInt32 :: c_struct where
  "std_msgs__msg__UInt32 = C_Struct ''std_msgs__msg'' ''UInt32''
     [(''data'', Prim ROS_TYPE_UINT32)]"

definition std_msgs__msg__UInt32MultiArray :: c_struct where
  "std_msgs__msg__UInt32MultiArray = C_Struct ''std_msgs__msg'' ''UInt32MultiArray''
     [(''layout'', Struct std_msgs__msg__MultiArrayLayout),
      (''data'', Sequence (Prim ROS_TYPE_UINT32) 0)]"

definition std_msgs__msg__UInt64 :: c_struct where
  "std_msgs__msg__UInt64 = C_Struct ''std_msgs__msg'' ''UInt64''
     [(''data'', Prim ROS_TYPE_UINT64)]"

definition std_msgs__msg__UInt64MultiArray :: c_struct where
  "std_msgs__msg__UInt64MultiArray = C_Struct ''std_msgs__msg'' ''UInt64MultiArray''
     [(''layout'', Struct std_msgs__msg__MultiArrayLayout),
      (''data'', Sequence (Prim ROS_TYPE_UINT64) 0)]"

definition std_msgs__msg__UInt8 :: c_struct where
  "std_msgs__msg__UInt8 = C_Struct ''std_msgs__msg'' ''UInt8''
     [(''data'', Prim ROS_TYPE_UINT8)]"

definition std_msgs__msg__UInt8MultiArray :: c_struct where
  "std_msgs__msg__UInt8MultiArray = C_Struct ''std_msgs__msg'' ''UInt8MultiArray''
     [(''layout'', Struct std_msgs__msg__MultiArrayLayout),
      (''data'', Sequence (Prim ROS_TYPE_UINT8) 0)]"

section \<open>All of them\<close>

definition std_messages :: "c_struct list" where
  "std_messages =
     [builtin_interfaces__msg__Duration,
      builtin_interfaces__msg__Time,
      geometry_msgs__msg__Vector3,
      geometry_msgs__msg__Accel,
      std_msgs__msg__Header,
      geometry_msgs__msg__AccelStamped,
      geometry_msgs__msg__AccelWithCovariance,
      geometry_msgs__msg__AccelWithCovarianceStamped,
      geometry_msgs__msg__Inertia,
      geometry_msgs__msg__InertiaStamped,
      geometry_msgs__msg__Point,
      geometry_msgs__msg__Point32,
      geometry_msgs__msg__PointStamped,
      geometry_msgs__msg__Polygon,
      geometry_msgs__msg__PolygonStamped,
      geometry_msgs__msg__Quaternion,
      geometry_msgs__msg__Pose,
      geometry_msgs__msg__Pose2D,
      geometry_msgs__msg__PoseArray,
      geometry_msgs__msg__PoseStamped,
      geometry_msgs__msg__PoseWithCovariance,
      geometry_msgs__msg__PoseWithCovarianceStamped,
      geometry_msgs__msg__QuaternionStamped,
      geometry_msgs__msg__Transform,
      geometry_msgs__msg__TransformStamped,
      geometry_msgs__msg__Twist,
      geometry_msgs__msg__TwistStamped,
      geometry_msgs__msg__TwistWithCovariance,
      geometry_msgs__msg__TwistWithCovarianceStamped,
      geometry_msgs__msg__Vector3Stamped,
      geometry_msgs__msg__Wrench,
      geometry_msgs__msg__WrenchStamped,
      std_msgs__msg__Bool,
      std_msgs__msg__Byte,
      std_msgs__msg__MultiArrayDimension,
      std_msgs__msg__MultiArrayLayout,
      std_msgs__msg__ByteMultiArray,
      std_msgs__msg__Char,
      std_msgs__msg__ColorRGBA,
      std_msgs__msg__Empty,
      std_msgs__msg__Float32,
      std_msgs__msg__Float32MultiArray,
      std_msgs__msg__Float64,
      std_msgs__msg__Float64MultiArray,
      std_msgs__msg__Int16,
      std_msgs__msg__Int16MultiArray,
      std_msgs__msg__Int32,
      std_msgs__msg__Int32MultiArray,
      std_msgs__msg__Int64,
      std_msgs__msg__Int64MultiArray,
      std_msgs__msg__Int8,
      std_msgs__msg__Int8MultiArray,
      std_msgs__msg__String,
      std_msgs__msg__UInt16,
      std_msgs__msg__UInt16MultiArray,
      std_msgs__msg__UInt32,
      std_msgs__msg__UInt32MultiArray,
      std_msgs__msg__UInt64,
      std_msgs__msg__UInt64MultiArray,
      std_msgs__msg__UInt8,
      std_msgs__msg__UInt8MultiArray]"

lemmas std_messages_defs =
  builtin_interfaces__msg__Duration_def
  builtin_interfaces__msg__Time_def
  geometry_msgs__msg__Vector3_def
  geometry_msgs__msg__Accel_def
  std_msgs__msg__Header_def
  geometry_msgs__msg__AccelStamped_def
  geometry_msgs__msg__AccelWithCovariance_def
  geometry_msgs__msg__AccelWithCovarianceStamped_def
  geometry_msgs__msg__Inertia_def
  geometry_msgs__msg__InertiaStamped_def
  geometry_msgs__msg__Point_def
  geometry_msgs__msg__Point32_def
  geometry_msgs__msg__PointStamped_def
  geometry_msgs__msg__Polygon_def
  geometry_msgs__msg__PolygonStamped_def
  geometry_msgs__msg__Quaternion_def
  geometry_msgs__msg__Pose_def
  geometry_msgs__msg__Pose2D_def
  geometry_msgs__msg__PoseArray_def
  geometry_msgs__msg__PoseStamped_def
  geometry_msgs__msg__PoseWithCovariance_def
  geometry_msgs__msg__PoseWithCovarianceStamped_def
  geometry_msgs__msg__QuaternionStamped_def
  geometry_msgs__msg__Transform_def
  geometry_msgs__msg__TransformStamped_def
  geometry_msgs__msg__Twist_def
  geometry_msgs__msg__TwistStamped_def
  geometry_msgs__msg__TwistWithCovariance_def
  geometry_msgs__msg__TwistWithCovarianceStamped_def
  geometry_msgs__msg__Vector3Stamped_def
  geometry_msgs__msg__Wrench_def
  geometry_msgs__msg__WrenchStamped_def
  std_msgs__msg__Bool_def
  std_msgs__msg__Byte_def
  std_msgs__msg__MultiArrayDimension_def
  std_msgs__msg__MultiArrayLayout_def
  std_msgs__msg__ByteMultiArray_def
  std_msgs__msg__Char_def
  std_msgs__msg__ColorRGBA_def
  std_msgs__msg__Empty_def
  std_msgs__msg__Float32_def
  std_msgs__msg__Float32MultiArray_def
  std_msgs__msg__Float64_def
  std_msgs__msg__Float64MultiArray_def
  std_msgs__msg__Int16_def
  std_msgs__msg__Int16MultiArray_def
  std_msgs__msg__Int32_def
  std_msgs__msg__Int32MultiArray_def
  std_msgs__msg__Int64_def
  std_msgs__msg__Int64MultiArray_def
  std_msgs__msg__Int8_def
  std_msgs__msg__Int8MultiArray_def
  std_msgs__msg__String_def
  std_msgs__msg__UInt16_def
  std_msgs__msg__UInt16MultiArray_def
  std_msgs__msg__UInt32_def
  std_msgs__msg__UInt32MultiArray_def
  std_msgs__msg__UInt64_def
  std_msgs__msg__UInt64MultiArray_def
  std_msgs__msg__UInt8_def
  std_msgs__msg__UInt8MultiArray_def

end
