(* ===== verification/Robot_Messages.thy ===== *)
theory Robot_Messages
  imports Std_Messages
begin

text \<open>
  The message structures of the packages sensor_msgs, diagnostic_msgs, nav_msgs,
  trajectory_msgs and shape_msgs, and of the example services, one definition for each
  structure of the \<^verbatim>\<open>__struct.h\<close> headers under \<^verbatim>\<open>src/\<close>.
\<close>

section \<open>\<^verbatim>\<open>diagnostic_msgs\<close>\<close>

definition diagnostic_msgs__msg__KeyValue :: c_struct where
  "diagnostic_msgs__msg__KeyValue = C_Struct ''diagnostic_msgs__msg'' ''KeyValue''
     [(''key'', Text), (''value'', Text)]"

definition diagnostic_msgs__msg__DiagnosticStatus :: c_struct where
  "diagnostic_msgs__msg__DiagnosticStatus = C_Struct ''diagnostic_msgs__msg'' ''DiagnosticStatus''
     [(''level'', Prim ROS_TYPE_UINT8), (''name'', Text), (''message'', Text),
      (''hardware_id'', Text), (''values'', Sequence (Struct diagnostic_msgs__msg__KeyValue) 0)]"

definition diagnostic_msgs__msg__DiagnosticArray :: c_struct where
  "diagnostic_msgs__msg__DiagnosticArray = C_Struct ''diagnostic_msgs__msg'' ''DiagnosticArray''
     [(''header'', Struct std_msgs__msg__Header),
      (''status'', Sequence (Struct diagnostic_msgs__msg__DiagnosticStatus) 0)]"

section \<open>\<^verbatim>\<open>example_interfaces\<close>\<close>

definition example_interfaces__srv__AddTwoInts_Request :: c_struct where
  "example_interfaces__srv__AddTwoInts_Request = C_Struct ''example_interfaces__srv'' ''AddTwoInts_Request''
     [(''a'', Prim ROS_TYPE_INT64), (''b'', Prim ROS_TYPE_INT64)]"

definition example_interfaces__srv__AddTwoInts_Response :: c_struct where
  "example_interfaces__srv__AddTwoInts_Response = C_Struct ''example_interfaces__srv'' ''AddTwoInts_Response''
     [(''sum'', Prim ROS_TYPE_INT64)]"

definition example_interfaces__srv__SetBool_Request :: c_struct where
  "example_interfaces__srv__SetBool_Request = C_Struct ''example_interfaces__srv'' ''SetBool_Request''
     [(''data'', Prim ROS_TYPE_BOOLEAN)]"

definition example_interfaces__srv__SetBool_Response :: c_struct where
  "example_interfaces__srv__SetBool_Response = C_Struct ''example_interfaces__srv'' ''SetBool_Response''
     [(''success'', Prim ROS_TYPE_BOOLEAN), (''message'', Text)]"

definition example_interfaces__srv__Trigger_Request :: c_struct where
  "example_interfaces__srv__Trigger_Request = C_Struct ''example_interfaces__srv'' ''Trigger_Request''
     [(''structure_needs_at_least_one_member'', Prim ROS_TYPE_UINT8)]"

definition example_interfaces__srv__Trigger_Response :: c_struct where
  "example_interfaces__srv__Trigger_Response = C_Struct ''example_interfaces__srv'' ''Trigger_Response''
     [(''success'', Prim ROS_TYPE_BOOLEAN), (''message'', Text)]"

section \<open>\<^verbatim>\<open>nav_msgs\<close>\<close>

definition nav_msgs__msg__GridCells :: c_struct where
  "nav_msgs__msg__GridCells = C_Struct ''nav_msgs__msg'' ''GridCells''
     [(''header'', Struct std_msgs__msg__Header), (''cell_width'', Prim ROS_TYPE_FLOAT),
      (''cell_height'', Prim ROS_TYPE_FLOAT),
      (''cells'', Sequence (Struct geometry_msgs__msg__Point) 0)]"

definition nav_msgs__msg__MapMetaData :: c_struct where
  "nav_msgs__msg__MapMetaData = C_Struct ''nav_msgs__msg'' ''MapMetaData''
     [(''map_load_time'', Struct builtin_interfaces__msg__Time),
      (''resolution'', Prim ROS_TYPE_FLOAT), (''width'', Prim ROS_TYPE_UINT32),
      (''height'', Prim ROS_TYPE_UINT32), (''origin'', Struct geometry_msgs__msg__Pose)]"

definition nav_msgs__msg__OccupancyGrid :: c_struct where
  "nav_msgs__msg__OccupancyGrid = C_Struct ''nav_msgs__msg'' ''OccupancyGrid''
     [(''header'', Struct std_msgs__msg__Header), (''info'', Struct nav_msgs__msg__MapMetaData),
      (''data'', Sequence (Prim ROS_TYPE_INT8) 0)]"

definition nav_msgs__msg__Odometry :: c_struct where
  "nav_msgs__msg__Odometry = C_Struct ''nav_msgs__msg'' ''Odometry''
     [(''header'', Struct std_msgs__msg__Header), (''child_frame_id'', Text),
      (''pose'', Struct geometry_msgs__msg__PoseWithCovariance),
      (''twist'', Struct geometry_msgs__msg__TwistWithCovariance)]"

definition nav_msgs__msg__Path :: c_struct where
  "nav_msgs__msg__Path = C_Struct ''nav_msgs__msg'' ''Path''
     [(''header'', Struct std_msgs__msg__Header),
      (''poses'', Sequence (Struct geometry_msgs__msg__PoseStamped) 0)]"

section \<open>\<^verbatim>\<open>sensor_msgs\<close>\<close>

definition sensor_msgs__msg__BatteryState :: c_struct where
  "sensor_msgs__msg__BatteryState = C_Struct ''sensor_msgs__msg'' ''BatteryState''
     [(''header'', Struct std_msgs__msg__Header), (''voltage'', Prim ROS_TYPE_FLOAT),
      (''temperature'', Prim ROS_TYPE_FLOAT), (''current'', Prim ROS_TYPE_FLOAT),
      (''charge'', Prim ROS_TYPE_FLOAT), (''capacity'', Prim ROS_TYPE_FLOAT),
      (''design_capacity'', Prim ROS_TYPE_FLOAT), (''percentage'', Prim ROS_TYPE_FLOAT),
      (''power_supply_status'', Prim ROS_TYPE_UINT8),
      (''power_supply_health'', Prim ROS_TYPE_UINT8),
      (''power_supply_technology'', Prim ROS_TYPE_UINT8), (''present'', Prim ROS_TYPE_BOOLEAN),
      (''cell_voltage'', Sequence (Prim ROS_TYPE_FLOAT) 0),
      (''cell_temperature'', Sequence (Prim ROS_TYPE_FLOAT) 0), (''location'', Text),
      (''serial_number'', Text)]"

definition sensor_msgs__msg__RegionOfInterest :: c_struct where
  "sensor_msgs__msg__RegionOfInterest = C_Struct ''sensor_msgs__msg'' ''RegionOfInterest''
     [(''x_offset'', Prim ROS_TYPE_UINT32), (''y_offset'', Prim ROS_TYPE_UINT32),
      (''height'', Prim ROS_TYPE_UINT32), (''width'', Prim ROS_TYPE_UINT32),
      (''do_rectify'', Prim ROS_TYPE_BOOLEAN)]"

definition sensor_msgs__msg__CameraInfo :: c_struct where
  "sensor_msgs__msg__CameraInfo = C_Struct ''sensor_msgs__msg'' ''CameraInfo''
     [(''header'', Struct std_msgs__msg__Header), (''height'', Prim ROS_TYPE_UINT32),
      (''width'', Prim ROS_TYPE_UINT32), (''distortion_model'', Text),
      (''d'', Sequence (Prim ROS_TYPE_DOUBLE) 0), (''k'', Array (Prim ROS_TYPE_DOUBLE) 9),
      (''r'', Array (Prim ROS_TYPE_DOUBLE) 9), (''p'', Array (Prim ROS_TYPE_DOUBLE) 12),
      (''binning_x'', Prim ROS_TYPE_UINT32), (''binning_y'', Prim ROS_TYPE_UINT32),
      (''roi'', Struct sensor_msgs__msg__RegionOfInterest)]"

definition sensor_msgs__msg__ChannelFloat32 :: c_struct where
  "sensor_msgs__msg__ChannelFloat32 = C_Struct ''sensor_msgs__msg'' ''ChannelFloat32''
     [(''name'', Text), (''values'', Sequence (Prim ROS_TYPE_FLOAT) 0)]"

definition sensor_msgs__msg__CompressedImage :: c_struct where
  "sensor_msgs__msg__CompressedImage = C_Struct ''sensor_msgs__msg'' ''CompressedImage''
     [(''header'', Struct std_msgs__msg__Header), (''format'', Text),
      (''data'', Sequence (Prim ROS_TYPE_UINT8) 0)]"

definition sensor_msgs__msg__FluidPressure :: c_struct where
  "sensor_msgs__msg__FluidPressure = C_Struct ''sensor_msgs__msg'' ''FluidPressure''
     [(''header'', Struct std_msgs__msg__Header), (''fluid_pressure'', Prim ROS_TYPE_DOUBLE),
      (''variance'', Prim ROS_TYPE_DOUBLE)]"

definition sensor_msgs__msg__Illuminance :: c_struct where
  "sensor_msgs__msg__Illuminance = C_Struct ''sensor_msgs__msg'' ''Illuminance''
     [(''header'', Struct std_msgs__msg__Header), (''illuminance'', Prim ROS_TYPE_DOUBLE),
      (''variance'', Prim ROS_TYPE_DOUBLE)]"

definition sensor_msgs__msg__Image :: c_struct where
  "sensor_msgs__msg__Image = C_Struct ''sensor_msgs__msg'' ''Image''
     [(''header'', Struct std_msgs__msg__Header), (''height'', Prim ROS_TYPE_UINT32),
      (''width'', Prim ROS_TYPE_UINT32), (''encoding'', Text),
      (''is_bigendian'', Prim ROS_TYPE_UINT8), (''step'', Prim ROS_TYPE_UINT32),
      (''data'', Sequence (Prim ROS_TYPE_UINT8) 0)]"

definition sensor_msgs__msg__Imu :: c_struct where
  "sensor_msgs__msg__Imu = C_Struct ''sensor_msgs__msg'' ''Imu''
     [(''header'', Struct std_msgs__msg__Header),
      (''orientation'', Struct geometry_msgs__msg__Quaternion),
      (''orientation_covariance'', Array (Prim ROS_TYPE_DOUBLE) 9),
      (''angular_velocity'', Struct geometry_msgs__msg__Vector3),
      (''angular_velocity_covariance'', Array (Prim ROS_TYPE_DOUBLE) 9),
      (''linear_acceleration'', Struct geometry_msgs__msg__Vector3),
      (''linear_acceleration_covariance'', Array (Prim ROS_TYPE_DOUBLE) 9)]"

definition sensor_msgs__msg__JointState :: c_struct where
  "sensor_msgs__msg__JointState = C_Struct ''sensor_msgs__msg'' ''JointState''
     [(''header'', Struct std_msgs__msg__Header), (''name'', Sequence Text 0),
      (''position'', Sequence (Prim ROS_TYPE_DOUBLE) 0),
      (''velocity'', Sequence (Prim ROS_TYPE_DOUBLE) 0),
      (''effort'', Sequence (Prim ROS_TYPE_DOUBLE) 0)]"

definition sensor_msgs__msg__Joy :: c_struct where
  "sensor_msgs__msg__Joy = C_Struct ''sensor_msgs__msg'' ''Joy''
     [(''header'', Struct std_msgs__msg__Header), (''axes'', Sequence (Prim ROS_TYPE_FLOAT) 0),
      (''buttons'', Sequence (Prim ROS_TYPE_INT32) 0)]"

definition sensor_msgs__msg__JoyFeedback :: c_struct where
  "sensor_msgs__msg__JoyFeedback = C_Struct ''sensor_msgs__msg'' ''JoyFeedback''
     [(''type'', Prim ROS_TYPE_UINT8), (''id'', Prim ROS_TYPE_UINT8),
      (''intensity'', Prim ROS_TYPE_FLOAT)]"

definition sensor_msgs__msg__JoyFeedbackArray :: c_struct where
  "sensor_msgs__msg__JoyFeedbackArray = C_Struct ''sensor_msgs__msg'' ''JoyFeedbackArray''
     [(''array'', Sequence (Struct sensor_msgs__msg__JoyFeedback) 0)]"

definition sensor_msgs__msg__LaserEcho :: c_struct where
  "sensor_msgs__msg__LaserEcho = C_Struct ''sensor_msgs__msg'' ''LaserEcho''
     [(''echoes'', Sequence (Prim ROS_TYPE_FLOAT) 0)]"

definition sensor_msgs__msg__LaserScan :: c_struct where
  "sensor_msgs__msg__LaserScan = C_Struct ''sensor_msgs__msg'' ''LaserScan''
     [(''header'', Struct std_msgs__msg__Header), (''angle_min'', Prim ROS_TYPE_FLOAT),
      (''angle_max'', Prim ROS_TYPE_FLOAT), (''angle_increment'', Prim ROS_TYPE_FLOAT),
      (''time_increment'', Prim ROS_TYPE_FLOAT), (''scan_time'', Prim ROS_TYPE_FLOAT),
      (''range_min'', Prim ROS_TYPE_FLOAT), (''range_max'', Prim ROS_TYPE_FLOAT),
      (''ranges'', Sequence (Prim ROS_TYPE_FLOAT) 0),
      (''intensities'', Sequence (Prim ROS_TYPE_FLOAT) 0)]"

definition sensor_msgs__msg__MagneticField :: c_struct where
  "sensor_msgs__msg__MagneticField = C_Struct ''sensor_msgs__msg'' ''MagneticField''
     [(''header'', Struct std_msgs__msg__Header),
      (''magnetic_field'', Struct geometry_msgs__msg__Vector3),
      (''magnetic_field_covariance'', Array (Prim ROS_TYPE_DOUBLE) 9)]"

definition sensor_msgs__msg__MultiDOFJointState :: c_struct where
  "sensor_msgs__msg__MultiDOFJointState = C_Struct ''sensor_msgs__msg'' ''MultiDOFJointState''
     [(''header'', Struct std_msgs__msg__Header), (''joint_names'', Sequence Text 0),
      (''transforms'', Sequence (Struct geometry_msgs__msg__Transform) 0),
      (''twist'', Sequence (Struct geometry_msgs__msg__Twist) 0),
      (''wrench'', Sequence (Struct geometry_msgs__msg__Wrench) 0)]"

definition sensor_msgs__msg__MultiEchoLaserScan :: c_struct where
  "sensor_msgs__msg__MultiEchoLaserScan = C_Struct ''sensor_msgs__msg'' ''MultiEchoLaserScan''
     [(''header'', Struct std_msgs__msg__Header), (''angle_min'', Prim ROS_TYPE_FLOAT),
      (''angle_max'', Prim ROS_TYPE_FLOAT), (''angle_increment'', Prim ROS_TYPE_FLOAT),
      (''time_increment'', Prim ROS_TYPE_FLOAT), (''scan_time'', Prim ROS_TYPE_FLOAT),
      (''range_min'', Prim ROS_TYPE_FLOAT), (''range_max'', Prim ROS_TYPE_FLOAT),
      (''ranges'', Sequence (Struct sensor_msgs__msg__LaserEcho) 0),
      (''intensities'', Sequence (Struct sensor_msgs__msg__LaserEcho) 0)]"

definition sensor_msgs__msg__NavSatStatus :: c_struct where
  "sensor_msgs__msg__NavSatStatus = C_Struct ''sensor_msgs__msg'' ''NavSatStatus''
     [(''status'', Prim ROS_TYPE_INT8), (''service'', Prim ROS_TYPE_UINT16)]"

definition sensor_msgs__msg__NavSatFix :: c_struct where
  "sensor_msgs__msg__NavSatFix = C_Struct ''sensor_msgs__msg'' ''NavSatFix''
     [(''header'', Struct std_msgs__msg__Header),
      (''status'', Struct sensor_msgs__msg__NavSatStatus), (''latitude'', Prim ROS_TYPE_DOUBLE),
      (''longitude'', Prim ROS_TYPE_DOUBLE), (''altitude'', Prim ROS_TYPE_DOUBLE),
      (''position_covariance'', Array (Prim ROS_TYPE_DOUBLE) 9),
      (''position_covariance_type'', Prim ROS_TYPE_UINT8)]"

definition sensor_msgs__msg__PointCloud :: c_struct where
  "sensor_msgs__msg__PointCloud = C_Struct ''sensor_msgs__msg'' ''PointCloud''
     [(''header'', Struct std_msgs__msg__Header),
      (''points'', Sequence (Struct geometry_msgs__msg__Point32) 0),
      (''channels'', Sequence (Struct sensor_msgs__msg__ChannelFloat32) 0)]"

definition sensor_msgs__msg__PointField :: c_struct where
  "sensor_msgs__msg__PointField = C_Struct ''sensor_msgs__msg'' ''PointField''
     [(''name'', Text), (''offset'', Prim ROS_TYPE_UINT32), (''datatype'', Prim ROS_TYPE_UINT8),
      (''count'', Prim ROS_TYPE_UINT32)]"

definition sensor_msgs__msg__PointCloud2 :: c_struct where
  "sensor_msgs__msg__PointCloud2 = C_Struct ''sensor_msgs__msg'' ''PointCloud2''
     [(''header'', Struct std_msgs__msg__Header), (''height'', Prim ROS_TYPE_UINT32),
      (''width'', Prim ROS_TYPE_UINT32),
      (''fields'', Sequence (Struct sensor_msgs__msg__PointField) 0),
      (''is_bigendian'', Prim ROS_TYPE_BOOLEAN), (''point_step'', Prim ROS_TYPE_UINT32),
      (''row_step'', Prim ROS_TYPE_UINT32), (''data'', Sequence (Prim ROS_TYPE_UINT8) 0),
      (''is_dense'', Prim ROS_TYPE_BOOLEAN)]"

definition sensor_msgs__msg__Range :: c_struct where
  "sensor_msgs__msg__Range = C_Struct ''sensor_msgs__msg'' ''Range''
     [(''header'', Struct std_msgs__msg__Header), (''radiation_type'', Prim ROS_TYPE_UINT8),
      (''field_of_view'', Prim ROS_TYPE_FLOAT), (''min_range'', Prim ROS_TYPE_FLOAT),
      (''max_range'', Prim ROS_TYPE_FLOAT), (''range'', Prim ROS_TYPE_FLOAT)]"

definition sensor_msgs__msg__RelativeHumidity :: c_struct where
  "sensor_msgs__msg__RelativeHumidity = C_Struct ''sensor_msgs__msg'' ''RelativeHumidity''
     [(''header'', Struct std_msgs__msg__Header), (''relative_humidity'', Prim ROS_TYPE_DOUBLE),
      (''variance'', Prim ROS_TYPE_DOUBLE)]"

definition sensor_msgs__msg__Temperature :: c_struct where
  "sensor_msgs__msg__Temperature = C_Struct ''sensor_msgs__msg'' ''Temperature''
     [(''header'', Struct std_msgs__msg__Header), (''temperature'', Prim ROS_TYPE_DOUBLE),
      (''variance'', Prim ROS_TYPE_DOUBLE)]"

definition sensor_msgs__msg__TimeReference :: c_struct where
  "sensor_msgs__msg__TimeReference = C_Struct ''sensor_msgs__msg'' ''TimeReference''
     [(''header'', Struct std_msgs__msg__Header),
      (''time_ref'', Struct builtin_interfaces__msg__Time), (''source'', Text)]"

section \<open>\<^verbatim>\<open>shape_msgs\<close>\<close>

definition shape_msgs__msg__MeshTriangle :: c_struct where
  "shape_msgs__msg__MeshTriangle = C_Struct ''shape_msgs__msg'' ''MeshTriangle''
     [(''vertex_indices'', Array (Prim ROS_TYPE_UINT32) 3)]"

definition shape_msgs__msg__Mesh :: c_struct where
  "shape_msgs__msg__Mesh = C_Struct ''shape_msgs__msg'' ''Mesh''
     [(''triangles'', Sequence (Struct shape_msgs__msg__MeshTriangle) 0),
      (''vertices'', Sequence (Struct geometry_msgs__msg__Point) 0)]"

definition shape_msgs__msg__Plane :: c_struct where
  "shape_msgs__msg__Plane = C_Struct ''shape_msgs__msg'' ''Plane''
     [(''coef'', Array (Prim ROS_TYPE_DOUBLE) 4)]"

definition shape_msgs__msg__SolidPrimitive :: c_struct where
  "shape_msgs__msg__SolidPrimitive = C_Struct ''shape_msgs__msg'' ''SolidPrimitive''
     [(''type'', Prim ROS_TYPE_UINT8), (''dimensions'', Sequence (Prim ROS_TYPE_DOUBLE) 3)]"

section \<open>\<^verbatim>\<open>trajectory_msgs\<close>\<close>

definition trajectory_msgs__msg__JointTrajectoryPoint :: c_struct where
  "trajectory_msgs__msg__JointTrajectoryPoint = C_Struct ''trajectory_msgs__msg'' ''JointTrajectoryPoint''
     [(''positions'', Sequence (Prim ROS_TYPE_DOUBLE) 0),
      (''velocities'', Sequence (Prim ROS_TYPE_DOUBLE) 0),
      (''accelerations'', Sequence (Prim ROS_TYPE_DOUBLE) 0),
      (''effort'', Sequence (Prim ROS_TYPE_DOUBLE) 0),
      (''time_from_start'', Struct builtin_interfaces__msg__Duration)]"

definition trajectory_msgs__msg__JointTrajectory :: c_struct where
  "trajectory_msgs__msg__JointTrajectory = C_Struct ''trajectory_msgs__msg'' ''JointTrajectory''
     [(''header'', Struct std_msgs__msg__Header), (''joint_names'', Sequence Text 0),
      (''points'', Sequence (Struct trajectory_msgs__msg__JointTrajectoryPoint) 0)]"

definition trajectory_msgs__msg__MultiDOFJointTrajectoryPoint :: c_struct where
  "trajectory_msgs__msg__MultiDOFJointTrajectoryPoint = C_Struct ''trajectory_msgs__msg'' ''MultiDOFJointTrajectoryPoint''
     [(''transforms'', Sequence (Struct geometry_msgs__msg__Transform) 0),
      (''velocities'', Sequence (Struct geometry_msgs__msg__Twist) 0),
      (''accelerations'', Sequence (Struct geometry_msgs__msg__Twist) 0),
      (''time_from_start'', Struct builtin_interfaces__msg__Duration)]"

definition trajectory_msgs__msg__MultiDOFJointTrajectory :: c_struct where
  "trajectory_msgs__msg__MultiDOFJointTrajectory = C_Struct ''trajectory_msgs__msg'' ''MultiDOFJointTrajectory''
     [(''header'', Struct std_msgs__msg__Header), (''joint_names'', Sequence Text 0),
      (''points'', Sequence (Struct trajectory_msgs__msg__MultiDOFJointTrajectoryPoint) 0)]"

section \<open>All of them\<close>

definition robot_messages :: "c_struct list" where
  "robot_messages =
     [diagnostic_msgs__msg__KeyValue,
      diagnostic_msgs__msg__DiagnosticStatus,
      diagnostic_msgs__msg__DiagnosticArray,
      example_interfaces__srv__AddTwoInts_Request,
      example_interfaces__srv__AddTwoInts_Response,
      example_interfaces__srv__SetBool_Request,
      example_interfaces__srv__SetBool_Response,
      example_interfaces__srv__Trigger_Request,
      example_interfaces__srv__Trigger_Response,
      nav_msgs__msg__GridCells,
      nav_msgs__msg__MapMetaData,
      nav_msgs__msg__OccupancyGrid,
      nav_msgs__msg__Odometry,
      nav_msgs__msg__Path,
      sensor_msgs__msg__BatteryState,
      sensor_msgs__msg__RegionOfInterest,
      sensor_msgs__msg__CameraInfo,
      sensor_msgs__msg__ChannelFloat32,
      sensor_msgs__msg__CompressedImage,
      sensor_msgs__msg__FluidPressure,
      sensor_msgs__msg__Illuminance,
      sensor_msgs__msg__Image,
      sensor_msgs__msg__Imu,
      sensor_msgs__msg__JointState,
      sensor_msgs__msg__Joy,
      sensor_msgs__msg__JoyFeedback,
      sensor_msgs__msg__JoyFeedbackArray,
      sensor_msgs__msg__LaserEcho,
      sensor_msgs__msg__LaserScan,
      sensor_msgs__msg__MagneticField,
      sensor_msgs__msg__MultiDOFJointState,
      sensor_msgs__msg__MultiEchoLaserScan,
      sensor_msgs__msg__NavSatStatus,
      sensor_msgs__msg__NavSatFix,
      sensor_msgs__msg__PointCloud,
      sensor_msgs__msg__PointField,
      sensor_msgs__msg__PointCloud2,
      sensor_msgs__msg__Range,
      sensor_msgs__msg__RelativeHumidity,
      sensor_msgs__msg__Temperature,
      sensor_msgs__msg__TimeReference,
      shape_msgs__msg__MeshTriangle,
      shape_msgs__msg__Mesh,
      shape_msgs__msg__Plane,
      shape_msgs__msg__SolidPrimitive,
      trajectory_msgs__msg__JointTrajectoryPoint,
      trajectory_msgs__msg__JointTrajectory,
      trajectory_msgs__msg__MultiDOFJointTrajectoryPoint,
      trajectory_msgs__msg__MultiDOFJointTrajectory]"

lemmas robot_messages_defs =
  diagnostic_msgs__msg__KeyValue_def
  diagnostic_msgs__msg__DiagnosticStatus_def
  diagnostic_msgs__msg__DiagnosticArray_def
  example_interfaces__srv__AddTwoInts_Request_def
  example_interfaces__srv__AddTwoInts_Response_def
  example_interfaces__srv__SetBool_Request_def
  example_interfaces__srv__SetBool_Response_def
  example_interfaces__srv__Trigger_Request_def
  example_interfaces__srv__Trigger_Response_def
  nav_msgs__msg__GridCells_def
  nav_msgs__msg__MapMetaData_def
  nav_msgs__msg__OccupancyGrid_def
  nav_msgs__msg__Odometry_def
  nav_msgs__msg__Path_def
  sensor_msgs__msg__BatteryState_def
  sensor_msgs__msg__RegionOfInterest_def
  sensor_msgs__msg__CameraInfo_def
  sensor_msgs__msg__ChannelFloat32_def
  sensor_msgs__msg__CompressedImage_def
  sensor_msgs__msg__FluidPressure_def
  sensor_msgs__msg__Illuminance_def
  sensor_msgs__msg__Image_def
  sensor_msgs__msg__Imu_def
  sensor_msgs__msg__JointState_def
  sensor_msgs__msg__Joy_def
  sensor_msgs__msg__JoyFeedback_def
  sensor_msgs__msg__JoyFeedbackArray_def
  sensor_msgs__msg__LaserEcho_def
  sensor_msgs__msg__LaserScan_def
  sensor_msgs__msg__MagneticField_def
  sensor_msgs__msg__MultiDOFJointState_def
  sensor_msgs__msg__MultiEchoLaserScan_def
  sensor_msgs__msg__NavSatStatus_def
  sensor_msgs__msg__NavSatFix_def
  sensor_msgs__msg__PointCloud_def
  sensor_msgs__msg__PointField_def
  sensor_msgs__msg__PointCloud2_def
  sensor_msgs__msg__Range_def
  sensor_msgs__msg__RelativeHumidity_def
  sensor_msgs__msg__Temperature_def
  sensor_msgs__msg__TimeReference_def
  shape_msgs__msg__MeshTriangle_def
  shape_msgs__msg__Mesh_def
  shape_msgs__msg__Plane_def
  shape_msgs__msg__SolidPrimitive_def
  trajectory_msgs__msg__JointTrajectoryPoint_def
  trajectory_msgs__msg__JointTrajectory_def
  trajectory_msgs__msg__MultiDOFJointTrajectoryPoint_def
  trajectory_msgs__msg__MultiDOFJointTrajectory_def

end
