(* ===== verification/System_Messages.thy ===== *)
theory System_Messages
  imports Robot_Messages
begin

text \<open>
  The message structures that the ROS system itself exchanges: parameters, life cycle, goals
  and their states, components, clock, statistics and the micro-ROS graph, and of the services
  of these packages, one definition for each structure of the \<^verbatim>\<open>__struct.h\<close> headers under \<^verbatim>\<open>src/\<close>.
\<close>

section \<open>\<^verbatim>\<open>unique_identifier_msgs\<close>\<close>

definition unique_identifier_msgs__msg__UUID :: c_struct where
  "unique_identifier_msgs__msg__UUID = C_Struct ''unique_identifier_msgs__msg'' ''UUID''
     [(''uuid'', Array (Prim ROS_TYPE_UINT8) 16)]"

section \<open>\<^verbatim>\<open>action_msgs\<close>\<close>

definition action_msgs__msg__GoalInfo :: c_struct where
  "action_msgs__msg__GoalInfo = C_Struct ''action_msgs__msg'' ''GoalInfo''
     [(''goal_id'', Struct unique_identifier_msgs__msg__UUID),
      (''stamp'', Struct builtin_interfaces__msg__Time)]"

definition action_msgs__msg__GoalStatus :: c_struct where
  "action_msgs__msg__GoalStatus = C_Struct ''action_msgs__msg'' ''GoalStatus''
     [(''goal_info'', Struct action_msgs__msg__GoalInfo), (''status'', Prim ROS_TYPE_INT8)]"

definition action_msgs__msg__GoalStatusArray :: c_struct where
  "action_msgs__msg__GoalStatusArray = C_Struct ''action_msgs__msg'' ''GoalStatusArray''
     [(''status_list'', Sequence (Struct action_msgs__msg__GoalStatus) 0)]"

definition action_msgs__srv__CancelGoal_Request :: c_struct where
  "action_msgs__srv__CancelGoal_Request = C_Struct ''action_msgs__srv'' ''CancelGoal_Request''
     [(''goal_info'', Struct action_msgs__msg__GoalInfo)]"

definition action_msgs__srv__CancelGoal_Response :: c_struct where
  "action_msgs__srv__CancelGoal_Response = C_Struct ''action_msgs__srv'' ''CancelGoal_Response''
     [(''return_code'', Prim ROS_TYPE_INT8),
      (''goals_canceling'', Sequence (Struct action_msgs__msg__GoalInfo) 0)]"

section \<open>\<^verbatim>\<open>actionlib_msgs\<close>\<close>

definition actionlib_msgs__msg__GoalID :: c_struct where
  "actionlib_msgs__msg__GoalID = C_Struct ''actionlib_msgs__msg'' ''GoalID''
     [(''stamp'', Struct builtin_interfaces__msg__Time), (''id'', Text)]"

definition actionlib_msgs__msg__GoalStatus :: c_struct where
  "actionlib_msgs__msg__GoalStatus = C_Struct ''actionlib_msgs__msg'' ''GoalStatus''
     [(''goal_id'', Struct actionlib_msgs__msg__GoalID), (''status'', Prim ROS_TYPE_UINT8),
      (''text'', Text)]"

definition actionlib_msgs__msg__GoalStatusArray :: c_struct where
  "actionlib_msgs__msg__GoalStatusArray = C_Struct ''actionlib_msgs__msg'' ''GoalStatusArray''
     [(''header'', Struct std_msgs__msg__Header),
      (''status_list'', Sequence (Struct actionlib_msgs__msg__GoalStatus) 0)]"

section \<open>\<^verbatim>\<open>composition_interfaces\<close>\<close>

definition composition_interfaces__srv__ListNodes_Request :: c_struct where
  "composition_interfaces__srv__ListNodes_Request = C_Struct ''composition_interfaces__srv'' ''ListNodes_Request''
     [(''structure_needs_at_least_one_member'', Prim ROS_TYPE_UINT8)]"

definition composition_interfaces__srv__ListNodes_Response :: c_struct where
  "composition_interfaces__srv__ListNodes_Response = C_Struct ''composition_interfaces__srv'' ''ListNodes_Response''
     [(''full_node_names'', Sequence Text 0),
      (''unique_ids'', Sequence (Prim ROS_TYPE_UINT64) 0)]"

section \<open>\<^verbatim>\<open>rcl_interfaces\<close>\<close>

definition rcl_interfaces__msg__ParameterValue :: c_struct where
  "rcl_interfaces__msg__ParameterValue = C_Struct ''rcl_interfaces__msg'' ''ParameterValue''
     [(''type'', Prim ROS_TYPE_UINT8), (''bool_value'', Prim ROS_TYPE_BOOLEAN),
      (''integer_value'', Prim ROS_TYPE_INT64), (''double_value'', Prim ROS_TYPE_DOUBLE),
      (''string_value'', Text), (''byte_array_value'', Sequence (Prim ROS_TYPE_OCTET) 0),
      (''bool_array_value'', Sequence (Prim ROS_TYPE_BOOLEAN) 0),
      (''integer_array_value'', Sequence (Prim ROS_TYPE_INT64) 0),
      (''double_array_value'', Sequence (Prim ROS_TYPE_DOUBLE) 0),
      (''string_array_value'', Sequence Text 0)]"

definition rcl_interfaces__msg__Parameter :: c_struct where
  "rcl_interfaces__msg__Parameter = C_Struct ''rcl_interfaces__msg'' ''Parameter''
     [(''name'', Text), (''value'', Struct rcl_interfaces__msg__ParameterValue)]"

section \<open>\<^verbatim>\<open>composition_interfaces\<close>\<close>

definition composition_interfaces__srv__LoadNode_Request :: c_struct where
  "composition_interfaces__srv__LoadNode_Request = C_Struct ''composition_interfaces__srv'' ''LoadNode_Request''
     [(''package_name'', Text), (''plugin_name'', Text), (''node_name'', Text),
      (''node_namespace'', Text), (''log_level'', Prim ROS_TYPE_UINT8),
      (''remap_rules'', Sequence Text 0),
      (''parameters'', Sequence (Struct rcl_interfaces__msg__Parameter) 0),
      (''extra_arguments'', Sequence (Struct rcl_interfaces__msg__Parameter) 0)]"

definition composition_interfaces__srv__LoadNode_Response :: c_struct where
  "composition_interfaces__srv__LoadNode_Response = C_Struct ''composition_interfaces__srv'' ''LoadNode_Response''
     [(''success'', Prim ROS_TYPE_BOOLEAN), (''error_message'', Text),
      (''full_node_name'', Text), (''unique_id'', Prim ROS_TYPE_UINT64)]"

definition composition_interfaces__srv__UnloadNode_Request :: c_struct where
  "composition_interfaces__srv__UnloadNode_Request = C_Struct ''composition_interfaces__srv'' ''UnloadNode_Request''
     [(''unique_id'', Prim ROS_TYPE_UINT64)]"

definition composition_interfaces__srv__UnloadNode_Response :: c_struct where
  "composition_interfaces__srv__UnloadNode_Response = C_Struct ''composition_interfaces__srv'' ''UnloadNode_Response''
     [(''success'', Prim ROS_TYPE_BOOLEAN), (''error_message'', Text)]"

section \<open>\<^verbatim>\<open>lifecycle_msgs\<close>\<close>

definition lifecycle_msgs__msg__State :: c_struct where
  "lifecycle_msgs__msg__State = C_Struct ''lifecycle_msgs__msg'' ''State''
     [(''id'', Prim ROS_TYPE_UINT8), (''label'', Text)]"

definition lifecycle_msgs__msg__Transition :: c_struct where
  "lifecycle_msgs__msg__Transition = C_Struct ''lifecycle_msgs__msg'' ''Transition''
     [(''id'', Prim ROS_TYPE_UINT8), (''label'', Text)]"

definition lifecycle_msgs__msg__TransitionDescription :: c_struct where
  "lifecycle_msgs__msg__TransitionDescription = C_Struct ''lifecycle_msgs__msg'' ''TransitionDescription''
     [(''transition'', Struct lifecycle_msgs__msg__Transition),
      (''start_state'', Struct lifecycle_msgs__msg__State),
      (''goal_state'', Struct lifecycle_msgs__msg__State)]"

definition lifecycle_msgs__msg__TransitionEvent :: c_struct where
  "lifecycle_msgs__msg__TransitionEvent = C_Struct ''lifecycle_msgs__msg'' ''TransitionEvent''
     [(''timestamp'', Prim ROS_TYPE_UINT64),
      (''transition'', Struct lifecycle_msgs__msg__Transition),
      (''start_state'', Struct lifecycle_msgs__msg__State),
      (''goal_state'', Struct lifecycle_msgs__msg__State)]"

definition lifecycle_msgs__srv__ChangeState_Request :: c_struct where
  "lifecycle_msgs__srv__ChangeState_Request = C_Struct ''lifecycle_msgs__srv'' ''ChangeState_Request''
     [(''transition'', Struct lifecycle_msgs__msg__Transition)]"

definition lifecycle_msgs__srv__ChangeState_Response :: c_struct where
  "lifecycle_msgs__srv__ChangeState_Response = C_Struct ''lifecycle_msgs__srv'' ''ChangeState_Response''
     [(''success'', Prim ROS_TYPE_BOOLEAN)]"

definition lifecycle_msgs__srv__GetAvailableStates_Request :: c_struct where
  "lifecycle_msgs__srv__GetAvailableStates_Request = C_Struct ''lifecycle_msgs__srv'' ''GetAvailableStates_Request''
     [(''structure_needs_at_least_one_member'', Prim ROS_TYPE_UINT8)]"

definition lifecycle_msgs__srv__GetAvailableStates_Response :: c_struct where
  "lifecycle_msgs__srv__GetAvailableStates_Response = C_Struct ''lifecycle_msgs__srv'' ''GetAvailableStates_Response''
     [(''available_states'', Sequence (Struct lifecycle_msgs__msg__State) 0)]"

definition lifecycle_msgs__srv__GetAvailableTransitions_Request :: c_struct where
  "lifecycle_msgs__srv__GetAvailableTransitions_Request = C_Struct ''lifecycle_msgs__srv'' ''GetAvailableTransitions_Request''
     [(''structure_needs_at_least_one_member'', Prim ROS_TYPE_UINT8)]"

definition lifecycle_msgs__srv__GetAvailableTransitions_Response :: c_struct where
  "lifecycle_msgs__srv__GetAvailableTransitions_Response = C_Struct ''lifecycle_msgs__srv'' ''GetAvailableTransitions_Response''
     [
      (''available_transitions'', Sequence (Struct lifecycle_msgs__msg__TransitionDescription) 0)]"

definition lifecycle_msgs__srv__GetState_Request :: c_struct where
  "lifecycle_msgs__srv__GetState_Request = C_Struct ''lifecycle_msgs__srv'' ''GetState_Request''
     [(''structure_needs_at_least_one_member'', Prim ROS_TYPE_UINT8)]"

definition lifecycle_msgs__srv__GetState_Response :: c_struct where
  "lifecycle_msgs__srv__GetState_Response = C_Struct ''lifecycle_msgs__srv'' ''GetState_Response''
     [(''current_state'', Struct lifecycle_msgs__msg__State)]"

section \<open>\<^verbatim>\<open>micro_ros_msgs\<close>\<close>

definition micro_ros_msgs__msg__Entity :: c_struct where
  "micro_ros_msgs__msg__Entity = C_Struct ''micro_ros_msgs__msg'' ''Entity''
     [(''entity_type'', Prim ROS_TYPE_UINT8), (''name'', Text), (''types'', Sequence Text 0)]"

definition micro_ros_msgs__msg__Node :: c_struct where
  "micro_ros_msgs__msg__Node = C_Struct ''micro_ros_msgs__msg'' ''Node''
     [(''node_namespace'', Text), (''node_name'', Text),
      (''entities'', Sequence (Struct micro_ros_msgs__msg__Entity) 0)]"

definition micro_ros_msgs__msg__Graph :: c_struct where
  "micro_ros_msgs__msg__Graph = C_Struct ''micro_ros_msgs__msg'' ''Graph''
     [(''nodes'', Sequence (Struct micro_ros_msgs__msg__Node) 0)]"

section \<open>\<^verbatim>\<open>rcl_interfaces\<close>\<close>

definition rcl_interfaces__msg__FloatingPointRange :: c_struct where
  "rcl_interfaces__msg__FloatingPointRange = C_Struct ''rcl_interfaces__msg'' ''FloatingPointRange''
     [(''from_value'', Prim ROS_TYPE_DOUBLE), (''to_value'', Prim ROS_TYPE_DOUBLE),
      (''step'', Prim ROS_TYPE_DOUBLE)]"

definition rcl_interfaces__msg__IntegerRange :: c_struct where
  "rcl_interfaces__msg__IntegerRange = C_Struct ''rcl_interfaces__msg'' ''IntegerRange''
     [(''from_value'', Prim ROS_TYPE_INT64), (''to_value'', Prim ROS_TYPE_INT64),
      (''step'', Prim ROS_TYPE_UINT64)]"

definition rcl_interfaces__msg__ListParametersResult :: c_struct where
  "rcl_interfaces__msg__ListParametersResult = C_Struct ''rcl_interfaces__msg'' ''ListParametersResult''
     [(''names'', Sequence Text 0), (''prefixes'', Sequence Text 0)]"

definition rcl_interfaces__msg__Log :: c_struct where
  "rcl_interfaces__msg__Log = C_Struct ''rcl_interfaces__msg'' ''Log''
     [(''stamp'', Struct builtin_interfaces__msg__Time), (''level'', Prim ROS_TYPE_UINT8),
      (''name'', Text), (''msg'', Text), (''file'', Text), (''function'', Text),
      (''line'', Prim ROS_TYPE_UINT32)]"

definition rcl_interfaces__msg__ParameterDescriptor :: c_struct where
  "rcl_interfaces__msg__ParameterDescriptor = C_Struct ''rcl_interfaces__msg'' ''ParameterDescriptor''
     [(''name'', Text), (''type'', Prim ROS_TYPE_UINT8), (''description'', Text),
      (''additional_constraints'', Text), (''read_only'', Prim ROS_TYPE_BOOLEAN),
      (''dynamic_typing'', Prim ROS_TYPE_BOOLEAN),
      (''floating_point_range'', Sequence (Struct rcl_interfaces__msg__FloatingPointRange) 1),
      (''integer_range'', Sequence (Struct rcl_interfaces__msg__IntegerRange) 1)]"

definition rcl_interfaces__msg__ParameterEvent :: c_struct where
  "rcl_interfaces__msg__ParameterEvent = C_Struct ''rcl_interfaces__msg'' ''ParameterEvent''
     [(''stamp'', Struct builtin_interfaces__msg__Time), (''node'', Text),
      (''new_parameters'', Sequence (Struct rcl_interfaces__msg__Parameter) 0),
      (''changed_parameters'', Sequence (Struct rcl_interfaces__msg__Parameter) 0),
      (''deleted_parameters'', Sequence (Struct rcl_interfaces__msg__Parameter) 0)]"

definition rcl_interfaces__msg__ParameterEventDescriptors :: c_struct where
  "rcl_interfaces__msg__ParameterEventDescriptors = C_Struct ''rcl_interfaces__msg'' ''ParameterEventDescriptors''
     [(''new_parameters'', Sequence (Struct rcl_interfaces__msg__ParameterDescriptor) 0),
      (''changed_parameters'', Sequence (Struct rcl_interfaces__msg__ParameterDescriptor) 0),
      (''deleted_parameters'', Sequence (Struct rcl_interfaces__msg__ParameterDescriptor) 0)]"

definition rcl_interfaces__msg__ParameterType :: c_struct where
  "rcl_interfaces__msg__ParameterType = C_Struct ''rcl_interfaces__msg'' ''ParameterType''
     [(''structure_needs_at_least_one_member'', Prim ROS_TYPE_UINT8)]"

definition rcl_interfaces__msg__SetParametersResult :: c_struct where
  "rcl_interfaces__msg__SetParametersResult = C_Struct ''rcl_interfaces__msg'' ''SetParametersResult''
     [(''successful'', Prim ROS_TYPE_BOOLEAN), (''reason'', Text)]"

definition rcl_interfaces__srv__DescribeParameters_Request :: c_struct where
  "rcl_interfaces__srv__DescribeParameters_Request = C_Struct ''rcl_interfaces__srv'' ''DescribeParameters_Request''
     [(''names'', Sequence Text 0)]"

definition rcl_interfaces__srv__DescribeParameters_Response :: c_struct where
  "rcl_interfaces__srv__DescribeParameters_Response = C_Struct ''rcl_interfaces__srv'' ''DescribeParameters_Response''
     [(''descriptors'', Sequence (Struct rcl_interfaces__msg__ParameterDescriptor) 0)]"

definition rcl_interfaces__srv__GetParameterTypes_Request :: c_struct where
  "rcl_interfaces__srv__GetParameterTypes_Request = C_Struct ''rcl_interfaces__srv'' ''GetParameterTypes_Request''
     [(''names'', Sequence Text 0)]"

definition rcl_interfaces__srv__GetParameterTypes_Response :: c_struct where
  "rcl_interfaces__srv__GetParameterTypes_Response = C_Struct ''rcl_interfaces__srv'' ''GetParameterTypes_Response''
     [(''types'', Sequence (Prim ROS_TYPE_UINT8) 0)]"

definition rcl_interfaces__srv__GetParameters_Request :: c_struct where
  "rcl_interfaces__srv__GetParameters_Request = C_Struct ''rcl_interfaces__srv'' ''GetParameters_Request''
     [(''names'', Sequence Text 0)]"

definition rcl_interfaces__srv__GetParameters_Response :: c_struct where
  "rcl_interfaces__srv__GetParameters_Response = C_Struct ''rcl_interfaces__srv'' ''GetParameters_Response''
     [(''values'', Sequence (Struct rcl_interfaces__msg__ParameterValue) 0)]"

definition rcl_interfaces__srv__ListParameters_Request :: c_struct where
  "rcl_interfaces__srv__ListParameters_Request = C_Struct ''rcl_interfaces__srv'' ''ListParameters_Request''
     [(''prefixes'', Sequence Text 0), (''depth'', Prim ROS_TYPE_UINT64)]"

definition rcl_interfaces__srv__ListParameters_Response :: c_struct where
  "rcl_interfaces__srv__ListParameters_Response = C_Struct ''rcl_interfaces__srv'' ''ListParameters_Response''
     [(''result'', Struct rcl_interfaces__msg__ListParametersResult)]"

definition rcl_interfaces__srv__SetParametersAtomically_Request :: c_struct where
  "rcl_interfaces__srv__SetParametersAtomically_Request = C_Struct ''rcl_interfaces__srv'' ''SetParametersAtomically_Request''
     [(''parameters'', Sequence (Struct rcl_interfaces__msg__Parameter) 0)]"

definition rcl_interfaces__srv__SetParametersAtomically_Response :: c_struct where
  "rcl_interfaces__srv__SetParametersAtomically_Response = C_Struct ''rcl_interfaces__srv'' ''SetParametersAtomically_Response''
     [(''result'', Struct rcl_interfaces__msg__SetParametersResult)]"

definition rcl_interfaces__srv__SetParameters_Request :: c_struct where
  "rcl_interfaces__srv__SetParameters_Request = C_Struct ''rcl_interfaces__srv'' ''SetParameters_Request''
     [(''parameters'', Sequence (Struct rcl_interfaces__msg__Parameter) 0)]"

definition rcl_interfaces__srv__SetParameters_Response :: c_struct where
  "rcl_interfaces__srv__SetParameters_Response = C_Struct ''rcl_interfaces__srv'' ''SetParameters_Response''
     [(''results'', Sequence (Struct rcl_interfaces__msg__SetParametersResult) 0)]"

section \<open>\<^verbatim>\<open>rosgraph_msgs\<close>\<close>

definition rosgraph_msgs__msg__Clock :: c_struct where
  "rosgraph_msgs__msg__Clock = C_Struct ''rosgraph_msgs__msg'' ''Clock''
     [(''clock'', Struct builtin_interfaces__msg__Time)]"

section \<open>\<^verbatim>\<open>statistics_msgs\<close>\<close>

definition statistics_msgs__msg__StatisticDataPoint :: c_struct where
  "statistics_msgs__msg__StatisticDataPoint = C_Struct ''statistics_msgs__msg'' ''StatisticDataPoint''
     [(''data_type'', Prim ROS_TYPE_UINT8), (''data'', Prim ROS_TYPE_DOUBLE)]"

definition statistics_msgs__msg__MetricsMessage :: c_struct where
  "statistics_msgs__msg__MetricsMessage = C_Struct ''statistics_msgs__msg'' ''MetricsMessage''
     [(''measurement_source_name'', Text), (''metrics_source'', Text), (''unit'', Text),
      (''window_start'', Struct builtin_interfaces__msg__Time),
      (''window_stop'', Struct builtin_interfaces__msg__Time),
      (''statistics'', Sequence (Struct statistics_msgs__msg__StatisticDataPoint) 0)]"

definition statistics_msgs__msg__StatisticDataType :: c_struct where
  "statistics_msgs__msg__StatisticDataType = C_Struct ''statistics_msgs__msg'' ''StatisticDataType''
     [(''structure_needs_at_least_one_member'', Prim ROS_TYPE_UINT8)]"

section \<open>\<^verbatim>\<open>std_srvs\<close>\<close>

definition std_srvs__srv__Empty_Request :: c_struct where
  "std_srvs__srv__Empty_Request = C_Struct ''std_srvs__srv'' ''Empty_Request''
     [(''structure_needs_at_least_one_member'', Prim ROS_TYPE_UINT8)]"

definition std_srvs__srv__Empty_Response :: c_struct where
  "std_srvs__srv__Empty_Response = C_Struct ''std_srvs__srv'' ''Empty_Response''
     [(''structure_needs_at_least_one_member'', Prim ROS_TYPE_UINT8)]"

definition std_srvs__srv__SetBool_Request :: c_struct where
  "std_srvs__srv__SetBool_Request = C_Struct ''std_srvs__srv'' ''SetBool_Request''
     [(''data'', Prim ROS_TYPE_BOOLEAN)]"

definition std_srvs__srv__SetBool_Response :: c_struct where
  "std_srvs__srv__SetBool_Response = C_Struct ''std_srvs__srv'' ''SetBool_Response''
     [(''success'', Prim ROS_TYPE_BOOLEAN), (''message'', Text)]"

definition std_srvs__srv__Trigger_Request :: c_struct where
  "std_srvs__srv__Trigger_Request = C_Struct ''std_srvs__srv'' ''Trigger_Request''
     [(''structure_needs_at_least_one_member'', Prim ROS_TYPE_UINT8)]"

definition std_srvs__srv__Trigger_Response :: c_struct where
  "std_srvs__srv__Trigger_Response = C_Struct ''std_srvs__srv'' ''Trigger_Response''
     [(''success'', Prim ROS_TYPE_BOOLEAN), (''message'', Text)]"

section \<open>All of them\<close>

definition system_messages :: "c_struct list" where
  "system_messages =
     [unique_identifier_msgs__msg__UUID,
      action_msgs__msg__GoalInfo,
      action_msgs__msg__GoalStatus,
      action_msgs__msg__GoalStatusArray,
      action_msgs__srv__CancelGoal_Request,
      action_msgs__srv__CancelGoal_Response,
      actionlib_msgs__msg__GoalID,
      actionlib_msgs__msg__GoalStatus,
      actionlib_msgs__msg__GoalStatusArray,
      composition_interfaces__srv__ListNodes_Request,
      composition_interfaces__srv__ListNodes_Response,
      rcl_interfaces__msg__ParameterValue,
      rcl_interfaces__msg__Parameter,
      composition_interfaces__srv__LoadNode_Request,
      composition_interfaces__srv__LoadNode_Response,
      composition_interfaces__srv__UnloadNode_Request,
      composition_interfaces__srv__UnloadNode_Response,
      lifecycle_msgs__msg__State,
      lifecycle_msgs__msg__Transition,
      lifecycle_msgs__msg__TransitionDescription,
      lifecycle_msgs__msg__TransitionEvent,
      lifecycle_msgs__srv__ChangeState_Request,
      lifecycle_msgs__srv__ChangeState_Response,
      lifecycle_msgs__srv__GetAvailableStates_Request,
      lifecycle_msgs__srv__GetAvailableStates_Response,
      lifecycle_msgs__srv__GetAvailableTransitions_Request,
      lifecycle_msgs__srv__GetAvailableTransitions_Response,
      lifecycle_msgs__srv__GetState_Request,
      lifecycle_msgs__srv__GetState_Response,
      micro_ros_msgs__msg__Entity,
      micro_ros_msgs__msg__Node,
      micro_ros_msgs__msg__Graph,
      rcl_interfaces__msg__FloatingPointRange,
      rcl_interfaces__msg__IntegerRange,
      rcl_interfaces__msg__ListParametersResult,
      rcl_interfaces__msg__Log,
      rcl_interfaces__msg__ParameterDescriptor,
      rcl_interfaces__msg__ParameterEvent,
      rcl_interfaces__msg__ParameterEventDescriptors,
      rcl_interfaces__msg__ParameterType,
      rcl_interfaces__msg__SetParametersResult,
      rcl_interfaces__srv__DescribeParameters_Request,
      rcl_interfaces__srv__DescribeParameters_Response,
      rcl_interfaces__srv__GetParameterTypes_Request,
      rcl_interfaces__srv__GetParameterTypes_Response,
      rcl_interfaces__srv__GetParameters_Request,
      rcl_interfaces__srv__GetParameters_Response,
      rcl_interfaces__srv__ListParameters_Request,
      rcl_interfaces__srv__ListParameters_Response,
      rcl_interfaces__srv__SetParametersAtomically_Request,
      rcl_interfaces__srv__SetParametersAtomically_Response,
      rcl_interfaces__srv__SetParameters_Request,
      rcl_interfaces__srv__SetParameters_Response,
      rosgraph_msgs__msg__Clock,
      statistics_msgs__msg__StatisticDataPoint,
      statistics_msgs__msg__MetricsMessage,
      statistics_msgs__msg__StatisticDataType,
      std_srvs__srv__Empty_Request,
      std_srvs__srv__Empty_Response,
      std_srvs__srv__SetBool_Request,
      std_srvs__srv__SetBool_Response,
      std_srvs__srv__Trigger_Request,
      std_srvs__srv__Trigger_Response]"

lemmas system_messages_defs =
  unique_identifier_msgs__msg__UUID_def
  action_msgs__msg__GoalInfo_def
  action_msgs__msg__GoalStatus_def
  action_msgs__msg__GoalStatusArray_def
  action_msgs__srv__CancelGoal_Request_def
  action_msgs__srv__CancelGoal_Response_def
  actionlib_msgs__msg__GoalID_def
  actionlib_msgs__msg__GoalStatus_def
  actionlib_msgs__msg__GoalStatusArray_def
  composition_interfaces__srv__ListNodes_Request_def
  composition_interfaces__srv__ListNodes_Response_def
  rcl_interfaces__msg__ParameterValue_def
  rcl_interfaces__msg__Parameter_def
  composition_interfaces__srv__LoadNode_Request_def
  composition_interfaces__srv__LoadNode_Response_def
  composition_interfaces__srv__UnloadNode_Request_def
  composition_interfaces__srv__UnloadNode_Response_def
  lifecycle_msgs__msg__State_def
  lifecycle_msgs__msg__Transition_def
  lifecycle_msgs__msg__TransitionDescription_def
  lifecycle_msgs__msg__TransitionEvent_def
  lifecycle_msgs__srv__ChangeState_Request_def
  lifecycle_msgs__srv__ChangeState_Response_def
  lifecycle_msgs__srv__GetAvailableStates_Request_def
  lifecycle_msgs__srv__GetAvailableStates_Response_def
  lifecycle_msgs__srv__GetAvailableTransitions_Request_def
  lifecycle_msgs__srv__GetAvailableTransitions_Response_def
  lifecycle_msgs__srv__GetState_Request_def
  lifecycle_msgs__srv__GetState_Response_def
  micro_ros_msgs__msg__Entity_def
  micro_ros_msgs__msg__Node_def
  micro_ros_msgs__msg__Graph_def
  rcl_interfaces__msg__FloatingPointRange_def
  rcl_interfaces__msg__IntegerRange_def
  rcl_interfaces__msg__ListParametersResult_def
  rcl_interfaces__msg__Log_def
  rcl_interfaces__msg__ParameterDescriptor_def
  rcl_interfaces__msg__ParameterEvent_def
  rcl_interfaces__msg__ParameterEventDescriptors_def
  rcl_interfaces__msg__ParameterType_def
  rcl_interfaces__msg__SetParametersResult_def
  rcl_interfaces__srv__DescribeParameters_Request_def
  rcl_interfaces__srv__DescribeParameters_Response_def
  rcl_interfaces__srv__GetParameterTypes_Request_def
  rcl_interfaces__srv__GetParameterTypes_Response_def
  rcl_interfaces__srv__GetParameters_Request_def
  rcl_interfaces__srv__GetParameters_Response_def
  rcl_interfaces__srv__ListParameters_Request_def
  rcl_interfaces__srv__ListParameters_Response_def
  rcl_interfaces__srv__SetParametersAtomically_Request_def
  rcl_interfaces__srv__SetParametersAtomically_Response_def
  rcl_interfaces__srv__SetParameters_Request_def
  rcl_interfaces__srv__SetParameters_Response_def
  rosgraph_msgs__msg__Clock_def
  statistics_msgs__msg__StatisticDataPoint_def
  statistics_msgs__msg__MetricsMessage_def
  statistics_msgs__msg__StatisticDataType_def
  std_srvs__srv__Empty_Request_def
  std_srvs__srv__Empty_Response_def
  std_srvs__srv__SetBool_Request_def
  std_srvs__srv__SetBool_Response_def
  std_srvs__srv__Trigger_Request_def
  std_srvs__srv__Trigger_Response_def

end
