(* ===== verification/Display_Messages.thy ===== *)
theory Display_Messages
  imports System_Messages
begin

text \<open>
  The message structures of the packages visualization_msgs, tf2_msgs, stereo_msgs and
  example_interfaces, and of the services of nav_msgs, sensor_msgs and diagnostic_msgs, one
  definition for each structure of the \<^verbatim>\<open>__struct.h\<close> headers under \<^verbatim>\<open>src/\<close>.
\<close>

section \<open>\<^verbatim>\<open>diagnostic_msgs\<close>\<close>

definition diagnostic_msgs__srv__AddDiagnostics_Request :: c_struct where
  "diagnostic_msgs__srv__AddDiagnostics_Request = C_Struct ''diagnostic_msgs__srv'' ''AddDiagnostics_Request''
     [(''load_namespace'', Text)]"

definition diagnostic_msgs__srv__AddDiagnostics_Response :: c_struct where
  "diagnostic_msgs__srv__AddDiagnostics_Response = C_Struct ''diagnostic_msgs__srv'' ''AddDiagnostics_Response''
     [(''success'', Prim ROS_TYPE_BOOLEAN), (''message'', Text)]"

definition diagnostic_msgs__srv__SelfTest_Request :: c_struct where
  "diagnostic_msgs__srv__SelfTest_Request = C_Struct ''diagnostic_msgs__srv'' ''SelfTest_Request''
     [(''structure_needs_at_least_one_member'', Prim ROS_TYPE_UINT8)]"

definition diagnostic_msgs__srv__SelfTest_Response :: c_struct where
  "diagnostic_msgs__srv__SelfTest_Response = C_Struct ''diagnostic_msgs__srv'' ''SelfTest_Response''
     [(''id'', Text), (''passed'', Prim ROS_TYPE_UINT8),
      (''status'', Sequence (Struct diagnostic_msgs__msg__DiagnosticStatus) 0)]"

section \<open>\<^verbatim>\<open>example_interfaces\<close>\<close>

definition example_interfaces__msg__Bool :: c_struct where
  "example_interfaces__msg__Bool = C_Struct ''example_interfaces__msg'' ''Bool''
     [(''data'', Prim ROS_TYPE_BOOLEAN)]"

definition example_interfaces__msg__Byte :: c_struct where
  "example_interfaces__msg__Byte = C_Struct ''example_interfaces__msg'' ''Byte''
     [(''data'', Prim ROS_TYPE_UINT8)]"

definition example_interfaces__msg__MultiArrayDimension :: c_struct where
  "example_interfaces__msg__MultiArrayDimension = C_Struct ''example_interfaces__msg'' ''MultiArrayDimension''
     [(''label'', Text), (''size'', Prim ROS_TYPE_UINT32), (''stride'', Prim ROS_TYPE_UINT32)]"

definition example_interfaces__msg__MultiArrayLayout :: c_struct where
  "example_interfaces__msg__MultiArrayLayout = C_Struct ''example_interfaces__msg'' ''MultiArrayLayout''
     [(''dim'', Sequence (Struct example_interfaces__msg__MultiArrayDimension) 0),
      (''data_offset'', Prim ROS_TYPE_UINT32)]"

definition example_interfaces__msg__ByteMultiArray :: c_struct where
  "example_interfaces__msg__ByteMultiArray = C_Struct ''example_interfaces__msg'' ''ByteMultiArray''
     [(''layout'', Struct example_interfaces__msg__MultiArrayLayout),
      (''data'', Sequence (Prim ROS_TYPE_OCTET) 0)]"

definition example_interfaces__msg__Char :: c_struct where
  "example_interfaces__msg__Char = C_Struct ''example_interfaces__msg'' ''Char''
     [(''data'', Prim ROS_TYPE_UINT8)]"

definition example_interfaces__msg__Empty :: c_struct where
  "example_interfaces__msg__Empty = C_Struct ''example_interfaces__msg'' ''Empty''
     [(''structure_needs_at_least_one_member'', Prim ROS_TYPE_UINT8)]"

definition example_interfaces__msg__Float32 :: c_struct where
  "example_interfaces__msg__Float32 = C_Struct ''example_interfaces__msg'' ''Float32''
     [(''data'', Prim ROS_TYPE_FLOAT)]"

definition example_interfaces__msg__Float32MultiArray :: c_struct where
  "example_interfaces__msg__Float32MultiArray = C_Struct ''example_interfaces__msg'' ''Float32MultiArray''
     [(''layout'', Struct example_interfaces__msg__MultiArrayLayout),
      (''data'', Sequence (Prim ROS_TYPE_FLOAT) 0)]"

definition example_interfaces__msg__Float64 :: c_struct where
  "example_interfaces__msg__Float64 = C_Struct ''example_interfaces__msg'' ''Float64''
     [(''data'', Prim ROS_TYPE_DOUBLE)]"

definition example_interfaces__msg__Float64MultiArray :: c_struct where
  "example_interfaces__msg__Float64MultiArray = C_Struct ''example_interfaces__msg'' ''Float64MultiArray''
     [(''layout'', Struct example_interfaces__msg__MultiArrayLayout),
      (''data'', Sequence (Prim ROS_TYPE_DOUBLE) 0)]"

definition example_interfaces__msg__Int16 :: c_struct where
  "example_interfaces__msg__Int16 = C_Struct ''example_interfaces__msg'' ''Int16''
     [(''data'', Prim ROS_TYPE_INT16)]"

definition example_interfaces__msg__Int16MultiArray :: c_struct where
  "example_interfaces__msg__Int16MultiArray = C_Struct ''example_interfaces__msg'' ''Int16MultiArray''
     [(''layout'', Struct example_interfaces__msg__MultiArrayLayout),
      (''data'', Sequence (Prim ROS_TYPE_INT16) 0)]"

definition example_interfaces__msg__Int32 :: c_struct where
  "example_interfaces__msg__Int32 = C_Struct ''example_interfaces__msg'' ''Int32''
     [(''data'', Prim ROS_TYPE_INT32)]"

definition example_interfaces__msg__Int32MultiArray :: c_struct where
  "example_interfaces__msg__Int32MultiArray = C_Struct ''example_interfaces__msg'' ''Int32MultiArray''
     [(''layout'', Struct example_interfaces__msg__MultiArrayLayout),
      (''data'', Sequence (Prim ROS_TYPE_INT32) 0)]"

definition example_interfaces__msg__Int64 :: c_struct where
  "example_interfaces__msg__Int64 = C_Struct ''example_interfaces__msg'' ''Int64''
     [(''data'', Prim ROS_TYPE_INT64)]"

definition example_interfaces__msg__Int64MultiArray :: c_struct where
  "example_interfaces__msg__Int64MultiArray = C_Struct ''example_interfaces__msg'' ''Int64MultiArray''
     [(''layout'', Struct example_interfaces__msg__MultiArrayLayout),
      (''data'', Sequence (Prim ROS_TYPE_INT64) 0)]"

definition example_interfaces__msg__Int8 :: c_struct where
  "example_interfaces__msg__Int8 = C_Struct ''example_interfaces__msg'' ''Int8''
     [(''data'', Prim ROS_TYPE_INT8)]"

definition example_interfaces__msg__Int8MultiArray :: c_struct where
  "example_interfaces__msg__Int8MultiArray = C_Struct ''example_interfaces__msg'' ''Int8MultiArray''
     [(''layout'', Struct example_interfaces__msg__MultiArrayLayout),
      (''data'', Sequence (Prim ROS_TYPE_INT8) 0)]"

definition example_interfaces__msg__String :: c_struct where
  "example_interfaces__msg__String = C_Struct ''example_interfaces__msg'' ''String''
     [(''data'', Text)]"

definition example_interfaces__msg__UInt16 :: c_struct where
  "example_interfaces__msg__UInt16 = C_Struct ''example_interfaces__msg'' ''UInt16''
     [(''data'', Prim ROS_TYPE_UINT16)]"

definition example_interfaces__msg__UInt16MultiArray :: c_struct where
  "example_interfaces__msg__UInt16MultiArray = C_Struct ''example_interfaces__msg'' ''UInt16MultiArray''
     [(''layout'', Struct example_interfaces__msg__MultiArrayLayout),
      (''data'', Sequence (Prim ROS_TYPE_UINT16) 0)]"

definition example_interfaces__msg__UInt32 :: c_struct where
  "example_interfaces__msg__UInt32 = C_Struct ''example_interfaces__msg'' ''UInt32''
     [(''data'', Prim ROS_TYPE_UINT32)]"

definition example_interfaces__msg__UInt32MultiArray :: c_struct where
  "example_interfaces__msg__UInt32MultiArray = C_Struct ''example_interfaces__msg'' ''UInt32MultiArray''
     [(''layout'', Struct example_interfaces__msg__MultiArrayLayout),
      (''data'', Sequence (Prim ROS_TYPE_UINT32) 0)]"

definition example_interfaces__msg__UInt64 :: c_struct where
  "example_interfaces__msg__UInt64 = C_Struct ''example_interfaces__msg'' ''UInt64''
     [(''data'', Prim ROS_TYPE_UINT64)]"

definition example_interfaces__msg__UInt64MultiArray :: c_struct where
  "example_interfaces__msg__UInt64MultiArray = C_Struct ''example_interfaces__msg'' ''UInt64MultiArray''
     [(''layout'', Struct example_interfaces__msg__MultiArrayLayout),
      (''data'', Sequence (Prim ROS_TYPE_UINT64) 0)]"

definition example_interfaces__msg__UInt8 :: c_struct where
  "example_interfaces__msg__UInt8 = C_Struct ''example_interfaces__msg'' ''UInt8''
     [(''data'', Prim ROS_TYPE_UINT8)]"

definition example_interfaces__msg__UInt8MultiArray :: c_struct where
  "example_interfaces__msg__UInt8MultiArray = C_Struct ''example_interfaces__msg'' ''UInt8MultiArray''
     [(''layout'', Struct example_interfaces__msg__MultiArrayLayout),
      (''data'', Sequence (Prim ROS_TYPE_UINT8) 0)]"

definition example_interfaces__msg__WString :: c_struct where
  "example_interfaces__msg__WString = C_Struct ''example_interfaces__msg'' ''WString''
     [(''data'', Text16)]"

section \<open>\<^verbatim>\<open>nav_msgs\<close>\<close>

definition nav_msgs__srv__GetMap_Request :: c_struct where
  "nav_msgs__srv__GetMap_Request = C_Struct ''nav_msgs__srv'' ''GetMap_Request''
     [(''structure_needs_at_least_one_member'', Prim ROS_TYPE_UINT8)]"

definition nav_msgs__srv__GetMap_Response :: c_struct where
  "nav_msgs__srv__GetMap_Response = C_Struct ''nav_msgs__srv'' ''GetMap_Response''
     [(''map'', Struct nav_msgs__msg__OccupancyGrid)]"

definition nav_msgs__srv__GetPlan_Request :: c_struct where
  "nav_msgs__srv__GetPlan_Request = C_Struct ''nav_msgs__srv'' ''GetPlan_Request''
     [(''start'', Struct geometry_msgs__msg__PoseStamped),
      (''goal'', Struct geometry_msgs__msg__PoseStamped), (''tolerance'', Prim ROS_TYPE_FLOAT)]"

definition nav_msgs__srv__GetPlan_Response :: c_struct where
  "nav_msgs__srv__GetPlan_Response = C_Struct ''nav_msgs__srv'' ''GetPlan_Response''
     [(''plan'', Struct nav_msgs__msg__Path)]"

definition nav_msgs__srv__LoadMap_Request :: c_struct where
  "nav_msgs__srv__LoadMap_Request = C_Struct ''nav_msgs__srv'' ''LoadMap_Request''
     [(''map_url'', Text)]"

definition nav_msgs__srv__LoadMap_Response :: c_struct where
  "nav_msgs__srv__LoadMap_Response = C_Struct ''nav_msgs__srv'' ''LoadMap_Response''
     [(''map'', Struct nav_msgs__msg__OccupancyGrid), (''result'', Prim ROS_TYPE_UINT8)]"

definition nav_msgs__srv__SetMap_Request :: c_struct where
  "nav_msgs__srv__SetMap_Request = C_Struct ''nav_msgs__srv'' ''SetMap_Request''
     [(''map'', Struct nav_msgs__msg__OccupancyGrid),
      (''initial_pose'', Struct geometry_msgs__msg__PoseWithCovarianceStamped)]"

definition nav_msgs__srv__SetMap_Response :: c_struct where
  "nav_msgs__srv__SetMap_Response = C_Struct ''nav_msgs__srv'' ''SetMap_Response''
     [(''success'', Prim ROS_TYPE_BOOLEAN)]"

section \<open>\<^verbatim>\<open>sensor_msgs\<close>\<close>

definition sensor_msgs__srv__SetCameraInfo_Request :: c_struct where
  "sensor_msgs__srv__SetCameraInfo_Request = C_Struct ''sensor_msgs__srv'' ''SetCameraInfo_Request''
     [(''camera_info'', Struct sensor_msgs__msg__CameraInfo)]"

definition sensor_msgs__srv__SetCameraInfo_Response :: c_struct where
  "sensor_msgs__srv__SetCameraInfo_Response = C_Struct ''sensor_msgs__srv'' ''SetCameraInfo_Response''
     [(''success'', Prim ROS_TYPE_BOOLEAN), (''status_message'', Text)]"

section \<open>\<^verbatim>\<open>stereo_msgs\<close>\<close>

definition stereo_msgs__msg__DisparityImage :: c_struct where
  "stereo_msgs__msg__DisparityImage = C_Struct ''stereo_msgs__msg'' ''DisparityImage''
     [(''header'', Struct std_msgs__msg__Header), (''image'', Struct sensor_msgs__msg__Image),
      (''f'', Prim ROS_TYPE_FLOAT), (''t'', Prim ROS_TYPE_FLOAT),
      (''valid_window'', Struct sensor_msgs__msg__RegionOfInterest),
      (''min_disparity'', Prim ROS_TYPE_FLOAT), (''max_disparity'', Prim ROS_TYPE_FLOAT),
      (''delta_d'', Prim ROS_TYPE_FLOAT)]"

section \<open>\<^verbatim>\<open>tf2_msgs\<close>\<close>

definition tf2_msgs__action__LookupTransform_Feedback :: c_struct where
  "tf2_msgs__action__LookupTransform_Feedback = C_Struct ''tf2_msgs__action'' ''LookupTransform_Feedback''
     [(''structure_needs_at_least_one_member'', Prim ROS_TYPE_UINT8)]"

definition tf2_msgs__action__LookupTransform_FeedbackMessage :: c_struct where
  "tf2_msgs__action__LookupTransform_FeedbackMessage = C_Struct ''tf2_msgs__action'' ''LookupTransform_FeedbackMessage''
     [(''goal_id'', Struct unique_identifier_msgs__msg__UUID),
      (''feedback'', Struct tf2_msgs__action__LookupTransform_Feedback)]"

definition tf2_msgs__action__LookupTransform_GetResult_Request :: c_struct where
  "tf2_msgs__action__LookupTransform_GetResult_Request = C_Struct ''tf2_msgs__action'' ''LookupTransform_GetResult_Request''
     [(''goal_id'', Struct unique_identifier_msgs__msg__UUID)]"

definition tf2_msgs__msg__TF2Error :: c_struct where
  "tf2_msgs__msg__TF2Error = C_Struct ''tf2_msgs__msg'' ''TF2Error''
     [(''error'', Prim ROS_TYPE_UINT8), (''error_string'', Text)]"

definition tf2_msgs__action__LookupTransform_Result :: c_struct where
  "tf2_msgs__action__LookupTransform_Result = C_Struct ''tf2_msgs__action'' ''LookupTransform_Result''
     [(''transform'', Struct geometry_msgs__msg__TransformStamped),
      (''error'', Struct tf2_msgs__msg__TF2Error)]"

definition tf2_msgs__action__LookupTransform_GetResult_Response :: c_struct where
  "tf2_msgs__action__LookupTransform_GetResult_Response = C_Struct ''tf2_msgs__action'' ''LookupTransform_GetResult_Response''
     [(''status'', Prim ROS_TYPE_INT8),
      (''result'', Struct tf2_msgs__action__LookupTransform_Result)]"

definition tf2_msgs__action__LookupTransform_Goal :: c_struct where
  "tf2_msgs__action__LookupTransform_Goal = C_Struct ''tf2_msgs__action'' ''LookupTransform_Goal''
     [(''target_frame'', Text), (''source_frame'', Text),
      (''source_time'', Struct builtin_interfaces__msg__Time),
      (''timeout'', Struct builtin_interfaces__msg__Duration),
      (''target_time'', Struct builtin_interfaces__msg__Time), (''fixed_frame'', Text),
      (''advanced'', Prim ROS_TYPE_BOOLEAN)]"

definition tf2_msgs__action__LookupTransform_SendGoal_Request :: c_struct where
  "tf2_msgs__action__LookupTransform_SendGoal_Request = C_Struct ''tf2_msgs__action'' ''LookupTransform_SendGoal_Request''
     [(''goal_id'', Struct unique_identifier_msgs__msg__UUID),
      (''goal'', Struct tf2_msgs__action__LookupTransform_Goal)]"

definition tf2_msgs__action__LookupTransform_SendGoal_Response :: c_struct where
  "tf2_msgs__action__LookupTransform_SendGoal_Response = C_Struct ''tf2_msgs__action'' ''LookupTransform_SendGoal_Response''
     [(''accepted'', Prim ROS_TYPE_BOOLEAN), (''stamp'', Struct builtin_interfaces__msg__Time)]"

definition tf2_msgs__msg__TFMessage :: c_struct where
  "tf2_msgs__msg__TFMessage = C_Struct ''tf2_msgs__msg'' ''TFMessage''
     [(''transforms'', Sequence (Struct geometry_msgs__msg__TransformStamped) 0)]"

definition tf2_msgs__srv__FrameGraph_Request :: c_struct where
  "tf2_msgs__srv__FrameGraph_Request = C_Struct ''tf2_msgs__srv'' ''FrameGraph_Request''
     [(''structure_needs_at_least_one_member'', Prim ROS_TYPE_UINT8)]"

definition tf2_msgs__srv__FrameGraph_Response :: c_struct where
  "tf2_msgs__srv__FrameGraph_Response = C_Struct ''tf2_msgs__srv'' ''FrameGraph_Response''
     [(''frame_yaml'', Text)]"

section \<open>\<^verbatim>\<open>visualization_msgs\<close>\<close>

definition visualization_msgs__msg__ImageMarker :: c_struct where
  "visualization_msgs__msg__ImageMarker = C_Struct ''visualization_msgs__msg'' ''ImageMarker''
     [(''header'', Struct std_msgs__msg__Header), (''ns'', Text), (''id'', Prim ROS_TYPE_INT32),
      (''type'', Prim ROS_TYPE_INT32), (''action'', Prim ROS_TYPE_INT32),
      (''position'', Struct geometry_msgs__msg__Point), (''scale'', Prim ROS_TYPE_FLOAT),
      (''outline_color'', Struct std_msgs__msg__ColorRGBA), (''filled'', Prim ROS_TYPE_UINT8),
      (''fill_color'', Struct std_msgs__msg__ColorRGBA),
      (''lifetime'', Struct builtin_interfaces__msg__Duration),
      (''points'', Sequence (Struct geometry_msgs__msg__Point) 0),
      (''outline_colors'', Sequence (Struct std_msgs__msg__ColorRGBA) 0)]"

definition visualization_msgs__msg__MenuEntry :: c_struct where
  "visualization_msgs__msg__MenuEntry = C_Struct ''visualization_msgs__msg'' ''MenuEntry''
     [(''id'', Prim ROS_TYPE_UINT32), (''parent_id'', Prim ROS_TYPE_UINT32), (''title'', Text),
      (''command'', Text), (''command_type'', Prim ROS_TYPE_UINT8)]"

definition visualization_msgs__msg__Marker :: c_struct where
  "visualization_msgs__msg__Marker = C_Struct ''visualization_msgs__msg'' ''Marker''
     [(''header'', Struct std_msgs__msg__Header), (''ns'', Text), (''id'', Prim ROS_TYPE_INT32),
      (''type'', Prim ROS_TYPE_INT32), (''action'', Prim ROS_TYPE_INT32),
      (''pose'', Struct geometry_msgs__msg__Pose),
      (''scale'', Struct geometry_msgs__msg__Vector3),
      (''color'', Struct std_msgs__msg__ColorRGBA),
      (''lifetime'', Struct builtin_interfaces__msg__Duration),
      (''frame_locked'', Prim ROS_TYPE_BOOLEAN),
      (''points'', Sequence (Struct geometry_msgs__msg__Point) 0),
      (''colors'', Sequence (Struct std_msgs__msg__ColorRGBA) 0), (''text'', Text),
      (''mesh_resource'', Text), (''mesh_use_embedded_materials'', Prim ROS_TYPE_BOOLEAN)]"

definition visualization_msgs__msg__InteractiveMarkerControl :: c_struct where
  "visualization_msgs__msg__InteractiveMarkerControl = C_Struct ''visualization_msgs__msg'' ''InteractiveMarkerControl''
     [(''name'', Text), (''orientation'', Struct geometry_msgs__msg__Quaternion),
      (''orientation_mode'', Prim ROS_TYPE_UINT8), (''interaction_mode'', Prim ROS_TYPE_UINT8),
      (''always_visible'', Prim ROS_TYPE_BOOLEAN),
      (''markers'', Sequence (Struct visualization_msgs__msg__Marker) 0),
      (''independent_marker_orientation'', Prim ROS_TYPE_BOOLEAN), (''description'', Text)]"

definition visualization_msgs__msg__InteractiveMarker :: c_struct where
  "visualization_msgs__msg__InteractiveMarker = C_Struct ''visualization_msgs__msg'' ''InteractiveMarker''
     [(''header'', Struct std_msgs__msg__Header), (''pose'', Struct geometry_msgs__msg__Pose),
      (''name'', Text), (''description'', Text), (''scale'', Prim ROS_TYPE_FLOAT),
      (''menu_entries'', Sequence (Struct visualization_msgs__msg__MenuEntry) 0),
      (''controls'', Sequence (Struct visualization_msgs__msg__InteractiveMarkerControl) 0)]"

definition visualization_msgs__msg__InteractiveMarkerFeedback :: c_struct where
  "visualization_msgs__msg__InteractiveMarkerFeedback = C_Struct ''visualization_msgs__msg'' ''InteractiveMarkerFeedback''
     [(''header'', Struct std_msgs__msg__Header), (''client_id'', Text), (''marker_name'', Text),
      (''control_name'', Text), (''event_type'', Prim ROS_TYPE_UINT8),
      (''pose'', Struct geometry_msgs__msg__Pose), (''menu_entry_id'', Prim ROS_TYPE_UINT32),
      (''mouse_point'', Struct geometry_msgs__msg__Point),
      (''mouse_point_valid'', Prim ROS_TYPE_BOOLEAN)]"

definition visualization_msgs__msg__InteractiveMarkerInit :: c_struct where
  "visualization_msgs__msg__InteractiveMarkerInit = C_Struct ''visualization_msgs__msg'' ''InteractiveMarkerInit''
     [(''server_id'', Text), (''seq_num'', Prim ROS_TYPE_UINT64),
      (''markers'', Sequence (Struct visualization_msgs__msg__InteractiveMarker) 0)]"

definition visualization_msgs__msg__InteractiveMarkerPose :: c_struct where
  "visualization_msgs__msg__InteractiveMarkerPose = C_Struct ''visualization_msgs__msg'' ''InteractiveMarkerPose''
     [(''header'', Struct std_msgs__msg__Header), (''pose'', Struct geometry_msgs__msg__Pose),
      (''name'', Text)]"

definition visualization_msgs__msg__InteractiveMarkerUpdate :: c_struct where
  "visualization_msgs__msg__InteractiveMarkerUpdate = C_Struct ''visualization_msgs__msg'' ''InteractiveMarkerUpdate''
     [(''server_id'', Text), (''seq_num'', Prim ROS_TYPE_UINT64),
      (''type'', Prim ROS_TYPE_UINT8),
      (''markers'', Sequence (Struct visualization_msgs__msg__InteractiveMarker) 0),
      (''poses'', Sequence (Struct visualization_msgs__msg__InteractiveMarkerPose) 0),
      (''erases'', Sequence Text 0)]"

definition visualization_msgs__msg__MarkerArray :: c_struct where
  "visualization_msgs__msg__MarkerArray = C_Struct ''visualization_msgs__msg'' ''MarkerArray''
     [(''markers'', Sequence (Struct visualization_msgs__msg__Marker) 0)]"

definition visualization_msgs__srv__GetInteractiveMarkers_Request :: c_struct where
  "visualization_msgs__srv__GetInteractiveMarkers_Request = C_Struct ''visualization_msgs__srv'' ''GetInteractiveMarkers_Request''
     [(''structure_needs_at_least_one_member'', Prim ROS_TYPE_UINT8)]"

definition visualization_msgs__srv__GetInteractiveMarkers_Response :: c_struct where
  "visualization_msgs__srv__GetInteractiveMarkers_Response = C_Struct ''visualization_msgs__srv'' ''GetInteractiveMarkers_Response''
     [(''sequence_number'', Prim ROS_TYPE_UINT64),
      (''markers'', Sequence (Struct visualization_msgs__msg__InteractiveMarker) 0)]"

section \<open>All of them\<close>

definition display_messages :: "c_struct list" where
  "display_messages =
     [diagnostic_msgs__srv__AddDiagnostics_Request,
      diagnostic_msgs__srv__AddDiagnostics_Response,
      diagnostic_msgs__srv__SelfTest_Request,
      diagnostic_msgs__srv__SelfTest_Response,
      example_interfaces__msg__Bool,
      example_interfaces__msg__Byte,
      example_interfaces__msg__MultiArrayDimension,
      example_interfaces__msg__MultiArrayLayout,
      example_interfaces__msg__ByteMultiArray,
      example_interfaces__msg__Char,
      example_interfaces__msg__Empty,
      example_interfaces__msg__Float32,
      example_interfaces__msg__Float32MultiArray,
      example_interfaces__msg__Float64,
      example_interfaces__msg__Float64MultiArray,
      example_interfaces__msg__Int16,
      example_interfaces__msg__Int16MultiArray,
      example_interfaces__msg__Int32,
      example_interfaces__msg__Int32MultiArray,
      example_interfaces__msg__Int64,
      example_interfaces__msg__Int64MultiArray,
      example_interfaces__msg__Int8,
      example_interfaces__msg__Int8MultiArray,
      example_interfaces__msg__String,
      example_interfaces__msg__UInt16,
      example_interfaces__msg__UInt16MultiArray,
      example_interfaces__msg__UInt32,
      example_interfaces__msg__UInt32MultiArray,
      example_interfaces__msg__UInt64,
      example_interfaces__msg__UInt64MultiArray,
      example_interfaces__msg__UInt8,
      example_interfaces__msg__UInt8MultiArray,
      example_interfaces__msg__WString,
      nav_msgs__srv__GetMap_Request,
      nav_msgs__srv__GetMap_Response,
      nav_msgs__srv__GetPlan_Request,
      nav_msgs__srv__GetPlan_Response,
      nav_msgs__srv__LoadMap_Request,
      nav_msgs__srv__LoadMap_Response,
      nav_msgs__srv__SetMap_Request,
      nav_msgs__srv__SetMap_Response,
      sensor_msgs__srv__SetCameraInfo_Request,
      sensor_msgs__srv__SetCameraInfo_Response,
      stereo_msgs__msg__DisparityImage,
      tf2_msgs__action__LookupTransform_Feedback,
      tf2_msgs__action__LookupTransform_FeedbackMessage,
      tf2_msgs__action__LookupTransform_GetResult_Request,
      tf2_msgs__msg__TF2Error,
      tf2_msgs__action__LookupTransform_Result,
      tf2_msgs__action__LookupTransform_GetResult_Response,
      tf2_msgs__action__LookupTransform_Goal,
      tf2_msgs__action__LookupTransform_SendGoal_Request,
      tf2_msgs__action__LookupTransform_SendGoal_Response,
      tf2_msgs__msg__TFMessage,
      tf2_msgs__srv__FrameGraph_Request,
      tf2_msgs__srv__FrameGraph_Response,
      visualization_msgs__msg__ImageMarker,
      visualization_msgs__msg__MenuEntry,
      visualization_msgs__msg__Marker,
      visualization_msgs__msg__InteractiveMarkerControl,
      visualization_msgs__msg__InteractiveMarker,
      visualization_msgs__msg__InteractiveMarkerFeedback,
      visualization_msgs__msg__InteractiveMarkerInit,
      visualization_msgs__msg__InteractiveMarkerPose,
      visualization_msgs__msg__InteractiveMarkerUpdate,
      visualization_msgs__msg__MarkerArray,
      visualization_msgs__srv__GetInteractiveMarkers_Request,
      visualization_msgs__srv__GetInteractiveMarkers_Response]"

lemmas display_messages_defs =
  diagnostic_msgs__srv__AddDiagnostics_Request_def
  diagnostic_msgs__srv__AddDiagnostics_Response_def
  diagnostic_msgs__srv__SelfTest_Request_def
  diagnostic_msgs__srv__SelfTest_Response_def
  example_interfaces__msg__Bool_def
  example_interfaces__msg__Byte_def
  example_interfaces__msg__MultiArrayDimension_def
  example_interfaces__msg__MultiArrayLayout_def
  example_interfaces__msg__ByteMultiArray_def
  example_interfaces__msg__Char_def
  example_interfaces__msg__Empty_def
  example_interfaces__msg__Float32_def
  example_interfaces__msg__Float32MultiArray_def
  example_interfaces__msg__Float64_def
  example_interfaces__msg__Float64MultiArray_def
  example_interfaces__msg__Int16_def
  example_interfaces__msg__Int16MultiArray_def
  example_interfaces__msg__Int32_def
  example_interfaces__msg__Int32MultiArray_def
  example_interfaces__msg__Int64_def
  example_interfaces__msg__Int64MultiArray_def
  example_interfaces__msg__Int8_def
  example_interfaces__msg__Int8MultiArray_def
  example_interfaces__msg__String_def
  example_interfaces__msg__UInt16_def
  example_interfaces__msg__UInt16MultiArray_def
  example_interfaces__msg__UInt32_def
  example_interfaces__msg__UInt32MultiArray_def
  example_interfaces__msg__UInt64_def
  example_interfaces__msg__UInt64MultiArray_def
  example_interfaces__msg__UInt8_def
  example_interfaces__msg__UInt8MultiArray_def
  example_interfaces__msg__WString_def
  nav_msgs__srv__GetMap_Request_def
  nav_msgs__srv__GetMap_Response_def
  nav_msgs__srv__GetPlan_Request_def
  nav_msgs__srv__GetPlan_Response_def
  nav_msgs__srv__LoadMap_Request_def
  nav_msgs__srv__LoadMap_Response_def
  nav_msgs__srv__SetMap_Request_def
  nav_msgs__srv__SetMap_Response_def
  sensor_msgs__srv__SetCameraInfo_Request_def
  sensor_msgs__srv__SetCameraInfo_Response_def
  stereo_msgs__msg__DisparityImage_def
  tf2_msgs__action__LookupTransform_Feedback_def
  tf2_msgs__action__LookupTransform_FeedbackMessage_def
  tf2_msgs__action__LookupTransform_GetResult_Request_def
  tf2_msgs__msg__TF2Error_def
  tf2_msgs__action__LookupTransform_Result_def
  tf2_msgs__action__LookupTransform_GetResult_Response_def
  tf2_msgs__action__LookupTransform_Goal_def
  tf2_msgs__action__LookupTransform_SendGoal_Request_def
  tf2_msgs__action__LookupTransform_SendGoal_Response_def
  tf2_msgs__msg__TFMessage_def
  tf2_msgs__srv__FrameGraph_Request_def
  tf2_msgs__srv__FrameGraph_Response_def
  visualization_msgs__msg__ImageMarker_def
  visualization_msgs__msg__MenuEntry_def
  visualization_msgs__msg__Marker_def
  visualization_msgs__msg__InteractiveMarkerControl_def
  visualization_msgs__msg__InteractiveMarker_def
  visualization_msgs__msg__InteractiveMarkerFeedback_def
  visualization_msgs__msg__InteractiveMarkerInit_def
  visualization_msgs__msg__InteractiveMarkerPose_def
  visualization_msgs__msg__InteractiveMarkerUpdate_def
  visualization_msgs__msg__MarkerArray_def
  visualization_msgs__srv__GetInteractiveMarkers_Request_def
  visualization_msgs__srv__GetInteractiveMarkers_Response_def

end
