(* ===== verification/Control_Messages.thy ===== *)
theory Control_Messages
  imports Display_Messages
begin

text \<open>
  The structures of the package control_msgs (messages, services and actions) and of the example
  action, one definition for each structure of the \<^verbatim>\<open>__struct.h\<close> headers under \<^verbatim>\<open>src/\<close>; an
  action has seven: goal, result, feedback, two services and the feedback message.
\<close>

section \<open>\<^verbatim>\<open>control_msgs\<close>\<close>

definition control_msgs__action__FollowJointTrajectory_Feedback :: c_struct where
  "control_msgs__action__FollowJointTrajectory_Feedback = C_Struct ''control_msgs__action'' ''FollowJointTrajectory_Feedback''
     [(''header'', Struct std_msgs__msg__Header), (''joint_names'', Sequence Text 0),
      (''desired'', Struct trajectory_msgs__msg__JointTrajectoryPoint),
      (''actual'', Struct trajectory_msgs__msg__JointTrajectoryPoint),
      (''error'', Struct trajectory_msgs__msg__JointTrajectoryPoint),
      (''multi_dof_joint_names'', Sequence Text 0),
      (''multi_dof_desired'', Struct trajectory_msgs__msg__MultiDOFJointTrajectoryPoint),
      (''multi_dof_actual'', Struct trajectory_msgs__msg__MultiDOFJointTrajectoryPoint),
      (''multi_dof_error'', Struct trajectory_msgs__msg__MultiDOFJointTrajectoryPoint)]"

definition control_msgs__action__FollowJointTrajectory_FeedbackMessage :: c_struct where
  "control_msgs__action__FollowJointTrajectory_FeedbackMessage = C_Struct ''control_msgs__action'' ''FollowJointTrajectory_FeedbackMessage''
     [(''goal_id'', Struct unique_identifier_msgs__msg__UUID),
      (''feedback'', Struct control_msgs__action__FollowJointTrajectory_Feedback)]"

definition control_msgs__action__FollowJointTrajectory_GetResult_Request :: c_struct where
  "control_msgs__action__FollowJointTrajectory_GetResult_Request = C_Struct ''control_msgs__action'' ''FollowJointTrajectory_GetResult_Request''
     [(''goal_id'', Struct unique_identifier_msgs__msg__UUID)]"

definition control_msgs__action__FollowJointTrajectory_Result :: c_struct where
  "control_msgs__action__FollowJointTrajectory_Result = C_Struct ''control_msgs__action'' ''FollowJointTrajectory_Result''
     [(''error_code'', Prim ROS_TYPE_INT32), (''error_string'', Text)]"

definition control_msgs__action__FollowJointTrajectory_GetResult_Response :: c_struct where
  "control_msgs__action__FollowJointTrajectory_GetResult_Response = C_Struct ''control_msgs__action'' ''FollowJointTrajectory_GetResult_Response''
     [(''status'', Prim ROS_TYPE_INT8),
      (''result'', Struct control_msgs__action__FollowJointTrajectory_Result)]"

definition control_msgs__msg__JointTolerance :: c_struct where
  "control_msgs__msg__JointTolerance = C_Struct ''control_msgs__msg'' ''JointTolerance''
     [(''name'', Text), (''position'', Prim ROS_TYPE_DOUBLE),
      (''velocity'', Prim ROS_TYPE_DOUBLE), (''acceleration'', Prim ROS_TYPE_DOUBLE)]"

definition control_msgs__msg__JointComponentTolerance :: c_struct where
  "control_msgs__msg__JointComponentTolerance = C_Struct ''control_msgs__msg'' ''JointComponentTolerance''
     [(''joint_name'', Text), (''component'', Prim ROS_TYPE_UINT16),
      (''position'', Prim ROS_TYPE_DOUBLE), (''velocity'', Prim ROS_TYPE_DOUBLE),
      (''acceleration'', Prim ROS_TYPE_DOUBLE)]"

definition control_msgs__action__FollowJointTrajectory_Goal :: c_struct where
  "control_msgs__action__FollowJointTrajectory_Goal = C_Struct ''control_msgs__action'' ''FollowJointTrajectory_Goal''
     [(''trajectory'', Struct trajectory_msgs__msg__JointTrajectory),
      (''multi_dof_trajectory'', Struct trajectory_msgs__msg__MultiDOFJointTrajectory),
      (''path_tolerance'', Sequence (Struct control_msgs__msg__JointTolerance) 0),
      (''component_path_tolerance'', Sequence (Struct control_msgs__msg__JointComponentTolerance) 0),
      (''goal_tolerance'', Sequence (Struct control_msgs__msg__JointTolerance) 0),
      (''component_goal_tolerance'', Sequence (Struct control_msgs__msg__JointComponentTolerance) 0),
      (''goal_time_tolerance'', Struct builtin_interfaces__msg__Duration)]"

definition control_msgs__action__FollowJointTrajectory_SendGoal_Request :: c_struct where
  "control_msgs__action__FollowJointTrajectory_SendGoal_Request = C_Struct ''control_msgs__action'' ''FollowJointTrajectory_SendGoal_Request''
     [(''goal_id'', Struct unique_identifier_msgs__msg__UUID),
      (''goal'', Struct control_msgs__action__FollowJointTrajectory_Goal)]"

definition control_msgs__action__FollowJointTrajectory_SendGoal_Response :: c_struct where
  "control_msgs__action__FollowJointTrajectory_SendGoal_Response = C_Struct ''control_msgs__action'' ''FollowJointTrajectory_SendGoal_Response''
     [(''accepted'', Prim ROS_TYPE_BOOLEAN), (''stamp'', Struct builtin_interfaces__msg__Time)]"

definition control_msgs__action__GripperCommand_Feedback :: c_struct where
  "control_msgs__action__GripperCommand_Feedback = C_Struct ''control_msgs__action'' ''GripperCommand_Feedback''
     [(''position'', Prim ROS_TYPE_DOUBLE), (''effort'', Prim ROS_TYPE_DOUBLE),
      (''stalled'', Prim ROS_TYPE_BOOLEAN), (''reached_goal'', Prim ROS_TYPE_BOOLEAN)]"

definition control_msgs__action__GripperCommand_FeedbackMessage :: c_struct where
  "control_msgs__action__GripperCommand_FeedbackMessage = C_Struct ''control_msgs__action'' ''GripperCommand_FeedbackMessage''
     [(''goal_id'', Struct unique_identifier_msgs__msg__UUID),
      (''feedback'', Struct control_msgs__action__GripperCommand_Feedback)]"

definition control_msgs__action__GripperCommand_GetResult_Request :: c_struct where
  "control_msgs__action__GripperCommand_GetResult_Request = C_Struct ''control_msgs__action'' ''GripperCommand_GetResult_Request''
     [(''goal_id'', Struct unique_identifier_msgs__msg__UUID)]"

definition control_msgs__action__GripperCommand_Result :: c_struct where
  "control_msgs__action__GripperCommand_Result = C_Struct ''control_msgs__action'' ''GripperCommand_Result''
     [(''position'', Prim ROS_TYPE_DOUBLE), (''effort'', Prim ROS_TYPE_DOUBLE),
      (''stalled'', Prim ROS_TYPE_BOOLEAN), (''reached_goal'', Prim ROS_TYPE_BOOLEAN)]"

definition control_msgs__action__GripperCommand_GetResult_Response :: c_struct where
  "control_msgs__action__GripperCommand_GetResult_Response = C_Struct ''control_msgs__action'' ''GripperCommand_GetResult_Response''
     [(''status'', Prim ROS_TYPE_INT8),
      (''result'', Struct control_msgs__action__GripperCommand_Result)]"

definition control_msgs__msg__GripperCommand :: c_struct where
  "control_msgs__msg__GripperCommand = C_Struct ''control_msgs__msg'' ''GripperCommand''
     [(''position'', Prim ROS_TYPE_DOUBLE), (''max_effort'', Prim ROS_TYPE_DOUBLE)]"

definition control_msgs__action__GripperCommand_Goal :: c_struct where
  "control_msgs__action__GripperCommand_Goal = C_Struct ''control_msgs__action'' ''GripperCommand_Goal''
     [(''command'', Struct control_msgs__msg__GripperCommand)]"

definition control_msgs__action__GripperCommand_SendGoal_Request :: c_struct where
  "control_msgs__action__GripperCommand_SendGoal_Request = C_Struct ''control_msgs__action'' ''GripperCommand_SendGoal_Request''
     [(''goal_id'', Struct unique_identifier_msgs__msg__UUID),
      (''goal'', Struct control_msgs__action__GripperCommand_Goal)]"

definition control_msgs__action__GripperCommand_SendGoal_Response :: c_struct where
  "control_msgs__action__GripperCommand_SendGoal_Response = C_Struct ''control_msgs__action'' ''GripperCommand_SendGoal_Response''
     [(''accepted'', Prim ROS_TYPE_BOOLEAN), (''stamp'', Struct builtin_interfaces__msg__Time)]"

definition control_msgs__action__JointTrajectory_Feedback :: c_struct where
  "control_msgs__action__JointTrajectory_Feedback = C_Struct ''control_msgs__action'' ''JointTrajectory_Feedback''
     [(''structure_needs_at_least_one_member'', Prim ROS_TYPE_UINT8)]"

definition control_msgs__action__JointTrajectory_FeedbackMessage :: c_struct where
  "control_msgs__action__JointTrajectory_FeedbackMessage = C_Struct ''control_msgs__action'' ''JointTrajectory_FeedbackMessage''
     [(''goal_id'', Struct unique_identifier_msgs__msg__UUID),
      (''feedback'', Struct control_msgs__action__JointTrajectory_Feedback)]"

definition control_msgs__action__JointTrajectory_GetResult_Request :: c_struct where
  "control_msgs__action__JointTrajectory_GetResult_Request = C_Struct ''control_msgs__action'' ''JointTrajectory_GetResult_Request''
     [(''goal_id'', Struct unique_identifier_msgs__msg__UUID)]"

definition control_msgs__action__JointTrajectory_Result :: c_struct where
  "control_msgs__action__JointTrajectory_Result = C_Struct ''control_msgs__action'' ''JointTrajectory_Result''
     [(''structure_needs_at_least_one_member'', Prim ROS_TYPE_UINT8)]"

definition control_msgs__action__JointTrajectory_GetResult_Response :: c_struct where
  "control_msgs__action__JointTrajectory_GetResult_Response = C_Struct ''control_msgs__action'' ''JointTrajectory_GetResult_Response''
     [(''status'', Prim ROS_TYPE_INT8),
      (''result'', Struct control_msgs__action__JointTrajectory_Result)]"

definition control_msgs__action__JointTrajectory_Goal :: c_struct where
  "control_msgs__action__JointTrajectory_Goal = C_Struct ''control_msgs__action'' ''JointTrajectory_Goal''
     [(''trajectory'', Struct trajectory_msgs__msg__JointTrajectory)]"

definition control_msgs__action__JointTrajectory_SendGoal_Request :: c_struct where
  "control_msgs__action__JointTrajectory_SendGoal_Request = C_Struct ''control_msgs__action'' ''JointTrajectory_SendGoal_Request''
     [(''goal_id'', Struct unique_identifier_msgs__msg__UUID),
      (''goal'', Struct control_msgs__action__JointTrajectory_Goal)]"

definition control_msgs__action__JointTrajectory_SendGoal_Response :: c_struct where
  "control_msgs__action__JointTrajectory_SendGoal_Response = C_Struct ''control_msgs__action'' ''JointTrajectory_SendGoal_Response''
     [(''accepted'', Prim ROS_TYPE_BOOLEAN), (''stamp'', Struct builtin_interfaces__msg__Time)]"

definition control_msgs__action__PointHead_Feedback :: c_struct where
  "control_msgs__action__PointHead_Feedback = C_Struct ''control_msgs__action'' ''PointHead_Feedback''
     [(''pointing_angle_error'', Prim ROS_TYPE_DOUBLE)]"

definition control_msgs__action__PointHead_FeedbackMessage :: c_struct where
  "control_msgs__action__PointHead_FeedbackMessage = C_Struct ''control_msgs__action'' ''PointHead_FeedbackMessage''
     [(''goal_id'', Struct unique_identifier_msgs__msg__UUID),
      (''feedback'', Struct control_msgs__action__PointHead_Feedback)]"

definition control_msgs__action__PointHead_GetResult_Request :: c_struct where
  "control_msgs__action__PointHead_GetResult_Request = C_Struct ''control_msgs__action'' ''PointHead_GetResult_Request''
     [(''goal_id'', Struct unique_identifier_msgs__msg__UUID)]"

definition control_msgs__action__PointHead_Result :: c_struct where
  "control_msgs__action__PointHead_Result = C_Struct ''control_msgs__action'' ''PointHead_Result''
     [(''structure_needs_at_least_one_member'', Prim ROS_TYPE_UINT8)]"

definition control_msgs__action__PointHead_GetResult_Response :: c_struct where
  "control_msgs__action__PointHead_GetResult_Response = C_Struct ''control_msgs__action'' ''PointHead_GetResult_Response''
     [(''status'', Prim ROS_TYPE_INT8),
      (''result'', Struct control_msgs__action__PointHead_Result)]"

definition control_msgs__action__PointHead_Goal :: c_struct where
  "control_msgs__action__PointHead_Goal = C_Struct ''control_msgs__action'' ''PointHead_Goal''
     [(''target'', Struct geometry_msgs__msg__PointStamped),
      (''pointing_axis'', Struct geometry_msgs__msg__Vector3), (''pointing_frame'', Text),
      (''min_duration'', Struct builtin_interfaces__msg__Duration),
      (''max_velocity'', Prim ROS_TYPE_DOUBLE)]"

definition control_msgs__action__PointHead_SendGoal_Request :: c_struct where
  "control_msgs__action__PointHead_SendGoal_Request = C_Struct ''control_msgs__action'' ''PointHead_SendGoal_Request''
     [(''goal_id'', Struct unique_identifier_msgs__msg__UUID),
      (''goal'', Struct control_msgs__action__PointHead_Goal)]"

definition control_msgs__action__PointHead_SendGoal_Response :: c_struct where
  "control_msgs__action__PointHead_SendGoal_Response = C_Struct ''control_msgs__action'' ''PointHead_SendGoal_Response''
     [(''accepted'', Prim ROS_TYPE_BOOLEAN), (''stamp'', Struct builtin_interfaces__msg__Time)]"

definition control_msgs__action__SingleJointPosition_Feedback :: c_struct where
  "control_msgs__action__SingleJointPosition_Feedback = C_Struct ''control_msgs__action'' ''SingleJointPosition_Feedback''
     [(''header'', Struct std_msgs__msg__Header), (''position'', Prim ROS_TYPE_DOUBLE),
      (''velocity'', Prim ROS_TYPE_DOUBLE), (''error'', Prim ROS_TYPE_DOUBLE)]"

definition control_msgs__action__SingleJointPosition_FeedbackMessage :: c_struct where
  "control_msgs__action__SingleJointPosition_FeedbackMessage = C_Struct ''control_msgs__action'' ''SingleJointPosition_FeedbackMessage''
     [(''goal_id'', Struct unique_identifier_msgs__msg__UUID),
      (''feedback'', Struct control_msgs__action__SingleJointPosition_Feedback)]"

definition control_msgs__action__SingleJointPosition_GetResult_Request :: c_struct where
  "control_msgs__action__SingleJointPosition_GetResult_Request = C_Struct ''control_msgs__action'' ''SingleJointPosition_GetResult_Request''
     [(''goal_id'', Struct unique_identifier_msgs__msg__UUID)]"

definition control_msgs__action__SingleJointPosition_Result :: c_struct where
  "control_msgs__action__SingleJointPosition_Result = C_Struct ''control_msgs__action'' ''SingleJointPosition_Result''
     [(''structure_needs_at_least_one_member'', Prim ROS_TYPE_UINT8)]"

definition control_msgs__action__SingleJointPosition_GetResult_Response :: c_struct where
  "control_msgs__action__SingleJointPosition_GetResult_Response = C_Struct ''control_msgs__action'' ''SingleJointPosition_GetResult_Response''
     [(''status'', Prim ROS_TYPE_INT8),
      (''result'', Struct control_msgs__action__SingleJointPosition_Result)]"

definition control_msgs__action__SingleJointPosition_Goal :: c_struct where
  "control_msgs__action__SingleJointPosition_Goal = C_Struct ''control_msgs__action'' ''SingleJointPosition_Goal''
     [(''position'', Prim ROS_TYPE_DOUBLE),
      (''min_duration'', Struct builtin_interfaces__msg__Duration),
      (''max_velocity'', Prim ROS_TYPE_DOUBLE)]"

definition control_msgs__action__SingleJointPosition_SendGoal_Request :: c_struct where
  "control_msgs__action__SingleJointPosition_SendGoal_Request = C_Struct ''control_msgs__action'' ''SingleJointPosition_SendGoal_Request''
     [(''goal_id'', Struct unique_identifier_msgs__msg__UUID),
      (''goal'', Struct control_msgs__action__SingleJointPosition_Goal)]"

definition control_msgs__action__SingleJointPosition_SendGoal_Response :: c_struct where
  "control_msgs__action__SingleJointPosition_SendGoal_Response = C_Struct ''control_msgs__action'' ''SingleJointPosition_SendGoal_Response''
     [(''accepted'', Prim ROS_TYPE_BOOLEAN), (''stamp'', Struct builtin_interfaces__msg__Time)]"

definition control_msgs__msg__InterfaceValue :: c_struct where
  "control_msgs__msg__InterfaceValue = C_Struct ''control_msgs__msg'' ''InterfaceValue''
     [(''interface_names'', Sequence Text 0), (''values'', Sequence (Prim ROS_TYPE_DOUBLE) 0)]"

definition control_msgs__msg__DynamicJointState :: c_struct where
  "control_msgs__msg__DynamicJointState = C_Struct ''control_msgs__msg'' ''DynamicJointState''
     [(''header'', Struct std_msgs__msg__Header), (''joint_names'', Sequence Text 0),
      (''interface_values'', Sequence (Struct control_msgs__msg__InterfaceValue) 0)]"

definition control_msgs__msg__JointControllerState :: c_struct where
  "control_msgs__msg__JointControllerState = C_Struct ''control_msgs__msg'' ''JointControllerState''
     [(''header'', Struct std_msgs__msg__Header), (''set_point'', Prim ROS_TYPE_DOUBLE),
      (''process_value'', Prim ROS_TYPE_DOUBLE), (''process_value_dot'', Prim ROS_TYPE_DOUBLE),
      (''error'', Prim ROS_TYPE_DOUBLE), (''time_step'', Prim ROS_TYPE_DOUBLE),
      (''command'', Prim ROS_TYPE_DOUBLE), (''p'', Prim ROS_TYPE_DOUBLE),
      (''i'', Prim ROS_TYPE_DOUBLE), (''d'', Prim ROS_TYPE_DOUBLE),
      (''i_clamp'', Prim ROS_TYPE_DOUBLE), (''antiwindup'', Prim ROS_TYPE_BOOLEAN)]"

definition control_msgs__msg__JointJog :: c_struct where
  "control_msgs__msg__JointJog = C_Struct ''control_msgs__msg'' ''JointJog''
     [(''header'', Struct std_msgs__msg__Header), (''joint_names'', Sequence Text 0),
      (''displacements'', Sequence (Prim ROS_TYPE_DOUBLE) 0),
      (''velocities'', Sequence (Prim ROS_TYPE_DOUBLE) 0), (''duration'', Prim ROS_TYPE_DOUBLE)]"

definition control_msgs__msg__JointTrajectoryControllerState :: c_struct where
  "control_msgs__msg__JointTrajectoryControllerState = C_Struct ''control_msgs__msg'' ''JointTrajectoryControllerState''
     [(''header'', Struct std_msgs__msg__Header), (''joint_names'', Sequence Text 0),
      (''desired'', Struct trajectory_msgs__msg__JointTrajectoryPoint),
      (''actual'', Struct trajectory_msgs__msg__JointTrajectoryPoint),
      (''error'', Struct trajectory_msgs__msg__JointTrajectoryPoint)]"

definition control_msgs__msg__PidState :: c_struct where
  "control_msgs__msg__PidState = C_Struct ''control_msgs__msg'' ''PidState''
     [(''header'', Struct std_msgs__msg__Header),
      (''timestep'', Struct builtin_interfaces__msg__Duration),
      (''error'', Prim ROS_TYPE_DOUBLE), (''error_dot'', Prim ROS_TYPE_DOUBLE),
      (''p_error'', Prim ROS_TYPE_DOUBLE), (''i_error'', Prim ROS_TYPE_DOUBLE),
      (''d_error'', Prim ROS_TYPE_DOUBLE), (''p_term'', Prim ROS_TYPE_DOUBLE),
      (''i_term'', Prim ROS_TYPE_DOUBLE), (''d_term'', Prim ROS_TYPE_DOUBLE),
      (''i_max'', Prim ROS_TYPE_DOUBLE), (''i_min'', Prim ROS_TYPE_DOUBLE),
      (''output'', Prim ROS_TYPE_DOUBLE)]"

definition control_msgs__srv__QueryCalibrationState_Request :: c_struct where
  "control_msgs__srv__QueryCalibrationState_Request = C_Struct ''control_msgs__srv'' ''QueryCalibrationState_Request''
     [(''structure_needs_at_least_one_member'', Prim ROS_TYPE_UINT8)]"

definition control_msgs__srv__QueryCalibrationState_Response :: c_struct where
  "control_msgs__srv__QueryCalibrationState_Response = C_Struct ''control_msgs__srv'' ''QueryCalibrationState_Response''
     [(''is_calibrated'', Prim ROS_TYPE_BOOLEAN)]"

definition control_msgs__srv__QueryTrajectoryState_Request :: c_struct where
  "control_msgs__srv__QueryTrajectoryState_Request = C_Struct ''control_msgs__srv'' ''QueryTrajectoryState_Request''
     [(''time'', Struct builtin_interfaces__msg__Time)]"

definition control_msgs__srv__QueryTrajectoryState_Response :: c_struct where
  "control_msgs__srv__QueryTrajectoryState_Response = C_Struct ''control_msgs__srv'' ''QueryTrajectoryState_Response''
     [(''success'', Prim ROS_TYPE_BOOLEAN), (''message'', Text), (''name'', Sequence Text 0),
      (''position'', Sequence (Prim ROS_TYPE_DOUBLE) 0),
      (''velocity'', Sequence (Prim ROS_TYPE_DOUBLE) 0),
      (''acceleration'', Sequence (Prim ROS_TYPE_DOUBLE) 0)]"

section \<open>\<^verbatim>\<open>example_interfaces\<close>\<close>

definition example_interfaces__action__Fibonacci_Feedback :: c_struct where
  "example_interfaces__action__Fibonacci_Feedback = C_Struct ''example_interfaces__action'' ''Fibonacci_Feedback''
     [(''sequence'', Sequence (Prim ROS_TYPE_INT32) 0)]"

definition example_interfaces__action__Fibonacci_FeedbackMessage :: c_struct where
  "example_interfaces__action__Fibonacci_FeedbackMessage = C_Struct ''example_interfaces__action'' ''Fibonacci_FeedbackMessage''
     [(''goal_id'', Struct unique_identifier_msgs__msg__UUID),
      (''feedback'', Struct example_interfaces__action__Fibonacci_Feedback)]"

definition example_interfaces__action__Fibonacci_GetResult_Request :: c_struct where
  "example_interfaces__action__Fibonacci_GetResult_Request = C_Struct ''example_interfaces__action'' ''Fibonacci_GetResult_Request''
     [(''goal_id'', Struct unique_identifier_msgs__msg__UUID)]"

definition example_interfaces__action__Fibonacci_Result :: c_struct where
  "example_interfaces__action__Fibonacci_Result = C_Struct ''example_interfaces__action'' ''Fibonacci_Result''
     [(''sequence'', Sequence (Prim ROS_TYPE_INT32) 0)]"

definition example_interfaces__action__Fibonacci_GetResult_Response :: c_struct where
  "example_interfaces__action__Fibonacci_GetResult_Response = C_Struct ''example_interfaces__action'' ''Fibonacci_GetResult_Response''
     [(''status'', Prim ROS_TYPE_INT8),
      (''result'', Struct example_interfaces__action__Fibonacci_Result)]"

definition example_interfaces__action__Fibonacci_Goal :: c_struct where
  "example_interfaces__action__Fibonacci_Goal = C_Struct ''example_interfaces__action'' ''Fibonacci_Goal''
     [(''order'', Prim ROS_TYPE_INT32)]"

definition example_interfaces__action__Fibonacci_SendGoal_Request :: c_struct where
  "example_interfaces__action__Fibonacci_SendGoal_Request = C_Struct ''example_interfaces__action'' ''Fibonacci_SendGoal_Request''
     [(''goal_id'', Struct unique_identifier_msgs__msg__UUID),
      (''goal'', Struct example_interfaces__action__Fibonacci_Goal)]"

definition example_interfaces__action__Fibonacci_SendGoal_Response :: c_struct where
  "example_interfaces__action__Fibonacci_SendGoal_Response = C_Struct ''example_interfaces__action'' ''Fibonacci_SendGoal_Response''
     [(''accepted'', Prim ROS_TYPE_BOOLEAN), (''stamp'', Struct builtin_interfaces__msg__Time)]"

section \<open>All of them\<close>

definition control_messages :: "c_struct list" where
  "control_messages =
     [control_msgs__action__FollowJointTrajectory_Feedback,
      control_msgs__action__FollowJointTrajectory_FeedbackMessage,
      control_msgs__action__FollowJointTrajectory_GetResult_Request,
      control_msgs__action__FollowJointTrajectory_Result,
      control_msgs__action__FollowJointTrajectory_GetResult_Response,
      control_msgs__msg__JointTolerance,
      control_msgs__msg__JointComponentTolerance,
      control_msgs__action__FollowJointTrajectory_Goal,
      control_msgs__action__FollowJointTrajectory_SendGoal_Request,
      control_msgs__action__FollowJointTrajectory_SendGoal_Response,
      control_msgs__action__GripperCommand_Feedback,
      control_msgs__action__GripperCommand_FeedbackMessage,
      control_msgs__action__GripperCommand_GetResult_Request,
      control_msgs__action__GripperCommand_Result,
      control_msgs__action__GripperCommand_GetResult_Response,
      control_msgs__msg__GripperCommand,
      control_msgs__action__GripperCommand_Goal,
      control_msgs__action__GripperCommand_SendGoal_Request,
      control_msgs__action__GripperCommand_SendGoal_Response,
      control_msgs__action__JointTrajectory_Feedback,
      control_msgs__action__JointTrajectory_FeedbackMessage,
      control_msgs__action__JointTrajectory_GetResult_Request,
      control_msgs__action__JointTrajectory_Result,
      control_msgs__action__JointTrajectory_GetResult_Response,
      control_msgs__action__JointTrajectory_Goal,
      control_msgs__action__JointTrajectory_SendGoal_Request,
      control_msgs__action__JointTrajectory_SendGoal_Response,
      control_msgs__action__PointHead_Feedback,
      control_msgs__action__PointHead_FeedbackMessage,
      control_msgs__action__PointHead_GetResult_Request,
      control_msgs__action__PointHead_Result,
      control_msgs__action__PointHead_GetResult_Response,
      control_msgs__action__PointHead_Goal,
      control_msgs__action__PointHead_SendGoal_Request,
      control_msgs__action__PointHead_SendGoal_Response,
      control_msgs__action__SingleJointPosition_Feedback,
      control_msgs__action__SingleJointPosition_FeedbackMessage,
      control_msgs__action__SingleJointPosition_GetResult_Request,
      control_msgs__action__SingleJointPosition_Result,
      control_msgs__action__SingleJointPosition_GetResult_Response,
      control_msgs__action__SingleJointPosition_Goal,
      control_msgs__action__SingleJointPosition_SendGoal_Request,
      control_msgs__action__SingleJointPosition_SendGoal_Response,
      control_msgs__msg__InterfaceValue,
      control_msgs__msg__DynamicJointState,
      control_msgs__msg__JointControllerState,
      control_msgs__msg__JointJog,
      control_msgs__msg__JointTrajectoryControllerState,
      control_msgs__msg__PidState,
      control_msgs__srv__QueryCalibrationState_Request,
      control_msgs__srv__QueryCalibrationState_Response,
      control_msgs__srv__QueryTrajectoryState_Request,
      control_msgs__srv__QueryTrajectoryState_Response,
      example_interfaces__action__Fibonacci_Feedback,
      example_interfaces__action__Fibonacci_FeedbackMessage,
      example_interfaces__action__Fibonacci_GetResult_Request,
      example_interfaces__action__Fibonacci_Result,
      example_interfaces__action__Fibonacci_GetResult_Response,
      example_interfaces__action__Fibonacci_Goal,
      example_interfaces__action__Fibonacci_SendGoal_Request,
      example_interfaces__action__Fibonacci_SendGoal_Response]"

lemmas control_messages_defs =
  control_msgs__action__FollowJointTrajectory_Feedback_def
  control_msgs__action__FollowJointTrajectory_FeedbackMessage_def
  control_msgs__action__FollowJointTrajectory_GetResult_Request_def
  control_msgs__action__FollowJointTrajectory_Result_def
  control_msgs__action__FollowJointTrajectory_GetResult_Response_def
  control_msgs__msg__JointTolerance_def
  control_msgs__msg__JointComponentTolerance_def
  control_msgs__action__FollowJointTrajectory_Goal_def
  control_msgs__action__FollowJointTrajectory_SendGoal_Request_def
  control_msgs__action__FollowJointTrajectory_SendGoal_Response_def
  control_msgs__action__GripperCommand_Feedback_def
  control_msgs__action__GripperCommand_FeedbackMessage_def
  control_msgs__action__GripperCommand_GetResult_Request_def
  control_msgs__action__GripperCommand_Result_def
  control_msgs__action__GripperCommand_GetResult_Response_def
  control_msgs__msg__GripperCommand_def
  control_msgs__action__GripperCommand_Goal_def
  control_msgs__action__GripperCommand_SendGoal_Request_def
  control_msgs__action__GripperCommand_SendGoal_Response_def
  control_msgs__action__JointTrajectory_Feedback_def
  control_msgs__action__JointTrajectory_FeedbackMessage_def
  control_msgs__action__JointTrajectory_GetResult_Request_def
  control_msgs__action__JointTrajectory_Result_def
  control_msgs__action__JointTrajectory_GetResult_Response_def
  control_msgs__action__JointTrajectory_Goal_def
  control_msgs__action__JointTrajectory_SendGoal_Request_def
  control_msgs__action__JointTrajectory_SendGoal_Response_def
  control_msgs__action__PointHead_Feedback_def
  control_msgs__action__PointHead_FeedbackMessage_def
  control_msgs__action__PointHead_GetResult_Request_def
  control_msgs__action__PointHead_Result_def
  control_msgs__action__PointHead_GetResult_Response_def
  control_msgs__action__PointHead_Goal_def
  control_msgs__action__PointHead_SendGoal_Request_def
  control_msgs__action__PointHead_SendGoal_Response_def
  control_msgs__action__SingleJointPosition_Feedback_def
  control_msgs__action__SingleJointPosition_FeedbackMessage_def
  control_msgs__action__SingleJointPosition_GetResult_Request_def
  control_msgs__action__SingleJointPosition_Result_def
  control_msgs__action__SingleJointPosition_GetResult_Response_def
  control_msgs__action__SingleJointPosition_Goal_def
  control_msgs__action__SingleJointPosition_SendGoal_Request_def
  control_msgs__action__SingleJointPosition_SendGoal_Response_def
  control_msgs__msg__InterfaceValue_def
  control_msgs__msg__DynamicJointState_def
  control_msgs__msg__JointControllerState_def
  control_msgs__msg__JointJog_def
  control_msgs__msg__JointTrajectoryControllerState_def
  control_msgs__msg__PidState_def
  control_msgs__srv__QueryCalibrationState_Request_def
  control_msgs__srv__QueryCalibrationState_Response_def
  control_msgs__srv__QueryTrajectoryState_Request_def
  control_msgs__srv__QueryTrajectoryState_Response_def
  example_interfaces__action__Fibonacci_Feedback_def
  example_interfaces__action__Fibonacci_FeedbackMessage_def
  example_interfaces__action__Fibonacci_GetResult_Request_def
  example_interfaces__action__Fibonacci_Result_def
  example_interfaces__action__Fibonacci_GetResult_Response_def
  example_interfaces__action__Fibonacci_Goal_def
  example_interfaces__action__Fibonacci_SendGoal_Request_def
  example_interfaces__action__Fibonacci_SendGoal_Response_def

end
