(* ===== verification/Test_Messages.thy ===== *)
theory Test_Messages
  imports Control_Messages
begin

text \<open>
  The structures of the package test_msgs, which has every kind of member: basic types, strings
  and wide strings, arrays, bounded and unbounded sequences, nesting, one definition for each
  structure of the \<^verbatim>\<open>__struct.h\<close> headers under \<^verbatim>\<open>src/\<close>.
\<close>

section \<open>\<^verbatim>\<open>test_msgs\<close>\<close>

definition test_msgs__action__Fibonacci_Feedback :: c_struct where
  "test_msgs__action__Fibonacci_Feedback = C_Struct ''test_msgs__action'' ''Fibonacci_Feedback''
     [(''sequence'', Sequence (Prim ROS_TYPE_INT32) 0)]"

definition test_msgs__action__Fibonacci_FeedbackMessage :: c_struct where
  "test_msgs__action__Fibonacci_FeedbackMessage = C_Struct ''test_msgs__action'' ''Fibonacci_FeedbackMessage''
     [(''goal_id'', Struct unique_identifier_msgs__msg__UUID),
      (''feedback'', Struct test_msgs__action__Fibonacci_Feedback)]"

definition test_msgs__action__Fibonacci_GetResult_Request :: c_struct where
  "test_msgs__action__Fibonacci_GetResult_Request = C_Struct ''test_msgs__action'' ''Fibonacci_GetResult_Request''
     [(''goal_id'', Struct unique_identifier_msgs__msg__UUID)]"

definition test_msgs__action__Fibonacci_Result :: c_struct where
  "test_msgs__action__Fibonacci_Result = C_Struct ''test_msgs__action'' ''Fibonacci_Result''
     [(''sequence'', Sequence (Prim ROS_TYPE_INT32) 0)]"

definition test_msgs__action__Fibonacci_GetResult_Response :: c_struct where
  "test_msgs__action__Fibonacci_GetResult_Response = C_Struct ''test_msgs__action'' ''Fibonacci_GetResult_Response''
     [(''status'', Prim ROS_TYPE_INT8), (''result'', Struct test_msgs__action__Fibonacci_Result)]"

definition test_msgs__action__Fibonacci_Goal :: c_struct where
  "test_msgs__action__Fibonacci_Goal = C_Struct ''test_msgs__action'' ''Fibonacci_Goal''
     [(''order'', Prim ROS_TYPE_INT32)]"

definition test_msgs__action__Fibonacci_SendGoal_Request :: c_struct where
  "test_msgs__action__Fibonacci_SendGoal_Request = C_Struct ''test_msgs__action'' ''Fibonacci_SendGoal_Request''
     [(''goal_id'', Struct unique_identifier_msgs__msg__UUID),
      (''goal'', Struct test_msgs__action__Fibonacci_Goal)]"

definition test_msgs__action__Fibonacci_SendGoal_Response :: c_struct where
  "test_msgs__action__Fibonacci_SendGoal_Response = C_Struct ''test_msgs__action'' ''Fibonacci_SendGoal_Response''
     [(''accepted'', Prim ROS_TYPE_BOOLEAN), (''stamp'', Struct builtin_interfaces__msg__Time)]"

definition test_msgs__msg__Builtins :: c_struct where
  "test_msgs__msg__Builtins = C_Struct ''test_msgs__msg'' ''Builtins''
     [(''duration_value'', Struct builtin_interfaces__msg__Duration),
      (''time_value'', Struct builtin_interfaces__msg__Time)]"

definition test_msgs__msg__BasicTypes :: c_struct where
  "test_msgs__msg__BasicTypes = C_Struct ''test_msgs__msg'' ''BasicTypes''
     [(''bool_value'', Prim ROS_TYPE_BOOLEAN), (''byte_value'', Prim ROS_TYPE_UINT8),
      (''char_value'', Prim ROS_TYPE_UINT8), (''float32_value'', Prim ROS_TYPE_FLOAT),
      (''float64_value'', Prim ROS_TYPE_DOUBLE), (''int8_value'', Prim ROS_TYPE_INT8),
      (''uint8_value'', Prim ROS_TYPE_UINT8), (''int16_value'', Prim ROS_TYPE_INT16),
      (''uint16_value'', Prim ROS_TYPE_UINT16), (''int32_value'', Prim ROS_TYPE_INT32),
      (''uint32_value'', Prim ROS_TYPE_UINT32), (''int64_value'', Prim ROS_TYPE_INT64),
      (''uint64_value'', Prim ROS_TYPE_UINT64)]"

definition test_msgs__action__NestedMessage_Feedback :: c_struct where
  "test_msgs__action__NestedMessage_Feedback = C_Struct ''test_msgs__action'' ''NestedMessage_Feedback''
     [(''nested_field_no_pkg'', Struct test_msgs__msg__Builtins),
      (''nested_field'', Struct test_msgs__msg__BasicTypes),
      (''nested_different_pkg'', Struct builtin_interfaces__msg__Time)]"

definition test_msgs__action__NestedMessage_FeedbackMessage :: c_struct where
  "test_msgs__action__NestedMessage_FeedbackMessage = C_Struct ''test_msgs__action'' ''NestedMessage_FeedbackMessage''
     [(''goal_id'', Struct unique_identifier_msgs__msg__UUID),
      (''feedback'', Struct test_msgs__action__NestedMessage_Feedback)]"

definition test_msgs__action__NestedMessage_GetResult_Request :: c_struct where
  "test_msgs__action__NestedMessage_GetResult_Request = C_Struct ''test_msgs__action'' ''NestedMessage_GetResult_Request''
     [(''goal_id'', Struct unique_identifier_msgs__msg__UUID)]"

definition test_msgs__action__NestedMessage_Result :: c_struct where
  "test_msgs__action__NestedMessage_Result = C_Struct ''test_msgs__action'' ''NestedMessage_Result''
     [(''nested_field_no_pkg'', Struct test_msgs__msg__Builtins),
      (''nested_field'', Struct test_msgs__msg__BasicTypes),
      (''nested_different_pkg'', Struct builtin_interfaces__msg__Time)]"

definition test_msgs__action__NestedMessage_GetResult_Response :: c_struct where
  "test_msgs__action__NestedMessage_GetResult_Response = C_Struct ''test_msgs__action'' ''NestedMessage_GetResult_Response''
     [(''status'', Prim ROS_TYPE_INT8),
      (''result'', Struct test_msgs__action__NestedMessage_Result)]"

definition test_msgs__action__NestedMessage_Goal :: c_struct where
  "test_msgs__action__NestedMessage_Goal = C_Struct ''test_msgs__action'' ''NestedMessage_Goal''
     [(''nested_field_no_pkg'', Struct test_msgs__msg__Builtins),
      (''nested_field'', Struct test_msgs__msg__BasicTypes),
      (''nested_different_pkg'', Struct builtin_interfaces__msg__Time)]"

definition test_msgs__action__NestedMessage_SendGoal_Request :: c_struct where
  "test_msgs__action__NestedMessage_SendGoal_Request = C_Struct ''test_msgs__action'' ''NestedMessage_SendGoal_Request''
     [(''goal_id'', Struct unique_identifier_msgs__msg__UUID),
      (''goal'', Struct test_msgs__action__NestedMessage_Goal)]"

definition test_msgs__action__NestedMessage_SendGoal_Response :: c_struct where
  "test_msgs__action__NestedMessage_SendGoal_Response = C_Struct ''test_msgs__action'' ''NestedMessage_SendGoal_Response''
     [(''accepted'', Prim ROS_TYPE_BOOLEAN), (''stamp'', Struct builtin_interfaces__msg__Time)]"

definition test_msgs__msg__Constants :: c_struct where
  "test_msgs__msg__Constants = C_Struct ''test_msgs__msg'' ''Constants''
     [(''structure_needs_at_least_one_member'', Prim ROS_TYPE_UINT8)]"

definition test_msgs__msg__Defaults :: c_struct where
  "test_msgs__msg__Defaults = C_Struct ''test_msgs__msg'' ''Defaults''
     [(''bool_value'', Prim ROS_TYPE_BOOLEAN), (''byte_value'', Prim ROS_TYPE_UINT8),
      (''char_value'', Prim ROS_TYPE_UINT8), (''float32_value'', Prim ROS_TYPE_FLOAT),
      (''float64_value'', Prim ROS_TYPE_DOUBLE), (''int8_value'', Prim ROS_TYPE_INT8),
      (''uint8_value'', Prim ROS_TYPE_UINT8), (''int16_value'', Prim ROS_TYPE_INT16),
      (''uint16_value'', Prim ROS_TYPE_UINT16), (''int32_value'', Prim ROS_TYPE_INT32),
      (''uint32_value'', Prim ROS_TYPE_UINT32), (''int64_value'', Prim ROS_TYPE_INT64),
      (''uint64_value'', Prim ROS_TYPE_UINT64)]"

definition test_msgs__msg__Arrays :: c_struct where
  "test_msgs__msg__Arrays = C_Struct ''test_msgs__msg'' ''Arrays''
     [(''bool_values'', Array (Prim ROS_TYPE_BOOLEAN) 3),
      (''byte_values'', Array (Prim ROS_TYPE_UINT8) 3),
      (''char_values'', Array (Prim ROS_TYPE_UINT8) 3),
      (''float32_values'', Array (Prim ROS_TYPE_FLOAT) 3),
      (''float64_values'', Array (Prim ROS_TYPE_DOUBLE) 3),
      (''int8_values'', Array (Prim ROS_TYPE_INT8) 3),
      (''uint8_values'', Array (Prim ROS_TYPE_UINT8) 3),
      (''int16_values'', Array (Prim ROS_TYPE_INT16) 3),
      (''uint16_values'', Array (Prim ROS_TYPE_UINT16) 3),
      (''int32_values'', Array (Prim ROS_TYPE_INT32) 3),
      (''uint32_values'', Array (Prim ROS_TYPE_UINT32) 3),
      (''int64_values'', Array (Prim ROS_TYPE_INT64) 3),
      (''uint64_values'', Array (Prim ROS_TYPE_UINT64) 3), (''string_values'', Array Text 3),
      (''basic_types_values'', Array (Struct test_msgs__msg__BasicTypes) 3),
      (''constants_values'', Array (Struct test_msgs__msg__Constants) 3),
      (''defaults_values'', Array (Struct test_msgs__msg__Defaults) 3),
      (''bool_values_default'', Array (Prim ROS_TYPE_BOOLEAN) 3),
      (''byte_values_default'', Array (Prim ROS_TYPE_UINT8) 3),
      (''char_values_default'', Array (Prim ROS_TYPE_UINT8) 3),
      (''float32_values_default'', Array (Prim ROS_TYPE_FLOAT) 3),
      (''float64_values_default'', Array (Prim ROS_TYPE_DOUBLE) 3),
      (''int8_values_default'', Array (Prim ROS_TYPE_INT8) 3),
      (''uint8_values_default'', Array (Prim ROS_TYPE_UINT8) 3),
      (''int16_values_default'', Array (Prim ROS_TYPE_INT16) 3),
      (''uint16_values_default'', Array (Prim ROS_TYPE_UINT16) 3),
      (''int32_values_default'', Array (Prim ROS_TYPE_INT32) 3),
      (''uint32_values_default'', Array (Prim ROS_TYPE_UINT32) 3),
      (''int64_values_default'', Array (Prim ROS_TYPE_INT64) 3),
      (''uint64_values_default'', Array (Prim ROS_TYPE_UINT64) 3),
      (''string_values_default'', Array Text 3), (''alignment_check'', Prim ROS_TYPE_INT32)]"

definition test_msgs__msg__BoundedSequences :: c_struct where
  "test_msgs__msg__BoundedSequences = C_Struct ''test_msgs__msg'' ''BoundedSequences''
     [(''bool_values'', Sequence (Prim ROS_TYPE_BOOLEAN) 3),
      (''byte_values'', Sequence (Prim ROS_TYPE_OCTET) 3),
      (''char_values'', Sequence (Prim ROS_TYPE_UINT8) 3),
      (''float32_values'', Sequence (Prim ROS_TYPE_FLOAT) 3),
      (''float64_values'', Sequence (Prim ROS_TYPE_DOUBLE) 3),
      (''int8_values'', Sequence (Prim ROS_TYPE_INT8) 3),
      (''uint8_values'', Sequence (Prim ROS_TYPE_UINT8) 3),
      (''int16_values'', Sequence (Prim ROS_TYPE_INT16) 3),
      (''uint16_values'', Sequence (Prim ROS_TYPE_UINT16) 3),
      (''int32_values'', Sequence (Prim ROS_TYPE_INT32) 3),
      (''uint32_values'', Sequence (Prim ROS_TYPE_UINT32) 3),
      (''int64_values'', Sequence (Prim ROS_TYPE_INT64) 3),
      (''uint64_values'', Sequence (Prim ROS_TYPE_UINT64) 3),
      (''string_values'', Sequence Text 3),
      (''basic_types_values'', Sequence (Struct test_msgs__msg__BasicTypes) 3),
      (''constants_values'', Sequence (Struct test_msgs__msg__Constants) 3),
      (''defaults_values'', Sequence (Struct test_msgs__msg__Defaults) 3),
      (''bool_values_default'', Sequence (Prim ROS_TYPE_BOOLEAN) 3),
      (''byte_values_default'', Sequence (Prim ROS_TYPE_OCTET) 3),
      (''char_values_default'', Sequence (Prim ROS_TYPE_UINT8) 3),
      (''float32_values_default'', Sequence (Prim ROS_TYPE_FLOAT) 3),
      (''float64_values_default'', Sequence (Prim ROS_TYPE_DOUBLE) 3),
      (''int8_values_default'', Sequence (Prim ROS_TYPE_INT8) 3),
      (''uint8_values_default'', Sequence (Prim ROS_TYPE_UINT8) 3),
      (''int16_values_default'', Sequence (Prim ROS_TYPE_INT16) 3),
      (''uint16_values_default'', Sequence (Prim ROS_TYPE_UINT16) 3),
      (''int32_values_default'', Sequence (Prim ROS_TYPE_INT32) 3),
      (''uint32_values_default'', Sequence (Prim ROS_TYPE_UINT32) 3),
      (''int64_values_default'', Sequence (Prim ROS_TYPE_INT64) 3),
      (''uint64_values_default'', Sequence (Prim ROS_TYPE_UINT64) 3),
      (''string_values_default'', Sequence Text 3), (''alignment_check'', Prim ROS_TYPE_INT32)]"

definition test_msgs__msg__Empty :: c_struct where
  "test_msgs__msg__Empty = C_Struct ''test_msgs__msg'' ''Empty''
     [(''structure_needs_at_least_one_member'', Prim ROS_TYPE_UINT8)]"

definition test_msgs__msg__UnboundedSequences :: c_struct where
  "test_msgs__msg__UnboundedSequences = C_Struct ''test_msgs__msg'' ''UnboundedSequences''
     [(''bool_values'', Sequence (Prim ROS_TYPE_BOOLEAN) 0),
      (''byte_values'', Sequence (Prim ROS_TYPE_OCTET) 0),
      (''char_values'', Sequence (Prim ROS_TYPE_UINT8) 0),
      (''float32_values'', Sequence (Prim ROS_TYPE_FLOAT) 0),
      (''float64_values'', Sequence (Prim ROS_TYPE_DOUBLE) 0),
      (''int8_values'', Sequence (Prim ROS_TYPE_INT8) 0),
      (''uint8_values'', Sequence (Prim ROS_TYPE_UINT8) 0),
      (''int16_values'', Sequence (Prim ROS_TYPE_INT16) 0),
      (''uint16_values'', Sequence (Prim ROS_TYPE_UINT16) 0),
      (''int32_values'', Sequence (Prim ROS_TYPE_INT32) 0),
      (''uint32_values'', Sequence (Prim ROS_TYPE_UINT32) 0),
      (''int64_values'', Sequence (Prim ROS_TYPE_INT64) 0),
      (''uint64_values'', Sequence (Prim ROS_TYPE_UINT64) 0),
      (''string_values'', Sequence Text 0),
      (''basic_types_values'', Sequence (Struct test_msgs__msg__BasicTypes) 0),
      (''constants_values'', Sequence (Struct test_msgs__msg__Constants) 0),
      (''defaults_values'', Sequence (Struct test_msgs__msg__Defaults) 0),
      (''bool_values_default'', Sequence (Prim ROS_TYPE_BOOLEAN) 0),
      (''byte_values_default'', Sequence (Prim ROS_TYPE_OCTET) 0),
      (''char_values_default'', Sequence (Prim ROS_TYPE_UINT8) 0),
      (''float32_values_default'', Sequence (Prim ROS_TYPE_FLOAT) 0),
      (''float64_values_default'', Sequence (Prim ROS_TYPE_DOUBLE) 0),
      (''int8_values_default'', Sequence (Prim ROS_TYPE_INT8) 0),
      (''uint8_values_default'', Sequence (Prim ROS_TYPE_UINT8) 0),
      (''int16_values_default'', Sequence (Prim ROS_TYPE_INT16) 0),
      (''uint16_values_default'', Sequence (Prim ROS_TYPE_UINT16) 0),
      (''int32_values_default'', Sequence (Prim ROS_TYPE_INT32) 0),
      (''uint32_values_default'', Sequence (Prim ROS_TYPE_UINT32) 0),
      (''int64_values_default'', Sequence (Prim ROS_TYPE_INT64) 0),
      (''uint64_values_default'', Sequence (Prim ROS_TYPE_UINT64) 0),
      (''string_values_default'', Sequence Text 0), (''alignment_check'', Prim ROS_TYPE_INT32)]"

definition test_msgs__msg__MultiNested :: c_struct where
  "test_msgs__msg__MultiNested = C_Struct ''test_msgs__msg'' ''MultiNested''
     [(''array_of_arrays'', Array (Struct test_msgs__msg__Arrays) 3),
      (''array_of_bounded_sequences'', Array (Struct test_msgs__msg__BoundedSequences) 3),
      (''array_of_unbounded_sequences'', Array (Struct test_msgs__msg__UnboundedSequences) 3),
      (''bounded_sequence_of_arrays'', Sequence (Struct test_msgs__msg__Arrays) 3),
      (''bounded_sequence_of_bounded_sequences'', Sequence (Struct test_msgs__msg__BoundedSequences) 3),
      (''bounded_sequence_of_unbounded_sequences'', Sequence (Struct test_msgs__msg__UnboundedSequences) 3),
      (''unbounded_sequence_of_arrays'', Sequence (Struct test_msgs__msg__Arrays) 0),
      (''unbounded_sequence_of_bounded_sequences'', Sequence (Struct test_msgs__msg__BoundedSequences) 0),
      (''unbounded_sequence_of_unbounded_sequences'', Sequence (Struct test_msgs__msg__UnboundedSequences) 0)]"

definition test_msgs__msg__Nested :: c_struct where
  "test_msgs__msg__Nested = C_Struct ''test_msgs__msg'' ''Nested''
     [(''basic_types_value'', Struct test_msgs__msg__BasicTypes)]"

definition test_msgs__msg__Strings :: c_struct where
  "test_msgs__msg__Strings = C_Struct ''test_msgs__msg'' ''Strings''
     [(''string_value'', Text), (''string_value_default1'', Text),
      (''string_value_default2'', Text), (''string_value_default3'', Text),
      (''string_value_default4'', Text), (''string_value_default5'', Text),
      (''bounded_string_value'', Text), (''bounded_string_value_default1'', Text),
      (''bounded_string_value_default2'', Text), (''bounded_string_value_default3'', Text),
      (''bounded_string_value_default4'', Text), (''bounded_string_value_default5'', Text)]"

definition test_msgs__msg__WStrings :: c_struct where
  "test_msgs__msg__WStrings = C_Struct ''test_msgs__msg'' ''WStrings''
     [(''wstring_value'', Text16), (''wstring_value_default1'', Text16),
      (''wstring_value_default2'', Text16), (''wstring_value_default3'', Text16),
      (''array_of_wstrings'', Array Text16 3),
      (''bounded_sequence_of_wstrings'', Sequence Text16 3),
      (''unbounded_sequence_of_wstrings'', Sequence Text16 0)]"

definition test_msgs__srv__Arrays_Request :: c_struct where
  "test_msgs__srv__Arrays_Request = C_Struct ''test_msgs__srv'' ''Arrays_Request''
     [(''bool_values'', Array (Prim ROS_TYPE_BOOLEAN) 3),
      (''byte_values'', Array (Prim ROS_TYPE_UINT8) 3),
      (''char_values'', Array (Prim ROS_TYPE_UINT8) 3),
      (''float32_values'', Array (Prim ROS_TYPE_FLOAT) 3),
      (''float64_values'', Array (Prim ROS_TYPE_DOUBLE) 3),
      (''int8_values'', Array (Prim ROS_TYPE_INT8) 3),
      (''uint8_values'', Array (Prim ROS_TYPE_UINT8) 3),
      (''int16_values'', Array (Prim ROS_TYPE_INT16) 3),
      (''uint16_values'', Array (Prim ROS_TYPE_UINT16) 3),
      (''int32_values'', Array (Prim ROS_TYPE_INT32) 3),
      (''uint32_values'', Array (Prim ROS_TYPE_UINT32) 3),
      (''int64_values'', Array (Prim ROS_TYPE_INT64) 3),
      (''uint64_values'', Array (Prim ROS_TYPE_UINT64) 3), (''string_values'', Array Text 3),
      (''basic_types_values'', Array (Struct test_msgs__msg__BasicTypes) 3),
      (''constants_values'', Array (Struct test_msgs__msg__Constants) 3),
      (''defaults_values'', Array (Struct test_msgs__msg__Defaults) 3),
      (''bool_values_default'', Array (Prim ROS_TYPE_BOOLEAN) 3),
      (''byte_values_default'', Array (Prim ROS_TYPE_UINT8) 3),
      (''char_values_default'', Array (Prim ROS_TYPE_UINT8) 3),
      (''float32_values_default'', Array (Prim ROS_TYPE_FLOAT) 3),
      (''float64_values_default'', Array (Prim ROS_TYPE_DOUBLE) 3),
      (''int8_values_default'', Array (Prim ROS_TYPE_INT8) 3),
      (''uint8_values_default'', Array (Prim ROS_TYPE_UINT8) 3),
      (''int16_values_default'', Array (Prim ROS_TYPE_INT16) 3),
      (''uint16_values_default'', Array (Prim ROS_TYPE_UINT16) 3),
      (''int32_values_default'', Array (Prim ROS_TYPE_INT32) 3),
      (''uint32_values_default'', Array (Prim ROS_TYPE_UINT32) 3),
      (''int64_values_default'', Array (Prim ROS_TYPE_INT64) 3),
      (''uint64_values_default'', Array (Prim ROS_TYPE_UINT64) 3),
      (''string_values_default'', Array Text 3)]"

definition test_msgs__srv__Arrays_Response :: c_struct where
  "test_msgs__srv__Arrays_Response = C_Struct ''test_msgs__srv'' ''Arrays_Response''
     [(''bool_values'', Array (Prim ROS_TYPE_BOOLEAN) 3),
      (''byte_values'', Array (Prim ROS_TYPE_UINT8) 3),
      (''char_values'', Array (Prim ROS_TYPE_UINT8) 3),
      (''float32_values'', Array (Prim ROS_TYPE_FLOAT) 3),
      (''float64_values'', Array (Prim ROS_TYPE_DOUBLE) 3),
      (''int8_values'', Array (Prim ROS_TYPE_INT8) 3),
      (''uint8_values'', Array (Prim ROS_TYPE_UINT8) 3),
      (''int16_values'', Array (Prim ROS_TYPE_INT16) 3),
      (''uint16_values'', Array (Prim ROS_TYPE_UINT16) 3),
      (''int32_values'', Array (Prim ROS_TYPE_INT32) 3),
      (''uint32_values'', Array (Prim ROS_TYPE_UINT32) 3),
      (''int64_values'', Array (Prim ROS_TYPE_INT64) 3),
      (''uint64_values'', Array (Prim ROS_TYPE_UINT64) 3), (''string_values'', Array Text 3),
      (''basic_types_values'', Array (Struct test_msgs__msg__BasicTypes) 3),
      (''constants_values'', Array (Struct test_msgs__msg__Constants) 3),
      (''defaults_values'', Array (Struct test_msgs__msg__Defaults) 3),
      (''bool_values_default'', Array (Prim ROS_TYPE_BOOLEAN) 3),
      (''byte_values_default'', Array (Prim ROS_TYPE_UINT8) 3),
      (''char_values_default'', Array (Prim ROS_TYPE_UINT8) 3),
      (''float32_values_default'', Array (Prim ROS_TYPE_FLOAT) 3),
      (''float64_values_default'', Array (Prim ROS_TYPE_DOUBLE) 3),
      (''int8_values_default'', Array (Prim ROS_TYPE_INT8) 3),
      (''uint8_values_default'', Array (Prim ROS_TYPE_UINT8) 3),
      (''int16_values_default'', Array (Prim ROS_TYPE_INT16) 3),
      (''uint16_values_default'', Array (Prim ROS_TYPE_UINT16) 3),
      (''int32_values_default'', Array (Prim ROS_TYPE_INT32) 3),
      (''uint32_values_default'', Array (Prim ROS_TYPE_UINT32) 3),
      (''int64_values_default'', Array (Prim ROS_TYPE_INT64) 3),
      (''uint64_values_default'', Array (Prim ROS_TYPE_UINT64) 3),
      (''string_values_default'', Array Text 3)]"

definition test_msgs__srv__BasicTypes_Request :: c_struct where
  "test_msgs__srv__BasicTypes_Request = C_Struct ''test_msgs__srv'' ''BasicTypes_Request''
     [(''bool_value'', Prim ROS_TYPE_BOOLEAN), (''byte_value'', Prim ROS_TYPE_UINT8),
      (''char_value'', Prim ROS_TYPE_UINT8), (''float32_value'', Prim ROS_TYPE_FLOAT),
      (''float64_value'', Prim ROS_TYPE_DOUBLE), (''int8_value'', Prim ROS_TYPE_INT8),
      (''uint8_value'', Prim ROS_TYPE_UINT8), (''int16_value'', Prim ROS_TYPE_INT16),
      (''uint16_value'', Prim ROS_TYPE_UINT16), (''int32_value'', Prim ROS_TYPE_INT32),
      (''uint32_value'', Prim ROS_TYPE_UINT32), (''int64_value'', Prim ROS_TYPE_INT64),
      (''uint64_value'', Prim ROS_TYPE_UINT64), (''string_value'', Text)]"

definition test_msgs__srv__BasicTypes_Response :: c_struct where
  "test_msgs__srv__BasicTypes_Response = C_Struct ''test_msgs__srv'' ''BasicTypes_Response''
     [(''bool_value'', Prim ROS_TYPE_BOOLEAN), (''byte_value'', Prim ROS_TYPE_UINT8),
      (''char_value'', Prim ROS_TYPE_UINT8), (''float32_value'', Prim ROS_TYPE_FLOAT),
      (''float64_value'', Prim ROS_TYPE_DOUBLE), (''int8_value'', Prim ROS_TYPE_INT8),
      (''uint8_value'', Prim ROS_TYPE_UINT8), (''int16_value'', Prim ROS_TYPE_INT16),
      (''uint16_value'', Prim ROS_TYPE_UINT16), (''int32_value'', Prim ROS_TYPE_INT32),
      (''uint32_value'', Prim ROS_TYPE_UINT32), (''int64_value'', Prim ROS_TYPE_INT64),
      (''uint64_value'', Prim ROS_TYPE_UINT64), (''string_value'', Text)]"

definition test_msgs__srv__Empty_Request :: c_struct where
  "test_msgs__srv__Empty_Request = C_Struct ''test_msgs__srv'' ''Empty_Request''
     [(''structure_needs_at_least_one_member'', Prim ROS_TYPE_UINT8)]"

definition test_msgs__srv__Empty_Response :: c_struct where
  "test_msgs__srv__Empty_Response = C_Struct ''test_msgs__srv'' ''Empty_Response''
     [(''structure_needs_at_least_one_member'', Prim ROS_TYPE_UINT8)]"

section \<open>All of them\<close>

definition test_messages :: "c_struct list" where
  "test_messages =
     [test_msgs__action__Fibonacci_Feedback,
      test_msgs__action__Fibonacci_FeedbackMessage,
      test_msgs__action__Fibonacci_GetResult_Request,
      test_msgs__action__Fibonacci_Result,
      test_msgs__action__Fibonacci_GetResult_Response,
      test_msgs__action__Fibonacci_Goal,
      test_msgs__action__Fibonacci_SendGoal_Request,
      test_msgs__action__Fibonacci_SendGoal_Response,
      test_msgs__msg__Builtins,
      test_msgs__msg__BasicTypes,
      test_msgs__action__NestedMessage_Feedback,
      test_msgs__action__NestedMessage_FeedbackMessage,
      test_msgs__action__NestedMessage_GetResult_Request,
      test_msgs__action__NestedMessage_Result,
      test_msgs__action__NestedMessage_GetResult_Response,
      test_msgs__action__NestedMessage_Goal,
      test_msgs__action__NestedMessage_SendGoal_Request,
      test_msgs__action__NestedMessage_SendGoal_Response,
      test_msgs__msg__Constants,
      test_msgs__msg__Defaults,
      test_msgs__msg__Arrays,
      test_msgs__msg__BoundedSequences,
      test_msgs__msg__Empty,
      test_msgs__msg__UnboundedSequences,
      test_msgs__msg__MultiNested,
      test_msgs__msg__Nested,
      test_msgs__msg__Strings,
      test_msgs__msg__WStrings,
      test_msgs__srv__Arrays_Request,
      test_msgs__srv__Arrays_Response,
      test_msgs__srv__BasicTypes_Request,
      test_msgs__srv__BasicTypes_Response,
      test_msgs__srv__Empty_Request,
      test_msgs__srv__Empty_Response]"

lemmas test_messages_defs =
  test_msgs__action__Fibonacci_Feedback_def
  test_msgs__action__Fibonacci_FeedbackMessage_def
  test_msgs__action__Fibonacci_GetResult_Request_def
  test_msgs__action__Fibonacci_Result_def
  test_msgs__action__Fibonacci_GetResult_Response_def
  test_msgs__action__Fibonacci_Goal_def
  test_msgs__action__Fibonacci_SendGoal_Request_def
  test_msgs__action__Fibonacci_SendGoal_Response_def
  test_msgs__msg__Builtins_def
  test_msgs__msg__BasicTypes_def
  test_msgs__action__NestedMessage_Feedback_def
  test_msgs__action__NestedMessage_FeedbackMessage_def
  test_msgs__action__NestedMessage_GetResult_Request_def
  test_msgs__action__NestedMessage_Result_def
  test_msgs__action__NestedMessage_GetResult_Response_def
  test_msgs__action__NestedMessage_Goal_def
  test_msgs__action__NestedMessage_SendGoal_Request_def
  test_msgs__action__NestedMessage_SendGoal_Response_def
  test_msgs__msg__Constants_def
  test_msgs__msg__Defaults_def
  test_msgs__msg__Arrays_def
  test_msgs__msg__BoundedSequences_def
  test_msgs__msg__Empty_def
  test_msgs__msg__UnboundedSequences_def
  test_msgs__msg__MultiNested_def
  test_msgs__msg__Nested_def
  test_msgs__msg__Strings_def
  test_msgs__msg__WStrings_def
  test_msgs__srv__Arrays_Request_def
  test_msgs__srv__Arrays_Response_def
  test_msgs__srv__BasicTypes_Request_def
  test_msgs__srv__BasicTypes_Response_def
  test_msgs__srv__Empty_Request_def
  test_msgs__srv__Empty_Response_def

end
