(* ===== verification/Message_Library.thy ===== *)
theory Message_Library
  imports Message_Properties Test_Messages
begin

















end
