(* ===== verification/Clock.thy ===== *)
theory Clock
  imports Prelude
begin

text \<open>
  The clock that the transports give to the client library: \<^verbatim>\<open>clock_gettime\<close> of
  \<^verbatim>\<open>src/rtt_serial_transports.c\<close>, \<^verbatim>\<open>src/rtt_tcp_transport.c\<close> (the same function) and
  \<^verbatim>\<open>src/rtt_udp_transport.c\<close> (which keeps a rollover count). The tick counter of RT-Thread
  (\<^verbatim>\<open>rt_tick_get\<close>, 32 bits) and its frequency \<^verbatim>\<open>RT_TICK_PER_SECOND\<close> are parameters. All
  arithmetic is that of the C types: the product with 1000 is formed in 32 bits.
\<close>

section \<open>Definitions\<close>

record timespec =
  tv_sec :: int64_t
  tv_nsec :: int32_t

text \<open>\<^verbatim>\<open>uint64_t m = rt_tick_get() * 1000 / RT_TICK_PER_SECOND * 1000\<close>\<close>

definition tick_microseconds :: "uint32_t \<Rightarrow> uint32_t \<Rightarrow> uint64_t" where
  "tick_microseconds tps tick = ucast (tick * 1000 div tps * 1000)"

definition timespec_of :: "uint64_t \<Rightarrow> timespec" where
  "timespec_of us = \<lparr>tv_sec = us div 1000000, tv_nsec = ucast (us mod 1000000 * 1000)\<rparr>"

definition clock_gettime :: "uint32_t \<Rightarrow> uint32_t \<Rightarrow> timespec" where
  "clock_gettime tps tick = timespec_of (tick_microseconds tps tick)"

record udp_clock =
  rollover :: uint32_t
  last_measure :: uint32_t

definition micro_rollover_useconds :: uint64_t where
  "micro_rollover_useconds = 4294967295"

definition udp_clock_gettime :: "uint32_t \<Rightarrow> uint32_t \<Rightarrow> udp_clock \<Rightarrow> timespec \<times> udp_clock" where
  "udp_clock_gettime tps tick st =
     (let m = tick_microseconds tps tick;
          r = rollover st + (if m < ucast (last_measure st) then 1 else 0);
          real_us = m + ucast r * micro_rollover_useconds
      in (timespec_of real_us, \<lparr>rollover = r, last_measure = ucast m\<rparr>))"

text \<open>Repeated readings.\<close>

fun udp_readings :: "uint32_t \<Rightarrow> uint32_t list \<Rightarrow> udp_clock \<Rightarrow> timespec list" where
  "udp_readings tps [] st = []"
| "udp_readings tps (t # ts) st =
     (case udp_clock_gettime tps t st of (r, st') \<Rightarrow> r # udp_readings tps ts st')"

text \<open>A time in nanoseconds.\<close>

definition nanoseconds :: "timespec \<Rightarrow> nat" where
  "nanoseconds ts = unat (tv_sec ts) * 1000000000 + unat (tv_nsec ts)"

section \<open>Lemmas\<close>

lemma unat_ucast_up: "unat (ucast (w :: 32 word) :: 64 word) = unat w"
  using unat_less_2p32 [of w] by (simp add: unsigned_ucast_eq take_bit_nat_eq_self)

lemma unat_ucast_down: "unat (w :: 64 word) < 2 ^ 32 \<Longrightarrow> unat (ucast w :: 32 word) = unat w"
  by (simp add: unsigned_ucast_eq take_bit_nat_eq_self)

lemma unat_us_mod: "unat ((us :: uint64_t) mod 1000000 * 1000) = unat us mod 1000000 * 1000"
proof -
  have "unat us mod 1000000 * 1000 < 2 ^ 64" by (rule less_trans [of _ "1000000 * 1000"]) simp_all
  then show ?thesis by (simp add: unat_word_ariths unat_mod)
qed

lemma nanoseconds_timespec_of: "nanoseconds (timespec_of us) = unat us * 1000"
proof -
  have small: "unat us mod 1000000 * 1000 < 2 ^ 32" by (rule less_trans [of _ "1000000 * 1000"]) simp_all
  have "unat (ucast (us mod 1000000 * 1000) :: 32 word) = unat us mod 1000000 * 1000"
    using small by (subst unat_ucast_down) (simp_all add: unat_us_mod)
  then have "nanoseconds (timespec_of us) = unat us div 1000000 * 1000000000 + unat us mod 1000000 * 1000"
    by (simp add: nanoseconds_def timespec_of_def unat_div)
  moreover have "n div 1000000 * 1000000000 + n mod 1000000 * 1000 = n * 1000" for n :: nat
    using div_mult_mod_eq [of n 1000000] by linarith
  ultimately show ?thesis by simp
qed

lemma nsec_bound: "unat (tv_nsec (timespec_of us)) < 1000000000"
proof -
  have small: "unat us mod 1000000 * 1000 < 2 ^ 32" by (rule less_trans [of _ "1000000 * 1000"]) simp_all
  moreover have "unat us mod 1000000 * 1000 < 1000000000"
    using mod_less_divisor [of 1000000 "unat us"] by simp
  ultimately show ?thesis
    unfolding timespec_of_def timespec.select_convs
    by (subst unat_ucast_down) (simp_all add: unat_us_mod)
qed

lemma tick_microseconds_bound: "unat (tick_microseconds tps tick) < 2 ^ 32"
  unfolding tick_microseconds_def unat_ucast_up by (rule unat_less_2p32)

lemma udp_reading:
  assumes "udp_clock_gettime tps t st = (r, st')" and "unat (rollover st) < 2 ^ 32 - 1"
  shows "nanoseconds r = (unat (last_measure st') + unat (rollover st') * (2 ^ 32 - 1)) * 1000"
    and "unat (last_measure st) + unat (rollover st) * (2 ^ 32 - 1) \<le>
      unat (last_measure st') + unat (rollover st') * (2 ^ 32 - 1)"
    and "unat (rollover st') \<le> unat (rollover st) + 1"
proof -
  define m where "m = tick_microseconds tps t"
  define k where "k = rollover st + (if m < ucast (last_measure st) then 1 else 0)"
  have mb: "unat m < 2 ^ 32" unfolding m_def by (rule tick_microseconds_bound)
  have st': "st' = \<lparr>rollover = k, last_measure = ucast m\<rparr>" "r = timespec_of (m + ucast k * micro_rollover_useconds)"
    using assms(1) by (simp_all add: udp_clock_gettime_def Let_def m_def k_def)
  have lm: "unat (last_measure st') = unat m" using mb by (simp add: st' unat_ucast_down)
  have kk: "unat k = unat (rollover st) + (if unat m < unat (last_measure st) then 1 else 0)"
    using assms(2) by (auto simp: k_def word_less_nat_alt unat_ucast_up unat_add_small)
  have kb: "unat k < 2 ^ 32" by (rule unat_less_2p32)
  have prod: "unat k * 4294967295 \<le> 4294967295 * 4294967295" using kb by simp
  have "unat (ucast k * micro_rollover_useconds :: 64 word) = unat k * (2 ^ 32 - 1)"
    using prod by (simp add: unat_word_ariths unat_ucast_up micro_rollover_useconds_def)
  then have "unat (m + ucast k * micro_rollover_useconds) = unat m + unat k * (2 ^ 32 - 1)"
    using prod mb by (simp add: unat_word_ariths)
  then show "nanoseconds r = (unat (last_measure st') + unat (rollover st') * (2 ^ 32 - 1)) * 1000"
    by (simp add: st'(2) nanoseconds_timespec_of lm) (simp add: st')
  show "unat (last_measure st) + unat (rollover st) * (2 ^ 32 - 1) \<le>
      unat (last_measure st') + unat (rollover st') * (2 ^ 32 - 1)"
    using kk unat_less_2p32 [of "last_measure st"] unfolding lm by (auto simp: st' split: if_splits)
  show "unat (rollover st') \<le> unat (rollover st) + 1" using kk by (simp add: st')
qed

lemma udp_readings_lower:
  "unat (rollover st) + length ts < 2 ^ 32 \<Longrightarrow> r \<in> set (udp_readings tps ts st) \<Longrightarrow>
   (unat (last_measure st) + unat (rollover st) * (2 ^ 32 - 1)) * 1000 \<le> nanoseconds r"
proof (induction ts arbitrary: st)
  case (Cons t ts)
  obtain r1 st1 where e: "udp_clock_gettime tps t st = (r1, st1)" by (cases "udp_clock_gettime tps t st")
  have "unat (rollover st) < 2 ^ 32 - 1" using Cons.prems(1) by simp
  note u = udp_reading [OF e this]
  from Cons.prems(2) e consider "r = r1" | "r \<in> set (udp_readings tps ts st1)" by auto
  then show ?case
  proof cases
    case 1
    then show ?thesis using u(1,2) by simp
  next
    case 2
    have "unat (rollover st1) + length ts < 2 ^ 32" using Cons.prems(1) u(3) by simp
    from le_trans [OF mult_le_mono1 [OF u(2)] Cons.IH [OF this 2]] show ?thesis .
  qed
qed simp

section \<open>Properties\<close>

text \<open>
  C15: as long as the milliseconds since the start and their microseconds fit into 32 bits, the
  clock of the serial and TCP transports shows exactly the whole milliseconds since the start,
  and its nanosecond field is always below a second.
\<close>

theorem clock_gettime_exact:
  assumes "unat tick * 1000 < 2 ^ 32" and "unat tick * 1000 div unat tps * 1000 < 2 ^ 32"
  shows "nanoseconds (clock_gettime tps tick) = unat tick * 1000 div unat tps * 1000000 \<and>
    unat (tv_nsec (clock_gettime tps tick)) < 1000000000"
proof -
  have "unat (tick * 1000 div tps * 1000) = unat tick * 1000 div unat tps * 1000"
    using assms by (simp add: unat_word_ariths unat_div)
  then show ?thesis
    using nsec_bound by (simp add: clock_gettime_def nanoseconds_timespec_of tick_microseconds_def unat_ucast_up)
qed

theorem clock_gettime_exact_witness:
  "nanoseconds (clock_gettime 1000 90061) = 90061000000"
  using clock_gettime_exact [of 90061 1000] by simp

text \<open>
  The clock of the serial and TCP transports runs backwards: with a thousand ticks per
  second it shows 4294.967 seconds at tick 4294967 and 0 seconds one tick (a millisecond) later,
  because the tick count is multiplied by 1000 in 32 bits.
\<close>

lemma clock_gettime_runs_backwards:
  "nanoseconds (clock_gettime 1000 4294967) = 4294967000000 \<and>
   nanoseconds (clock_gettime 1000 (4294967 + 1)) = 0"
  by (simp add: clock_gettime_def nanoseconds_timespec_of tick_microseconds_def unat_ucast_up)

text \<open>
  The clock of the UDP transport never runs backwards, whatever the tick counter does
  between the readings (it may wrap any number of times), for fewer than 2^32 readings.
\<close>

lemma udp_clock_monotone:
  assumes "unat (rollover st) + length ts < 2 ^ 32"
  shows "sorted (map nanoseconds (udp_readings tps ts st))"
  using assms
proof (induction ts arbitrary: st)
  case (Cons t ts)
  obtain r1 st1 where e: "udp_clock_gettime tps t st = (r1, st1)" by (cases "udp_clock_gettime tps t st")
  have "unat (rollover st) < 2 ^ 32 - 1" using Cons.prems by simp
  note u = udp_reading [OF e this]
  have len: "unat (rollover st1) + length ts < 2 ^ 32" using Cons.prems u(3) by simp
  have "\<forall>r\<in>set (udp_readings tps ts st1). nanoseconds r1 \<le> nanoseconds r"
    using udp_readings_lower [OF len] u(1) by simp
  with Cons.IH [OF len] e show ?case by simp
qed simp

end
