(* ===== verification/Serial_Transport.thy ===== *)
theory Serial_Transport
  imports Prelude "HOL-Library.Signed_Division"
begin

text \<open>
  The serial transport, \<^verbatim>\<open>src/rtt_serial_transports.c\<close>: its static variables, its operations
  and the receive interrupt. RT-Thread is not in the repository: its device, clock and semaphore
  functions are the parameter \<open>env\<close>, a record of functions on an arbitrary state of the outside
  world, which also holds the semaphore \<^verbatim>\<open>rx_sem\<close>. What the code relies on is stated by two
  locales: \<open>rx_semaphore\<close> (the life cycle that the kernel asserts) and its extension
  \<open>serial_line\<close> (what reading a byte and waiting do). A line with a receive queue and scheduled
  arrivals interprets both.
\<close>

section \<open>RT-Thread\<close>

text \<open>Taking a semaphore returns, or blocks for ever, or fails the assertion of the kernel.\<close>

datatype 'w taken = Taken 'w | Blocks | Asserts

record 'w rt_env =
  env_tick :: "'w \<Rightarrow> uint32_t"
  env_find :: "string \<Rightarrow> 'w \<Rightarrow> nat option"
  env_open :: "nat \<Rightarrow> 'w \<Rightarrow> 'w"
  env_set_rx_indicate :: "nat \<Rightarrow> 'w \<Rightarrow> 'w"
  env_close :: "nat \<Rightarrow> 'w \<Rightarrow> 'w"
  env_write :: "nat \<Rightarrow> uint8_t list \<Rightarrow> 'w \<Rightarrow> size_t \<times> 'w"
  env_read :: "nat \<Rightarrow> 'w \<Rightarrow> uint8_t option \<times> 'w"
  env_sem_init :: "'w \<Rightarrow> 'w option"
  env_sem_take :: "int \<Rightarrow> 'w \<Rightarrow> 'w taken"
  env_sem_release :: "'w \<Rightarrow> 'w option"
  env_sem_detach :: "'w \<Rightarrow> 'w option"

text \<open>
  \<open>env_read\<close> tries to read one byte without waiting; the semaphore functions return \<open>None\<close> when
  an assertion of the kernel fails.
\<close>

record 'w serial_state =
  sem_initialized :: bool
  micro_ros_serial :: "nat option"
  world :: 'w

definition asserting :: "('w \<Rightarrow> 'w option) \<Rightarrow> ('w serial_state, unit) cmd" where
  "asserting f = cupdate (\<lambda>s. case f (world s) of
     None \<Rightarrow> Inl AssertionFailed | Some w \<Rightarrow> Inr (s\<lparr>world := w\<rparr>))"

definition with_device :: "(nat \<Rightarrow> ('w serial_state, 'a) cmd) \<Rightarrow> ('w serial_state, 'a) cmd" where
  "with_device f = cbind (cread (\<lambda>s. case micro_ros_serial s of None \<Rightarrow> Inl NullDereference | Some d \<Rightarrow> Inr d)) f"

section \<open>Operations\<close>

definition MICRO_ROS_SERIAL_NAME :: string where
  "MICRO_ROS_SERIAL_NAME = ''uart3''"

definition uart_input :: "'w rt_env \<Rightarrow> ('w serial_state, unit) cmd" where
  "uart_input env = asserting (env_sem_release env)"

definition ensure_sem :: "'w rt_env \<Rightarrow> ('w serial_state, unit) cmd" where
  "ensure_sem env =
     cbind (cget sem_initialized) (\<lambda>b.
     cwhen (\<not> b) (cseq (asserting (env_sem_init env)) (cmodify (\<lambda>s. s\<lparr>sem_initialized := True\<rparr>))))"

definition rtt_transport_open :: "'w rt_env \<Rightarrow> ('w serial_state, bool) cmd" where
  "rtt_transport_open env =
     cseq (cmodify (\<lambda>s. s\<lparr>micro_ros_serial := env_find env MICRO_ROS_SERIAL_NAME (world s)\<rparr>))
     (cbind (cget micro_ros_serial) (\<lambda>dev.
      case dev of
        None \<Rightarrow> creturn False
      | Some d \<Rightarrow>
          cseq (ensure_sem env)
          (cseq (cmodify (\<lambda>s. s\<lparr>world := env_open env d (world s)\<rparr>))
          (cseq (cmodify (\<lambda>s. s\<lparr>world := env_set_rx_indicate env d (world s)\<rparr>))
          (creturn True)))))"

definition rtt_transport_close :: "'w rt_env \<Rightarrow> ('w serial_state, bool) cmd" where
  "rtt_transport_close env =
     with_device (\<lambda>d.
     cseq (cmodify (\<lambda>s. s\<lparr>world := env_close env d (world s)\<rparr>))
     (cseq (asserting (env_sem_detach env))
     (cseq (cmodify (\<lambda>s. s\<lparr>sem_initialized := False\<rparr>))
     (creturn True))))"

definition rtt_transport_write :: "'w rt_env \<Rightarrow> uint8_t list \<Rightarrow> ('w serial_state, size_t) cmd" where
  "rtt_transport_write env buf =
     with_device (\<lambda>d s. case env_write env d buf (world s) of (n, w) \<Rightarrow> Inr (n, s\<lparr>world := w\<rparr>))"

definition device_read :: "'w rt_env \<Rightarrow> ('w serial_state, uint8_t option) cmd" where
  "device_read env =
     with_device (\<lambda>d s. case env_read env d (world s) of (r, w) \<Rightarrow> Inr (r, s\<lparr>world := w\<rparr>))"

text \<open>
  The inner loop, which waits for one byte. \<open>tick\<close> and \<open>timeout\<close> are C ints; the elapsed ticks
  are compared without sign. \<open>None\<close> as the whole result: the loop does not end (with this much
  fuel); as the byte: the timeout passed.
\<close>

definition quarter :: "int32_t \<Rightarrow> int" where
  "quarter timeout = sint timeout sdiv 4"

fun wait_byte ::
    "nat \<Rightarrow> 'w rt_env \<Rightarrow> uint32_t \<Rightarrow> int32_t \<Rightarrow> 'w serial_state \<Rightarrow>
     (c_error + uint8_t option \<times> 'w serial_state) option" where
  "wait_byte 0 env tick timeout s = None"
| "wait_byte (Suc fuel) env tick timeout s =
     (case device_read env s of
        Inl e \<Rightarrow> Some (Inl e)
      | Inr (Some b, s) \<Rightarrow> Some (Inr (Some b, s))
      | Inr (None, s) \<Rightarrow>
          (case env_sem_take env (quarter timeout) (world s) of
             Asserts \<Rightarrow> Some (Inl AssertionFailed)
           | Blocks \<Rightarrow> None
           | Taken w \<Rightarrow>
               if env_tick env w - tick > timeout then Some (Inr (None, s\<lparr>world := w\<rparr>))
               else wait_byte fuel env tick timeout (s\<lparr>world := w\<rparr>)))"

text \<open>The outer loop: \<open>n\<close> bytes are still to be read, the next one into \<open>buf[i]\<close>.\<close>

fun read_loop ::
    "nat \<Rightarrow> 'w rt_env \<Rightarrow> uint32_t \<Rightarrow> int32_t \<Rightarrow> nat \<Rightarrow> nat \<Rightarrow> uint8_t list \<Rightarrow> 'w serial_state \<Rightarrow>
     (c_error + (nat \<times> uint8_t list) \<times> 'w serial_state) option" where
  "read_loop fuel env tick timeout 0 i buf s = Some (Inr ((i, buf), s))"
| "read_loop fuel env tick timeout (Suc n) i buf s =
     (case ensure_sem env s of
        Inl e \<Rightarrow> Some (Inl e)
      | Inr (_, s) \<Rightarrow>
          (case wait_byte fuel env tick timeout s of
             None \<Rightarrow> None
           | Some (Inl e) \<Rightarrow> Some (Inl e)
           | Some (Inr (None, s)) \<Rightarrow> Some (Inr ((i, buf), s))
           | Some (Inr (Some b, s)) \<Rightarrow>
               if i < length buf then read_loop fuel env tick timeout n (Suc i) (buf[i := b]) s
               else Some (Inl OutOfBounds)))"

definition rtt_transport_read ::
    "nat \<Rightarrow> 'w rt_env \<Rightarrow> uint8_t list \<Rightarrow> nat \<Rightarrow> int32_t \<Rightarrow> 'w serial_state \<Rightarrow>
     (c_error + (nat \<times> uint8_t list) \<times> 'w serial_state) option" where
  "rtt_transport_read fuel env buf len timeout s =
     read_loop fuel env (env_tick env (world s)) timeout len 0 buf s"

section \<open>The operations as steps\<close>

text \<open>What the client library and the interrupt may do, one operation at a time.\<close>

inductive serial_step :: "'w rt_env \<Rightarrow> 'w serial_state \<Rightarrow> 'w serial_state \<Rightarrow> bool" for env where
  step_open: "rtt_transport_open env s = Inr (b, t) \<Longrightarrow> serial_step env s t"
| step_close: "rtt_transport_close env s = Inr (b, t) \<Longrightarrow> serial_step env s t"
| step_write: "rtt_transport_write env buf s = Inr (n, t) \<Longrightarrow> serial_step env s t"
| step_read: "rtt_transport_read fuel env buf len timeout s = Some (Inr (r, t)) \<Longrightarrow> serial_step env s t"
| step_interrupt: "uart_input env s = Inr ((), t) \<Longrightarrow> serial_step env s t"

inductive serial_reachable :: "'w rt_env \<Rightarrow> 'w serial_state \<Rightarrow> 'w serial_state \<Rightarrow> bool" for env where
  reachable_refl: "serial_reachable env s s"
| reachable_step: "serial_reachable env s t \<Longrightarrow> serial_step env t u \<Longrightarrow> serial_reachable env s u"

section \<open>The life of the semaphore\<close>

locale rx_semaphore =
  fixes env :: "'w rt_env" and live :: "'w \<Rightarrow> bool"
  assumes init_law: "\<not> live w \<Longrightarrow> \<exists>w'. env_sem_init env w = Some w' \<and> live w'"
    and take_law: "live w \<Longrightarrow> env_sem_take env t w \<noteq> Asserts"
    and take_keeps: "env_sem_take env t w = Taken w' \<Longrightarrow> live w' = live w"
    and release_law: "live w \<Longrightarrow> \<exists>w'. env_sem_release env w = Some w' \<and> live w'"
    and detach_law: "live w \<Longrightarrow> \<exists>w'. env_sem_detach env w = Some w' \<and> \<not> live w'"
    and dead_laws: "\<not> live w \<Longrightarrow> env_sem_release env w = None \<and> env_sem_detach env w = None"
    and device_laws: "live (env_open env d w) = live w" "live (env_set_rx_indicate env d w) = live w"
      "live (env_close env d w) = live w"
    and write_keeps: "env_write env d buf w = (n, w') \<Longrightarrow> live w' = live w"
    and read_keeps: "env_read env d w = (r, w') \<Longrightarrow> live w' = live w"
begin

definition sem_inv :: "'w serial_state \<Rightarrow> bool" where
  "sem_inv s \<longleftrightarrow> (sem_initialized s \<longleftrightarrow> live (world s))"

lemma ensure_sem_ok:
  assumes "sem_inv s"
  obtains s' where "ensure_sem env s = Inr ((), s')" "sem_inv s'" "sem_initialized s'"
    "micro_ros_serial s' = micro_ros_serial s" "sem_initialized s \<Longrightarrow> s' = s"
proof (cases "sem_initialized s")
  case True
  then show ?thesis using assms by (intro that [of s]) (simp_all add: ensure_sem_def cmd_defs)
next
  case False
  then obtain w where "env_sem_init env (world s) = Some w" "live w"
    using init_law [of "world s"] assms by (auto simp: sem_inv_def)
  with False show ?thesis
    by (intro that [of "s\<lparr>world := w, sem_initialized := True\<rparr>"])
      (simp_all add: ensure_sem_def asserting_def cmd_defs sem_inv_def)
qed

lemma open_ok:
  assumes "sem_inv s"
  obtains b s' where "rtt_transport_open env s = Inr (b, s')" "sem_inv s'"
    "b \<longleftrightarrow> micro_ros_serial s' \<noteq> None" "b \<Longrightarrow> sem_initialized s'"
proof -
  let ?s = "s\<lparr>micro_ros_serial := env_find env MICRO_ROS_SERIAL_NAME (world s)\<rparr>"
  show ?thesis
  proof (cases "micro_ros_serial ?s")
    case None
    then show ?thesis using assms
      by (intro that [of False ?s]) (simp_all add: rtt_transport_open_def cmd_defs sem_inv_def)
  next
    case (Some d)
    have "sem_inv ?s" using assms by (simp add: sem_inv_def)
    from ensure_sem_ok [OF this] obtain t where t: "ensure_sem env ?s = Inr ((), t)" "sem_inv t"
        "sem_initialized t" "micro_ros_serial t = micro_ros_serial ?s" by metis
    let ?t = "t\<lparr>world := env_set_rx_indicate env d (env_open env d (world t))\<rparr>"
    have "rtt_transport_open env s = Inr (True, ?t)"
      using t(1) Some by (simp add: rtt_transport_open_def cmd_defs)
    then show ?thesis using t Some by (intro that [of True ?t]) (simp_all add: sem_inv_def device_laws)
  qed
qed

lemma close_ok:
  assumes "sem_inv s" "sem_initialized s" "micro_ros_serial s = Some d"
  obtains s' where "rtt_transport_close env s = Inr (True, s')" "sem_inv s'" "\<not> sem_initialized s'"
proof -
  have "live (env_close env d (world s))" using assms by (simp add: sem_inv_def device_laws)
  from detach_law [OF this] obtain w where "env_sem_detach env (env_close env d (world s)) = Some w" "\<not> live w"
    by blast
  then show ?thesis using assms
    by (intro that [of "s\<lparr>world := w, sem_initialized := False\<rparr>"])
      (simp_all add: rtt_transport_close_def with_device_def asserting_def cmd_defs sem_inv_def)
qed

lemma interrupt_ok:
  assumes "sem_inv s"
  shows "sem_initialized s \<Longrightarrow> \<exists>s'. uart_input env s = Inr ((), s') \<and> sem_inv s' \<and> sem_initialized s'"
    and "\<not> sem_initialized s \<Longrightarrow> uart_input env s = Inl AssertionFailed"
  using assms release_law [of "world s"] dead_laws [of "world s"]
  by (auto simp: uart_input_def asserting_def cmd_defs sem_inv_def)

lemma device_read_cases:
  assumes "micro_ros_serial s = Some d"
  obtains r w where "env_read env d (world s) = (r, w)" "device_read env s = Inr (r, s\<lparr>world := w\<rparr>)"
    "live w = live (world s)"
proof -
  obtain r w where e: "env_read env d (world s) = (r, w)" by (cases "env_read env d (world s)")
  then show ?thesis using assms read_keeps [OF e]
    by (intro that [of r w]) (simp_all add: device_read_def with_device_def cmd_defs)
qed

lemma wait_byte_sem:
  "sem_inv s \<Longrightarrow> sem_initialized s \<Longrightarrow> micro_ros_serial s = Some d \<Longrightarrow>
   wait_byte fuel env tick timeout s = Some r \<Longrightarrow>
   \<exists>b s'. r = Inr (b, s') \<and> sem_inv s' \<and> sem_initialized s' \<and> micro_ros_serial s' = Some d"
proof (induction fuel arbitrary: s)
  case (Suc fuel)
  obtain b w where e: "env_read env d (world s) = (b, w)" "device_read env s = Inr (b, s\<lparr>world := w\<rparr>)"
    and l: "live w = live (world s)"
    using Suc.prems(3) by (rule device_read_cases)
  have w: "live w" using l Suc.prems(1,2) by (simp add: sem_inv_def)
  show ?case
  proof (cases b)
    case (Some x)
    with e Suc.prems(4) have "r = Inr (Some x, s\<lparr>world := w\<rparr>)" by simp
    with Suc.prems(2,3) w show ?thesis by (auto simp: sem_inv_def)
  next
    case None
    show ?thesis
    proof (cases "env_sem_take env (quarter timeout) w")
      case (Taken v)
      let ?s = "s\<lparr>world := v\<rparr>"
      have s: "sem_inv ?s" "sem_initialized ?s" "micro_ros_serial ?s = Some d"
        using take_keeps [OF Taken] w Suc.prems(2,3) by (simp_all add: sem_inv_def)
      show ?thesis using Suc.IH [OF s] Suc.prems(4) e None Taken s by (auto split: if_splits)
    qed (use Suc.prems(4) e None take_law [OF w] in auto)
  qed
qed simp

lemma read_loop_sem:
  "sem_inv s \<Longrightarrow> micro_ros_serial s = Some d \<Longrightarrow> i + n \<le> length buf \<Longrightarrow>
   read_loop fuel env tick timeout n i buf s = Some r \<Longrightarrow>
   \<exists>k s'. r = Inr (k, s') \<and> sem_inv s' \<and> micro_ros_serial s' = Some d"
proof (induction n arbitrary: i buf s)
  case (Suc n)
  obtain t where t: "ensure_sem env s = Inr ((), t)" "sem_inv t" "sem_initialized t"
    "micro_ros_serial t = Some d"
    using ensure_sem_ok [OF Suc.prems(1)] Suc.prems(2) by metis
  obtain q where q: "wait_byte fuel env tick timeout t = Some q"
    using Suc.prems(4) t(1) by (cases "wait_byte fuel env tick timeout t") auto
  from wait_byte_sem [OF t(2-4) q] obtain b u where u: "q = Inr (b, u)" "sem_inv u" "micro_ros_serial u = Some d"
    by blast
  show ?case
    using Suc.IH [OF u(2,3), of "Suc i" "buf[i := the b]"] Suc.prems(3,4) t(1) q u by (cases b) auto
qed auto

text \<open>A step that is defined keeps the invariant, whatever the buffer.\<close>

lemma read_loop_inv:
  "sem_inv s \<Longrightarrow> read_loop fuel env tick timeout n i buf s = Some (Inr (r, s')) \<Longrightarrow> sem_inv s'"
proof (induction n arbitrary: i buf s)
  case (Suc n)
  obtain t where t: "ensure_sem env s = Inr ((), t)" "sem_inv t" "sem_initialized t"
    using ensure_sem_ok [OF Suc.prems(1)] by metis
  obtain q where q: "wait_byte fuel env tick timeout t = Some q"
    using Suc.prems(2) t(1) by (cases "wait_byte fuel env tick timeout t") auto
  show ?case
  proof (cases "micro_ros_serial t")
    case None
    then show ?thesis using Suc.prems(2) t(1) q
      by (cases fuel) (auto simp: device_read_def with_device_def cmd_defs)
  next
    case (Some d)
    from wait_byte_sem [OF t(2,3) Some q] obtain b u where u: "q = Inr (b, u)" "sem_inv u" by blast
    show ?thesis using Suc.IH [OF u(2)] Suc.prems(2) t(1) q u by (cases b) (auto split: if_splits)
  qed
qed auto

lemma step_inv: "serial_step env s t \<Longrightarrow> sem_inv s \<Longrightarrow> sem_inv t"
proof (induction rule: serial_step.induct)
  case (step_open s b t)
  then show ?case by (metis open_ok Inr_inject prod.inject)
next
  case (step_close s b t)
  then obtain d where d: "micro_ros_serial s = Some d"
    by (cases "micro_ros_serial s") (auto simp: rtt_transport_close_def with_device_def cmd_defs)
  show ?case
  proof (cases "sem_initialized s")
    case True
    from close_ok [OF step_close.prems True d] step_close.hyps show ?thesis by (metis Inr_inject prod.inject)
  next
    case False
    then have "env_sem_detach env (env_close env d (world s)) = None"
      using step_close.prems by (intro conjunct2 [OF dead_laws]) (simp add: sem_inv_def device_laws)
    then show ?thesis using step_close.hyps d
      by (simp add: rtt_transport_close_def with_device_def asserting_def cmd_defs)
  qed
next
  case (step_write buf s n t)
  then show ?case
    by (auto simp: rtt_transport_write_def with_device_def cmd_defs sem_inv_def write_keeps
        split: option.splits prod.splits)
next
  case (step_read fuel buf len timeout s r t)
  then show ?case unfolding rtt_transport_read_def by (metis read_loop_inv)
next
  case (step_interrupt s t)
  then show ?case using interrupt_ok [OF step_interrupt.prems] by (cases "sem_initialized s") auto
qed

lemma reachable_inv: "serial_reachable env s t \<Longrightarrow> sem_inv s \<Longrightarrow> sem_inv t"
  by (induction rule: serial_reachable.induct) (auto dest: step_inv)

end

section \<open>Reading a line\<close>

text \<open>
  \<open>pending\<close> are the bytes that the line has for the reader, in order, arrived or not; \<open>energy\<close>
  bounds how often the semaphore can still be taken before the whole waiting time has passed.
\<close>

locale serial_line = rx_semaphore env live for env :: "'w rt_env" and live :: "'w \<Rightarrow> bool" +
  fixes pending :: "'w \<Rightarrow> uint8_t list" and energy :: "'w \<Rightarrow> nat"
  assumes read_byte: "env_read env d w = (Some b, w') \<Longrightarrow> pending w = b # pending w'"
    and read_nothing: "env_read env d w = (None, w') \<Longrightarrow> pending w' = pending w"
    and read_instant: "env_read env d w = (r, w') \<Longrightarrow> env_tick env w' = env_tick env w \<and> energy w' \<le> energy w"
    and init_instant: "env_sem_init env w = Some w' \<Longrightarrow>
      pending w' = pending w \<and> env_tick env w' = env_tick env w \<and> energy w' \<le> energy w"
    and take_line: "live w \<Longrightarrow> 0 < t \<Longrightarrow> t < 2 ^ 31 \<Longrightarrow> \<exists>w'. env_sem_take env t w = Taken w' \<and> pending w' = pending w \<and>
      (energy w' < energy w \<and> int (unat (env_tick env w' - env_tick env w)) \<le> t \<or>
       energy w' \<le> energy w \<and> int (unat (env_tick env w' - env_tick env w)) = t)"
begin

definition elapsed :: "uint32_t \<Rightarrow> 'w serial_state \<Rightarrow> nat" where
  "elapsed tick s = unat (env_tick env (world s) - tick)"

definition ready_to_read :: "'w serial_state \<Rightarrow> bool" where
  "ready_to_read s \<longleftrightarrow> sem_inv s \<and> sem_initialized s \<and> micro_ros_serial s \<noteq> None"

lemma quarter_pos:
  assumes "4 \<le> sint timeout"
  shows "quarter timeout = int (unat timeout) div 4" "0 < quarter timeout" "unat timeout < 2 ^ 31"
proof -
  have lt: "sint timeout < 2 ^ 31" using sint_lt [of timeout] by simp
  then have "uint timeout = sint timeout"
    unfolding uint_sint using assms by (simp add: take_bit_int_eq_self)
  then have u: "sint timeout = int (unat timeout)" by simp
  then show q: "quarter timeout = int (unat timeout) div 4"
    using assms by (simp add: quarter_def signed_divide_int_def sgn_if)
  show "0 < quarter timeout" using q u assms by linarith
  have "int (unat timeout) < int (2 ^ 31)" using u lt by simp
  then show "unat timeout < 2 ^ 31" by (simp only: of_nat_less_iff)
qed

lemma quarter_lt:
  assumes "4 \<le> sint timeout"
  shows "quarter timeout < 2 ^ 31"
proof -
  have "int (unat timeout) < int (2 ^ 31)" using quarter_pos(3) [OF assms] by (simp only: of_nat_less_iff)
  then show ?thesis unfolding quarter_pos(1) [OF assms] by simp
qed

text \<open>One wait: it either ends in time by itself or has used up a unit of the measure.\<close>

lemma take_measure:
  assumes "live (world s)" "4 \<le> sint timeout" "elapsed tick s \<le> unat timeout"
  obtains w where "env_sem_take env (quarter timeout) (world s) = Taken w" "pending w = pending (world s)"
    "live w" "energy w \<le> energy (world s)"
    "energy w < energy (world s) \<and> elapsed tick s \<le> elapsed tick (s\<lparr>world := w\<rparr>) \<or>
     elapsed tick s < elapsed tick (s\<lparr>world := w\<rparr>)"
proof -
  note q = quarter_pos [OF assms(2)]
  obtain w where w: "env_sem_take env (quarter timeout) (world s) = Taken w" "pending w = pending (world s)"
    and e: "energy w < energy (world s) \<and> int (unat (env_tick env w - env_tick env (world s))) \<le> quarter timeout \<or>
       energy w \<le> energy (world s) \<and> int (unat (env_tick env w - env_tick env (world s))) = quarter timeout"
    using take_line [OF assms(1) q(2) quarter_lt [OF assms(2)]] by blast
  let ?a = "env_tick env (world s) - tick" and ?d = "env_tick env w - env_tick env (world s)"
  have "int (unat ?d) \<le> quarter timeout" using e by auto
  then have "unat ?d \<le> unat timeout" unfolding q(1) by linarith
  then have "unat ?a + unat ?d < 2 ^ 32" using assms(3) q(3) by (simp add: elapsed_def)
  then have "unat (?a + ?d) = unat ?a + unat ?d" by (rule unat_add_small)
  then have "elapsed tick (s\<lparr>world := w\<rparr>) = elapsed tick s + unat ?d" by (simp add: elapsed_def)
  moreover have "energy w < energy (world s) \<or> 0 < unat ?d" using e q(2) by linarith
  moreover have "energy w \<le> energy (world s)" using e by auto
  ultimately show ?thesis using take_keeps [OF w(1)] assms(1) w by (intro that [of w]) auto
qed

lemma wait_byte_ok:
  "ready_to_read s \<Longrightarrow> 4 \<le> sint timeout \<Longrightarrow> elapsed tick s \<le> unat timeout \<Longrightarrow>
   unat timeout + energy (world s) < fuel + elapsed tick s \<Longrightarrow>
   \<exists>r s'. wait_byte fuel env tick timeout s = Some (Inr (r, s')) \<and> ready_to_read s' \<and>
     energy (world s') \<le> energy (world s) \<and>
     (case r of None \<Rightarrow> pending (world s') = pending (world s) \<and> unat timeout < elapsed tick s'
      | Some b \<Rightarrow> pending (world s) = b # pending (world s') \<and> elapsed tick s' \<le> unat timeout)"
proof (induction fuel arbitrary: s)
  case (Suc fuel)
  then obtain d where d: "micro_ros_serial s = Some d" by (auto simp: ready_to_read_def)
  then obtain b w where e: "env_read env d (world s) = (b, w)" "device_read env s = Inr (b, s\<lparr>world := w\<rparr>)"
    and l: "live w = live (world s)" by (rule device_read_cases)
  note ri = read_instant [OF e(1)]
  let ?s = "s\<lparr>world := w\<rparr>"
  have rs: "ready_to_read ?s" "elapsed tick ?s = elapsed tick s" "live (world ?s)"
    using Suc.prems(1) l ri by (auto simp: ready_to_read_def sem_inv_def elapsed_def)
  show ?case
  proof (cases b)
    case (Some x)
    with e rs Suc.prems(3) ri read_byte [of d "world s" x w] show ?thesis by simp
  next
    case None
    have el: "elapsed tick ?s \<le> unat timeout" using Suc.prems(3) rs(2) by simp
    obtain v where v: "env_sem_take env (quarter timeout) (world ?s) = Taken v" "pending v = pending (world ?s)"
      "live v" "energy v \<le> energy (world ?s)"
      "energy v < energy (world ?s) \<and> elapsed tick ?s \<le> elapsed tick (?s\<lparr>world := v\<rparr>) \<or>
       elapsed tick ?s < elapsed tick (?s\<lparr>world := v\<rparr>)"
      by (rule take_measure [OF rs(3) Suc.prems(2) el])
    let ?v = "s\<lparr>world := v\<rparr>"
    have rv: "ready_to_read ?v" using rs(1) v(3) by (auto simp: ready_to_read_def sem_inv_def)
    have pv: "pending v = pending (world s)" using v(2) e(1) None read_nothing by simp
    have step: "wait_byte (Suc fuel) env tick timeout s =
        (if timeout < env_tick env v - tick then Some (Inr (None, ?v)) else wait_byte fuel env tick timeout ?v)"
      using e(2) None v(1) by simp
    show ?thesis
    proof (cases "timeout < env_tick env v - tick")
      case True
      with step rv pv v(4) ri show ?thesis by (auto simp: elapsed_def word_less_nat_alt)
    next
      case False
      then have ev: "elapsed tick ?v \<le> unat timeout" by (simp add: elapsed_def word_less_nat_alt)
      have "unat timeout + energy (world ?v) < fuel + elapsed tick ?v"
        using Suc.prems(4) v(4,5) ri rs(2) by auto
      from Suc.IH [OF rv Suc.prems(2) ev this] obtain r s' where
        i: "wait_byte fuel env tick timeout ?v = Some (Inr (r, s'))" "ready_to_read s'"
          "energy (world s') \<le> energy (world ?v)"
        and c: "case r of None \<Rightarrow> pending (world s') = pending (world ?v) \<and> unat timeout < elapsed tick s'
          | Some b \<Rightarrow> pending (world ?v) = b # pending (world s') \<and> elapsed tick s' \<le> unat timeout"
        by blast
      have "energy (world s') \<le> energy (world s)" using i(3) v(4) ri by simp
      moreover have "pending (world ?v) = pending (world s)" using pv by simp
      note c [unfolded this]
      ultimately show ?thesis using i(1,2) step False by (intro exI [of _ r] exI [of _ s']) simp
    qed
  qed
qed simp

lemma read_loop_ok:
  "ready_to_read s \<Longrightarrow> 4 \<le> sint timeout \<Longrightarrow> elapsed tick s \<le> unat timeout \<Longrightarrow>
   unat timeout + energy (world s) < fuel \<Longrightarrow> i + n \<le> length buf \<Longrightarrow>
   \<exists>bytes s'. read_loop fuel env tick timeout n i buf s =
       Some (Inr ((i + length bytes, overwrite i bytes buf), s')) \<and>
     pending (world s) = bytes @ pending (world s') \<and> length bytes \<le> n \<and> ready_to_read s' \<and>
     (length bytes < n \<longrightarrow> unat timeout < elapsed tick s')"
proof (induction n arbitrary: i buf s)
  case 0
  then show ?case by (intro exI [of _ "[]"]) simp
next
  case (Suc n)
  have e: "ensure_sem env s = Inr ((), s)"
    using Suc.prems(1) by (simp add: ready_to_read_def ensure_sem_def cmd_defs)
  have "unat timeout + energy (world s) < fuel + elapsed tick s" using Suc.prems(4) by simp
  from wait_byte_ok [OF Suc.prems(1-3) this] obtain r t where
    w: "wait_byte fuel env tick timeout s = Some (Inr (r, t))" "ready_to_read t"
      "energy (world t) \<le> energy (world s)"
    and c: "case r of None \<Rightarrow> pending (world t) = pending (world s) \<and> unat timeout < elapsed tick t
      | Some b \<Rightarrow> pending (world s) = b # pending (world t) \<and> elapsed tick t \<le> unat timeout"
    by blast
  show ?case
  proof (cases r)
    case None
    with e w c show ?thesis by (intro exI [of _ "[]"]) simp
  next
    case (Some b)
    have f: "elapsed tick t \<le> unat timeout" "unat timeout + energy (world t) < fuel"
      "Suc i + n \<le> length (buf[i := b])"
      using c Some w(3) Suc.prems(4,5) by simp_all
    from Suc.IH [OF w(2) Suc.prems(2) f] obtain bytes u where
      u: "read_loop fuel env tick timeout n (Suc i) (buf[i := b]) t =
          Some (Inr ((Suc i + length bytes, overwrite (Suc i) bytes (buf[i := b])), u))"
        "pending (world t) = bytes @ pending (world u)" "length bytes \<le> n" "ready_to_read u"
        "length bytes < n \<longrightarrow> unat timeout < elapsed tick u"
      by blast
    have "overwrite (Suc i) bytes (buf[i := b]) = overwrite i (b # bytes) buf"
      using Suc.prems(5) by (simp add: overwrite_def take_Suc_conv_app_nth)
    with e w u c Some Suc.prems(5) show ?thesis
      by (intro exI [of _ "b # bytes"] exI [of _ u]) simp
  qed
qed

lemma read_ok:
  assumes "ready_to_read s" "4 \<le> sint timeout" "len \<le> length buf" "unat timeout + energy (world s) < fuel"
  shows "\<exists>bytes s'. rtt_transport_read fuel env buf len timeout s =
       Some (Inr ((length bytes, overwrite 0 bytes buf), s')) \<and>
     pending (world s) = bytes @ pending (world s') \<and> length bytes \<le> len \<and> ready_to_read s' \<and>
     (length bytes < len \<longrightarrow> unat timeout < unat (env_tick env (world s') - env_tick env (world s)))"
  using read_loop_ok [OF assms(1,2) _ assms(4), of "env_tick env (world s)" 0 len buf] assms(3)
  by (simp add: rtt_transport_read_def elapsed_def)

end

section \<open>Bytes that come in time\<close>

text \<open>
  \<open>due\<close> says in how many ticks each pending byte arrives. A byte that has arrived is there to be
  read, and a wait does not sleep through an arrival.
\<close>

locale timed_line = serial_line env live pending energy
  for env :: "'w rt_env" and live :: "'w \<Rightarrow> bool" and pending :: "'w \<Rightarrow> uint8_t list" and energy :: "'w \<Rightarrow> nat" +
  fixes due :: "'w \<Rightarrow> nat list"
  assumes due_length: "length (due w) = length (pending w)"
    and read_due: "env_read env d w = (Some b, w') \<Longrightarrow> due w' = tl (due w)"
    and read_early: "env_read env d w = (None, w') \<Longrightarrow> due w' = due w \<and> (pending w \<noteq> [] \<longrightarrow> 0 < hd (due w))"
    and take_due: "0 < t \<Longrightarrow> t < 2 ^ 31 \<Longrightarrow> env_sem_take env t w = Taken w' \<Longrightarrow> pending w \<noteq> [] \<Longrightarrow> 0 < hd (due w) \<Longrightarrow>
      unat (env_tick env w' - env_tick env w) \<le> hd (due w) \<and>
      due w' = map (\<lambda>x. x - unat (env_tick env w' - env_tick env w)) (due w)"
begin

lemma wait_byte_due:
  "ready_to_read s \<Longrightarrow> 4 \<le> sint timeout \<Longrightarrow> pending (world s) \<noteq> [] \<Longrightarrow>
   elapsed tick s + hd (due (world s)) \<le> unat timeout \<Longrightarrow>
   wait_byte fuel env tick timeout s = Some (Inr (r, s')) \<Longrightarrow>
   r \<noteq> None \<and> (\<exists>a. due (world s') = map (\<lambda>x. x - a) (tl (due (world s))) \<and> elapsed tick s' = elapsed tick s + a)"
proof (induction fuel arbitrary: s)
  case (Suc fuel)
  then obtain d where d: "micro_ros_serial s = Some d" by (auto simp: ready_to_read_def)
  then obtain b w where e: "env_read env d (world s) = (b, w)" "device_read env s = Inr (b, s\<lparr>world := w\<rparr>)"
    and l: "live w = live (world s)" by (rule device_read_cases)
  note ri = read_instant [OF e(1)]
  show ?case
  proof (cases b)
    case (Some x)
    with e Suc.prems(5) have "r = Some x" "s' = s\<lparr>world := w\<rparr>" by simp_all
    moreover have "due w = map (\<lambda>x. x - 0) (tl (due (world s))) \<and> elapsed tick (s\<lparr>world := w\<rparr>) = elapsed tick s + 0"
      using e(1) Some ri read_due [of d "world s" x w] by (simp add: elapsed_def)
    ultimately show ?thesis by auto
  next
    case None
    note re = read_early [OF e(1) [unfolded None]] and rn = read_nothing [OF e(1) [unfolded None]]
    have pos: "pending w \<noteq> []" "0 < hd (due w)" using re rn Suc.prems(3) by simp_all
    have lw: "live w" using l Suc.prems(1) by (auto simp: ready_to_read_def sem_inv_def)
    note q = quarter_pos(2) [OF Suc.prems(2)] quarter_lt [OF Suc.prems(2)]
    from take_line [OF lw q] obtain v where
      v: "env_sem_take env (quarter timeout) w = Taken v" "pending v = pending w" by blast
    let ?a = "unat (env_tick env v - env_tick env w)" and ?v = "s\<lparr>world := v\<rparr>"
    have a: "?a \<le> hd (due w)" "due v = map (\<lambda>x. x - ?a) (due w)"
      using take_due [OF q v(1) pos] by simp_all
    have el: "elapsed tick s + ?a \<le> unat timeout" using a(1) re Suc.prems(4) by simp
    then have sum: "unat (env_tick env w - tick) + ?a < 2 ^ 32"
      using quarter_pos(3) [OF Suc.prems(2)] ri by (simp add: elapsed_def)
    have ev: "elapsed tick ?v = elapsed tick s + ?a"
      using unat_add_small [OF sum] ri by (simp add: elapsed_def)
    then have ok: "\<not> timeout < env_tick env v - tick" using el by (simp add: elapsed_def word_less_nat_alt)
    then have rec: "wait_byte fuel env tick timeout ?v = Some (Inr (r, s'))"
      using Suc.prems(5) e(2) None v(1) by simp
    have rv: "ready_to_read ?v" "pending (world ?v) \<noteq> []"
      using Suc.prems(1) take_keeps [OF v(1)] lw v(2) pos by (auto simp: ready_to_read_def sem_inv_def)
    have ne: "due w \<noteq> []" using due_length [of w] pos(1) by auto
    then have "elapsed tick ?v + hd (due (world ?v)) \<le> unat timeout"
      using ev a re Suc.prems(4) by (simp add: hd_map)
    from Suc.IH [OF rv(1) Suc.prems(2) rv(2) this rec] obtain a' where
      "r \<noteq> None" "due (world s') = map (\<lambda>x. x - a') (tl (due v))" "elapsed tick s' = elapsed tick ?v + a'" by auto
    then show ?thesis using a(2) ev re
      by (auto simp: map_tl [symmetric] diff_diff_left o_def intro!: exI [of _ "?a + a'"])
  qed
qed simp

lemma read_loop_due:
  "ready_to_read s \<Longrightarrow> 4 \<le> sint timeout \<Longrightarrow> elapsed tick s \<le> unat timeout \<Longrightarrow>
   unat timeout + energy (world s) < fuel \<Longrightarrow> i + n \<le> length buf \<Longrightarrow> n \<le> length (pending (world s)) \<Longrightarrow>
   \<forall>x \<in> set (take n (due (world s))). elapsed tick s + x \<le> unat timeout \<Longrightarrow>
   \<exists>r. read_loop fuel env tick timeout n i buf s = Some (Inr r) \<and> fst (fst r) = i + n"
proof (induction n arbitrary: i buf s)
  case (Suc n)
  have e: "ensure_sem env s = Inr ((), s)"
    using Suc.prems(1) by (simp add: ready_to_read_def ensure_sem_def cmd_defs)
  have ne: "pending (world s) \<noteq> []" using Suc.prems(6) by auto
  have "unat timeout + energy (world s) < fuel + elapsed tick s" using Suc.prems(4) by simp
  from wait_byte_ok [OF Suc.prems(1-3) this] obtain r t where
    w: "wait_byte fuel env tick timeout s = Some (Inr (r, t))" "ready_to_read t"
      "energy (world t) \<le> energy (world s)"
    and c: "case r of None \<Rightarrow> pending (world t) = pending (world s) \<and> unat timeout < elapsed tick t
      | Some b \<Rightarrow> pending (world s) = b # pending (world t) \<and> elapsed tick t \<le> unat timeout"
    by blast
  obtain x xs where dx: "due (world s) = x # xs"
    using due_length [of "world s"] ne by (cases "due (world s)") auto
  then have "elapsed tick s + hd (due (world s)) \<le> unat timeout" using Suc.prems(7) by simp
  from wait_byte_due [OF Suc.prems(1,2) ne this w(1)] obtain b a where
    b: "r = Some b" and a: "due (world t) = map (\<lambda>y. y - a) xs" "elapsed tick t = elapsed tick s + a"
    using dx by auto
  have f: "elapsed tick t \<le> unat timeout" "unat timeout + energy (world t) < fuel"
      "Suc i + n \<le> length (buf[i := b])" "n \<le> length (pending (world t))"
    using c b w(3) Suc.prems(4-6) by simp_all
  have "\<forall>y \<in> set (take n (due (world t))). elapsed tick t + y \<le> unat timeout"
    using Suc.prems(7) a f(1) dx by (auto simp: take_map)
  from Suc.IH [OF w(2) Suc.prems(2) f this] show ?case using e w(1) b Suc.prems(5) by simp
qed simp

lemma read_complete:
  assumes "ready_to_read s" "4 \<le> sint timeout" "len \<le> length buf" "unat timeout + energy (world s) < fuel"
    "len \<le> length (pending (world s))" "\<forall>x \<in> set (take len (due (world s))). x \<le> unat timeout"
  shows "\<exists>s'. rtt_transport_read fuel env buf len timeout s =
       Some (Inr ((len, overwrite 0 (take len (pending (world s))) buf), s')) \<and>
     pending (world s') = drop len (pending (world s))"
proof -
  from read_ok [OF assms(1-4)] obtain bytes s' where
    r: "rtt_transport_read fuel env buf len timeout s = Some (Inr ((length bytes, overwrite 0 bytes buf), s'))"
      "pending (world s) = bytes @ pending (world s')"
    by blast
  have "length bytes = len"
    using read_loop_due [OF assms(1,2) _ assms(4) _ assms(5), of "env_tick env (world s)" 0 buf]
      assms(3,6) r(1)
    by (auto simp: rtt_transport_read_def elapsed_def)
  then show ?thesis using r by simp
qed

end

end
