(* ===== verification/Serial_Line.thy ===== *)
theory Serial_Line
  imports Serial_Transport
begin

text \<open>
  A serial line that interprets the locales of \<open>Serial_Transport\<close>: a 32-bit clock that passes
  while the reader waits, a receive queue, bytes that arrive after given delays, and a counting
  semaphore that every arrival releases. Then the properties of the serial transport, for every
  environment that keeps the laws, with witnesses on this line.
\<close>

section \<open>A line\<close>

record line =
  now :: uint32_t
  sem :: "nat option"
  queue :: "uint8_t list"
  arrivals :: "(nat \<times> uint8_t) list"
  sent :: "uint8_t list"

text \<open>The delay of an arrival counts from the one before it; one that is due now can be read.\<close>

fun line_read :: "line \<Rightarrow> uint8_t option \<times> line" where
  "line_read w =
     (case queue w of
        b # bs \<Rightarrow> (Some b, w\<lparr>queue := bs\<rparr>)
      | [] \<Rightarrow> (case arrivals w of
                (0, b) # as \<Rightarrow> (Some b, w\<lparr>arrivals := as\<rparr>)
              | _ \<Rightarrow> (None, w)))"

fun line_take :: "int \<Rightarrow> line \<Rightarrow> line taken" where
  "line_take t w =
     (case sem w of
        None \<Rightarrow> Asserts
      | Some (Suc n) \<Rightarrow> Taken (w\<lparr>sem := Some n\<rparr>)
      | Some 0 \<Rightarrow>
          if t = 0 then Taken w
          else (case arrivals w of
                  [] \<Rightarrow> if t < 0 then Blocks else Taken (w\<lparr>now := now w + of_int t\<rparr>)
                | (d, b) # as \<Rightarrow>
                    if 0 < t \<and> t < int d
                    then Taken (w\<lparr>now := now w + of_int t, arrivals := (d - nat t, b) # as\<rparr>)
                    else Taken (w\<lparr>now := now w + of_nat d, queue := queue w @ [b], arrivals := as\<rparr>)))"

definition line_env :: "line rt_env" where
  "line_env =
     \<lparr>env_tick = now,
      env_find = (\<lambda>name w. if name = ''uart3'' then Some 0 else None),
      env_open = (\<lambda>d w. w),
      env_set_rx_indicate = (\<lambda>d w. w),
      env_close = (\<lambda>d w. w),
      env_write = (\<lambda>d buf w. (of_nat (length buf), w\<lparr>sent := sent w @ buf\<rparr>)),
      env_read = (\<lambda>d. line_read),
      env_sem_init = (\<lambda>w. case sem w of None \<Rightarrow> Some (w\<lparr>sem := Some 0\<rparr>) | Some n \<Rightarrow> None),
      env_sem_take = line_take,
      env_sem_release = (\<lambda>w. case sem w of None \<Rightarrow> None | Some n \<Rightarrow> Some (w\<lparr>sem := Some (Suc n)\<rparr>)),
      env_sem_detach = (\<lambda>w. case sem w of None \<Rightarrow> None | Some n \<Rightarrow> Some (w\<lparr>sem := None\<rparr>))\<rparr>"

definition line_live :: "line \<Rightarrow> bool" where
  "line_live w \<longleftrightarrow> sem w \<noteq> None"

definition line_pending :: "line \<Rightarrow> uint8_t list" where
  "line_pending w = queue w @ map snd (arrivals w)"

definition line_energy :: "line \<Rightarrow> nat" where
  "line_energy w = (case sem w of None \<Rightarrow> 0 | Some n \<Rightarrow> n) + length (arrivals w)"

text \<open>When the arrivals come, counted from \<open>t\<close>.\<close>

fun arrival_times :: "nat \<Rightarrow> (nat \<times> uint8_t) list \<Rightarrow> nat list" where
  "arrival_times t [] = []"
| "arrival_times t ((d, b) # as) = (t + d) # arrival_times (t + d) as"

definition line_due :: "line \<Rightarrow> nat list" where
  "line_due w = map (\<lambda>b. 0) (queue w) @ arrival_times 0 (arrivals w)"

lemma length_arrival_times [simp]: "length (arrival_times t as) = length as"
  by (induction t as rule: arrival_times.induct) auto

lemma arrival_times_shift: "arrival_times (t + c) as = map (\<lambda>x. x + c) (arrival_times t as)"
  by (induction t as rule: arrival_times.induct) (auto simp: ac_simps)

lemma arrival_times_from: "arrival_times c as = map (\<lambda>x. x + c) (arrival_times 0 as)"
  using arrival_times_shift [of 0 c] by simp

lemma tick_advance:
  "0 \<le> t \<Longrightarrow> t < 2 ^ 31 \<Longrightarrow> unat ((n + of_int t) - n :: uint32_t) = nat t"
  by (simp add: unat_eq_nat_uint uint_word_of_int)

lemma tick_advance_nat:
  "k < 2 ^ 31 \<Longrightarrow> unat ((n + of_nat k) - n :: uint32_t) = k"
  by (simp add: unat_of_nat)

interpretation rx: rx_semaphore line_env line_live
  by unfold_locales
    (auto simp: line_env_def line_live_def split: option.splits nat.splits if_splits list.splits prod.splits)

lemma line_read_laws:
  assumes "line_read w = (r, w')"
  shows "line_pending w = (case r of None \<Rightarrow> [] | Some b \<Rightarrow> [b]) @ line_pending w'"
    and "line_due w = (case r of None \<Rightarrow> [] | Some b \<Rightarrow> [hd (line_due w)]) @ line_due w'"
    and "r = None \<Longrightarrow> w' = w \<and> (line_pending w \<noteq> [] \<longrightarrow> 0 < hd (line_due w))"
    and "now w' = now w \<and> sem w' = sem w \<and> line_energy w' \<le> line_energy w"
  using assms
  by (auto simp: line_pending_def line_due_def line_energy_def
      split: list.splits nat.splits if_splits option.splits prod.splits)

text \<open>What one wait does when the semaphore is not free: \<open>k\<close> ticks pass.\<close>

definition waited :: "nat \<Rightarrow> line \<Rightarrow> line \<Rightarrow> bool" where
  "waited k w w' \<longleftrightarrow> unat (now w' - now w) = k \<and> line_pending w' = line_pending w \<and>
     (line_pending w \<noteq> [] \<longrightarrow> 0 < hd (line_due w) \<longrightarrow>
      k \<le> hd (line_due w) \<and> line_due w' = map (\<lambda>x. x - k) (line_due w))"

lemma due_first: "0 < hd (line_due w) \<Longrightarrow> line_pending w \<noteq> [] \<Longrightarrow>
   queue w = [] \<and> line_due w = arrival_times 0 (arrivals w)"
  by (cases "queue w") (auto simp: line_due_def)

lemma waited_silent:
  "arrivals w = [] \<Longrightarrow> 0 < t \<Longrightarrow> t < 2 ^ 31 \<Longrightarrow> waited (nat t) w (w\<lparr>now := now w + of_int t\<rparr>)"
  using tick_advance [of t "now w"] due_first [of w] by (auto simp: waited_def line_pending_def)

lemma waited_part:
  assumes "arrivals w = (k, b) # as" "0 < t" "t < 2 ^ 31" "t < int k"
  shows "waited (nat t) w (w\<lparr>now := now w + of_int t, arrivals := (k - nat t, b) # as\<rparr>)"
proof -
  have "arrival_times (k - nat t) as = map (\<lambda>x. x - nat t) (arrival_times k as)"
    using arrival_times_from [of k as] arrival_times_from [of "k - nat t" as] assms(4) by (simp add: o_def)
  then show ?thesis
    using assms tick_advance [of t "now w"] due_first [of w]
    by (auto simp: waited_def line_pending_def line_due_def)
qed

lemma waited_arrival:
  assumes "arrivals w = (k, b) # as" "k < 2 ^ 31"
  shows "waited k w (w\<lparr>now := now w + of_nat k, queue := queue w @ [b], arrivals := as\<rparr>)"
proof -
  have "arrival_times 0 as = map (\<lambda>x. x - k) (arrival_times k as)"
    using arrival_times_from [of k as] by (simp add: o_def)
  then show ?thesis
    using assms tick_advance_nat [of k "now w"] due_first [of w]
    by (auto simp: waited_def line_pending_def line_due_def)
qed

lemma line_take_laws:
  assumes "line_live w" "0 < t" "t < 2 ^ 31"
  obtains k w' where "line_take t w = Taken w'" "waited k w w'"
    "line_energy w' < line_energy w \<and> int k \<le> t \<or> line_energy w' \<le> line_energy w \<and> int k = t"
proof -
  from assms(1) obtain n where n: "sem w = Some n" by (auto simp: line_live_def)
  show ?thesis
  proof (cases n)
    case (Suc m)
    have "waited 0 w (w\<lparr>sem := Some m\<rparr>)" by (simp add: waited_def line_pending_def line_due_def)
    then show ?thesis using n Suc assms(2)
      by (intro that [of "w\<lparr>sem := Some m\<rparr>" 0]) (simp_all add: line_energy_def)
  next
    case 0
    show ?thesis
    proof (cases "arrivals w")
      case Nil
      show ?thesis using n 0 assms(2) Nil waited_silent [OF Nil assms(2,3)]
        by (intro that [of "w\<lparr>now := now w + of_int t\<rparr>" "nat t"]) (simp_all add: line_energy_def)
    next
      case (Cons a as)
      obtain k b where a: "a = (k, b)" by (cases a)
      show ?thesis
      proof (cases "t < int k")
        case True
        show ?thesis using n 0 assms(2) Cons a True waited_part [OF _ assms(2,3) True] 
          by (intro that [of "w\<lparr>now := now w + of_int t, arrivals := (k - nat t, b) # as\<rparr>" "nat t"])
            (simp_all add: line_energy_def)
      next
        case False
        then have "waited k w (w\<lparr>now := now w + of_nat k, queue := queue w @ [b], arrivals := as\<rparr>)"
          using Cons a assms(3) by (intro waited_arrival) simp_all
        then show ?thesis using n 0 assms(2) Cons a False
          by (intro that [of "w\<lparr>now := now w + of_nat k, queue := queue w @ [b], arrivals := as\<rparr>" k])
            (simp_all add: line_energy_def)
      qed
    qed
  qed
qed

interpretation ser: serial_line line_env line_live line_pending line_energy
proof unfold_locales
  fix d w b w'
  assume "env_read line_env d w = (Some b, w')"
  then show "line_pending w = b # line_pending w'"
    using line_read_laws(1) [of w "Some b" w'] by (simp add: line_env_def)
next
  fix d w w'
  assume "env_read line_env d w = (None, w')"
  then show "line_pending w' = line_pending w"
    using line_read_laws(1) [of w None w'] by (simp add: line_env_def)
next
  fix d w r w'
  assume "env_read line_env d w = (r, w')"
  then show "env_tick line_env w' = env_tick line_env w \<and> line_energy w' \<le> line_energy w"
    using line_read_laws(4) [of w r w'] by (simp add: line_env_def)
next
  fix w w'
  assume "env_sem_init line_env w = Some w'"
  then show "line_pending w' = line_pending w \<and> env_tick line_env w' = env_tick line_env w \<and>
      line_energy w' \<le> line_energy w"
    by (auto simp: line_env_def line_pending_def line_energy_def split: option.splits)
next
  fix w t
  assume a: "line_live w" "0 < t" "t < (2::int) ^ 31"
  obtain k w' where "line_take t w = Taken w'" "waited k w w'"
    "line_energy w' < line_energy w \<and> int k \<le> t \<or> line_energy w' \<le> line_energy w \<and> int k = t"
    by (rule line_take_laws [OF a])
  then show "\<exists>w'. env_sem_take line_env t w = Taken w' \<and> line_pending w' = line_pending w \<and>
      (line_energy w' < line_energy w \<and> int (unat (env_tick line_env w' - env_tick line_env w)) \<le> t \<or>
       line_energy w' \<le> line_energy w \<and> int (unat (env_tick line_env w' - env_tick line_env w)) = t)"
    by (intro exI [of _ w']) (auto simp: line_env_def waited_def)
qed

interpretation tim: timed_line line_env line_live line_pending line_energy line_due
proof unfold_locales
  fix w
  show "length (line_due w) = length (line_pending w)" by (simp add: line_due_def line_pending_def)
next
  fix d w b w'
  assume "env_read line_env d w = (Some b, w')"
  then show "line_due w' = tl (line_due w)"
    using line_read_laws(2) [of w "Some b" w'] by (simp add: line_env_def) (metis list.sel(3))
next
  fix d w w'
  assume "env_read line_env d w = (None, w')"
  then show "line_due w' = line_due w \<and> (line_pending w \<noteq> [] \<longrightarrow> 0 < hd (line_due w))"
    using line_read_laws(3) [of w None w'] by (simp add: line_env_def)
next
  fix t w w'
  assume a: "0 < t" "t < (2::int) ^ 31" and e: "env_sem_take line_env t w = Taken w'"
    and p: "line_pending w \<noteq> []" "0 < hd (line_due w)"
  from e have "line_live w" by (auto simp: line_env_def line_live_def split: option.splits)
  from line_take_laws [OF this a] obtain k v where "line_take t w = Taken v" "waited k w v" by metis
  then show "unat (env_tick line_env w' - env_tick line_env w) \<le> hd (line_due w) \<and>
      line_due w' = map (\<lambda>x. x - unat (env_tick line_env w' - env_tick line_env w)) (line_due w)"
    using e p by (auto simp: line_env_def waited_def)
qed

section \<open>Properties\<close>

text \<open>A line with one byte received and one on its way, ready to be read.\<close>

definition line_example :: "line serial_state" where
  "line_example =
     \<lparr>sem_initialized = True, micro_ros_serial = Some 0,
      world = \<lparr>now = 0xFFFFFFFE, sem = Some 1, queue = [17], arrivals = [(3, 42)], sent = []\<rparr>\<rparr>"

lemma ready_iff:
  assumes "serial_line env live pending energy"
  shows "serial_line.ready_to_read live s \<longleftrightarrow>
    (sem_initialized s \<longleftrightarrow> live (world s)) \<and> sem_initialized s \<and> micro_ros_serial s \<noteq> None"
  using assms
  by (simp add: serial_line.ready_to_read_def [OF assms] rx_semaphore.sem_inv_def [OF serial_line.axioms(1)])

text \<open>
  C10: on every serial line that keeps the laws, a read with a timeout of at least four ticks
  returns (the fuel needed is bounded by the timeout and the interrupts still to come); it has put
  the next bytes of the line, in order and none lost or twice, at the start of the buffer and
  returns their number; and it returns fewer than asked only after more than \<open>timeout\<close> ticks.
\<close>

theorem serial_read_in_order:
  assumes "serial_line env live pending energy"
    and "sem_initialized s" "live (world s)" "micro_ros_serial s = Some d"
    and "4 \<le> sint timeout" "len \<le> length buf" "unat timeout + energy (world s) < fuel"
  shows "\<exists>bytes s'. rtt_transport_read fuel env buf len timeout s =
       Some (Inr ((length bytes, bytes @ drop (length bytes) buf), s')) \<and>
     pending (world s) = bytes @ pending (world s') \<and> length bytes \<le> len \<and>
     (length bytes < len \<longrightarrow> unat timeout < unat (env_tick env (world s') - env_tick env (world s)))"
proof -
  have "serial_line.ready_to_read live s" using ready_iff [OF assms(1)] assms(2-4) by simp
  from serial_line.read_ok [OF assms(1) this assms(5-7)] show ?thesis
    by (simp add: overwrite_def) blast
qed

theorem serial_read_in_order_witness:
  "\<exists>bytes s'. rtt_transport_read 20 line_env [0, 0, 0] 3 8 line_example =
       Some (Inr ((length bytes, bytes @ drop (length bytes) [0, 0, 0]), s')) \<and>
     line_pending (world line_example) = bytes @ line_pending (world s') \<and> length bytes \<le> 3 \<and>
     (length bytes < 3 \<longrightarrow> unat (8 :: int32_t) < unat (env_tick line_env (world s') - env_tick line_env (world line_example)))"
  by (rule serial_read_in_order [where d = 0, OF ser.serial_line_axioms])
    (simp_all add: line_example_def line_live_def line_energy_def)

text \<open>
  C11: on a line whose arrivals have due times, bytes that arrive before the timeout are not
  missed: if the next \<open>len\<close> bytes are due within \<open>timeout\<close> ticks, the read returns all of them.
\<close>

theorem serial_read_complete:
  assumes "timed_line env live pending energy due"
    and "sem_initialized s" "live (world s)" "micro_ros_serial s = Some d"
    and "4 \<le> sint timeout" "len \<le> length buf" "unat timeout + energy (world s) < fuel"
    and "len \<le> length (pending (world s))" "\<forall>x \<in> set (take len (due (world s))). x \<le> unat timeout"
  shows "\<exists>s'. rtt_transport_read fuel env buf len timeout s =
       Some (Inr ((len, take len (pending (world s)) @ drop len buf), s')) \<and>
     pending (world s') = drop len (pending (world s))"
proof -
  note l = timed_line.axioms(1) [OF assms(1)]
  have "serial_line.ready_to_read live s" using ready_iff [OF l] assms(2-4) by simp
  from timed_line.read_complete [OF assms(1) this assms(5-9)] show ?thesis
    using assms(8) by (simp add: overwrite_def min_absorb2)
qed

theorem serial_read_complete_witness:
  "\<exists>s'. rtt_transport_read 20 line_env [0, 0, 0] 2 8 line_example =
       Some (Inr ((2, take 2 (line_pending (world line_example)) @ drop 2 [0, 0, 0]), s')) \<and>
     line_pending (world s') = drop 2 (line_pending (world line_example))"
  by (rule serial_read_complete [where d = 0, OF tim.timed_line_axioms])
    (simp_all add: line_example_def line_live_def line_energy_def line_pending_def line_due_def)

text \<open>
  C12: in every state that the operations and the interrupt reach from a consistent one, the
  flag \<open>sem_initialized\<close> says whether the semaphore exists; so opening again (or reading, which may
  create the semaphore) never initialises it twice, opening succeeds exactly when the device is
  found, and an interrupt fails the kernel's assertion exactly when it comes after a close.
\<close>

theorem serial_semaphore_lifecycle:
  assumes "rx_semaphore env live" and "serial_reachable env s t" and "sem_initialized s = live (world s)"
  shows "(sem_initialized t \<longleftrightarrow> live (world t)) \<and>
    (\<exists>b u. rtt_transport_open env t = Inr (b, u) \<and> (b \<longleftrightarrow> micro_ros_serial u \<noteq> None) \<and>
       (b \<longrightarrow> sem_initialized u)) \<and>
    (uart_input env t = Inl AssertionFailed \<longleftrightarrow> \<not> sem_initialized t)"
proof -
  note inv = rx_semaphore.sem_inv_def [OF assms(1)]
  have i: "rx_semaphore.sem_inv live t"
    using rx_semaphore.reachable_inv [OF assms(1,2)] assms(3) by (simp add: inv)
  have "\<exists>b u. rtt_transport_open env t = Inr (b, u) \<and> (b \<longleftrightarrow> micro_ros_serial u \<noteq> None) \<and> (b \<longrightarrow> sem_initialized u)"
  proof (rule rx_semaphore.open_ok [OF assms(1) i])
    fix b u
    assume "rtt_transport_open env t = Inr (b, u)" "b \<longleftrightarrow> micro_ros_serial u \<noteq> None" "b \<Longrightarrow> sem_initialized u"
    then show ?thesis by (intro exI [of _ b] exI [of _ u] conjI impI)
  qed
  moreover have "uart_input env t = Inl AssertionFailed \<longleftrightarrow> \<not> sem_initialized t"
    using rx_semaphore.interrupt_ok [OF assms(1) i] by (cases "sem_initialized t") auto
  ultimately show ?thesis using i by (simp add: inv)
qed

definition line_closed :: "line serial_state" where
  "line_closed = \<lparr>sem_initialized = False, micro_ros_serial = Some 0,
      world = \<lparr>now = 7, sem = None, queue = [], arrivals = [], sent = []\<rparr>\<rparr>"

definition line_opened :: "line serial_state" where
  "line_opened = line_closed\<lparr>sem_initialized := True, world := (world line_closed)\<lparr>sem := Some 0\<rparr>\<rparr>"

lemma line_reopened: "serial_reachable line_env line_opened line_closed"
  by (rule reachable_step [OF reachable_refl step_close [where b = True]]) code_simp

theorem serial_semaphore_lifecycle_witness:
  "(sem_initialized line_closed \<longleftrightarrow> line_live (world line_closed)) \<and>
    (\<exists>b u. rtt_transport_open line_env line_closed = Inr (b, u) \<and> (b \<longleftrightarrow> micro_ros_serial u \<noteq> None) \<and>
       (b \<longrightarrow> sem_initialized u)) \<and>
    (uart_input line_env line_closed = Inl AssertionFailed \<longleftrightarrow> \<not> sem_initialized line_closed)"
  by (rule serial_semaphore_lifecycle [OF rx.rx_semaphore_axioms line_reopened])
    (simp add: line_opened_def line_closed_def line_live_def)

lemma wait_byte_infinite: "wait_byte fuel env tick (- 1) s \<noteq> Some (Inr (None, s'))"
proof (induction fuel arbitrary: s)
  case (Suc fuel)
  then show ?case
    by (auto split: sum.splits option.splits prod.splits taken.splits if_splits simp: word_order.extremum_strict)
qed simp

lemma read_loop_infinite:
  "read_loop fuel env tick (- 1) n i buf s = Some (Inr ((k, buf'), s')) \<Longrightarrow> k = i + n"
proof (induction n arbitrary: i buf s)
  case (Suc n)
  then show ?case
    by (force simp: wait_byte_infinite split: sum.splits option.splits prod.splits if_splits)
qed simp

text \<open>
  The timeout -1 means no timeout: whatever the environment does, a read that returns has
  read all it was asked for, because the elapsed ticks are compared as unsigned numbers.
\<close>

lemma serial_read_infinite:
  assumes "rtt_transport_read fuel env buf len (- 1) s = Some (Inr ((n, buf'), s'))"
  shows "n = len"
  using read_loop_infinite assms unfolding rtt_transport_read_def by fastforce

lemma line_example_read:
  "rtt_transport_read 5 line_env [0, 0, 0] 1 (- 1) line_example =
   Some (Inr ((1, [17, 0, 0]), line_example\<lparr>world := (world line_example)\<lparr>queue := []\<rparr>\<rparr>))"
  by code_simp

end
