(* ===== verification/Socket_Transports.thy ===== *)
theory Socket_Transports
  imports Prelude "HOL-Library.Signed_Division"
begin

text \<open>
  The datagram and stream transports, \<^verbatim>\<open>src/rtt_udp_transport.c\<close> and
  \<^verbatim>\<open>src/rtt_tcp_transport.c\<close>. The socket interface is not in the repository: its calls are the
  parameter \<open>env\<close>, functions on an arbitrary state of the network stack; the locale \<open>sockets\<close>
  says what they do to the set of open descriptors, and the locale \<open>descriptor_transport\<close> is the
  contract between a transport and the client that opens and closes it. The two files have the
  same static variables and are compiled one at a time.
\<close>

section \<open>The socket interface\<close>

record timeval =
  tv_sec_of :: int32_t
  tv_usec_of :: int32_t

record sockaddr_in =
  sin_family :: uint8_t
  sin_port :: uint16_t
  sin_addr :: uint32_t
  sin_zero :: "uint8_t list"

datatype socket_type = SOCK_STREAM | SOCK_DGRAM

datatype socket_option = SO_RCVTIMEO | SO_SNDTIMEO

text \<open>
  \<open>gethostbyname\<close> returns the address of the host, or \<open>None\<close> for NULL; \<open>recv\<close> returns the
  received bytes with its result.
\<close>

record 'w net_env =
  gethostbyname :: "string \<Rightarrow> 'w \<Rightarrow> uint32_t option \<times> 'w"
  socket_call :: "socket_type \<Rightarrow> 'w \<Rightarrow> int32_t \<times> 'w"
  connect_call :: "int32_t \<Rightarrow> sockaddr_in \<Rightarrow> 'w \<Rightarrow> int32_t \<times> 'w"
  setsockopt :: "int32_t \<Rightarrow> socket_option \<Rightarrow> timeval \<Rightarrow> 'w \<Rightarrow> int32_t \<times> 'w"
  send_call :: "int32_t \<Rightarrow> uint8_t list \<Rightarrow> 'w \<Rightarrow> int32_t \<times> 'w"
  recv_call :: "int32_t \<Rightarrow> size_t \<Rightarrow> 'w \<Rightarrow> (int32_t \<times> uint8_t list) \<times> 'w"
  closesocket :: "int32_t \<Rightarrow> 'w \<Rightarrow> int32_t \<times> 'w"

definition htons :: "uint16_t \<Rightarrow> uint16_t" where
  "htons p = push_bit 8 p OR drop_bit 8 p"

definition AF_INET :: uint8_t where
  "AF_INET = 2"

section \<open>State\<close>

record micro_ros_agent_locator =
  address :: string
  port :: int32_t

record 'w socket_state =
  sock :: int32_t
  host :: "uint32_t option"
  server_addr :: sockaddr_in
  net :: 'w

definition net_call :: "('w \<Rightarrow> 'a \<times> 'w) \<Rightarrow> ('w socket_state, 'a) cmd" where
  "net_call f = (\<lambda>s. case f (net s) of (x, w) \<Rightarrow> Inr (x, s\<lparr>net := w\<rparr>))"

text \<open>A call on the static socket.\<close>

definition sock_call :: "(int32_t \<Rightarrow> 'w \<Rightarrow> 'a \<times> 'w) \<Rightarrow> ('w socket_state, 'a) cmd" where
  "sock_call f = cbind (cget sock) (\<lambda>fd. net_call (f fd))"

definition deref :: "'a option \<Rightarrow> ('s, 'a) cmd" where
  "deref p = (case p of None \<Rightarrow> cfail NullDereference | Some x \<Rightarrow> creturn x)"

section \<open>Opening\<close>

text \<open>\<^verbatim>\<open>host = gethostbyname(locator->address)\<close>\<close>

definition resolve_host :: "'w net_env \<Rightarrow> micro_ros_agent_locator \<Rightarrow> ('w socket_state, unit) cmd" where
  "resolve_host env locator =
     cbind (net_call (gethostbyname env (address locator))) (\<lambda>h.
     cmodify (\<lambda>s. s\<lparr>host := h\<rparr>))"

text \<open>\<^verbatim>\<open>if ((sock = socket(...)) == -1)\<close>: the condition.\<close>

definition make_socket :: "'w net_env \<Rightarrow> socket_type \<Rightarrow> ('w socket_state, bool) cmd" where
  "make_socket env ty =
     cbind (net_call (socket_call env ty)) (\<lambda>fd.
     cseq (cmodify (\<lambda>s. s\<lparr>sock := fd\<rparr>))
     (creturn (fd = - 1)))"

definition fill_address :: "micro_ros_agent_locator \<Rightarrow> ('w socket_state, unit) cmd" where
  "fill_address locator =
     cseq (cmodify (\<lambda>s. s\<lparr>server_addr := (server_addr s)\<lparr>sin_family := AF_INET\<rparr>\<rparr>))
     (cseq (cmodify (\<lambda>s. s\<lparr>server_addr := (server_addr s)\<lparr>sin_port := htons (ucast (port locator))\<rparr>\<rparr>))
     (cbind (cget host) (\<lambda>h.
      cbind (deref h) (\<lambda>h_addr.
     cseq (cmodify (\<lambda>s. s\<lparr>server_addr := (server_addr s)\<lparr>sin_addr := h_addr\<rparr>\<rparr>))
     (cmodify (\<lambda>s. s\<lparr>server_addr := (server_addr s)\<lparr>sin_zero := replicate 8 0\<rparr>\<rparr>))))))"

definition connect_server :: "'w net_env \<Rightarrow> ('w socket_state, int32_t) cmd" where
  "connect_server env =
     cbind (cget server_addr) (\<lambda>a. sock_call (\<lambda>fd. connect_call env fd a))"

definition rtt_udp_transport_open ::
    "'w net_env \<Rightarrow> micro_ros_agent_locator option \<Rightarrow> ('w socket_state, bool) cmd" where
  "rtt_udp_transport_open env args =
     cbind (deref args) (\<lambda>locator.
     cseq (resolve_host env locator)
     (cbind (make_socket env SOCK_DGRAM) (\<lambda>failed.
      if failed then cseq (sock_call (closesocket env)) (creturn False)
      else cseq (fill_address locator)
           (cbind (connect_server env) (\<lambda>r.
            if r <s 0 then creturn False else creturn True)))))"

definition rtt_tcp_transport_open ::
    "'w net_env \<Rightarrow> micro_ros_agent_locator option \<Rightarrow> ('w socket_state, bool) cmd" where
  "rtt_tcp_transport_open env args =
     cbind (deref args) (\<lambda>locator.
     cseq (resolve_host env locator)
     (cbind (make_socket env SOCK_STREAM) (\<lambda>failed.
      if failed then cseq (sock_call (closesocket env)) (creturn False)
      else cseq (fill_address locator)
           (cseq (sock_call (\<lambda>fd. setsockopt env fd SO_RCVTIMEO \<lparr>tv_sec_of = 0, tv_usec_of = 200000\<rparr>))
           (cseq (sock_call (\<lambda>fd. setsockopt env fd SO_SNDTIMEO \<lparr>tv_sec_of = 0, tv_usec_of = 200000\<rparr>))
           (cbind (connect_server env) (\<lambda>r.
            if r = - 1 then cseq (sock_call (closesocket env)) (creturn False)
            else creturn True)))))))"

section \<open>Closing, writing and reading\<close>

text \<open>The result of \<^verbatim>\<open>closesocket\<close> becomes a bool: true unless it is 0.\<close>

definition rtt_udp_transport_close :: "'w net_env \<Rightarrow> ('w socket_state, bool) cmd" where
  "rtt_udp_transport_close env = cbind (sock_call (closesocket env)) (\<lambda>r. creturn (r \<noteq> 0))"

definition rtt_tcp_transport_close :: "'w net_env \<Rightarrow> ('w socket_state, bool) cmd" where
  "rtt_tcp_transport_close env = cbind (sock_call (closesocket env)) (\<lambda>r. creturn (r \<noteq> 0))"

text \<open>The results: the count, and what \<^verbatim>\<open>*errcode\<close> holds afterwards.\<close>

definition rtt_udp_transport_write ::
    "'w net_env \<Rightarrow> uint8_t list \<Rightarrow> uint8_t \<Rightarrow> ('w socket_state, size_t \<times> uint8_t) cmd" where
  "rtt_udp_transport_write env buf errcode =
     cbind (sock_call (\<lambda>fd. send_call env fd buf)) (\<lambda>bytes_sent.
     creturn (if - 1 \<noteq> bytes_sent then (bytes_sent, 0) else (0, 1)))"

text \<open>What \<^verbatim>\<open>recv(sock, buf, len, 0)\<close> does to the buffer.\<close>

definition receive_into ::
    "'w net_env \<Rightarrow> uint8_t list \<Rightarrow> size_t \<Rightarrow> ('w socket_state, int32_t \<times> uint8_t list) cmd" where
  "receive_into env buf len =
     cbind (sock_call (\<lambda>fd. recv_call env fd len)) (\<lambda>(n, bytes).
     if length bytes \<le> length buf then creturn (n, overwrite 0 bytes buf) else cfail OutOfBounds)"

definition receive_timeout :: "int32_t \<Rightarrow> timeval" where
  "receive_timeout timeout =
     (let timeout = (if timeout \<le>s 0 then 1 else timeout)
      in \<lparr>tv_sec_of = of_int (sint timeout sdiv 1000),
          tv_usec_of = of_int (sint timeout smod 1000) * 1000\<rparr>)"

definition rtt_udp_transport_read ::
    "'w net_env \<Rightarrow> uint8_t list \<Rightarrow> size_t \<Rightarrow> int32_t \<Rightarrow> uint8_t \<Rightarrow>
     ('w socket_state, (size_t \<times> uint8_t list) \<times> uint8_t) cmd" where
  "rtt_udp_transport_read env buf len timeout errcode =
     cbind (sock_call (\<lambda>fd. setsockopt env fd SO_RCVTIMEO (receive_timeout timeout))) (\<lambda>r.
     if 0 \<noteq> r then creturn ((0, buf), 1)
     else cbind (receive_into env buf len) (\<lambda>(bytes_received, buf).
          creturn (if - 1 \<noteq> bytes_received then ((bytes_received, buf), 0) else ((0, buf), 1))))"

definition rtt_tcp_transport_write ::
    "'w net_env \<Rightarrow> uint8_t list \<Rightarrow> uint8_t \<Rightarrow> ('w socket_state, size_t \<times> uint8_t) cmd" where
  "rtt_tcp_transport_write env buf errcode =
     cbind (sock_call (\<lambda>fd. send_call env fd buf)) (\<lambda>n. creturn (n, errcode))"

definition rtt_tcp_transport_read ::
    "'w net_env \<Rightarrow> uint8_t list \<Rightarrow> size_t \<Rightarrow> int32_t \<Rightarrow> uint8_t \<Rightarrow>
     ('w socket_state, (size_t \<times> uint8_t list) \<times> uint8_t) cmd" where
  "rtt_tcp_transport_read env buf len timeout errcode =
     cbind (receive_into env buf len) (\<lambda>r. creturn (r, errcode))"

section \<open>The contract of a transport\<close>

text \<open>A client: try to open; when that succeeds, use the transport and close it.\<close>

fun use_all :: "('u \<Rightarrow> ('s, 'r) cmd) \<Rightarrow> 'u list \<Rightarrow> ('s, unit) cmd" where
  "use_all use_op [] = creturn ()"
| "use_all use_op (u # us) = cseq (use_op u) (use_all use_op us)"

definition session :: "('s, bool) cmd \<Rightarrow> ('u \<Rightarrow> ('s, 'r) cmd) \<Rightarrow> ('s, bool) cmd \<Rightarrow> 'u list \<Rightarrow> ('s, unit) cmd" where
  "session open_op use_op close_op us =
     cbind open_op (\<lambda>b. if b then cseq (use_all use_op us) (cseq close_op (creturn ())) else creturn ())"

fun sessions :: "('s, bool) cmd \<Rightarrow> ('u \<Rightarrow> ('s, 'r) cmd) \<Rightarrow> ('s, bool) cmd \<Rightarrow> 'u list list \<Rightarrow> ('s, unit) cmd" where
  "sessions open_op use_op close_op [] = creturn ()"
| "sessions open_op use_op close_op (us # uss) =
     cseq (session open_op use_op close_op us) (sessions open_op use_op close_op uss)"

text \<open>
  What a client that opens and closes a transport relies on: a failed opening leaves the
  descriptors as they were, a successful one adds one, closing removes it and using the transport
  leaves the descriptors alone.
\<close>

locale descriptor_transport =
  fixes open_op :: "('s, bool) cmd" and use_op :: "'u \<Rightarrow> ('s, 'r) cmd" and close_op :: "('s, bool) cmd"
    and fd_of :: "'s \<Rightarrow> int32_t" and fds :: "'s \<Rightarrow> int32_t set"
  assumes open_failed: "open_op s = Inr (False, t) \<Longrightarrow> fds t = fds s"
    and open_done: "open_op s = Inr (True, t) \<Longrightarrow> fd_of t \<notin> fds s \<and> fds t = insert (fd_of t) (fds s)"
    and use_keeps: "use_op u s = Inr (r, t) \<Longrightarrow> fd_of t = fd_of s \<and> fds t = fds s"
    and close_removes: "fd_of s \<in> fds s \<Longrightarrow> close_op s = Inr (b, t) \<Longrightarrow> fds t = fds s - {fd_of s}"
begin

lemma use_all_keeps: "use_all use_op us s = Inr (r, t) \<Longrightarrow> fd_of t = fd_of s \<and> fds t = fds s"
proof (induction us arbitrary: s)
  case (Cons u us)
  then show ?case using use_keeps [of u s]
    by (auto simp: cseq_def cbind_def split: sum.splits prod.splits)
qed (simp add: creturn_def)

lemma session_balanced:
  assumes "session open_op use_op close_op us s = Inr (r, t)"
  shows "fds t = fds s"
proof (cases "open_op s")
  case (Inr p)
  obtain b s1 where o: "open_op s = Inr (b, s1)" using Inr by (cases p) auto
  show ?thesis
  proof (cases b)
    case True
    from assms o True obtain s2 b' where u: "use_all use_op us s1 = Inr ((), s2)" and c: "close_op s2 = Inr (b', t)"
      by (auto simp: session_def cseq_def cbind_def creturn_def split: sum.splits prod.splits)
    have "fd_of s1 \<notin> fds s" "fds s1 = insert (fd_of s1) (fds s)"
      using open_done o True by auto
    with use_all_keeps [OF u] close_removes [OF _ c] show ?thesis by simp
  next
    case False
    with assms o open_failed [of s s1] show ?thesis
      by (auto simp: session_def cbind_def creturn_def)
  qed
qed (use assms in \<open>simp add: session_def cbind_def\<close>)

lemma sessions_balanced: "sessions open_op use_op close_op uss s = Inr (r, t) \<Longrightarrow> fds t = fds s"
proof (induction uss arbitrary: s)
  case (Cons us uss)
  then show ?case using session_balanced [of us s]
    by (auto simp: cseq_def cbind_def split: sum.splits prod.splits)
qed (simp add: creturn_def)

end

end
