(* ===== verification/Socket_Contracts.thy ===== *)
theory Socket_Contracts
  imports Socket_Transports
begin

text \<open>
  What the socket transports do to the open descriptors, for every network stack that keeps the
  laws of the locale \<open>sockets\<close>; a small network with four descriptors interprets it. The stream
  transport keeps the contract of \<open>descriptor_transport\<close>; the datagram transport does not: a
  connection that fails leaves a descriptor behind.
\<close>

section \<open>Laws of the socket calls\<close>

locale sockets =
  fixes env :: "'w net_env" and open_fds :: "'w \<Rightarrow> int32_t set"
  assumes gethost_law: "gethostbyname env a w = (h, w') \<Longrightarrow> open_fds w' = open_fds w"
    and socket_law: "socket_call env ty w = (fd, w') \<Longrightarrow>
      (if fd = - 1 then open_fds w' = open_fds w
       else fd \<notin> open_fds w \<and> open_fds w' = insert fd (open_fds w))"
    and invalid_law: "- 1 \<notin> open_fds w"
    and connect_law: "connect_call env fd addr w = (r, w') \<Longrightarrow> open_fds w' = open_fds w"
    and setsockopt_law: "setsockopt env fd opt tv w = (r, w') \<Longrightarrow> open_fds w' = open_fds w"
    and send_law: "send_call env fd buf w = (r, w') \<Longrightarrow> open_fds w' = open_fds w"
    and recv_law: "recv_call env fd len w = ((r, bytes), w') \<Longrightarrow> open_fds w' = open_fds w"
    and recv_count: "recv_call env fd len w = ((r, bytes), w') \<Longrightarrow>
      r = - 1 \<and> bytes = [] \<or> r \<noteq> - 1 \<and> unat r = length bytes \<and> length bytes \<le> unat len"
    and close_law: "closesocket env fd w = (r, w') \<Longrightarrow>
      (if fd \<in> open_fds w then r = 0 \<and> open_fds w' = open_fds w - {fd}
       else r = - 1 \<and> open_fds w' = open_fds w)"

text \<open>The operations of a client on an open transport.\<close>

datatype use = Write "uint8_t list" | Read "uint8_t list" size_t int32_t

fun tcp_use :: "'w net_env \<Rightarrow> use \<Rightarrow> ('w socket_state, size_t) cmd" where
  "tcp_use env (Write buf) = cbind (rtt_tcp_transport_write env buf 0) (\<lambda>(n, errcode). creturn n)"
| "tcp_use env (Read buf len timeout) =
     cbind (rtt_tcp_transport_read env buf len timeout 0) (\<lambda>((n, buf), errcode). creturn n)"

lemmas socket_defs = net_call_def sock_call_def deref_def resolve_host_def make_socket_def
  fill_address_def connect_server_def receive_into_def cmd_defs

locale socket_client = sockets env open_fds for env :: "'w net_env" and open_fds +
  fixes args :: "micro_ros_agent_locator option"
begin

lemma make_socket_fds:
  assumes "make_socket env ty s = Inr (failed, t)"
  shows "if failed then sock t = - 1 \<and> open_fds (net t) = open_fds (net s)
    else sock t \<notin> open_fds (net s) \<and> open_fds (net t) = insert (sock t) (open_fds (net s))"
proof -
  obtain fd w where e: "socket_call env ty (net s) = (fd, w)" by (cases "socket_call env ty (net s)")
  show ?thesis using assms e socket_law [OF e] by (auto simp: socket_defs)
qed

lemma resolve_host_fds:
  "resolve_host env l s = Inr (u, t) \<Longrightarrow> open_fds (net t) = open_fds (net s) \<and> sock t = sock s"
  by (auto simp: socket_defs gethost_law split: prod.splits)

lemma fill_address_fds: "fill_address l s = Inr (u, t) \<Longrightarrow> net t = net s \<and> sock t = sock s"
  by (auto simp: socket_defs split: option.splits)

lemma connect_server_fds:
  "connect_server env s = Inr (r, t) \<Longrightarrow> open_fds (net t) = open_fds (net s) \<and> sock t = sock s"
  by (auto simp: socket_defs connect_law split: prod.splits)

lemma setsockopt_fds:
  "sock_call (\<lambda>fd. setsockopt env fd opt tv) s = Inr (r, t) \<Longrightarrow>
   open_fds (net t) = open_fds (net s) \<and> sock t = sock s"
  by (auto simp: socket_defs setsockopt_law split: prod.splits)

lemma close_fds:
  "sock_call (closesocket env) s = Inr (r, t) \<Longrightarrow> sock t = sock s \<and>
   (if sock s \<in> open_fds (net s) then r = 0 \<and> open_fds (net t) = open_fds (net s) - {sock s}
    else r = - 1 \<and> open_fds (net t) = open_fds (net s))"
  by (auto simp: socket_defs dest: close_law split: prod.splits if_splits)

lemma bind_Inr: "cbind f g s = Inr r \<Longrightarrow> \<exists>x t. f s = Inr (x, t) \<and> g x t = Inr r"
  by (auto simp: cbind_def split: sum.splits)

text \<open>Up to the connection both transports do the same to the descriptors.\<close>

definition prepared :: "socket_type \<Rightarrow> ('w socket_state, 'a) cmd \<Rightarrow> ('w socket_state, 'a) cmd \<Rightarrow> ('w socket_state, 'a) cmd" where
  "prepared ty on_failure rest =
     cbind (deref args) (\<lambda>l. cseq (resolve_host env l) (cbind (make_socket env ty) (\<lambda>failed.
       if failed then cseq (sock_call (closesocket env)) on_failure else cseq (fill_address l) rest)))"

lemma prepared_Inr:
  assumes "prepared ty on_failure rest s = Inr (b, t)"
  obtains (failed) u where "on_failure u = Inr (b, t)" "open_fds (net u) = open_fds (net s)" "sock u = - 1"
  | (ready) u where "rest u = Inr (b, t)" "sock u \<notin> open_fds (net s)"
      "open_fds (net u) = insert (sock u) (open_fds (net s))"
proof -
  from assms [unfolded prepared_def] obtain l s1 s2 failed where
    r: "resolve_host env l s = Inr ((), s1)" and m: "make_socket env ty s1 = Inr (failed, s2)"
    and k: "(if failed then cseq (sock_call (closesocket env)) on_failure else cseq (fill_address l) rest) s2 = Inr (b, t)"
    by (auto simp: cseq_def deref_def creturn_def cfail_def dest!: bind_Inr split: option.splits)
  note rf = resolve_host_fds [OF r] and mf = make_socket_fds [OF m]
  show thesis
  proof (cases failed)
    case True
    with k obtain r' u where c: "sock_call (closesocket env) s2 = Inr (r', u)" and o: "on_failure u = Inr (b, t)"
      by (auto simp: cseq_def dest: bind_Inr)
    show thesis using close_fds [OF c] mf rf True invalid_law [of "net s"] by (intro failed [OF o]) auto
  next
    case False
    with k obtain v u where f: "fill_address l s2 = Inr (v, u)" and o: "rest u = Inr (b, t)"
      by (auto simp: cseq_def dest: bind_Inr)
    show thesis using fill_address_fds [OF f] mf rf False by (intro ready [OF o]) simp_all
  qed
qed

lemma udp_open_prepared:
  "rtt_udp_transport_open env args =
   prepared SOCK_DGRAM (creturn False)
     (cbind (connect_server env) (\<lambda>r. if r <s 0 then creturn False else creturn True))"
  by (simp add: rtt_udp_transport_open_def prepared_def)

lemma tcp_open_prepared:
  "rtt_tcp_transport_open env args =
   prepared SOCK_STREAM (creturn False)
     (cseq (sock_call (\<lambda>fd. setsockopt env fd SO_RCVTIMEO \<lparr>tv_sec_of = 0, tv_usec_of = 200000\<rparr>))
     (cseq (sock_call (\<lambda>fd. setsockopt env fd SO_SNDTIMEO \<lparr>tv_sec_of = 0, tv_usec_of = 200000\<rparr>))
     (cbind (connect_server env) (\<lambda>r.
      if r = - 1 then cseq (sock_call (closesocket env)) (creturn False) else creturn True))))"
  by (simp add: rtt_tcp_transport_open_def prepared_def)

lemma tcp_open_fds:
  assumes "rtt_tcp_transport_open env args s = Inr (b, t)"
  shows "if b then sock t \<notin> open_fds (net s) \<and> open_fds (net t) = insert (sock t) (open_fds (net s))
    else open_fds (net t) = open_fds (net s)"
  using assms unfolding tcp_open_prepared
proof (cases rule: prepared_Inr)
  case (failed u)
  then show ?thesis by (simp add: creturn_def)
next
  case (ready u)
  from ready(1) obtain x1 u1 x2 u2 r u3 where
    o: "sock_call (\<lambda>fd. setsockopt env fd SO_RCVTIMEO \<lparr>tv_sec_of = 0, tv_usec_of = 200000\<rparr>) u = Inr (x1, u1)"
      "sock_call (\<lambda>fd. setsockopt env fd SO_SNDTIMEO \<lparr>tv_sec_of = 0, tv_usec_of = 200000\<rparr>) u1 = Inr (x2, u2)"
      "connect_server env u2 = Inr (r, u3)"
    and k: "(if r = - 1 then cseq (sock_call (closesocket env)) (creturn False) else creturn True) u3 = Inr (b, t)"
    by (auto simp: cseq_def dest!: bind_Inr)
  have u3: "sock u3 = sock u" "open_fds (net u3) = open_fds (net u)"
    using setsockopt_fds [OF o(1)] setsockopt_fds [OF o(2)] connect_server_fds [OF o(3)] by simp_all
  show ?thesis
  proof (cases "r = - 1")
    case True
    with k obtain r' where c: "sock_call (closesocket env) u3 = Inr (r', t)" and b: "\<not> b"
      by (auto simp: cseq_def creturn_def dest!: bind_Inr)
    show ?thesis using close_fds [OF c] u3 ready(2,3) b by simp
  qed (use k u3 ready(2,3) in \<open>simp add: creturn_def\<close>)
qed

lemma udp_open_fds:
  assumes "rtt_udp_transport_open env args s = Inr (b, t)"
  shows "sock t = - 1 \<and> open_fds (net t) = open_fds (net s) \<and> \<not> b \<or>
    sock t \<notin> open_fds (net s) \<and> open_fds (net t) = insert (sock t) (open_fds (net s))"
  using assms unfolding udp_open_prepared
proof (cases rule: prepared_Inr)
  case (failed u)
  then show ?thesis by (simp add: creturn_def)
next
  case (ready u)
  from ready(1) obtain r u3 where o: "connect_server env u = Inr (r, u3)"
    and k: "(if r <s 0 then creturn False else creturn True) u3 = Inr (b, t)"
    by (auto dest!: bind_Inr)
  with connect_server_fds [OF o] ready(2,3) show ?thesis by (auto simp: creturn_def split: if_splits)
qed

lemma receive_fds:
  "receive_into env buf len s = Inr (r, t) \<Longrightarrow> open_fds (net t) = open_fds (net s) \<and> sock t = sock s"
  by (auto simp: socket_defs recv_law split: prod.splits if_splits)

lemma tcp_use_fds: "tcp_use env u s = Inr (r, t) \<Longrightarrow> sock t = sock s \<and> open_fds (net t) = open_fds (net s)"
proof (cases u)
  case (Write buf)
  assume "tcp_use env u s = Inr (r, t)"
  with Write show ?thesis
    by (auto simp: rtt_tcp_transport_write_def socket_defs send_law split: prod.splits)
next
  case (Read buf len timeout)
  assume "tcp_use env u s = Inr (r, t)"
  with Read show ?thesis
    by (auto simp: rtt_tcp_transport_read_def creturn_def dest!: bind_Inr receive_fds split: prod.splits)
qed

lemma tcp_close_fds:
  "rtt_tcp_transport_close env s = Inr (b, t) \<Longrightarrow> sock s \<in> open_fds (net s) \<Longrightarrow>
   open_fds (net t) = open_fds (net s) - {sock s} \<and> \<not> b"
  by (auto simp: rtt_tcp_transport_close_def creturn_def dest!: bind_Inr close_fds)

end

sublocale socket_client \<subseteq> tcp: descriptor_transport "rtt_tcp_transport_open env args" "tcp_use env"
  "rtt_tcp_transport_close env" sock "\<lambda>s. open_fds (net s)"
  by unfold_locales (auto dest: tcp_open_fds tcp_use_fds tcp_close_fds)

context socket_client
begin

lemma tcp_sessions_fds:
  "sessions (rtt_tcp_transport_open env args) (tcp_use env) (rtt_tcp_transport_close env) uss s = Inr (r, t) \<Longrightarrow>
   open_fds (net t) = open_fds (net s)"
  by (rule tcp.sessions_balanced)

end

section \<open>A network\<close>

text \<open>Four descriptors; the agent can be reached or not; received datagrams are queued.\<close>

record network =
  open_list :: "int32_t list"
  agent_up :: bool
  inbox :: "uint8_t list list"

fun network_socket :: "network \<Rightarrow> int32_t \<times> network" where
  "network_socket w =
     (case find (\<lambda>fd. fd \<notin> set (open_list w)) [0, 1, 2, 3] of
        None \<Rightarrow> (- 1, w)
      | Some fd \<Rightarrow> (fd, w\<lparr>open_list := fd # open_list w\<rparr>))"

fun network_recv :: "size_t \<Rightarrow> network \<Rightarrow> (int32_t \<times> uint8_t list) \<times> network" where
  "network_recv len w =
     (case inbox w of
        [] \<Rightarrow> ((- 1, []), w)
      | m # ms \<Rightarrow> let bytes = take (min (unat len) 512) m
                 in ((of_nat (length bytes), bytes), w\<lparr>inbox := ms\<rparr>))"

definition network_env :: "network net_env" where
  "network_env =
     \<lparr>gethostbyname = (\<lambda>name w. (Some 0x6401A8C0, w)),
      socket_call = (\<lambda>ty. network_socket),
      connect_call = (\<lambda>fd addr w. (if agent_up w then 0 else - 1, w)),
      setsockopt = (\<lambda>fd opt tv w. (if fd \<in> set (open_list w) then 0 else - 1, w)),
      send_call = (\<lambda>fd buf w. (if agent_up w then of_nat (length buf) else - 1, w)),
      recv_call = (\<lambda>fd. network_recv),
      closesocket = (\<lambda>fd w. if fd \<noteq> - 1 \<and> fd \<in> set (open_list w)
                            then (0, w\<lparr>open_list := removeAll fd (open_list w)\<rparr>) else (- 1, w))\<rparr>"

definition network_fds :: "network \<Rightarrow> int32_t set" where
  "network_fds w = set (open_list w) - {- 1}"

lemma network_socket_law:
  "network_socket w = (fd, w') \<Longrightarrow>
   (if fd = - 1 then network_fds w' = network_fds w
    else fd \<notin> network_fds w \<and> network_fds w' = insert fd (network_fds w))"
  by (auto simp: network_fds_def split: option.splits if_splits)

lemma network_recv_law:
  assumes "network_recv len w = ((r, bytes), w')"
  shows "r = - 1 \<and> bytes = [] \<or> r \<noteq> - 1 \<and> unat r = length bytes \<and> length bytes \<le> unat len"
    and "open_list w' = open_list w"
proof -
  have small: "unat (of_nat n :: int32_t) = n \<and> (of_nat n :: int32_t) \<noteq> - 1" if "n \<le> 512" for n
  proof -
    have "unat (of_nat n :: int32_t) = n" using that by simp
    moreover have "unat (- 1 :: int32_t) \<noteq> n" using that by (simp add: unsigned_minus_1_eq_mask mask_eq_exp_minus_1)
    ultimately show ?thesis by metis
  qed
  show "r = - 1 \<and> bytes = [] \<or> r \<noteq> - 1 \<and> unat r = length bytes \<and> length bytes \<le> unat len"
  proof (cases "inbox w")
    case (Cons m ms)
    then have b: "bytes = take (min (unat len) 512) m" "r = of_nat (length bytes)"
      using assms by (auto simp: Let_def)
    then have "length bytes \<le> 512" "length bytes \<le> unat len" by simp_all
    with small [of "length bytes"] b(2) show ?thesis by simp
  qed (use assms in simp)
  show "open_list w' = open_list w" using assms by (cases "inbox w") (auto simp: Let_def)
qed

interpretation net: socket_client network_env network_fds "Some \<lparr>address = ''agent'', port = 9999\<rparr>"
proof unfold_locales
  fix ty w fd w'
  assume "socket_call network_env ty w = (fd, w')"
  then show "if fd = - 1 then network_fds w' = network_fds w
    else fd \<notin> network_fds w \<and> network_fds w' = insert fd (network_fds w)"
    unfolding network_env_def net_env.select_convs by (rule network_socket_law)
next
  fix fd len w r bytes w'
  assume "recv_call network_env fd len w = ((r, bytes), w')"
  then have n: "network_recv len w = ((r, bytes), w')" by (simp add: network_env_def)
  show "r = - 1 \<and> bytes = [] \<or> r \<noteq> - 1 \<and> unat r = length bytes \<and> length bytes \<le> unat len"
    by (rule network_recv_law(1) [OF n])
  show "network_fds w' = network_fds w" using network_recv_law(2) [OF n] by (simp add: network_fds_def)
qed (auto simp: network_env_def network_fds_def split: if_splits)

end
