(* ===== verification/Socket_Properties.thy ===== *)
theory Socket_Properties
  imports Socket_Contracts
begin

text \<open>
  The properties of the two socket transports: descriptors over whole sessions, what a failed
  opening leaves behind, results and error codes, and the receive timeout. Each holds for every
  network stack with the laws of \<open>sockets\<close>; the witnesses are runs of the network of
  \<open>Socket_Contracts\<close>.
\<close>

section \<open>Runs\<close>

definition network_start :: "bool \<Rightarrow> network socket_state" where
  "network_start up =
     \<lparr>sock = 0, host = None,
      server_addr = \<lparr>sin_family = 0, sin_port = 0, sin_addr = 0, sin_zero = []\<rparr>,
      net = \<lparr>open_list = [], agent_up = up, inbox = [[1, 2, 3]]\<rparr>\<rparr>"

definition agent_args :: "micro_ros_agent_locator option" where
  "agent_args = Some \<lparr>address = ''agent'', port = 9999\<rparr>"

lemma network_sockets: "sockets network_env network_fds"
  by (rule net.sockets_axioms)

lemma client_of: "sockets env open_fds \<Longrightarrow> socket_client env open_fds"
  by (simp add: socket_client_def)

section \<open>Properties\<close>

text \<open>
  C13: however often a client opens the TCP transport, writes and reads in any order and closes
  it, with failures of any call in between, in the end exactly the descriptors are open that
  were open before.
\<close>

theorem tcp_sessions_balanced:
  assumes "sockets env open_fds"
    and "sessions (rtt_tcp_transport_open env args) (tcp_use env) (rtt_tcp_transport_close env) uss s = Inr (r, t)"
  shows "open_fds (net t) = open_fds (net s)"
  by (rule socket_client.tcp_sessions_fds [OF client_of [OF assms(1)] assms(2)])

text \<open>The run of the witness: the agent is down, so the opening fails; then it is used twice.\<close>

definition tcp_run :: "bool \<Rightarrow> c_error + unit \<times> network socket_state" where
  "tcp_run up =
     sessions (rtt_tcp_transport_open network_env agent_args) (tcp_use network_env)
       (rtt_tcp_transport_close network_env)
       [[Write [7]], [Write [1, 2], Read [0, 0, 0, 0] 4 100]] (network_start up)"

definition run_end :: "c_error + unit \<times> network socket_state \<Rightarrow> network socket_state" where
  "run_end r = (case r of Inr (u, t) \<Rightarrow> t | Inl e \<Rightarrow> network_start False)"

lemma tcp_run_ends:
  "tcp_run True = Inr ((), run_end (tcp_run True))" "tcp_run False = Inr ((), run_end (tcp_run False))"
  by code_simp+

theorem tcp_sessions_balanced_witness:
  "network_fds (net (run_end (tcp_run True))) = network_fds (net (network_start True)) \<and>
   network_fds (net (run_end (tcp_run False))) = network_fds (net (network_start False))"
proof
  show "network_fds (net (run_end (tcp_run True))) = network_fds (net (network_start True))"
    by (rule tcp_sessions_balanced [OF network_sockets]) (rule trans [OF tcp_run_def [symmetric] tcp_run_ends(1)])
  show "network_fds (net (run_end (tcp_run False))) = network_fds (net (network_start False))"
    by (rule tcp_sessions_balanced [OF network_sockets]) (rule trans [OF tcp_run_def [symmetric] tcp_run_ends(2)])
qed

text \<open>
  Opening the TCP transport either succeeds with one new descriptor, which is the one the
  transport uses, or fails and leaves the descriptors as they were.
\<close>

lemma tcp_open_all_or_nothing:
  assumes "sockets env open_fds" and "rtt_tcp_transport_open env args s = Inr (b, t)"
  shows "b \<and> sock t \<notin> open_fds (net s) \<and> open_fds (net t) = insert (sock t) (open_fds (net s)) \<or>
    \<not> b \<and> open_fds (net t) = open_fds (net s)"
  using socket_client.tcp_open_fds [OF client_of [OF assms(1)] assms(2)] by (cases b) simp_all

lemma tcp_open_run:
  "rtt_tcp_transport_open network_env agent_args (network_start False) =
   Inr (False, (network_start False)\<lparr>host := Some 0x6401A8C0,
     server_addr := \<lparr>sin_family = 2, sin_port = 0x0F27, sin_addr = 0x6401A8C0, sin_zero = replicate 8 0\<rparr>\<rparr>)"
  by code_simp

text \<open>
  When the connection of the UDP transport fails, its opening returns false with the new
  descriptor still open, and the transport offers no way to close it before the next opening
  overwrites \<open>sock\<close>.
\<close>

lemma udp_failed_open_leaks:
  assumes "sockets env open_fds" and "rtt_udp_transport_open env args s = Inr (False, t)"
    and "sock t \<noteq> - 1"
  shows "sock t \<notin> open_fds (net s) \<and> open_fds (net t) = insert (sock t) (open_fds (net s))"
  using socket_client.udp_open_fds [OF client_of [OF assms(1)] assms(2)] assms(3) by simp

lemma udp_open_run:
  "rtt_udp_transport_open network_env agent_args (network_start False) =
   Inr (False, (network_start False)\<lparr>host := Some 0x6401A8C0,
     server_addr := \<lparr>sin_family = 2, sin_port = 0x0F27, sin_addr = 0x6401A8C0, sin_zero = replicate 8 0\<rparr>,
     net := (net (network_start False))\<lparr>open_list := [0]\<rparr>\<rparr>)"
  by code_simp

definition after_failures ::
    "(network socket_state, bool) cmd \<Rightarrow> c_error + bool \<times> network socket_state" where
  "after_failures open_op =
     cseq open_op (cseq open_op (cseq open_op (cseq open_op
       (cseq (cmodify (\<lambda>s. s\<lparr>net := (net s)\<lparr>agent_up := True\<rparr>\<rparr>)) open_op)))) (network_start False)"

text \<open>
  Four failed openings of the UDP transport use up a stack with four descriptors: the fifth
  opening fails although the agent has come up, while the TCP transport, after the same failures,
  connects.
\<close>

lemma udp_failures_exhaust_descriptors:
  "(\<exists>t. after_failures (rtt_udp_transport_open network_env agent_args) = Inr (False, t) \<and>
      network_fds (net t) = {0, 1, 2, 3}) \<and>
   (\<exists>t. after_failures (rtt_tcp_transport_open network_env agent_args) = Inr (True, t) \<and>
      network_fds (net t) = {0})"
proof -
  have "map_sum id (\<lambda>(b, t). (b, open_list (net t))) (after_failures (rtt_udp_transport_open network_env agent_args)) =
      Inr (False, [3, 2, 1, 0])"
    and "map_sum id (\<lambda>(b, t). (b, open_list (net t))) (after_failures (rtt_tcp_transport_open network_env agent_args)) =
      Inr (True, [0])"
    by code_simp+
  then show ?thesis
    by (cases "after_failures (rtt_udp_transport_open network_env agent_args)";
        cases "after_failures (rtt_tcp_transport_open network_env agent_args)")
      (auto simp: network_fds_def)
qed

text \<open>
  Closing an open socket works, but both transports then return false, and they return true
  when it fails: the result of \<open>closesocket\<close> (0 for success) is returned as the bool.
\<close>

lemma close_result_inverted:
  assumes "sockets env open_fds"
  shows "\<exists>b t. rtt_udp_transport_close env s = Inr (b, t) \<and> rtt_tcp_transport_close env s = Inr (b, t) \<and>
    b = (sock s \<notin> open_fds (net s)) \<and> open_fds (net t) = open_fds (net s) - {sock s}"
proof -
  obtain r w where c: "closesocket env (sock s) (net s) = (r, w)" by (cases "closesocket env (sock s) (net s)")
  from sockets.close_law [OF assms c] show ?thesis using c
    by (auto simp: rtt_udp_transport_close_def rtt_tcp_transport_close_def socket_defs split: if_splits)
qed



text \<open>
  When \<open>recv\<close> fails, the TCP transport returns the count \<open>2^32 - 1\<close>, more than any buffer
  holds, and leaves the error code as the caller set it.
\<close>

lemma tcp_read_error_is_count:
  assumes "sockets env open_fds" and "recv_call env (sock s) len (net s) = ((- 1, bytes), w)"
  shows "rtt_tcp_transport_read env buf len timeout errcode s = Inr (((- 1, buf), errcode), s\<lparr>net := w\<rparr>) \<and>
    unat (- 1 :: size_t) = 2 ^ 32 - 1"
  using sockets.recv_count [OF assms] assms(2)
  by (auto simp: rtt_tcp_transport_read_def socket_defs unsigned_minus_1_eq_mask mask_eq_exp_minus_1)

lemma sint_of_int_small: "- (2 ^ 31) \<le> k \<Longrightarrow> k < 2 ^ 31 \<Longrightarrow> sint (of_int k :: int32_t) = k"
  using mod_pos_pos_trivial [of "k + 2 ^ 31" "2 ^ 32"] by (simp add: int_word_sint)

text \<open>
  The receive timeout that the UDP transport sets is the requested number of milliseconds,
  but at least one millisecond (zero would mean to wait for ever), with the microseconds
  normalised.
\<close>

lemma udp_receive_timeout:
  "sint (tv_sec_of (receive_timeout timeout)) * 1000 + sint (tv_usec_of (receive_timeout timeout)) div 1000 =
     max 1 (sint timeout) \<and>
   0 \<le> sint (tv_usec_of (receive_timeout timeout)) \<and> sint (tv_usec_of (receive_timeout timeout)) < 1000000 \<and>
   sint (tv_usec_of (receive_timeout timeout)) mod 1000 = 0"
proof -
  define t :: int where "t = max 1 (sint timeout)"
  have t: "0 < t" "t < 2 ^ 31" using sint_lt [of timeout] by (auto simp: t_def)
  have s: "sint (if timeout \<le>s 0 then 1 else timeout) = t"
    by (auto simp: t_def word_sle_eq)
  have d: "t sdiv 1000 = t div 1000" "t smod 1000 = t mod 1000"
    using t(1) by (simp_all add: signed_divide_int_def signed_modulo_int_def minus_div_mult_eq_mod)
  have e: "t div 1000 * 1000 + t mod 1000 = t" by (rule div_mult_mod_eq)
  have b: "t div 1000 < 2 ^ 31" "0 \<le> t div 1000" "0 \<le> t mod 1000" "t mod 1000 < 1000"
    using t e pos_mod_bound [of 1000 t] pos_mod_sign [of 1000 t] by linarith+
  have sec: "sint (tv_sec_of (receive_timeout timeout)) = t div 1000"
    using b by (simp add: receive_timeout_def s d sint_of_int_small)
  have "(of_int (t mod 1000) * 1000 :: int32_t) = of_int (t mod 1000 * 1000)" by simp
  then have usec: "sint (tv_usec_of (receive_timeout timeout)) = t mod 1000 * 1000"
    using b sint_of_int_small [of "t mod 1000 * 1000"] by (simp add: receive_timeout_def s d)
  show ?thesis using b e unfolding sec usec t_def [symmetric] by simp
qed

end
