(* ===== verification/Ctype_Table.thy ===== *)
theory Ctype_Table
  imports Prelude
begin

text \<open>
  The character table that \<^verbatim>\<open>src/rtt_serial_transports.c\<close> supplies for the prebuilt library: the
  array \<^verbatim>\<open>_ctype_b\<close> and the pointer \<^verbatim>\<open>__ctype_ptr__\<close> into it. The flags and the macros that
  look a character up are those of the C library (newlib's \<^verbatim>\<open>ctype.h\<close>): a character \<open>c\<close> has its
  flags at \<^verbatim>\<open>__ctype_ptr__[1 + c]\<close>, for \<open>c\<close> from -128 (a negative char) to 255.
\<close>

section \<open>The table\<close>

definition flag_U :: uint8_t where "flag_U = 0x01"
definition flag_L :: uint8_t where "flag_L = 0x02"
definition flag_N :: uint8_t where "flag_N = 0x04"
definition flag_S :: uint8_t where "flag_S = 0x08"
definition flag_P :: uint8_t where "flag_P = 0x10"
definition flag_C :: uint8_t where "flag_C = 0x20"
definition flag_X :: uint8_t where "flag_X = 0x40"
definition flag_B :: uint8_t where "flag_B = 0x80"

lemmas flag_defs = flag_U_def flag_L_def flag_N_def flag_S_def flag_P_def flag_C_def flag_X_def flag_B_def

definition CTYPE_DATA_0_127 :: "uint8_t list" where
  "CTYPE_DATA_0_127 =
    [flag_C, flag_C, flag_C, flag_C, flag_C, flag_C, flag_C, flag_C,
     flag_C, flag_C OR flag_S, flag_C OR flag_S, flag_C OR flag_S, flag_C OR flag_S, flag_C OR flag_S, flag_C, flag_C,
     flag_C, flag_C, flag_C, flag_C, flag_C, flag_C, flag_C, flag_C,
     flag_C, flag_C, flag_C, flag_C, flag_C, flag_C, flag_C, flag_C,
     flag_S OR flag_B, flag_P, flag_P, flag_P, flag_P, flag_P, flag_P, flag_P,
     flag_P, flag_P, flag_P, flag_P, flag_P, flag_P, flag_P, flag_P,
     flag_N, flag_N, flag_N, flag_N, flag_N, flag_N, flag_N, flag_N,
     flag_N, flag_N, flag_P, flag_P, flag_P, flag_P, flag_P, flag_P,
     flag_P, flag_U OR flag_X, flag_U OR flag_X, flag_U OR flag_X, flag_U OR flag_X, flag_U OR flag_X, flag_U OR flag_X, flag_U,
     flag_U, flag_U, flag_U, flag_U, flag_U, flag_U, flag_U, flag_U,
     flag_U, flag_U, flag_U, flag_U, flag_U, flag_U, flag_U, flag_U,
     flag_U, flag_U, flag_U, flag_P, flag_P, flag_P, flag_P, flag_P,
     flag_P, flag_L OR flag_X, flag_L OR flag_X, flag_L OR flag_X, flag_L OR flag_X, flag_L OR flag_X, flag_L OR flag_X, flag_L,
     flag_L, flag_L, flag_L, flag_L, flag_L, flag_L, flag_L, flag_L,
     flag_L, flag_L, flag_L, flag_L, flag_L, flag_L, flag_L, flag_L,
     flag_L, flag_L, flag_L, flag_P, flag_P, flag_P, flag_P, flag_C]"

definition CTYPE_DATA_128_255 :: "uint8_t list" where
  "CTYPE_DATA_128_255 = replicate 128 0"

definition ctype_b :: "uint8_t list" where
  "ctype_b = CTYPE_DATA_128_255 @ CTYPE_DATA_0_127 @ CTYPE_DATA_128_255"

text \<open>The index of \<^verbatim>\<open>__ctype_ptr__\<close> in the array, and a look-up, which must stay inside it.\<close>

definition ctype_ptr :: int where
  "ctype_ptr = 127"

definition ctype_lookup :: "int \<Rightarrow> uint8_t option" where
  "ctype_lookup c =
     (let i = ctype_ptr + 1 + c
      in if 0 \<le> i \<and> i < int (length ctype_b) then Some (ctype_b ! nat i) else None)"

text \<open>A macro such as \<^verbatim>\<open>isalpha\<close> tests the flags against a mask.\<close>

definition is_class :: "uint8_t \<Rightarrow> int \<Rightarrow> bool" where
  "is_class m c = (case ctype_lookup c of None \<Rightarrow> False | Some f \<Rightarrow> f AND m \<noteq> 0)"

section \<open>What the table says\<close>

fun in_ranges :: "(int \<times> int) list \<Rightarrow> int \<Rightarrow> bool" where
  "in_ranges [] c = False"
| "in_ranges ((a, b) # rs) c = (a \<le> c \<and> c \<le> b \<or> in_ranges rs c)"

text \<open>The classes as ranges of the ASCII code.\<close>

definition ascii_classes :: "(uint8_t \<times> (int \<times> int) list) list" where
  "ascii_classes =
    [(flag_U, [(65, 90)]), (flag_L, [(97, 122)]), (flag_N, [(48, 57)]),
     (flag_S, [(9, 13), (32, 32)]), (flag_P, [(33, 47), (58, 64), (91, 96), (123, 126)]),
     (flag_C, [(0, 31), (127, 127)]), (flag_X, [(65, 70), (97, 102)]), (flag_B, [(32, 32)])]"

lemma length_ctype_b: "length ctype_b = 384"
  by (simp add: ctype_b_def CTYPE_DATA_0_127_def CTYPE_DATA_128_255_def)

definition class_ok :: "uint8_t \<times> (int \<times> int) list \<Rightarrow> nat \<times> uint8_t \<Rightarrow> bool" where
  "class_ok cl e = ((snd e AND fst cl \<noteq> 0) = in_ranges (snd cl) (int (fst e)))"

lemma table_ok:
  "list_all (\<lambda>cl. list_all (class_ok cl) (zip [0..<128] CTYPE_DATA_0_127)) ascii_classes"
  unfolding ascii_classes_def CTYPE_DATA_0_127_def flag_defs
  by code_simp

lemma length_CTYPE: "length CTYPE_DATA_0_127 = 128" "length CTYPE_DATA_128_255 = 128"
  by (simp_all add: CTYPE_DATA_0_127_def CTYPE_DATA_128_255_def)

lemma lookup_ascii:
  assumes "0 \<le> c" "c < 128"
  shows "ctype_lookup c = Some (CTYPE_DATA_0_127 ! nat c)"
proof -
  have "nat (128 + c) = 128 + nat c" "nat c < 128" using assms by (auto simp: nat_add_distrib)
  then show ?thesis using assms
    by (simp add: ctype_lookup_def ctype_ptr_def length_ctype_b nth_append ctype_b_def length_CTYPE)
qed

lemma lookup_other:
  assumes "- 128 \<le> c \<and> c < 0 \<or> 128 \<le> c \<and> c \<le> 255"
  shows "ctype_lookup c = Some 0"
proof -
  have "nat (128 + c) < 128 \<or> 256 \<le> nat (128 + c) \<and> nat (128 + c) < 384" using assms by auto
  then have "ctype_b ! nat (128 + c) = 0"
    by (auto simp: ctype_b_def nth_append length_CTYPE) (auto simp: CTYPE_DATA_128_255_def)
  then show ?thesis using assms by (auto simp: ctype_lookup_def ctype_ptr_def length_ctype_b)
qed

lemma ascii_class:
  assumes "(f, rs) \<in> set ascii_classes" "0 \<le> c" "c < 128"
  shows "(CTYPE_DATA_0_127 ! nat c AND f \<noteq> 0) = in_ranges rs c"
proof -
  have "(nat c, CTYPE_DATA_0_127 ! nat c) \<in> set (zip [0..<128] CTYPE_DATA_0_127)"
    using assms(2,3) by (auto simp: set_zip length_CTYPE intro!: exI [of _ "nat c"])
  then show ?thesis
    using table_ok assms by (auto simp: list_all_iff class_ok_def dest!: bspec)
qed

lemma classes_ascii: "(f, rs) \<in> set ascii_classes \<Longrightarrow> in_ranges rs c \<Longrightarrow> 0 \<le> c \<and> c < 128"
  by (auto simp: ascii_classes_def)

lemma ctype_ranges:
  assumes "- 128 \<le> c" "c \<le> 255" "(f, rs) \<in> set ascii_classes"
  shows "ctype_lookup c \<noteq> None \<and> is_class f c = in_ranges rs c"
proof (cases "0 \<le> c \<and> c < 128")
  case True
  then show ?thesis using lookup_ascii [of c] ascii_class [OF assms(3)] by (simp add: is_class_def)
next
  case False
  then have "ctype_lookup c = Some 0" using assms(1,2) by (intro lookup_other) auto
  then show ?thesis using False classes_ascii [OF assms(3)] by (auto simp: is_class_def)
qed

text \<open>
  For every character from -128 to 255 a look-up stays inside the table, and each class of
  the table is exactly its range of the ASCII code; nothing outside ASCII is in a class.
\<close>

lemma ctype_table_is_ascii:
  assumes "- 128 \<le> c" "c \<le> 255" "(f, rs) \<in> set ascii_classes"
  shows "ctype_lookup c \<noteq> None \<and> is_class f c = in_ranges rs c"
  using assms by (rule ctype_ranges)

end
