(* ===== verification/Decimal.thy ===== *)
theory Decimal
  imports Prelude
begin

text \<open>
  The conversion \<^verbatim>\<open>%d\<close> of \<^verbatim>\<open>sprintf\<close>, as the code uses it for its ints: the decimal digits,
  after a minus sign for a negative number, with the facts that the text determines the number
  and how long it can be.
\<close>

section \<open>Formatting\<close>

definition digit :: "nat \<Rightarrow> char" where
  "digit d = ''0123456789'' ! d"

fun show_nat :: "nat \<Rightarrow> string" where
  "show_nat n = (if n < 10 then [digit n] else show_nat (n div 10) @ [digit (n mod 10)])"

definition show_int :: "int \<Rightarrow> string" where
  "show_int i = (if i < 0 then CHR ''-'' # show_nat (nat (- i)) else show_nat (nat i))"

declare show_nat.simps [simp del]

section \<open>Reading back\<close>

definition digit_value :: "char \<Rightarrow> nat" where
  "digit_value c = of_char c - 48"

definition parse_nat :: "string \<Rightarrow> nat" where
  "parse_nat s = foldl (\<lambda>a c. 10 * a + digit_value c) 0 s"

lemma digit_value_digit: "d < 10 \<Longrightarrow> digit_value (digit d) = d"
proof -
  assume "d < 10"
  then have "d = 0 \<or> d = 1 \<or> d = 2 \<or> d = 3 \<or> d = 4 \<or> d = 5 \<or> d = 6 \<or> d = 7 \<or> d = 8 \<or> d = 9" by arith
  then show ?thesis by (elim disjE) (simp_all add: digit_value_def digit_def of_char_def)
qed

lemma parse_show_nat: "parse_nat (show_nat n) = n"
proof (induction n rule: show_nat.induct)
  case (1 n)
  show ?case
  proof (cases "n < 10")
    case True
    then show ?thesis by (simp add: show_nat.simps parse_nat_def digit_value_digit)
  next
    case False
    then show ?thesis using 1
      by (subst show_nat.simps) (simp add: parse_nat_def digit_value_digit)
  qed
qed

definition digit_set :: "char set" where
  "digit_set = set ''0123456789''"

lemma digit_chars: "d < 10 \<Longrightarrow> digit d \<in> digit_set"
  unfolding digit_set_def digit_def by (rule nth_mem) simp

lemma no_digits: "CHR ''_'' \<notin> digit_set" "CHR ''-'' \<notin> digit_set"
  by (simp_all add: digit_set_def)

lemma show_nat_chars: "set (show_nat n) \<subseteq> digit_set"
proof (induction n rule: show_nat.induct)
  case (1 n)
  then show ?case using digit_chars [of n] digit_chars [of "n mod 10"]
    by (subst show_nat.simps) simp
qed

lemma show_nat_inject: "show_nat m = show_nat n \<Longrightarrow> m = n"
  by (metis parse_show_nat)

lemma show_int_inject: "show_int i = show_int j \<Longrightarrow> i = j"
proof -
  assume e: "show_int i = show_int j"
  have d: "CHR ''-'' # xs \<noteq> show_nat n" for n xs
    using show_nat_chars [of n] no_digits(2) by (metis list.set_intros(1) subsetD)
  show "i = j"
  proof (cases "i < 0"; cases "j < 0")
    assume "i < 0" "j < 0"
    with e show ?thesis by (auto simp: show_int_def dest!: show_nat_inject)
  next
    assume "\<not> i < 0" "\<not> j < 0"
    with e show ?thesis by (auto simp: show_int_def dest!: show_nat_inject)
  qed (use e d [of _ "nat i"] d [of _ "nat j"] in \<open>simp_all add: show_int_def d [symmetric]\<close>)
qed

lemma length_show_nat: "n < 10 ^ Suc k \<Longrightarrow> length (show_nat n) \<le> Suc k"
proof (induction k arbitrary: n)
  case 0
  then show ?case by (simp add: show_nat.simps)
next
  case (Suc k)
  have "n div 10 < 10 ^ Suc k" using Suc.prems by (simp add: less_mult_imp_div_less)
  from Suc.IH [OF this] show ?case by (subst show_nat.simps) simp
qed

lemma length_show_int: "- (2 ^ 31) \<le> i \<Longrightarrow> i < 2 ^ 31 \<Longrightarrow> length (show_int i) \<le> 11"
  using length_show_nat [of "nat i" 9] length_show_nat [of "nat (- i)" 9]
  by (auto simp: show_int_def nat_less_iff)

end
