(* ===== verification/Type_Info.thy ===== *)
theory Type_Info
  imports Type_Utilities Decimal
begin

text \<open>
  The textual description of a message type, \<^verbatim>\<open>print_type_info\<close> and
  \<^verbatim>\<open>micro_ros_utilities_type_info\<close> of \<^verbatim>\<open>src/type_utilities.c\<close>: the definitions on the byte
  memory with its string objects, where \<open>indent_buffer\<close> is passed by value and \<open>out\<close> is returned
  updated; the text they are meant to produce; and the proof for types without composed members.
\<close>

section \<open>Formatting\<close>

text \<open>\<^verbatim>\<open>%s\<close> with a pointer into memory: the bytes up to the null character.\<close>

fun text_of :: "mbyte list \<Rightarrow> c_error + string" where
  "text_of [] = Inl OutOfBounds"
| "text_of (Byte c # bs) =
     (if c = CHR 0x00 then Inr []
      else (case text_of bs of Inl e \<Rightarrow> Inl e | Inr s \<Rightarrow> Inr (c # s)))"
| "text_of (b # bs) = Inl UninitialisedRead"

definition read_text :: "ptr \<Rightarrow> mem \<Rightarrow> c_error + string" where
  "read_text p m = (case bytes_from p m of Inl e \<Rightarrow> Inl e | Inr bs \<Rightarrow> text_of bs)"

text \<open>\<^verbatim>\<open>snprintf(buffer, sizeof(buffer), ...)\<close> with \<^verbatim>\<open>char buffer[500]\<close>.\<close>

definition BUFFER_SIZE :: nat where
  "BUFFER_SIZE = 500"

definition snprintf :: "string \<Rightarrow> string" where
  "snprintf s = take (BUFFER_SIZE - 1) s"

definition heading :: "string \<Rightarrow> message_members \<Rightarrow> string" where
  "heading indent mm =
     snprintf (indent @ ''Introspection for '' @ message_namespace mm @ ''/'' @ message_name mm @
       '' - '' @ show_int (sint (of_nat (length (member_list mm)) :: uint32_t)) @ '' members, '' @
       show_int (sint (size_of mm)) @ '' B'' @ [CHR 0x0A])"

text \<open>The line of a member; \<open>rec\<close> is the description of a composed member.\<close>

definition member_line :: "string \<Rightarrow> message_member \<Rightarrow> message_members option \<Rightarrow> c_error + string" where
  "member_line indent m rec =
     (if length basic_type_names \<le> unat (type_id m) then Inl OutOfBounds
      else Inr (snprintf (indent @ '' - '' @ member_name m @ '' ['' @
        (if is_array m then if array_size m = 0 then ''Sequence of '' else ''Array of '' else []) @
        basic_type_names ! unat (type_id m) @
        (case rec of None \<Rightarrow> [] | Some mm \<Rightarrow> '' '' @ message_namespace mm @ ''/'' @ message_name mm) @
        '']'' @
        (if type_id m = TYPE_STRING \<or> is_array m \<and> array_size m = 0
         then '' <- This should be inited'' else []) @ [CHR 0x0A])))"

section \<open>The functions\<close>

definition composed_members :: "message_member \<Rightarrow> c_error + message_members option" where
  "composed_members m =
     (if type_id m = TYPE_COMPOSED
      then (case rec_members m of Inl e \<Rightarrow> Inl e | Inr mm \<Rightarrow> Inr (Some mm)) else Inr None)"

lemma composed_members_size [termination_simp]:
  "composed_members m = Inr (Some mm) \<Longrightarrow> size mm < size m"
  by (auto simp: composed_members_def rec_members_size split: if_splits sum.splits)

function print_type_info ::
    "rcutils_allocator_t \<Rightarrow> message_members \<Rightarrow> rosidl_runtime_c__String \<Rightarrow> rosidl_runtime_c__String \<Rightarrow>
     uint32_t \<Rightarrow> (mem, rosidl_runtime_c__String) cmd"
  and print_members ::
    "rcutils_allocator_t \<Rightarrow> message_member list \<Rightarrow> rosidl_runtime_c__String \<Rightarrow> rosidl_runtime_c__String \<Rightarrow>
     uint32_t \<Rightarrow> (mem, rosidl_runtime_c__String) cmd"
where
  "print_type_info dal mm out indent_buffer level =
     cbind (micro_ros_string_utilities_append dal indent_buffer [CHR 0x09]) (\<lambda>indent_buffer.
     cbind (if level = 0
            then cbind (cread (read_text (str_data indent_buffer))) (\<lambda>indent.
                 micro_ros_string_utilities_append dal out (heading indent mm))
            else creturn out) (\<lambda>out.
     cbind (print_members dal (member_list mm) out indent_buffer level) (\<lambda>out.
     cseq (micro_ros_string_utilities_remove_tail_chars indent_buffer 1)
     (creturn out))))"
| "print_members dal [] out indent_buffer level = creturn out"
| "print_members dal (m # ms) out indent_buffer level =
     cbind (\<lambda>s. case composed_members m of
        Inl e \<Rightarrow> Inl e
      | Inr rec \<Rightarrow>
          cbind (cread (read_text (str_data indent_buffer))) (\<lambda>indent.
          cbind (cread (\<lambda>_. member_line indent m rec)) (\<lambda>line.
          cbind (micro_ros_string_utilities_append dal out line) (\<lambda>out.
          case rec of
            None \<Rightarrow> creturn out
          | Some mm \<Rightarrow> print_type_info dal mm out indent_buffer (level + 1)))) s) (\<lambda>out.
     print_members dal ms out indent_buffer level)"
  by pat_completeness auto

termination
  by (relation "measure (\<lambda>x. case x of Inl (dal, mm, out, ind, level) \<Rightarrow> size mm
                               | Inr (dal, ms, out, ind, level) \<Rightarrow> size_list size ms)")
    (auto dest: composed_members_size simp: message_members_size)

declare print_type_info.simps [simp del] print_members.simps [simp del]

definition micro_ros_utilities_type_info ::
    "rcutils_allocator_t \<Rightarrow> type_support option \<Rightarrow> (mem, rosidl_runtime_c__String) cmd" where
  "micro_ros_utilities_type_info dal type_support =
     cbind (micro_ros_string_utilities_init dal []) (\<lambda>ret.
     cbind (cread (\<lambda>_. introspect type_support)) (\<lambda>mm.
     cbind (micro_ros_string_utilities_init dal []) (\<lambda>indent_buffer.
     cbind (print_type_info dal mm ret indent_buffer 0) (\<lambda>ret.
     cseq (micro_ros_string_utilities_destroy dal indent_buffer)
     (creturn ret)))))"

section \<open>Allocators with slack\<close>

text \<open>
  The description is written through string objects that begin as \<open>""\<close>, and the first character
  appended to one of these needs a byte more than its block was asked to have. An allocator that
  rounds the size of its blocks up provides it.
\<close>

locale slack_allocator = total_allocator +
  assumes slack: "allocate al n st m = (Ptr b 0, m') \<Longrightarrow> unat n < block_length m' b"
begin

lemma init_empty:
  "runs (micro_ros_string_utilities_init al []) m (\<lambda>str m'.
     holds_string m' str [] \<and> str_capacity str = str_size str + 1 \<and> blocks m (block_of str) = None \<and>
     only_block (block_of str) m m' \<and> 1 < block_length m' (block_of str))"
proof (rule runs_mono [OF runs_conj [OF init_ok [of "[]" m]]])
  obtain p m1 where a: "allocate al 1 (state al) m = (p, m1)" by (cases "allocate al 1 (state al) m")
  with allocate_total [of 1 "state al" m] have "p \<noteq> NULL" by simp
  from allocate_block [OF a this] obtain b k where
    b: "p = Ptr b 0" "blocks m b = None" "blocks m1 = (blocks m)(b \<mapsto> (HeapBlock, replicate k Undef))" by blast
  have k: "1 < k" using slack [OF a [unfolded b(1)]] b(3) by (simp add: block_length_def)
  show "runs (micro_ros_string_utilities_init al []) m
      (\<lambda>str m'. str_size str = 0 \<and> 1 < block_length m' (block_of str))"
    using a b k
    by (simp add: micro_ros_string_utilities_init_def Let_def run_simps strlen_def call_allocate_def
        runs_of_Inr [of _ m "Ptr b 0" m1] access_simps memset_zero_def memcpy_from_def blocks_Some_less
        blocks_update block_of_def block_length_def)
qed (simp_all add: strlen_def)

end

text \<open>The \<open>malloc\<close> of a heap that adds a word to every block.\<close>

definition padded_policy :: malloc_policy where
  "padded_policy = \<lparr>exhausted = (\<lambda>_ _. False), usable = (\<lambda>n. unat n + 4), in_place = (\<lambda>_ _. False)\<rparr>"

interpretation padded: slack_allocator "default_allocator padded_policy"
proof -
  have total: "total_allocator (default_allocator padded_policy)"
    using roomy_total [of padded_policy] by (simp add: padded_policy_def)
  then show "slack_allocator (default_allocator padded_policy)"
    by (rule slack_allocator.intro, unfold_locales)
      (auto simp: default_allocator_simps padded_policy_def block_length_def blocks_append)
qed

section \<open>Writing lines\<close>

text \<open>The object that collects the text: its capacity is that of its text.\<close>

definition tight :: "mem \<Rightarrow> rosidl_runtime_c__String \<Rightarrow> string \<Rightarrow> bool" where
  "tight m out s \<longleftrightarrow> holds_string m out s \<and> str_capacity out = str_size out + 1"

text \<open>Another object, which the writing does not touch.\<close>

definition beside :: "mem \<Rightarrow> rosidl_runtime_c__String \<Rightarrow> rosidl_runtime_c__String \<Rightarrow> string \<Rightarrow> bool" where
  "beside m out ind i \<longleftrightarrow> holds_string m ind i \<and> block_of ind \<noteq> block_of out"

lemma holds_string_frame:
  assumes "holds_string m ind i" "only_block b m m'" "block_of ind \<noteq> b"
  shows "holds_string m' ind i"
proof -
  obtain c bs where c: "str_data ind = Ptr c 0" "blocks m c = Some (HeapBlock, bs)" "block_of ind = c"
    using string_parts [OF assms(1)] by metis
  then have "blocks m' c = blocks m c" using assms(2,3) by (simp add: only_block_def)
  with assms(1) c show ?thesis by (auto simp: holds_string_def)
qed

lemma text_of_c_string: "CHR 0x00 \<notin> set s \<Longrightarrow> text_of (c_string s @ bs) = Inr s"
  by (induction s) (auto simp: c_string_def)

lemma read_text_string:
  assumes "holds_string m ind i" "CHR 0x00 \<notin> set i"
  shows "read_text (str_data ind) m = Inr i"
proof -
  obtain c bs where c: "str_data ind = Ptr c 0" "blocks m c = Some (HeapBlock, bs)"
    "take (Suc (length i)) bs = c_string i"
    using string_parts [OF assms(1)] by metis
  then have "bs = c_string i @ drop (Suc (length i)) bs" by (metis append_take_drop_id)
  then have "text_of bs = Inr i" using text_of_c_string [OF assms(2)] by metis
  with c show ?thesis by (simp add: read_text_def bytes_from_def)
qed

context total_allocator
begin

lemma append_line:
  assumes "tight m out s" "beside m out ind i" "2 \<le> length t" "length s + length t + 1 < 2 ^ 32"
  shows "runs (micro_ros_string_utilities_append al out t) m (\<lambda>out' m'.
    tight m' out' (s @ t) \<and> beside m' out' ind i)"
proof -
  have h: "holds_string m out s" "str_capacity out = str_size out + 1" using assms(1) by (simp_all add: tight_def)
  have sz: "unat (str_size out) = length s" using string_parts [OF h(1)] by metis
  then have "unat (str_capacity out) = length s + 1"
    using h(2) assms(4) by (simp add: unat_add_small)
  then have "unat (str_capacity out) < length s + length t" using assms(3) by simp
  from append_growing [OF h(1) assms(4) this] show ?thesis
  proof (rule runs_mono)
    fix out' m'
    assume a: "holds_string m' out' (s @ t) \<and> roomy_string out' \<and> only_block (block_of out) m m' \<and>
      (block_of out' = block_of out \<or> blocks m (block_of out') = None) \<and> str_capacity out' = str_size out' + 1"
    have live: "blocks m (block_of ind) \<noteq> None"
      using assms(2) string_parts [of m ind i] by (metis beside_def option.distinct(1))
    with a assms(2) holds_string_frame [of m ind i "block_of out" m'] show "tight m' out' (s @ t) \<and> beside m' out' ind i"
      by (auto simp: tight_def beside_def)
  qed
qed

end

section \<open>Types without composed members\<close>

definition flat_member :: "message_member \<Rightarrow> bool" where
  "flat_member m \<longleftrightarrow> type_id m \<noteq> TYPE_COMPOSED \<and> unat (type_id m) < length basic_type_names"

text \<open>The text: a heading, and one line for each member, after a tabulator.\<close>

definition flat_line :: "string \<Rightarrow> message_member \<Rightarrow> string" where
  "flat_line indent m = (case member_line indent m None of Inl e \<Rightarrow> [] | Inr l \<Rightarrow> l)"

definition flat_text :: "message_members \<Rightarrow> string" where
  "flat_text mm = heading [CHR 0x09] mm @ concat (map (flat_line [CHR 0x09]) (member_list mm))"

lemma flat_member_line:
  "flat_member m \<Longrightarrow> composed_members m = Inr None \<and> member_line i m None = Inr (flat_line i m)"
  by (simp add: flat_member_def composed_members_def flat_line_def member_line_def)

lemma length_snprintf: "2 \<le> length s \<Longrightarrow> 2 \<le> length (snprintf s)"
  by (simp add: snprintf_def BUFFER_SIZE_def)

lemma length_lines: "2 \<le> length (heading i mm)" "flat_member m \<Longrightarrow> 2 \<le> length (flat_line i m)"
  by (auto simp: heading_def flat_line_def member_line_def flat_member_def intro!: length_snprintf)

context total_allocator
begin

lemma print_flat_members:
  "\<forall>m \<in> set ms. flat_member m \<Longrightarrow> tight mem out s \<Longrightarrow> beside mem out ind i \<Longrightarrow> CHR 0x00 \<notin> set i \<Longrightarrow>
   length (s @ concat (map (flat_line i) ms)) + 1 < 2 ^ 32 \<Longrightarrow>
   runs (print_members al ms out ind level) mem (\<lambda>out' mem'.
     tight mem' out' (s @ concat (map (flat_line i) ms)) \<and> beside mem' out' ind i)"
proof (induction ms arbitrary: s out mem)
  case Nil
  then show ?case by (simp add: print_members.simps run_simps)
next
  case (Cons m ms)
  have m: "composed_members m = Inr None" "member_line i m None = Inr (flat_line i m)" "2 \<le> length (flat_line i m)"
    using Cons.prems(1) flat_member_line [of m i] length_lines(2) [of m i] by simp_all
  have r: "read_text (str_data ind) mem = Inr i"
    using Cons.prems(3,4) by (auto simp: beside_def intro: read_text_string)
  have "length s + length (flat_line i m) + 1 < 2 ^ 32" using Cons.prems(5) by simp
  note a = append_line [OF Cons.prems(2,3) m(3) this]
  have "runs (micro_ros_string_utilities_append al out (flat_line i m)) mem (\<lambda>out1 mem1.
      runs (print_members al ms out1 ind level) mem1 (\<lambda>out' mem'.
        tight mem' out' (s @ concat (map (flat_line i) (m # ms))) \<and> beside mem' out' ind i))"
  proof (rule runs_mono [OF a])
    fix out1 mem1
    assume t: "tight mem1 out1 (s @ flat_line i m) \<and> beside mem1 out1 ind i"
    show "runs (print_members al ms out1 ind level) mem1 (\<lambda>out' mem'.
        tight mem' out' (s @ concat (map (flat_line i) (m # ms))) \<and> beside mem' out' ind i)"
      using Cons.IH [of mem1 out1 "s @ flat_line i m"] Cons.prems t by simp
  qed
  then show ?case
    by (simp add: print_members.simps m r run_simps access_simps runs_def cbind_def cread_def creturn_def
        split: sum.splits prod.splits)
qed

end

text \<open>The indentation object: the first tabulator is written in place.\<close>

lemma first_tabulator:
  assumes "holds_string m ind []" "str_capacity ind = str_size ind + 1" "1 < block_length m (block_of ind)"
  shows "runs (micro_ros_string_utilities_append al ind [CHR 0x09]) m (\<lambda>ind' m'.
    holds_string m' ind' [CHR 0x09] \<and> str_data ind' = str_data ind \<and> only_block (block_of ind) m m')"
proof -
  have "unat (str_size ind) = 0" using string_parts [OF assms(1)] by (metis list.size(3))
  then have "str_capacity ind = 1" using assms(2) by (simp add: unat_eq_zero)
  then have cap: "length [] + length [CHR 0x09] \<le> unat (str_capacity ind)" by simp
  from append_in_place [OF assms(1) _ cap, where dal = al] assms(3) show ?thesis
    by (auto elim: runs_mono)
qed

context slack_allocator
begin

lemma type_info_flat:
  assumes mm: "introspect ts = Inr mm" and flat: "\<forall>m \<in> set (member_list mm). flat_member m"
    and len: "length (flat_text mm) + 1 < 2 ^ 32"
  shows "runs (micro_ros_utilities_type_info al ts) m (\<lambda>str m'. holds_string m' str (flat_text mm))"
  unfolding micro_ros_utilities_type_info_def runs_cbind
proof (rule runs_mono [OF init_empty])
  fix ret m1
  assume i1: "holds_string m1 ret [] \<and> str_capacity ret = str_size ret + 1 \<and> blocks m (block_of ret) = None \<and>
     only_block (block_of ret) m m1 \<and> 1 < block_length m1 (block_of ret)"
  have body: "runs (print_type_info al mm ret ind 0) m2 (\<lambda>out m'.
      runs (cseq (micro_ros_string_utilities_destroy al ind) (creturn out)) m' (\<lambda>str m''. holds_string m'' str (flat_text mm)))"
    if i2: "holds_string m2 ind [] \<and> str_capacity ind = str_size ind + 1 \<and> blocks m1 (block_of ind) = None \<and>
     only_block (block_of ind) m1 m2 \<and> 1 < block_length m2 (block_of ind)" for ind m2
  proof -
    have live: "blocks m1 (block_of ret) \<noteq> None" using i1 string_parts [of m1 ret "[]"] by (metis option.distinct(1))
    with i2 have ne: "block_of ret \<noteq> block_of ind" by metis
    show ?thesis
      unfolding print_type_info.simps runs_cbind runs_cseq
    proof (rule runs_mono [OF first_tabulator])
      fix ind1 m3
      assume t: "holds_string m3 ind1 [CHR 0x09] \<and> str_data ind1 = str_data ind \<and> only_block (block_of ind) m2 m3"
      have b1: "block_of ind1 = block_of ind" using t by (simp add: block_of_def)
      have "holds_string m3 ret []"
        using holds_string_frame [of m2 ret "[]" "block_of ind" m3] holds_string_frame [of m1 ret "[]" "block_of ind" m2]
          i1 i2 t ne by blast
      then have ti: "tight m3 ret []" "beside m3 ret ind1 [CHR 0x09]"
        using i1 t ne b1 by (simp_all add: tight_def beside_def)
      have rd: "read_text (str_data ind1) m3 = Inr [CHR 0x09]"
        using t by (intro read_text_string) simp_all
      have h: "length [] + length (heading [CHR 0x09] mm) + 1 < 2 ^ 32" using len by (simp add: flat_text_def)
      have "runs (micro_ros_string_utilities_append al ret (heading [CHR 0x09] mm)) m3 (\<lambda>out m4.
          runs (print_members al (member_list mm) out ind1 0) m4 (\<lambda>out m5.
            tight m5 out (flat_text mm) \<and> beside m5 out ind1 [CHR 0x09]))"
      proof (rule runs_mono [OF append_line [OF ti length_lines(1) h]])
        fix out m4
        assume o: "tight m4 out ([] @ heading [CHR 0x09] mm) \<and> beside m4 out ind1 [CHR 0x09]"
        then show "runs (print_members al (member_list mm) out ind1 0) m4 (\<lambda>out m5.
            tight m5 out (flat_text mm) \<and> beside m5 out ind1 [CHR 0x09])"
          using print_flat_members [OF flat, of m4 out "heading [CHR 0x09] mm" ind1 "[CHR 0x09]" 0] len
          by (simp add: flat_text_def)
      qed
      moreover have "runs (micro_ros_string_utilities_remove_tail_chars ind1 1) m5 (\<lambda>_ m6.
          runs (creturn out) m6 (\<lambda>out m'. runs (micro_ros_string_utilities_destroy al ind) m'
            (\<lambda>_ m''. runs (creturn out) m'' (\<lambda>str m''. holds_string m'' str (flat_text mm)))))"
        if o: "tight m5 out (flat_text mm)" "beside m5 out ind1 [CHR 0x09]" for out m5
      proof (rule runs_mono [OF remove_tail_ok])
        show "holds_string m5 ind1 [CHR 0x09]" using o(2) by (simp add: beside_def)
        fix ind2 m6
        assume r: "holds_string m6 ind2 (take (length [CHR 0x09] - unat (1 :: size_t)) [CHR 0x09]) \<and>
          str_capacity ind2 = str_capacity ind1 \<and> str_data ind2 = str_data ind1 \<and>
          str_size ind2 = str_size ind1 - 1 \<and> only_block (block_of ind1) m5 m6 \<and>
          block_length m6 (block_of ind1) = block_length m5 (block_of ind1)"
        have ot: "holds_string m6 out (flat_text mm)" "block_of out \<noteq> block_of ind"
          using o r b1 holds_string_frame [of m5 out "flat_text mm" "block_of ind1" m6]
          by (auto simp: tight_def beside_def)
        obtain c bs where c: "str_data ind = Ptr c 0" "blocks m6 c = Some (HeapBlock, bs)"
          using r t string_parts [of m6 ind2] by (metis)
        have "runs (micro_ros_string_utilities_destroy al ind) m6 (\<lambda>_ m''. holds_string m'' out (flat_text mm))"
          using c ot holds_string_frame [OF ot(1), of "block_of ind"]
          by (simp add: micro_ros_string_utilities_destroy_def run_simps)
            (rule runs_call_deallocate_block, assumption, simp add: only_block_def block_of_def)
        then show "runs (creturn out) m6 (\<lambda>out m'. runs (micro_ros_string_utilities_destroy al ind) m'
            (\<lambda>_ m''. runs (creturn out) m'' (\<lambda>str m''. holds_string m'' str (flat_text mm))))"
          by (simp add: run_simps)
      qed simp
      ultimately show "runs (if 0 = (0 :: uint32_t)
          then cbind (cread (read_text (str_data ind1))) (\<lambda>indent. micro_ros_string_utilities_append al ret (heading indent mm))
          else creturn ret) m3 (\<lambda>out t. runs (print_members al (member_list mm) out ind1 0) t (\<lambda>out t.
            runs (micro_ros_string_utilities_remove_tail_chars ind1 1) t (\<lambda>_ t. runs (creturn out) t (\<lambda>out m'.
              runs (micro_ros_string_utilities_destroy al ind) m' (\<lambda>_ t. runs (creturn out) t
                (\<lambda>str m''. holds_string m'' str (flat_text mm)))))))"
        using rd by (simp add: run_simps access_simps) (blast intro: runs_mono)
    qed (use i2 in simp_all)
  qed
  show "runs (cread (\<lambda>_. introspect ts)) m1 (\<lambda>mm' t. runs (micro_ros_string_utilities_init al []) t (\<lambda>ind t.
      runs (print_type_info al mm' ret ind 0) t (\<lambda>ret t.
        runs (cseq (micro_ros_string_utilities_destroy al ind) (creturn ret)) t (\<lambda>str m'. holds_string m' str (flat_text mm)))))"
    using runs_mono [OF init_empty body] mm by (simp add: access_simps)
qed

end

end
