(* ===== verification/Name_Tree.thy ===== *)
theory Name_Tree
  imports Type_Info Memory_Rules
begin

text \<open>
  String objects under an allocator whose blocks never move: the objects that
  \<^verbatim>\<open>src/type_utilities.c\<close> passes by value, the name tree and the indentation. A function that
  receives such an object appends to its copy and removes what it appended; since the block stays
  where it is, the caller's copy is as good as before.
\<close>

section \<open>Allocators whose blocks stay\<close>

locale settled_allocator = slack_allocator +
  assumes stays: "reallocate al (Ptr b 0) n st m = Inr (q, m') \<Longrightarrow> q = Ptr b 0"
    and reallocate_slack: "reallocate al (Ptr b 0) n st m = Inr (Ptr b 0, m') \<Longrightarrow> unat n < block_length m' b"

definition settled_policy :: malloc_policy where
  "settled_policy = \<lparr>exhausted = (\<lambda>_ _. False), usable = (\<lambda>n. unat n + 4), in_place = (\<lambda>_ _. True)\<rparr>"

interpretation settled: settled_allocator "default_allocator settled_policy"
proof -
  have total: "total_allocator (default_allocator settled_policy)"
    using roomy_total [of settled_policy] by (simp add: settled_policy_def)
  have slack: "slack_allocator (default_allocator settled_policy)"
    by (rule slack_allocator.intro [OF total], unfold_locales)
      (auto simp: default_allocator_simps settled_policy_def block_length_def blocks_append)
  show "settled_allocator (default_allocator settled_policy)"
    by (rule settled_allocator.intro [OF slack], unfold_locales)
      (auto simp: default_allocator_simps settled_policy_def block_length_def blocks_update blocks_Some_less
        split: option.splits prod.splits block_kind.splits)
qed

text \<open>An object with a byte to spare behind its capacity.\<close>

definition spare_string :: "mem \<Rightarrow> rosidl_runtime_c__String \<Rightarrow> string \<Rightarrow> bool" where
  "spare_string m str s \<longleftrightarrow> holds_string m str s \<and> unat (str_capacity str) < block_length m (block_of str)"

text \<open>A later copy of an object: the same block, a capacity that is not smaller.\<close>

definition later_copy :: "rosidl_runtime_c__String \<Rightarrow> rosidl_runtime_c__String \<Rightarrow> bool" where
  "later_copy str str' \<longleftrightarrow> str_data str' = str_data str \<and> str_capacity str \<le> str_capacity str'"

lemma later_copy_refl [simp]: "later_copy str str"
  by (simp add: later_copy_def)

lemma later_copy_trans: "later_copy a b \<Longrightarrow> later_copy b c \<Longrightarrow> later_copy a c"
  by (auto simp: later_copy_def)

lemma later_copy_block: "later_copy a b \<Longrightarrow> block_of b = block_of a"
  by (simp add: later_copy_def block_of_def)

text \<open>The caller's copy, when the callee's has the caller's text again.\<close>

lemma earlier_copy:
  assumes "later_copy str str'" "spare_string m' str' s" "unat (str_size str) = length s"
  shows "spare_string m' str s"
  using assms by (auto simp: spare_string_def holds_string_def later_copy_def block_of_def word_le_nat_alt)

lemma only_block_trans: "only_block b m m' \<Longrightarrow> only_block b m' m'' \<Longrightarrow> only_block b m m''"
  by (simp add: only_block_def)

lemma only_block_refl [simp]: "only_block b m m"
  by (simp add: only_block_def)

lemma spare_size: "spare_string m str s \<Longrightarrow> unat (str_size str) = length s"
  by (auto simp: spare_string_def holds_string_def)

lemma spare_frame:
  "spare_string m str s \<Longrightarrow> only_block b m m' \<Longrightarrow> block_of str \<noteq> b \<Longrightarrow> spare_string m' str s"
  using holds_string_frame [of m str s b m'] string_parts [of m str s]
  by (auto simp: spare_string_def block_length_def only_block_def) (metis option.distinct(1))

context settled_allocator
begin

lemma append_spare:
  assumes str: "spare_string m str s" and len: "length s + length t + 1 < 2 ^ 32"
  shows "runs (micro_ros_string_utilities_append al str t) m (\<lambda>str' m'.
    spare_string m' str' (s @ t) \<and> later_copy str str' \<and> only_block (block_of str) m m')"
proof (cases "length s + length t \<le> unat (str_capacity str)")
  case True
  have h: "holds_string m str s" "length s + length t < block_length m (block_of str)"
    using str True by (simp_all add: spare_string_def)
  show ?thesis
    by (rule runs_mono [OF append_in_place [OF h(1) len True h(2)]])
      (use str in \<open>auto simp: spare_string_def later_copy_def block_of_def\<close>)
next
  case False
  have h: "holds_string m str s" using str by (simp add: spare_string_def)
  obtain b bs where b: "str_data str = Ptr b 0" "block_of str = b" "blocks m b = Some (HeapBlock, bs)"
    and c: "unat (str_size str) = length s" "length s < length bs"
    using string_parts [OF h] by metis
  note sum = append_size [OF c(1) len]
  let ?n = "str_size str + strlen t + 1"
  obtain q m1 where q: "reallocate al (Ptr b 0) ?n (state al) m = Inr (q, m1)"
    using reallocate_block [OF b(3), of ?n "state al"] by blast
  with stays have "q = Ptr b 0" by blast
  note q = q [unfolded this]
  then have m1: "unat ?n < block_length m1 b" using reallocate_slack by blast
  obtain str' m' where a: "micro_ros_string_utilities_append al str t m = Inr (str', m')"
    and p: "holds_string m' str' (s @ t)" "only_block b m m'"
    using runs_Inr [OF append_growing [OF h len]] False b(2) by auto
  have grow: "strlen t + str_size str > str_capacity str"
    using False sum by (simp add: word_less_nat_alt)
  from a q b c grow have "str_data str' = Ptr b 0" "str_capacity str' = ?n" "block_length m' b = block_length m1 b"
    by (auto simp: micro_ros_string_utilities_append_def Let_def cmd_defs call_reallocate_def memcpy_from_def
        block_length_def blocks_update blocks_Some_less split: if_splits option.splits prod.splits)
  moreover have "str_capacity str \<le> ?n"
    using False sum by (simp add: word_le_nat_alt)
  ultimately show ?thesis
    using a p b m1 by (auto simp: runs_def spare_string_def later_copy_def block_of_def)
qed

lemma remove_spare:
  assumes "spare_string m str (s @ t)" "unat n = length t"
  shows "runs (micro_ros_string_utilities_remove_tail_chars str n) m (\<lambda>str' m'.
    spare_string m' str' s \<and> later_copy str str' \<and> only_block (block_of str) m m')"
proof (rule runs_mono [OF remove_tail_ok])
  show "holds_string m str (s @ t)" using assms by (simp add: spare_string_def)
qed (use assms in \<open>auto simp: spare_string_def later_copy_def block_of_def\<close>)

lemma init_spare:
  "runs (micro_ros_string_utilities_init al []) m (\<lambda>str m'.
     spare_string m' str [] \<and> blocks m (block_of str) = None \<and> only_block (block_of str) m m')"
proof (rule runs_mono [OF init_empty])
  fix str m'
  assume a: "holds_string m' str [] \<and> str_capacity str = str_size str + 1 \<and> blocks m (block_of str) = None \<and>
     only_block (block_of str) m m' \<and> 1 < block_length m' (block_of str)"
  then have "unat (str_size str) = 0" by (auto simp: holds_string_def)
  then have "str_size str = 0" by (simp add: unat_eq_zero)
  with a show "spare_string m' str [] \<and> blocks m (block_of str) = None \<and> only_block (block_of str) m m'"
    by (simp add: spare_string_def)
qed

end

end
