(* ===== verification/Type_Info_Nested.thy ===== *)
theory Type_Info_Nested
  imports Name_Tree
begin

text \<open>
  The description of a message type with composed members, at any depth, under an allocator whose
  blocks have a byte to spare and never move.
\<close>

section \<open>The text\<close>

definition member_text :: "string \<Rightarrow> message_member \<Rightarrow> message_members option \<Rightarrow> string" where
  "member_text i m rec = (case member_line i m rec of Inl e \<Rightarrow> [] | Inr l \<Rightarrow> l)"

function type_text :: "uint32_t \<Rightarrow> string \<Rightarrow> message_members \<Rightarrow> string"
  and members_text :: "uint32_t \<Rightarrow> string \<Rightarrow> message_member list \<Rightarrow> string"
where
  "type_text level i mm =
     (if level = 0 then heading (i @ [CHR 0x09]) mm else []) @
     members_text level (i @ [CHR 0x09]) (member_list mm)"
| "members_text level i [] = []"
| "members_text level i (m # ms) =
     (case composed_members m of
        Inl e \<Rightarrow> []
      | Inr rec \<Rightarrow> member_text i m rec @ (case rec of None \<Rightarrow> [] | Some mm \<Rightarrow> type_text (level + 1) i mm)) @
     members_text level i ms"
  by pat_completeness auto

termination
  by (relation "measure (\<lambda>x. case x of Inl (level, i, mm) \<Rightarrow> size mm | Inr (level, i, ms) \<Rightarrow> size_list size ms)")
    (auto dest: composed_members_size simp: message_members_size)

declare type_text.simps [simp del] members_text.simps [simp del]

text \<open>How deep the composed members are nested: the indentation grows by a character at each level.\<close>

function nesting :: "message_members \<Rightarrow> nat"
  and nesting_members :: "message_member list \<Rightarrow> nat"
where
  "nesting mm = Suc (nesting_members (member_list mm))"
| "nesting_members [] = 0"
| "nesting_members (m # ms) =
     max (case composed_members m of Inr (Some mm) \<Rightarrow> nesting mm | _ \<Rightarrow> 0) (nesting_members ms)"
  by pat_completeness auto

termination
  by (relation "measure (\<lambda>x. case x of Inl mm \<Rightarrow> size mm | Inr ms \<Rightarrow> size_list size ms)")
    (auto dest: composed_members_size simp: message_members_size)

declare nesting.simps [simp del] nesting_members.simps [simp del]

section \<open>Writing it\<close>

definition tight_spare :: "mem \<Rightarrow> rosidl_runtime_c__String \<Rightarrow> string \<Rightarrow> bool" where
  "tight_spare m out s \<longleftrightarrow> spare_string m out s \<and> str_capacity out = str_size out + 1"

lemma wf_member_printable:
  assumes "wf_members lo hi (m # ms)"
  obtains rec where "composed_members m = Inr rec"
    and "member_line i m rec = Inr (member_text i m rec)" and "2 \<le> length (member_text i m rec)"
    and "rec = None \<longleftrightarrow> type_id m \<noteq> TYPE_COMPOSED"
    and "\<And>mm. rec = Some mm \<Longrightarrow> rec_members m = Inr mm \<and> wf_message mm"
proof -
  obtain rec where rec: "composed_members m = Inr rec" "rec = None \<longleftrightarrow> type_id m \<noteq> TYPE_COMPOSED"
    "\<And>mm. rec = Some mm \<Longrightarrow> rec_members m = Inr mm \<and> wf_message mm"
    using assms by (cases "rec_members m") (auto simp: composed_members_def wf_members.simps split: if_splits)
  have "unat (type_id m) < length basic_type_names"
    using assms by (simp add: wf_members.simps basic_type_names_def)
  then have "member_line i m rec = Inr (member_text i m rec)" "2 \<le> length (member_text i m rec)"
    by (auto simp: member_text_def member_line_def intro!: length_snprintf)
  with rec that show thesis by blast
qed

context settled_allocator
begin

lemma append_text:
  assumes out: "tight_spare m out s" and t: "2 \<le> length t" and len: "length s + length t + 1 < 2 ^ 32"
  shows "runs (micro_ros_string_utilities_append al out t) m (\<lambda>out' m'.
    tight_spare m' out' (s @ t) \<and> block_of out' = block_of out \<and> only_block (block_of out) m m')"
proof -
  have h: "spare_string m out s" "str_capacity out = str_size out + 1"
    using out by (simp_all add: tight_spare_def)
  then have h: "spare_string m out s" "holds_string m out s" "str_capacity out = str_size out + 1"
    by (simp_all add: spare_string_def)
  have "unat (str_capacity out) < length s + length t"
    using h(3) spare_size [OF h(1)] t len by (simp add: unat_add_small)
  from runs_conj [OF append_spare [OF h(1) len] append_growing [OF h(2) len this]] show ?thesis
    by (auto elim!: runs_mono simp: tight_spare_def later_copy_block)
qed

lemma print_nested:
  shows "wf_message mm \<Longrightarrow> tight_spare mem out s \<Longrightarrow> spare_string mem ind i \<Longrightarrow> block_of ind \<noteq> block_of out \<Longrightarrow>
      CHR 0x00 \<notin> set i \<Longrightarrow> length i + nesting mm + 1 < 2 ^ 32 \<Longrightarrow>
      length s + length (type_text level i mm) + 1 < 2 ^ 32 \<Longrightarrow>
      runs (print_type_info al mm out ind level) mem (\<lambda>out' mem'.
        tight_spare mem' out' (s @ type_text level i mm) \<and> spare_string mem' ind i \<and> block_of out' = block_of out)"
    and "wf_members lo hi ms \<Longrightarrow> tight_spare mem out s \<Longrightarrow> spare_string mem ind i \<Longrightarrow> block_of ind \<noteq> block_of out \<Longrightarrow>
      CHR 0x00 \<notin> set i \<Longrightarrow> length i + nesting_members ms + 1 < 2 ^ 32 \<Longrightarrow>
      length s + length (members_text level i ms) + 1 < 2 ^ 32 \<Longrightarrow>
      runs (print_members al ms out ind level) mem (\<lambda>out' mem'.
        tight_spare mem' out' (s @ members_text level i ms) \<and> spare_string mem' ind i \<and> block_of out' = block_of out)"
proof (induction mm and ms arbitrary: mem out s ind i level and lo hi mem out s ind i level rule: message_induct)
  case (1 mm)
  let ?i = "i @ [CHR 0x09]"
  let ?h = "if level = 0 then heading ?i mm else []"
  have wf: "wf_members 0 (unat (size_of mm)) (member_list mm)" using 1(2) by (simp add: wf_message.simps)
  have lens: "length ?i + nesting_members (member_list mm) + 1 < 2 ^ 32" "length i + length [CHR 0x09] + 1 < 2 ^ 32"
    "length (s @ ?h) + length (members_text level ?i (member_list mm)) + 1 < 2 ^ 32"
    using 1(7,8) by (simp_all add: nesting.simps type_text.simps)
  have zero: "CHR 0x00 \<notin> set ?i" using 1(6) by simp
  have finish: "runs (cseq (micro_ros_string_utilities_remove_tail_chars ind1 1) (creturn out2)) mem2 (\<lambda>out' mem'.
      tight_spare mem' out' (s @ type_text level i mm) \<and> spare_string mem' ind i \<and> block_of out' = block_of out)"
    if ind1: "later_copy ind ind1" and o: "tight_spare mem2 out2 (s @ type_text level i mm)"
      "spare_string mem2 ind1 ?i" "block_of out2 = block_of out" for ind1 out2 mem2
    unfolding runs_cseq
  proof (rule runs_mono [OF remove_spare [OF o(2)]])
    fix ind2 m3 assume r: "spare_string m3 ind2 i \<and> later_copy ind1 ind2 \<and> only_block (block_of ind1) mem2 m3"
    then have "spare_string m3 ind i"
      using earlier_copy [OF later_copy_trans [OF ind1]] spare_size [OF 1(4)] by blast
    moreover have "tight_spare m3 out2 (s @ type_text level i mm)"
      using o r spare_frame [of mem2 out2 _ "block_of ind1" m3] 1(5) later_copy_block [OF ind1]
      by (simp add: tight_spare_def)
    ultimately show "runs (creturn out2) m3 (\<lambda>out' mem'.
        tight_spare mem' out' (s @ type_text level i mm) \<and> spare_string mem' ind i \<and> block_of out' = block_of out)"
      using o(3) by (simp add: run_simps)
  qed simp
  show ?case
    unfolding print_type_info.simps runs_cbind
  proof (rule runs_mono [OF append_spare [OF 1(4) lens(2)]])
    fix ind1 m1 assume a: "spare_string m1 ind1 ?i \<and> later_copy ind ind1 \<and> only_block (block_of ind) mem m1"
    then have b1: "block_of ind1 = block_of ind" by (auto dest: later_copy_block)
    have o1: "tight_spare m1 out s"
      using 1(3,5) a spare_frame [of mem out s "block_of ind" m1] by (auto simp: tight_spare_def)
    have rd: "read_text (str_data ind1) m1 = Inr ?i"
      using a zero by (intro read_text_string) (auto simp: spare_string_def)
    have head: "runs (if level = 0 then cbind (cread (read_text (str_data ind1))) (\<lambda>indent.
          micro_ros_string_utilities_append al out (heading indent mm)) else creturn out) m1 (\<lambda>out1 m2.
        tight_spare m2 out1 (s @ ?h) \<and> spare_string m2 ind1 ?i \<and> block_of out1 = block_of out)"
    proof (cases "level = 0")
      case True
      have "length s + length (heading ?i mm) + 1 < 2 ^ 32" using lens(3) True by simp
      note t = append_text [OF o1 length_lines(1) this]
      have "runs (micro_ros_string_utilities_append al out (heading ?i mm)) m1 (\<lambda>out1 m2.
          tight_spare m2 out1 (s @ heading ?i mm) \<and> spare_string m2 ind1 ?i \<and> block_of out1 = block_of out)"
        by (rule runs_mono [OF t]) (use a b1 1(5) in \<open>auto intro: spare_frame\<close>)
      with True rd show ?thesis by (simp add: run_simps access_simps)
    qed (use a o1 in \<open>simp add: run_simps\<close>)
    note members = 1(1) [OF wf]
    show "runs (if level = 0 then cbind (cread (read_text (str_data ind1))) (\<lambda>indent.
          micro_ros_string_utilities_append al out (heading indent mm)) else creturn out) m1 (\<lambda>out1 t.
        runs (print_members al (member_list mm) out1 ind1 level) t (\<lambda>out2 t.
          runs (cseq (micro_ros_string_utilities_remove_tail_chars ind1 1) (creturn out2)) t (\<lambda>out' mem'.
            tight_spare mem' out' (s @ type_text level i mm) \<and> spare_string mem' ind i \<and> block_of out' = block_of out)))"
    proof (rule runs_mono [OF head])
      fix out1 m2 assume o: "tight_spare m2 out1 (s @ ?h) \<and> spare_string m2 ind1 ?i \<and> block_of out1 = block_of out"
      then have "block_of ind1 \<noteq> block_of out1" using b1 1(5) by simp
      with o have "runs (print_members al (member_list mm) out1 ind1 level) m2 (\<lambda>out2 t.
          tight_spare t out2 ((s @ ?h) @ members_text level ?i (member_list mm)) \<and> spare_string t ind1 ?i \<and>
          block_of out2 = block_of out1)"
        using members [of m2 out1 "s @ ?h" ind1 ?i level] zero lens(1,3) by blast
      then show "runs (print_members al (member_list mm) out1 ind1 level) m2 (\<lambda>out2 t.
          runs (cseq (micro_ros_string_utilities_remove_tail_chars ind1 1) (creturn out2)) t (\<lambda>out' mem'.
            tight_spare mem' out' (s @ type_text level i mm) \<and> spare_string mem' ind i \<and> block_of out' = block_of out))"
      proof (rule runs_mono)
        fix out2 t assume "tight_spare t out2 ((s @ ?h) @ members_text level ?i (member_list mm)) \<and>
          spare_string t ind1 ?i \<and> block_of out2 = block_of out1"
        with o a show "runs (cseq (micro_ros_string_utilities_remove_tail_chars ind1 1) (creturn out2)) t (\<lambda>out' mem'.
            tight_spare mem' out' (s @ type_text level i mm) \<and> spare_string mem' ind i \<and> block_of out' = block_of out)"
          by (intro finish) (auto simp: type_text.simps)
      qed
    qed
  qed
next
  case 2
  then show ?case by (simp add: print_members.simps members_text.simps run_simps)
next
  case (3 m ms)
  obtain rec where rec: "composed_members m = Inr rec" "member_line i m rec = Inr (member_text i m rec)"
    "2 \<le> length (member_text i m rec)" "rec = None \<longleftrightarrow> type_id m \<noteq> TYPE_COMPOSED"
    "\<And>mm. rec = Some mm \<Longrightarrow> rec_members m = Inr mm \<and> wf_message mm"
    using wf_member_printable [OF 3(3)] by metis
  let ?l = "member_text i m rec"
  let ?n = "case rec of None \<Rightarrow> [] | Some mm \<Rightarrow> type_text (level + 1) i mm"
  have whole: "members_text level i (m # ms) = ?l @ ?n @ members_text level i ms"
    using rec(1) by (simp add: members_text.simps)
  have rest: "wf_members (unat (member_offset m) + touched m) hi ms" using 3(3) by (simp add: wf_members.simps)
  have lens: "length s + length ?l + 1 < 2 ^ 32" "length (s @ ?l) + length ?n + 1 < 2 ^ 32"
    "length (s @ ?l @ ?n) + length (members_text level i ms) + 1 < 2 ^ 32"
    using 3(9) by (simp_all add: whole)
  have nest: "length i + nesting_members ms + 1 < 2 ^ 32" "\<And>mm. rec = Some mm \<Longrightarrow> length i + nesting mm + 1 < 2 ^ 32"
    using 3(8) rec(1) by (auto simp: nesting_members.simps)
  have rd: "read_text (str_data ind) mem = Inr i"
    using 3(5,7) by (intro read_text_string) (auto simp: spare_string_def)
  have line: "runs (micro_ros_string_utilities_append al out ?l) mem (\<lambda>out1 m1.
      tight_spare m1 out1 (s @ ?l) \<and> spare_string m1 ind i \<and> block_of out1 = block_of out)"
    by (rule runs_mono [OF append_text [OF 3(4) rec(3) lens(1)]]) (use 3(5,6) in \<open>auto intro: spare_frame\<close>)
  have nested: "runs (case rec of None \<Rightarrow> creturn out1 | Some mm \<Rightarrow> print_type_info al mm out1 ind (level + 1)) m1 (\<lambda>out2 m2.
      tight_spare m2 out2 (s @ ?l @ ?n) \<and> spare_string m2 ind i \<and> block_of out2 = block_of out)"
    if o: "tight_spare m1 out1 (s @ ?l)" "spare_string m1 ind i" "block_of out1 = block_of out" for out1 m1
  proof (cases rec)
    case None
    with o show ?thesis by (simp add: run_simps)
  next
    case (Some mm)
    have c: "type_id m = TYPE_COMPOSED" using rec(4) Some by simp
    have w: "rec_members m = Inr mm" "wf_message mm" using rec(5) [OF Some] by simp_all
    have ne: "block_of ind \<noteq> block_of out1" using 3(6) o(3) by simp
    have len: "length (s @ ?l) + length (type_text (level + 1) i mm) + 1 < 2 ^ 32" using lens(2) Some by simp
    from 3(1) [OF c w o(1,2) ne 3(7) nest(2) [OF Some] len] show ?thesis
      using Some o(3) by simp
  qed
  have members: "runs (print_members al ms out2 ind level) m2 (\<lambda>out' mem'.
      tight_spare mem' out' (s @ members_text level i (m # ms)) \<and> spare_string mem' ind i \<and> block_of out' = block_of out)"
    if o: "tight_spare m2 out2 (s @ ?l @ ?n)" "spare_string m2 ind i" "block_of out2 = block_of out" for out2 m2
  proof -
    have ne: "block_of ind \<noteq> block_of out2" using 3(6) o(3) by simp
    from 3(2) [OF rest o(1,2) ne 3(7) nest(1) lens(3)] show ?thesis using o(3) by (simp add: whole)
  qed
  let ?line = "cbind (cread (read_text (str_data ind))) (\<lambda>indent.
      cbind (cread (\<lambda>_. member_line indent m rec)) (\<lambda>line.
      cbind (micro_ros_string_utilities_append al out line) (\<lambda>out.
      case rec of None \<Rightarrow> creturn out | Some mm \<Rightarrow> print_type_info al mm out ind (level + 1))))"
  have "runs ?line mem (\<lambda>out2 m2. runs (print_members al ms out2 ind level) m2 (\<lambda>out' mem'.
      tight_spare mem' out' (s @ members_text level i (m # ms)) \<and> spare_string mem' ind i \<and> block_of out' = block_of out))"
    using rd rec(2) runs_mono [OF line] runs_mono [OF nested] members
    by (simp add: run_simps access_simps)
  moreover have "print_members al (m # ms) out ind level = cbind ?line (\<lambda>out. print_members al ms out ind level)"
    by (simp add: print_members.simps rec(1))
  ultimately show ?case by (simp only: runs_cbind [of ?line])
qed

lemma type_info_nested:
  assumes mm: "introspect ts = Inr mm" and wf: "wf_message mm"
    and depth: "nesting mm + 1 < 2 ^ 32" and len: "length (type_text 0 [] mm) + 1 < 2 ^ 32"
  shows "runs (micro_ros_utilities_type_info al ts) m (\<lambda>str m'. holds_string m' str (type_text 0 [] mm))"
  unfolding micro_ros_utilities_type_info_def runs_cbind
proof (rule runs_mono [OF runs_conj [OF init_spare init_empty]])
  fix ret m1
  assume i1: "(spare_string m1 ret [] \<and> blocks m (block_of ret) = None \<and> only_block (block_of ret) m m1) \<and>
    (holds_string m1 ret [] \<and> str_capacity ret = str_size ret + 1 \<and> blocks m (block_of ret) = None \<and>
     only_block (block_of ret) m m1 \<and> 1 < block_length m1 (block_of ret))"
  then have r1: "tight_spare m1 ret []" by (simp add: tight_spare_def)
  have body: "runs (print_type_info al mm ret ind 0) m2 (\<lambda>ret t.
      runs (cseq (micro_ros_string_utilities_destroy al ind) (creturn ret)) t (\<lambda>str m'. holds_string m' str (type_text 0 [] mm)))"
    if i2: "spare_string m2 ind [] \<and> blocks m1 (block_of ind) = None \<and> only_block (block_of ind) m1 m2" for ind m2
  proof -
    have "blocks m1 (block_of ret) \<noteq> None"
      using i1 string_parts [of m1 ret "[]"] by (metis option.distinct(1))
    with i2 have ne: "block_of ind \<noteq> block_of ret" by metis
    have r2: "tight_spare m2 ret []"
      using r1 i2 ne spare_frame [of m1 ret "[]" "block_of ind" m2] by (auto simp: tight_spare_def)
    have "runs (print_type_info al mm ret ind 0) m2 (\<lambda>out t.
        tight_spare t out (type_text 0 [] mm) \<and> spare_string t ind [] \<and> block_of out = block_of ret)"
      using print_nested(1) [OF wf r2 _ ne, of "[]" 0] i2 depth len by simp
    then show ?thesis
    proof (rule runs_mono)
      fix out t assume o: "tight_spare t out (type_text 0 [] mm) \<and> spare_string t ind [] \<and> block_of out = block_of ret"
      then obtain c bs where c: "str_data ind = Ptr c 0" "blocks t c = Some (HeapBlock, bs)" "block_of ind = c"
        using string_parts [of t ind "[]"] by (metis spare_string_def)
      have "runs (micro_ros_string_utilities_destroy al ind) t (\<lambda>_ m'. holds_string m' out (type_text 0 [] mm))"
      proof -
        have "runs (call_deallocate al (Ptr c 0)) t (\<lambda>_ m'. holds_string m' out (type_text 0 [] mm))"
        proof (rule runs_call_deallocate_block [OF c(2)])
          fix m' assume "blocks m' = (blocks t)(c := None)"
          then have "only_block c t m'" by (simp add: only_block_def)
          with o ne c(3) show "holds_string m' out (type_text 0 [] mm)"
            using holds_string_frame [of t out "type_text 0 [] mm" c m'] by (auto simp: tight_spare_def spare_string_def)
        qed
        then show ?thesis using c(1) by (simp add: micro_ros_string_utilities_destroy_def run_simps)
      qed
      then show "runs (cseq (micro_ros_string_utilities_destroy al ind) (creturn out)) t
          (\<lambda>str m'. holds_string m' str (type_text 0 [] mm))"
        by (simp add: run_simps)
    qed
  qed
  show "runs (cread (\<lambda>_. introspect ts)) m1 (\<lambda>mm' t. runs (micro_ros_string_utilities_init al []) t (\<lambda>ind t.
      runs (print_type_info al mm' ret ind 0) t (\<lambda>ret t.
        runs (cseq (micro_ros_string_utilities_destroy al ind) (creturn ret)) t (\<lambda>str m'. holds_string m' str (type_text 0 [] mm)))))"
    using runs_mono [OF init_spare body] mm by (simp add: access_simps)
qed

end

end
