(* ===== verification/Type_Info_Properties.thy ===== *)
theory Type_Info_Properties
  imports Type_Info_Nested C_Structs Std_Messages
begin

text \<open>
  The properties of \<^verbatim>\<open>micro_ros_utilities_type_info\<close>: what it produces for types without composed
  members when blocks have slack, that it overflows a block when they have none, and that it
  uses freed memory for types with composed members.
\<close>

text \<open>
  With an allocator that does not refuse and rounds the size of its blocks up, the description
  of a message type without composed members is the heading followed by one line for each
  member, in order, each after a tabulator and cut to the 499 characters of the buffer.
\<close>

lemma type_info_flat_correct:
  assumes "slack_allocator al" and "introspect ts = Inr mm" and "\<forall>m \<in> set (member_list mm). flat_member m"
    and "length (flat_text mm) + 1 < 2 ^ 32"
  shows "runs (micro_ros_utilities_type_info al ts) m (\<lambda>str m'. holds_string m' str (flat_text mm))"
  by (rule slack_allocator.type_info_flat [OF assms])

lemma string_text:
  "flat_text (describe std_msgs__msg__String) =
   [CHR 0x09] @ ''Introspection for std_msgs__msg/String - 1 members, 12 B'' @ [CHR 0x0A] @
   [CHR 0x09] @ '' - data [string] <- This should be inited'' @ [CHR 0x0A]"
  by code_simp




text \<open>
  On a heap whose blocks are exactly as large as requested, describing any message type
  writes past the end of a block: the first tabulator fills the one byte of the indentation
  object and its null character falls behind it.
\<close>

lemma type_info_overflows:
  assumes "introspect ts = Inr mm"
  shows "micro_ros_utilities_type_info (default_allocator exact_policy) ts m = Inl OutOfBounds"
proof -
  obtain ret m1 where r: "micro_ros_string_utilities_init (default_allocator exact_policy) [] m = Inr (ret, m1)"
    using runs_Inr [OF total_allocator.init_ok [OF exact_total, of "[]" m]] by auto
  obtain ind m2 where i: "micro_ros_string_utilities_init (default_allocator exact_policy) [] m1 = Inr (ind, m2)"
    using runs_Inr [OF total_allocator.init_ok [OF exact_total, of "[]" m1]] by auto
  have "micro_ros_string_utilities_append (default_allocator exact_policy) ind [CHR 0x09] m2 = Inl OutOfBounds"
    using empty_append_past_end [of "CHR 0x09" m1] i by (simp add: cbind_def)
  with r i assms show ?thesis
    by (simp add: micro_ros_utilities_type_info_def print_type_info.simps cbind_def cread_def)
qed

text \<open>
  With slack, describing a type with a composed member uses freed memory: the nested call
  reallocates the indentation object that it was passed by value, and the caller goes on with the
  old pointer. A header, which contains a time, is enough.
\<close>

lemma type_info_uses_freed_memory:
  "micro_ros_utilities_type_info (default_allocator padded_policy) (Some (type_support_of std_msgs__msg__Header)) [] =
   Inl UseAfterFree"
  by code_simp

end
