(* ===== verification/Rules_Traversal.thy ===== *)
theory Rules_Traversal
  imports Name_Tree
begin

text \<open>
  The memory rules through the whole traversal. Under an allocator whose blocks have a byte to
  spare and never move, the name tree holds the dotted name of the member under the cursor at
  every moment, so that each string and sequence, at every depth, gets the capacity of the first
  rule that spells its name; the sizes that are computed are those of a walk over the description
  with these capacities.
\<close>

section \<open>The walk with rules\<close>











section \<open>The traversal\<close>


lemma move_index_heap [simp]:
  "heap (move_index operation q s) = heap s"
  "move_index operation q (s\<lparr>heap := h\<rparr>) = (move_index operation q s)\<lparr>heap := h\<rparr>"
  "index_at operation q (s\<lparr>heap := h\<rparr>) = index_at operation q s"
  by (simp_all add: move_index_def index_at_def)






section \<open>The sizes with memory rules\<close>






end
