(* ===== verification/Examples_Callbacks.thy ===== *)
theory Examples_Callbacks
  imports Clock Decimal
begin

text \<open>
  The callbacks and threads of the examples, with the variables they share: the counters of
  \<^verbatim>\<open>micro_ros_pub_int32.c\<close> and \<^verbatim>\<open>micro_ros_pub_sub_int32.c\<close>, the output pin of
  \<^verbatim>\<open>micro_ros_sub_int32.c\<close>, the service of \<^verbatim>\<open>micro_ros_add_ints_service.c\<close>, the protocol of
  \<^verbatim>\<open>micro_ros_ping_pong.c\<close> and the two threads of \<^verbatim>\<open>micro_ros_kobuki_control.c\<close>. What a
  callback publishes, writes to a pin or hands to the robot is part of its result.
\<close>

section \<open>Counters\<close>

text \<open>
  \<^verbatim>\<open>timer_callback\<close> of the two publishers: the value published, if any, and the new
  \<^verbatim>\<open>msg.data\<close>. The timer may be NULL.
\<close>

definition timer_callback :: "bool \<Rightarrow> int32_t \<Rightarrow> int32_t list \<times> int32_t" where
  "timer_callback timer_set data = (if timer_set then ([data], data + 1) else ([], data))"

fun timer_callbacks :: "bool list \<Rightarrow> int32_t \<Rightarrow> int32_t list \<times> int32_t" where
  "timer_callbacks [] data = ([], data)"
| "timer_callbacks (t # ts) data =
     (case timer_callback t data of (p, data) \<Rightarrow>
      case timer_callbacks ts data of (ps, data) \<Rightarrow> (p @ ps, data))"

section \<open>Output pin and service\<close>

definition LED_PIN :: int where
  "LED_PIN = 45"

text \<open>\<^verbatim>\<open>subscription_callback\<close> of the LED example: what is written to which pin.\<close>

definition led_callback :: "int32_t \<Rightarrow> int \<times> int" where
  "led_callback data = (LED_PIN, if data = 0 then 0 else 1)"

definition service_callback :: "int64_t \<Rightarrow> int64_t \<Rightarrow> int64_t" where
  "service_callback a b = a + b"

section \<open>Ping pong\<close>

definition STRING_BUFFER_LEN :: nat where
  "STRING_BUFFER_LEN = 100"

record header =
  stamp_sec :: int32_t
  stamp_nanosec :: uint32_t
  frame_id :: string

record ping_state =
  outcoming_ping :: header
  device_id :: int32_t
  seq_no :: int32_t
  pong_count :: int32_t

definition ping_frame :: "int32_t \<Rightarrow> int32_t \<Rightarrow> string" where
  "ping_frame seq dev = show_int (sint seq) @ ''_'' @ show_int (sint dev)"

text \<open>
  \<^verbatim>\<open>ping_timer_callback\<close>: \<open>seq\<close> is what \<^verbatim>\<open>rand()\<close> returns, \<open>ts\<close> what \<^verbatim>\<open>clock_gettime\<close>
  returns; the result is the ping that is published. Formatting into the buffer is checked.
\<close>

definition ping_timer_callback ::
    "bool \<Rightarrow> int32_t \<Rightarrow> timespec \<Rightarrow> (ping_state, header option) cmd" where
  "ping_timer_callback timer_set seq ts =
     (if timer_set
      then cseq (cmodify (\<lambda>s. s\<lparr>seq_no := seq\<rparr>))
           (cbind (cget (\<lambda>s. ping_frame (seq_no s) (device_id s))) (\<lambda>frame.
            if STRING_BUFFER_LEN \<le> length frame then cfail OutOfBounds
            else
              cseq (cmodify (\<lambda>s. s\<lparr>outcoming_ping := (outcoming_ping s)\<lparr>frame_id := frame\<rparr>\<rparr>))
              (cseq (cmodify (\<lambda>s. s\<lparr>outcoming_ping := (outcoming_ping s)
                      \<lparr>stamp_sec := ucast (tv_sec ts), stamp_nanosec := tv_nsec ts\<rparr>\<rparr>))
              (cseq (cmodify (\<lambda>s. s\<lparr>pong_count := 0\<rparr>))
              (cbind (cget outcoming_ping) (\<lambda>ping. creturn (Some ping)))))))
      else creturn None)"

text \<open>\<^verbatim>\<open>ping_subscription_callback\<close>: the pong that is published, unless the ping is its own.\<close>

definition ping_subscription_callback :: "ping_state \<Rightarrow> header \<Rightarrow> header option" where
  "ping_subscription_callback s msg =
     (if frame_id (outcoming_ping s) \<noteq> frame_id msg then Some msg else None)"

definition pong_subscription_callback :: "header \<Rightarrow> ping_state \<Rightarrow> ping_state" where
  "pong_subscription_callback msg s =
     (if frame_id (outcoming_ping s) = frame_id msg then s\<lparr>pong_count := pong_count s + 1\<rparr> else s)"

text \<open>
  A round in a network without losses: the timer of device \<open>i\<close> fires, every device receives the
  ping, and every device receives every pong.
\<close>

definition ping_round ::
    "nat \<Rightarrow> int32_t \<Rightarrow> timespec \<Rightarrow> ping_state list \<Rightarrow> c_error + ping_state list" where
  "ping_round i seq ts ds =
     (case ping_timer_callback True seq ts (ds ! i) of
        Inl e \<Rightarrow> Inl e
      | Inr (None, d) \<Rightarrow> Inr (ds[i := d])
      | Inr (Some ping, d) \<Rightarrow>
          let ds = ds[i := d]; pongs = List.map_filter (\<lambda>d. ping_subscription_callback d ping) ds
          in Inr (map (fold pong_subscription_callback pongs) ds))"

section \<open>Two threads and a robot\<close>

text \<open>
  The callback stores the two numbers one after the other; the driver thread reads them, in
  either order, and passes them on. Each step of either thread is a step of the system.
\<close>

datatype 'd callback_pc = Waiting | Store_Linear 'd 'd | Store_Angular 'd

datatype 'd driver_pc = Sleeping | Has_Linear 'd | Has_Angular 'd

record 'd kobuki =
  linear_x :: 'd
  angular_z :: 'd
  callback_at :: "'d callback_pc"
  driver_at :: "'d driver_pc"
  received :: "('d \<times> 'd) list"
  commanded :: "('d \<times> 'd) list"

definition kobuki_start :: "'d \<Rightarrow> 'd kobuki" where
  "kobuki_start zero =
     \<lparr>linear_x = zero, angular_z = zero, callback_at = Waiting, driver_at = Sleeping,
      received = [], commanded = []\<rparr>"

inductive kobuki_step :: "'d kobuki \<Rightarrow> 'd kobuki \<Rightarrow> bool" where
  receive: "callback_at s = Waiting \<Longrightarrow>
    kobuki_step s (s\<lparr>callback_at := Store_Linear x z, received := received s @ [(x, z)]\<rparr>)"
| store_linear: "callback_at s = Store_Linear x z \<Longrightarrow>
    kobuki_step s (s\<lparr>linear_x := x, callback_at := Store_Angular z\<rparr>)"
| store_angular: "callback_at s = Store_Angular z \<Longrightarrow>
    kobuki_step s (s\<lparr>angular_z := z, callback_at := Waiting\<rparr>)"
| read_linear: "driver_at s = Sleeping \<Longrightarrow> kobuki_step s (s\<lparr>driver_at := Has_Linear (linear_x s)\<rparr>)"
| read_angular: "driver_at s = Sleeping \<Longrightarrow> kobuki_step s (s\<lparr>driver_at := Has_Angular (angular_z s)\<rparr>)"
| command_angular: "driver_at s = Has_Linear x \<Longrightarrow>
    kobuki_step s (s\<lparr>driver_at := Sleeping, commanded := commanded s @ [(x, angular_z s)]\<rparr>)"
| command_linear: "driver_at s = Has_Angular z \<Longrightarrow>
    kobuki_step s (s\<lparr>driver_at := Sleeping, commanded := commanded s @ [(linear_x s, z)]\<rparr>)"

inductive kobuki_reachable :: "'d \<Rightarrow> 'd kobuki \<Rightarrow> bool" for zero where
  kobuki_init: "kobuki_reachable zero (kobuki_start zero)"
| kobuki_next: "kobuki_reachable zero s \<Longrightarrow> kobuki_step s t \<Longrightarrow> kobuki_reachable zero t"

section \<open>Frames\<close>

lemma length_ping_frame: "length (ping_frame seq dev) \<le> 23"
proof -
  have "length (show_int (sint w)) \<le> 11" for w :: int32_t
    using sint_ge [of w] sint_lt [of w] by (intro length_show_int) simp_all
  from this [of seq] this [of dev] show ?thesis by (simp add: ping_frame_def)
qed

lemma ping_frame_inject: "ping_frame s d = ping_frame s' d' \<longleftrightarrow> s = s' \<and> d = d'"
proof
  assume e: "ping_frame s d = ping_frame s' d'"
  have no: "\<forall>c \<in> set (show_int i). c \<noteq> CHR ''_''" for i
    using show_nat_chars no_digits(1) by (auto simp: show_int_def)
  have t: "takeWhile (\<lambda>c. c \<noteq> CHR ''_'') (ping_frame a b) = show_int (sint a)"
    "dropWhile (\<lambda>c. c \<noteq> CHR ''_'') (ping_frame a b) = CHR ''_'' # show_int (sint b)" for a b
    using no [of "sint a"] takeWhile_append2 [of "show_int (sint a)" "\<lambda>c. c \<noteq> CHR ''_''"]
      dropWhile_append2 [of "show_int (sint a)" "\<lambda>c. c \<noteq> CHR ''_''"]
    by (simp_all add: ping_frame_def)
  have "show_int (sint s) = show_int (sint s')" "show_int (sint d) = show_int (sint d')"
    using arg_cong [OF e, of "takeWhile (\<lambda>c. c \<noteq> CHR ''_'')"] 
      arg_cong [OF e, of "dropWhile (\<lambda>c. c \<noteq> CHR ''_'')"] unfolding t by simp_all
  then have "sint s = sint s'" "sint d = sint d'" by (auto dest: show_int_inject)
  then show "s = s' \<and> d = d'" by (simp add: signed_word_eqI)
qed simp

end
