(* ===== verification/Examples_Setup.thy ===== *)
theory Examples_Setup
  imports Socket_Transports Decimal
begin

text \<open>
  The commands of \<^verbatim>\<open>examples/\<close>: how each registers a transport and creates its support, node,
  publishers, subscriptions, services, timers and executor, and starts its threads. The client
  library (rclc, rcl, rmw) and the threads of RT-Thread are not in the repository: the parameter
  \<open>api\<close> answers every call, depending on everything that happened before, and what a command does
  is the list of its calls with their answers and of what it prints. The contract between an
  application and the client library is \<open>legal\<close>: a call uses only entities that an earlier call
  has created successfully and that have not been finalised.
\<close>

section \<open>Calls\<close>

datatype entity =
    Support
  | Node
  | Publisher string
  | Subscription string
  | Service string
  | Timer
  | Executor

datatype qos = Default | Best_Effort

datatype transport_kind = Serial_Transport_Kind | Udp_Transport_Kind

text \<open>
  Entities of one kind are told apart by the name of the C variable. \<open>Executor_Add\<close> is the call
  that adds a timer, a subscription or a service, with the callback.
\<close>

datatype call =
    Set_Custom_Transport bool "micro_ros_agent_locator option" transport_kind
  | Pin_Mode int
  | Support_Init
  | Node_Init string
  | Publisher_Init string qos string string
  | Subscription_Init string qos string string
  | Service_Init string string string
  | Timer_Init int string
  | Executor_Init nat
  | Executor_Add entity string
  | Executor_Spin_Some
  | Publish string int
  | Publisher_Fini string
  | Node_Fini
  | Support_Fini
  | Ping_Agent int int
  | Thread_Create string string nat nat nat
  | Thread_Startup string
  | Mdelay nat
  | Rand

text \<open>\<open>Local_Buffer v n\<close>: the frame of message \<open>v\<close> is set to a local array of \<open>n\<close> bytes.\<close>

datatype event = Called call int32_t | Printed string | Local_Buffer string nat

type_synonym api = "event list \<Rightarrow> call \<Rightarrow> int32_t"

definition RCL_RET_OK :: int32_t where
  "RCL_RET_OK = 0"

definition issue :: "api \<Rightarrow> call \<Rightarrow> event list \<Rightarrow> int32_t \<times> event list" where
  "issue api c tr = (let r = api tr c in (r, tr @ [Called c r]))"

text \<open>A call whose result is not used, and one that returns from the command unless it is OK.\<close>

definition plain :: "api \<Rightarrow> call \<Rightarrow> (event list \<Rightarrow> event list) \<Rightarrow> event list \<Rightarrow> event list" where
  "plain api c rest tr = rest (snd (issue api c tr))"

definition checked ::
    "api \<Rightarrow> call \<Rightarrow> string \<Rightarrow> (event list \<Rightarrow> event list) \<Rightarrow> event list \<Rightarrow> event list" where
  "checked api c msg rest tr =
     (case issue api c tr of (r, tr) \<Rightarrow> if r \<noteq> RCL_RET_OK then tr @ [Printed msg] else rest tr)"

definition print :: "string \<Rightarrow> (event list \<Rightarrow> event list) \<Rightarrow> event list \<Rightarrow> event list" where
  "print msg rest tr = rest (tr @ [Printed msg])"

definition set_buffer :: "string \<Rightarrow> (event list \<Rightarrow> event list) \<Rightarrow> event list \<Rightarrow> event list" where
  "set_buffer v rest tr = rest (tr @ [Local_Buffer v 100])"

definition return :: "event list \<Rightarrow> event list" where
  "return tr = tr"

text \<open>\<^verbatim>\<open>rt_thread_create\<close> returns NULL (0) or a thread, which is then started.\<close>

definition start_thread ::
    "api \<Rightarrow> string \<Rightarrow> string \<Rightarrow> nat \<Rightarrow> nat \<Rightarrow> nat \<Rightarrow> string \<Rightarrow> (event list \<Rightarrow> event list) \<Rightarrow> event list \<Rightarrow> event list" where
  "start_thread api name entry stack prio ticks label rest tr =
     (case issue api (Thread_Create name entry stack prio ticks) tr of
        (thread, tr) \<Rightarrow>
          if thread \<noteq> 0
          then plain api (Thread_Startup name) (print (''[micro_ros] New thread '' @ label) rest) tr
          else print (''[micro_ros] Failed to create thread '' @ label) rest tr)"

section \<open>\<^verbatim>\<open>micro_ros_rtt.h\<close>\<close>

record build =
  MICRO_ROS_USE_SERIAL :: bool
  MICRO_ROS_USE_UDP :: bool

definition set_microros_transports :: "api \<Rightarrow> (event list \<Rightarrow> event list) \<Rightarrow> event list \<Rightarrow> event list" where
  "set_microros_transports api = plain api (Set_Custom_Transport True None Serial_Transport_Kind)"

definition set_microros_udp_transports ::
    "api \<Rightarrow> string \<Rightarrow> uint32_t \<Rightarrow> (event list \<Rightarrow> event list) \<Rightarrow> event list \<Rightarrow> event list" where
  "set_microros_udp_transports api agent_ip agent_port =
     plain api (Set_Custom_Transport False (Some \<lparr>address = agent_ip, port = agent_port\<rparr>) Udp_Transport_Kind)"

text \<open>The same lines at the start of every command; \<open>argv\<close> holds the command name and its arguments.\<close>

definition setup_transport ::
    "build \<Rightarrow> string list \<Rightarrow> api \<Rightarrow> (event list \<Rightarrow> event list) \<Rightarrow> event list \<Rightarrow> event list" where
  "setup_transport bld argv api rest =
     (let udp = (if MICRO_ROS_USE_UDP bld
                 then if length argv = 2 then set_microros_udp_transports api (argv ! 1) 9999 rest
                      else set_microros_udp_transports api ''192.168.1.100'' 9999 rest
                 else rest)
      in if MICRO_ROS_USE_SERIAL bld then set_microros_transports api udp else udp)"

section \<open>The commands\<close>

definition microros_pub_int32 :: "build \<Rightarrow> string list \<Rightarrow> api \<Rightarrow> event list \<Rightarrow> event list" where
  "microros_pub_int32 bld argv api =
     setup_transport bld argv api
     (checked api Support_Init ''[micro_ros] failed to initialize''
     (checked api (Node_Init ''micro_ros_rtt_node'') ''[micro_ros] failed to create node''
     (print ''[micro_ros] node created''
     (plain api (Publisher_Init ''publisher'' Default ''std_msgs__msg__Int32'' ''micro_ros_rtt_node_publisher'')
     (print ''[micro_ros] publisher created''
     (plain api (Timer_Init 1000 ''timer_callback'')
     (print ''[micro_ros] timer created''
     (plain api (Executor_Init 1)
     (plain api (Executor_Add Timer ''timer_callback'')
     (print ''[micro_ros] executor created''
     (start_thread api ''mr_pubint32'' ''microros_pub_int32_thread_entry'' 2048 25 10 ''mr_pubint32''
     return)))))))))))"

definition microros_sub_int32 :: "build \<Rightarrow> string list \<Rightarrow> api \<Rightarrow> event list \<Rightarrow> event list" where
  "microros_sub_int32 bld argv api =
     setup_transport bld argv api
     (plain api (Pin_Mode 45)
     (checked api Support_Init ''[micro_ros] failed to initialize''
     (checked api (Node_Init ''micro_ros_rtt_sub_int32_node'') ''[micro_ros] failed to create node''
     (print ''[micro_ros] node created''
     (plain api (Subscription_Init ''subscriber'' Default ''std_msgs__msg__Int32'' ''micro_ros_rtt_subscriber'')
     (plain api (Executor_Init 1)
     (plain api (Executor_Add (Subscription ''subscriber'') ''subscription_callback'')
     (print ''[micro_ros] executor created''
     (start_thread api ''mr_subint32'' ''microros_sub_int32_thread_entry'' 2048 25 10 ''mr_subint32''
     return)))))))))"

definition microros_sub_twist :: "build \<Rightarrow> string list \<Rightarrow> api \<Rightarrow> event list \<Rightarrow> event list" where
  "microros_sub_twist bld argv api =
     setup_transport bld argv api
     (checked api Support_Init ''[micro_ros] failed to initialize''
     (checked api (Node_Init ''micro_ros_rtt_sub_twist'') ''[micro_ros] failed to create node''
     (plain api (Subscription_Init ''subscriber'' Default ''geometry_msgs__msg__Twist'' ''cmd_vel'')
     (plain api (Executor_Init 1)
     (plain api (Executor_Add (Subscription ''subscriber'') ''subscription_callback'')
     (start_thread api ''mr_sub_twist'' ''microros_sub_twist_thread_entry'' 2048 25 10 ''mr_sub_twist''
     return))))))"

definition microros_kobuki_control :: "build \<Rightarrow> string list \<Rightarrow> api \<Rightarrow> event list \<Rightarrow> event list" where
  "microros_kobuki_control bld argv api =
     setup_transport bld argv api
     (checked api Support_Init ''[micro_ros] failed to initialize''
     (checked api (Node_Init ''micro_ros_rtt_sub_twist'') ''[micro_ros] failed to create node''
     (plain api (Subscription_Init ''subscriber'' Default ''geometry_msgs__msg__Twist'' ''cmd_vel'')
     (plain api (Executor_Init 1)
     (plain api (Executor_Add (Subscription ''subscriber'') ''kobuki_callback'')
     (start_thread api ''mr_kobuki'' ''microros_kobuki_entry'' 2048 15 10 ''mr_kobuki''
     (start_thread api ''kobuki'' ''kobuki_entry'' 2048 10 10 ''kobuki''
     return)))))))"

definition microros_add_ints_service :: "build \<Rightarrow> string list \<Rightarrow> api \<Rightarrow> event list \<Rightarrow> event list" where
  "microros_add_ints_service bld argv api =
     setup_transport bld argv api
     (checked api Support_Init ''[micro_ros] failed to initialize''
     (checked api (Node_Init ''micro_ros_rtt_add_ints_rclc'') ''[micro_ros] failed to create node''
     (checked api (Service_Init ''service'' ''example_interfaces__srv__AddTwoInts'' ''/addtwoints'')
        ''[micro_ros] failed to create service''
     (plain api (Executor_Init 1)
     (plain api (Executor_Add (Service ''service'') ''service_callback'')
     (start_thread api ''mr_add_svc'' ''microros_add_ints_thread_entry'' 2048 25 10 ''mr_add_svc''
     return))))))"

text \<open>
  The macro \<^verbatim>\<open>RCCHECK\<close> of the two examples that check every call, without the number of the
  line, which the compiler chooses.
\<close>

definition RCCHECK :: "api \<Rightarrow> call \<Rightarrow> (event list \<Rightarrow> event list) \<Rightarrow> event list \<Rightarrow> event list" where
  "RCCHECK api fn rest tr =
     (case issue api fn tr of
        (temp_rc, tr) \<Rightarrow>
          if temp_rc \<noteq> RCL_RET_OK
          then tr @ [Printed (''Failed status: '' @ show_int (sint temp_rc) @ ''. Aborting.'')]
          else rest tr)"

definition microros_pub_sub :: "build \<Rightarrow> string list \<Rightarrow> api \<Rightarrow> event list \<Rightarrow> event list" where
  "microros_pub_sub bld argv api =
     setup_transport bld argv api
     (RCCHECK api Support_Init
     (RCCHECK api (Node_Init ''int32_publisher_rclc'')
     (RCCHECK api (Publisher_Init ''publisher'' Default ''std_msgs__msg__Int32'' ''std_msgs_msg_Int32'')
     (RCCHECK api (Subscription_Init ''subscriber'' Default ''std_msgs__msg__Int32'' ''int32_subscriber'')
     (RCCHECK api (Timer_Init 1000 ''timer_callback'')
     (RCCHECK api (Executor_Init 2)
     (RCCHECK api (Executor_Add Timer ''timer_callback'')
     (RCCHECK api (Executor_Add (Subscription ''subscriber'') ''subscription_callback'')
     (start_thread api ''pub_sub_int32'' ''microros_pub_sub_thread_entry'' 2048 18 10 ''pub_sub_int32''
     return)))))))))"

definition microros_ping_pong :: "build \<Rightarrow> string list \<Rightarrow> api \<Rightarrow> event list \<Rightarrow> event list" where
  "microros_ping_pong bld argv api =
     setup_transport bld argv api
     (RCCHECK api Support_Init
     (RCCHECK api (Node_Init ''pingpong_node'')
     (RCCHECK api (Publisher_Init ''ping_publisher'' Default ''std_msgs__msg__Header'' ''/microROS/ping'')
     (RCCHECK api (Publisher_Init ''pong_publisher'' Best_Effort ''std_msgs__msg__Header'' ''/microROS/pong'')
     (RCCHECK api (Subscription_Init ''ping_subscriber'' Best_Effort ''std_msgs__msg__Header'' ''/microROS/ping'')
     (RCCHECK api (Subscription_Init ''pong_subscriber'' Best_Effort ''std_msgs__msg__Header'' ''/microROS/pong'')
     (RCCHECK api (Timer_Init 2000 ''ping_timer_callback'')
     (RCCHECK api (Executor_Init 3)
     (RCCHECK api (Executor_Add Timer ''ping_timer_callback'')
     (RCCHECK api (Executor_Add (Subscription ''ping_subscriber'') ''ping_subscription_callback'')
     (RCCHECK api (Executor_Add (Subscription ''pong_subscriber'') ''pong_subscription_callback'')
     (set_buffer ''outcoming_ping''
     (set_buffer ''incoming_ping''
     (set_buffer ''incoming_pong''
     (plain api Rand
     (print ''[micro_ros] micro_ros init successful.''
     (start_thread api ''ping_pong'' ''microros_ping_pong_thread_entry'' 2048 25 10 ''mr_pubint32''
     return)))))))))))))))))"

text \<open>
  The threads that the commands start all have the same loop; \<open>n\<close> of its rounds.
\<close>

fun thread_entry :: "nat \<Rightarrow> api \<Rightarrow> event list \<Rightarrow> event list" where
  "thread_entry 0 api tr = tr"
| "thread_entry (Suc n) api tr = plain api (Mdelay 100) (plain api Executor_Spin_Some (thread_entry n api)) tr"

section \<open>Creation and destruction within one command\<close>

definition create_entities :: "api \<Rightarrow> event list \<Rightarrow> event list" where
  "create_entities api =
     checked api Support_Init ''[micro_ros] failed to initialize''
     (checked api (Node_Init ''microros_pub_int32_rclc'') ''[micro_ros] failed to create node''
     (print ''[micro_ros] node created''
     (plain api (Publisher_Init ''publisher'' Default ''std_msgs__msg__Int32'' ''std_msgs_msg_Int32'')
     (print ''[micro_ros] publisher created'' return))))"

definition destroy_entities :: "api \<Rightarrow> event list \<Rightarrow> event list" where
  "destroy_entities api =
     plain api (Publisher_Fini ''publisher'')
     (plain api Node_Fini
     (plain api Support_Fini return))"

text \<open>\<^verbatim>\<open>while (RMW_RET_OK != rmw_uros_ping_agent(50, 2));\<close>: \<open>None\<close> while the agent does not answer.\<close>

fun wait_agent :: "nat \<Rightarrow> api \<Rightarrow> event list \<Rightarrow> event list option" where
  "wait_agent 0 api tr = None"
| "wait_agent (Suc fuel) api tr =
     (case issue api (Ping_Agent 50 2) tr of
        (r, tr) \<Rightarrow> if r \<noteq> RCL_RET_OK then wait_agent fuel api tr else Some tr)"

text \<open>The loop that publishes: \<open>n\<close> messages are left, \<open>d\<close> is \<^verbatim>\<open>msg.data\<close>.\<close>

fun publish_loop :: "nat \<Rightarrow> int \<Rightarrow> api \<Rightarrow> event list \<Rightarrow> event list" where
  "publish_loop 0 d api tr = tr"
| "publish_loop (Suc n) d api tr =
     plain api (Publish ''publisher'' d)
     (print (''[micro_ros] published '' @ show_int d)
     (plain api (Mdelay 1000) (publish_loop n (d + 1) api))) tr"

definition microros_deinitialization ::
    "nat \<Rightarrow> build \<Rightarrow> string list \<Rightarrow> api \<Rightarrow> event list \<Rightarrow> event list option" where
  "microros_deinitialization fuel bld argv api tr =
     map_option (\<lambda>tr.
       print ''[micro_ros] destroyed entities'' return
         (destroy_entities api
           (print ''[micro_ros] destroying entities'' return
             (publish_loop 10 0 api
               (create_entities api
                 (print ''[micro_ros] creating entities'' return tr))))))
     (wait_agent fuel api (setup_transport bld argv api return tr))"

section \<open>The contract with the client library\<close>

text \<open>
  What a call needs, creates and destroys. A thread that is started needs what it uses, which is
  the parameter \<open>used\<close>.
\<close>

fun requires :: "entity set \<Rightarrow> call \<Rightarrow> entity set" where
  "requires used (Node_Init n) = {Support}"
| "requires used (Publisher_Init v q t n) = {Node}"
| "requires used (Subscription_Init v q t n) = {Node}"
| "requires used (Service_Init v t n) = {Node}"
| "requires used (Timer_Init n cb) = {Support}"
| "requires used (Executor_Init n) = {Support}"
| "requires used (Executor_Add e cb) = {Executor, e}"
| "requires used Executor_Spin_Some = {Executor}"
| "requires used (Publish v d) = {Publisher v}"
| "requires used (Publisher_Fini v) = {Publisher v, Node}"
| "requires used Node_Fini = {Node}"
| "requires used Support_Fini = {Support}"
| "requires used (Thread_Startup n) = used"
| "requires used c = {}"

fun creates :: "call \<Rightarrow> entity set" where
  "creates Support_Init = {Support}"
| "creates (Node_Init n) = {Node}"
| "creates (Publisher_Init v q t n) = {Publisher v}"
| "creates (Subscription_Init v q t n) = {Subscription v}"
| "creates (Service_Init v t n) = {Service v}"
| "creates (Timer_Init n cb) = {Timer}"
| "creates (Executor_Init n) = {Executor}"
| "creates c = {}"

fun destroys :: "call \<Rightarrow> entity set" where
  "destroys (Publisher_Fini v) = {Publisher v}"
| "destroys Node_Fini = {Node}"
| "destroys Support_Fini = {Support}"
| "destroys c = {}"

definition after :: "entity set \<Rightarrow> event \<Rightarrow> entity set" where
  "after live e =
     (case e of
        Called c r \<Rightarrow> if r = RCL_RET_OK then live \<union> creates c - destroys c else live
      | _ \<Rightarrow> live)"

definition allowed :: "entity set \<Rightarrow> entity set \<Rightarrow> event \<Rightarrow> bool" where
  "allowed used live e = (case e of Called c r \<Rightarrow> requires used c \<subseteq> live | _ \<Rightarrow> True)"

fun live_after :: "entity set \<Rightarrow> event list \<Rightarrow> entity set" where
  "live_after live [] = live"
| "live_after live (e # es) = live_after (after live e) es"

fun legal :: "entity set \<Rightarrow> entity set \<Rightarrow> event list \<Rightarrow> bool" where
  "legal used live [] = True"
| "legal used live (e # es) = (allowed used live e \<and> legal used (after live e) es)"

lemma live_after_append [simp]: "live_after live (es @ fs) = live_after (live_after live es) fs"
  by (induction es arbitrary: live) auto

lemma legal_append [simp]:
  "legal used live (es @ fs) = (legal used live es \<and> legal used (live_after live es) fs)"
  by (induction es arbitrary: live) auto

text \<open>Nothing is finalised: then what a started thread uses stays there.\<close>

definition keeps_all :: "event list \<Rightarrow> bool" where
  "keeps_all tr = list_all (\<lambda>e. case e of Called c r \<Rightarrow> destroys c = {} | _ \<Rightarrow> True) tr"

fun is_startup :: "event \<Rightarrow> bool" where
  "is_startup (Called (Thread_Startup n) r) = True"
| "is_startup _ = False"

definition started :: "event list \<Rightarrow> bool" where
  "started tr = list_ex is_startup tr"

fun_cases is_startup_elim: "is_startup e"

lemma keeps_all_append [simp]: "keeps_all (es @ fs) = (keeps_all es \<and> keeps_all fs)"
  by (simp add: keeps_all_def)

lemma keeps_all_live: "keeps_all tr \<Longrightarrow> live \<subseteq> live_after live tr"
proof (induction tr arbitrary: live)
  case (Cons e es)
  have "live \<subseteq> after live e" using Cons.prems by (auto simp: keeps_all_def after_def split: event.splits)
  also have "\<dots> \<subseteq> live_after (after live e) es" using Cons by (simp add: keeps_all_def)
  finally show ?case by simp
qed simp

lemma started_uses:
  "legal used live tr \<Longrightarrow> keeps_all tr \<Longrightarrow> started tr \<Longrightarrow> used \<subseteq> live_after live tr"
proof (induction tr arbitrary: live)
  case (Cons e es)
  show ?case
  proof (cases "is_startup e")
    case True
    then have "used \<subseteq> live" using Cons.prems(1) by (elim is_startup_elim) (simp add: allowed_def)
    with keeps_all_live [OF Cons.prems(2)] show ?thesis by blast
  next
    case False
    with Cons show ?thesis by (simp add: keeps_all_def started_def)
  qed
qed (simp add: started_def)

text \<open>
  The contract for a command \<open>p\<close> that begins when the entities \<open>live\<close> exist, and its rules, one for
  each way in which the commands are composed. After a call whose result is not checked the
  command goes on with both outcomes, unless the call is known to succeed.
\<close>

definition within_contract :: "entity set \<Rightarrow> event list \<Rightarrow> bool" where
  "within_contract used tr \<longleftrightarrow> legal used {} tr \<and> keeps_all tr"

definition keeps_contract :: "entity set \<Rightarrow> entity set \<Rightarrow> (event list \<Rightarrow> event list) \<Rightarrow> bool" where
  "keeps_contract used live p =
     (\<forall>tr. within_contract used tr \<longrightarrow> live_after {} tr = live \<longrightarrow> within_contract used (p tr))"

definition succeeds :: "api \<Rightarrow> call \<Rightarrow> bool" where
  "succeeds api c = (\<forall>tr. api tr c = RCL_RET_OK)"

lemma keeps_contractD:
  "keeps_contract used live p \<Longrightarrow> within_contract used tr \<Longrightarrow> live_after {} tr = live \<Longrightarrow> within_contract used (p tr)"
  by (simp add: keeps_contract_def)

lemma keeps_return: "keeps_contract used live return"
  by (simp add: keeps_contract_def return_def)

lemma within_silent:
  "within_contract used tr \<Longrightarrow> within_contract used (tr @ [Printed msg])"
  "within_contract used tr \<Longrightarrow> within_contract used (tr @ [Local_Buffer v n])"
  by (simp_all add: within_contract_def allowed_def keeps_all_def)

lemma keeps_print: "keeps_contract used live rest \<Longrightarrow> keeps_contract used live (print msg rest)"
  by (simp add: keeps_contract_def print_def within_silent after_def)

lemma keeps_set_buffer: "keeps_contract used live rest \<Longrightarrow> keeps_contract used live (set_buffer v rest)"
  by (simp add: keeps_contract_def set_buffer_def within_silent after_def)

lemma keeps_call:
  assumes "requires used c \<subseteq> live" "destroys c = {}" "within_contract used tr" "live_after {} tr = live"
  shows "within_contract used (tr @ [Called c r])"
    and "live_after {} (tr @ [Called c r]) = (if r = RCL_RET_OK then live \<union> creates c else live)"
  using assms by (simp_all add: within_contract_def allowed_def after_def keeps_all_def)

lemma keeps_plain:
  assumes "requires used c \<subseteq> live" "destroys c = {}" "keeps_contract used (live \<union> creates c) rest"
    and "succeeds api c \<or> keeps_contract used live rest"
  shows "keeps_contract used live (plain api c rest)"
  unfolding keeps_contract_def
proof (intro allI impI)
  fix tr assume tr: "within_contract used tr" "live_after {} tr = live"
  note c = keeps_call [OF assms(1,2) tr, of "api tr c"]
  show "within_contract used (plain api c rest tr)"
    using c assms(3,4) keeps_contractD [OF _ c(1)]
    by (cases "api tr c = RCL_RET_OK") (auto simp: plain_def issue_def Let_def succeeds_def)
qed

lemma keeps_plain_silent:
  "requires used c \<subseteq> live \<Longrightarrow> creates c = {} \<Longrightarrow> destroys c = {} \<Longrightarrow> keeps_contract used live rest \<Longrightarrow>
   keeps_contract used live (plain api c rest)"
  by (rule keeps_plain) simp_all

lemma keeps_checked:
  assumes "requires used c \<subseteq> live" "destroys c = {}" "keeps_contract used (live \<union> creates c) rest"
  shows "keeps_contract used live (checked api c msg rest)"
  unfolding keeps_contract_def
proof (intro allI impI)
  fix tr assume tr: "within_contract used tr" "live_after {} tr = live"
  note c = keeps_call [OF assms(1,2) tr, of "api tr c"]
  show "within_contract used (checked api c msg rest tr)"
    using c keeps_contractD [OF assms(3) c(1)] within_silent(1) [OF c(1), of msg]
    by (auto simp: checked_def issue_def Let_def)
qed

lemma keeps_RCCHECK:
  assumes "requires used c \<subseteq> live" "destroys c = {}" "keeps_contract used (live \<union> creates c) rest"
  shows "keeps_contract used live (RCCHECK api c rest)"
  using keeps_checked [OF assms] unfolding keeps_contract_def
  by (simp add: RCCHECK_def checked_def issue_def Let_def)

lemma keeps_start_thread:
  assumes "used \<subseteq> live" "keeps_contract used live rest"
  shows "keeps_contract used live (start_thread api name entry stack prio ticks label rest)"
proof -
  have run: "keeps_contract used live (plain api (Thread_Startup name) (print (''[micro_ros] New thread '' @ label) rest))"
    and no: "keeps_contract used live (print (''[micro_ros] Failed to create thread '' @ label) rest)"
    using assms by (auto intro!: keeps_plain_silent keeps_print)
  show ?thesis
    unfolding keeps_contract_def
  proof (intro allI impI)
    fix tr assume tr: "within_contract used tr" "live_after {} tr = live"
    let ?c = "Thread_Create name entry stack prio ticks"
    have "requires used ?c \<subseteq> live" "destroys ?c = {}" by simp_all
    note c = keeps_call [OF this tr, of "api tr ?c"]
    have "live_after {} (tr @ [Called ?c (api tr ?c)]) = live" using c(2) by simp
    with keeps_contractD [OF run c(1)] keeps_contractD [OF no c(1)]
    show "within_contract used (start_thread api name entry stack prio ticks label rest tr)"
      by (cases "api tr ?c = 0") (simp_all add: start_thread_def issue_def Let_def)
  qed
qed

lemma keeps_setup:
  "keeps_contract used live rest \<Longrightarrow> keeps_contract used live (setup_transport bld argv api rest)"
  by (simp add: setup_transport_def Let_def set_microros_transports_def set_microros_udp_transports_def
      keeps_plain_silent)

lemmas keeps_rules = keeps_setup keeps_checked keeps_RCCHECK keeps_print keeps_set_buffer keeps_start_thread keeps_return

lemma command_contract: "keeps_contract used {} p \<Longrightarrow> within_contract used (p [])"
  by (simp add: keeps_contract_def within_contract_def keeps_all_def)

text \<open>A started thread may spin for ever.\<close>

lemma thread_entry_legal:
  "legal used {} tr \<Longrightarrow> Executor \<in> live_after {} tr \<Longrightarrow> legal used {} (thread_entry n api tr)"
  by (induction n arbitrary: tr) (auto simp: plain_def issue_def Let_def allowed_def after_def)

lemma started_spins:
  "within_contract used tr \<Longrightarrow> Executor \<in> used \<Longrightarrow> started tr \<Longrightarrow> legal used {} (thread_entry n api tr)"
  using started_uses [of used "{}" tr] by (auto simp: within_contract_def intro: thread_entry_legal)

end
