(* ===== verification/Examples_Contract.thy ===== *)
theory Examples_Contract
  imports Examples_Setup
begin

text \<open>
  The example commands against the contract of the client library: the commands that check every
  call keep it whatever the calls return; the others keep it as long as the calls that create
  entities succeed, and break it when a call fails whose result they drop.
\<close>

section \<open>What the threads use\<close>



definition pub_used :: "entity set" where
  "pub_used = {Executor, Timer, Publisher ''publisher''}"

definition sub_used :: "entity set" where
  "sub_used = {Executor, Subscription ''subscriber''}"

definition service_used :: "entity set" where
  "service_used = {Executor, Service ''service''}"

definition creations_succeed :: "api \<Rightarrow> bool" where
  "creations_succeed api = (\<forall>c tr. creates c \<noteq> {} \<longrightarrow> api tr c = RCL_RET_OK)"

lemma creation_succeeds: "creations_succeed api \<Longrightarrow> creates c \<noteq> {} \<Longrightarrow> succeeds api c"
  by (simp add: creations_succeed_def succeeds_def)

lemma keeps_plain_ok:
  assumes "creations_succeed api" "requires used c \<subseteq> live" "destroys c = {}"
    and "keeps_contract used (live \<union> creates c) rest"
  shows "keeps_contract used live (plain api c rest)"
proof (rule keeps_plain [OF assms(2-4)])
  show "succeeds api c \<or> keeps_contract used live rest"
    using creation_succeeds [OF assms(1), of c] assms(4) by (cases "creates c = {}") simp_all
qed

lemmas command_defs = microros_pub_int32_def microros_sub_int32_def microros_sub_twist_def
  microros_kobuki_control_def microros_add_ints_service_def microros_pub_sub_def
  microros_ping_pong_def

section \<open>Libraries\<close>

text \<open>A library on which only the call \<open>bad\<close> fails (and threads can be created).\<close>

fun is_bad :: "string \<Rightarrow> call \<Rightarrow> bool" where
  "is_bad bad (Publisher_Init v q t n) = (n = bad)"
| "is_bad bad (Subscription_Init v q t n) = (n = bad)"
| "is_bad bad (Node_Init n) = (n = bad)"
| "is_bad bad (Executor_Init n) = (bad = ''executor'')"
| "is_bad bad (Thread_Create n e st p ti) = True"
| "is_bad bad c = False"

definition library_with :: "string \<Rightarrow> api" where
  "library_with bad tr c = (if is_bad bad c then 1 else 0)"

definition good_library :: api where
  "good_library tr c = (case c of Thread_Create n e st p ti \<Rightarrow> 1 | _ \<Rightarrow> 0)"

lemma good_library_creates: "creations_succeed good_library"
  by (auto simp: creations_succeed_def good_library_def RCL_RET_OK_def split: call.splits)

definition udp_build :: build where
  "udp_build = \<lparr>MICRO_ROS_USE_SERIAL = False, MICRO_ROS_USE_UDP = True\<rparr>"

section \<open>Properties\<close>





text \<open>
  C20: the other commands keep the contract when every call that creates an entity succeeds.
\<close>

theorem unchecked_commands_legal:
  assumes "creations_succeed api"
  shows "within_contract pub_used (microros_pub_int32 bld argv api []) \<and>
    within_contract sub_used (microros_sub_int32 bld argv api []) \<and>
    within_contract sub_used (microros_sub_twist bld argv api []) \<and>
    within_contract sub_used (microros_kobuki_control bld argv api []) \<and>
    within_contract service_used (microros_add_ints_service bld argv api [])"
  unfolding command_defs
  by (intro conjI command_contract keeps_rules keeps_plain_ok [OF assms])
    (simp_all add: pub_used_def sub_used_def service_used_def)

theorem unchecked_commands_legal_witness:
  "within_contract pub_used (microros_pub_int32 udp_build [''microros_pub_int32''] good_library []) \<and>
   within_contract sub_used (microros_sub_int32 udp_build [''microros_pub_int32''] good_library []) \<and>
   within_contract sub_used (microros_sub_twist udp_build [''microros_pub_int32''] good_library []) \<and>
   within_contract sub_used (microros_kobuki_control udp_build [''microros_pub_int32''] good_library []) \<and>
   within_contract service_used (microros_add_ints_service udp_build [''microros_pub_int32''] good_library [])"
  by (rule unchecked_commands_legal [OF good_library_creates])

text \<open>
  When only the creation of the publisher, the subscription or (for the service) the executor
  fails, these commands start their threads all the same, without the entity the threads use.
\<close>

lemma unchecked_failures_start_threads:
  "(let tr = microros_pub_int32 udp_build [] (library_with ''micro_ros_rtt_node_publisher'') []
    in started tr \<and> \<not> legal pub_used {} tr) \<and>
   (let tr = microros_sub_int32 udp_build [] (library_with ''micro_ros_rtt_subscriber'') []
    in started tr \<and> \<not> legal sub_used {} tr) \<and>
   (let tr = microros_kobuki_control udp_build [] (library_with ''cmd_vel'') []
    in started tr \<and> \<not> legal sub_used {} tr) \<and>
   (let tr = microros_add_ints_service udp_build [] (library_with ''executor'') []
    in started tr \<and> \<not> legal service_used {} tr)"
  by (intro conjI; code_simp)

section \<open>Deinitialisation\<close>

definition published :: "event list \<Rightarrow> int list" where
  "published tr = concat (map (\<lambda>e. case e of Called (Publish v d) r \<Rightarrow> [d] | _ \<Rightarrow> []) tr)"

definition pings :: "event list \<Rightarrow> nat" where
  "pings tr = length (filter (\<lambda>e. case e of Called (Ping_Agent a b) r \<Rightarrow> True | _ \<Rightarrow> False) tr)"

text \<open>The agent answers from the \<open>k\<close>-th ping on; what is created is created and finalised.\<close>

definition cooperative :: "nat \<Rightarrow> api \<Rightarrow> bool" where
  "cooperative k api \<longleftrightarrow> creations_succeed api \<and> (\<forall>c tr. destroys c \<noteq> {} \<longrightarrow> api tr c = RCL_RET_OK) \<and>
     (\<forall>tr. k \<le> pings tr \<longrightarrow> api tr (Ping_Agent 50 2) = RCL_RET_OK)"

lemma published_append [simp]: "published (es @ fs) = published es @ published fs"
  by (simp add: published_def)

lemma pings_append [simp]: "pings (es @ fs) = pings es + pings fs"
  by (simp add: pings_def)

text \<open>Events of calls that neither publish nor create nor destroy.\<close>

definition neutral :: "event list \<Rightarrow> bool" where
  "neutral es \<longleftrightarrow> published es = [] \<and> (\<forall>used live. legal used live es \<and> live_after live es = live)"

lemma neutral_append: "neutral es \<Longrightarrow> neutral fs \<Longrightarrow> neutral (es @ fs)"
  by (simp add: neutral_def)

lemma neutral_Nil: "neutral []"
  by (simp add: neutral_def published_def)

lemma neutral_Printed: "neutral [Printed msg]"
  by (simp add: neutral_def allowed_def after_def published_def)

lemma neutral_Called:
  "neutral [Called (Ping_Agent a b) r]" "neutral [Called (Set_Custom_Transport f l k) r]"
  "neutral [Called (Set_Custom_Transport f l k) r, Called (Set_Custom_Transport f' l' k') r']"
  by (simp_all add: neutral_def allowed_def after_def published_def)

lemma wait_agent_answers:
  "(\<forall>tr. k \<le> pings tr \<longrightarrow> api tr (Ping_Agent 50 2) = RCL_RET_OK) \<Longrightarrow> k < fuel + pings tr \<Longrightarrow> 0 < fuel \<Longrightarrow>
   \<exists>es. wait_agent fuel api tr = Some (tr @ es) \<and> neutral es"
proof (induction fuel arbitrary: tr)
  case (Suc fuel)
  let ?r = "api tr (Ping_Agent 50 2)"
  let ?e = "[Called (Ping_Agent 50 2) ?r]"
  show ?case
  proof (cases "?r = RCL_RET_OK")
    case True
    then show ?thesis by (auto simp: issue_def Let_def neutral_Called intro!: exI [of _ ?e])
  next
    case False
    then have "\<not> k \<le> pings tr" using Suc.prems(1) by auto
    then have "0 < fuel" "k < fuel + pings (tr @ ?e)" using Suc.prems(2) by (simp_all add: pings_def)
    from Suc.IH [OF Suc.prems(1) this(2,1)] obtain es where
      "wait_agent fuel api (tr @ ?e) = Some ((tr @ ?e) @ es)" "neutral es" by blast
    then show ?thesis using False neutral_append [OF neutral_Called(1) \<open>neutral es\<close>]
      by (intro exI [of _ "?e @ es"]) (simp add: issue_def Let_def)
  qed
qed simp

lemma setup_events: "\<exists>es. setup_transport bld argv api return tr = tr @ es \<and> neutral es"
  by (auto simp: setup_transport_def Let_def set_microros_transports_def set_microros_udp_transports_def
      plain_def issue_def return_def neutral_Called neutral_Nil)

lemma publish_loop_events:
  "\<exists>es. publish_loop n d api tr = tr @ es \<and> published es = [d..d + int n - 1] \<and>
     (Publisher ''publisher'' \<in> live \<longrightarrow> legal used live es \<and> live_after live es = live)"
proof (induction n arbitrary: d tr)
  case (Suc n)
  let ?p = "[Called (Publish ''publisher'' d) (api tr (Publish ''publisher'' d)), Printed (''[micro_ros] published '' @ show_int d)]"
  let ?m = "?p @ [Called (Mdelay 1000) (api (tr @ ?p) (Mdelay 1000))]"
  obtain es where es: "publish_loop n (d + 1) api (tr @ ?m) = (tr @ ?m) @ es"
      "published es = [d + 1..d + 1 + int n - 1]"
      "Publisher ''publisher'' \<in> live \<longrightarrow> legal used live es \<and> live_after live es = live"
    using Suc.IH [of "d + 1" "tr @ ?m"] by blast
  have "publish_loop (Suc n) d api tr = tr @ (?m @ es)"
    using es(1) by (simp add: plain_def print_def issue_def Let_def)
  moreover have "published (?m @ es) = [d..d + int (Suc n) - 1]"
    using es(2) upto_rec1 [of d "d + int n"] by (simp add: published_def)
  moreover have "Publisher ''publisher'' \<in> live \<longrightarrow> legal used live (?m @ es) \<and> live_after live (?m @ es) = live"
    using es(3) by (simp add: allowed_def after_def)
  ultimately show ?case by blast
qed (simp add: published_def)

text \<open>
  C21: once the agent answers and as long as what is created is created and finalised,
  \<open>microros_deinitialization\<close> ends, publishes 0 to 9 in this order, uses only what exists, and
  leaves nothing behind: every entity it has created is finalised.
\<close>

theorem deinitialization_balanced:
  assumes "cooperative k api" and "k < fuel"
  shows "\<exists>tr. microros_deinitialization fuel bld argv api [] = Some tr \<and>
    published tr = [0, 1, 2, 3, 4, 5, 6, 7, 8, 9] \<and> legal {} {} tr \<and> live_after {} tr = {}"
proof -
  obtain e1 where e1: "setup_transport bld argv api return [] = e1" "neutral e1"
    using setup_events [of bld argv api "[]"] by auto
  have fuel: "k < fuel + pings e1" "0 < fuel" using assms(2) by auto
  have ping: "\<forall>tr. k \<le> pings tr \<longrightarrow> api tr (Ping_Agent 50 2) = RCL_RET_OK"
    using assms(1) by (simp add: cooperative_def)
  obtain e2 where e2: "wait_agent fuel api e1 = Some (e1 @ e2)" "neutral e2"
    using wait_agent_answers [where k = k and api = api and tr = e1 and fuel = fuel] ping fuel by auto
  let ?t = "(e1 @ e2) @ [Printed ''[micro_ros] creating entities'']"
  have ok: "api tr c = RCL_RET_OK" if "creates c \<noteq> {} \<or> destroys c \<noteq> {}" for tr c
    using assms(1) that by (auto simp: cooperative_def creations_succeed_def)
  let ?c = "[Called Support_Init 0, Called (Node_Init ''microros_pub_int32_rclc'') 0, Printed ''[micro_ros] node created'',
      Called (Publisher_Init ''publisher'' Default ''std_msgs__msg__Int32'' ''std_msgs_msg_Int32'') 0,
      Printed ''[micro_ros] publisher created'']"
  have c: "create_entities api tr = tr @ ?c" for tr
    by (simp add: create_entities_def checked_def plain_def print_def issue_def Let_def return_def ok
        flip: RCL_RET_OK_def)
  let ?live = "{Support, Node, Publisher ''publisher''}"
  obtain e3 where e3: "publish_loop 10 0 api (?t @ ?c) = (?t @ ?c) @ e3" "published e3 = [0..9]"
      "legal {} ?live e3" "live_after ?live e3 = ?live"
    using publish_loop_events [of 10 0 api "?t @ ?c" ?live "{}"] by auto
  let ?d = "[Called (Publisher_Fini ''publisher'') 0, Called Node_Fini 0, Called Support_Fini 0]"
  have d: "destroy_entities api tr = tr @ ?d" for tr
    by (simp add: destroy_entities_def plain_def issue_def Let_def return_def ok flip: RCL_RET_OK_def)
  let ?tr = "(((?t @ ?c) @ e3) @ [Printed ''[micro_ros] destroying entities'']) @ ?d @ [Printed ''[micro_ros] destroyed entities'']"
  have "microros_deinitialization fuel bld argv api [] = Some ?tr"
    using e1(1) e2(1) e3(1) by (simp add: microros_deinitialization_def print_def return_def c d)
  moreover have "published ?tr = [0, 1, 2, 3, 4, 5, 6, 7, 8, 9]"
  proof -
    have "published ?tr = published e3"
      using e1(2) e2(2) by (simp add: neutral_def published_def)
    then show ?thesis using e3(2) by (simp add: upto_rec1)
  qed
  moreover have "live_after {} ?c = ?live" "legal {} {} ?c"
    by (auto simp: after_def allowed_def RCL_RET_OK_def)
  moreover have "live_after ?live ?d = {}" "legal {} ?live ?d"
    by (auto simp: after_def allowed_def RCL_RET_OK_def)
  ultimately show ?thesis
    using e1(2) e2(2) e3(3,4) by (intro exI [of _ ?tr]) (simp add: neutral_def allowed_def after_def RCL_RET_OK_def)
qed

text \<open>An agent that answers the third ping.\<close>

definition late_agent :: api where
  "late_agent tr c = (case c of Ping_Agent a b \<Rightarrow> if 2 \<le> pings tr then 0 else 1 | _ \<Rightarrow> 0)"

lemma late_agent_cooperative: "cooperative 2 late_agent"
  by (auto simp: cooperative_def creations_succeed_def late_agent_def RCL_RET_OK_def split: call.splits)

theorem deinitialization_balanced_witness:
  "\<exists>tr. microros_deinitialization 3 udp_build [''microros_deinitialization''] late_agent [] = Some tr \<and>
    published tr = [0, 1, 2, 3, 4, 5, 6, 7, 8, 9] \<and> legal {} {} tr \<and> live_after {} tr = {}"
  by (rule deinitialization_balanced [OF late_agent_cooperative]) simp

end
