(* ===== verification/Examples_Properties.thy ===== *)
theory Examples_Properties
  imports Examples_Callbacks Examples_Contract
begin

text \<open>
  The properties of the example callbacks: what the counters publish, the ping pong protocol over
  a network of devices, and what the two threads of the robot example can hand to the robot.
\<close>

section \<open>Counters and service\<close>

text \<open>
  Over any sequence of timer events, the publisher examples publish consecutive numbers from
  the initial one, one for each event with a timer, and none for a NULL timer.
\<close>

lemma timer_callbacks_count:
  "timer_callbacks ts d =
     (map (\<lambda>k. d + of_nat k) [0..<length (filter id ts)], d + of_nat (length (filter id ts)))"
proof (induction ts arbitrary: d)
  case (Cons t ts)
  have s: "[0..<Suc n] = 0 # map Suc [0..<n]" for n by (simp add: upt_conv_Cons map_Suc_upt)
  show ?case
    by (cases t) (simp_all add: timer_callback_def Cons.IH s add.assoc del: upt_Suc)
qed simp

text \<open>
  The service answers with the sum whenever the sum is a 64-bit number.
\<close>

lemma service_callback_sum:
  assumes "- (2 ^ 63) \<le> sint a + sint b" "sint a + sint b < 2 ^ 63"
  shows "sint (service_callback a b) = sint a + sint b"
  using assms by (simp add: service_callback_def sint_word_add signed_take_bit_int_eq_self)

section \<open>Ping pong\<close>

text \<open>
  Whatever the random number and the device number are, the timer callback writes its frame
  into the 100-byte buffer without overflow; the ping it publishes has that frame, and the pong
  count starts again from 0.
\<close>

lemma ping_timer_publishes:
  "\<exists>ping s'. ping_timer_callback True seq ts s = Inr (Some ping, s') \<and>
     frame_id ping = ping_frame seq (device_id s) \<and> length (frame_id ping) < STRING_BUFFER_LEN \<and>
     outcoming_ping s' = ping \<and> pong_count s' = 0 \<and> device_id s' = device_id s"
  using length_ping_frame [of seq "device_id s"]
  by (simp add: ping_timer_callback_def cmd_defs STRING_BUFFER_LEN_def)

text \<open>A device whose last frame, if it has sent one, carries its own number.\<close>

definition own_frame :: "ping_state \<Rightarrow> bool" where
  "own_frame d \<longleftrightarrow> frame_id (outcoming_ping d) = [] \<or>
     (\<exists>q. frame_id (outcoming_ping d) = ping_frame q (device_id d))"

lemma fold_pongs:
  "\<forall>p \<in> set ps. frame_id p = f \<Longrightarrow>
   fold pong_subscription_callback ps s =
     (if frame_id (outcoming_ping s) = f then s\<lparr>pong_count := pong_count s + of_nat (length ps)\<rparr> else s)"
  by (induction ps arbitrary: s) (auto simp: pong_subscription_callback_def)

lemma own_frame_other:
  "own_frame d \<Longrightarrow> device_id d \<noteq> dev \<Longrightarrow> frame_id (outcoming_ping d) \<noteq> ping_frame seq dev"
  by (auto simp: own_frame_def ping_frame_inject) (simp add: ping_frame_def)

text \<open>
  In a round without losses between devices with different numbers, the device whose timer
  fires counts exactly one pong from every other device, and no other device changes.
\<close>

lemma ping_round_counts_others:
  assumes "i < length ds" "distinct (map device_id ds)" "\<forall>d \<in> set ds. own_frame d"
  shows "\<exists>ds'. ping_round i seq ts ds = Inr ds' \<and> length ds' = length ds \<and>
    pong_count (ds' ! i) = of_nat (length ds - 1) \<and>
    frame_id (outcoming_ping (ds' ! i)) = ping_frame seq (device_id (ds ! i)) \<and>
    (\<forall>j < length ds. j \<noteq> i \<longrightarrow> ds' ! j = ds ! j)"
proof -
  let ?f = "ping_frame seq (device_id (ds ! i))"
  obtain ping d where p: "ping_timer_callback True seq ts (ds ! i) = Inr (Some ping, d)"
    "frame_id ping = ?f" "outcoming_ping d = ping" "pong_count d = 0"
    using ping_timer_publishes [of seq ts "ds ! i"] by blast
  let ?ds = "ds[i := d]"
  have same: "frame_id (outcoming_ping (?ds ! j)) = ?f \<longleftrightarrow> j = i" if "j < length ds" for j
    using that assms p own_frame_other [of "ds ! j" "device_id (ds ! i)" seq]
    by (cases "j = i") (auto simp: distinct_conv_nth)
  let ?pongs = "List.map_filter (\<lambda>d. ping_subscription_callback d ping) ?ds"
  have all: "\<forall>q \<in> set ?pongs. frame_id q = ?f"
    using p(2) by (auto simp: map_filter_def ping_subscription_callback_def)
  have "length ?pongs = length (filter (\<lambda>d. frame_id (outcoming_ping d) \<noteq> ?f) ?ds)"
    by (simp add: map_filter_def ping_subscription_callback_def p(2) cong: filter_cong)
  also have "\<dots> = card {j. j < length ds \<and> j \<noteq> i}"
    unfolding length_filter_conv_card using same by (intro arg_cong [of _ _ card]) auto
  also have "{j. j < length ds \<and> j \<noteq> i} = {..<length ds} - {i}" by auto
  finally have n: "length ?pongs = length ds - 1" using assms(1) by simp
  let ?r = "map (fold pong_subscription_callback ?pongs) ?ds"
  have "ping_round i seq ts ds = Inr ?r" using p(1) by (simp add: ping_round_def Let_def)
  moreover have r: "?r ! j = (if j = i then d\<lparr>pong_count := of_nat (length ds - 1)\<rparr> else ds ! j)"
    if "j < length ds" for j
    using that same [OF that] n fold_pongs [OF all] p(4) by simp
  moreover have "length ?r = length ds" by simp
  ultimately show ?thesis using r [OF assms(1)] assms(1) p(2,3) by (intro exI [of _ ?r]) (simp del: nth_map)
qed

definition device :: "int32_t \<Rightarrow> string \<Rightarrow> ping_state" where
  "device dev frame =
     \<lparr>outcoming_ping = \<lparr>stamp_sec = 0, stamp_nanosec = 0, frame_id = frame\<rparr>, device_id = dev,
      seq_no = 0, pong_count = 7\<rparr>"

lemma device_own: "own_frame (device dev [])" "own_frame (device dev (ping_frame q dev))"
  by (auto simp: own_frame_def device_def)

section \<open>Robot control\<close>






text \<open>The run of the witness: a message arrives and the driver wakes up between the two stores.\<close>

definition torn_run :: "int kobuki" where
  "torn_run =
     \<lparr>linear_x = 2, angular_z = 1, callback_at = Store_Angular 2, driver_at = Sleeping,
      received = [(1, 1), (2, 2)], commanded = [(2, 1)]\<rparr>"

lemma torn_reachable: "kobuki_reachable 0 torn_run"
proof -
  let ?s0 = "kobuki_start (0 :: int)"
  let ?s1 = "?s0\<lparr>callback_at := Store_Linear 1 1, received := received ?s0 @ [(1, 1)]\<rparr>"
  let ?s2 = "?s1\<lparr>linear_x := 1, callback_at := Store_Angular 1\<rparr>"
  let ?s3 = "?s2\<lparr>angular_z := 1, callback_at := Waiting\<rparr>"
  let ?s4 = "?s3\<lparr>callback_at := Store_Linear 2 2, received := received ?s3 @ [(2, 2)]\<rparr>"
  let ?s5 = "?s4\<lparr>linear_x := 2, callback_at := Store_Angular 2\<rparr>"
  let ?s6 = "?s5\<lparr>driver_at := Has_Linear (linear_x ?s5)\<rparr>"
  let ?s7 = "?s6\<lparr>driver_at := Sleeping, commanded := commanded ?s6 @ [(2, angular_z ?s6)]\<rparr>"
  have steps: "kobuki_step ?s0 ?s1" "kobuki_step ?s1 ?s2" "kobuki_step ?s2 ?s3" "kobuki_step ?s3 ?s4"
    "kobuki_step ?s4 ?s5" "kobuki_step ?s5 ?s6" "kobuki_step ?s6 ?s7"
    by (rule kobuki_step.intros, simp add: kobuki_start_def)+
  have "kobuki_reachable 0 ?s7"
    using kobuki_next [OF kobuki_next [OF kobuki_next [OF kobuki_next [OF kobuki_next [OF kobuki_next
      [OF kobuki_next [OF kobuki_init steps(1)] steps(2)] steps(3)] steps(4)] steps(5)] steps(6)] steps(7)] .
  moreover have "?s7 = torn_run" by (simp add: kobuki_start_def torn_run_def)
  ultimately show ?thesis by simp
qed


text \<open>
  But the pair may be one that no message contained: the driver can run between the two
  stores of the callback, and then mixes two messages.
\<close>

lemma kobuki_commands_torn:
  "\<exists>s x z. kobuki_reachable (0 :: int) s \<and> (x, z) \<in> set (commanded s) \<and>
     (x, z) \<notin> insert (0, 0) (set (received s))"
  using torn_reachable by (intro exI [of _ torn_run] exI [of _ 2] exI [of _ 1]) (simp add: torn_run_def)

end
