(* ===== verification/Logging.thy ===== *)
theory Logging
  imports Prelude
begin

text \<open>
  The conditions of \<^verbatim>\<open>rcutils/logging_macros.h\<close>: a macro for a logging statement becomes a command
  on the static variables of that statement. The code between \<^verbatim>\<open>..._BEFORE\<close> and \<^verbatim>\<open>..._AFTER\<close>,
  which the conditions wrap around the call of \<^verbatim>\<open>rcutils_log\<close>, is an argument of the condition.
  The functions of rcutils are not in the repository: what they answer during one execution of
  the statement is the argument \<open>log_input\<close>, and that they are called is an event.
\<close>

section \<open>Statements\<close>

text \<open>
  One execution: whether logging is initialised, the result of the initialisation, whether the
  logger is enabled, the value of the expression, of the filter function, and what the clock
  returns and, if it does, stores.
\<close>

record log_input =
  g_rcutils_logging_initialized :: bool
  initialize_result :: int32_t
  enabled_for :: bool
  expression_value :: bool
  filter_value :: bool
  clock :: "int32_t \<times> int64_t option"

text \<open>The calls, and the evaluation of the argument of \<^verbatim>\<open>..._EXPRESSION\<close>.\<close>

datatype log_event =
    Initialize
  | Initialize_Failed
  | Enabled_For "string option" int
  | Evaluate
  | Filter
  | Read_Clock
  | Log int "string option" string

text \<open>The static variables of a statement, and the calls so far.\<close>

record log_site =
  logging_once :: int32_t
  logging_first :: bool
  last_logged :: int64_t
  calls :: "log_event list"

definition fresh_site :: log_site where
  "fresh_site = \<lparr>logging_once = 0, logging_first = True, last_logged = 0, calls = []\<rparr>"

type_synonym log_cmd = "(log_site, unit) cmd"
type_synonym log_condition = "log_input \<Rightarrow> log_cmd \<Rightarrow> log_cmd"
type_synonym log_statement = "log_input \<Rightarrow> log_cmd"

definition call :: "log_event \<Rightarrow> log_cmd" where
  "call e = cmodify (\<lambda>s. s\<lparr>calls := calls s @ [e]\<rparr>)"

definition RCUTILS_RET_OK :: int32_t where
  "RCUTILS_RET_OK = 0"

definition RCUTILS_LOG_SEVERITY_DEBUG :: int where "RCUTILS_LOG_SEVERITY_DEBUG = 10"

definition RCUTILS_LOG_SEVERITY_INFO :: int where "RCUTILS_LOG_SEVERITY_INFO = 20"

definition RCUTILS_LOG_SEVERITY_WARN :: int where "RCUTILS_LOG_SEVERITY_WARN = 30"

definition RCUTILS_LOG_SEVERITY_ERROR :: int where "RCUTILS_LOG_SEVERITY_ERROR = 40"

definition RCUTILS_LOG_SEVERITY_FATAL :: int where "RCUTILS_LOG_SEVERITY_FATAL = 50"

definition RCUTILS_LOGGING_AUTOINIT :: "log_input \<Rightarrow> log_cmd" where
  "RCUTILS_LOGGING_AUTOINIT inp =
     cwhen (\<not> g_rcutils_logging_initialized inp)
       (cseq (call Initialize)
       (cwhen (initialize_result inp \<noteq> RCUTILS_RET_OK) (call Initialize_Failed)))"

definition RCUTILS_LOG_COND_NAMED ::
    "int \<Rightarrow> log_condition \<Rightarrow> string option \<Rightarrow> string \<Rightarrow> log_statement" where
  "RCUTILS_LOG_COND_NAMED severity condition name msg inp =
     cseq (RCUTILS_LOGGING_AUTOINIT inp)
     (cseq (call (Enabled_For name severity))
     (cwhen (enabled_for inp) (condition inp (call (Log severity name msg)))))"

section \<open>Conditions\<close>

definition RCUTILS_LOG_CONDITION_EMPTY :: log_condition where
  "RCUTILS_LOG_CONDITION_EMPTY inp body = body"

definition RCUTILS_LOG_CONDITION_ONCE :: log_condition where
  "RCUTILS_LOG_CONDITION_ONCE inp body =
     cbind (cget logging_once) (\<lambda>once.
     cwhen (once = 0) (cseq (cmodify (\<lambda>s. s\<lparr>logging_once := 1\<rparr>)) body))"

definition RCUTILS_LOG_CONDITION_EXPRESSION :: log_condition where
  "RCUTILS_LOG_CONDITION_EXPRESSION inp body = cseq (call Evaluate) (cwhen (expression_value inp) body)"

definition RCUTILS_LOG_CONDITION_FUNCTION :: log_condition where
  "RCUTILS_LOG_CONDITION_FUNCTION inp body = cseq (call Filter) (cwhen (filter_value inp) body)"

definition RCUTILS_LOG_CONDITION_SKIPFIRST :: log_condition where
  "RCUTILS_LOG_CONDITION_SKIPFIRST inp body =
     cbind (cget logging_first) (\<lambda>first.
     if first then cmodify (\<lambda>s. s\<lparr>logging_first := False\<rparr>) else body)"

text \<open>Sums and products of signed 64-bit numbers.\<close>

definition signed64 :: "int \<Rightarrow> ('s, int64_t) cmd" where
  "signed64 i = (if - (2 ^ 63) \<le> i \<and> i < 2 ^ 63 then creturn (of_int i) else cfail SignedOverflow)"

definition RCUTILS_MS_TO_NS :: "int64_t \<Rightarrow> ('s, int64_t) cmd" where
  "RCUTILS_MS_TO_NS milliseconds = signed64 (sint milliseconds * (1000 * 1000))"

definition time_failed :: string where
  "time_failed = ''getting current steady time failed''"

definition RCUTILS_LOG_CONDITION_THROTTLE :: "int64_t \<Rightarrow> log_condition" where
  "RCUTILS_LOG_CONDITION_THROTTLE duration_ms inp body =
     cbind (RCUTILS_MS_TO_NS duration_ms) (\<lambda>duration.
     cseq (call Read_Clock)
     (case clock inp of (ret, stored) \<Rightarrow>
        let now = (case stored of None \<Rightarrow> 0 | Some t \<Rightarrow> t)
        in cbind (if ret \<noteq> RCUTILS_RET_OK
                  then cseq (call (Log RCUTILS_LOG_SEVERITY_ERROR (Some []) time_failed)) (creturn True)
                  else cbind (cget last_logged) (\<lambda>last.
                       cbind (signed64 (sint last + sint duration)) (\<lambda>next.
                       creturn (next \<le>s now)))) (\<lambda>condition.
           cwhen condition (cseq (cmodify (\<lambda>s. s\<lparr>last_logged := now\<rparr>)) body))))"

text \<open>\<^verbatim>\<open>..._SKIPFIRST_THROTTLE\<close>: the code of the throttle condition comes first.\<close>

definition RCUTILS_LOG_CONDITION_SKIPFIRST_THROTTLE :: "int64_t \<Rightarrow> log_condition" where
  "RCUTILS_LOG_CONDITION_SKIPFIRST_THROTTLE duration_ms inp body =
     RCUTILS_LOG_CONDITION_THROTTLE duration_ms inp (RCUTILS_LOG_CONDITION_SKIPFIRST inp body)"

text \<open>A statement that is compiled out.\<close>

definition disabled :: log_statement where
  "disabled inp = creturn ()"

section \<open>Executions of one statement\<close>

text \<open>The calls of each execution, one after the other.\<close>

fun executions :: "log_statement \<Rightarrow> log_input list \<Rightarrow> log_site \<Rightarrow> c_error + log_event list list" where
  "executions stmt [] s = Inr []"
| "executions stmt (inp # inps) s =
     (case stmt inp (s\<lparr>calls := []\<rparr>) of
        Inl e \<Rightarrow> Inl e
      | Inr (_, t) \<Rightarrow>
          (case executions stmt inps t of Inl e \<Rightarrow> Inl e | Inr cs \<Rightarrow> Inr (calls t # cs)))"

text \<open>The calls up to the query whether the logger is enabled, and those of the condition.\<close>

definition prologue :: "int \<Rightarrow> string option \<Rightarrow> log_input \<Rightarrow> log_event list" where
  "prologue severity name inp =
     (if g_rcutils_logging_initialized inp then []
      else if initialize_result inp \<noteq> RCUTILS_RET_OK then [Initialize, Initialize_Failed]
      else [Initialize]) @ [Enabled_For name severity]"

text \<open>A statement sends its message when it calls the logger with it.\<close>

definition sends :: "int \<Rightarrow> string option \<Rightarrow> string \<Rightarrow> log_event list \<Rightarrow> bool" where
  "sends severity name msg es = (Log severity name msg \<in> set es)"

lemma prologue_silent [simp]: "Log sv n m \<notin> set (prologue severity name inp)"
  by (simp add: prologue_def)

lemma cond_named:
  "RCUTILS_LOG_COND_NAMED severity condition name msg inp s =
   cwhen (enabled_for inp) (condition inp (call (Log severity name msg)))
     (s\<lparr>calls := calls s @ prologue severity name inp\<rparr>)"
  by (simp add: RCUTILS_LOG_COND_NAMED_def RCUTILS_LOGGING_AUTOINIT_def prologue_def call_def cmd_defs)

end
