(* ===== verification/Logging_Conditions.thy ===== *)
theory Logging_Conditions
  imports Logging
begin

text \<open>
  What the conditions let through. A condition is a gate: it is open or not, depending on its
  static variables and the input, and it moves the static variables. The locale \<open>log_gate\<close> states
  this for a condition, and derives from it which executions of a statement send the message;
  each condition is an interpretation.
\<close>

section \<open>Gates\<close>

text \<open>The static variables before each execution; one with a disabled logger leaves them alone.\<close>

fun sites :: "(log_input \<Rightarrow> log_site \<Rightarrow> log_site) \<Rightarrow> log_input list \<Rightarrow> log_site \<Rightarrow> log_site list" where
  "sites step [] s = []"
| "sites step (inp # inps) s = s # sites step inps (if enabled_for inp then step inp s else s)"

lemma length_sites [simp]: "length (sites step inps s) = length inps"
  by (induction inps arbitrary: s) simp_all

locale log_gate =
  fixes condition :: log_condition
    and inv :: "log_site \<Rightarrow> bool" and good :: "log_input \<Rightarrow> bool"
    and is_open :: "log_input \<Rightarrow> log_site \<Rightarrow> bool"
    and step :: "log_input \<Rightarrow> log_site \<Rightarrow> log_site"
    and trace :: "log_input \<Rightarrow> log_event list"
  assumes passes: "inv s \<Longrightarrow> good inp \<Longrightarrow> condition inp (call e) s =
      Inr ((), (step inp s)\<lparr>calls := calls s @ trace inp @ (if is_open inp s then [e] else [])\<rparr>)"
    and keeps: "inv s \<Longrightarrow> good inp \<Longrightarrow> inv (step inp s)"
    and calls_irrelevant: "inv (s\<lparr>calls := es\<rparr>) = inv s" "is_open inp (s\<lparr>calls := es\<rparr>) = is_open inp s"
      "step inp (s\<lparr>calls := es\<rparr>) = (step inp s)\<lparr>calls := es\<rparr>"
    and silent: "Log severity name msg \<notin> set (trace inp)"
begin

lemma sites_calls: "map2 (\<lambda>inp s. enabled_for inp \<and> is_open inp s) inps (sites step inps (s\<lparr>calls := es\<rparr>)) =
    map2 (\<lambda>inp s. enabled_for inp \<and> is_open inp s) inps (sites step inps s)"
  by (induction inps arbitrary: s) (simp_all add: calls_irrelevant)

lemma one_execution:
  assumes "inv s" "enabled_for inp \<longrightarrow> good inp"
  obtains t where "RCUTILS_LOG_COND_NAMED severity condition name msg inp (s\<lparr>calls := []\<rparr>) = Inr ((), t)"
    and "sends severity name msg (calls t) \<longleftrightarrow> enabled_for inp \<and> is_open inp s"
    and "\<exists>es. t = (if enabled_for inp then step inp s else s)\<lparr>calls := es\<rparr>"
proof (cases "enabled_for inp")
  case True
  let ?s = "s\<lparr>calls := prologue severity name inp\<rparr>"
  let ?t = "(step inp s)\<lparr>calls := prologue severity name inp @ trace inp @
      (if is_open inp s then [Log severity name msg] else [])\<rparr>"
  have "condition inp (call (Log severity name msg)) ?s = Inr ((), ?t)"
    using passes [of ?s inp "Log severity name msg"] assms True by (simp add: calls_irrelevant)
  then have "RCUTILS_LOG_COND_NAMED severity condition name msg inp (s\<lparr>calls := []\<rparr>) = Inr ((), ?t)"
    using True by (simp add: cond_named cwhen_def)
  moreover have "sends severity name msg (calls ?t) \<longleftrightarrow> enabled_for inp \<and> is_open inp s"
    using True silent by (simp add: sends_def)
  ultimately show ?thesis using True that by auto
next
  case False
  let ?t = "s\<lparr>calls := prologue severity name inp\<rparr>"
  have "RCUTILS_LOG_COND_NAMED severity condition name msg inp (s\<lparr>calls := []\<rparr>) = Inr ((), ?t)"
    using False by (simp add: cond_named cwhen_def creturn_def)
  moreover have "sends severity name msg (calls ?t) \<longleftrightarrow> enabled_for inp \<and> is_open inp s"
    using False by (simp add: sends_def)
  ultimately show ?thesis using False that by auto
qed

lemma executions_send:
  assumes "inv s" "\<forall>inp \<in> set inps. enabled_for inp \<longrightarrow> good inp"
  shows "\<exists>out. executions (RCUTILS_LOG_COND_NAMED severity condition name msg) inps s = Inr out \<and>
    map (sends severity name msg) out =
      map2 (\<lambda>inp s. enabled_for inp \<and> is_open inp s) inps (sites step inps s)"
  using assms
proof (induction inps arbitrary: s)
  case (Cons inp inps)
  have "enabled_for inp \<longrightarrow> good inp" using Cons.prems(2) by simp
  from one_execution [OF Cons.prems(1) this] obtain t es where
    t: "RCUTILS_LOG_COND_NAMED severity condition name msg inp (s\<lparr>calls := []\<rparr>) = Inr ((), t)"
      "sends severity name msg (calls t) \<longleftrightarrow> enabled_for inp \<and> is_open inp s"
      "t = (if enabled_for inp then step inp s else s)\<lparr>calls := es\<rparr>"
    by metis
  have "inv t" using t(3) Cons.prems keeps by (simp add: calls_irrelevant)
  from Cons.IH [OF this] Cons.prems(2) obtain out where
    out: "executions (RCUTILS_LOG_COND_NAMED severity condition name msg) inps t = Inr out"
      "map (sends severity name msg) out =
        map2 (\<lambda>inp s. enabled_for inp \<and> is_open inp s) inps (sites step inps t)"
    by auto
  show ?case using t out by (simp add: sites_calls)
qed simp

end

section \<open>The conditions without time\<close>

interpretation empty: log_gate RCUTILS_LOG_CONDITION_EMPTY "\<lambda>_. True" "\<lambda>_. True" "\<lambda>_ _. True" "\<lambda>_ s. s" "\<lambda>_. []"
  by unfold_locales (simp_all add: RCUTILS_LOG_CONDITION_EMPTY_def call_def cmd_defs)

interpretation once: log_gate RCUTILS_LOG_CONDITION_ONCE "\<lambda>_. True" "\<lambda>_. True"
    "\<lambda>_ s. logging_once s = 0" "\<lambda>_ s. if logging_once s = 0 then s\<lparr>logging_once := 1\<rparr> else s" "\<lambda>_. []"
  by unfold_locales (simp_all add: RCUTILS_LOG_CONDITION_ONCE_def call_def cmd_defs)

interpretation expression: log_gate RCUTILS_LOG_CONDITION_EXPRESSION "\<lambda>_. True" "\<lambda>_. True"
    "\<lambda>inp _. expression_value inp" "\<lambda>_ s. s" "\<lambda>_. [Evaluate]"
  by unfold_locales (simp_all add: RCUTILS_LOG_CONDITION_EXPRESSION_def call_def cmd_defs)

interpretation filtered: log_gate RCUTILS_LOG_CONDITION_FUNCTION "\<lambda>_. True" "\<lambda>_. True"
    "\<lambda>inp _. filter_value inp" "\<lambda>_ s. s" "\<lambda>_. [Filter]"
  by unfold_locales (simp_all add: RCUTILS_LOG_CONDITION_FUNCTION_def call_def cmd_defs)

interpretation skipfirst: log_gate RCUTILS_LOG_CONDITION_SKIPFIRST "\<lambda>_. True" "\<lambda>_. True"
    "\<lambda>_ s. \<not> logging_first s" "\<lambda>_ s. s\<lparr>logging_first := False\<rparr>" "\<lambda>_. []"
  by unfold_locales (auto simp: RCUTILS_LOG_CONDITION_SKIPFIRST_def call_def cmd_defs)

section \<open>Throttling\<close>

text \<open>The time of an input whose clock works, in nanoseconds.\<close>

definition time_of :: "log_input \<Rightarrow> int" where
  "time_of inp = (case snd (clock inp) of None \<Rightarrow> 0 | Some t \<Rightarrow> sint t)"

definition clock_works :: "log_input \<Rightarrow> bool" where
  "clock_works inp \<longleftrightarrow> fst (clock inp) = RCUTILS_RET_OK \<and> 0 \<le> time_of inp \<and> time_of inp < 2 ^ 62"

definition throttle_inv :: "log_site \<Rightarrow> bool" where
  "throttle_inv s \<longleftrightarrow> 0 \<le> sint (last_logged s) \<and> sint (last_logged s) < 2 ^ 62"

definition nanoseconds :: "int64_t \<Rightarrow> int" where
  "nanoseconds ms = sint ms * 1000000"

definition short_duration :: "int64_t \<Rightarrow> bool" where
  "short_duration ms \<longleftrightarrow> 0 \<le> nanoseconds ms \<and> nanoseconds ms < 2 ^ 62"

definition due :: "int64_t \<Rightarrow> log_input \<Rightarrow> log_site \<Rightarrow> bool" where
  "due ms inp s \<longleftrightarrow> sint (last_logged s) + nanoseconds ms \<le> time_of inp"

definition mark :: "int64_t \<Rightarrow> log_input \<Rightarrow> log_site \<Rightarrow> log_site" where
  "mark ms inp s = (if due ms inp s then s\<lparr>last_logged := of_int (time_of inp)\<rparr> else s)"

lemma sint_of_int64: "- (2 ^ 63) \<le> k \<Longrightarrow> k < 2 ^ 63 \<Longrightarrow> sint (of_int k :: int64_t) = k"
  using mod_pos_pos_trivial [of "k + 2 ^ 63" "2 ^ 64"] by (simp add: int_word_sint)

lemma throttle_passes:
  assumes "short_duration ms" "throttle_inv s" "clock_works inp"
  shows "RCUTILS_LOG_CONDITION_THROTTLE ms inp body s =
    (let t = s\<lparr>calls := calls s @ [Read_Clock]\<rparr>
     in if due ms inp s then body (t\<lparr>last_logged := of_int (time_of inp)\<rparr>) else Inr ((), t))"
proof -
  have d: "RCUTILS_MS_TO_NS ms = (creturn (of_int (nanoseconds ms)) :: (log_site, int64_t) cmd)"
    "sint (of_int (nanoseconds ms) :: int64_t) = nanoseconds ms"
    using assms(1) sint_of_int64 [of "nanoseconds ms"]
    by (simp_all add: RCUTILS_MS_TO_NS_def signed64_def short_duration_def nanoseconds_def)
  have l: "signed64 (sint (last_logged s) + nanoseconds ms) = (creturn (of_int (sint (last_logged s) + nanoseconds ms))
      :: (log_site, int64_t) cmd)"
    "sint (of_int (sint (last_logged s) + nanoseconds ms) :: int64_t) = sint (last_logged s) + nanoseconds ms"
    using assms(1,2) sint_of_int64 [of "sint (last_logged s) + nanoseconds ms"]
    by (simp_all add: signed64_def short_duration_def throttle_inv_def)
  obtain ret stored where c: "clock inp = (ret, stored)" by (cases "clock inp")
  have r: "ret = RCUTILS_RET_OK" using assms(3) c by (simp add: clock_works_def)
  show ?thesis
    using d l r c by (cases stored)
      (simp_all add: RCUTILS_LOG_CONDITION_THROTTLE_def call_def cmd_defs Let_def due_def time_of_def word_sle_eq)
qed

lemma throttle_keeps: "throttle_inv s \<Longrightarrow> clock_works inp \<Longrightarrow> throttle_inv (mark ms inp s)"
  by (simp add: throttle_inv_def clock_works_def mark_def sint_of_int64)

lemma throttle_gate:
  assumes "short_duration ms"
  shows "log_gate (RCUTILS_LOG_CONDITION_THROTTLE ms) throttle_inv clock_works (due ms) (mark ms) (\<lambda>_. [Read_Clock])"
proof unfold_locales
  fix s inp e assume s: "throttle_inv s" "clock_works inp"
  then show "RCUTILS_LOG_CONDITION_THROTTLE ms inp (call e) s =
      Inr ((), (mark ms inp s)\<lparr>calls := calls s @ [Read_Clock] @ (if due ms inp s then [e] else [])\<rparr>)"
    using throttle_passes [OF assms s] by (simp add: mark_def call_def cmodify_def Let_def)
qed (simp_all add: throttle_keeps, simp_all add: throttle_inv_def due_def mark_def)

definition skip_mark :: "int64_t \<Rightarrow> log_input \<Rightarrow> log_site \<Rightarrow> log_site" where
  "skip_mark ms inp s = (if due ms inp s then (mark ms inp s)\<lparr>logging_first := False\<rparr> else s)"

lemma skipfirst_throttle_gate:
  assumes "short_duration ms"
  shows "log_gate (RCUTILS_LOG_CONDITION_SKIPFIRST_THROTTLE ms) throttle_inv clock_works
    (\<lambda>inp s. due ms inp s \<and> \<not> logging_first s) (skip_mark ms) (\<lambda>_. [Read_Clock])"
proof unfold_locales
  fix s inp e assume s: "throttle_inv s" "clock_works inp"
  then show "RCUTILS_LOG_CONDITION_SKIPFIRST_THROTTLE ms inp (call e) s =
      Inr ((), (skip_mark ms inp s)\<lparr>calls := calls s @ [Read_Clock] @ (if due ms inp s \<and> \<not> logging_first s then [e] else [])\<rparr>)"
    using throttle_passes [OF assms s]
    by (auto simp: RCUTILS_LOG_CONDITION_SKIPFIRST_THROTTLE_def RCUTILS_LOG_CONDITION_SKIPFIRST_def skip_mark_def
        mark_def call_def cmd_defs Let_def)
  show "throttle_inv (skip_mark ms inp s)"
    using throttle_keeps [OF s, of ms] s(1) by (simp add: skip_mark_def throttle_inv_def)
qed (simp_all add: throttle_inv_def due_def mark_def skip_mark_def)

interpretation throttled: log_gate "RCUTILS_LOG_CONDITION_THROTTLE 1000" throttle_inv clock_works "due 1000" "mark 1000"
    "\<lambda>_. [Read_Clock]"
  by (rule throttle_gate) (simp add: short_duration_def nanoseconds_def)

end
