(* ===== verification/Logging_Macros.thy ===== *)
theory Logging_Macros
  imports Logging
begin

text \<open>
  The seventy macros of \<^verbatim>\<open>rcutils/logging_macros.h\<close>, one definition for each: fourteen for each
  severity. The first argument is \<^verbatim>\<open>RCUTILS_LOG_MIN_SEVERITY\<close>, the constant of the build that
  compiles statements out; the arguments of a macro that are evaluated (the expression, the filter
  function, the clock) are part of the input of an execution, and its message is one string.
\<close>

section \<open>Minimum severities\<close>

definition RCUTILS_LOG_MIN_SEVERITY_DEBUG :: nat where "RCUTILS_LOG_MIN_SEVERITY_DEBUG = 0"

definition RCUTILS_LOG_MIN_SEVERITY_INFO :: nat where "RCUTILS_LOG_MIN_SEVERITY_INFO = 1"

definition RCUTILS_LOG_MIN_SEVERITY_WARN :: nat where "RCUTILS_LOG_MIN_SEVERITY_WARN = 2"

definition RCUTILS_LOG_MIN_SEVERITY_ERROR :: nat where "RCUTILS_LOG_MIN_SEVERITY_ERROR = 3"

definition RCUTILS_LOG_MIN_SEVERITY_FATAL :: nat where "RCUTILS_LOG_MIN_SEVERITY_FATAL = 4"

definition RCUTILS_LOG_MIN_SEVERITY_NONE :: nat where "RCUTILS_LOG_MIN_SEVERITY_NONE = 5"

text \<open>The default of the header.\<close>

definition default_min_severity :: nat where
  "default_min_severity = RCUTILS_LOG_MIN_SEVERITY_NONE"

section \<open>Severity DEBUG\<close>

definition RCUTILS_LOG_DEBUG :: "nat \<Rightarrow> string \<Rightarrow> log_statement" where
  "RCUTILS_LOG_DEBUG min_severity msg =
     (if min_severity > RCUTILS_LOG_MIN_SEVERITY_DEBUG then disabled
      else RCUTILS_LOG_COND_NAMED RCUTILS_LOG_SEVERITY_DEBUG RCUTILS_LOG_CONDITION_EMPTY None msg)"

definition RCUTILS_LOG_DEBUG_NAMED :: "nat \<Rightarrow> string \<Rightarrow> string \<Rightarrow> log_statement" where
  "RCUTILS_LOG_DEBUG_NAMED min_severity name msg =
     (if min_severity > RCUTILS_LOG_MIN_SEVERITY_DEBUG then disabled
      else RCUTILS_LOG_COND_NAMED RCUTILS_LOG_SEVERITY_DEBUG RCUTILS_LOG_CONDITION_EMPTY (Some name) msg)"

definition RCUTILS_LOG_DEBUG_ONCE :: "nat \<Rightarrow> string \<Rightarrow> log_statement" where
  "RCUTILS_LOG_DEBUG_ONCE min_severity msg =
     (if min_severity > RCUTILS_LOG_MIN_SEVERITY_DEBUG then disabled
      else RCUTILS_LOG_COND_NAMED RCUTILS_LOG_SEVERITY_DEBUG RCUTILS_LOG_CONDITION_ONCE None msg)"

definition RCUTILS_LOG_DEBUG_ONCE_NAMED :: "nat \<Rightarrow> string \<Rightarrow> string \<Rightarrow> log_statement" where
  "RCUTILS_LOG_DEBUG_ONCE_NAMED min_severity name msg =
     (if min_severity > RCUTILS_LOG_MIN_SEVERITY_DEBUG then disabled
      else RCUTILS_LOG_COND_NAMED RCUTILS_LOG_SEVERITY_DEBUG RCUTILS_LOG_CONDITION_ONCE (Some name) msg)"

definition RCUTILS_LOG_DEBUG_EXPRESSION :: "nat \<Rightarrow> string \<Rightarrow> log_statement" where
  "RCUTILS_LOG_DEBUG_EXPRESSION min_severity msg =
     (if min_severity > RCUTILS_LOG_MIN_SEVERITY_DEBUG then disabled
      else RCUTILS_LOG_COND_NAMED RCUTILS_LOG_SEVERITY_DEBUG RCUTILS_LOG_CONDITION_EXPRESSION None msg)"

definition RCUTILS_LOG_DEBUG_EXPRESSION_NAMED :: "nat \<Rightarrow> string \<Rightarrow> string \<Rightarrow> log_statement" where
  "RCUTILS_LOG_DEBUG_EXPRESSION_NAMED min_severity name msg =
     (if min_severity > RCUTILS_LOG_MIN_SEVERITY_DEBUG then disabled
      else RCUTILS_LOG_COND_NAMED RCUTILS_LOG_SEVERITY_DEBUG RCUTILS_LOG_CONDITION_EXPRESSION (Some name) msg)"

definition RCUTILS_LOG_DEBUG_FUNCTION :: "nat \<Rightarrow> string \<Rightarrow> log_statement" where
  "RCUTILS_LOG_DEBUG_FUNCTION min_severity msg =
     (if min_severity > RCUTILS_LOG_MIN_SEVERITY_DEBUG then disabled
      else RCUTILS_LOG_COND_NAMED RCUTILS_LOG_SEVERITY_DEBUG RCUTILS_LOG_CONDITION_FUNCTION None msg)"

definition RCUTILS_LOG_DEBUG_FUNCTION_NAMED :: "nat \<Rightarrow> string \<Rightarrow> string \<Rightarrow> log_statement" where
  "RCUTILS_LOG_DEBUG_FUNCTION_NAMED min_severity name msg =
     (if min_severity > RCUTILS_LOG_MIN_SEVERITY_DEBUG then disabled
      else RCUTILS_LOG_COND_NAMED RCUTILS_LOG_SEVERITY_DEBUG RCUTILS_LOG_CONDITION_FUNCTION (Some name) msg)"

definition RCUTILS_LOG_DEBUG_SKIPFIRST :: "nat \<Rightarrow> string \<Rightarrow> log_statement" where
  "RCUTILS_LOG_DEBUG_SKIPFIRST min_severity msg =
     (if min_severity > RCUTILS_LOG_MIN_SEVERITY_DEBUG then disabled
      else RCUTILS_LOG_COND_NAMED RCUTILS_LOG_SEVERITY_DEBUG RCUTILS_LOG_CONDITION_SKIPFIRST None msg)"

definition RCUTILS_LOG_DEBUG_SKIPFIRST_NAMED :: "nat \<Rightarrow> string \<Rightarrow> string \<Rightarrow> log_statement" where
  "RCUTILS_LOG_DEBUG_SKIPFIRST_NAMED min_severity name msg =
     (if min_severity > RCUTILS_LOG_MIN_SEVERITY_DEBUG then disabled
      else RCUTILS_LOG_COND_NAMED RCUTILS_LOG_SEVERITY_DEBUG RCUTILS_LOG_CONDITION_SKIPFIRST (Some name) msg)"

definition RCUTILS_LOG_DEBUG_THROTTLE :: "nat \<Rightarrow> int64_t \<Rightarrow> string \<Rightarrow> log_statement" where
  "RCUTILS_LOG_DEBUG_THROTTLE min_severity duration msg =
     (if min_severity > RCUTILS_LOG_MIN_SEVERITY_DEBUG then disabled
      else RCUTILS_LOG_COND_NAMED RCUTILS_LOG_SEVERITY_DEBUG (RCUTILS_LOG_CONDITION_THROTTLE duration) None msg)"

definition RCUTILS_LOG_DEBUG_SKIPFIRST_THROTTLE :: "nat \<Rightarrow> int64_t \<Rightarrow> string \<Rightarrow> log_statement" where
  "RCUTILS_LOG_DEBUG_SKIPFIRST_THROTTLE min_severity duration msg =
     (if min_severity > RCUTILS_LOG_MIN_SEVERITY_DEBUG then disabled
      else RCUTILS_LOG_COND_NAMED RCUTILS_LOG_SEVERITY_DEBUG (RCUTILS_LOG_CONDITION_SKIPFIRST_THROTTLE duration) None msg)"

definition RCUTILS_LOG_DEBUG_THROTTLE_NAMED :: "nat \<Rightarrow> int64_t \<Rightarrow> string \<Rightarrow> string \<Rightarrow> log_statement" where
  "RCUTILS_LOG_DEBUG_THROTTLE_NAMED min_severity duration name msg =
     (if min_severity > RCUTILS_LOG_MIN_SEVERITY_DEBUG then disabled
      else RCUTILS_LOG_COND_NAMED RCUTILS_LOG_SEVERITY_DEBUG (RCUTILS_LOG_CONDITION_THROTTLE duration) (Some name) msg)"

definition RCUTILS_LOG_DEBUG_SKIPFIRST_THROTTLE_NAMED :: "nat \<Rightarrow> int64_t \<Rightarrow> string \<Rightarrow> string \<Rightarrow> log_statement" where
  "RCUTILS_LOG_DEBUG_SKIPFIRST_THROTTLE_NAMED min_severity duration name msg =
     (if min_severity > RCUTILS_LOG_MIN_SEVERITY_DEBUG then disabled
      else RCUTILS_LOG_COND_NAMED RCUTILS_LOG_SEVERITY_DEBUG (RCUTILS_LOG_CONDITION_SKIPFIRST_THROTTLE duration) (Some name) msg)"

section \<open>Severity INFO\<close>

definition RCUTILS_LOG_INFO :: "nat \<Rightarrow> string \<Rightarrow> log_statement" where
  "RCUTILS_LOG_INFO min_severity msg =
     (if min_severity > RCUTILS_LOG_MIN_SEVERITY_INFO then disabled
      else RCUTILS_LOG_COND_NAMED RCUTILS_LOG_SEVERITY_INFO RCUTILS_LOG_CONDITION_EMPTY None msg)"

definition RCUTILS_LOG_INFO_NAMED :: "nat \<Rightarrow> string \<Rightarrow> string \<Rightarrow> log_statement" where
  "RCUTILS_LOG_INFO_NAMED min_severity name msg =
     (if min_severity > RCUTILS_LOG_MIN_SEVERITY_INFO then disabled
      else RCUTILS_LOG_COND_NAMED RCUTILS_LOG_SEVERITY_INFO RCUTILS_LOG_CONDITION_EMPTY (Some name) msg)"

definition RCUTILS_LOG_INFO_ONCE :: "nat \<Rightarrow> string \<Rightarrow> log_statement" where
  "RCUTILS_LOG_INFO_ONCE min_severity msg =
     (if min_severity > RCUTILS_LOG_MIN_SEVERITY_INFO then disabled
      else RCUTILS_LOG_COND_NAMED RCUTILS_LOG_SEVERITY_INFO RCUTILS_LOG_CONDITION_ONCE None msg)"

definition RCUTILS_LOG_INFO_ONCE_NAMED :: "nat \<Rightarrow> string \<Rightarrow> string \<Rightarrow> log_statement" where
  "RCUTILS_LOG_INFO_ONCE_NAMED min_severity name msg =
     (if min_severity > RCUTILS_LOG_MIN_SEVERITY_INFO then disabled
      else RCUTILS_LOG_COND_NAMED RCUTILS_LOG_SEVERITY_INFO RCUTILS_LOG_CONDITION_ONCE (Some name) msg)"

definition RCUTILS_LOG_INFO_EXPRESSION :: "nat \<Rightarrow> string \<Rightarrow> log_statement" where
  "RCUTILS_LOG_INFO_EXPRESSION min_severity msg =
     (if min_severity > RCUTILS_LOG_MIN_SEVERITY_INFO then disabled
      else RCUTILS_LOG_COND_NAMED RCUTILS_LOG_SEVERITY_INFO RCUTILS_LOG_CONDITION_EXPRESSION None msg)"

definition RCUTILS_LOG_INFO_EXPRESSION_NAMED :: "nat \<Rightarrow> string \<Rightarrow> string \<Rightarrow> log_statement" where
  "RCUTILS_LOG_INFO_EXPRESSION_NAMED min_severity name msg =
     (if min_severity > RCUTILS_LOG_MIN_SEVERITY_INFO then disabled
      else RCUTILS_LOG_COND_NAMED RCUTILS_LOG_SEVERITY_INFO RCUTILS_LOG_CONDITION_EXPRESSION (Some name) msg)"

definition RCUTILS_LOG_INFO_FUNCTION :: "nat \<Rightarrow> string \<Rightarrow> log_statement" where
  "RCUTILS_LOG_INFO_FUNCTION min_severity msg =
     (if min_severity > RCUTILS_LOG_MIN_SEVERITY_INFO then disabled
      else RCUTILS_LOG_COND_NAMED RCUTILS_LOG_SEVERITY_INFO RCUTILS_LOG_CONDITION_FUNCTION None msg)"

definition RCUTILS_LOG_INFO_FUNCTION_NAMED :: "nat \<Rightarrow> string \<Rightarrow> string \<Rightarrow> log_statement" where
  "RCUTILS_LOG_INFO_FUNCTION_NAMED min_severity name msg =
     (if min_severity > RCUTILS_LOG_MIN_SEVERITY_INFO then disabled
      else RCUTILS_LOG_COND_NAMED RCUTILS_LOG_SEVERITY_INFO RCUTILS_LOG_CONDITION_FUNCTION (Some name) msg)"

definition RCUTILS_LOG_INFO_SKIPFIRST :: "nat \<Rightarrow> string \<Rightarrow> log_statement" where
  "RCUTILS_LOG_INFO_SKIPFIRST min_severity msg =
     (if min_severity > RCUTILS_LOG_MIN_SEVERITY_INFO then disabled
      else RCUTILS_LOG_COND_NAMED RCUTILS_LOG_SEVERITY_INFO RCUTILS_LOG_CONDITION_SKIPFIRST None msg)"

definition RCUTILS_LOG_INFO_SKIPFIRST_NAMED :: "nat \<Rightarrow> string \<Rightarrow> string \<Rightarrow> log_statement" where
  "RCUTILS_LOG_INFO_SKIPFIRST_NAMED min_severity name msg =
     (if min_severity > RCUTILS_LOG_MIN_SEVERITY_INFO then disabled
      else RCUTILS_LOG_COND_NAMED RCUTILS_LOG_SEVERITY_INFO RCUTILS_LOG_CONDITION_SKIPFIRST (Some name) msg)"

definition RCUTILS_LOG_INFO_THROTTLE :: "nat \<Rightarrow> int64_t \<Rightarrow> string \<Rightarrow> log_statement" where
  "RCUTILS_LOG_INFO_THROTTLE min_severity duration msg =
     (if min_severity > RCUTILS_LOG_MIN_SEVERITY_INFO then disabled
      else RCUTILS_LOG_COND_NAMED RCUTILS_LOG_SEVERITY_INFO (RCUTILS_LOG_CONDITION_THROTTLE duration) None msg)"

definition RCUTILS_LOG_INFO_SKIPFIRST_THROTTLE :: "nat \<Rightarrow> int64_t \<Rightarrow> string \<Rightarrow> log_statement" where
  "RCUTILS_LOG_INFO_SKIPFIRST_THROTTLE min_severity duration msg =
     (if min_severity > RCUTILS_LOG_MIN_SEVERITY_INFO then disabled
      else RCUTILS_LOG_COND_NAMED RCUTILS_LOG_SEVERITY_INFO (RCUTILS_LOG_CONDITION_SKIPFIRST_THROTTLE duration) None msg)"

definition RCUTILS_LOG_INFO_THROTTLE_NAMED :: "nat \<Rightarrow> int64_t \<Rightarrow> string \<Rightarrow> string \<Rightarrow> log_statement" where
  "RCUTILS_LOG_INFO_THROTTLE_NAMED min_severity duration name msg =
     (if min_severity > RCUTILS_LOG_MIN_SEVERITY_INFO then disabled
      else RCUTILS_LOG_COND_NAMED RCUTILS_LOG_SEVERITY_INFO (RCUTILS_LOG_CONDITION_THROTTLE duration) (Some name) msg)"

definition RCUTILS_LOG_INFO_SKIPFIRST_THROTTLE_NAMED :: "nat \<Rightarrow> int64_t \<Rightarrow> string \<Rightarrow> string \<Rightarrow> log_statement" where
  "RCUTILS_LOG_INFO_SKIPFIRST_THROTTLE_NAMED min_severity duration name msg =
     (if min_severity > RCUTILS_LOG_MIN_SEVERITY_INFO then disabled
      else RCUTILS_LOG_COND_NAMED RCUTILS_LOG_SEVERITY_INFO (RCUTILS_LOG_CONDITION_SKIPFIRST_THROTTLE duration) (Some name) msg)"

section \<open>Severity WARN\<close>

definition RCUTILS_LOG_WARN :: "nat \<Rightarrow> string \<Rightarrow> log_statement" where
  "RCUTILS_LOG_WARN min_severity msg =
     (if min_severity > RCUTILS_LOG_MIN_SEVERITY_WARN then disabled
      else RCUTILS_LOG_COND_NAMED RCUTILS_LOG_SEVERITY_WARN RCUTILS_LOG_CONDITION_EMPTY None msg)"

definition RCUTILS_LOG_WARN_NAMED :: "nat \<Rightarrow> string \<Rightarrow> string \<Rightarrow> log_statement" where
  "RCUTILS_LOG_WARN_NAMED min_severity name msg =
     (if min_severity > RCUTILS_LOG_MIN_SEVERITY_WARN then disabled
      else RCUTILS_LOG_COND_NAMED RCUTILS_LOG_SEVERITY_WARN RCUTILS_LOG_CONDITION_EMPTY (Some name) msg)"

definition RCUTILS_LOG_WARN_ONCE :: "nat \<Rightarrow> string \<Rightarrow> log_statement" where
  "RCUTILS_LOG_WARN_ONCE min_severity msg =
     (if min_severity > RCUTILS_LOG_MIN_SEVERITY_WARN then disabled
      else RCUTILS_LOG_COND_NAMED RCUTILS_LOG_SEVERITY_WARN RCUTILS_LOG_CONDITION_ONCE None msg)"

definition RCUTILS_LOG_WARN_ONCE_NAMED :: "nat \<Rightarrow> string \<Rightarrow> string \<Rightarrow> log_statement" where
  "RCUTILS_LOG_WARN_ONCE_NAMED min_severity name msg =
     (if min_severity > RCUTILS_LOG_MIN_SEVERITY_WARN then disabled
      else RCUTILS_LOG_COND_NAMED RCUTILS_LOG_SEVERITY_WARN RCUTILS_LOG_CONDITION_ONCE (Some name) msg)"

definition RCUTILS_LOG_WARN_EXPRESSION :: "nat \<Rightarrow> string \<Rightarrow> log_statement" where
  "RCUTILS_LOG_WARN_EXPRESSION min_severity msg =
     (if min_severity > RCUTILS_LOG_MIN_SEVERITY_WARN then disabled
      else RCUTILS_LOG_COND_NAMED RCUTILS_LOG_SEVERITY_WARN RCUTILS_LOG_CONDITION_EXPRESSION None msg)"

definition RCUTILS_LOG_WARN_EXPRESSION_NAMED :: "nat \<Rightarrow> string \<Rightarrow> string \<Rightarrow> log_statement" where
  "RCUTILS_LOG_WARN_EXPRESSION_NAMED min_severity name msg =
     (if min_severity > RCUTILS_LOG_MIN_SEVERITY_WARN then disabled
      else RCUTILS_LOG_COND_NAMED RCUTILS_LOG_SEVERITY_WARN RCUTILS_LOG_CONDITION_EXPRESSION (Some name) msg)"

definition RCUTILS_LOG_WARN_FUNCTION :: "nat \<Rightarrow> string \<Rightarrow> log_statement" where
  "RCUTILS_LOG_WARN_FUNCTION min_severity msg =
     (if min_severity > RCUTILS_LOG_MIN_SEVERITY_WARN then disabled
      else RCUTILS_LOG_COND_NAMED RCUTILS_LOG_SEVERITY_WARN RCUTILS_LOG_CONDITION_FUNCTION None msg)"

definition RCUTILS_LOG_WARN_FUNCTION_NAMED :: "nat \<Rightarrow> string \<Rightarrow> string \<Rightarrow> log_statement" where
  "RCUTILS_LOG_WARN_FUNCTION_NAMED min_severity name msg =
     (if min_severity > RCUTILS_LOG_MIN_SEVERITY_WARN then disabled
      else RCUTILS_LOG_COND_NAMED RCUTILS_LOG_SEVERITY_WARN RCUTILS_LOG_CONDITION_FUNCTION (Some name) msg)"

definition RCUTILS_LOG_WARN_SKIPFIRST :: "nat \<Rightarrow> string \<Rightarrow> log_statement" where
  "RCUTILS_LOG_WARN_SKIPFIRST min_severity msg =
     (if min_severity > RCUTILS_LOG_MIN_SEVERITY_WARN then disabled
      else RCUTILS_LOG_COND_NAMED RCUTILS_LOG_SEVERITY_WARN RCUTILS_LOG_CONDITION_SKIPFIRST None msg)"

definition RCUTILS_LOG_WARN_SKIPFIRST_NAMED :: "nat \<Rightarrow> string \<Rightarrow> string \<Rightarrow> log_statement" where
  "RCUTILS_LOG_WARN_SKIPFIRST_NAMED min_severity name msg =
     (if min_severity > RCUTILS_LOG_MIN_SEVERITY_WARN then disabled
      else RCUTILS_LOG_COND_NAMED RCUTILS_LOG_SEVERITY_WARN RCUTILS_LOG_CONDITION_SKIPFIRST (Some name) msg)"

definition RCUTILS_LOG_WARN_THROTTLE :: "nat \<Rightarrow> int64_t \<Rightarrow> string \<Rightarrow> log_statement" where
  "RCUTILS_LOG_WARN_THROTTLE min_severity duration msg =
     (if min_severity > RCUTILS_LOG_MIN_SEVERITY_WARN then disabled
      else RCUTILS_LOG_COND_NAMED RCUTILS_LOG_SEVERITY_WARN (RCUTILS_LOG_CONDITION_THROTTLE duration) None msg)"

definition RCUTILS_LOG_WARN_SKIPFIRST_THROTTLE :: "nat \<Rightarrow> int64_t \<Rightarrow> string \<Rightarrow> log_statement" where
  "RCUTILS_LOG_WARN_SKIPFIRST_THROTTLE min_severity duration msg =
     (if min_severity > RCUTILS_LOG_MIN_SEVERITY_WARN then disabled
      else RCUTILS_LOG_COND_NAMED RCUTILS_LOG_SEVERITY_WARN (RCUTILS_LOG_CONDITION_SKIPFIRST_THROTTLE duration) None msg)"

definition RCUTILS_LOG_WARN_THROTTLE_NAMED :: "nat \<Rightarrow> int64_t \<Rightarrow> string \<Rightarrow> string \<Rightarrow> log_statement" where
  "RCUTILS_LOG_WARN_THROTTLE_NAMED min_severity duration name msg =
     (if min_severity > RCUTILS_LOG_MIN_SEVERITY_WARN then disabled
      else RCUTILS_LOG_COND_NAMED RCUTILS_LOG_SEVERITY_WARN (RCUTILS_LOG_CONDITION_THROTTLE duration) (Some name) msg)"

definition RCUTILS_LOG_WARN_SKIPFIRST_THROTTLE_NAMED :: "nat \<Rightarrow> int64_t \<Rightarrow> string \<Rightarrow> string \<Rightarrow> log_statement" where
  "RCUTILS_LOG_WARN_SKIPFIRST_THROTTLE_NAMED min_severity duration name msg =
     (if min_severity > RCUTILS_LOG_MIN_SEVERITY_WARN then disabled
      else RCUTILS_LOG_COND_NAMED RCUTILS_LOG_SEVERITY_WARN (RCUTILS_LOG_CONDITION_SKIPFIRST_THROTTLE duration) (Some name) msg)"

section \<open>Severity ERROR\<close>

definition RCUTILS_LOG_ERROR :: "nat \<Rightarrow> string \<Rightarrow> log_statement" where
  "RCUTILS_LOG_ERROR min_severity msg =
     (if min_severity > RCUTILS_LOG_MIN_SEVERITY_ERROR then disabled
      else RCUTILS_LOG_COND_NAMED RCUTILS_LOG_SEVERITY_ERROR RCUTILS_LOG_CONDITION_EMPTY None msg)"

definition RCUTILS_LOG_ERROR_NAMED :: "nat \<Rightarrow> string \<Rightarrow> string \<Rightarrow> log_statement" where
  "RCUTILS_LOG_ERROR_NAMED min_severity name msg =
     (if min_severity > RCUTILS_LOG_MIN_SEVERITY_ERROR then disabled
      else RCUTILS_LOG_COND_NAMED RCUTILS_LOG_SEVERITY_ERROR RCUTILS_LOG_CONDITION_EMPTY (Some name) msg)"

definition RCUTILS_LOG_ERROR_ONCE :: "nat \<Rightarrow> string \<Rightarrow> log_statement" where
  "RCUTILS_LOG_ERROR_ONCE min_severity msg =
     (if min_severity > RCUTILS_LOG_MIN_SEVERITY_ERROR then disabled
      else RCUTILS_LOG_COND_NAMED RCUTILS_LOG_SEVERITY_ERROR RCUTILS_LOG_CONDITION_ONCE None msg)"

definition RCUTILS_LOG_ERROR_ONCE_NAMED :: "nat \<Rightarrow> string \<Rightarrow> string \<Rightarrow> log_statement" where
  "RCUTILS_LOG_ERROR_ONCE_NAMED min_severity name msg =
     (if min_severity > RCUTILS_LOG_MIN_SEVERITY_ERROR then disabled
      else RCUTILS_LOG_COND_NAMED RCUTILS_LOG_SEVERITY_ERROR RCUTILS_LOG_CONDITION_ONCE (Some name) msg)"

definition RCUTILS_LOG_ERROR_EXPRESSION :: "nat \<Rightarrow> string \<Rightarrow> log_statement" where
  "RCUTILS_LOG_ERROR_EXPRESSION min_severity msg =
     (if min_severity > RCUTILS_LOG_MIN_SEVERITY_ERROR then disabled
      else RCUTILS_LOG_COND_NAMED RCUTILS_LOG_SEVERITY_ERROR RCUTILS_LOG_CONDITION_EXPRESSION None msg)"

definition RCUTILS_LOG_ERROR_EXPRESSION_NAMED :: "nat \<Rightarrow> string \<Rightarrow> string \<Rightarrow> log_statement" where
  "RCUTILS_LOG_ERROR_EXPRESSION_NAMED min_severity name msg =
     (if min_severity > RCUTILS_LOG_MIN_SEVERITY_ERROR then disabled
      else RCUTILS_LOG_COND_NAMED RCUTILS_LOG_SEVERITY_ERROR RCUTILS_LOG_CONDITION_EXPRESSION (Some name) msg)"

definition RCUTILS_LOG_ERROR_FUNCTION :: "nat \<Rightarrow> string \<Rightarrow> log_statement" where
  "RCUTILS_LOG_ERROR_FUNCTION min_severity msg =
     (if min_severity > RCUTILS_LOG_MIN_SEVERITY_ERROR then disabled
      else RCUTILS_LOG_COND_NAMED RCUTILS_LOG_SEVERITY_ERROR RCUTILS_LOG_CONDITION_FUNCTION None msg)"

definition RCUTILS_LOG_ERROR_FUNCTION_NAMED :: "nat \<Rightarrow> string \<Rightarrow> string \<Rightarrow> log_statement" where
  "RCUTILS_LOG_ERROR_FUNCTION_NAMED min_severity name msg =
     (if min_severity > RCUTILS_LOG_MIN_SEVERITY_ERROR then disabled
      else RCUTILS_LOG_COND_NAMED RCUTILS_LOG_SEVERITY_ERROR RCUTILS_LOG_CONDITION_FUNCTION (Some name) msg)"

definition RCUTILS_LOG_ERROR_SKIPFIRST :: "nat \<Rightarrow> string \<Rightarrow> log_statement" where
  "RCUTILS_LOG_ERROR_SKIPFIRST min_severity msg =
     (if min_severity > RCUTILS_LOG_MIN_SEVERITY_ERROR then disabled
      else RCUTILS_LOG_COND_NAMED RCUTILS_LOG_SEVERITY_ERROR RCUTILS_LOG_CONDITION_SKIPFIRST None msg)"

definition RCUTILS_LOG_ERROR_SKIPFIRST_NAMED :: "nat \<Rightarrow> string \<Rightarrow> string \<Rightarrow> log_statement" where
  "RCUTILS_LOG_ERROR_SKIPFIRST_NAMED min_severity name msg =
     (if min_severity > RCUTILS_LOG_MIN_SEVERITY_ERROR then disabled
      else RCUTILS_LOG_COND_NAMED RCUTILS_LOG_SEVERITY_ERROR RCUTILS_LOG_CONDITION_SKIPFIRST (Some name) msg)"

definition RCUTILS_LOG_ERROR_THROTTLE :: "nat \<Rightarrow> int64_t \<Rightarrow> string \<Rightarrow> log_statement" where
  "RCUTILS_LOG_ERROR_THROTTLE min_severity duration msg =
     (if min_severity > RCUTILS_LOG_MIN_SEVERITY_ERROR then disabled
      else RCUTILS_LOG_COND_NAMED RCUTILS_LOG_SEVERITY_ERROR (RCUTILS_LOG_CONDITION_THROTTLE duration) None msg)"

definition RCUTILS_LOG_ERROR_SKIPFIRST_THROTTLE :: "nat \<Rightarrow> int64_t \<Rightarrow> string \<Rightarrow> log_statement" where
  "RCUTILS_LOG_ERROR_SKIPFIRST_THROTTLE min_severity duration msg =
     (if min_severity > RCUTILS_LOG_MIN_SEVERITY_ERROR then disabled
      else RCUTILS_LOG_COND_NAMED RCUTILS_LOG_SEVERITY_ERROR (RCUTILS_LOG_CONDITION_SKIPFIRST_THROTTLE duration) None msg)"

definition RCUTILS_LOG_ERROR_THROTTLE_NAMED :: "nat \<Rightarrow> int64_t \<Rightarrow> string \<Rightarrow> string \<Rightarrow> log_statement" where
  "RCUTILS_LOG_ERROR_THROTTLE_NAMED min_severity duration name msg =
     (if min_severity > RCUTILS_LOG_MIN_SEVERITY_ERROR then disabled
      else RCUTILS_LOG_COND_NAMED RCUTILS_LOG_SEVERITY_ERROR (RCUTILS_LOG_CONDITION_THROTTLE duration) (Some name) msg)"

definition RCUTILS_LOG_ERROR_SKIPFIRST_THROTTLE_NAMED :: "nat \<Rightarrow> int64_t \<Rightarrow> string \<Rightarrow> string \<Rightarrow> log_statement" where
  "RCUTILS_LOG_ERROR_SKIPFIRST_THROTTLE_NAMED min_severity duration name msg =
     (if min_severity > RCUTILS_LOG_MIN_SEVERITY_ERROR then disabled
      else RCUTILS_LOG_COND_NAMED RCUTILS_LOG_SEVERITY_ERROR (RCUTILS_LOG_CONDITION_SKIPFIRST_THROTTLE duration) (Some name) msg)"

section \<open>Severity FATAL\<close>

definition RCUTILS_LOG_FATAL :: "nat \<Rightarrow> string \<Rightarrow> log_statement" where
  "RCUTILS_LOG_FATAL min_severity msg =
     (if min_severity > RCUTILS_LOG_MIN_SEVERITY_FATAL then disabled
      else RCUTILS_LOG_COND_NAMED RCUTILS_LOG_SEVERITY_FATAL RCUTILS_LOG_CONDITION_EMPTY None msg)"

definition RCUTILS_LOG_FATAL_NAMED :: "nat \<Rightarrow> string \<Rightarrow> string \<Rightarrow> log_statement" where
  "RCUTILS_LOG_FATAL_NAMED min_severity name msg =
     (if min_severity > RCUTILS_LOG_MIN_SEVERITY_FATAL then disabled
      else RCUTILS_LOG_COND_NAMED RCUTILS_LOG_SEVERITY_FATAL RCUTILS_LOG_CONDITION_EMPTY (Some name) msg)"

definition RCUTILS_LOG_FATAL_ONCE :: "nat \<Rightarrow> string \<Rightarrow> log_statement" where
  "RCUTILS_LOG_FATAL_ONCE min_severity msg =
     (if min_severity > RCUTILS_LOG_MIN_SEVERITY_FATAL then disabled
      else RCUTILS_LOG_COND_NAMED RCUTILS_LOG_SEVERITY_FATAL RCUTILS_LOG_CONDITION_ONCE None msg)"

definition RCUTILS_LOG_FATAL_ONCE_NAMED :: "nat \<Rightarrow> string \<Rightarrow> string \<Rightarrow> log_statement" where
  "RCUTILS_LOG_FATAL_ONCE_NAMED min_severity name msg =
     (if min_severity > RCUTILS_LOG_MIN_SEVERITY_FATAL then disabled
      else RCUTILS_LOG_COND_NAMED RCUTILS_LOG_SEVERITY_FATAL RCUTILS_LOG_CONDITION_ONCE (Some name) msg)"

definition RCUTILS_LOG_FATAL_EXPRESSION :: "nat \<Rightarrow> string \<Rightarrow> log_statement" where
  "RCUTILS_LOG_FATAL_EXPRESSION min_severity msg =
     (if min_severity > RCUTILS_LOG_MIN_SEVERITY_FATAL then disabled
      else RCUTILS_LOG_COND_NAMED RCUTILS_LOG_SEVERITY_FATAL RCUTILS_LOG_CONDITION_EXPRESSION None msg)"

definition RCUTILS_LOG_FATAL_EXPRESSION_NAMED :: "nat \<Rightarrow> string \<Rightarrow> string \<Rightarrow> log_statement" where
  "RCUTILS_LOG_FATAL_EXPRESSION_NAMED min_severity name msg =
     (if min_severity > RCUTILS_LOG_MIN_SEVERITY_FATAL then disabled
      else RCUTILS_LOG_COND_NAMED RCUTILS_LOG_SEVERITY_FATAL RCUTILS_LOG_CONDITION_EXPRESSION (Some name) msg)"

definition RCUTILS_LOG_FATAL_FUNCTION :: "nat \<Rightarrow> string \<Rightarrow> log_statement" where
  "RCUTILS_LOG_FATAL_FUNCTION min_severity msg =
     (if min_severity > RCUTILS_LOG_MIN_SEVERITY_FATAL then disabled
      else RCUTILS_LOG_COND_NAMED RCUTILS_LOG_SEVERITY_FATAL RCUTILS_LOG_CONDITION_FUNCTION None msg)"

definition RCUTILS_LOG_FATAL_FUNCTION_NAMED :: "nat \<Rightarrow> string \<Rightarrow> string \<Rightarrow> log_statement" where
  "RCUTILS_LOG_FATAL_FUNCTION_NAMED min_severity name msg =
     (if min_severity > RCUTILS_LOG_MIN_SEVERITY_FATAL then disabled
      else RCUTILS_LOG_COND_NAMED RCUTILS_LOG_SEVERITY_FATAL RCUTILS_LOG_CONDITION_FUNCTION (Some name) msg)"

definition RCUTILS_LOG_FATAL_SKIPFIRST :: "nat \<Rightarrow> string \<Rightarrow> log_statement" where
  "RCUTILS_LOG_FATAL_SKIPFIRST min_severity msg =
     (if min_severity > RCUTILS_LOG_MIN_SEVERITY_FATAL then disabled
      else RCUTILS_LOG_COND_NAMED RCUTILS_LOG_SEVERITY_FATAL RCUTILS_LOG_CONDITION_SKIPFIRST None msg)"

definition RCUTILS_LOG_FATAL_SKIPFIRST_NAMED :: "nat \<Rightarrow> string \<Rightarrow> string \<Rightarrow> log_statement" where
  "RCUTILS_LOG_FATAL_SKIPFIRST_NAMED min_severity name msg =
     (if min_severity > RCUTILS_LOG_MIN_SEVERITY_FATAL then disabled
      else RCUTILS_LOG_COND_NAMED RCUTILS_LOG_SEVERITY_FATAL RCUTILS_LOG_CONDITION_SKIPFIRST (Some name) msg)"

definition RCUTILS_LOG_FATAL_THROTTLE :: "nat \<Rightarrow> int64_t \<Rightarrow> string \<Rightarrow> log_statement" where
  "RCUTILS_LOG_FATAL_THROTTLE min_severity duration msg =
     (if min_severity > RCUTILS_LOG_MIN_SEVERITY_FATAL then disabled
      else RCUTILS_LOG_COND_NAMED RCUTILS_LOG_SEVERITY_FATAL (RCUTILS_LOG_CONDITION_THROTTLE duration) None msg)"

definition RCUTILS_LOG_FATAL_SKIPFIRST_THROTTLE :: "nat \<Rightarrow> int64_t \<Rightarrow> string \<Rightarrow> log_statement" where
  "RCUTILS_LOG_FATAL_SKIPFIRST_THROTTLE min_severity duration msg =
     (if min_severity > RCUTILS_LOG_MIN_SEVERITY_FATAL then disabled
      else RCUTILS_LOG_COND_NAMED RCUTILS_LOG_SEVERITY_FATAL (RCUTILS_LOG_CONDITION_SKIPFIRST_THROTTLE duration) None msg)"

definition RCUTILS_LOG_FATAL_THROTTLE_NAMED :: "nat \<Rightarrow> int64_t \<Rightarrow> string \<Rightarrow> string \<Rightarrow> log_statement" where
  "RCUTILS_LOG_FATAL_THROTTLE_NAMED min_severity duration name msg =
     (if min_severity > RCUTILS_LOG_MIN_SEVERITY_FATAL then disabled
      else RCUTILS_LOG_COND_NAMED RCUTILS_LOG_SEVERITY_FATAL (RCUTILS_LOG_CONDITION_THROTTLE duration) (Some name) msg)"

definition RCUTILS_LOG_FATAL_SKIPFIRST_THROTTLE_NAMED :: "nat \<Rightarrow> int64_t \<Rightarrow> string \<Rightarrow> string \<Rightarrow> log_statement" where
  "RCUTILS_LOG_FATAL_SKIPFIRST_THROTTLE_NAMED min_severity duration name msg =
     (if min_severity > RCUTILS_LOG_MIN_SEVERITY_FATAL then disabled
      else RCUTILS_LOG_COND_NAMED RCUTILS_LOG_SEVERITY_FATAL (RCUTILS_LOG_CONDITION_SKIPFIRST_THROTTLE duration) (Some name) msg)"

section \<open>All of them\<close>

lemmas log_macro_defs =
  RCUTILS_LOG_DEBUG_def
  RCUTILS_LOG_INFO_def
  RCUTILS_LOG_WARN_def
  RCUTILS_LOG_ERROR_def
  RCUTILS_LOG_FATAL_def
  RCUTILS_LOG_DEBUG_NAMED_def
  RCUTILS_LOG_INFO_NAMED_def
  RCUTILS_LOG_WARN_NAMED_def
  RCUTILS_LOG_ERROR_NAMED_def
  RCUTILS_LOG_FATAL_NAMED_def
  RCUTILS_LOG_DEBUG_ONCE_def
  RCUTILS_LOG_INFO_ONCE_def
  RCUTILS_LOG_WARN_ONCE_def
  RCUTILS_LOG_ERROR_ONCE_def
  RCUTILS_LOG_FATAL_ONCE_def
  RCUTILS_LOG_DEBUG_ONCE_NAMED_def
  RCUTILS_LOG_INFO_ONCE_NAMED_def
  RCUTILS_LOG_WARN_ONCE_NAMED_def
  RCUTILS_LOG_ERROR_ONCE_NAMED_def
  RCUTILS_LOG_FATAL_ONCE_NAMED_def
  RCUTILS_LOG_DEBUG_EXPRESSION_def
  RCUTILS_LOG_INFO_EXPRESSION_def
  RCUTILS_LOG_WARN_EXPRESSION_def
  RCUTILS_LOG_ERROR_EXPRESSION_def
  RCUTILS_LOG_FATAL_EXPRESSION_def
  RCUTILS_LOG_DEBUG_EXPRESSION_NAMED_def
  RCUTILS_LOG_INFO_EXPRESSION_NAMED_def
  RCUTILS_LOG_WARN_EXPRESSION_NAMED_def
  RCUTILS_LOG_ERROR_EXPRESSION_NAMED_def
  RCUTILS_LOG_FATAL_EXPRESSION_NAMED_def
  RCUTILS_LOG_DEBUG_FUNCTION_def
  RCUTILS_LOG_INFO_FUNCTION_def
  RCUTILS_LOG_WARN_FUNCTION_def
  RCUTILS_LOG_ERROR_FUNCTION_def
  RCUTILS_LOG_FATAL_FUNCTION_def
  RCUTILS_LOG_DEBUG_FUNCTION_NAMED_def
  RCUTILS_LOG_INFO_FUNCTION_NAMED_def
  RCUTILS_LOG_WARN_FUNCTION_NAMED_def
  RCUTILS_LOG_ERROR_FUNCTION_NAMED_def
  RCUTILS_LOG_FATAL_FUNCTION_NAMED_def
  RCUTILS_LOG_DEBUG_SKIPFIRST_def
  RCUTILS_LOG_INFO_SKIPFIRST_def
  RCUTILS_LOG_WARN_SKIPFIRST_def
  RCUTILS_LOG_ERROR_SKIPFIRST_def
  RCUTILS_LOG_FATAL_SKIPFIRST_def
  RCUTILS_LOG_DEBUG_SKIPFIRST_NAMED_def
  RCUTILS_LOG_INFO_SKIPFIRST_NAMED_def
  RCUTILS_LOG_WARN_SKIPFIRST_NAMED_def
  RCUTILS_LOG_ERROR_SKIPFIRST_NAMED_def
  RCUTILS_LOG_FATAL_SKIPFIRST_NAMED_def
  RCUTILS_LOG_DEBUG_THROTTLE_def
  RCUTILS_LOG_INFO_THROTTLE_def
  RCUTILS_LOG_WARN_THROTTLE_def
  RCUTILS_LOG_ERROR_THROTTLE_def
  RCUTILS_LOG_FATAL_THROTTLE_def
  RCUTILS_LOG_DEBUG_SKIPFIRST_THROTTLE_def
  RCUTILS_LOG_INFO_SKIPFIRST_THROTTLE_def
  RCUTILS_LOG_WARN_SKIPFIRST_THROTTLE_def
  RCUTILS_LOG_ERROR_SKIPFIRST_THROTTLE_def
  RCUTILS_LOG_FATAL_SKIPFIRST_THROTTLE_def
  RCUTILS_LOG_DEBUG_THROTTLE_NAMED_def
  RCUTILS_LOG_INFO_THROTTLE_NAMED_def
  RCUTILS_LOG_WARN_THROTTLE_NAMED_def
  RCUTILS_LOG_ERROR_THROTTLE_NAMED_def
  RCUTILS_LOG_FATAL_THROTTLE_NAMED_def
  RCUTILS_LOG_DEBUG_SKIPFIRST_THROTTLE_NAMED_def
  RCUTILS_LOG_INFO_SKIPFIRST_THROTTLE_NAMED_def
  RCUTILS_LOG_WARN_SKIPFIRST_THROTTLE_NAMED_def
  RCUTILS_LOG_ERROR_SKIPFIRST_THROTTLE_NAMED_def
  RCUTILS_LOG_FATAL_SKIPFIRST_THROTTLE_NAMED_def

end
