(* ===== verification/Logging_Properties.thy ===== *)
theory Logging_Properties
  imports Logging_Conditions Logging_Macros
begin

text \<open>
  Which executions of a logging statement send their message, over any sequence of executions, and
  what the build option \<^verbatim>\<open>RCUTILS_LOG_MIN_SEVERITY\<close> leaves of the macros.
\<close>

section \<open>Once and all but once\<close>

lemma once_sites:
  "i < length inps \<Longrightarrow>
   logging_once (sites (\<lambda>_ s. if logging_once s = 0 then s\<lparr>logging_once := 1\<rparr> else s) inps s ! i) = 0 \<longleftrightarrow>
   logging_once s = 0 \<and> (\<forall>j<i. \<not> enabled_for (inps ! j))"
proof (induction inps arbitrary: s i)
  case (Cons inp inps)
  then show ?case by (cases i) (auto simp: less_Suc_eq_0_disj)
qed simp

lemma skipfirst_sites:
  "i < length inps \<Longrightarrow>
   logging_first (sites (\<lambda>_ s. s\<lparr>logging_first := False\<rparr>) inps s ! i) \<longleftrightarrow>
   logging_first s \<and> (\<forall>j<i. \<not> enabled_for (inps ! j))"
proof (induction inps arbitrary: s i)
  case (Cons inp inps)
  then show ?case by (cases i) (auto simp: less_Suc_eq_0_disj)
qed simp

lemma nth_sends:
  assumes "map (sends severity name msg) out = map2 f xs ys" "length ys = length xs" "i < length xs"
  shows "sends severity name msg (out ! i) = f (xs ! i) (ys ! i)"
proof -
  have "length out = length xs" using arg_cong [OF assms(1), of length] assms(2) by simp
  then have "sends severity name msg (out ! i) = map (sends severity name msg) out ! i" using assms(3) by simp
  then show ?thesis using assms by simp
qed

text \<open>
  C23: over any sequence of executions, a statement with the condition \<open>once\<close> sends its message in the
  first execution for which the logger is enabled and in no other, and one with \<open>skipfirst\<close> sends it
  in exactly the other enabled executions.
\<close>

theorem once_and_skipfirst:
  "\<exists>out rest.
     executions (RCUTILS_LOG_COND_NAMED severity RCUTILS_LOG_CONDITION_ONCE name msg) inps fresh_site = Inr out \<and>
     executions (RCUTILS_LOG_COND_NAMED severity RCUTILS_LOG_CONDITION_SKIPFIRST name msg) inps fresh_site = Inr rest \<and>
     length out = length inps \<and> length rest = length inps \<and>
     (\<forall>i < length inps.
        sends severity name msg (out ! i) =
          (enabled_for (inps ! i) \<and> (\<forall>j < i. \<not> enabled_for (inps ! j))) \<and>
        sends severity name msg (rest ! i) =
          (enabled_for (inps ! i) \<and> \<not> sends severity name msg (out ! i)))"
proof -
  obtain out where out:
    "executions (RCUTILS_LOG_COND_NAMED severity RCUTILS_LOG_CONDITION_ONCE name msg) inps fresh_site = Inr out"
    "map (sends severity name msg) out = map2 (\<lambda>inp s. enabled_for inp \<and> logging_once s = 0) inps
      (sites (\<lambda>_ s. if logging_once s = 0 then s\<lparr>logging_once := 1\<rparr> else s) inps fresh_site)"
    using once.executions_send [where s = fresh_site and inps = inps and severity = severity and name = name and msg = msg] by auto
  obtain rest where rest:
    "executions (RCUTILS_LOG_COND_NAMED severity RCUTILS_LOG_CONDITION_SKIPFIRST name msg) inps fresh_site = Inr rest"
    "map (sends severity name msg) rest = map2 (\<lambda>inp s. enabled_for inp \<and> \<not> logging_first s) inps
      (sites (\<lambda>_ s. s\<lparr>logging_first := False\<rparr>) inps fresh_site)"
    using skipfirst.executions_send [where s = fresh_site and inps = inps and severity = severity and name = name and msg = msg] by auto
  have "length out = length inps" "length rest = length inps"
    using arg_cong [OF out(2), of length] arg_cong [OF rest(2), of length] by simp_all
  moreover have "sends severity name msg (out ! i) = (enabled_for (inps ! i) \<and> (\<forall>j < i. \<not> enabled_for (inps ! j)))"
    "sends severity name msg (rest ! i) = (enabled_for (inps ! i) \<and> \<not> (\<forall>j < i. \<not> enabled_for (inps ! j)))"
    if "i < length inps" for i
    using that nth_sends [OF out(2)] nth_sends [OF rest(2)] once_sites [OF that, where s = fresh_site]
      skipfirst_sites [OF that, where s = fresh_site] by (auto simp: fresh_site_def)
  ultimately show ?thesis using out(1) rest(1) by auto
qed

text \<open>Three executions, the first with a disabled logger.\<close>

definition three_inputs :: "log_input list" where
  "three_inputs = map (\<lambda>b. \<lparr>g_rcutils_logging_initialized = True, initialize_result = 0, enabled_for = b,
     expression_value = True, filter_value = True, clock = (0, None)\<rparr>) [False, True, True]"

theorem once_and_skipfirst_witness:
  "\<exists>out rest.
     executions (RCUTILS_LOG_COND_NAMED 20 RCUTILS_LOG_CONDITION_ONCE None ''tick'') three_inputs fresh_site = Inr out \<and>
     executions (RCUTILS_LOG_COND_NAMED 20 RCUTILS_LOG_CONDITION_SKIPFIRST None ''tick'') three_inputs fresh_site = Inr rest \<and>
     sends 20 None ''tick'' (out ! 1) \<and> \<not> sends 20 None ''tick'' (out ! 2) \<and>
     \<not> sends 20 None ''tick'' (rest ! 1) \<and> sends 20 None ''tick'' (rest ! 2)"
proof -
  obtain out rest where
    "executions (RCUTILS_LOG_COND_NAMED 20 RCUTILS_LOG_CONDITION_ONCE None ''tick'') three_inputs fresh_site = Inr out"
    "executions (RCUTILS_LOG_COND_NAMED 20 RCUTILS_LOG_CONDITION_SKIPFIRST None ''tick'') three_inputs fresh_site = Inr rest"
    and s: "\<And>i. i < length three_inputs \<Longrightarrow>
      sends 20 None ''tick'' (out ! i) =
        (enabled_for (three_inputs ! i) \<and> (\<forall>j < i. \<not> enabled_for (three_inputs ! j))) \<and>
      sends 20 None ''tick'' (rest ! i) = (enabled_for (three_inputs ! i) \<and> \<not> sends 20 None ''tick'' (out ! i))"
    using once_and_skipfirst [of 20 None "''tick''" three_inputs] by blast
  moreover have "\<forall>j < 1. \<not> enabled_for (three_inputs ! j)" "\<not> (\<forall>j < 2. \<not> enabled_for (three_inputs ! j))"
    by (auto simp: three_inputs_def intro!: exI [of _ 1])
  ultimately show ?thesis using s [of 1] s [of 2] by (auto simp: three_inputs_def)
qed

section \<open>Throttling\<close>

text \<open>
  The reference: with the duration \<open>d\<close> and the time \<open>latest\<close> of the last message, which executions send.
\<close>

fun throttle_spec :: "int \<Rightarrow> int \<Rightarrow> log_input list \<Rightarrow> bool list" where
  "throttle_spec d latest [] = []"
| "throttle_spec d latest (inp # inps) =
     (let b = enabled_for inp \<and> latest + d \<le> time_of inp
      in b # throttle_spec d (if b then time_of inp else latest) inps)"

lemma length_throttle_spec [simp]: "length (throttle_spec d latest inps) = length inps"
  by (induction inps arbitrary: latest) (simp_all add: Let_def)





lemma fresh_throttle_inv: "throttle_inv fresh_site"
  by (simp add: throttle_inv_def fresh_site_def)






section \<open>Skipfirst and throttle\<close>

lemma skip_sites:
  "map2 (\<lambda>inp s. enabled_for inp \<and> due ms inp s \<and> \<not> logging_first s) inps (sites (skip_mark ms) inps s) =
   (let bs = map2 (\<lambda>inp s. enabled_for inp \<and> due ms inp s) inps (sites (mark ms) inps s')
    in map (\<lambda>i. bs ! i \<and> (logging_first s \<longrightarrow> (\<exists>j < i. bs ! j))) [0..<length inps])"
  if "last_logged s' = last_logged s"
  using that
proof (induction inps arbitrary: s s')
  case (Cons inp inps)
  let ?t = "if enabled_for inp then skip_mark ms inp s else s"
  let ?t' = "if enabled_for inp then mark ms inp s' else s'"
  have e: "last_logged ?t' = last_logged ?t" "due ms inp s' = due ms inp s"
    "logging_first ?t = (logging_first s \<and> \<not> (enabled_for inp \<and> due ms inp s))"
    using Cons.prems by (simp_all add: mark_def skip_mark_def due_def)
  let ?bs = "map2 (\<lambda>inp s. enabled_for inp \<and> due ms inp s) inps (sites (mark ms) inps ?t')"
  show ?case
    using Cons.IH [OF e(1)] e
    by (auto simp: Let_def upt_conv_Cons map_Suc_upt [symmetric] less_Suc_eq_0_disj simp del: upt_Suc)
qed simp

text \<open>
  Adding \<open>skipfirst\<close> to a throttled statement removes exactly the first of the messages that the
  throttled statement would send: the message that is skipped still starts the interval.
\<close>

lemma skipfirst_throttle_drops_first:
  assumes "short_duration ms" "\<forall>inp \<in> set inps. enabled_for inp \<longrightarrow> clock_works inp"
  shows "\<exists>out rest.
    executions (RCUTILS_LOG_COND_NAMED severity (RCUTILS_LOG_CONDITION_THROTTLE ms) name msg) inps fresh_site = Inr out \<and>
    executions (RCUTILS_LOG_COND_NAMED severity (RCUTILS_LOG_CONDITION_SKIPFIRST_THROTTLE ms) name msg) inps fresh_site = Inr rest \<and>
    length rest = length inps \<and>
    (\<forall>i < length inps. sends severity name msg (rest ! i) =
       (sends severity name msg (out ! i) \<and> (\<exists>j < i. sends severity name msg (out ! j))))"
proof -
  obtain out where out:
    "executions (RCUTILS_LOG_COND_NAMED severity (RCUTILS_LOG_CONDITION_THROTTLE ms) name msg) inps fresh_site = Inr out"
    "map (sends severity name msg) out = map2 (\<lambda>inp s. enabled_for inp \<and> due ms inp s) inps (sites (mark ms) inps fresh_site)"
    using log_gate.executions_send [OF throttle_gate [OF assms(1)] fresh_throttle_inv assms(2)] by blast
  obtain rest where rest:
    "executions (RCUTILS_LOG_COND_NAMED severity (RCUTILS_LOG_CONDITION_SKIPFIRST_THROTTLE ms) name msg) inps fresh_site = Inr rest"
    "map (sends severity name msg) rest =
      map2 (\<lambda>inp s. enabled_for inp \<and> due ms inp s \<and> \<not> logging_first s) inps (sites (skip_mark ms) inps fresh_site)"
    using log_gate.executions_send [OF skipfirst_throttle_gate [OF assms(1)] fresh_throttle_inv assms(2)] by blast
  have len: "length out = length inps" "length rest = length inps"
    using arg_cong [OF out(2), of length] arg_cong [OF rest(2), of length] by simp_all
  have "map (sends severity name msg) rest =
      map (\<lambda>i. map (sends severity name msg) out ! i \<and> (\<exists>j < i. map (sends severity name msg) out ! j)) [0..<length inps]"
    using rest(2) skip_sites [OF refl, of ms inps fresh_site] by (simp add: out(2) Let_def fresh_site_def)
  then have "map (sends severity name msg) rest ! i =
      (map (sends severity name msg) out ! i \<and> (\<exists>j < i. map (sends severity name msg) out ! j))"
    if "i < length inps" for i using that by simp
  then show ?thesis using out(1) rest(1) len by (intro exI [of _ out] exI [of _ rest]) auto
qed

section \<open>Compiled out\<close>

text \<open>
  All the macros, with the duration \<open>d\<close> and the logger's name \<open>n\<close> where they have one: level,
  severity, name, macro.
\<close>

definition log_macros :: "int64_t \<Rightarrow> string \<Rightarrow> (nat \<times> int \<times> string option \<times> (nat \<Rightarrow> string \<Rightarrow> log_statement)) list" where
  "log_macros d n =
     [(RCUTILS_LOG_MIN_SEVERITY_DEBUG, RCUTILS_LOG_SEVERITY_DEBUG, None, RCUTILS_LOG_DEBUG),
      (RCUTILS_LOG_MIN_SEVERITY_DEBUG, RCUTILS_LOG_SEVERITY_DEBUG, Some n, (\<lambda>ms. RCUTILS_LOG_DEBUG_NAMED ms n)),
      (RCUTILS_LOG_MIN_SEVERITY_DEBUG, RCUTILS_LOG_SEVERITY_DEBUG, None, RCUTILS_LOG_DEBUG_ONCE),
      (RCUTILS_LOG_MIN_SEVERITY_DEBUG, RCUTILS_LOG_SEVERITY_DEBUG, Some n, (\<lambda>ms. RCUTILS_LOG_DEBUG_ONCE_NAMED ms n)),
      (RCUTILS_LOG_MIN_SEVERITY_DEBUG, RCUTILS_LOG_SEVERITY_DEBUG, None, RCUTILS_LOG_DEBUG_EXPRESSION),
      (RCUTILS_LOG_MIN_SEVERITY_DEBUG, RCUTILS_LOG_SEVERITY_DEBUG, Some n, (\<lambda>ms. RCUTILS_LOG_DEBUG_EXPRESSION_NAMED ms n)),
      (RCUTILS_LOG_MIN_SEVERITY_DEBUG, RCUTILS_LOG_SEVERITY_DEBUG, None, RCUTILS_LOG_DEBUG_FUNCTION),
      (RCUTILS_LOG_MIN_SEVERITY_DEBUG, RCUTILS_LOG_SEVERITY_DEBUG, Some n, (\<lambda>ms. RCUTILS_LOG_DEBUG_FUNCTION_NAMED ms n)),
      (RCUTILS_LOG_MIN_SEVERITY_DEBUG, RCUTILS_LOG_SEVERITY_DEBUG, None, RCUTILS_LOG_DEBUG_SKIPFIRST),
      (RCUTILS_LOG_MIN_SEVERITY_DEBUG, RCUTILS_LOG_SEVERITY_DEBUG, Some n, (\<lambda>ms. RCUTILS_LOG_DEBUG_SKIPFIRST_NAMED ms n)),
      (RCUTILS_LOG_MIN_SEVERITY_DEBUG, RCUTILS_LOG_SEVERITY_DEBUG, None, (\<lambda>ms. RCUTILS_LOG_DEBUG_THROTTLE ms d)),
      (RCUTILS_LOG_MIN_SEVERITY_DEBUG, RCUTILS_LOG_SEVERITY_DEBUG, None, (\<lambda>ms. RCUTILS_LOG_DEBUG_SKIPFIRST_THROTTLE ms d)),
      (RCUTILS_LOG_MIN_SEVERITY_DEBUG, RCUTILS_LOG_SEVERITY_DEBUG, Some n, (\<lambda>ms. RCUTILS_LOG_DEBUG_THROTTLE_NAMED ms d n)),
      (RCUTILS_LOG_MIN_SEVERITY_DEBUG, RCUTILS_LOG_SEVERITY_DEBUG, Some n, (\<lambda>ms. RCUTILS_LOG_DEBUG_SKIPFIRST_THROTTLE_NAMED ms d n)),
      (RCUTILS_LOG_MIN_SEVERITY_INFO, RCUTILS_LOG_SEVERITY_INFO, None, RCUTILS_LOG_INFO),
      (RCUTILS_LOG_MIN_SEVERITY_INFO, RCUTILS_LOG_SEVERITY_INFO, Some n, (\<lambda>ms. RCUTILS_LOG_INFO_NAMED ms n)),
      (RCUTILS_LOG_MIN_SEVERITY_INFO, RCUTILS_LOG_SEVERITY_INFO, None, RCUTILS_LOG_INFO_ONCE),
      (RCUTILS_LOG_MIN_SEVERITY_INFO, RCUTILS_LOG_SEVERITY_INFO, Some n, (\<lambda>ms. RCUTILS_LOG_INFO_ONCE_NAMED ms n)),
      (RCUTILS_LOG_MIN_SEVERITY_INFO, RCUTILS_LOG_SEVERITY_INFO, None, RCUTILS_LOG_INFO_EXPRESSION),
      (RCUTILS_LOG_MIN_SEVERITY_INFO, RCUTILS_LOG_SEVERITY_INFO, Some n, (\<lambda>ms. RCUTILS_LOG_INFO_EXPRESSION_NAMED ms n)),
      (RCUTILS_LOG_MIN_SEVERITY_INFO, RCUTILS_LOG_SEVERITY_INFO, None, RCUTILS_LOG_INFO_FUNCTION),
      (RCUTILS_LOG_MIN_SEVERITY_INFO, RCUTILS_LOG_SEVERITY_INFO, Some n, (\<lambda>ms. RCUTILS_LOG_INFO_FUNCTION_NAMED ms n)),
      (RCUTILS_LOG_MIN_SEVERITY_INFO, RCUTILS_LOG_SEVERITY_INFO, None, RCUTILS_LOG_INFO_SKIPFIRST),
      (RCUTILS_LOG_MIN_SEVERITY_INFO, RCUTILS_LOG_SEVERITY_INFO, Some n, (\<lambda>ms. RCUTILS_LOG_INFO_SKIPFIRST_NAMED ms n)),
      (RCUTILS_LOG_MIN_SEVERITY_INFO, RCUTILS_LOG_SEVERITY_INFO, None, (\<lambda>ms. RCUTILS_LOG_INFO_THROTTLE ms d)),
      (RCUTILS_LOG_MIN_SEVERITY_INFO, RCUTILS_LOG_SEVERITY_INFO, None, (\<lambda>ms. RCUTILS_LOG_INFO_SKIPFIRST_THROTTLE ms d)),
      (RCUTILS_LOG_MIN_SEVERITY_INFO, RCUTILS_LOG_SEVERITY_INFO, Some n, (\<lambda>ms. RCUTILS_LOG_INFO_THROTTLE_NAMED ms d n)),
      (RCUTILS_LOG_MIN_SEVERITY_INFO, RCUTILS_LOG_SEVERITY_INFO, Some n, (\<lambda>ms. RCUTILS_LOG_INFO_SKIPFIRST_THROTTLE_NAMED ms d n)),
      (RCUTILS_LOG_MIN_SEVERITY_WARN, RCUTILS_LOG_SEVERITY_WARN, None, RCUTILS_LOG_WARN),
      (RCUTILS_LOG_MIN_SEVERITY_WARN, RCUTILS_LOG_SEVERITY_WARN, Some n, (\<lambda>ms. RCUTILS_LOG_WARN_NAMED ms n)),
      (RCUTILS_LOG_MIN_SEVERITY_WARN, RCUTILS_LOG_SEVERITY_WARN, None, RCUTILS_LOG_WARN_ONCE),
      (RCUTILS_LOG_MIN_SEVERITY_WARN, RCUTILS_LOG_SEVERITY_WARN, Some n, (\<lambda>ms. RCUTILS_LOG_WARN_ONCE_NAMED ms n)),
      (RCUTILS_LOG_MIN_SEVERITY_WARN, RCUTILS_LOG_SEVERITY_WARN, None, RCUTILS_LOG_WARN_EXPRESSION),
      (RCUTILS_LOG_MIN_SEVERITY_WARN, RCUTILS_LOG_SEVERITY_WARN, Some n, (\<lambda>ms. RCUTILS_LOG_WARN_EXPRESSION_NAMED ms n)),
      (RCUTILS_LOG_MIN_SEVERITY_WARN, RCUTILS_LOG_SEVERITY_WARN, None, RCUTILS_LOG_WARN_FUNCTION),
      (RCUTILS_LOG_MIN_SEVERITY_WARN, RCUTILS_LOG_SEVERITY_WARN, Some n, (\<lambda>ms. RCUTILS_LOG_WARN_FUNCTION_NAMED ms n)),
      (RCUTILS_LOG_MIN_SEVERITY_WARN, RCUTILS_LOG_SEVERITY_WARN, None, RCUTILS_LOG_WARN_SKIPFIRST),
      (RCUTILS_LOG_MIN_SEVERITY_WARN, RCUTILS_LOG_SEVERITY_WARN, Some n, (\<lambda>ms. RCUTILS_LOG_WARN_SKIPFIRST_NAMED ms n)),
      (RCUTILS_LOG_MIN_SEVERITY_WARN, RCUTILS_LOG_SEVERITY_WARN, None, (\<lambda>ms. RCUTILS_LOG_WARN_THROTTLE ms d)),
      (RCUTILS_LOG_MIN_SEVERITY_WARN, RCUTILS_LOG_SEVERITY_WARN, None, (\<lambda>ms. RCUTILS_LOG_WARN_SKIPFIRST_THROTTLE ms d)),
      (RCUTILS_LOG_MIN_SEVERITY_WARN, RCUTILS_LOG_SEVERITY_WARN, Some n, (\<lambda>ms. RCUTILS_LOG_WARN_THROTTLE_NAMED ms d n)),
      (RCUTILS_LOG_MIN_SEVERITY_WARN, RCUTILS_LOG_SEVERITY_WARN, Some n, (\<lambda>ms. RCUTILS_LOG_WARN_SKIPFIRST_THROTTLE_NAMED ms d n)),
      (RCUTILS_LOG_MIN_SEVERITY_ERROR, RCUTILS_LOG_SEVERITY_ERROR, None, RCUTILS_LOG_ERROR),
      (RCUTILS_LOG_MIN_SEVERITY_ERROR, RCUTILS_LOG_SEVERITY_ERROR, Some n, (\<lambda>ms. RCUTILS_LOG_ERROR_NAMED ms n)),
      (RCUTILS_LOG_MIN_SEVERITY_ERROR, RCUTILS_LOG_SEVERITY_ERROR, None, RCUTILS_LOG_ERROR_ONCE),
      (RCUTILS_LOG_MIN_SEVERITY_ERROR, RCUTILS_LOG_SEVERITY_ERROR, Some n, (\<lambda>ms. RCUTILS_LOG_ERROR_ONCE_NAMED ms n)),
      (RCUTILS_LOG_MIN_SEVERITY_ERROR, RCUTILS_LOG_SEVERITY_ERROR, None, RCUTILS_LOG_ERROR_EXPRESSION),
      (RCUTILS_LOG_MIN_SEVERITY_ERROR, RCUTILS_LOG_SEVERITY_ERROR, Some n, (\<lambda>ms. RCUTILS_LOG_ERROR_EXPRESSION_NAMED ms n)),
      (RCUTILS_LOG_MIN_SEVERITY_ERROR, RCUTILS_LOG_SEVERITY_ERROR, None, RCUTILS_LOG_ERROR_FUNCTION),
      (RCUTILS_LOG_MIN_SEVERITY_ERROR, RCUTILS_LOG_SEVERITY_ERROR, Some n, (\<lambda>ms. RCUTILS_LOG_ERROR_FUNCTION_NAMED ms n)),
      (RCUTILS_LOG_MIN_SEVERITY_ERROR, RCUTILS_LOG_SEVERITY_ERROR, None, RCUTILS_LOG_ERROR_SKIPFIRST),
      (RCUTILS_LOG_MIN_SEVERITY_ERROR, RCUTILS_LOG_SEVERITY_ERROR, Some n, (\<lambda>ms. RCUTILS_LOG_ERROR_SKIPFIRST_NAMED ms n)),
      (RCUTILS_LOG_MIN_SEVERITY_ERROR, RCUTILS_LOG_SEVERITY_ERROR, None, (\<lambda>ms. RCUTILS_LOG_ERROR_THROTTLE ms d)),
      (RCUTILS_LOG_MIN_SEVERITY_ERROR, RCUTILS_LOG_SEVERITY_ERROR, None, (\<lambda>ms. RCUTILS_LOG_ERROR_SKIPFIRST_THROTTLE ms d)),
      (RCUTILS_LOG_MIN_SEVERITY_ERROR, RCUTILS_LOG_SEVERITY_ERROR, Some n, (\<lambda>ms. RCUTILS_LOG_ERROR_THROTTLE_NAMED ms d n)),
      (RCUTILS_LOG_MIN_SEVERITY_ERROR, RCUTILS_LOG_SEVERITY_ERROR, Some n, (\<lambda>ms. RCUTILS_LOG_ERROR_SKIPFIRST_THROTTLE_NAMED ms d n)),
      (RCUTILS_LOG_MIN_SEVERITY_FATAL, RCUTILS_LOG_SEVERITY_FATAL, None, RCUTILS_LOG_FATAL),
      (RCUTILS_LOG_MIN_SEVERITY_FATAL, RCUTILS_LOG_SEVERITY_FATAL, Some n, (\<lambda>ms. RCUTILS_LOG_FATAL_NAMED ms n)),
      (RCUTILS_LOG_MIN_SEVERITY_FATAL, RCUTILS_LOG_SEVERITY_FATAL, None, RCUTILS_LOG_FATAL_ONCE),
      (RCUTILS_LOG_MIN_SEVERITY_FATAL, RCUTILS_LOG_SEVERITY_FATAL, Some n, (\<lambda>ms. RCUTILS_LOG_FATAL_ONCE_NAMED ms n)),
      (RCUTILS_LOG_MIN_SEVERITY_FATAL, RCUTILS_LOG_SEVERITY_FATAL, None, RCUTILS_LOG_FATAL_EXPRESSION),
      (RCUTILS_LOG_MIN_SEVERITY_FATAL, RCUTILS_LOG_SEVERITY_FATAL, Some n, (\<lambda>ms. RCUTILS_LOG_FATAL_EXPRESSION_NAMED ms n)),
      (RCUTILS_LOG_MIN_SEVERITY_FATAL, RCUTILS_LOG_SEVERITY_FATAL, None, RCUTILS_LOG_FATAL_FUNCTION),
      (RCUTILS_LOG_MIN_SEVERITY_FATAL, RCUTILS_LOG_SEVERITY_FATAL, Some n, (\<lambda>ms. RCUTILS_LOG_FATAL_FUNCTION_NAMED ms n)),
      (RCUTILS_LOG_MIN_SEVERITY_FATAL, RCUTILS_LOG_SEVERITY_FATAL, None, RCUTILS_LOG_FATAL_SKIPFIRST),
      (RCUTILS_LOG_MIN_SEVERITY_FATAL, RCUTILS_LOG_SEVERITY_FATAL, Some n, (\<lambda>ms. RCUTILS_LOG_FATAL_SKIPFIRST_NAMED ms n)),
      (RCUTILS_LOG_MIN_SEVERITY_FATAL, RCUTILS_LOG_SEVERITY_FATAL, None, (\<lambda>ms. RCUTILS_LOG_FATAL_THROTTLE ms d)),
      (RCUTILS_LOG_MIN_SEVERITY_FATAL, RCUTILS_LOG_SEVERITY_FATAL, None, (\<lambda>ms. RCUTILS_LOG_FATAL_SKIPFIRST_THROTTLE ms d)),
      (RCUTILS_LOG_MIN_SEVERITY_FATAL, RCUTILS_LOG_SEVERITY_FATAL, Some n, (\<lambda>ms. RCUTILS_LOG_FATAL_THROTTLE_NAMED ms d n)),
      (RCUTILS_LOG_MIN_SEVERITY_FATAL, RCUTILS_LOG_SEVERITY_FATAL, Some n, (\<lambda>ms. RCUTILS_LOG_FATAL_SKIPFIRST_THROTTLE_NAMED ms d n))]"

lemma disabled_executions: "executions disabled inps s = Inr (replicate (length inps) [])"
  by (induction inps arbitrary: s) (simp_all add: disabled_def creturn_def)

lemma silent_executions:
  "\<forall>inp \<in> set inps. \<not> enabled_for inp \<Longrightarrow>
   executions (RCUTILS_LOG_COND_NAMED severity condition name msg) inps s = Inr (map (prologue severity name) inps)"
  by (induction inps arbitrary: s) (simp_all add: cond_named cwhen_def creturn_def)

lemma log_macros_uniform:
  "(level, severity, name, macro) \<in> set (log_macros d n) \<Longrightarrow>
   \<exists>condition. macro ms msg =
     (if level < ms then disabled else RCUTILS_LOG_COND_NAMED severity condition name msg)"
  unfolding log_macros_def log_macro_defs list.set insert_iff empty_iff prod.inject
  by (elim disjE conjE) auto

text \<open>
  A build with a minimum severity leaves nothing of the macros below it: their executions make
  no call and evaluate nothing. The others ask whether their logger is enabled for their own
  severity, and do nothing more when it is not. The default of the header is above all of them.
\<close>

lemma log_macros_by_severity:
  assumes "(level, severity, name, macro) \<in> set (log_macros d n)" "\<forall>inp \<in> set inps. \<not> enabled_for inp"
  shows "executions (macro ms msg) inps s =
    Inr (if level < ms then replicate (length inps) [] else map (prologue severity name) inps)"
proof -
  obtain condition where
    m: "macro ms msg = (if level < ms then disabled else RCUTILS_LOG_COND_NAMED severity condition name msg)"
    using log_macros_uniform [OF assms(1), of ms msg] by blast
  show ?thesis unfolding m by (simp add: disabled_executions silent_executions [OF assms(2)])
qed

lemma default_compiles_out:
  assumes "(level, severity, name, macro) \<in> set (log_macros d n)"
  shows "macro default_min_severity msg = disabled"
proof -
  have "level < default_min_severity"
    using assms unfolding log_macros_def list.set insert_iff empty_iff prod.inject
    by (elim disjE conjE) (simp_all add: default_min_severity_def RCUTILS_LOG_MIN_SEVERITY_NONE_def
        RCUTILS_LOG_MIN_SEVERITY_DEBUG_def RCUTILS_LOG_MIN_SEVERITY_INFO_def RCUTILS_LOG_MIN_SEVERITY_WARN_def
        RCUTILS_LOG_MIN_SEVERITY_ERROR_def RCUTILS_LOG_MIN_SEVERITY_FATAL_def)
  with log_macros_uniform [OF assms, of default_min_severity msg] show ?thesis by auto
qed

end
