(* ===== verification/Cpp_Library.thy ===== *)
theory Cpp_Library
  imports Decimal
begin

text \<open>
  What the inline C++ headers of the repository use of the language and its library: exceptions
  and undefined behaviour as values, methods that may throw after they have changed their object,
  \<^verbatim>\<open>std::vector\<close> as a list (on the 32-bit targets), \<^verbatim>\<open>int\<close> with its overflow, \<^verbatim>\<open>atoi\<close>.
  Allocations are taken to succeed (\<^verbatim>\<open>std::bad_alloc\<close> is not modelled).
\<close>

section \<open>Exceptions\<close>

datatype cpp_error =
    Runtime_Error string
  | Length_Error
  | Undefined c_error

type_synonym 'a outcome = "cpp_error + 'a"

definition obind :: "'a outcome \<Rightarrow> ('a \<Rightarrow> 'b outcome) \<Rightarrow> 'b outcome" where
  "obind x f = (case x of Inl e \<Rightarrow> Inl e | Inr a \<Rightarrow> f a)"

lemma obind_simps [simp]: "obind (Inl e) f = Inl e" "obind (Inr a) f = f a"
  by (simp_all add: obind_def)

lemma obind_eq_Inr: "obind x f = Inr b \<longleftrightarrow> (\<exists>a. x = Inr a \<and> f a = Inr b)"
  by (cases x) simp_all

text \<open>A method: its outcome, and the object as it is afterwards, thrown or not.\<close>

type_synonym ('s, 'a) throwing = "'s \<Rightarrow> 'a outcome \<times> 's"

definition mreturn :: "'a \<Rightarrow> ('s, 'a) throwing" where
  "mreturn a = (\<lambda>s. (Inr a, s))"

definition mlift :: "'a outcome \<Rightarrow> ('s, 'a) throwing" where
  "mlift x = (\<lambda>s. (x, s))"

definition mbind :: "('s, 'a) throwing \<Rightarrow> ('a \<Rightarrow> ('s, 'b) throwing) \<Rightarrow> ('s, 'b) throwing" where
  "mbind f g = (\<lambda>s. case f s of (Inl e, t) \<Rightarrow> (Inl e, t) | (Inr a, t) \<Rightarrow> g a t)"

definition mmodify :: "('s \<Rightarrow> 's) \<Rightarrow> ('s, unit) throwing" where
  "mmodify f = (\<lambda>s. (Inr (), f s))"

text \<open>A change that may throw, which then leaves the object as it was.\<close>

definition mupdate :: "('s \<Rightarrow> 's outcome) \<Rightarrow> ('s, unit) throwing" where
  "mupdate f = (\<lambda>s. case f s of Inl e \<Rightarrow> (Inl e, s) | Inr t \<Rightarrow> (Inr (), t))"

lemma method_apply [simp]:
  "mreturn a s = (Inr a, s)"
  "mlift x s = (x, s)"
  "mmodify f s = (Inr (), f s)"
  by (simp_all add: mreturn_def mlift_def mmodify_def)

lemma mbind_apply: "mbind f g s = (case f s of (Inl e, t) \<Rightarrow> (Inl e, t) | (Inr a, t) \<Rightarrow> g a t)"
  by (simp add: mbind_def)

lemma mbind_Inr [simp]: "f s = (Inr a, t) \<Longrightarrow> mbind f g s = g a t"
  by (simp add: mbind_def)

lemma mbind_Inl [simp]: "f s = (Inl e, t) \<Longrightarrow> mbind f g s = (Inl e, t)"
  by (simp add: mbind_def)

lemma mupdate_apply: "mupdate f s = (case f s of Inl e \<Rightarrow> (Inl e, s) | Inr t \<Rightarrow> (Inr (), t))"
  by (simp add: mupdate_def)

section \<open>Integers\<close>

definition INT_MAX :: int where "INT_MAX = 2 ^ 31 - 1"
definition INT_MIN :: int where "INT_MIN = - (2 ^ 31)"

definition is_int :: "int \<Rightarrow> bool" where
  "is_int i \<longleftrightarrow> INT_MIN \<le> i \<and> i \<le> INT_MAX"

text \<open>The result of an operation on ints.\<close>

definition int_result :: "int \<Rightarrow> int outcome" where
  "int_result i = (if is_int i then Inr i else Inl (Undefined SignedOverflow))"

lemma int_result_ok [simp]: "is_int i \<Longrightarrow> int_result i = Inr i"
  by (simp add: int_result_def)

text \<open>Conversions between int and the unsigned types are modulo the width.\<close>

definition int_of_uint32 :: "uint32_t \<Rightarrow> int" where
  "int_of_uint32 w = sint w"

lemma int_of_uint32_small:
  assumes "unat w < 2 ^ 31"
  shows "int_of_uint32 w = int (unat w)"
proof -
  have u: "uint w = int (unat w)" by (rule uint_nat)
  have "int (unat w) < 2 ^ 31" using assms by (metis of_nat_less_iff of_nat_numeral of_nat_power)
  then have "signed_take_bit 31 (uint w) = uint w"
    unfolding u by (intro signed_take_bit_int_eq_self order_trans [of "- (2 ^ 31)" 0 "int (unat w)"]) simp_all
  then show ?thesis unfolding int_of_uint32_def sint_uint u by simp
qed

section \<open>Vectors\<close>

text \<open>The largest size of a vector of elements of \<open>k\<close> bytes: \<^verbatim>\<open>PTRDIFF_MAX / k\<close>.\<close>

definition max_size :: "nat \<Rightarrow> nat" where
  "max_size k = (2 ^ 31 - 1) div k"

definition within_max :: "nat \<Rightarrow> size_t \<Rightarrow> bool" where
  "within_max k n \<longleftrightarrow> unat n \<le> max_size k"

lemma within_max_code [code]: "within_max k n \<longleftrightarrow> uint n \<le> (2 ^ 31 - 1) div int k"
proof -
  have "within_max k n \<longleftrightarrow> int (unat n) \<le> int ((2 ^ 31 - 1) div k)"
    unfolding within_max_def max_size_def by (simp only: of_nat_le_iff)
  also have "\<dots> \<longleftrightarrow> uint n \<le> (2 ^ 31 - 1) div int k" by (simp only: uint_nat [symmetric] zdiv_int) simp
  finally show ?thesis .
qed

definition resized :: "'a \<Rightarrow> nat \<Rightarrow> 'a list \<Rightarrow> 'a list" where
  "resized z n xs = take n xs @ replicate (n - length xs) z"

definition vector_resize :: "nat \<Rightarrow> 'a \<Rightarrow> size_t \<Rightarrow> 'a list \<Rightarrow> 'a list outcome" where
  "vector_resize k z n xs = (if within_max k n then Inr (resized z (unat n) xs) else Inl Length_Error)"

definition vector_reserve :: "nat \<Rightarrow> size_t \<Rightarrow> 'a list \<Rightarrow> 'a list outcome" where
  "vector_reserve k n xs = (if within_max k n then Inr xs else Inl Length_Error)"

definition vector_get :: "'a list \<Rightarrow> nat \<Rightarrow> 'a outcome" where
  "vector_get xs i = (if i < length xs then Inr (xs ! i) else Inl (Undefined OutOfBounds))"

definition vector_put :: "'a list \<Rightarrow> nat \<Rightarrow> 'a \<Rightarrow> 'a list outcome" where
  "vector_put xs i x = (if i < length xs then Inr (xs[i := x]) else Inl (Undefined OutOfBounds))"

text \<open>\<^verbatim>\<open>n\<close> bytes from index \<^verbatim>\<open>i\<close> on, read or copied over.\<close>

definition bytes_get :: "uint8_t list \<Rightarrow> nat \<Rightarrow> nat \<Rightarrow> uint8_t list outcome" where
  "bytes_get xs i n = (if i + n \<le> length xs then Inr (take n (drop i xs)) else Inl (Undefined OutOfBounds))"

definition bytes_put :: "uint8_t list \<Rightarrow> nat \<Rightarrow> uint8_t list \<Rightarrow> uint8_t list outcome" where
  "bytes_put xs i ys = (if i + length ys \<le> length xs then Inr (overwrite i ys xs) else Inl (Undefined OutOfBounds))"

lemma length_resized [simp]: "length (resized z n xs) = n"
  by (simp add: resized_def)

lemma resized_Nil: "resized z n [] = replicate n z"
  by (simp add: resized_def)

lemma nth_resized: "i < n \<Longrightarrow> resized z n xs ! i = (if i < length xs then xs ! i else z)"
  by (auto simp: resized_def nth_append)

lemma max_size_1: "max_size 1 = 2 ^ 31 - 1"
  by (simp add: max_size_def)

lemma vector_ok:
  "i < length xs \<Longrightarrow> vector_get xs i = Inr (xs ! i)"
  "i < length xs \<Longrightarrow> vector_put xs i x = Inr (xs[i := x])"
  "i + n \<le> length bs \<Longrightarrow> bytes_get bs i n = Inr (take n (drop i bs))"
  "i + length ys \<le> length bs \<Longrightarrow> bytes_put bs i ys = Inr (overwrite i ys bs)"
  by (simp_all add: vector_get_def vector_put_def bytes_get_def bytes_put_def)

section \<open>\<^verbatim>\<open>atoi\<close>\<close>

text \<open>
  Blanks, a sign, digits; what follows is ignored, and without digits the result is 0. A number
  that is not an int is undefined behaviour.
\<close>

definition is_blank :: "char \<Rightarrow> bool" where
  "is_blank c \<longleftrightarrow> c = CHR '' '' \<or> c \<in> {CHR 0x09, CHR 0x0A, CHR 0x0B, CHR 0x0C, CHR 0x0D}"

definition is_digit :: "char \<Rightarrow> bool" where
  "is_digit c \<longleftrightarrow> c \<in> set ''0123456789''"

definition atoi :: "string \<Rightarrow> int outcome" where
  "atoi s =
     (let t = dropWhile is_blank s;
          n = (\<lambda>u. int (parse_nat (takeWhile is_digit u)))
      in case t of
           [] \<Rightarrow> Inr 0
         | c # u \<Rightarrow> if c = CHR ''-'' then int_result (- n u)
                    else if c = CHR ''+'' then int_result (n u)
                    else int_result (n t))"

lemma show_nat_digits: "c \<in> set (show_nat n) \<Longrightarrow> is_digit c"
  using show_nat_chars [of n] unfolding is_digit_def digit_set_def by blast

lemma show_nat_ne: "show_nat n \<noteq> []"
  by (subst show_nat.simps) simp

lemma digit_not_blank: "is_digit c \<Longrightarrow> \<not> is_blank c \<and> c \<noteq> CHR ''-'' \<and> c \<noteq> CHR ''+''"
proof -
  have "\<forall>c \<in> set ''0123456789''. \<not> is_blank c \<and> c \<noteq> CHR ''-'' \<and> c \<noteq> CHR ''+''" by code_simp
  then show "is_digit c \<Longrightarrow> \<not> is_blank c \<and> c \<noteq> CHR ''-'' \<and> c \<noteq> CHR ''+''"
    unfolding is_digit_def by blast
qed

text \<open>\<^verbatim>\<open>atoi\<close> reads back what \<^verbatim>\<open>%d\<close> prints, when no digit follows.\<close>

lemma atoi_show_nat:
  assumes "int n \<le> INT_MAX" "xs = [] \<or> \<not> is_digit (hd xs)"
  shows "atoi (show_nat n @ xs) = Inr (int n)"
proof -
  obtain c u where c: "show_nat n = c # u" using show_nat_ne [of n] by (cases "show_nat n") auto
  have digits: "\<forall>c \<in> set (show_nat n). is_digit c" using show_nat_digits by blast
  then have blank: "dropWhile is_blank (show_nat n @ xs) = show_nat n @ xs"
    using digit_not_blank [of c] by (simp add: c)
  have tw: "takeWhile is_digit (show_nat n @ xs) = show_nat n"
    using digits assms(2) by (cases xs) (simp_all add: takeWhile_append)
  have "c \<noteq> CHR ''-'' \<and> c \<noteq> CHR ''+''" using digit_not_blank [of c] digits by (simp add: c)
  moreover have "is_int (int n)" using assms(1) by (simp add: is_int_def INT_MIN_def)
  ultimately show ?thesis
    using tw parse_show_nat [of n] unfolding atoi_def blank Let_def by (simp add: c)
qed

end
