(* ===== verification/Image_Encodings.thy ===== *)
theory Image_Encodings
  imports Cpp_Library
begin

text \<open>
  The image encodings of \<^verbatim>\<open>sensor_msgs/image_encodings.hpp\<close>: the names, the functions that classify a
  name, and those that compute the number of channels and the depth, also for the generic names
  such as \<^verbatim>\<open>16UC3\<close>, whose channels are read with \<^verbatim>\<open>atoi\<close>.
\<close>

section \<open>Names\<close>

definition RGB8 :: string where "RGB8 = ''rgb8''"
definition RGBA8 :: string where "RGBA8 = ''rgba8''"
definition RGB16 :: string where "RGB16 = ''rgb16''"
definition RGBA16 :: string where "RGBA16 = ''rgba16''"
definition BGR8 :: string where "BGR8 = ''bgr8''"
definition BGRA8 :: string where "BGRA8 = ''bgra8''"
definition BGR16 :: string where "BGR16 = ''bgr16''"
definition BGRA16 :: string where "BGRA16 = ''bgra16''"
definition MONO8 :: string where "MONO8 = ''mono8''"
definition MONO16 :: string where "MONO16 = ''mono16''"
definition TYPE_8UC1 :: string where "TYPE_8UC1 = ''8UC1''"
definition TYPE_8UC2 :: string where "TYPE_8UC2 = ''8UC2''"
definition TYPE_8UC3 :: string where "TYPE_8UC3 = ''8UC3''"
definition TYPE_8UC4 :: string where "TYPE_8UC4 = ''8UC4''"
definition TYPE_8SC1 :: string where "TYPE_8SC1 = ''8SC1''"
definition TYPE_8SC2 :: string where "TYPE_8SC2 = ''8SC2''"
definition TYPE_8SC3 :: string where "TYPE_8SC3 = ''8SC3''"
definition TYPE_8SC4 :: string where "TYPE_8SC4 = ''8SC4''"
definition TYPE_16UC1 :: string where "TYPE_16UC1 = ''16UC1''"
definition TYPE_16UC2 :: string where "TYPE_16UC2 = ''16UC2''"
definition TYPE_16UC3 :: string where "TYPE_16UC3 = ''16UC3''"
definition TYPE_16UC4 :: string where "TYPE_16UC4 = ''16UC4''"
definition TYPE_16SC1 :: string where "TYPE_16SC1 = ''16SC1''"
definition TYPE_16SC2 :: string where "TYPE_16SC2 = ''16SC2''"
definition TYPE_16SC3 :: string where "TYPE_16SC3 = ''16SC3''"
definition TYPE_16SC4 :: string where "TYPE_16SC4 = ''16SC4''"
definition TYPE_32SC1 :: string where "TYPE_32SC1 = ''32SC1''"
definition TYPE_32SC2 :: string where "TYPE_32SC2 = ''32SC2''"
definition TYPE_32SC3 :: string where "TYPE_32SC3 = ''32SC3''"
definition TYPE_32SC4 :: string where "TYPE_32SC4 = ''32SC4''"
definition TYPE_32FC1 :: string where "TYPE_32FC1 = ''32FC1''"
definition TYPE_32FC2 :: string where "TYPE_32FC2 = ''32FC2''"
definition TYPE_32FC3 :: string where "TYPE_32FC3 = ''32FC3''"
definition TYPE_32FC4 :: string where "TYPE_32FC4 = ''32FC4''"
definition TYPE_64FC1 :: string where "TYPE_64FC1 = ''64FC1''"
definition TYPE_64FC2 :: string where "TYPE_64FC2 = ''64FC2''"
definition TYPE_64FC3 :: string where "TYPE_64FC3 = ''64FC3''"
definition TYPE_64FC4 :: string where "TYPE_64FC4 = ''64FC4''"
definition BAYER_RGGB8 :: string where "BAYER_RGGB8 = ''bayer_rggb8''"
definition BAYER_BGGR8 :: string where "BAYER_BGGR8 = ''bayer_bggr8''"
definition BAYER_GBRG8 :: string where "BAYER_GBRG8 = ''bayer_gbrg8''"
definition BAYER_GRBG8 :: string where "BAYER_GRBG8 = ''bayer_grbg8''"
definition BAYER_RGGB16 :: string where "BAYER_RGGB16 = ''bayer_rggb16''"
definition BAYER_BGGR16 :: string where "BAYER_BGGR16 = ''bayer_bggr16''"
definition BAYER_GBRG16 :: string where "BAYER_GBRG16 = ''bayer_gbrg16''"
definition BAYER_GRBG16 :: string where "BAYER_GRBG16 = ''bayer_grbg16''"
definition YUV422 :: string where "YUV422 = ''yuv422''"
definition YUV422_YUY2 :: string where "YUV422_YUY2 = ''yuv422_yuy2''"

definition ABSTRACT_ENCODING_PREFIXES :: "string list" where
  "ABSTRACT_ENCODING_PREFIXES = [''8UC'', ''8SC'', ''16UC'', ''16SC'', ''32SC'', ''32FC'', ''64FC'']"

lemmas encoding_names =
  RGB8_def RGBA8_def RGB16_def RGBA16_def BGR8_def BGRA8_def BGR16_def BGRA16_def MONO8_def
  MONO16_def TYPE_8UC1_def TYPE_8UC2_def TYPE_8UC3_def TYPE_8UC4_def TYPE_8SC1_def TYPE_8SC2_def
  TYPE_8SC3_def TYPE_8SC4_def TYPE_16UC1_def TYPE_16UC2_def TYPE_16UC3_def TYPE_16UC4_def
  TYPE_16SC1_def TYPE_16SC2_def TYPE_16SC3_def TYPE_16SC4_def TYPE_32SC1_def TYPE_32SC2_def
  TYPE_32SC3_def TYPE_32SC4_def TYPE_32FC1_def TYPE_32FC2_def TYPE_32FC3_def TYPE_32FC4_def
  TYPE_64FC1_def TYPE_64FC2_def TYPE_64FC3_def TYPE_64FC4_def BAYER_RGGB8_def BAYER_BGGR8_def
  BAYER_GBRG8_def BAYER_GRBG8_def BAYER_RGGB16_def BAYER_BGGR16_def BAYER_GBRG16_def
  BAYER_GRBG16_def YUV422_def YUV422_YUY2_def

section \<open>Classification\<close>

definition isColor :: "string \<Rightarrow> bool" where
  "isColor encoding \<longleftrightarrow>
     encoding = RGB8 \<or> encoding = BGR8 \<or> encoding = RGBA8 \<or> encoding = BGRA8 \<or>
     encoding = RGB16 \<or> encoding = BGR16 \<or> encoding = RGBA16 \<or> encoding = BGRA16"

definition isMono :: "string \<Rightarrow> bool" where
  "isMono encoding \<longleftrightarrow> encoding = MONO8 \<or> encoding = MONO16"

definition isBayer :: "string \<Rightarrow> bool" where
  "isBayer encoding \<longleftrightarrow>
     encoding = BAYER_RGGB8 \<or> encoding = BAYER_BGGR8 \<or> encoding = BAYER_GBRG8 \<or> encoding = BAYER_GRBG8 \<or>
     encoding = BAYER_RGGB16 \<or> encoding = BAYER_BGGR16 \<or> encoding = BAYER_GBRG16 \<or> encoding = BAYER_GRBG16"

definition hasAlpha :: "string \<Rightarrow> bool" where
  "hasAlpha encoding \<longleftrightarrow>
     encoding = RGBA8 \<or> encoding = BGRA8 \<or> encoding = RGBA16 \<or> encoding = BGRA16"

section \<open>Channels and depth\<close>

definition unknown_encoding :: "string \<Rightarrow> cpp_error" where
  "unknown_encoding encoding = Runtime_Error (''Unknown encoding '' @ encoding)"

text \<open>
  The loop over the prefixes, the same in both functions: \<open>single\<close> is returned for the prefix
  alone, \<open>several\<close> for a prefix with a number; \<^term>\<open>None\<close> means that the loop ends.
\<close>

fun generic_encoding ::
    "(string \<Rightarrow> int outcome) \<Rightarrow> (string \<Rightarrow> int \<Rightarrow> int outcome) \<Rightarrow> string list \<Rightarrow> string \<Rightarrow> int outcome option" where
  "generic_encoding single several [] encoding = None"
| "generic_encoding single several (prefix # prefixes) encoding =
     (if take (length prefix) encoding \<noteq> prefix then generic_encoding single several prefixes encoding
      else if length encoding = length prefix then Some (single prefix)
      else case atoi (drop (length prefix) encoding) of
             Inl e \<Rightarrow> Some (Inl e)
           | Inr n_channel \<Rightarrow>
               if n_channel \<noteq> 0 then Some (several prefix n_channel)
               else generic_encoding single several prefixes encoding)"

definition numChannels :: "string \<Rightarrow> int outcome" where
  "numChannels encoding =
     (if encoding = MONO8 \<or> encoding = MONO16 then Inr 1
      else if encoding = BGR8 \<or> encoding = RGB8 \<or> encoding = BGR16 \<or> encoding = RGB16 then Inr 3
      else if encoding = BGRA8 \<or> encoding = RGBA8 \<or> encoding = BGRA16 \<or> encoding = RGBA16 then Inr 4
      else if encoding = BAYER_RGGB8 \<or> encoding = BAYER_BGGR8 \<or> encoding = BAYER_GBRG8 \<or>
        encoding = BAYER_GRBG8 \<or> encoding = BAYER_RGGB16 \<or> encoding = BAYER_BGGR16 \<or>
        encoding = BAYER_GBRG16 \<or> encoding = BAYER_GRBG16 then Inr 1
      else case generic_encoding (\<lambda>prefix. Inr 1) (\<lambda>prefix n_channel. Inr n_channel)
             ABSTRACT_ENCODING_PREFIXES encoding of
             Some r \<Rightarrow> r
           | None \<Rightarrow> if encoding = YUV422 \<or> encoding = YUV422_YUY2 then Inr 2
                     else Inl (unknown_encoding encoding))"

definition bitDepth :: "string \<Rightarrow> int outcome" where
  "bitDepth encoding =
     (if encoding = MONO16 then Inr 16
      else if encoding = MONO8 \<or> encoding = BGR8 \<or> encoding = RGB8 \<or> encoding = BGRA8 \<or>
        encoding = RGBA8 \<or> encoding = BAYER_RGGB8 \<or> encoding = BAYER_BGGR8 \<or>
        encoding = BAYER_GBRG8 \<or> encoding = BAYER_GRBG8 then Inr 8
      else if encoding = MONO16 \<or> encoding = BGR16 \<or> encoding = RGB16 \<or> encoding = BGRA16 \<or>
        encoding = RGBA16 \<or> encoding = BAYER_RGGB16 \<or> encoding = BAYER_BGGR16 \<or>
        encoding = BAYER_GBRG16 \<or> encoding = BAYER_GRBG16 then Inr 16
      else case generic_encoding (\<lambda>prefix. atoi prefix) (\<lambda>prefix n_channel. atoi prefix)
             ABSTRACT_ENCODING_PREFIXES encoding of
             Some r \<Rightarrow> r
           | None \<Rightarrow> if encoding = YUV422 \<or> encoding = YUV422_YUY2 then Inr 8
                     else Inl (unknown_encoding encoding))"

section \<open>The generic names\<close>

lemma atoi_prefixes:
  "map atoi ABSTRACT_ENCODING_PREFIXES = map Inr [8, 8, 16, 16, 32, 32, 64]"
  by code_simp

lemma prefix_depth: "prefix \<in> set ABSTRACT_ENCODING_PREFIXES \<Longrightarrow> \<exists>d. atoi prefix = Inr d \<and> d \<in> {8, 16, 32, 64}"
  using atoi_prefixes by (auto simp: ABSTRACT_ENCODING_PREFIXES_def)

text \<open>Both loops end in the same way.\<close>

lemma generic_None:
  "generic_encoding f g ps encoding = None \<longleftrightarrow> generic_encoding f' g' ps encoding = None"
  by (induction ps) (auto split: sum.split)

lemma generic_Inl:
  assumes "\<forall>p\<in>set ps. (\<exists>r. f p = Inr r) \<and> (\<forall>n. \<exists>r. g p n = Inr r)"
    and "\<forall>p\<in>set ps. (\<exists>r. f' p = Inr r) \<and> (\<forall>n. \<exists>r. g' p n = Inr r)"
  shows "generic_encoding f g ps encoding = Some (Inl e) \<longleftrightarrow> generic_encoding f' g' ps encoding = Some (Inl e)"
  using assms
proof (induction ps)
  case (Cons p ps)
  then have "f p \<noteq> Inl e" "f' p \<noteq> Inl e" "g p n \<noteq> Inl e" "g' p n \<noteq> Inl e" for n
    by (metis Inl_Inr_False list.set_intros(1))+
  then show ?case using Cons by (auto split: sum.split)
qed simp

section \<open>Agreement of the functions\<close>

lemma loops_agree:
  "(case generic_encoding (\<lambda>prefix. Inr 1) (\<lambda>prefix n_channel. Inr n_channel) ABSTRACT_ENCODING_PREFIXES encoding of
      Some r \<Rightarrow> r | None \<Rightarrow> x) = Inl e \<longleftrightarrow>
   (case generic_encoding (\<lambda>prefix. atoi prefix) (\<lambda>prefix n_channel. atoi prefix) ABSTRACT_ENCODING_PREFIXES encoding of
      Some r \<Rightarrow> r | None \<Rightarrow> y) = Inl e"
  if "x = Inl e \<longleftrightarrow> y = Inl e"
proof -
  have p: "\<forall>p\<in>set ABSTRACT_ENCODING_PREFIXES. (\<exists>r. atoi p = Inr r) \<and> (\<forall>n :: int. \<exists>r. atoi p = Inr r)"
    using prefix_depth by blast
  show ?thesis
    using that generic_None [of "\<lambda>prefix. Inr 1" "\<lambda>prefix n_channel. Inr n_channel" ABSTRACT_ENCODING_PREFIXES
        encoding atoi "\<lambda>prefix n_channel. atoi prefix"]
      generic_Inl [of ABSTRACT_ENCODING_PREFIXES "\<lambda>prefix. Inr 1" "\<lambda>prefix n_channel. Inr n_channel"
        atoi "\<lambda>prefix n_channel. atoi prefix" encoding e] p
    by (auto split: option.splits)
qed

text \<open>The encodings that are compared with before the loops.\<close>

definition named_encodings :: "string list" where
  "named_encodings = [RGB8, RGBA8, RGB16, RGBA16, BGR8, BGRA8, BGR16, BGRA16, MONO8, MONO16,
     BAYER_RGGB8, BAYER_BGGR8, BAYER_GBRG8, BAYER_GRBG8, BAYER_RGGB16, BAYER_BGGR16, BAYER_GBRG16, BAYER_GRBG16]"

lemma classes_named: "isColor e \<or> isMono e \<or> isBayer e \<longleftrightarrow> e \<in> set named_encodings"
  by (simp only: isColor_def isMono_def isBayer_def named_encodings_def list.set insert_iff empty_iff) blast

lemma classified:
  "\<forall>e \<in> set named_encodings.
    numChannels e = Inr (if isColor e then if hasAlpha e then 4 else 3 else 1) \<and>
    (bitDepth e = Inr 8 \<or> bitDepth e = Inr 16) \<and> (hasAlpha e \<longrightarrow> isColor e)"
  by code_simp

lemma other_encodings:
  assumes "e \<notin> set named_encodings"
  shows "numChannels e =
      (case generic_encoding (\<lambda>prefix. Inr 1) (\<lambda>prefix n_channel. Inr n_channel) ABSTRACT_ENCODING_PREFIXES e of
         Some r \<Rightarrow> r
       | None \<Rightarrow> if e = YUV422 \<or> e = YUV422_YUY2 then Inr 2 else Inl (unknown_encoding e))"
    and "bitDepth e =
      (case generic_encoding (\<lambda>prefix. atoi prefix) (\<lambda>prefix n_channel. atoi prefix) ABSTRACT_ENCODING_PREFIXES e of
         Some r \<Rightarrow> r
       | None \<Rightarrow> if e = YUV422 \<or> e = YUV422_YUY2 then Inr 8 else Inl (unknown_encoding e))"
  using assms unfolding named_encodings_def list.set insert_iff empty_iff de_Morgan_disj
  by (simp_all only: numChannels_def bitDepth_def if_False simp_thms)

lemma hasAlpha_isColor: "hasAlpha e \<Longrightarrow> isColor e"
  by (auto simp only: hasAlpha_def isColor_def)

lemma errors_agree: "numChannels e = Inl x \<longleftrightarrow> bitDepth e = Inl x"
proof (cases "e \<in> set named_encodings")
  case True
  then show ?thesis using classified by fastforce
next
  case False
  show ?thesis
    unfolding other_encodings [OF False] by (rule loops_agree) simp
qed

text \<open>
  Every encoding is known to both functions or to neither, with the same exception; a color
  encoding has three channels, or four when it has alpha, a mono or Bayer encoding has one, and
  all of them have 8 or 16 bits; only color encodings have alpha.
\<close>

lemma encoding_attributes:
  "(numChannels e = Inl x \<longleftrightarrow> bitDepth e = Inl x) \<and>
   (isColor e \<longrightarrow> numChannels e = Inr (if hasAlpha e then 4 else 3)) \<and>
   (isMono e \<or> isBayer e \<longrightarrow> numChannels e = Inr 1) \<and>
   (isColor e \<or> isMono e \<or> isBayer e \<longrightarrow> bitDepth e = Inr 8 \<or> bitDepth e = Inr 16) \<and>
   (hasAlpha e \<longrightarrow> isColor e)"
proof -
  have apart: "\<not> isColor e" if "isMono e \<or> isBayer e"
  proof -
    have "\<forall>e \<in> set named_encodings. isMono e \<or> isBayer e \<longrightarrow> \<not> isColor e" by code_simp
    then show ?thesis using that classes_named by blast
  qed
  then show ?thesis
    using classified classes_named [of e] hasAlpha_isColor [of e] errors_agree [of e x] by fastforce
qed

text \<open>No prefix begins with another one.\<close>

lemma prefixes_apart:
  assumes "p \<in> set ABSTRACT_ENCODING_PREFIXES" "q \<in> set ABSTRACT_ENCODING_PREFIXES" "take (length q) (p @ xs) = q"
  shows "q = p"
proof -
  have "\<forall>p \<in> set ABSTRACT_ENCODING_PREFIXES. \<forall>q \<in> set ABSTRACT_ENCODING_PREFIXES.
      take (min (length p) (length q)) p = take (min (length p) (length q)) q \<longrightarrow> q = p"
    by code_simp
  moreover have "take (min (length p) (length q)) p = take (min (length p) (length q)) q"
  proof -
    have "take (min (length p) (length q)) (take (length q) (p @ xs)) = take (min (length p) (length q)) p"
      by (simp add: min_def)
    then show ?thesis by (simp only: assms(3))
  qed
  ultimately show ?thesis using assms(1,2) by blast
qed

lemma generic_first:
  assumes "xs \<noteq> []" "atoi xs = Inr k" "k \<noteq> 0" "p \<in> set ABSTRACT_ENCODING_PREFIXES"
  shows "set ps \<subseteq> set ABSTRACT_ENCODING_PREFIXES \<Longrightarrow> p \<in> set ps \<Longrightarrow> generic_encoding f g ps (p @ xs) = Some (g p k)"
proof (induction ps)
  case (Cons q ps)
  show ?case
  proof (cases "q = p")
    case True
    then show ?thesis using assms by simp
  next
    case False
    then have "take (length q) (p @ xs) \<noteq> q" using prefixes_apart [OF assms(4), of q xs] Cons.prems by auto
    then show ?thesis using Cons False by simp
  qed
qed simp

lemma generic_found:
  assumes "prefix \<in> set ABSTRACT_ENCODING_PREFIXES" "0 < n" "int n \<le> INT_MAX"
  shows "generic_encoding f g ABSTRACT_ENCODING_PREFIXES (prefix @ show_nat n) = Some (g prefix (int n))"
  using assms atoi_show_nat [OF assms(3), of "[]"] by (intro generic_first show_nat_ne) simp_all

lemma generic_not_named:
  "prefix \<in> set ABSTRACT_ENCODING_PREFIXES \<Longrightarrow> prefix @ xs \<notin> set named_encodings"
proof -
  have "\<forall>p \<in> set ABSTRACT_ENCODING_PREFIXES. \<forall>e \<in> set named_encodings. hd p \<noteq> hd e \<and> p \<noteq> []" by code_simp
  then show "prefix \<in> set ABSTRACT_ENCODING_PREFIXES \<Longrightarrow> prefix @ xs \<notin> set named_encodings"
    by (metis hd_append2)
qed

text \<open>
  The generic names are read back: the depth, the kind of number, the letter C and the number
  of channels in decimal give that number of channels and that depth, for every number of
  channels that is an int.
\<close>

lemma generic_encoding_roundtrip:
  assumes "(d, kind) \<in> {(8, ''U''), (8, ''S''), (16, ''U''), (16, ''S''), (32, ''S''), (32, ''F''), (64, ''F'')}"
    and "0 < n" and "int n \<le> INT_MAX"
  defines "e \<equiv> show_nat d @ kind @ ''C'' @ show_nat n"
  shows "numChannels e = Inr (int n) \<and> bitDepth e = Inr (int d)"
proof -
  let ?prefix = "show_nat d @ kind @ ''C''"
  have "\<forall>(d, kind) \<in> {(8, ''U''), (8, ''S''), (16, ''U''), (16, ''S''), (32, ''S''), (32, ''F''), (64, ''F'')}.
      show_nat d @ kind @ ''C'' \<in> set ABSTRACT_ENCODING_PREFIXES \<and> atoi (show_nat d @ kind @ ''C'') = Inr (int d)"
    by code_simp
  then have p: "?prefix \<in> set ABSTRACT_ENCODING_PREFIXES" "atoi ?prefix = Inr (int d)" using assms(1) by blast+
  have e: "e = ?prefix @ show_nat n" by (simp add: e_def)
  show ?thesis
    unfolding e other_encodings [OF generic_not_named [OF p(1)]] generic_found [OF p(1) assms(2,3)]
    using p(2) by simp
qed

text \<open>The number of channels may be negative.\<close>

lemma negative_channels: "numChannels ''8UC-3'' = Inr (- 3)"
  by code_simp

end
