(* ===== verification/Point_Cloud.thy ===== *)
theory Point_Cloud
  imports Cpp_Library
begin

text \<open>
  Point clouds (\<^verbatim>\<open>sensor_msgs/impl/point_cloud2_iterator.hpp\<close>): the message, a list of fields that
  say where the parts of a point lie in its bytes, and \<^verbatim>\<open>PointCloud2Modifier\<close>, whose methods set the
  fields and the number of points and keep the message consistent.
\<close>

section \<open>The messages\<close>

text \<open>The values of \<^verbatim>\<open>PointField.datatype\<close>.\<close>

definition INT8 :: int where "INT8 = 1"
definition UINT8 :: int where "UINT8 = 2"
definition INT16 :: int where "INT16 = 3"
definition UINT16 :: int where "UINT16 = 4"
definition INT32 :: int where "INT32 = 5"
definition UINT32 :: int where "UINT32 = 6"
definition FLOAT32 :: int where "FLOAT32 = 7"
definition FLOAT64 :: int where "FLOAT64 = 8"

lemmas datatype_defs = INT8_def UINT8_def INT16_def UINT16_def INT32_def UINT32_def FLOAT32_def FLOAT64_def

record PointField =
  field_name :: string
  field_offset :: uint32_t
  field_datatype :: uint8_t
  field_count :: uint32_t

record Header =
  stamp_sec :: int32_t
  stamp_nanosec :: uint32_t
  frame_id :: string

record PointCloud2 =
  cloud_header :: Header
  height :: uint32_t
  width :: uint32_t
  cloud_fields :: "PointField list"
  is_bigendian :: bool
  point_step :: uint32_t
  row_step :: uint32_t
  cloud_data :: "uint8_t list"
  is_dense :: bool

text \<open>The sizes of the elements of the vectors, on the 32-bit targets.\<close>

definition sizeof_PointField :: nat where "sizeof_PointField = 36"

section \<open>Fields\<close>

definition sizeOfPointField :: "int \<Rightarrow> int outcome" where
  "sizeOfPointField dt =
     (if dt = INT8 \<or> dt = UINT8 then Inr 1
      else if dt = INT16 \<or> dt = UINT16 then Inr 2
      else if dt = INT32 \<or> dt = UINT32 \<or> dt = FLOAT32 then Inr 4
      else if dt = FLOAT64 then Inr 8
      else Inl (Runtime_Error (''PointField of type '' @ show_int dt @ '' does not exist'')))"

text \<open>
  The field is added before its size is looked up. The sum is an unsigned one (the count of the
  field is a \<^verbatim>\<open>uint32_t\<close>), converted back to int.
\<close>

definition addPointField :: "string \<Rightarrow> int \<Rightarrow> int \<Rightarrow> int \<Rightarrow> (PointCloud2, int) throwing" where
  "addPointField name cnt dt ofs =
     mbind (mmodify (\<lambda>m. m\<lparr>cloud_fields := cloud_fields m @ [\<lparr>field_name = name, field_offset = of_int ofs,
         field_datatype = of_int dt, field_count = of_int cnt\<rparr>]\<rparr>)) (\<lambda>_.
     mbind (mlift (sizeOfPointField dt)) (\<lambda>sz.
     mreturn (int_of_uint32 (of_int ofs + of_int cnt * of_int sz))))"

section \<open>\<^verbatim>\<open>PointCloud2Modifier\<close>\<close>

text \<open>The vector of bytes of the message.\<close>

definition data_resize :: "size_t \<Rightarrow> PointCloud2 \<Rightarrow> PointCloud2 outcome" where
  "data_resize n m = obind (vector_resize 1 0 n (cloud_data m)) (\<lambda>d. Inr (m\<lparr>cloud_data := d\<rparr>))"

definition modifier_size :: "(PointCloud2, size_t) throwing" where
  "modifier_size = (\<lambda>m.
     mlift (if point_step m = 0 then Inl (Undefined DivisionByZero)
            else Inr (of_nat (length (cloud_data m)) div point_step m)) m)"

definition modifier_reserve :: "size_t \<Rightarrow> (PointCloud2, unit) throwing" where
  "modifier_reserve n = mupdate (\<lambda>m.
     obind (vector_reserve 1 (n * point_step m) (cloud_data m)) (\<lambda>d. Inr (m\<lparr>cloud_data := d\<rparr>)))"

definition modifier_resize :: "size_t \<Rightarrow> (PointCloud2, unit) throwing" where
  "modifier_resize n =
     mbind (mupdate (\<lambda>m. data_resize (n * point_step m) m)) (\<lambda>_.
     mmodify (\<lambda>m.
       if height m = 1 then m\<lparr>width := n, row_step := n * point_step m\<rparr>
       else if width m = 1 then m\<lparr>height := n\<rparr>
       else m\<lparr>height := 1, width := n, row_step := n * point_step m\<rparr>))"

definition modifier_clear :: "(PointCloud2, unit) throwing" where
  "modifier_clear = mmodify (\<lambda>m.
     let m = m\<lparr>cloud_data := []\<rparr>
     in if height m = 1 then m\<lparr>width := 0, row_step := 0\<rparr>
        else if width m = 1 then m\<lparr>height := 0\<rparr>
        else m\<lparr>height := 0, width := 0, row_step := 0\<rparr>)"

text \<open>
  The variable arguments are a list; taking one more than there are is undefined. What follows
  the loops is the same in the two functions that set the fields.
\<close>

definition start_fields :: "int \<Rightarrow> (PointCloud2, unit) throwing" where
  "start_fields n_fields =
     mbind (mmodify (\<lambda>m. m\<lparr>cloud_fields := []\<rparr>)) (\<lambda>_.
     mupdate (\<lambda>m. obind (vector_reserve sizeof_PointField (of_int n_fields) (cloud_fields m)) (\<lambda>fs. Inr (m\<lparr>cloud_fields := fs\<rparr>))))"

definition finish_fields :: "int \<Rightarrow> (PointCloud2, unit) throwing" where
  "finish_fields ofs =
     mbind (mmodify (\<lambda>m. let m = m\<lparr>point_step := of_int ofs\<rparr> in m\<lparr>row_step := width m * point_step m\<rparr>)) (\<lambda>_.
     mupdate (\<lambda>m. data_resize (height m * row_step m) m))"

fun add_fields :: "nat \<Rightarrow> (string \<times> int \<times> int) list \<Rightarrow> int \<Rightarrow> (PointCloud2, int) throwing" where
  "add_fields 0 vl ofs = mreturn ofs"
| "add_fields (Suc n) [] ofs = mlift (Inl (Undefined OutOfBounds))"
| "add_fields (Suc n) ((name, cnt, dt) # vl) ofs =
     mbind (addPointField name cnt dt ofs) (\<lambda>ofs. add_fields n vl ofs)"

definition setPointCloud2Fields :: "int \<Rightarrow> (string \<times> int \<times> int) list \<Rightarrow> (PointCloud2, unit) throwing" where
  "setPointCloud2Fields n_fields vl =
     mbind (start_fields n_fields) (\<lambda>_.
     mbind (add_fields (nat n_fields) vl 0) (\<lambda>ofs.
     finish_fields ofs))"

fun add_fields_by_string :: "nat \<Rightarrow> string list \<Rightarrow> int \<Rightarrow> (PointCloud2, int) throwing" where
  "add_fields_by_string 0 vl ofs = mreturn ofs"
| "add_fields_by_string (Suc n) [] ofs = mlift (Inl (Undefined OutOfBounds))"
| "add_fields_by_string (Suc n) (name # vl) ofs =
     (if name = ''xyz''
      then mbind (addPointField ''x'' 1 FLOAT32 ofs) (\<lambda>ofs.
           mbind (addPointField ''y'' 1 FLOAT32 ofs) (\<lambda>ofs.
           mbind (addPointField ''z'' 1 FLOAT32 ofs) (\<lambda>ofs.
           mbind (mlift (sizeOfPointField FLOAT32)) (\<lambda>sz.
           mbind (mlift (int_result (ofs + sz))) (\<lambda>ofs.
           add_fields_by_string n vl ofs)))))
      else if name = ''rgb'' \<or> name = ''rgba''
      then mbind (addPointField name 1 FLOAT32 ofs) (\<lambda>ofs.
           mbind (mlift (sizeOfPointField FLOAT32)) (\<lambda>sz.
           mbind (mlift (int_result (ofs + 3 * sz))) (\<lambda>ofs.
           add_fields_by_string n vl ofs)))
      else mlift (Inl (Runtime_Error (''Field '' @ name @ '' does not exist''))))"

definition setPointCloud2FieldsByString :: "int \<Rightarrow> string list \<Rightarrow> (PointCloud2, unit) throwing" where
  "setPointCloud2FieldsByString n_fields vl =
     mbind (start_fields n_fields) (\<lambda>_.
     mbind (add_fields_by_string (nat n_fields) vl 0) (\<lambda>ofs.
     finish_fields ofs))"

section \<open>Fields end to end\<close>

text \<open>The bytes of a field, and fields that lie end to end from one offset to another.\<close>

definition datatype_size :: "int \<Rightarrow> nat" where
  "datatype_size dt = (case sizeOfPointField dt of Inl e \<Rightarrow> 0 | Inr sz \<Rightarrow> nat sz)"

definition field_bytes :: "PointField \<Rightarrow> nat" where
  "field_bytes f = unat (field_count f) * datatype_size (uint (field_datatype f))"

fun tiles :: "PointField list \<Rightarrow> nat \<Rightarrow> nat \<Rightarrow> bool" where
  "tiles [] a b \<longleftrightarrow> a = b"
| "tiles (f # fs) a b \<longleftrightarrow> unat (field_offset f) = a \<and> tiles fs (a + field_bytes f) b"

text \<open>A field as it is asked for, and what it asks for.\<close>

definition field_of :: "PointField \<Rightarrow> string \<times> int \<times> int" where
  "field_of f = (field_name f, uint (field_count f), uint (field_datatype f))"

definition valid_field :: "string \<times> int \<times> int \<Rightarrow> bool" where
  "valid_field v = (case v of (name, cnt, dt) \<Rightarrow> 0 \<le> cnt \<and> cnt < 2 ^ 31 \<and> INT8 \<le> dt \<and> dt \<le> FLOAT64)"

definition requested_bytes :: "string \<times> int \<times> int \<Rightarrow> nat" where
  "requested_bytes v = (case v of (name, cnt, dt) \<Rightarrow> nat cnt * datatype_size dt)"

lemma sizeOf_valid:
  assumes "INT8 \<le> dt" "dt \<le> FLOAT64"
  shows "sizeOfPointField dt = Inr (int (datatype_size dt)) \<and> 0 < datatype_size dt \<and> datatype_size dt \<le> 8"
proof -
  have "dt = 1 \<or> dt = 2 \<or> dt = 3 \<or> dt = 4 \<or> dt = 5 \<or> dt = 6 \<or> dt = 7 \<or> dt = 8"
    using assms by (simp add: INT8_def FLOAT64_def) arith
  then show ?thesis
    by (elim disjE) (simp_all add: datatype_size_def sizeOfPointField_def datatype_defs)
qed

lemma addPointField_valid:
  assumes v: "valid_field (name, cnt, dt)" and small: "ofs + requested_bytes (name, cnt, dt) < 2 ^ 31"
  shows "\<exists>f. addPointField name cnt dt (int ofs) m =
      (Inr (int (ofs + field_bytes f)), m\<lparr>cloud_fields := cloud_fields m @ [f]\<rparr>) \<and>
    field_of f = (name, cnt, dt) \<and> unat (field_offset f) = ofs \<and> field_bytes f = requested_bytes (name, cnt, dt)"
proof -
  let ?f = "\<lparr>field_name = name, field_offset = of_int (int ofs), field_datatype = of_int dt, field_count = of_int cnt\<rparr>"
  have dt: "INT8 \<le> dt" "dt \<le> FLOAT64" and cnt: "0 \<le> cnt" "cnt < 2 ^ 31" using v by (simp_all add: valid_field_def)
  note sz = sizeOf_valid [OF dt]
  have d: "uint (of_int dt :: 8 word) = dt"
    using dt by (simp add: uint_word_of_int INT8_def FLOAT64_def)
  have c: "uint (of_int cnt :: 32 word) = cnt"
    unfolding uint_word_of_int by (rule mod_pos_pos_trivial) (use cnt in simp_all)
  then have c': "unat (of_int cnt :: 32 word) = nat cnt" by (simp only: unat_eq_nat_uint)
  have bytes: "field_bytes ?f = requested_bytes (name, cnt, dt)"
    using d c' by (simp add: field_bytes_def requested_bytes_def)
  let ?w = "of_int (int ofs) + of_int cnt * of_int (int (datatype_size dt)) :: 32 word"
  have i: "of_int cnt = (of_nat (nat cnt) :: 32 word)" using cnt(1) by (rule of_nat_nat [symmetric])
  have w: "?w = of_nat (ofs + field_bytes ?f)"
    unfolding bytes unfolding i by (simp add: requested_bytes_def)
  have "unat ?w = ofs + field_bytes ?f"
    unfolding w using small bytes by (simp add: unat_of_nat del: of_nat_add)
  then have "int_of_uint32 ?w = int (ofs + field_bytes ?f)"
    using small bytes by (simp add: int_of_uint32_small)
  then have "addPointField name cnt dt (int ofs) m =
      (Inr (int (ofs + field_bytes ?f)), m\<lparr>cloud_fields := cloud_fields m @ [?f]\<rparr>)"
    using sz by (simp add: addPointField_def mbind_apply)
  moreover have "unat (field_offset ?f) = ofs" using small by (simp add: unat_of_nat)
  ultimately show ?thesis using bytes d c by (intro exI [of _ ?f]) (simp add: field_of_def)
qed

lemma add_fields_valid:
  "\<forall>v \<in> set vl. valid_field v \<Longrightarrow> ofs + sum_list (map requested_bytes vl) < 2 ^ 31 \<Longrightarrow>
   \<exists>fs. add_fields (length vl) vl (int ofs) m =
      (Inr (int (ofs + sum_list (map requested_bytes vl))), m\<lparr>cloud_fields := cloud_fields m @ fs\<rparr>) \<and>
    map field_of fs = vl \<and> tiles fs ofs (ofs + sum_list (map requested_bytes vl))"
proof (induction vl arbitrary: ofs m)
  case Nil
  then show ?case by (intro exI [of _ "[]"]) simp
next
  case (Cons v vl)
  obtain name cnt dt where v: "v = (name, cnt, dt)" by (cases v)
  have "valid_field (name, cnt, dt)" "ofs + requested_bytes (name, cnt, dt) < 2 ^ 31"
    using Cons.prems by (simp_all add: v)
  from addPointField_valid [OF this, of m] obtain f where
    f: "addPointField name cnt dt (int ofs) m =
        (Inr (int (ofs + field_bytes f)), m\<lparr>cloud_fields := cloud_fields m @ [f]\<rparr>)"
      "field_of f = v" "unat (field_offset f) = ofs" "field_bytes f = requested_bytes v"
    unfolding v by blast
  have "ofs + field_bytes f + sum_list (map requested_bytes vl) < 2 ^ 31" using Cons.prems f(4) by simp
  from Cons.IH [OF _ this, of "m\<lparr>cloud_fields := cloud_fields m @ [f]\<rparr>"] Cons.prems(1) obtain fs where
    fs: "add_fields (length vl) vl (int (ofs + field_bytes f)) (m\<lparr>cloud_fields := cloud_fields m @ [f]\<rparr>) =
        (Inr (int (ofs + field_bytes f + sum_list (map requested_bytes vl))),
         m\<lparr>cloud_fields := cloud_fields m @ f # fs\<rparr>)"
      "map field_of fs = vl"
      "tiles fs (ofs + field_bytes f) (ofs + field_bytes f + sum_list (map requested_bytes vl))"
    by auto
  then show ?case using f by (intro exI [of _ "f # fs"]) (simp add: v add.assoc)
qed

section \<open>The groups of \<^verbatim>\<open>setPointCloud2FieldsByString\<close>\<close>

text \<open>The fields of a group of 16 bytes: names and offsets.\<close>

definition group_fields :: "string \<Rightarrow> nat \<Rightarrow> (string \<times> nat) list" where
  "group_fields name ofs =
     (if name = ''xyz'' then [(''x'', ofs), (''y'', ofs + 4), (''z'', ofs + 8)] else [(name, ofs)])"

fun groups_fields :: "string list \<Rightarrow> nat \<Rightarrow> (string \<times> nat) list" where
  "groups_fields [] ofs = []"
| "groups_fields (name # vl) ofs = group_fields name ofs @ groups_fields vl (ofs + 16)"

definition known_groups :: "string set" where
  "known_groups = {''xyz'', ''rgb'', ''rgba''}"

text \<open>A single 32-bit float at an offset.\<close>

definition float_field :: "string \<times> nat \<Rightarrow> PointField" where
  "float_field v = \<lparr>field_name = fst v, field_offset = of_nat (snd v), field_datatype = 7, field_count = 1\<rparr>"

lemma add_float_field:
  assumes "ofs + 4 < 2 ^ 31"
  shows "addPointField name 1 FLOAT32 (int ofs) m =
    (Inr (int (ofs + 4)), m\<lparr>cloud_fields := cloud_fields m @ [float_field (name, ofs)]\<rparr>)"
proof -
  have "unat (of_nat (ofs + 4) :: 32 word) = ofs + 4" using assms by (simp add: unat_of_nat del: of_nat_add)
  then have "int_of_uint32 (of_nat (ofs + 4)) = int (ofs + 4)" using assms by (simp add: int_of_uint32_small del: of_nat_add)
  then show ?thesis
    by (simp add: addPointField_def mbind_apply sizeOfPointField_def datatype_defs float_field_def)
qed

lemma float_size: "sizeOfPointField FLOAT32 = Inr 4"
  by (simp add: sizeOfPointField_def datatype_defs)

lemma small_int: "n < 2 ^ 31 \<Longrightarrow> is_int (int n)"
  by (simp add: is_int_def INT_MIN_def INT_MAX_def)

lemma add_group:
  assumes "name \<in> known_groups" "ofs + 16 < 2 ^ 31"
  shows "add_fields_by_string (Suc n) (name # vl) (int ofs) m =
    add_fields_by_string n vl (int (ofs + 16))
      (m\<lparr>cloud_fields := cloud_fields m @ map float_field (group_fields name ofs)\<rparr>)"
proof -
  have r: "int_result (int ofs + 12 + 4) = Inr (int (ofs + 16))" "int_result (int ofs + 4 + 3 * 4) = Inr (int (ofs + 16))"
    using small_int [OF assms(2)] by (simp_all add: add.commute)
  have a: "addPointField nm 1 FLOAT32 (int ofs) m' =
      (Inr (int ofs + 4), m'\<lparr>cloud_fields := cloud_fields m' @ [float_field (nm, ofs)]\<rparr>)"
    "addPointField nm 1 FLOAT32 (int ofs + 4) m' =
      (Inr (int ofs + 8), m'\<lparr>cloud_fields := cloud_fields m' @ [float_field (nm, ofs + 4)]\<rparr>)"
    "addPointField nm 1 FLOAT32 (int ofs + 8) m' =
      (Inr (int ofs + 12), m'\<lparr>cloud_fields := cloud_fields m' @ [float_field (nm, ofs + 8)]\<rparr>)" for nm m'
    using assms(2) add_float_field [of ofs nm m'] add_float_field [of "ofs + 4" nm m']
      add_float_field [of "ofs + 8" nm m'] by (simp_all add: add.assoc)
  note step = add_fields_by_string.simps(3) mbind_apply prod.case sum.case a method_apply float_size r group_fields_def
  from assms(1) consider "name = ''xyz''" | "name \<noteq> ''xyz''" "name = ''rgb'' \<or> name = ''rgba''"
    by (auto simp: known_groups_def)
  then show ?thesis
  proof cases
    case 1
    then show ?thesis by (simp only: step simp_thms if_True) simp
  next
    case 2
    then show ?thesis by (simp only: step simp_thms if_True if_False) simp
  qed
qed

lemma add_groups:
  "set vl \<subseteq> known_groups \<Longrightarrow> ofs + 16 * length vl < 2 ^ 31 \<Longrightarrow>
   add_fields_by_string (length vl) vl (int ofs) m =
     (Inr (int (ofs + 16 * length vl)), m\<lparr>cloud_fields := cloud_fields m @ map float_field (groups_fields vl ofs)\<rparr>)"
proof (induction vl arbitrary: ofs m)
  case (Cons name vl)
  then have n: "name \<in> known_groups" "ofs + 16 < 2 ^ 31" and "set vl \<subseteq> known_groups" "ofs + 16 + 16 * length vl < 2 ^ 31"
    by simp_all
  from Cons.IH [OF this(3,4), of "m\<lparr>cloud_fields := cloud_fields m @ map float_field (group_fields name ofs)\<rparr>"]
  show ?case
    using add_group [OF n, of "length vl" vl m] by (simp add: algebra_simps del: add_fields_by_string.simps)
qed simp

section \<open>A consistent message\<close>

definition consistent :: "PointCloud2 \<Rightarrow> bool" where
  "consistent m \<longleftrightarrow> unat (row_step m) = unat (width m) * unat (point_step m) \<and>
     length (cloud_data m) = unat (height m) * unat (row_step m)"

lemma data_resize_ok:
  "unat n < 2 ^ 31 \<Longrightarrow> data_resize n m = Inr (m\<lparr>cloud_data := resized 0 (unat n) (cloud_data m)\<rparr>)"
  by (simp add: data_resize_def vector_resize_def within_max_def max_size_def)

lemma start_fields_ok:
  assumes "n \<le> max_size sizeof_PointField"
  shows "start_fields (int n) m = (Inr (), m\<lparr>cloud_fields := []\<rparr>)"
proof -
  have "unat (of_int (int n) :: 32 word) \<le> max_size sizeof_PointField"
    using assms by (simp add: unat_of_nat order_trans [OF mod_less_eq_dividend])
  then show ?thesis by (simp add: start_fields_def mbind_apply mupdate_apply vector_reserve_def within_max_def)
qed

text \<open>When the product of the sizes is small, the message is consistent after its fields are set.\<close>

definition step_fits :: "nat \<Rightarrow> PointCloud2 \<Rightarrow> bool" where
  "step_fits st m \<longleftrightarrow> st < 2 ^ 31 \<and> unat (width m) * st < 2 ^ 31 \<and> unat (height m) * (unat (width m) * st) < 2 ^ 31"

lemma int_less_2p31: "int n < 2 ^ 31 \<longleftrightarrow> n < 2 ^ 31"
  using of_nat_less_iff [of n "2 ^ 31", where 'a = int] by simp

lemma step_fits_code [code]:
  "step_fits st m \<longleftrightarrow> int st < 2 ^ 31 \<and> uint (width m) * int st < 2 ^ 31 \<and>
     uint (height m) * (uint (width m) * int st) < 2 ^ 31"
  unfolding step_fits_def int_less_2p31 [symmetric] of_nat_mult uint_nat ..

lemma finish_fields_ok:
  assumes "step_fits st m"
  shows "\<exists>m'. finish_fields (int st) m = (Inr (), m') \<and> consistent m' \<and> unat (point_step m') = st \<and>
    cloud_fields m' = cloud_fields m \<and> width m' = width m \<and> height m' = height m \<and>
    cloud_header m' = cloud_header m \<and> is_bigendian m' = is_bigendian m \<and> is_dense m' = is_dense m"
proof -
  let ?w = "of_nat st :: uint32_t"
  have st: "unat ?w = st" using assms by (simp add: step_fits_def unat_of_nat)
  have row: "unat (width m * ?w) = unat (width m) * st"
    using assms unat_mult_small [of "width m" ?w] st by (simp add: step_fits_def)
  have data: "unat (height m * (width m * ?w)) = unat (height m) * (unat (width m) * st)"
    using assms unat_mult_small [of "height m" "width m * ?w"] row by (simp add: step_fits_def)
  then have "unat (height m * (width m * ?w)) < 2 ^ 31" using assms by (simp add: step_fits_def)
  note resize = data_resize_ok [OF this]
  show ?thesis
    using st row data
    by (simp add: finish_fields_def mbind_apply mupdate_apply Let_def resize consistent_def)
qed

end
