(* ===== verification/Fill_Image.thy ===== *)
theory Fill_Image
  imports Point_Cloud
begin

text \<open>
  \<^verbatim>\<open>sensor_msgs/fill_image.hpp\<close>: filling an image message with the bytes behind a pointer, and
  clearing it. The pointer is the list of the bytes that may be read from it. An empty vector
  has no first byte to take the address of.
\<close>

record Image =
  image_header :: Header
  image_height :: uint32_t
  image_width :: uint32_t
  image_encoding :: string
  image_is_bigendian :: uint8_t
  image_step :: uint32_t
  image_data :: "uint8_t list"

definition image_resize :: "size_t \<Rightarrow> Image \<Rightarrow> Image outcome" where
  "image_resize n m = obind (vector_resize 1 0 n (image_data m)) (\<lambda>d. Inr (m\<lparr>image_data := d\<rparr>))"

definition image_copy :: "uint8_t list \<Rightarrow> size_t \<Rightarrow> Image \<Rightarrow> Image outcome" where
  "image_copy src n m =
     obind (vector_get (image_data m) 0) (\<lambda>_.
     obind (bytes_get src 0 (unat n)) (\<lambda>bs.
     obind (bytes_put (image_data m) 0 bs) (\<lambda>d. Inr (m\<lparr>image_data := d\<rparr>))))"

definition fillImage ::
    "string \<Rightarrow> uint32_t \<Rightarrow> uint32_t \<Rightarrow> uint32_t \<Rightarrow> uint8_t list \<Rightarrow> (Image, bool) throwing" where
  "fillImage encoding_arg rows_arg cols_arg step_arg data_arg =
     mbind (mmodify (\<lambda>m. m\<lparr>image_encoding := encoding_arg, image_height := rows_arg, image_width := cols_arg,
       image_step := step_arg\<rparr>)) (\<lambda>_.
     let st0 = step_arg * rows_arg in
     mbind (mupdate (image_resize st0)) (\<lambda>_.
     mbind (mupdate (image_copy data_arg st0)) (\<lambda>_.
     mbind (mmodify (\<lambda>m. m\<lparr>image_is_bigendian := 0\<rparr>)) (\<lambda>_.
     mreturn True))))"

definition clearImage :: "(Image, unit) throwing" where
  "clearImage = mupdate (image_resize 0)"

section \<open>Filling and clearing\<close>

lemma fill_run:
  assumes "within_max 1 (step * rows)" "0 < unat (step * rows)" "unat (step * rows) \<le> length bs"
  shows "fillImage enc rows cols step bs m = (Inr True, \<lparr>image_header = image_header m, image_height = rows,
    image_width = cols, image_encoding = enc, image_is_bigendian = 0, image_step = step,
    image_data = take (unat (step * rows)) bs\<rparr>)"
proof -
  let ?n = "unat (step * rows)"
  let ?m = "m\<lparr>image_encoding := enc, image_height := rows, image_width := cols, image_step := step\<rparr>"
  have "image_resize (step * rows) ?m = Inr (?m\<lparr>image_data := resized 0 ?n (image_data m)\<rparr>)"
    using assms(1) by (simp add: image_resize_def vector_resize_def)
  moreover have "overwrite 0 (take ?n bs) (resized 0 ?n (image_data m)) = take ?n bs"
    using assms(3) by (simp add: overwrite_def)
  then have "image_copy bs (step * rows) (?m\<lparr>image_data := resized 0 ?n (image_data m)\<rparr>) =
      Inr (?m\<lparr>image_data := take ?n bs\<rparr>)"
    using assms(2,3) by (simp add: image_copy_def vector_ok)
  ultimately show ?thesis
    by (cases m) (simp add: fillImage_def mbind_apply mupdate_apply Let_def)
qed

lemma exact_size:
  assumes "unat (a :: uint32_t) * unat (b :: uint32_t) < 2 ^ 31"
  shows "unat (a * b) = unat a * unat b" "within_max 1 (a * b)"
proof -
  show "unat (a * b) = unat a * unat b" using assms by (simp add: unat_word_ariths)
  then show "within_max 1 (a * b)" using assms by (simp add: within_max_def max_size_def)
qed

text \<open>
  An image of \<open>rows\<close> rows of \<open>step\<close> bytes, at least one byte and less than two gigabytes, takes
  exactly that many
  bytes from the pointer, whatever the message held; it is little-endian, its header is kept, and
  clearing it keeps all but the data.
\<close>

lemma fillImage_correct:
  assumes "0 < step" and "0 < rows" and "unat step * unat rows < 2 ^ 31" and "unat step * unat rows \<le> length bs"
  shows "fillImage enc rows cols step bs m = (Inr True, \<lparr>image_header = image_header m, image_height = rows,
      image_width = cols, image_encoding = enc, image_is_bigendian = 0, image_step = step,
      image_data = take (unat step * unat rows) bs\<rparr>) \<and>
    clearImage (snd (fillImage enc rows cols step bs m)) = (Inr (), \<lparr>image_header = image_header m, image_height = rows,
      image_width = cols, image_encoding = enc, image_is_bigendian = 0, image_step = step, image_data = []\<rparr>)"
proof -
  note size = exact_size [OF assms(3)]
  have pos: "0 < unat step * unat rows" using assms(1,2) by (simp add: unat_gt_0 word_gt_0)
  have fill: "fillImage enc rows cols step bs m = (Inr True, \<lparr>image_header = image_header m, image_height = rows,
      image_width = cols, image_encoding = enc, image_is_bigendian = 0, image_step = step,
      image_data = take (unat step * unat rows) bs\<rparr>)"
    using fill_run [OF size(2), of bs enc cols m] assms(4) pos by (simp add: size(1))
  then show ?thesis
    by (simp add: clearImage_def mupdate_apply image_resize_def vector_resize_def within_max_def resized_def)
qed

text \<open>
  The product of \<open>step\<close> and \<open>rows\<close> is computed in 32 bits: 65537 rows of 65536 bytes give an
  image that claims all these rows and holds the bytes of one, and the function answers \<^verbatim>\<open>true\<close>.
\<close>

lemma fill_wraps:
  assumes "0x10000 \<le> length bs"
  shows "\<exists>m'. fillImage enc 0x10001 cols 0x10000 bs m = (Inr True, m') \<and> image_height m' = 0x10001 \<and>
    image_step m' = 0x10000 \<and> length (image_data m') = 0x10000"
proof -
  have "within_max 1 (0x10000 * 0x10001)" by (simp add: within_max_code)
  from fill_run [OF this, of bs enc cols m] assms show ?thesis by simp
qed

end
