(* ===== verification/Point_Cloud_Modifier.thy ===== *)
theory Point_Cloud_Modifier
  imports Point_Cloud
begin

text \<open>
  The methods of \<^verbatim>\<open>PointCloud2Modifier\<close>: what each does to a consistent message, sessions of
  several of them, and the cases in which they leave an inconsistent message behind.
\<close>

section \<open>What the methods do\<close>

lemma set_fields_run:
  assumes "\<forall>v \<in> set vl. valid_field v" and "length vl \<le> max_size sizeof_PointField"
    and st: "st = sum_list (map requested_bytes vl)" and "step_fits st m"
  shows "\<exists>m'. setPointCloud2Fields (int (length vl)) vl m = (Inr (), m') \<and> consistent m' \<and>
    map field_of (cloud_fields m') = vl \<and> tiles (cloud_fields m') 0 st \<and> unat (point_step m') = st \<and>
    width m' = width m \<and> height m' = height m"
proof -
  have "0 + sum_list (map requested_bytes vl) < 2 ^ 31" using assms(4) by (simp add: st step_fits_def)
  from add_fields_valid [OF assms(1) this, of "m\<lparr>cloud_fields := []\<rparr>"] obtain fs where
    fs: "add_fields (length vl) vl 0 (m\<lparr>cloud_fields := []\<rparr>) = (Inr (int st), m\<lparr>cloud_fields := fs\<rparr>)"
      "map field_of fs = vl" "tiles fs 0 st"
    by (auto simp: st)
  have "step_fits st (m\<lparr>cloud_fields := fs\<rparr>)" using assms(4) by (simp add: step_fits_def)
  from finish_fields_ok [OF this] fs start_fields_ok [OF assms(2), of m] show ?thesis
    by (auto simp: setPointCloud2Fields_def mbind_apply)
qed

lemma by_string_run:
  assumes "set vl \<subseteq> known_groups" and "length vl \<le> max_size sizeof_PointField" and "step_fits (16 * length vl) m"
  shows "\<exists>m'. setPointCloud2FieldsByString (int (length vl)) vl m = (Inr (), m') \<and> consistent m' \<and>
    cloud_fields m' = map float_field (groups_fields vl 0) \<and> unat (point_step m') = 16 * length vl \<and>
    width m' = width m \<and> height m' = height m"
proof -
  let ?fs = "map float_field (groups_fields vl 0)"
  have "0 + 16 * length vl < 2 ^ 31" using assms(3) by (simp add: step_fits_def)
  from add_groups [OF assms(1) this, of "m\<lparr>cloud_fields := []\<rparr>"]
  have fs: "add_fields_by_string (length vl) vl 0 (m\<lparr>cloud_fields := []\<rparr>) =
      (Inr (int (16 * length vl)), m\<lparr>cloud_fields := ?fs\<rparr>)"
    by simp
  have "step_fits (16 * length vl) (m\<lparr>cloud_fields := ?fs\<rparr>)" using assms(3) by (simp add: step_fits_def)
  from finish_fields_ok [OF this] fs start_fields_ok [OF assms(2), of m] show ?thesis
    by (auto simp: setPointCloud2FieldsByString_def mbind_apply)
qed

lemma resize_run:
  assumes "consistent m" and "unat n * unat (point_step m) < 2 ^ 31"
  shows "\<exists>m'. modifier_resize n m = (Inr (), m') \<and> consistent m' \<and> point_step m' = point_step m \<and>
    unat (height m') * unat (width m') = unat n \<and> cloud_fields m' = cloud_fields m \<and>
    cloud_data m' = resized 0 (unat n * unat (point_step m)) (cloud_data m)"
proof -
  have n: "unat (n * point_step m) = unat n * unat (point_step m)"
    using assms(2) unat_mult_small [of n "point_step m"] by simp
  have r: "data_resize (n * point_step m) m =
      Inr (m\<lparr>cloud_data := resized 0 (unat n * unat (point_step m)) (cloud_data m)\<rparr>)"
    using data_resize_ok [of "n * point_step m" m] assms(2) n by simp
  show ?thesis
    using assms(1) n by (auto simp: modifier_resize_def mbind_apply mupdate_apply r consistent_def)
qed

lemma clear_run:
  assumes "consistent m"
  shows "\<exists>m'. modifier_clear m = (Inr (), m') \<and> consistent m' \<and> cloud_data m' = [] \<and>
    unat (height m') * unat (width m') = 0 \<and> cloud_fields m' = cloud_fields m \<and> point_step m' = point_step m"
  using assms by (auto simp: modifier_clear_def Let_def consistent_def)

lemma size_run:
  assumes "consistent m" and "point_step m \<noteq> 0" and "length (cloud_data m) < 2 ^ 32"
  shows "modifier_size m = (Inr (of_nat (unat (height m) * unat (width m))), m)"
proof -
  let ?n = "unat (height m) * unat (width m)"
  have l: "length (cloud_data m) = ?n * unat (point_step m)" using assms(1) by (simp add: consistent_def)
  have p: "0 < unat (point_step m)" using assms(2) by (simp add: unat_gt_0)
  have "unat (of_nat (length (cloud_data m)) :: 32 word) = ?n * unat (point_step m)"
    unfolding unat_of_nat_small [OF assms(3)] by (rule l)
  then have u: "unat (of_nat (length (cloud_data m)) div point_step m) = ?n" using p by (simp add: unat_div)
  have "of_nat (length (cloud_data m)) div point_step m = of_nat ?n"
    unfolding u [symmetric] by simp
  then show ?thesis using assms(2) by (simp add: modifier_size_def)
qed

section \<open>Sessions\<close>

datatype modifier_op =
    Resize size_t
  | Clear
  | Reserve size_t
  | Set_Fields "(string \<times> int \<times> int) list"
  | Set_Fields_By_String "string list"

fun run_op :: "modifier_op \<Rightarrow> (PointCloud2, unit) throwing" where
  "run_op (Resize n) = modifier_resize n"
| "run_op Clear = modifier_clear"
| "run_op (Reserve n) = modifier_reserve n"
| "run_op (Set_Fields vl) = setPointCloud2Fields (int (length vl)) vl"
| "run_op (Set_Fields_By_String vl) = setPointCloud2FieldsByString (int (length vl)) vl"

definition points_fit :: "size_t \<Rightarrow> PointCloud2 \<Rightarrow> bool" where
  "points_fit n m \<longleftrightarrow> unat n * unat (point_step m) < 2 ^ 31"

lemma points_fit_code [code]: "points_fit n m \<longleftrightarrow> uint n * uint (point_step m) < 2 ^ 31"
  unfolding points_fit_def int_less_2p31 [symmetric] of_nat_mult uint_nat ..

definition few_fields :: "'a list \<Rightarrow> bool" where
  "few_fields vl \<longleftrightarrow> length vl \<le> max_size sizeof_PointField"

lemma few_fields_code [code]: "few_fields vl \<longleftrightarrow> int (length vl) \<le> (2 ^ 31 - 1) div int sizeof_PointField"
  unfolding few_fields_def max_size_def by (subst of_nat_le_iff [symmetric, where 'a = int]) (simp add: zdiv_int)

text \<open>An operation that makes sense and whose sizes stay below \<open>2^31\<close>.\<close>

fun op_fits :: "modifier_op \<Rightarrow> PointCloud2 \<Rightarrow> bool" where
  "op_fits (Resize n) m \<longleftrightarrow> points_fit n m"
| "op_fits Clear m \<longleftrightarrow> True"
| "op_fits (Reserve n) m \<longleftrightarrow> points_fit n m"
| "op_fits (Set_Fields vl) m \<longleftrightarrow> list_all valid_field vl \<and> few_fields vl \<and>
     step_fits (sum_list (map requested_bytes vl)) m"
| "op_fits (Set_Fields_By_String vl) m \<longleftrightarrow> set vl \<subseteq> known_groups \<and> few_fields vl \<and>
     step_fits (16 * length vl) m"

fun run_ops :: "modifier_op list \<Rightarrow> (PointCloud2, unit) throwing" where
  "run_ops [] = mreturn ()"
| "run_ops (a # as) = mbind (run_op a) (\<lambda>_. run_ops as)"

fun ops_fit :: "modifier_op list \<Rightarrow> PointCloud2 \<Rightarrow> bool" where
  "ops_fit [] m \<longleftrightarrow> True"
| "ops_fit (a # as) m \<longleftrightarrow> op_fits a m \<and> ops_fit as (snd (run_op a m))"

lemma reserve_run: "unat n * unat (point_step m) < 2 ^ 31 \<Longrightarrow> modifier_reserve n m = (Inr (), m)"
  using unat_mult_small [of n "point_step m"]
  by (simp add: modifier_reserve_def mupdate_apply vector_reserve_def within_max_def max_size_def)

lemma run_op_consistent:
  assumes "consistent m" "op_fits a m"
  shows "\<exists>m'. run_op a m = (Inr (), m') \<and> consistent m'"
proof (cases a)
  case (Resize n)
  then show ?thesis using resize_run [of m n] assms by (auto simp: points_fit_def)
next
  case Clear
  then show ?thesis using clear_run [of m] assms by auto
next
  case (Reserve n)
  then show ?thesis using reserve_run [of n m] assms by (auto simp: points_fit_def)
next
  case (Set_Fields vl)
  then show ?thesis using set_fields_run [of vl _ m] assms by (auto simp: list_all_iff few_fields_def)
next
  case (Set_Fields_By_String vl)
  then show ?thesis using by_string_run [of vl m] assms by (auto simp: few_fields_def)
qed

text \<open>
  C26: over any sequence of operations of the modifier whose sizes stay below \<open>2^31\<close>, every
  operation succeeds and the message stays consistent: a row is as long as its points, and the
  data is as long as the rows.
\<close>

theorem modifier_keeps_consistent:
  assumes "consistent m" and "ops_fit as m"
  shows "\<exists>m'. run_ops as m = (Inr (), m') \<and> consistent m'"
  using assms
proof (induction as arbitrary: m)
  case (Cons a as)
  obtain m1 where "run_op a m = (Inr (), m1)" "consistent m1"
    using run_op_consistent [of m a] Cons.prems by auto
  then show ?case using Cons.IH [of m1] Cons.prems by simp
qed simp

definition fresh_cloud :: PointCloud2 where
  "fresh_cloud = \<lparr>cloud_header = \<lparr>stamp_sec = 0, stamp_nanosec = 0, frame_id = []\<rparr>, height = 0, width = 0,
     cloud_fields = [], is_bigendian = False, point_step = 0, row_step = 0, cloud_data = [], is_dense = False\<rparr>"

definition sample_session :: "modifier_op list" where
  "sample_session = [Set_Fields_By_String [''xyz'', ''rgb''], Resize 3, Clear, Resize 1,
     Set_Fields [(''i'', 2, 4)], Resize 2]"

theorem modifier_keeps_consistent_witness:
  "\<exists>m'. run_ops sample_session fresh_cloud = (Inr (), m') \<and> consistent m'"
proof (rule modifier_keeps_consistent)
  show "consistent fresh_cloud" by (simp add: consistent_def fresh_cloud_def)
  show "ops_fit sample_session fresh_cloud" by code_simp
qed

text \<open>
  C25: setting the fields puts the requested fields end to end, in order, without a gap or an
  overlap, the size of a point being the end of the last one.
\<close>

theorem setPointCloud2Fields_correct:
  assumes "\<forall>v \<in> set vl. valid_field v" and "length vl \<le> max_size sizeof_PointField"
    and "st = sum_list (map requested_bytes vl)" and "step_fits st m"
  shows "case setPointCloud2Fields (int (length vl)) vl m of
      (Inl e, m') \<Rightarrow> False
    | (Inr u, m') \<Rightarrow> map field_of (cloud_fields m') = vl \<and> tiles (cloud_fields m') 0 st \<and>
        unat (point_step m') = st \<and> consistent m'"
  using set_fields_run [OF assms] by auto

theorem setPointCloud2Fields_correct_witness:
  "case setPointCloud2Fields 2 [(''a'', 3, 2), (''b'', 1, 8)] fresh_cloud of
      (Inl e, m') \<Rightarrow> False
    | (Inr u, m') \<Rightarrow> map field_of (cloud_fields m') = [(''a'', 3, 2), (''b'', 1, 8)] \<and>
        tiles (cloud_fields m') 0 11 \<and> unat (point_step m') = 11 \<and> consistent m'"
proof -
  let ?vl = "[(''a'', 3, 2), (''b'', 1, 8)] :: (string \<times> int \<times> int) list"
  have "case setPointCloud2Fields (int (length ?vl)) ?vl fresh_cloud of
      (Inl e, m') \<Rightarrow> False
    | (Inr u, m') \<Rightarrow> map field_of (cloud_fields m') = ?vl \<and>
        tiles (cloud_fields m') 0 11 \<and> unat (point_step m') = 11 \<and> consistent m'"
    by (rule setPointCloud2Fields_correct)
      (simp_all add: valid_field_def requested_bytes_def datatype_size_def sizeOfPointField_def datatype_defs
        step_fits_def fresh_cloud_def max_size_def sizeof_PointField_def)
  then show ?thesis by simp
qed

text \<open>
  Resizing a consistent message to \<open>n\<close> points makes it a message of \<open>n\<close> points: the points
  that were there and still fit keep their bytes, new points are zero, and the size is \<open>n\<close>.
\<close>

lemma modifier_resize_correct:
  assumes "consistent m" and "point_step m \<noteq> 0" and "unat n * unat (point_step m) < 2 ^ 31"
  shows "case modifier_resize n m of
      (Inl e, m') \<Rightarrow> False
    | (Inr u, m') \<Rightarrow> cloud_data m' = resized 0 (unat n * unat (point_step m)) (cloud_data m) \<and>
        unat (height m') * unat (width m') = unat n \<and> consistent m' \<and> modifier_size m' = (Inr n, m')"
proof -
  obtain m' where m': "modifier_resize n m = (Inr (), m')" "consistent m'" "point_step m' = point_step m"
    "unat (height m') * unat (width m') = unat n"
    "cloud_data m' = resized 0 (unat n * unat (point_step m)) (cloud_data m)"
    using resize_run [OF assms(1,3)] by blast
  have "modifier_size m' = (Inr n, m')"
    using size_run [OF m'(2)] m' assms(2,3) by simp
  then show ?thesis using m' by simp
qed

section \<open>Where the methods go wrong\<close>

text \<open>
  An unknown datatype throws after the field has been added, and the fields are then those asked
  for so far, with the size of a point and the data of before; an unknown name does the same.
\<close>

lemma unknown_datatype_leaves_fields:
  "case setPointCloud2Fields 2 [(''a'', 1, 7), (''b'', 1, 9)] fresh_cloud of
     (Inr u, m') \<Rightarrow> False
   | (Inl e, m') \<Rightarrow> e = Runtime_Error ''PointField of type 9 does not exist'' \<and>
       map field_name (cloud_fields m') = [''a'', ''b''] \<and> point_step m' = 0"
  by code_simp

text \<open>The product of size and step is not checked: here the data has 4 bytes for \<open>2^30 + 1\<close> points.\<close>

lemma resize_wraps:
  "case modifier_resize 0x40000001 (fresh_cloud\<lparr>point_step := 4\<rparr>) of
     (Inl e, m') \<Rightarrow> False
   | (Inr u, m') \<Rightarrow> length (cloud_data m') = 4 \<and> width m' = 0x40000001"
  by code_simp

end
