(* ===== verification/Point_Cloud_Iterator.thy ===== *)
theory Point_Cloud_Iterator
  imports Point_Cloud_Modifier
begin

text \<open>
  \<^verbatim>\<open>PointCloud2Iterator\<close> and \<^verbatim>\<open>PointCloud2ConstIterator\<close> (one template): an iterator over one field of
  every point. A pointer into the data of the message is its distance in bytes from the first
  byte; the type of the values is given by its size \<open>k\<close>, a value is its \<open>k\<close> bytes. (The iterator
  made by the default constructor points nowhere and is not modelled.)
\<close>

section \<open>The iterator\<close>

record iterator =
  it_point_step :: int
  data_char :: int
  it_data :: int
  data_end :: int
  it_bigendian :: bool

definition find_field :: "(PointField \<Rightarrow> bool) \<Rightarrow> PointCloud2 \<Rightarrow> PointField option" where
  "find_field P m = List.find P (cloud_fields m)"

definition no_field :: "string \<Rightarrow> cpp_error" where
  "no_field name = Runtime_Error (''Field '' @ name @ '' does not exist'')"

text \<open>
  The offset of a field; r, g, b and a are found in a field rgb or rgba when no field has that
  name.
\<close>

definition set_field :: "PointCloud2 \<Rightarrow> string \<Rightarrow> int outcome" where
  "set_field m name =
     (case find_field (\<lambda>f. field_name f = name) m of
        Some f \<Rightarrow> Inr (int_of_uint32 (field_offset f))
      | None \<Rightarrow>
          if name = ''r'' \<or> name = ''g'' \<or> name = ''b'' \<or> name = ''a'' then
            (case find_field (\<lambda>f. field_name f = ''rgb'' \<or> field_name f = ''rgba'') m of
               None \<Rightarrow> Inl (no_field name)
             | Some f \<Rightarrow>
                 if name = ''r'' then Inr (int_of_uint32 (field_offset f + (if is_bigendian m then 1 else 2)))
                 else if name = ''g'' then Inr (int_of_uint32 (field_offset f + (if is_bigendian m then 2 else 1)))
                 else if name = ''b'' then Inr (int_of_uint32 (field_offset f + (if is_bigendian m then 3 else 0)))
                 else Inr (int_of_uint32 (field_offset f + (if is_bigendian m then 0 else 3))))
          else Inl (no_field name))"

text \<open>The constructor; the first and the last byte of an empty vector may not be asked for.\<close>

definition make_iterator :: "PointCloud2 \<Rightarrow> string \<Rightarrow> iterator outcome" where
  "make_iterator m name =
     obind (set_field m name) (\<lambda>ofs.
     if cloud_data m = [] then Inl (Undefined OutOfBounds)
     else Inr \<lparr>it_point_step = int_of_uint32 (point_step m), data_char = ofs, it_data = ofs,
            data_end = int (length (cloud_data m)) + ofs, it_bigendian = is_bigendian m\<rparr>)"

definition it_assign :: "iterator \<Rightarrow> iterator \<Rightarrow> iterator" where
  "it_assign self other = self\<lparr>it_point_step := it_point_step other, data_char := data_char other,
     it_data := it_data other, data_end := data_end other, it_bigendian := it_bigendian other\<rparr>"

text \<open>Access to the bytes at a pointer.\<close>

definition bytes_at :: "PointCloud2 \<Rightarrow> int \<Rightarrow> nat \<Rightarrow> uint8_t list outcome" where
  "bytes_at m q k = (if q < 0 then Inl (Undefined OutOfBounds) else bytes_get (cloud_data m) (nat q) k)"

definition put_bytes_at :: "PointCloud2 \<Rightarrow> int \<Rightarrow> uint8_t list \<Rightarrow> PointCloud2 outcome" where
  "put_bytes_at m q bs =
     (if q < 0 then Inl (Undefined OutOfBounds)
      else obind (bytes_put (cloud_data m) (nat q) bs) (\<lambda>d. Inr (m\<lparr>cloud_data := d\<rparr>)))"

definition it_index :: "nat \<Rightarrow> PointCloud2 \<Rightarrow> iterator \<Rightarrow> nat \<Rightarrow> uint8_t list outcome" where
  "it_index k m it i = bytes_at m (it_data it + int (i * k)) k"

definition it_deref :: "nat \<Rightarrow> PointCloud2 \<Rightarrow> iterator \<Rightarrow> uint8_t list outcome" where
  "it_deref k m it = bytes_at m (it_data it) k"

definition it_put :: "PointCloud2 \<Rightarrow> iterator \<Rightarrow> uint8_t list \<Rightarrow> PointCloud2 outcome" where
  "it_put m it bs = put_bytes_at m (it_data it) bs"

definition it_next :: "iterator \<Rightarrow> iterator" where
  "it_next it = (let it = it\<lparr>data_char := data_char it + it_point_step it\<rparr> in it\<lparr>it_data := data_char it\<rparr>)"

definition it_plus :: "iterator \<Rightarrow> int \<Rightarrow> iterator outcome" where
  "it_plus it i =
     obind (int_result (i * it_point_step it)) (\<lambda>d.
     let res = it\<lparr>data_char := data_char it + d\<rparr> in Inr (res\<lparr>it_data := data_char res\<rparr>))"

definition it_advance :: "iterator \<Rightarrow> int \<Rightarrow> iterator outcome" where
  "it_advance it i =
     obind (int_result (i * it_point_step it)) (\<lambda>d.
     let it = it\<lparr>data_char := data_char it + d\<rparr> in Inr (it\<lparr>it_data := data_char it\<rparr>))"

definition it_differs :: "iterator \<Rightarrow> iterator \<Rightarrow> bool" where
  "it_differs it other \<longleftrightarrow> it_data other \<noteq> it_data it"

definition it_end :: "iterator \<Rightarrow> iterator" where
  "it_end it = it\<lparr>it_data := data_end it\<rparr>"

section \<open>The loops of its users\<close>

text \<open>
  The loop of the documentation, \<^verbatim>\<open>for (; it != it.end(); ++it)\<close>, collecting the values. It need not
  end, so it has fuel; \<^term>\<open>None\<close> means that the fuel ran out.
\<close>

fun collect :: "nat \<Rightarrow> nat \<Rightarrow> PointCloud2 \<Rightarrow> iterator \<Rightarrow> uint8_t list list outcome option" where
  "collect 0 k m it = None"
| "collect (Suc fuel) k m it =
     (if it_differs it (it_end it)
      then case it_deref k m it of
             Inl e \<Rightarrow> Some (Inl e)
           | Inr v \<Rightarrow> map_option (\<lambda>r. obind r (\<lambda>vs. Inr (v # vs))) (collect fuel k m (it_next it))
      else Some (Inr []))"

text \<open>Filling: \<^verbatim>\<open>*it = v\<close> and \<^verbatim>\<open>++it\<close> for each value.\<close>

fun store_all :: "uint8_t list list \<Rightarrow> PointCloud2 \<Rightarrow> iterator \<Rightarrow> PointCloud2 outcome" where
  "store_all [] m it = Inr m"
| "store_all (v # vs) m it = obind (it_put m it v) (\<lambda>m. store_all vs m (it_next it))"

section \<open>Iteration over a consistent message\<close>

text \<open>The bytes of the \<open>i\<close>-th point at an offset.\<close>

definition value_at :: "nat \<Rightarrow> nat \<Rightarrow> nat \<Rightarrow> PointCloud2 \<Rightarrow> nat \<Rightarrow> uint8_t list" where
  "value_at k ofs st m i = take k (drop (i * st + ofs) (cloud_data m))"

text \<open>An iterator at the \<open>i\<close>-th of \<open>n\<close> points.\<close>

definition at_point :: "nat \<Rightarrow> nat \<Rightarrow> nat \<Rightarrow> iterator \<Rightarrow> nat \<Rightarrow> bool" where
  "at_point ofs st n it i \<longleftrightarrow> it_point_step it = int st \<and> data_char it = int (i * st + ofs) \<and>
     it_data it = int (i * st + ofs) \<and> data_end it = int (n * st + ofs)"

lemma at_point_next: "at_point ofs st n it i \<Longrightarrow> at_point ofs st n (it_next it) (Suc i)"
  by (simp add: at_point_def it_next_def Let_def algebra_simps)

lemma at_point_differs: "0 < st \<Longrightarrow> at_point ofs st n it i \<Longrightarrow> it_differs it (it_end it) \<longleftrightarrow> i \<noteq> n"
  by (simp add: at_point_def it_differs_def it_end_def) (metis of_nat_eq_iff of_nat_mult mult_cancel2 less_not_refl)

lemma point_in_data:
  fixes i n ofs k st :: nat
  assumes "i < n" "ofs + k \<le> st"
  shows "i * st + ofs + k \<le> n * st"
proof -
  have "i * st + st \<le> n * st" using mult_le_mono1 [of "Suc i" n st] assms(1) by simp
  then show ?thesis using assms(2) by simp
qed

lemma bytes_at_int [simp]: "bytes_at m (int x) k = bytes_get (cloud_data m) x k"
  by (simp add: bytes_at_def)

lemma put_bytes_at_int [simp]:
  "put_bytes_at m (int x) bs = obind (bytes_put (cloud_data m) x bs) (\<lambda>d. Inr (m\<lparr>cloud_data := d\<rparr>))"
  by (simp add: put_bytes_at_def)

lemma collect_points:
  assumes "0 < st" "ofs + k \<le> st" "length (cloud_data m) = n * st"
  shows "at_point ofs st n it i \<Longrightarrow> i + d = n \<Longrightarrow> d < fuel \<Longrightarrow>
    collect fuel k m it = Some (Inr (map (value_at k ofs st m) [i..<n]))"
proof (induction fuel arbitrary: it i d)
  case (Suc fuel)
  show ?case
  proof (cases "i = n")
    case True
    then show ?thesis using at_point_differs [OF assms(1) Suc.prems(1)] by simp
  next
    case False
    then obtain d' where d': "d = Suc d'" using Suc.prems(2) by (cases d) auto
    have i: "i < n" using Suc.prems(2) False by simp
    have "it_data it = int (i * st + ofs)" using Suc.prems(1) by (simp only: at_point_def)
    then have "it_deref k m it = Inr (value_at k ofs st m i)"
      using point_in_data [OF i assms(2)] assms(3)
      by (simp only: it_deref_def bytes_at_int value_at_def bytes_get_def if_True)
    moreover have "collect fuel k m (it_next it) = Some (Inr (map (value_at k ofs st m) [Suc i..<n]))"
      by (rule Suc.IH [OF at_point_next [OF Suc.prems(1)], of d']) (use Suc.prems d' in simp_all)
    ultimately show ?thesis
      using at_point_differs [OF assms(1) Suc.prems(1)] False i by (simp add: upt_conv_Cons)
  qed
qed simp


section \<open>Filling\<close>

lemma value_at_overwrite_same:
  assumes "i < n" "ofs + k \<le> st" "length (cloud_data m) = n * st" "length v = k" "j < n"
  shows "value_at k ofs st (m\<lparr>cloud_data := overwrite (i * st + ofs) v (cloud_data m)\<rparr>) j =
    (if j = i then v else value_at k ofs st m j)"
proof (cases "j = i")
  case True
  then show ?thesis using point_in_data [OF assms(1,2)] assms(3,4) by (simp add: value_at_def)
next
  case False
  have "j * st + ofs + k \<le> i * st + ofs \<or> i * st + ofs + k \<le> j * st + ofs"
    using point_in_data [of j i ofs k st] point_in_data [of i j ofs k st] assms(2) False by (cases "j < i") auto
  then show ?thesis
    using False point_in_data [OF assms(1,2)] assms(3,4)
    by (simp add: value_at_def take_drop_overwrite_other)
qed

lemma value_at_overwrite_other:
  assumes "i < n" "ofs + k \<le> st" "length (cloud_data m) = n * st" "length v = k"
    and "ofs' + k' \<le> st" "ofs' + k' \<le> ofs \<or> ofs + k \<le> ofs'"
  shows "value_at k' ofs' st (m\<lparr>cloud_data := overwrite (i * st + ofs) v (cloud_data m)\<rparr>) j = value_at k' ofs' st m j"
proof -
  have "j * st + ofs' + k' \<le> i * st + ofs \<or> i * st + ofs + k \<le> j * st + ofs'"
  proof (cases i j rule: linorder_cases)
    case less
    then show ?thesis using point_in_data [of i j ofs k st] assms(2) by simp
  next
    case equal
    then show ?thesis using assms(6) by auto
  next
    case greater
    then show ?thesis using point_in_data [of j i ofs' k' st] assms(5) by simp
  qed
  then show ?thesis
    using point_in_data [OF assms(1,2)] assms(3,4) by (simp add: value_at_def take_drop_overwrite_other)
qed

text \<open>What filling from the \<open>i\<close>-th point on leaves: the new values there, everything else as before.\<close>

definition stored :: "nat \<Rightarrow> nat \<Rightarrow> nat \<Rightarrow> nat \<Rightarrow> nat \<Rightarrow> uint8_t list list \<Rightarrow> PointCloud2 \<Rightarrow> uint8_t list \<Rightarrow> bool" where
  "stored k ofs st n i vs m d \<longleftrightarrow> length d = n * st \<and>
     (\<forall>j < n. value_at k ofs st (m\<lparr>cloud_data := d\<rparr>) j =
       (if i \<le> j \<and> j < i + length vs then vs ! (j - i) else value_at k ofs st m j)) \<and>
     (\<forall>ofs' k' j. ofs' + k' \<le> st \<longrightarrow> ofs' + k' \<le> ofs \<or> ofs + k \<le> ofs' \<longrightarrow>
       value_at k' ofs' st (m\<lparr>cloud_data := d\<rparr>) j = value_at k' ofs' st m j)"

lemma stored_own:
  "stored k ofs st n i vs m d \<Longrightarrow> j < n \<Longrightarrow> value_at k ofs st (m\<lparr>cloud_data := d\<rparr>) j =
     (if i \<le> j \<and> j < i + length vs then vs ! (j - i) else value_at k ofs st m j)"
  by (simp add: stored_def)

lemma stored_other:
  "stored k ofs st n i vs m d \<Longrightarrow> ofs' + k' \<le> st \<Longrightarrow> ofs' + k' \<le> ofs \<or> ofs + k \<le> ofs' \<Longrightarrow>
     value_at k' ofs' st (m\<lparr>cloud_data := d\<rparr>) j = value_at k' ofs' st m j"
  by (auto simp: stored_def)

lemma store_points:
  assumes st: "ofs + k \<le> st"
  shows "at_point ofs st n it i \<Longrightarrow> i + length vs \<le> n \<Longrightarrow> \<forall>v \<in> set vs. length v = k \<Longrightarrow>
    length (cloud_data m) = n * st \<Longrightarrow>
    \<exists>d. store_all vs m it = Inr (m\<lparr>cloud_data := d\<rparr>) \<and> stored k ofs st n i vs m d"
proof (induction vs arbitrary: it i m)
  case Nil
  then show ?case by (intro exI [of _ "cloud_data m"]) (auto simp: stored_def)
next
  case (Cons v vs)
  have i: "i < n" and v: "length v = k" using Cons.prems by simp_all
  let ?m = "m\<lparr>cloud_data := overwrite (i * st + ofs) v (cloud_data m)\<rparr>"
  have len: "i * st + ofs + length v \<le> length (cloud_data m)"
    using point_in_data [OF i st] Cons.prems(4) v by simp
  have "it_data it = int (i * st + ofs)" using Cons.prems(1) by (simp only: at_point_def)
  then have put: "it_put m it v = Inr ?m"
    using len by (simp only: it_put_def put_bytes_at_int bytes_put_def if_True obind_simps)
  have "Suc i + length vs \<le> n" "\<forall>v \<in> set vs. length v = k" "length (cloud_data ?m) = n * st"
    using Cons.prems(2-4) len by simp_all
  from Cons.IH [OF at_point_next [OF Cons.prems(1)] this] obtain d where
    d: "store_all vs ?m (it_next it) = Inr (?m\<lparr>cloud_data := d\<rparr>)" "stored k ofs st n (Suc i) vs ?m d"
    by blast
  have same: "?m\<lparr>cloud_data := d\<rparr> = m\<lparr>cloud_data := d\<rparr>" by simp
  have "stored k ofs st n i (v # vs) m d"
    unfolding stored_def
  proof (intro conjI allI impI)
    show "length d = n * st" using d(2) by (simp add: stored_def)
  next
    fix j assume j: "j < n"
    show "value_at k ofs st (m\<lparr>cloud_data := d\<rparr>) j =
        (if i \<le> j \<and> j < i + length (v # vs) then (v # vs) ! (j - i) else value_at k ofs st m j)"
      using stored_own [OF d(2) j, unfolded same] value_at_overwrite_same [OF i st Cons.prems(4) v j]
      by (auto simp: nth_Cons' Suc_le_eq)
  next
    fix ofs' k' j assume o: "ofs' + k' \<le> st" "ofs' + k' \<le> ofs \<or> ofs + k \<le> ofs'"
    from stored_other [OF d(2) o, of j, unfolded same] value_at_overwrite_other [OF i st Cons.prems(4) v o, of j]
    show "value_at k' ofs' st (m\<lparr>cloud_data := d\<rparr>) j = value_at k' ofs' st m j" by simp
  qed
  then show ?case using put d(1) by (intro exI [of _ d]) simp
qed

section \<open>Iterators made from a message\<close>

lemma iterator_at_start:
  assumes "set_field m name = Inr (int ofs)" and "length (cloud_data m) = n * unat (point_step m)"
    and "0 < n" and "0 < unat (point_step m)" and "unat (point_step m) < 2 ^ 31"
  shows "\<exists>it. make_iterator m name = Inr it \<and> at_point ofs (unat (point_step m)) n it 0"
proof -
  have "cloud_data m \<noteq> []" using assms(2-4) by auto
  then show ?thesis
    using assms by (simp add: make_iterator_def at_point_def int_of_uint32_small)
qed

text \<open>
  C27: iterating over a field of a consistent message ends after the last point and reads, in
  order, the bytes of this field of every point.
\<close>

theorem iterator_visits_every_point:
  assumes "consistent m" and "set_field m name = Inr (int ofs)" and "0 < k" and "ofs + k \<le> unat (point_step m)"
    and "unat (point_step m) < 2 ^ 31" and "cloud_data m \<noteq> []" and "n = unat (height m) * unat (width m)"
  shows "\<exists>it. make_iterator m name = Inr it \<and>
    (\<forall>fuel > n. collect fuel k m it = Some (Inr (map (value_at k ofs (unat (point_step m)) m) [0..<n])))"
proof -
  have st: "0 < unat (point_step m)" using assms(3,4) by simp
  have len: "length (cloud_data m) = n * unat (point_step m)" using assms(1,7) by (simp add: consistent_def)
  then have "0 < n" using assms(6) by (cases n) auto
  from iterator_at_start [OF assms(2) len this st assms(5)] obtain it where
    it: "make_iterator m name = Inr it" "at_point ofs (unat (point_step m)) n it 0" by blast
  have "collect fuel k m it = Some (Inr (map (value_at k ofs (unat (point_step m)) m) [0..<n]))" if "n < fuel" for fuel
    by (rule collect_points [OF st assms(4) len it(2) _ that]) simp
  with it(1) show ?thesis by blast
qed

text \<open>Two points with a 32-bit number and a byte.\<close>

definition sample_cloud :: PointCloud2 where
  "sample_cloud = fresh_cloud\<lparr>height := 1, width := 2,
     cloud_fields := [\<lparr>field_name = ''x'', field_offset = 0, field_datatype = 7, field_count = 1\<rparr>,
       \<lparr>field_name = ''i'', field_offset = 4, field_datatype = 2, field_count = 1\<rparr>],
     point_step := 5, row_step := 10, cloud_data := [1, 2, 3, 4, 5, 6, 7, 8, 9, 10]\<rparr>"

lemma sample_cloud_facts:
  "consistent sample_cloud" "point_step sample_cloud = 5" "height sample_cloud = 1" "width sample_cloud = 2"
  "cloud_data sample_cloud = [1, 2, 3, 4, 5, 6, 7, 8, 9, 10]" "set_field sample_cloud ''i'' = Inr 4"
  "set_field sample_cloud ''x'' = Inr 0"
  by (simp_all add: sample_cloud_def fresh_cloud_def consistent_def set_field_def find_field_def int_of_uint32_def)

theorem iterator_visits_every_point_witness:
  "\<exists>it. make_iterator sample_cloud ''i'' = Inr it \<and> collect 3 1 sample_cloud it = Some (Inr [[5], [10]])"
proof -
  have "\<exists>it. make_iterator sample_cloud ''i'' = Inr it \<and> (\<forall>fuel > 2. collect fuel 1 sample_cloud it =
      Some (Inr (map (value_at 1 4 (unat (point_step sample_cloud)) sample_cloud) [0..<2])))"
    by (rule iterator_visits_every_point) (simp_all add: sample_cloud_facts)
  moreover have "map (value_at 1 4 (unat (point_step sample_cloud)) sample_cloud) [0..<2] = [[5], [10]]"
    by (simp add: sample_cloud_facts value_at_def upt_rec)
  ultimately show ?thesis by auto
qed

text \<open>
  Filling a field of every point of a consistent message through an iterator succeeds; reading
  the field back gives the values, reading any field that does not overlap it gives what was there
  before, and nothing but the data of the message has changed.
\<close>

lemma iterators_independent:
  assumes "consistent m" and "set_field m name = Inr (int ofs)" and "0 < k" and "ofs + k \<le> unat (point_step m)"
    and "unat (point_step m) < 2 ^ 31" and "cloud_data m \<noteq> []" and "n = unat (height m) * unat (width m)"
    and "length vs = n" and "\<forall>v \<in> set vs. length v = k"
    and "set_field m name' = Inr (int ofs')" and "ofs' + k' \<le> unat (point_step m)"
    and "ofs' + k' \<le> ofs \<or> ofs + k \<le> ofs'" and "n < fuel"
  shows "\<exists>it it' d. make_iterator m name = Inr it \<and> make_iterator m name' = Inr it' \<and>
    store_all vs m it = Inr (m\<lparr>cloud_data := d\<rparr>) \<and> length d = length (cloud_data m) \<and>
    collect fuel k (m\<lparr>cloud_data := d\<rparr>) it = Some (Inr vs) \<and>
    collect fuel k' (m\<lparr>cloud_data := d\<rparr>) it' = collect fuel k' m it'"
proof -
  let ?st = "unat (point_step m)"
  have st: "0 < ?st" using assms(3,4) by simp
  have len: "length (cloud_data m) = n * ?st" using assms(1,7) by (simp add: consistent_def)
  then have n: "0 < n" using assms(6) by (cases n) auto
  obtain it where it: "make_iterator m name = Inr it" "at_point ofs ?st n it 0"
    using iterator_at_start [OF assms(2) len n st assms(5)] by blast
  obtain it' where it': "make_iterator m name' = Inr it'" "at_point ofs' ?st n it' 0"
    using iterator_at_start [OF assms(10) len n st assms(5)] by blast
  obtain d where d: "store_all vs m it = Inr (m\<lparr>cloud_data := d\<rparr>)" "stored k ofs ?st n 0 vs m d"
    using store_points [OF assms(4) it(2) _ assms(9) len] assms(8) by auto
  have "length d = n * ?st" using d(2) by (simp add: stored_def)
  have len': "length (cloud_data (m\<lparr>cloud_data := d\<rparr>)) = n * ?st" using \<open>length d = n * ?st\<close> by simp
  have own: "collect fuel k (m\<lparr>cloud_data := d\<rparr>) it =
      Some (Inr (map (value_at k ofs ?st (m\<lparr>cloud_data := d\<rparr>)) [0..<n]))"
    by (rule collect_points [OF st assms(4) len' it(2) _ assms(13)]) simp
  have other: "collect fuel k' m' it' = Some (Inr (map (value_at k' ofs' ?st m') [0..<n]))"
    if "length (cloud_data m') = n * ?st" for m'
    by (rule collect_points [OF st assms(11) that it'(2) _ assms(13)]) simp
  have "map (value_at k ofs ?st (m\<lparr>cloud_data := d\<rparr>)) [0..<n] = vs"
    by (rule nth_equalityI) (simp_all add: assms(8) stored_own [OF d(2)])
  moreover have "map (value_at k' ofs' ?st (m\<lparr>cloud_data := d\<rparr>)) [0..<n] = map (value_at k' ofs' ?st m) [0..<n]"
    by (simp add: stored_other [OF d(2) assms(11,12)])
  ultimately show ?thesis using it(1) it'(1) d(1) \<open>length d = n * ?st\<close> own len other [OF len] other [OF len'] by auto
qed

section \<open>Colors\<close>






section \<open>Where iteration goes wrong\<close>

text \<open>
  The end iterator only has its pointer to the value moved: adding to it starts from the iterator
  it was made from.
\<close>

lemma end_plus_starts_over: "it_plus (it_end it) 0 = Inr (it\<lparr>it_data := data_char it\<rparr>)"
  by (simp add: it_plus_def it_end_def is_int_def INT_MIN_def INT_MAX_def)

text \<open>When the data is not a whole number of points, the loop reads past the end of the data.\<close>

lemma collect_ragged:
  assumes "0 < st" "0 < k" "\<not> st dvd length (cloud_data m)"
  shows "it_point_step it = int st \<Longrightarrow> data_char it = int (i * st + ofs) \<Longrightarrow> it_data it = int (i * st + ofs) \<Longrightarrow>
    data_end it = int (length (cloud_data m) + ofs) \<Longrightarrow> i \<le> length (cloud_data m) \<Longrightarrow>
    length (cloud_data m) < i + fuel \<Longrightarrow>
    collect fuel k m it = Some (Inl (Undefined OutOfBounds))"
proof (induction fuel arbitrary: it i)
  case (Suc fuel)
  have "i * st \<noteq> length (cloud_data m)" using assms(3) by (metis dvd_triv_right)
  then have "i * st + ofs \<noteq> length (cloud_data m) + ofs" by simp
  then have differs: "it_differs it (it_end it)"
    unfolding it_differs_def it_end_def by (simp add: Suc.prems(3,4) del: of_nat_add of_nat_mult)
  have deref: "it_deref k m it = bytes_get (cloud_data m) (i * st + ofs) k"
    unfolding it_deref_def Suc.prems(3) by (rule bytes_at_int)
  show ?case
  proof (cases "i * st + ofs + k \<le> length (cloud_data m)")
    case False
    then show ?thesis using differs deref by (simp add: bytes_get_def)
  next
    case True
    have "i \<le> i * st" using assms(1) by simp
    then have i: "Suc i \<le> length (cloud_data m)" using True assms(2) by linarith
    have "collect fuel k m (it_next it) = Some (Inl (Undefined OutOfBounds))"
      by (rule Suc.IH [of _ "Suc i"]) (use Suc.prems i in \<open>simp_all add: it_next_def Let_def algebra_simps\<close>)
    then show ?thesis using differs deref True by (simp add: bytes_get_def)
  qed
qed simp

text \<open>
  On a message whose data is not a whole number of points, the loop over a field does not end
  after the last whole point: it reads past the end of the data.
\<close>

lemma ragged_iteration_overruns:
  assumes "make_iterator m name = Inr it" and "0 < k" and "set_field m name = Inr (int ofs)"
    and "0 < unat (point_step m)" and "unat (point_step m) < 2 ^ 31"
    and "\<not> unat (point_step m) dvd length (cloud_data m)" and "length (cloud_data m) < fuel"
  shows "collect fuel k m it = Some (Inl (Undefined OutOfBounds))"
proof (rule collect_ragged [OF assms(4,2,6), where i = 0 and ofs = ofs])
  show "it_point_step it = int (unat (point_step m))" "data_char it = int (0 * unat (point_step m) + ofs)"
    "it_data it = int (0 * unat (point_step m) + ofs)" "data_end it = int (length (cloud_data m) + ofs)"
    using assms(1,3,5) by (auto simp: make_iterator_def int_of_uint32_small split: if_splits)
qed (use assms(7) in simp_all)

end
