(* ===== verification/Float_Formats.thy ===== *)
theory Float_Formats
  imports Cpp_Library Complex_Main
begin

text \<open>
  The binary floating-point formats of \<^verbatim>\<open>float\<close> and \<^verbatim>\<open>double\<close> and the conversions between them and
  the integers, as a C++ implementation with IEEE 754 arithmetic does them (rounding to the nearest
  value, ties to the even one): numbers are the words that hold them. Main result: a conversion
  yields a value of the format that is nearest to the number converted.
\<close>

section \<open>Formats\<close>

text \<open>A format is given by the number of bits of the fraction, \<open>f\<close>, and of the exponent, \<open>w\<close>.\<close>

definition min_exponent :: "nat \<Rightarrow> nat \<Rightarrow> int" where
  "min_exponent f w = 2 - 2 ^ (w - 1) - int f"

definition infinity_bits :: "nat \<Rightarrow> nat \<Rightarrow> nat" where
  "infinity_bits f w = (2 ^ w - 1) * 2 ^ f"

text \<open>The magnitude \<open>m * 2 ^ e\<close> in the bits of a finite number without its sign.\<close>

definition decode_magnitude :: "nat \<Rightarrow> nat \<Rightarrow> nat \<Rightarrow> nat \<times> int" where
  "decode_magnitude f w bits =
     (let fraction = bits mod 2 ^ f; ex = bits div 2 ^ f
      in if ex = 0 then (fraction, min_exponent f w)
         else (2 ^ f + fraction, min_exponent f w + int ex - 1))"

fun bit_len :: "nat \<Rightarrow> nat" where
  "bit_len m = (if m = 0 then 0 else Suc (bit_len (m div 2)))"

declare bit_len.simps [simp del]

text \<open>Division by \<open>2 ^ k\<close> to the nearest integer, ties to the even one.\<close>

definition round_half_even :: "nat \<Rightarrow> nat \<Rightarrow> nat" where
  "round_half_even m k =
     (let d = m div 2 ^ k; r = m mod 2 ^ k
      in if 2 * r < 2 ^ k \<or> (2 * r = 2 ^ k \<and> even d) then d else d + 1)"

text \<open>The exponent of the last bit that the format has for \<open>m * 2 ^ e\<close>, and the rounded digits.\<close>

definition unit_exponent :: "nat \<Rightarrow> nat \<Rightarrow> nat \<Rightarrow> int \<Rightarrow> int" where
  "unit_exponent f w m e = max (e + int (bit_len m) - int (f + 1)) (min_exponent f w)"

definition rounded_digits :: "nat \<Rightarrow> nat \<Rightarrow> nat \<Rightarrow> int \<Rightarrow> nat" where
  "rounded_digits f w m e =
     (let q = unit_exponent f w m e
      in if q \<le> e then m * 2 ^ nat (e - q) else round_half_even m (nat (q - e)))"

definition encode_magnitude :: "nat \<Rightarrow> nat \<Rightarrow> nat \<Rightarrow> int \<Rightarrow> nat" where
  "encode_magnitude f w m e =
     (if m = 0 then 0
      else min (nat (unit_exponent f w m e - min_exponent f w) * 2 ^ f + rounded_digits f w m e) (infinity_bits f w))"

section \<open>Rounding\<close>

lemma bit_len_bounds: "0 < m \<Longrightarrow> 0 < bit_len m \<and> 2 ^ (bit_len m - 1) \<le> m \<and> m < 2 ^ bit_len m"
proof (induction m rule: bit_len.induct)
  case (1 m)
  show ?case
  proof (cases "m div 2 = 0")
    case True
    then have "m = 1" using 1(2) by auto
    then show ?thesis by (simp add: bit_len.simps)
  next
    case False
    then have "0 < bit_len (m div 2) \<and> 2 ^ (bit_len (m div 2) - 1) \<le> m div 2 \<and> m div 2 < 2 ^ bit_len (m div 2)"
      using 1 by simp
    moreover have "bit_len m = Suc (bit_len (m div 2))" using 1(2) by (subst bit_len.simps) simp
    ultimately show ?thesis by (cases "bit_len (m div 2)") auto
  qed
qed

text \<open>Half a unit: twice the error is at most one unit.\<close>

lemma round_half_even_error: "2 * \<bar>int (round_half_even m k) * 2 ^ k - int m\<bar> \<le> 2 ^ k"
proof -
  let ?d = "m div 2 ^ k" and ?r = "m mod 2 ^ k"
  have pow: "int (2 ^ k) = 2 ^ k" by simp
  have "int m = int (?d * 2 ^ k + ?r)" by (simp only: div_mult_mod_eq)
  then have m: "int m = int ?d * 2 ^ k + int ?r" by (simp only: of_nat_add of_nat_mult pow)
  have r: "int ?r < 2 ^ k" unfolding pow [symmetric] of_nat_less_iff by (rule mod_less_divisor) simp
  have h: "2 * ?r < 2 ^ k \<longleftrightarrow> 2 * int ?r < 2 ^ k" "2 * ?r = 2 ^ k \<longleftrightarrow> 2 * int ?r = 2 ^ k"
    using of_nat_less_iff [of "2 * ?r" "2 ^ k", where 'a = int] of_nat_eq_iff [of "2 * ?r" "2 ^ k", where 'a = int]
    by (simp_all only: of_nat_mult of_nat_numeral pow)
  show ?thesis
  proof (cases "2 * ?r < 2 ^ k \<or> (2 * ?r = 2 ^ k \<and> even ?d)")
    case True
    then have "round_half_even m k = ?d" unfolding round_half_even_def Let_def by (simp only: if_True)
    moreover have "2 * int ?r \<le> 2 ^ k" using True h by auto
    ultimately show ?thesis using m by simp
  next
    case False
    then have "round_half_even m k = ?d + 1" unfolding round_half_even_def Let_def by (simp only: if_False)
    moreover have "2 ^ k \<le> 2 * int ?r" using False h by linarith
    moreover have "int (?d + 1) * 2 ^ k - int m = 2 ^ k - int ?r" using m by (simp add: algebra_simps)
    ultimately show ?thesis using r by simp
  qed
qed

lemma nearer: "2 * \<bar>a - x\<bar> \<le> u \<Longrightarrow> u \<le> \<bar>b - a\<bar> \<Longrightarrow> \<bar>a - x\<bar> \<le> \<bar>b - x\<bar>" for a b u x :: "'a :: linordered_idom"
  by (simp add: abs_if split: if_splits)

lemma round_half_even_le: "m \<le> n * 2 ^ k \<Longrightarrow> round_half_even m k \<le> n"
proof -
  assume a: "m \<le> n * 2 ^ k"
  show "round_half_even m k \<le> n"
  proof (cases "m = n * 2 ^ k")
    case True
    then show ?thesis by (simp add: round_half_even_def)
  next
    case False
    then have "m div 2 ^ k < n" using a by (simp add: div_less_iff_less_mult)
    then show ?thesis by (auto simp: round_half_even_def Let_def)
  qed
qed

lemma round_half_even_ge: "n * 2 ^ k \<le> m \<Longrightarrow> n \<le> round_half_even m k"
  by (auto simp: round_half_even_def Let_def less_eq_div_iff_mult_less_eq intro: le_SucI)

text \<open>A multiple of the unit is never nearer than the rounded number.\<close>

lemma round_half_even_nearest: "\<bar>int (round_half_even m k) * 2 ^ k - int m\<bar> \<le> \<bar>z * 2 ^ k - int m\<bar>"
proof -
  let ?x = "int (round_half_even m k)"
  have e: "2 * \<bar>?x * 2 ^ k - int m\<bar> \<le> 2 ^ k" by (rule round_half_even_error)
  show ?thesis
  proof (cases "z = ?x")
    case False
    then have "1 \<le> \<bar>z - ?x\<bar>" by simp
    then have "2 ^ k \<le> \<bar>z - ?x\<bar> * 2 ^ k" using mult_right_mono [of 1 "\<bar>z - ?x\<bar>" "2 ^ k :: int"] by simp
    also have "\<dots> = \<bar>z * 2 ^ k - ?x * 2 ^ k\<bar>" by (simp add: abs_mult left_diff_distrib [symmetric])
    finally show ?thesis by (rule nearer [OF e])
  qed simp
qed

section \<open>The values of a format\<close>

definition value_of :: "nat \<Rightarrow> int \<Rightarrow> real" where
  "value_of m e = real m * 2 powi e"

lemma powi_pos [simp]: "0 < (2 :: real) powi e"
  by (simp add: zero_less_power_int)

lemma value_of_shift: "value_of (m * 2 ^ k) e = value_of m (e + int k)"
  by (simp add: value_of_def power_int_add)

lemma value_of_int: "e \<le> e' \<Longrightarrow> value_of m e' = real (m * 2 ^ nat (e' - e)) * 2 powi e"
  unfolding value_of_def [of "m * 2 ^ nat (e' - e)" e, symmetric] value_of_shift by simp

lemma value_of_mono: "m \<le> n \<Longrightarrow> value_of m e \<le> value_of n e"
  by (simp add: value_of_def)

text \<open>The rounded digits are the nearest multiple of the unit.\<close>

lemma rounded_nearest_multiple:
  fixes f w m :: nat and e z :: int
  defines "q \<equiv> unit_exponent f w m e"
  shows "\<bar>value_of (rounded_digits f w m e) q - value_of m e\<bar> \<le> \<bar>real_of_int z * 2 powi q - value_of m e\<bar>"
proof (cases "q \<le> e")
  case True
  then have "value_of (rounded_digits f w m e) q = value_of m e"
    by (simp add: rounded_digits_def q_def [symmetric] value_of_shift)
  then show ?thesis by simp
next
  case False
  let ?k = "nat (q - e)" and ?r = "rounded_digits f w m e"
  have r: "?r = round_half_even m ?k" using False by (simp add: rounded_digits_def q_def [symmetric])
  have q: "2 powi q = 2 ^ ?k * (2 :: real) powi e"
  proof -
    have "2 powi (q - e) = (2 :: real) ^ ?k" using False by (simp add: power_int_def)
    then show ?thesis using power_int_add [of "2 :: real" "q - e" e] by simp
  qed
  have scale: "\<bar>real_of_int y * 2 powi q - value_of m e\<bar> = real_of_int \<bar>y * 2 ^ ?k - int m\<bar> * 2 powi e" for y
  proof -
    have "real_of_int y * 2 powi q - value_of m e = real_of_int (y * 2 ^ ?k - int m) * 2 powi e"
      by (simp add: q value_of_def algebra_simps)
    then show ?thesis by (simp only: abs_mult of_int_abs) simp
  qed
  have "value_of ?r q = real_of_int (int ?r) * 2 powi q" by (simp add: value_of_def)
  then have "\<bar>value_of ?r q - value_of m e\<bar> = real_of_int \<bar>int ?r * 2 ^ ?k - int m\<bar> * 2 powi e"
    by (simp only: scale)
  also have "\<dots> \<le> real_of_int \<bar>z * 2 ^ ?k - int m\<bar> * 2 powi e"
    using round_half_even_nearest [of m ?k z] r by (intro mult_right_mono) (simp_all only: of_int_le_iff less_imp_le [OF powi_pos])
  finally show ?thesis by (simp only: scale)
qed

text \<open>The number of digits.\<close>

lemma rounded_upper: "0 < m \<Longrightarrow> rounded_digits f w m e \<le> 2 ^ (f + 1)"
proof -
  assume m: "0 < m"
  let ?q = "unit_exponent f w m e"
  have q: "e + int (bit_len m) - int (f + 1) \<le> ?q" by (simp add: unit_exponent_def)
  have len: "m < 2 ^ bit_len m" using bit_len_bounds [OF m] by simp
  show ?thesis
  proof (cases "?q \<le> e")
    case True
    have "m * 2 ^ nat (e - ?q) \<le> 2 ^ bit_len m * 2 ^ nat (e - ?q)" using len by simp
    also have "\<dots> = 2 ^ (bit_len m + nat (e - ?q))" by (simp add: power_add)
    also have "\<dots> \<le> 2 ^ (f + 1)" by (rule power_increasing) (use q True in simp_all)
    finally show ?thesis using True by (simp add: rounded_digits_def)
  next
    case False
    have "m \<le> 2 ^ bit_len m" using len by simp
    also have "\<dots> \<le> 2 ^ (f + 1 + nat (?q - e))" by (rule power_increasing) (use q False in simp_all)
    also have "\<dots> = 2 ^ (f + 1) * 2 ^ nat (?q - e)" by (rule power_add)
    finally show ?thesis using False round_half_even_le by (simp add: rounded_digits_def)
  qed
qed

lemma normal_lower:
  assumes "0 < m" "unit_exponent f w m e \<noteq> min_exponent f w"
  shows "2 ^ f \<le> rounded_digits f w m e" and "value_of (2 ^ f) (unit_exponent f w m e) \<le> value_of m e"
proof -
  let ?q = "unit_exponent f w m e"
  have q: "?q = e + int (bit_len m) - int (f + 1)" using assms(2) by (simp add: unit_exponent_def max_def split: if_splits)
  have len: "0 < bit_len m" "2 ^ (bit_len m - 1) \<le> m" using bit_len_bounds [OF assms(1)] by simp_all
  have "2 ^ f \<le> rounded_digits f w m e \<and> value_of (2 ^ f) ?q \<le> value_of m e"
  proof (cases "?q \<le> e")
    case True
    have "f = (bit_len m - 1) + nat (e - ?q)" using q True len(1) by simp
    then have "2 ^ f = 2 ^ (bit_len m - 1) * (2 :: nat) ^ nat (e - ?q)" by (simp add: power_add [symmetric])
    then have le: "2 ^ f \<le> m * 2 ^ nat (e - ?q)" using len(2) by simp
    then show ?thesis
      using True value_of_mono [OF le, of ?q] by (simp add: rounded_digits_def value_of_shift)
  next
    case False
    have "f + nat (?q - e) = bit_len m - 1" using q False len(1) by simp
    then have le: "2 ^ f * 2 ^ nat (?q - e) \<le> m" using len(2) by (simp add: power_add [symmetric])
    then show ?thesis
      using False round_half_even_ge [OF le] value_of_mono [OF le, of e] by (simp add: rounded_digits_def value_of_shift)
  qed
  then show "2 ^ f \<le> rounded_digits f w m e" "value_of (2 ^ f) ?q \<le> value_of m e" by simp_all
qed

text \<open>The rounded number is nearest among the numbers with \<open>f + 1\<close> digits.\<close>

lemma rounded_nearest:
  fixes f w m n :: nat and e d :: int
  assumes m: "0 < m" and y: "n < 2 ^ (f + 1)" "min_exponent f w \<le> d"
  defines "q \<equiv> unit_exponent f w m e"
  shows "\<bar>value_of (rounded_digits f w m e) q - value_of m e\<bar> \<le> \<bar>value_of n d - value_of m e\<bar>"
proof (cases "q \<le> d")
  case True
  show ?thesis
    using rounded_nearest_multiple [of f w m e "int (n * 2 ^ nat (d - q))"] value_of_int [OF True, of n]
    by (simp add: q_def)
next
  case False
  then have normal: "unit_exponent f w m e \<noteq> min_exponent f w" using y(2) by (simp add: q_def)
  have "value_of n d \<le> value_of (2 ^ (f + 1)) d" using y(1) by (intro value_of_mono) simp
  also have "\<dots> = value_of (2 ^ f) (d + 1)" using value_of_shift [of "2 ^ f" 1 d] by (simp add: mult.commute)
  also have "\<dots> \<le> value_of (2 ^ f) q"
    using False power_int_increasing [of "d + 1" q "2 :: real"] by (simp add: value_of_def mult_left_mono)
  finally have "value_of n d \<le> value_of (2 ^ f) q" .
  moreover have "value_of (2 ^ f) q \<le> value_of m e" unfolding q_def by (rule normal_lower(2) [OF m normal])
  moreover have "\<bar>value_of (rounded_digits f w m e) q - value_of m e\<bar> \<le> \<bar>value_of (2 ^ f) q - value_of m e\<bar>"
    using rounded_nearest_multiple [of f w m e "2 ^ f"] by (simp add: q_def value_of_def)
  ultimately show ?thesis by linarith
qed

section \<open>Encoding and decoding\<close>

lemma decode_parts:
  assumes "a < 2 ^ f"
  shows "decode_magnitude f w (j * 2 ^ f + a) =
    (if j = 0 then (a, min_exponent f w) else (2 ^ f + a, min_exponent f w + int j - 1))"
proof -
  have "(a + j * 2 ^ f) div 2 ^ f = j + a div 2 ^ f" by (rule div_mult_self1) simp
  then have d: "(j * 2 ^ f + a) div 2 ^ f = j" using div_less [OF assms] by (simp add: add.commute)
  have "(a + j * 2 ^ f) mod 2 ^ f = a mod 2 ^ f" by (rule mod_mult_self1)
  then have "(j * 2 ^ f + a) mod 2 ^ f = a" using mod_less [OF assms] by (simp add: add.commute)
  with d show ?thesis by (simp add: decode_magnitude_def Let_def)
qed

lemma decode_encode:
  assumes "0 < m" "encode_magnitude f w m e < infinity_bits f w"
    and "decode_magnitude f w (encode_magnitude f w m e) = (m', e')"
  shows "value_of m' e' = value_of (rounded_digits f w m e) (unit_exponent f w m e) \<and>
    m' < 2 ^ (f + 1) \<and> min_exponent f w \<le> e'"
proof -
  let ?q = "unit_exponent f w m e" and ?r = "rounded_digits f w m e" and ?min = "min_exponent f w"
  let ?j = "nat (?q - ?min)"
  have q: "?min \<le> ?q" by (simp add: unit_exponent_def)
  have bits: "encode_magnitude f w m e = ?j * 2 ^ f + ?r"
    using assms(1,2) by (simp add: encode_magnitude_def min_def split: if_splits)
  have up: "?r \<le> 2 * 2 ^ f" using rounded_upper [OF assms(1), of f w e] by simp
  have low: "2 ^ f \<le> ?r \<or> ?j = 0" using normal_lower(1) [OF assms(1), of f w e] q by auto
  consider "?r < 2 ^ f" | "2 ^ f \<le> ?r" "?r < 2 * 2 ^ f" | "?r = 2 * 2 ^ f" using up by linarith
  then show ?thesis
  proof cases
    case 1
    then have "?j = 0" using low by simp
    then show ?thesis using 1 bits assms(3) q decode_parts [OF 1, of w 0] by auto
  next
    case 2
    then obtain a where a: "?r = 2 ^ f + a" "a < 2 ^ f" by (metis add_less_cancel_left le_iff_add mult_2)
    have "encode_magnitude f w m e = (?j + 1) * 2 ^ f + a" using bits a by (simp add: algebra_simps)
    then have "decode_magnitude f w (encode_magnitude f w m e) = (2 ^ f + a, ?q)"
      using decode_parts [OF a(2), of w "?j + 1"] q by simp
    then show ?thesis using a assms(3) q by auto
  next
    case 3
    have "encode_magnitude f w m e = (?j + 2) * 2 ^ f + 0" using bits 3 by (simp add: algebra_simps)
    then have "decode_magnitude f w (encode_magnitude f w m e) = (2 ^ f, ?q + 1)"
      using decode_parts [of 0 f w "?j + 2"] q by simp
    then show ?thesis using 3 assms(3) q value_of_shift [of "2 ^ f" 1 ?q] by (auto simp: mult.commute)
  qed
qed

text \<open>The value of a magnitude in its bits.\<close>

definition magnitude :: "nat \<Rightarrow> nat \<Rightarrow> nat \<Rightarrow> real" where
  "magnitude f w bits = (case decode_magnitude f w bits of (m, e) \<Rightarrow> value_of m e)"

lemma decode_bounds:
  assumes "decode_magnitude f w bits = (n, d)"
  shows "n < 2 ^ (f + 1) \<and> min_exponent f w \<le> d"
proof -
  have a: "bits mod 2 ^ f < 2 ^ f" by (rule mod_less_divisor) simp
  have "bits = bits div 2 ^ f * 2 ^ f + bits mod 2 ^ f" by (rule div_mult_mod_eq [symmetric])
  then show ?thesis
    using assms decode_parts [OF a, of w "bits div 2 ^ f"] a
    by (cases "bits div 2 ^ f = 0") (auto intro: less_le_trans)
qed

lemma encode_nearest:
  assumes "encode_magnitude f w m e < infinity_bits f w"
  shows "\<bar>magnitude f w (encode_magnitude f w m e) - value_of m e\<bar> \<le> \<bar>magnitude f w bits - value_of m e\<bar>"
proof (cases "m = 0")
  case True
  then show ?thesis by (simp add: encode_magnitude_def magnitude_def decode_magnitude_def value_of_def)
next
  case False
  obtain n d where bits: "decode_magnitude f w bits = (n, d)" by fastforce
  obtain m' e' where enc: "decode_magnitude f w (encode_magnitude f w m e) = (m', e')" by fastforce
  show ?thesis
    using decode_encode [OF _ assms enc] rounded_nearest [of m n f w d e] decode_bounds [OF bits] False
    by (simp add: magnitude_def bits enc)
qed

text \<open>Exact when the number has few digits.\<close>

lemma encode_exact:
  assumes "encode_magnitude f w m e < infinity_bits f w" "m < 2 ^ (f + 1)" "min_exponent f w \<le> e"
  shows "magnitude f w (encode_magnitude f w m e) = value_of m e"
proof (cases "m = 0")
  case True
  then show ?thesis by (simp add: encode_magnitude_def magnitude_def decode_magnitude_def value_of_def)
next
  case False
  obtain m' e' where enc: "decode_magnitude f w (encode_magnitude f w m e) = (m', e')" by fastforce
  show ?thesis
    using decode_encode [OF _ assms(1) enc] rounded_nearest [OF _ assms(2,3), of m e] False
    by (simp add: magnitude_def enc)
qed

end
