(* ===== verification/Point_Field_Conversion.thy ===== *)
theory Point_Field_Conversion
  imports Float_Formats Point_Cloud
begin

text \<open>
  \<^verbatim>\<open>sensor_msgs/point_field_conversion.hpp\<close>: reading a number of any of the eight types of a point
  field from the bytes of a message, converted to the type the caller asks for. The targets are
  little-endian; a \<^verbatim>\<open>float\<close> is the 32-bit word that holds it, a \<^verbatim>\<open>double\<close> the 64-bit word.
\<close>

section \<open>Numbers\<close>

datatype point_type = T_int8 | T_uint8 | T_int16 | T_uint16 | T_int32 | T_uint32 | T_float | T_double

datatype number = Int_number int | Float_number uint32_t | Double_number uint64_t

definition pointFieldTypeAsType :: "int \<Rightarrow> point_type option" where
  "pointFieldTypeAsType dt =
     (if dt = INT8 then Some T_int8 else if dt = UINT8 then Some T_uint8
      else if dt = INT16 then Some T_int16 else if dt = UINT16 then Some T_uint16
      else if dt = INT32 then Some T_int32 else if dt = UINT32 then Some T_uint32
      else if dt = FLOAT32 then Some T_float else if dt = FLOAT64 then Some T_double
      else None)"

fun typeAsPointFieldType :: "point_type \<Rightarrow> int" where
  "typeAsPointFieldType T_int8 = INT8"
| "typeAsPointFieldType T_uint8 = UINT8"
| "typeAsPointFieldType T_int16 = INT16"
| "typeAsPointFieldType T_uint16 = UINT16"
| "typeAsPointFieldType T_int32 = INT32"
| "typeAsPointFieldType T_uint32 = UINT32"
| "typeAsPointFieldType T_float = FLOAT32"
| "typeAsPointFieldType T_double = FLOAT64"

fun sizeof_type :: "point_type \<Rightarrow> nat" where
  "sizeof_type T_int8 = 1"
| "sizeof_type T_uint8 = 1"
| "sizeof_type T_int16 = 2"
| "sizeof_type T_uint16 = 2"
| "sizeof_type T_int32 = 4"
| "sizeof_type T_uint32 = 4"
| "sizeof_type T_float = 4"
| "sizeof_type T_double = 8"

text \<open>A number in its bytes.\<close>

definition read_typed :: "point_type \<Rightarrow> uint8_t list \<Rightarrow> number" where
  "read_typed t bs =
     (let w = rev bs in
      case t of
        T_int8 \<Rightarrow> Int_number (sint (word_rcat w :: 8 word))
      | T_uint8 \<Rightarrow> Int_number (uint (word_rcat w :: 8 word))
      | T_int16 \<Rightarrow> Int_number (sint (word_rcat w :: 16 word))
      | T_uint16 \<Rightarrow> Int_number (uint (word_rcat w :: 16 word))
      | T_int32 \<Rightarrow> Int_number (sint (word_rcat w :: 32 word))
      | T_uint32 \<Rightarrow> Int_number (uint (word_rcat w :: 32 word))
      | T_float \<Rightarrow> Float_number (word_rcat w)
      | T_double \<Rightarrow> Double_number (word_rcat w))"

section \<open>Conversions\<close>

text \<open>What a word of a format stands for: a sign with digits and an exponent, or no number.\<close>

datatype real_number = NaN bool nat | Infinite bool | Finite bool nat int

definition unpack :: "nat \<Rightarrow> nat \<Rightarrow> nat \<Rightarrow> real_number" where
  "unpack f w bits =
     (let negative = odd (bits div 2 ^ (f + w)); mag = bits mod 2 ^ (f + w)
      in if infinity_bits f w < mag then NaN negative (mag - infinity_bits f w)
         else if mag = infinity_bits f w then Infinite negative
         else case decode_magnitude f w mag of (m, e) \<Rightarrow> Finite negative m e)"

definition sign_bits :: "nat \<Rightarrow> nat \<Rightarrow> bool \<Rightarrow> nat" where
  "sign_bits f w negative = (if negative then 2 ^ (f + w) else 0)"

text \<open>A NaN keeps its sign and is quiet; the digits behind are for a fraction of \<open>f\<close> bits.\<close>

fun pack :: "nat \<Rightarrow> nat \<Rightarrow> real_number \<Rightarrow> nat" where
  "pack f w (Finite negative m e) = sign_bits f w negative + encode_magnitude f w m e"
| "pack f w (Infinite negative) = sign_bits f w negative + infinity_bits f w"
| "pack f w (NaN negative fraction) =
     sign_bits f w negative + infinity_bits f w + 2 ^ (f - 1) + fraction mod 2 ^ (f - 1)"

fun rescale_nan :: "nat \<Rightarrow> nat \<Rightarrow> real_number \<Rightarrow> real_number" where
  "rescale_nan f f' (NaN negative fraction) =
     NaN negative (if f \<le> f' then fraction * 2 ^ (f' - f) else fraction div 2 ^ (f - f'))"
| "rescale_nan f f' x = x"

definition float_of_number :: "real_number \<Rightarrow> uint32_t" where
  "float_of_number x = of_nat (pack 23 8 x)"

definition double_of_number :: "real_number \<Rightarrow> uint64_t" where
  "double_of_number x = of_nat (pack 52 11 x)"

fun real_of_int_number :: "int \<Rightarrow> real_number" where
  "real_of_int_number i = Finite (i < 0) (nat \<bar>i\<bar>) 0"

text \<open>Towards zero; a value that the type does not have is undefined behaviour.\<close>

fun truncate :: "real_number \<Rightarrow> int option" where
  "truncate (Finite negative m e) =
     (let i = int (if 0 \<le> e then m * 2 ^ nat e else m div 2 ^ nat (- e)) in Some (if negative then - i else i))"
| "truncate (Infinite negative) = None"
| "truncate (NaN negative fraction) = None"

fun int_range :: "point_type \<Rightarrow> int \<times> int" where
  "int_range T_int8 = (- (2 ^ 7), 2 ^ 7 - 1)"
| "int_range T_uint8 = (0, 2 ^ 8 - 1)"
| "int_range T_int16 = (- (2 ^ 15), 2 ^ 15 - 1)"
| "int_range T_uint16 = (0, 2 ^ 16 - 1)"
| "int_range T_int32 = (- (2 ^ 31), 2 ^ 31 - 1)"
| "int_range T_uint32 = (0, 2 ^ 32 - 1)"
| "int_range t = (0, -1)"

definition int_of_number :: "point_type \<Rightarrow> real_number \<Rightarrow> number outcome" where
  "int_of_number t x =
     (case truncate x of
        None \<Rightarrow> Inl (Undefined ConversionOverflow)
      | Some i \<Rightarrow> if fst (int_range t) \<le> i \<and> i \<le> snd (int_range t) then Inr (Int_number i)
                 else Inl (Undefined ConversionOverflow))"

text \<open>An integer that the type does not have is reduced modulo its width.\<close>

definition wrap_int :: "point_type \<Rightarrow> int \<Rightarrow> int" where
  "wrap_int t i =
     (let lo = fst (int_range t); n = snd (int_range t) - lo + 1 in (i - lo) mod n + lo)"

fun static_cast :: "point_type \<Rightarrow> number \<Rightarrow> number outcome" where
  "static_cast T_float (Int_number i) = Inr (Float_number (float_of_number (real_of_int_number i)))"
| "static_cast T_float (Float_number x) = Inr (Float_number x)"
| "static_cast T_float (Double_number x) =
     Inr (Float_number (float_of_number (rescale_nan 52 23 (unpack 52 11 (unat x)))))"
| "static_cast T_double (Int_number i) = Inr (Double_number (double_of_number (real_of_int_number i)))"
| "static_cast T_double (Float_number x) =
     Inr (Double_number (double_of_number (rescale_nan 23 52 (unpack 23 8 (unat x)))))"
| "static_cast T_double (Double_number x) = Inr (Double_number x)"
| "static_cast t (Int_number i) = Inr (Int_number (wrap_int t i))"
| "static_cast t (Float_number x) = int_of_number t (unpack 23 8 (unat x))"
| "static_cast t (Double_number x) = int_of_number t (unpack 52 11 (unat x))"

section \<open>Reading\<close>

text \<open>The template with a datatype of the field, and the one that takes it as an argument.\<close>

definition read_as :: "point_type \<Rightarrow> point_type \<Rightarrow> uint8_t list \<Rightarrow> nat \<Rightarrow> number outcome" where
  "read_as field t data i = obind (bytes_get data i (sizeof_type field)) (\<lambda>bs. static_cast t (read_typed field bs))"

definition zero_of :: "point_type \<Rightarrow> number" where
  "zero_of t = (case t of T_float \<Rightarrow> Float_number 0 | T_double \<Rightarrow> Double_number 0 | _ \<Rightarrow> Int_number 0)"

definition readPointCloud2BufferValue :: "point_type \<Rightarrow> uint8_t list \<Rightarrow> nat \<Rightarrow> uint8_t \<Rightarrow> number outcome" where
  "readPointCloud2BufferValue t data i datatype =
     (let dt = uint datatype in
      if dt = INT8 then read_as T_int8 t data i
      else if dt = UINT8 then read_as T_uint8 t data i
      else if dt = INT16 then read_as T_int16 t data i
      else if dt = UINT16 then read_as T_uint16 t data i
      else if dt = INT32 then read_as T_int32 t data i
      else if dt = UINT32 then read_as T_uint32 t data i
      else if dt = FLOAT32 then read_as T_float t data i
      else if dt = FLOAT64 then read_as T_double t data i
      else Inr (zero_of t))"

lemma type_mappings:
  "pointFieldTypeAsType (typeAsPointFieldType t) = Some t"
  "sizeOfPointField (typeAsPointFieldType t) = Inr (int (sizeof_type t))"
  by (cases t; simp add: pointFieldTypeAsType_def sizeOfPointField_def datatype_defs)+

lemma read_by_datatype:
  "uint datatype = typeAsPointFieldType field \<Longrightarrow> readPointCloud2BufferValue t data i datatype = read_as field t data i"
  by (cases field) (simp_all add: readPointCloud2BufferValue_def datatype_defs)

section \<open>What the numbers stand for\<close>

fun real_value :: "real_number \<Rightarrow> real option" where
  "real_value (Finite negative m e) = Some (if negative then - value_of m e else value_of m e)"
| "real_value (Infinite negative) = None"
| "real_value (NaN negative fraction) = None"

fun number_value :: "number \<Rightarrow> real option" where
  "number_value (Int_number i) = Some (real_of_int i)"
| "number_value (Float_number x) = real_value (unpack 23 8 (unat x))"
| "number_value (Double_number x) = real_value (unpack 52 11 (unat x))"

lemma infinity_less: "0 < w \<Longrightarrow> infinity_bits f w < 2 ^ (f + w)"
  by (simp add: infinity_bits_def power_add mult.commute)

lemma encode_le: "encode_magnitude f w m e \<le> infinity_bits f w"
  by (simp add: encode_magnitude_def)

lemma unpack_signed:
  assumes "mag < 2 ^ (f + w)"
  shows "unpack f w (sign_bits f w negative + mag) =
    (if infinity_bits f w < mag then NaN negative (mag - infinity_bits f w)
     else if mag = infinity_bits f w then Infinite negative
     else case decode_magnitude f w mag of (m, e) \<Rightarrow> Finite negative m e)"
proof -
  let ?b = "if negative then 1 else 0 :: nat"
  have s: "sign_bits f w negative + mag = mag + ?b * 2 ^ (f + w)" by (simp add: sign_bits_def)
  have "(mag + ?b * 2 ^ (f + w)) div 2 ^ (f + w) = ?b + mag div 2 ^ (f + w)" by (rule div_mult_self1) simp
  then have d: "(sign_bits f w negative + mag) div 2 ^ (f + w) = ?b" using div_less [OF assms] s by simp
  have "(mag + ?b * 2 ^ (f + w)) mod 2 ^ (f + w) = mag mod 2 ^ (f + w)" by (rule mod_mult_self1)
  then have "(sign_bits f w negative + mag) mod 2 ^ (f + w) = mag" using mod_less [OF assms] s by simp
  with d show ?thesis by (simp add: unpack_def Let_def)
qed

lemma real_value_signed:
  assumes "mag < infinity_bits f w" "0 < w"
  shows "real_value (unpack f w (sign_bits f w negative + mag)) =
    Some (if negative then - magnitude f w mag else magnitude f w mag)"
proof -
  have "mag < 2 ^ (f + w)" using assms infinity_less [of w f] by linarith
  then show ?thesis
    using assms(1) by (simp add: unpack_signed magnitude_def split: prod.split)
qed

text \<open>Every finite number of a format is a sign and a magnitude.\<close>

lemma real_value_cases:
  assumes "real_value (unpack f w bits) = Some b"
  obtains negative mag where "mag < infinity_bits f w" "b = (if negative then - magnitude f w mag else magnitude f w mag)"
proof -
  let ?mag = "bits mod 2 ^ (f + w)"
  show ?thesis
    by (rule that [of ?mag "odd (bits div 2 ^ (f + w))"])
      (use assms in \<open>auto simp: unpack_def magnitude_def Let_def split: if_splits prod.splits\<close>)
qed

lemma magnitude_nonneg: "0 \<le> magnitude f w mag"
  by (simp add: magnitude_def value_of_def split: prod.split)

lemma magnitude_0: "magnitude f w 0 = 0"
  by (simp add: magnitude_def decode_magnitude_def value_of_def)

text \<open>Packing a finite number gives infinity or the nearest number of the format.\<close>

lemma pack_nearest:
  assumes w: "0 < w" and u: "real_value (unpack f w (pack f w (Finite negative m e))) = Some u"
    and b: "real_value (unpack f w bits) = Some b"
  defines "v \<equiv> if negative then - value_of m e else value_of m e"
  shows "\<bar>u - v\<bar> \<le> \<bar>b - v\<bar>"
proof -
  let ?mag = "encode_magnitude f w m e"
  have "?mag < 2 ^ (f + w)" using encode_le [of f w m e] infinity_less [OF w, of f] by linarith
  then have mag: "?mag < infinity_bits f w"
    using u encode_le [of f w m e] by (simp add: unpack_signed split: if_splits)
  have x: "0 \<le> value_of m e" by (simp add: value_of_def)
  have u': "\<bar>u - v\<bar> = \<bar>magnitude f w ?mag - value_of m e\<bar>"
    using u real_value_signed [OF mag w, of negative] by (auto simp: v_def)
  obtain neg' mag' where b': "b = (if neg' then - magnitude f w mag' else magnitude f w mag')"
    using real_value_cases [OF b] by metis
  show ?thesis
  proof (cases "neg' = negative")
    case True
    then have "\<bar>b - v\<bar> = \<bar>magnitude f w mag' - value_of m e\<bar>" by (auto simp: b' v_def)
    then show ?thesis using encode_nearest [OF mag, of mag'] u' by simp
  next
    case False
    then have "\<bar>b - v\<bar> = magnitude f w mag' + value_of m e"
      using x magnitude_nonneg [of f w mag'] by (auto simp: b' v_def)
    then show ?thesis
      using encode_nearest [OF mag, of 0] u' x magnitude_nonneg [of f w mag'] by (simp add: magnitude_0)
  qed
qed

text \<open>Numbers that are not too large are not packed as infinity.\<close>

lemma encode_finite:
  assumes "m < 2 ^ l" "e + int l - int (f + 1) \<le> min_exponent f w + int j" "j + 2 < 2 ^ w - 1"
  shows "encode_magnitude f w m e < infinity_bits f w"
proof (cases "m = 0")
  case True
  have "(0 :: nat) < 2 ^ w - 1" using assms(3) by linarith
  then show ?thesis using True by (simp add: encode_magnitude_def infinity_bits_def)
next
  case False
  then have m: "0 < m" by simp
  have "(2 :: nat) ^ (bit_len m - 1) < 2 ^ l" using bit_len_bounds [OF m] assms(1) by linarith
  then have "bit_len m \<le> l" using bit_len_bounds [OF m] by simp
  then have "unit_exponent f w m e \<le> min_exponent f w + int j"
    using assms(2) by (simp add: unit_exponent_def)
  then have "nat (unit_exponent f w m e - min_exponent f w) \<le> j" by simp
  then have j: "nat (unit_exponent f w m e - min_exponent f w) * 2 ^ f \<le> j * 2 ^ f" by (rule mult_le_mono1)
  have r: "rounded_digits f w m e \<le> 2 * 2 ^ f" using rounded_upper [OF m, of f w e] by simp
  from add_mono [OF j r]
  have "nat (unit_exponent f w m e - min_exponent f w) * 2 ^ f + rounded_digits f w m e \<le> (j + 2) * 2 ^ f"
    by (simp only: add_mult_distrib)
  also have "\<dots> < infinity_bits f w" unfolding infinity_bits_def using assms(3) by (intro mult_strict_right_mono) simp_all
  finally show ?thesis by (simp add: encode_magnitude_def min_def)
qed


lemma unat_float: "unat (float_of_number (Finite negative m e)) = pack 23 8 (Finite negative m e)"
proof -
  have "pack 23 8 (Finite negative m e) < 2 ^ 32"
    using encode_le [of 23 8 m e] by (simp add: sign_bits_def infinity_bits_def)
  then show ?thesis unfolding float_of_number_def by (rule unat_of_nat_small)
qed

text \<open>The value of what is read, whatever its type, is that of a finite number to be packed.\<close>

definition digits_of :: "number \<Rightarrow> real_number" where
  "digits_of x = (case x of Int_number i \<Rightarrow> real_of_int_number i
     | Float_number x \<Rightarrow> unpack 23 8 (unat x) | Double_number x \<Rightarrow> unpack 52 11 (unat x))"

lemma digits_value: "number_value x = real_value (digits_of x)"
  by (cases x) (simp_all add: digits_of_def value_of_def)

lemma real_value_Finite: "real_value x = Some v \<Longrightarrow> \<exists>negative m e. x = Finite negative m e"
  by (cases x) simp_all

lemma cast_to_float:
  assumes "number_value x = Some v"
  shows "\<exists>r. static_cast T_float x = Inr (Float_number r) \<and>
    (\<forall>u. number_value (Float_number r) = Some u \<longrightarrow>
      (\<forall>y b. number_value (Float_number y) = Some b \<longrightarrow> \<bar>u - v\<bar> \<le> \<bar>b - v\<bar>))"
proof (cases "\<exists>x'. x = Float_number x'")
  case True
  then show ?thesis using assms by auto
next
  case False
  have "real_value (digits_of x) = Some v" using assms by (simp only: digits_value)
  from real_value_Finite [OF this] obtain negative m e where d: "digits_of x = Finite negative m e" by blast
  then have v: "v = (if negative then - value_of m e else value_of m e)"
    using assms by (simp add: digits_value)
  have cast: "static_cast T_float x = Inr (Float_number (float_of_number (Finite negative m e)))"
    using False d by (cases x) (simp_all add: digits_of_def)
  show ?thesis
  proof (intro exI [of _ "float_of_number (Finite negative m e)"] conjI cast allI impI)
    fix u y b
    assume u: "number_value (Float_number (float_of_number (Finite negative m e))) = Some u"
      and b: "number_value (Float_number y) = Some b"
    show "\<bar>u - v\<bar> \<le> \<bar>b - v\<bar>"
      unfolding v by (rule pack_nearest [OF _ u [unfolded number_value.simps unat_float] b [unfolded number_value.simps]]) simp
  qed
qed

text \<open>Integers of at most 24 bits are converted exactly.\<close>

lemma small_int_exact:
  assumes "\<bar>i\<bar> < 2 ^ 24"
  shows "number_value (Float_number (float_of_number (real_of_int_number i))) = Some (real_of_int i)"
proof -
  let ?m = "nat \<bar>i\<bar>"
  have m: "?m < 2 ^ 24" using assms by (simp add: nat_less_iff)
  have finite: "encode_magnitude 23 8 ?m 0 < infinity_bits 23 8"
    by (rule encode_finite [OF m, of _ _ _ 149]) (simp_all add: min_exponent_def)
  have "magnitude 23 8 (encode_magnitude 23 8 ?m 0) = value_of ?m 0"
    by (rule encode_exact [OF finite]) (use m in \<open>simp_all add: min_exponent_def\<close>)
  then show ?thesis
    using real_value_signed [OF finite, of "i < 0"] unat_float [of "i < 0" ?m 0]
    by (auto simp: value_of_def)
qed

text \<open>Integers are never packed as infinity.\<close>

lemma int_finite:
  assumes "\<bar>i\<bar> < 2 ^ 33"
  shows "number_value (Float_number (float_of_number (real_of_int_number i))) \<noteq> None"
proof -
  let ?m = "nat \<bar>i\<bar>"
  have m: "?m < 2 ^ 33" using assms by (simp add: nat_less_iff)
  have finite: "encode_magnitude 23 8 ?m 0 < infinity_bits 23 8"
    by (rule encode_finite [OF m, of _ _ _ 158]) (simp_all add: min_exponent_def)
  show ?thesis using real_value_signed [OF finite, of "i < 0"] unat_float [of "i < 0" ?m 0] by simp
qed

lemma int_word_bounds:
  "\<bar>sint (a :: 8 word)\<bar> < 2 ^ 24" "\<bar>uint (a :: 8 word)\<bar> < 2 ^ 24"
  "\<bar>sint (b :: 16 word)\<bar> < 2 ^ 24" "\<bar>uint (b :: 16 word)\<bar> < 2 ^ 24"
  "\<bar>sint (c :: 32 word)\<bar> < 2 ^ 33" "\<bar>uint (c :: 32 word)\<bar> < 2 ^ 33"
  using sint_ge [of a] sint_lt [of a] unsigned_less [of a, where ?'a = int] sint_ge [of b] sint_lt [of b] unsigned_less [of b, where ?'a = int]
    sint_ge [of c] sint_lt [of c] unsigned_less [of c, where ?'a = int]
  by (simp_all add: abs_if)

lemma read_small_int:
  "field \<in> {T_int8, T_uint8, T_int16, T_uint16} \<Longrightarrow> \<exists>k. read_typed field bs = Int_number k \<and> \<bar>k\<bar> < 2 ^ 24"
  using int_word_bounds(1-4) by (auto simp only: read_typed_def Let_def point_type.case insert_iff empty_iff)

lemma read_any_int:
  "field \<noteq> T_double \<Longrightarrow> field \<noteq> T_float \<Longrightarrow> \<exists>k. read_typed field bs = Int_number k \<and> \<bar>k\<bar> < 2 ^ 33"
proof (cases "field \<in> {T_int8, T_uint8, T_int16, T_uint16}")
  case True
  from read_small_int [OF this, of bs] obtain k where "read_typed field bs = Int_number k" "\<bar>k\<bar> < 2 ^ 24" by blast
  moreover have "(2 :: int) ^ 24 < 2 ^ 33" by simp
  ultimately show ?thesis by (metis order_less_trans)
next
  case False
  assume "field \<noteq> T_double" "field \<noteq> T_float"
  with False have "field = T_int32 \<or> field = T_uint32" by (cases field) simp_all
  then show ?thesis
    using int_word_bounds(5,6) by (auto simp only: read_typed_def Let_def point_type.case)
qed

text \<open>
  C29: reading a point field as \<^verbatim>\<open>float\<close>: the bytes of a finite number of any of the eight types give a
  float, exactly that number for the integers of 8 and 16 bits and for floats; for every type the
  result, when it is finite, is a float nearest to the number, and it is always finite for integers.
\<close>

theorem read_float_nearest:
  assumes "i + sizeof_type field \<le> length data" and "uint datatype = typeAsPointFieldType field"
    and "number_value (read_typed field (take (sizeof_type field) (drop i data))) = Some v"
  shows "\<exists>r. readPointCloud2BufferValue T_float data i datatype = Inr (Float_number r) \<and>
    (field \<in> {T_int8, T_uint8, T_int16, T_uint16, T_float} \<longrightarrow> number_value (Float_number r) = Some v) \<and>
    (field \<noteq> T_double \<longrightarrow> number_value (Float_number r) \<noteq> None) \<and>
    (\<forall>u y b. number_value (Float_number r) = Some u \<longrightarrow> number_value (Float_number y) = Some b \<longrightarrow>
      \<bar>u - v\<bar> \<le> \<bar>b - v\<bar>)"
proof -
  let ?x = "read_typed field (take (sizeof_type field) (drop i data))"
  have read: "readPointCloud2BufferValue T_float data i datatype = static_cast T_float ?x"
    using assms(1,2) by (simp add: read_by_datatype read_as_def vector_ok)
  obtain r where r: "static_cast T_float ?x = Inr (Float_number r)"
    "\<forall>u. number_value (Float_number r) = Some u \<longrightarrow>
      (\<forall>y b. number_value (Float_number y) = Some b \<longrightarrow> \<bar>u - v\<bar> \<le> \<bar>b - v\<bar>)"
    using cast_to_float [OF assms(3)] by blast
  note small = read_small_int [of field "take (sizeof_type field) (drop i data)"]
    and int = read_any_int [of field "take (sizeof_type field) (drop i data)"]
  have exact: "number_value (Float_number r) = Some v"
    if t: "field \<in> {T_int8, T_uint8, T_int16, T_uint16, T_float}"
  proof (cases "field = T_float")
    case True
    then show ?thesis using r(1) assms(3) by (simp add: read_typed_def)
  next
    case False
    then obtain k where k: "?x = Int_number k" "\<bar>k\<bar> < 2 ^ 24" using small t by auto
    then show ?thesis using r(1) assms(3) small_int_exact [OF k(2)] by simp
  qed
  have finite: "number_value (Float_number r) \<noteq> None" if t: "field \<noteq> T_double"
  proof (cases "field = T_float")
    case True
    then show ?thesis using exact by simp
  next
    case False
    then obtain k where k: "?x = Int_number k" "\<bar>k\<bar> < 2 ^ 33" using int t by auto
    then show ?thesis using r(1) int_finite [OF k(2)] by simp
  qed
  show ?thesis using read r exact finite by (intro exI [of _ r]) simp
qed

theorem read_float_nearest_witness:
  "\<exists>r. readPointCloud2BufferValue T_float [9, 0, 1] 1 4 = Inr (Float_number r) \<and>
    number_value (Float_number r) = Some 256"
proof -
  have x: "read_typed T_uint16 [0, 1] = Int_number 256" by code_simp
  have "\<exists>r. readPointCloud2BufferValue T_float [9, 0, 1] 1 4 = Inr (Float_number r) \<and>
    (T_uint16 \<in> {T_int8, T_uint8, T_int16, T_uint16, T_float} \<longrightarrow> number_value (Float_number r) = Some 256) \<and>
    (T_uint16 \<noteq> T_double \<longrightarrow> number_value (Float_number r) \<noteq> None) \<and>
    (\<forall>u y b. number_value (Float_number r) = Some u \<longrightarrow> number_value (Float_number y) = Some b \<longrightarrow>
      \<bar>u - 256\<bar> \<le> \<bar>b - 256\<bar>)"
    by (rule read_float_nearest) (simp_all add: x UINT16_def)
  then show ?thesis by auto
qed

end
