(* ===== verification/Point_Cloud_Conversion.thy ===== *)
theory Point_Cloud_Conversion
  imports Point_Cloud_Iterator Point_Field_Conversion
begin

text \<open>
  \<^verbatim>\<open>sensor_msgs/point_cloud_conversion.hpp\<close>: between the old message, a vector of points with channels
  of floats, and the new one, whose points are rows of bytes described by fields. The functions
  write over an existing output message, whose old contents are an argument here.
\<close>

section \<open>The old message\<close>

record Point32 =
  point_x :: uint32_t
  point_y :: uint32_t
  point_z :: uint32_t

record ChannelFloat32 =
  channel_name :: string
  channel_values :: "uint32_t list"

record PointCloud =
  pc_header :: Header
  points :: "Point32 list"
  channels :: "ChannelFloat32 list"

definition sizeof_Point32 :: nat where "sizeof_Point32 = 12"
definition sizeof_ChannelFloat32 :: nat where "sizeof_ChannelFloat32 = 36"

text \<open>The elements that a vector gets when it grows.\<close>

definition new_field :: PointField where
  "new_field = \<lparr>field_name = [], field_offset = 0, field_datatype = 0, field_count = 0\<rparr>"

definition new_point :: Point32 where
  "new_point = \<lparr>point_x = 0, point_y = 0, point_z = 0\<rparr>"

definition new_channel :: ChannelFloat32 where
  "new_channel = \<lparr>channel_name = [], channel_values = []\<rparr>"

text \<open>The bytes of a float.\<close>

definition float_bytes :: "uint32_t \<Rightarrow> uint8_t list" where
  "float_bytes w = [ucast w, ucast (drop_bit 8 w), ucast (drop_bit 16 w), ucast (drop_bit 24 w)]"

section \<open>The index of a field\<close>

fun field_index_from :: "PointField list \<Rightarrow> nat \<Rightarrow> string \<Rightarrow> int" where
  "field_index_from [] d name = -1"
| "field_index_from (f # fs) d name =
     (if field_name f = name then int d else field_index_from fs (Suc d) name)"

definition getPointCloud2FieldIndex :: "PointCloud2 \<Rightarrow> string \<Rightarrow> int" where
  "getPointCloud2FieldIndex m name = field_index_from (cloud_fields m) 0 name"

section \<open>From the old message to the new one\<close>

definition update_field :: "nat \<Rightarrow> (PointField \<Rightarrow> PointField) \<Rightarrow> PointField list \<Rightarrow> PointField list outcome" where
  "update_field d g fs = obind (vector_get fs d) (\<lambda>f. vector_put fs d (g f))"

fun layout_fields :: "PointField list \<Rightarrow> int \<Rightarrow> (PointField list \<times> int) outcome" where
  "layout_fields [] ofs = Inr ([], ofs)"
| "layout_fields (f # fs) ofs =
     obind (int_result (ofs + 4)) (\<lambda>next.
     obind (layout_fields fs next) (\<lambda>(fs', end_ofs).
     Inr (f\<lparr>field_offset := of_int ofs, field_datatype := of_int FLOAT32, field_count := 1\<rparr> # fs', end_ofs)))"

fun name_channels :: "ChannelFloat32 list \<Rightarrow> nat \<Rightarrow> PointField list \<Rightarrow> PointField list outcome" where
  "name_channels [] d fs = Inr fs"
| "name_channels (ch # chs) d fs =
     obind (update_field (3 + d) (\<lambda>f. f\<lparr>field_name := channel_name ch\<rparr>) fs) (\<lambda>fs.
     name_channels chs (Suc d) fs)"

text \<open>One \<^verbatim>\<open>memcpy\<close> of a float into the row of a point, at the offset of a field.\<close>

definition copy_float :: "nat \<Rightarrow> nat \<Rightarrow> uint32_t \<Rightarrow> PointCloud2 \<Rightarrow> PointCloud2 outcome" where
  "copy_float cp d w m =
     obind (vector_get (cloud_fields m) d) (\<lambda>f.
     obind (bytes_put (cloud_data m) (unat (of_nat cp * point_step m + field_offset f)) (float_bytes w)) (\<lambda>bs.
     Inr (m\<lparr>cloud_data := bs\<rparr>)))"

fun copy_channels :: "nat \<Rightarrow> nat \<Rightarrow> ChannelFloat32 list \<Rightarrow> nat \<Rightarrow> PointCloud2 \<Rightarrow> PointCloud2 outcome" where
  "copy_channels n cp [] d m = Inr m"
| "copy_channels n cp (ch # chs) d m =
     obind (if length (channel_values ch) = n
            then obind (vector_get (channel_values ch) cp) (\<lambda>v. copy_float cp (3 + d) v m)
            else Inr m) (\<lambda>m.
     copy_channels n cp chs (Suc d) m)"

fun copy_points :: "nat \<Rightarrow> ChannelFloat32 list \<Rightarrow> Point32 list \<Rightarrow> nat \<Rightarrow> PointCloud2 \<Rightarrow> PointCloud2 outcome" where
  "copy_points n chs [] cp m = Inr m"
| "copy_points n chs (p # ps) cp m =
     obind (copy_float cp 0 (point_x p) m) (\<lambda>m.
     obind (copy_float cp 1 (point_y p) m) (\<lambda>m.
     obind (copy_float cp 2 (point_z p) m) (\<lambda>m.
     obind (copy_channels n cp chs 0 m) (\<lambda>m.
     copy_points n chs ps (Suc cp) m))))"

definition convertPointCloudToPointCloud2 :: "PointCloud \<Rightarrow> PointCloud2 \<Rightarrow> (bool \<times> PointCloud2) outcome" where
  "convertPointCloudToPointCloud2 input out =
     (let out = out\<lparr>cloud_header := pc_header input, width := of_nat (length (points input)), height := 1\<rparr> in
     obind (vector_resize sizeof_PointField new_field (3 + of_nat (length (channels input))) (cloud_fields out)) (\<lambda>fs.
     obind (update_field 0 (\<lambda>f. f\<lparr>field_name := ''x''\<rparr>) fs) (\<lambda>fs.
     obind (update_field 1 (\<lambda>f. f\<lparr>field_name := ''y''\<rparr>) fs) (\<lambda>fs.
     obind (update_field 2 (\<lambda>f. f\<lparr>field_name := ''z''\<rparr>) fs) (\<lambda>fs.
     obind (layout_fields fs 0) (\<lambda>(fs, ofs).
     let out = out\<lparr>point_step := of_int ofs\<rparr>;
         out = out\<lparr>row_step := point_step out * width out\<rparr> in
     obind (name_channels (channels input) 0 fs) (\<lambda>fs.
     obind (data_resize (of_nat (length (points input)) * point_step out) (out\<lparr>cloud_fields := fs\<rparr>)) (\<lambda>out.
     let out = out\<lparr>is_bigendian := False, is_dense := False\<rparr> in
     obind (copy_points (length (points input)) (channels input) (points input) 0 out) (\<lambda>out.
     Inr (True, out))))))))))"

section \<open>From the new message to the old one\<close>

text \<open>The template with \<^verbatim>\<open>float\<close>, at an element of the data.\<close>

definition read_float :: "PointCloud2 \<Rightarrow> nat \<Rightarrow> int \<Rightarrow> uint8_t \<Rightarrow> uint32_t outcome" where
  "read_float m cp ofs datatype =
     (let i = unat (of_nat cp * point_step m + of_int ofs) in
      if i < length (cloud_data m)
      then obind (readPointCloud2BufferValue T_float (cloud_data m) i datatype) (\<lambda>x.
           Inr (case x of Float_number w \<Rightarrow> w | _ \<Rightarrow> 0))
      else Inl (Undefined OutOfBounds))"

text \<open>The fields that are not at the offset of x, y or z are channels.\<close>

definition is_xyz :: "int \<times> int \<times> int \<Rightarrow> PointField \<Rightarrow> bool" where
  "is_xyz xyz f = (case xyz of (x, y, z) \<Rightarrow>
     let ofs = int_of_uint32 (field_offset f) in ofs = x \<or> ofs = y \<or> ofs = z)"

fun make_channels ::
    "int \<times> int \<times> int \<Rightarrow> nat \<Rightarrow> PointField list \<Rightarrow> nat \<Rightarrow> ChannelFloat32 list \<Rightarrow> ChannelFloat32 list outcome" where
  "make_channels xyz n [] cur_c chs = Inr chs"
| "make_channels xyz n (f # fs) cur_c chs =
     (if is_xyz xyz f then make_channels xyz n fs cur_c chs
      else obind (vector_get chs cur_c) (\<lambda>ch.
           obind (vector_resize 4 0 (of_nat n) (channel_values ch)) (\<lambda>vs.
           obind (vector_put chs cur_c \<lparr>channel_name = field_name f, channel_values = vs\<rparr>) (\<lambda>chs.
           make_channels xyz n fs (Suc cur_c) chs))))"

fun read_channels ::
    "PointCloud2 \<Rightarrow> int \<times> int \<times> int \<Rightarrow> nat \<Rightarrow> PointField list \<Rightarrow> nat \<Rightarrow> ChannelFloat32 list \<Rightarrow>
     ChannelFloat32 list outcome" where
  "read_channels m xyz cp [] cur_c chs = Inr chs"
| "read_channels m xyz cp (f # fs) cur_c chs =
     (if is_xyz xyz f then read_channels m xyz cp fs cur_c chs
      else obind (read_float m cp (uint (field_offset f)) (field_datatype f)) (\<lambda>w.
           obind (vector_get chs cur_c) (\<lambda>ch.
           obind (vector_put (channel_values ch) cp w) (\<lambda>vs.
           obind (vector_put chs cur_c (ch\<lparr>channel_values := vs\<rparr>)) (\<lambda>chs.
           read_channels m xyz cp fs (Suc cur_c) chs)))))"

text \<open>The points from the \<open>cp\<close>-th on; \<open>xyz\<close> are the offsets and \<open>ts\<close> the datatypes of x, y and z.\<close>

fun read_points ::
    "PointCloud2 \<Rightarrow> int \<times> int \<times> int \<Rightarrow> uint8_t \<times> uint8_t \<times> uint8_t \<Rightarrow> nat \<Rightarrow> nat \<Rightarrow> PointCloud \<Rightarrow> PointCloud outcome" where
  "read_points m xyz ts 0 cp out = Inr out"
| "read_points m xyz ts (Suc n) cp out =
     obind (read_float m cp (fst xyz) (fst ts)) (\<lambda>x.
     obind (read_float m cp (fst (snd xyz)) (fst (snd ts))) (\<lambda>y.
     obind (read_float m cp (snd (snd xyz)) (snd (snd ts))) (\<lambda>z.
     obind (vector_put (points out) cp \<lparr>point_x = x, point_y = y, point_z = z\<rparr>) (\<lambda>ps.
     obind (read_channels m xyz cp (cloud_fields m) 0 (channels out)) (\<lambda>chs.
     read_points m xyz ts n (Suc cp) (out\<lparr>points := ps, channels := chs\<rparr>))))))"

definition convertPointCloud2ToPointCloud :: "PointCloud2 \<Rightarrow> PointCloud \<Rightarrow> (bool \<times> PointCloud) outcome" where
  "convertPointCloud2ToPointCloud input out =
     obind (vector_resize sizeof_Point32 new_point (width input * height input) (points out)) (\<lambda>ps.
     obind (vector_resize sizeof_ChannelFloat32 new_channel (of_nat (length (cloud_fields input)) - 3) (channels out)) (\<lambda>chs.
     let out = \<lparr>pc_header = cloud_header input, points = ps, channels = chs\<rparr>;
         x_idx = getPointCloud2FieldIndex input ''x'';
         y_idx = getPointCloud2FieldIndex input ''y'';
         z_idx = getPointCloud2FieldIndex input ''z'' in
     if x_idx = -1 \<or> y_idx = -1 \<or> z_idx = -1 then Inr (False, out)
     else
       obind (vector_get (cloud_fields input) (nat x_idx)) (\<lambda>fx.
       obind (vector_get (cloud_fields input) (nat y_idx)) (\<lambda>fy.
       obind (vector_get (cloud_fields input) (nat z_idx)) (\<lambda>fz.
       let xyz = (int_of_uint32 (field_offset fx), int_of_uint32 (field_offset fy), int_of_uint32 (field_offset fz));
           ts = (field_datatype fx, field_datatype fy, field_datatype fz) in
       obind (make_channels xyz (length ps) (cloud_fields input) 0 chs) (\<lambda>chs.
       obind (read_points input xyz ts (length ps) 0 (out\<lparr>channels := chs\<rparr>)) (\<lambda>out.
       Inr (True, out))))))))"

section \<open>Cells\<close>

text \<open>The data of a converted message is a list of cells of four bytes.\<close>

definition cell :: "uint8_t list \<Rightarrow> nat \<Rightarrow> uint8_t list" where
  "cell d i = take 4 (drop (4 * i) d)"

lemma length_float_bytes [simp]: "length (float_bytes w) = 4"
  by (simp add: float_bytes_def)

lemma float_bytes_inverse: "word_rcat (rev (float_bytes w)) = w"
proof (rule bit_word_eqI)
  fix n assume "n < LENGTH(32)"
  then have n: "n < 32" by simp
  then have "n div 8 = 0 \<or> n div 8 = 1 \<or> n div 8 = 2 \<or> n div 8 = 3" by linarith
  moreover have "n = 8 * (n div 8) + n mod 8" "n mod 8 < 8" by simp_all
  ultimately have "bit (float_bytes w ! (n div 8)) (n mod 8) = bit w n"
    by (elim disjE) (simp_all add: float_bytes_def bit_ucast_iff bit_drop_bit_eq)
  then show "bit (word_rcat (rev (float_bytes w)) :: 32 word) n = bit w n"
    using n bit_horner_sum_uint_exp_iff [where 'a = 8, of "float_bytes w" n]
    by (simp add: word_rcat_def bit_word_of_int_iff less_mult_imp_div_less)
qed

lemma word_rcat_zero: "word_rcat [0, 0, 0, 0 :: uint8_t] = (0 :: uint32_t)"
  by code_simp

text \<open>Filling the cells with an index in \<open>P\<close> with the floats \<open>v\<close>.\<close>

definition fills :: "nat \<Rightarrow> (nat \<Rightarrow> bool) \<Rightarrow> (nat \<Rightarrow> uint32_t) \<Rightarrow> uint8_t list \<Rightarrow> uint8_t list \<Rightarrow> bool" where
  "fills n P v d d' \<longleftrightarrow> length d = 4 * n \<and> length d' = 4 * n \<and>
     (\<forall>i < n. cell d' i = (if P i then float_bytes (v i) else cell d i))"

lemma fills_refl: "length d = 4 * n \<Longrightarrow> (\<And>i. i < n \<Longrightarrow> \<not> P i) \<Longrightarrow> fills n P v d d"
  by (simp add: fills_def)

lemma fills_trans:
  "fills n P v d d1 \<Longrightarrow> fills n Q v d1 d2 \<Longrightarrow> (\<And>i. i < n \<Longrightarrow> R i \<longleftrightarrow> P i \<or> Q i) \<Longrightarrow> fills n R v d d2"
  by (auto simp: fills_def)

lemma fills_one:
  assumes "length d = 4 * n" "i < n"
  shows "fills n (\<lambda>j. j = i) (\<lambda>_. w) d (overwrite (4 * i) (float_bytes w) d)"
  unfolding fills_def
proof (intro conjI allI impI)
  have len: "4 * i + length (float_bytes w) \<le> length d" using assms by simp
  then show "length (overwrite (4 * i) (float_bytes w) d) = 4 * n" using assms by simp
  fix j assume "j < n"
  show "cell (overwrite (4 * i) (float_bytes w) d) j = (if j = i then float_bytes w else cell d j)"
  proof (cases "j = i")
    case True
    then show ?thesis using len by (simp add: cell_def)
  next
    case False
    then have "4 * j + 4 \<le> 4 * i \<or> 4 * i + length (float_bytes w) \<le> 4 * j" by auto
    then show ?thesis using False take_drop_overwrite_other [OF len] by (simp add: cell_def)
  qed
qed (rule assms(1))

text \<open>The value of a cell of the message that an old message is converted to.\<close>

definition row_value :: "PointCloud \<Rightarrow> nat \<Rightarrow> nat \<Rightarrow> uint32_t" where
  "row_value pc cp j =
     (if j = 0 then point_x (points pc ! cp) else if j = 1 then point_y (points pc ! cp)
      else if j = 2 then point_z (points pc ! cp)
      else channel_values (channels pc ! (j - 3)) ! cp)"

definition row_present :: "PointCloud \<Rightarrow> nat \<Rightarrow> bool" where
  "row_present pc j \<longleftrightarrow> j < 3 \<or> length (channel_values (channels pc ! (j - 3))) = length (points pc)"

definition cell_value :: "PointCloud \<Rightarrow> nat \<Rightarrow> uint32_t" where
  "cell_value pc i = (let k = 3 + length (channels pc) in row_value pc (i div k) (i mod k))"

definition cell_present :: "PointCloud \<Rightarrow> nat \<Rightarrow> bool" where
  "cell_present pc i \<longleftrightarrow> row_present pc (i mod (3 + length (channels pc)))"

text \<open>A message in the layout of the conversion, for \<open>n\<close> points of \<open>k\<close> floats.\<close>

definition float_layout :: "nat \<Rightarrow> nat \<Rightarrow> PointCloud2 \<Rightarrow> bool" where
  "float_layout n k m \<longleftrightarrow> length (cloud_fields m) = k \<and> point_step m = of_nat (4 * k) \<and>
     length (cloud_data m) = 4 * (n * k) \<and> 4 * (n * k) < 2 ^ 31 \<and>
     (\<forall>d < k. field_offset (cloud_fields m ! d) = of_nat (4 * d) \<and> field_datatype (cloud_fields m ! d) = 7)"

lemma row_index: "cp < n \<Longrightarrow> d < k \<Longrightarrow> cp * k + d < n * k" for cp d n k :: nat
proof -
  assume "cp < n" "d < k"
  then have "cp * k + d < Suc cp * k" by simp
  also have "\<dots> \<le> n * k" using \<open>cp < n\<close> by (intro mult_le_mono1) simp
  finally show ?thesis .
qed

lemma float_offset:
  assumes "float_layout n k m" "cp < n" "d < k"
  shows "unat (of_nat cp * point_step m + field_offset (cloud_fields m ! d)) = 4 * (cp * k + d)"
proof -
  have "4 * (cp * k + d) < 4 * (n * k)" using row_index [OF assms(2,3)] by (intro mult_strict_left_mono) simp_all
  also have "\<dots> < 2 ^ 31" using assms(1) by (simp only: float_layout_def)
  also have "(2 :: nat) ^ 31 < 2 ^ 32" by simp
  finally have "4 * (cp * k + d) < 2 ^ 32" .
  then have "unat (of_nat (4 * (cp * k + d)) :: 32 word) = 4 * (cp * k + d)" by (rule unat_of_nat_small)
  moreover have "of_nat cp * point_step m + field_offset (cloud_fields m ! d) = of_nat (4 * (cp * k + d))"
    using assms by (simp add: float_layout_def algebra_simps)
  ultimately show ?thesis by simp
qed

lemma float_layout_data:
  "float_layout n k m \<Longrightarrow> length d = length (cloud_data m) \<Longrightarrow> float_layout n k (m\<lparr>cloud_data := d\<rparr>)"
  by (simp add: float_layout_def)

lemma copy_float_ok:
  assumes "float_layout n k m" "cp < n" "d < k"
  shows "\<exists>bs. copy_float cp d w m = Inr (m\<lparr>cloud_data := bs\<rparr>) \<and>
    fills (n * k) (\<lambda>j. j = cp * k + d) (\<lambda>_. w) (cloud_data m) bs"
proof -
  have len: "length (cloud_data m) = 4 * (n * k)" using assms(1) by (simp add: float_layout_def)
  have i: "cp * k + d < n * k" using assms(2,3) by (rule row_index)
  have d: "vector_get (cloud_fields m) d = Inr (cloud_fields m ! d)"
    using assms(1,3) by (simp add: vector_ok float_layout_def)
  have "bytes_put (cloud_data m) (4 * (cp * k + d)) (float_bytes w) =
      Inr (overwrite (4 * (cp * k + d)) (float_bytes w) (cloud_data m))"
    using len i by (intro vector_ok) simp
  then have "copy_float cp d w m =
      Inr (m\<lparr>cloud_data := overwrite (4 * (cp * k + d)) (float_bytes w) (cloud_data m)\<rparr>)"
    by (simp only: copy_float_def d float_offset [OF assms] obind_simps)
  with fills_one [OF len i, of w] show ?thesis by blast
qed

section \<open>Copying\<close>

text \<open>The channels of one point, from the \<open>d\<close>-th on.\<close>

lemma cell_parts:
  assumes "j < 3 + length (channels pc)"
  shows "cell_value pc (cp * (3 + length (channels pc)) + j) = row_value pc cp j"
    and "cell_present pc (cp * (3 + length (channels pc)) + j) = row_present pc j"
proof -
  let ?k = "3 + length (channels pc)"
  have "(j + cp * ?k) div ?k = cp + j div ?k" by (rule div_mult_self1) simp
  then have d: "(cp * ?k + j) div ?k = cp" using div_less [OF assms] by (simp only: add.commute [of j])
  have "(j + cp * ?k) mod ?k = j mod ?k" by (rule mod_mult_self1)
  then have m: "(cp * ?k + j) mod ?k = j" using mod_less [OF assms] by (simp only: add.commute [of j])
  show "cell_value pc (cp * ?k + j) = row_value pc cp j" "cell_present pc (cp * ?k + j) = row_present pc j"
    by (simp_all only: cell_value_def cell_present_def Let_def d m)
qed

text \<open>The cells of a row from column \<open>a\<close> to column \<open>b\<close>.\<close>

definition row_cells :: "nat \<Rightarrow> nat \<Rightarrow> nat \<Rightarrow> nat \<Rightarrow> nat \<Rightarrow> bool" where
  "row_cells k cp a b i \<longleftrightarrow> (\<exists>j. a \<le> j \<and> j < b \<and> i = cp * k + j)"

lemma row_cells_Suc: "row_cells k cp a (Suc b) i \<longleftrightarrow> row_cells k cp a b i \<or> a \<le> b \<and> i = cp * k + b"
  by (auto simp: row_cells_def less_Suc_eq)

lemma row_cells_Cons: "a < b \<Longrightarrow> row_cells k cp a b i \<longleftrightarrow> i = cp * k + a \<or> row_cells k cp (Suc a) b i"
  by (auto simp: row_cells_def Suc_le_eq order_le_less)

lemma fills_value:
  "fills n P v d d' \<Longrightarrow> (\<And>i. i < n \<Longrightarrow> P i \<Longrightarrow> w i = v i) \<Longrightarrow> fills n P w d d'"
  by (simp add: fills_def)

text \<open>One copied float, as a part of the whole.\<close>

lemma copy_cell:
  assumes "float_layout n k m" "cp < n" "d < k" "k = 3 + length (channels pc)" "w = row_value pc cp d" "row_present pc d"
  shows "\<exists>bs. copy_float cp d w m = Inr (m\<lparr>cloud_data := bs\<rparr>) \<and> float_layout n k (m\<lparr>cloud_data := bs\<rparr>) \<and>
    fills (n * k) (\<lambda>i. cell_present pc i \<and> i = cp * k + d) (cell_value pc) (cloud_data m) bs"
proof -
  obtain bs where bs: "copy_float cp d w m = Inr (m\<lparr>cloud_data := bs\<rparr>)"
    "fills (n * k) (\<lambda>j. j = cp * k + d) (\<lambda>_. w) (cloud_data m) bs"
    using copy_float_ok [OF assms(1-3)] by blast
  have parts: "cell_value pc (cp * k + d) = w" "cell_present pc (cp * k + d)"
    using cell_parts [of d pc cp] assms(3-6) by simp_all
  have "fills (n * k) (\<lambda>i. cell_present pc i \<and> i = cp * k + d) (cell_value pc) (cloud_data m) bs"
    using bs(2) parts by (auto simp: fills_def)
  moreover have "float_layout n k (m\<lparr>cloud_data := bs\<rparr>)"
    using assms(1) bs(2) by (intro float_layout_data) (simp_all add: fills_def)
  ultimately show ?thesis using bs(1) by blast
qed

lemma copy_channels_ok:
  assumes pc: "k = 3 + length (channels pc)" "n = length (points pc)" and cp: "cp < n"
  shows "float_layout n k m \<Longrightarrow> chs = drop d (channels pc) \<Longrightarrow> d \<le> length (channels pc) \<Longrightarrow>
    \<exists>bs. copy_channels n cp chs d m = Inr (m\<lparr>cloud_data := bs\<rparr>) \<and> float_layout n k (m\<lparr>cloud_data := bs\<rparr>) \<and>
      fills (n * k) (\<lambda>i. cell_present pc i \<and> row_cells k cp (3 + d) k i) (cell_value pc) (cloud_data m) bs"
proof (induction chs arbitrary: d m)
  case Nil
  then have "d = length (channels pc)" by simp
  then have "fills (n * k) (\<lambda>i. cell_present pc i \<and> row_cells k cp (3 + d) k i) (cell_value pc) (cloud_data m) (cloud_data m)"
    using Nil pc(1) by (intro fills_refl) (auto simp: float_layout_def row_cells_def)
  then show ?case using Nil(1) by (intro exI [of _ "cloud_data m"]) simp
next
  case (Cons ch chs)
  have d: "d < length (channels pc)" using Cons.prems(2,3) by (metis drop_all leI list.distinct(1))
  have ch: "ch = channels pc ! d" "chs = drop (Suc d) (channels pc)"
    using Cons.prems(2) d by (simp_all add: Cons_nth_drop_Suc [symmetric])
  have split: "row_cells k cp (3 + d) k i \<longleftrightarrow> i = cp * k + (3 + d) \<or> row_cells k cp (3 + Suc d) k i" for i
    using row_cells_Cons [of "3 + d" k k cp i] d pc(1) by simp
  show ?case
  proof (cases "length (channel_values ch) = n")
    case True
    have "vector_get (channel_values ch) cp = Inr (row_value pc cp (3 + d))"
      using True cp ch by (simp add: vector_ok row_value_def)
    note get = this
    have "row_present pc (3 + d)" using True ch pc(2) by (simp add: row_present_def)
    from copy_cell [OF Cons.prems(1) cp _ pc(1) refl this] d pc(1) obtain b1 where
      b1: "copy_float cp (3 + d) (row_value pc cp (3 + d)) m = Inr (m\<lparr>cloud_data := b1\<rparr>)"
        "float_layout n k (m\<lparr>cloud_data := b1\<rparr>)"
        "fills (n * k) (\<lambda>i. cell_present pc i \<and> i = cp * k + (3 + d)) (cell_value pc) (cloud_data m) b1"
      by auto
    from Cons.IH [OF b1(2) ch(2)] d obtain bs where
      bs: "copy_channels n cp chs (Suc d) (m\<lparr>cloud_data := b1\<rparr>) = Inr (m\<lparr>cloud_data := bs\<rparr>)"
        "float_layout n k (m\<lparr>cloud_data := bs\<rparr>)"
        "fills (n * k) (\<lambda>i. cell_present pc i \<and> row_cells k cp (3 + Suc d) k i) (cell_value pc) b1 bs"
      by auto
    have "fills (n * k) (\<lambda>i. cell_present pc i \<and> row_cells k cp (3 + d) k i) (cell_value pc) (cloud_data m) bs"
      by (rule fills_trans [OF b1(3) bs(3)]) (auto simp only: split)
    then show ?thesis using True get b1(1) bs(1,2) by (intro exI [of _ bs]) simp
  next
    case False
    from Cons.IH [OF Cons.prems(1) ch(2)] d obtain bs where
      bs: "copy_channels n cp chs (Suc d) m = Inr (m\<lparr>cloud_data := bs\<rparr>)"
        "float_layout n k (m\<lparr>cloud_data := bs\<rparr>)"
        "fills (n * k) (\<lambda>i. cell_present pc i \<and> row_cells k cp (3 + Suc d) k i) (cell_value pc) (cloud_data m) bs"
      by auto
    have "\<not> cell_present pc (cp * k + (3 + d))"
      using cell_parts(2) [of "3 + d" pc cp] d False ch pc by (simp add: row_present_def)
    then have "fills (n * k) (\<lambda>i. cell_present pc i \<and> row_cells k cp (3 + d) k i) (cell_value pc) (cloud_data m) bs"
      using bs(3) by (auto simp: fills_def split)
    then show ?thesis using False bs(1,2) by (intro exI [of _ bs]) simp
  qed
qed

lemma row_cells_all: "row_cells k cp 0 k i \<longleftrightarrow> cp * k \<le> i \<and> i < Suc cp * k"
proof
  assume "cp * k \<le> i \<and> i < Suc cp * k"
  then show "row_cells k cp 0 k i" unfolding row_cells_def by (intro exI [of _ "i - cp * k"]) auto
qed (auto simp: row_cells_def)

lemma copy_point_ok:
  assumes pc: "k = 3 + length (channels pc)" "n = length (points pc)" and cp: "cp < n" and m: "float_layout n k m"
    and p: "p = points pc ! cp"
  shows "\<exists>bs. obind (copy_float cp 0 (point_x p) m) (\<lambda>m.
     obind (copy_float cp 1 (point_y p) m) (\<lambda>m.
     obind (copy_float cp 2 (point_z p) m) (\<lambda>m.
     copy_channels n cp (channels pc) 0 m))) = Inr (m\<lparr>cloud_data := bs\<rparr>) \<and>
    float_layout n k (m\<lparr>cloud_data := bs\<rparr>) \<and>
    fills (n * k) (\<lambda>i. cell_present pc i \<and> cp * k \<le> i \<and> i < Suc cp * k) (cell_value pc) (cloud_data m) bs"
proof -
  have row: "point_x p = row_value pc cp 0" "point_y p = row_value pc cp 1" "point_z p = row_value pc cp 2"
    by (simp_all add: p row_value_def)
  have here: "row_present pc 0" "row_present pc 1" "row_present pc 2" by (simp_all add: row_present_def)
  have k: "0 < k" "1 < k" "2 < k" using pc(1) by simp_all
  obtain b0 where b0: "copy_float cp 0 (point_x p) m = Inr (m\<lparr>cloud_data := b0\<rparr>)"
      "float_layout n k (m\<lparr>cloud_data := b0\<rparr>)"
      "fills (n * k) (\<lambda>i. cell_present pc i \<and> i = cp * k + 0) (cell_value pc) (cloud_data m) b0"
    using copy_cell [OF m cp k(1) pc(1) row(1) here(1)] by blast
  obtain b1 where b1: "copy_float cp 1 (point_y p) (m\<lparr>cloud_data := b0\<rparr>) = Inr (m\<lparr>cloud_data := b1\<rparr>)"
      "float_layout n k (m\<lparr>cloud_data := b1\<rparr>)"
      "fills (n * k) (\<lambda>i. cell_present pc i \<and> i = cp * k + 1) (cell_value pc) b0 b1"
    using copy_cell [OF b0(2) cp k(2) pc(1) row(2) here(2)] by auto
  obtain b2 where b2: "copy_float cp 2 (point_z p) (m\<lparr>cloud_data := b1\<rparr>) = Inr (m\<lparr>cloud_data := b2\<rparr>)"
      "float_layout n k (m\<lparr>cloud_data := b2\<rparr>)"
      "fills (n * k) (\<lambda>i. cell_present pc i \<and> i = cp * k + 2) (cell_value pc) b1 b2"
    using copy_cell [OF b1(2) cp k(3) pc(1) row(3) here(3)] by auto
  obtain bs where bs: "copy_channels n cp (channels pc) 0 (m\<lparr>cloud_data := b2\<rparr>) = Inr (m\<lparr>cloud_data := bs\<rparr>)"
      "float_layout n k (m\<lparr>cloud_data := bs\<rparr>)"
      "fills (n * k) (\<lambda>i. cell_present pc i \<and> row_cells k cp (3 + 0) k i) (cell_value pc) b2 bs"
    using copy_channels_ok [OF pc cp b2(2), of "channels pc" 0] by auto
  have cells: "row_cells k cp 0 k i \<longleftrightarrow> i = cp * k + 0 \<or> i = cp * k + 1 \<or> i = cp * k + 2 \<or> row_cells k cp (3 + 0) k i" for i
    using row_cells_Cons [OF k(1), of k cp i] row_cells_Cons [OF k(2), of k cp i] row_cells_Cons [OF k(3), of k cp i]
    by (simp add: numeral_2_eq_2 numeral_3_eq_3)
  note all = fills_trans [OF fills_trans [OF fills_trans [OF b0(3) b1(3)] b2(3)] bs(3)]
  have "fills (n * k) (\<lambda>i. cell_present pc i \<and> row_cells k cp 0 k i) (cell_value pc) (cloud_data m) bs"
    unfolding cells by (rule all) auto
  then show ?thesis
    unfolding row_cells_all using b0(1) b1(1) b2(1) bs(1,2) by (intro exI [of _ bs]) simp
qed

lemma copy_points_ok:
  assumes pc: "k = 3 + length (channels pc)" "n = length (points pc)"
  shows "float_layout n k m \<Longrightarrow> ps = drop cp (points pc) \<Longrightarrow> cp \<le> n \<Longrightarrow>
    \<exists>bs. copy_points n (channels pc) ps cp m = Inr (m\<lparr>cloud_data := bs\<rparr>) \<and>
      fills (n * k) (\<lambda>i. cell_present pc i \<and> cp * k \<le> i) (cell_value pc) (cloud_data m) bs"
proof (induction ps arbitrary: cp m)
  case Nil
  then have "cp = n" using pc(2) by simp
  then have "fills (n * k) (\<lambda>i. cell_present pc i \<and> cp * k \<le> i) (cell_value pc) (cloud_data m) (cloud_data m)"
    using Nil(1) by (intro fills_refl) (auto simp: float_layout_def)
  then show ?case by (intro exI [of _ "cloud_data m"]) simp
next
  case (Cons p ps)
  have cp: "cp < n" using Cons.prems(2) pc(2) by (metis drop_all leI list.distinct(1))
  have p: "p = points pc ! cp" "ps = drop (Suc cp) (points pc)"
    using Cons.prems(2) cp pc(2) by (simp_all add: Cons_nth_drop_Suc [symmetric])
  obtain b1 where b1: "obind (copy_float cp 0 (point_x p) m) (\<lambda>m.
       obind (copy_float cp 1 (point_y p) m) (\<lambda>m.
       obind (copy_float cp 2 (point_z p) m) (\<lambda>m.
       copy_channels n cp (channels pc) 0 m))) = Inr (m\<lparr>cloud_data := b1\<rparr>)"
      "float_layout n k (m\<lparr>cloud_data := b1\<rparr>)"
      "fills (n * k) (\<lambda>i. cell_present pc i \<and> cp * k \<le> i \<and> i < Suc cp * k) (cell_value pc) (cloud_data m) b1"
    using copy_point_ok [OF pc cp Cons.prems(1) p(1)] by blast
  obtain bs where bs: "copy_points n (channels pc) ps (Suc cp) (m\<lparr>cloud_data := b1\<rparr>) = Inr (m\<lparr>cloud_data := bs\<rparr>)"
      "fills (n * k) (\<lambda>i. cell_present pc i \<and> Suc cp * k \<le> i) (cell_value pc) b1 bs"
    using Cons.IH [OF b1(2) p(2)] cp by auto
  have "fills (n * k) (\<lambda>i. cell_present pc i \<and> cp * k \<le> i) (cell_value pc) (cloud_data m) bs"
    by (rule fills_trans [OF b1(3) bs(2)]) auto
  moreover have "copy_points n (channels pc) (p # ps) cp m = Inr (m\<lparr>cloud_data := bs\<rparr>)"
    using b1(1) bs(1) by (auto simp: obind_eq_Inr)
  ultimately show ?case by blast
qed

section \<open>The fields of the converted message\<close>

definition converted_field :: "PointCloud \<Rightarrow> nat \<Rightarrow> PointField" where
  "converted_field pc d = \<lparr>field_name = (if d = 0 then ''x'' else if d = 1 then ''y'' else if d = 2 then ''z''
       else channel_name (channels pc ! (d - 3))),
     field_offset = of_nat (4 * d), field_datatype = 7, field_count = 1\<rparr>"

lemma layout_fields_ok:
  "ofs + 4 * length fs < 2 ^ 31 \<Longrightarrow> \<exists>fs'. layout_fields fs (int ofs) = Inr (fs', int (ofs + 4 * length fs)) \<and>
     length fs' = length fs \<and> (\<forall>i < length fs. fs' ! i = (fs ! i)\<lparr>field_offset := of_nat (ofs + 4 * i),
       field_datatype := 7, field_count := 1\<rparr>)"
proof (induction fs arbitrary: ofs)
  case (Cons f fs)
  then have "ofs + 4 + 4 * length fs < 2 ^ 31" by simp
  from Cons.IH [OF this] obtain fs' where fs':
    "layout_fields fs (int (ofs + 4)) = Inr (fs', int (ofs + 4 + 4 * length fs))" "length fs' = length fs"
    "\<forall>i < length fs. fs' ! i = (fs ! i)\<lparr>field_offset := of_nat (ofs + 4 + 4 * i), field_datatype := 7, field_count := 1\<rparr>"
    by blast
  let ?f = "f\<lparr>field_offset := of_nat ofs, field_datatype := 7, field_count := 1\<rparr>"
  have "is_int (int (ofs + 4))" using Cons.prems by (intro small_int) simp
  then have "layout_fields (f # fs) (int ofs) = Inr (?f # fs', int (ofs + 4 * length (f # fs)))"
    using fs'(1) by (simp add: FLOAT32_def add.commute add.left_commute)
  moreover have "\<forall>i < length (f # fs). (?f # fs') ! i = ((f # fs) ! i)\<lparr>field_offset := of_nat (ofs + 4 * i),
      field_datatype := 7, field_count := 1\<rparr>"
    using fs'(3) by (auto simp: nth_Cons' less_Suc_eq_0_disj algebra_simps)
  ultimately show ?case using fs'(2) by (intro exI [of _ "?f # fs'"]) simp
qed simp

lemma update_field_ok: "d < length fs \<Longrightarrow> update_field d g fs = Inr (fs[d := g (fs ! d)])"
  by (simp add: update_field_def vector_ok)

lemma name_channels_ok:
  "3 + d + length chs = length fs \<Longrightarrow> \<exists>fs'. name_channels chs d fs = Inr fs' \<and> length fs' = length fs \<and>
     (\<forall>i < length fs. fs' ! i = (if i < 3 + d then fs ! i else (fs ! i)\<lparr>field_name := channel_name (chs ! (i - (3 + d)))\<rparr>))"
proof (induction chs arbitrary: d fs)
  case Nil
  then show ?case by auto
next
  case (Cons ch chs)
  let ?fs = "fs[3 + d := (fs ! (3 + d))\<lparr>field_name := channel_name ch\<rparr>]"
  have u: "update_field (3 + d) (\<lambda>f. f\<lparr>field_name := channel_name ch\<rparr>) fs = Inr ?fs"
    using Cons.prems by (intro update_field_ok) simp
  have "3 + Suc d + length chs = length ?fs" using Cons.prems by simp
  from Cons.IH [OF this] obtain fs' where fs': "name_channels chs (Suc d) ?fs = Inr fs'" "length fs' = length fs"
    "\<forall>i < length fs. fs' ! i =
      (if i < 3 + Suc d then ?fs ! i else (?fs ! i)\<lparr>field_name := channel_name (chs ! (i - (3 + Suc d)))\<rparr>)"
    by auto
  have "fs' ! i = (if i < 3 + d then fs ! i else (fs ! i)\<lparr>field_name := channel_name ((ch # chs) ! (i - (3 + d)))\<rparr>)"
    if "i < length fs" for i
    using fs'(3) that Cons.prems by (cases "i = 3 + d") (auto simp: nth_Cons' not_less)
  then show ?case using u fs'(1,2) by (intro exI [of _ fs']) simp
qed

section \<open>The converted message\<close>

lemma max_fields: "k \<le> max_size sizeof_PointField \<Longrightarrow> 4 * k < 2 ^ 31 \<and> k < 2 ^ 32"
  by (simp add: max_size_def sizeof_PointField_def)

lemma converted_fields:
  assumes k: "k = 3 + length (channels pc)" and max: "k \<le> max_size sizeof_PointField"
  shows "obind (vector_resize sizeof_PointField new_field (3 + of_nat (length (channels pc))) fs0) (\<lambda>fs.
     obind (update_field 0 (\<lambda>f. f\<lparr>field_name := ''x''\<rparr>) fs) (\<lambda>fs.
     obind (update_field 1 (\<lambda>f. f\<lparr>field_name := ''y''\<rparr>) fs) (\<lambda>fs.
     obind (update_field 2 (\<lambda>f. f\<lparr>field_name := ''z''\<rparr>) fs) (\<lambda>fs.
     obind (layout_fields fs 0) (\<lambda>(fs, ofs).
     obind (name_channels (channels pc) 0 fs) (\<lambda>fs. Inr (fs, ofs))))))) =
     Inr (map (converted_field pc) [0..<k], int (4 * k))"
proof -
  let ?fs0 = "resized new_field k fs0"
  let ?fs1 = "((?fs0[0 := (?fs0 ! 0)\<lparr>field_name := ''x''\<rparr>])
    [1 := (?fs0 ! 1)\<lparr>field_name := ''y''\<rparr>])[2 := (?fs0 ! 2)\<lparr>field_name := ''z''\<rparr>]"
  have u: "unat (3 + of_nat (length (channels pc)) :: 32 word) = k"
  proof -
    have "(3 + of_nat (length (channels pc)) :: 32 word) = of_nat k" using k by simp
    then show ?thesis using max_fields [OF max] by simp
  qed
  have resize: "vector_resize sizeof_PointField new_field (3 + of_nat (length (channels pc))) fs0 = Inr ?fs0"
    using max u by (simp add: vector_resize_def within_max_def)
  have l1: "length ?fs1 = k" by simp
  have "0 + 4 * length ?fs1 < 2 ^ 31" using max_fields [OF max] by simp
  from layout_fields_ok [OF this] obtain fs2 where fs2: "layout_fields ?fs1 0 = Inr (fs2, int (4 * k))" "length fs2 = k"
    "\<forall>i < k. fs2 ! i = (?fs1 ! i)\<lparr>field_offset := of_nat (4 * i), field_datatype := 7, field_count := 1\<rparr>"
    by (auto simp: l1)
  have "3 + 0 + length (channels pc) = length fs2" using k fs2(2) by simp
  from name_channels_ok [OF this] obtain fs3 where fs3: "name_channels (channels pc) 0 fs2 = Inr fs3" "length fs3 = k"
    "\<forall>i < k. fs3 ! i = (if i < 3 then fs2 ! i else (fs2 ! i)\<lparr>field_name := channel_name (channels pc ! (i - 3))\<rparr>)"
    using fs2(2) by auto
  have "fs3 = map (converted_field pc) [0..<k]"
  proof (rule nth_equalityI)
    fix i assume "i < length fs3"
    then have i: "i < k" by (simp add: fs3(2))
    then show "fs3 ! i = map (converted_field pc) [0..<k] ! i"
      using fs3(3) fs2(3) k by (auto simp: converted_field_def nth_list_update)
  qed (simp add: fs3(2))
  then show ?thesis
    using resize fs2(1) fs3(1) k by (simp add: update_field_ok)
qed

end
