(* ===== verification/Point_Cloud_Round_Trip.thy ===== *)
theory Point_Cloud_Round_Trip
  imports Point_Cloud_Conversion
begin

text \<open>
  The message that the conversion makes, and its conversion back.
\<close>

section \<open>The converted message\<close>

text \<open>A cloud small enough for the vectors of the new message.\<close>

definition fits :: "PointCloud \<Rightarrow> bool" where
  "fits pc \<longleftrightarrow> 3 + length (channels pc) \<le> max_size sizeof_PointField \<and>
     4 * (length (points pc) * (3 + length (channels pc))) < 2 ^ 31"

text \<open>The message before the points are copied.\<close>

definition converted_frame :: "PointCloud \<Rightarrow> uint8_t list \<Rightarrow> PointCloud2" where
  "converted_frame pc old =
     (let n = length (points pc); k = 3 + length (channels pc) in
      \<lparr>cloud_header = pc_header pc, height = 1, width = of_nat n, cloud_fields = map (converted_field pc) [0..<k],
        is_bigendian = False, point_step = of_nat (4 * k), row_step = of_nat (4 * k) * of_nat n,
        cloud_data = resized 0 (4 * (n * k)) old, is_dense = False\<rparr>)"

lemma converted_frame_layout:
  "fits pc \<Longrightarrow> float_layout (length (points pc)) (3 + length (channels pc)) (converted_frame pc old)"
  by (simp add: float_layout_def converted_frame_def fits_def converted_field_def Let_def)

lemma obind_assoc: "obind (obind x f) g = obind x (\<lambda>a. obind (f a) g)"
  by (simp add: obind_def split: sum.split)

lemma convert_run:
  assumes "fits pc"
  shows "convertPointCloudToPointCloud2 pc out =
    obind (copy_points (length (points pc)) (channels pc) (points pc) 0 (converted_frame pc (cloud_data out)))
      (\<lambda>m. Inr (True, m))"
proof -
  define n where "n = length (points pc)"
  define k where "k = 3 + length (channels pc)"
  define s where "s = int (4 * k)"
  have max: "k \<le> max_size sizeof_PointField" and nk: "4 * (n * k) < 2 ^ 31"
    using assms by (simp_all add: fits_def n_def k_def)
  have size: "of_nat n * of_int s = (of_nat (4 * (n * k)) :: uint32_t)" by (simp add: s_def algebra_simps)
  have "unat (of_nat (4 * (n * k)) :: uint32_t) = 4 * (n * k)"
    using nk by (intro unat_of_nat_small) simp
  moreover have "4 * (n * k) \<le> max_size 1" using nk unfolding max_size_1 by linarith
  ultimately have data: "data_resize (of_nat n * of_int s) (m :: PointCloud2) =
      Inr (m\<lparr>cloud_data := resized 0 (4 * (n * k)) (cloud_data m)\<rparr>)" for m
    by (simp only: size data_resize_def vector_resize_def within_max_def) simp
  have step: "of_nat (4 * k) = (of_int s :: uint32_t)" by (simp add: s_def)
  obtain fs0 fs1 fs2 fs3 fs4 where run:
    "vector_resize sizeof_PointField new_field (3 + of_nat (length (channels pc))) (cloud_fields out) = Inr fs0"
    "update_field 0 (\<lambda>f. f\<lparr>field_name := ''x''\<rparr>) fs0 = Inr fs1"
    "update_field 1 (\<lambda>f. f\<lparr>field_name := ''y''\<rparr>) fs1 = Inr fs2"
    "update_field 2 (\<lambda>f. f\<lparr>field_name := ''z''\<rparr>) fs2 = Inr fs3"
    "layout_fields fs3 0 = Inr (fs4, s)"
    "name_channels (channels pc) 0 fs4 = Inr (map (converted_field pc) [0..<k])"
    using converted_fields [OF k_def max, of "cloud_fields out"] unfolding s_def [symmetric] by (auto simp: obind_eq_Inr split_beta)
  show ?thesis
    unfolding convertPointCloudToPointCloud2_def Let_def n_def [symmetric] converted_frame_def k_def [symmetric] step
    using run data by (cases out) simp
qed

lemma converted_ok:
  assumes "fits pc"
  defines "n \<equiv> length (points pc)" and "k \<equiv> 3 + length (channels pc)"
  shows "\<exists>bs. convertPointCloudToPointCloud2 pc out =
      Inr (True, (converted_frame pc (cloud_data out))\<lparr>cloud_data := bs\<rparr>) \<and>
    fills (n * k) (cell_present pc) (cell_value pc) (resized 0 (4 * (n * k)) (cloud_data out)) bs"
proof -
  let ?m = "converted_frame pc (cloud_data out)"
  have "cloud_data ?m = resized 0 (4 * (n * k)) (cloud_data out)"
    by (simp add: converted_frame_def Let_def n_def k_def)
  with copy_points_ok [of k pc n ?m "points pc" 0] converted_frame_layout [OF assms(1), of "cloud_data out"]
  obtain bs where "copy_points n (channels pc) (points pc) 0 ?m = Inr (?m\<lparr>cloud_data := bs\<rparr>)"
    "fills (n * k) (cell_present pc) (cell_value pc) (resized 0 (4 * (n * k)) (cloud_data out)) bs"
    by (auto simp: n_def k_def)
  then show ?thesis by (intro exI [of _ bs]) (simp add: convert_run [OF assms(1)] n_def)
qed

section \<open>Reading it\<close>

definition cell_float :: "uint8_t list \<Rightarrow> nat \<Rightarrow> uint32_t" where
  "cell_float d i = word_rcat (rev (cell d i))"

lemma read_float_cell:
  assumes "float_layout n k m" "cp < n" "d < k"
  shows "read_float m cp (int (4 * d)) 7 = Inr (cell_float (cloud_data m) (cp * k + d))"
proof -
  have "field_offset (cloud_fields m ! d) = of_int (int (4 * d))"
    using assms(1,3) by (simp add: float_layout_def)
  then have i: "unat (of_nat cp * point_step m + of_int (int (4 * d))) = 4 * (cp * k + d)"
    using float_offset [OF assms] by simp
  have len: "length (cloud_data m) = 4 * (n * k)" using assms(1) by (simp add: float_layout_def)
  have "cp * k + d < n * k" using assms(2,3) by (rule row_index)
  then have b: "4 * (cp * k + d) + 4 \<le> length (cloud_data m)" using len by simp
  then have "bytes_get (cloud_data m) (4 * (cp * k + d)) 4 = Inr (cell (cloud_data m) (cp * k + d))"
    by (simp add: vector_ok cell_def)
  note get = this
  have "uint (7 :: uint8_t) = typeAsPointFieldType T_float" by (simp add: datatype_defs)
  note dt = read_by_datatype [OF this]
  have "readPointCloud2BufferValue T_float (cloud_data m) (4 * (cp * k + d)) 7 =
      Inr (Float_number (cell_float (cloud_data m) (cp * k + d)))"
    using get by (simp only: dt read_as_def sizeof_type.simps) (simp add: read_typed_def cell_float_def)
  then show ?thesis using b by (simp only: read_float_def i Let_def) simp
qed

section \<open>The fields that become channels\<close>

definition xyz_offsets :: "int \<times> int \<times> int" where
  "xyz_offsets = (0, 4, 8)"

lemma is_xyz_converted: "4 * d < 2 ^ 31 \<Longrightarrow> is_xyz xyz_offsets (converted_field pc d) \<longleftrightarrow> d < 3"
proof -
  assume "4 * d < 2 ^ 31"
  then have "int_of_uint32 (of_nat (4 * d)) = int (4 * d)" by (subst int_of_uint32_small) (simp_all del: of_nat_mult)
  then show ?thesis
    by (auto simp: is_xyz_def xyz_offsets_def converted_field_def Let_def simp del: of_nat_mult)
qed

lemma fields_of_channels: "3 + c < k \<Longrightarrow> map f [3 + c..<k] = f (3 + c) # map f [3 + Suc c..<k]"
  by (simp add: upt_rec)

lemma xyz_fields: "3 \<le> k \<Longrightarrow> map f [0..<k] = f 0 # f 1 # f 2 # map f [3 + 0..<k]"
  by (simp add: upt_rec numeral_2_eq_2 numeral_3_eq_3)

lemma make_channels_ok:
  assumes "4 * k < 2 ^ 31" "n \<le> max_size 4" "n < 2 ^ 32"
  shows "length chs = k - 3 \<Longrightarrow> c \<le> k - 3 \<Longrightarrow> 3 \<le> k \<Longrightarrow>
    \<exists>chs'. make_channels xyz_offsets n (map (converted_field pc) [3 + c..<k]) c chs = Inr chs' \<and> length chs' = k - 3 \<and>
      (\<forall>i < k - 3. chs' ! i = (if i < c then chs ! i
         else \<lparr>channel_name = channel_name (channels pc ! i), channel_values = resized 0 n (channel_values (chs ! i))\<rparr>))"
proof (induction "k - 3 - c" arbitrary: c chs)
  case 0
  then show ?case by auto
next
  case (Suc l)
  let ?ch = "\<lparr>channel_name = channel_name (channels pc ! c), channel_values = resized 0 n (channel_values (chs ! c))\<rparr>"
  have c: "c < k - 3" "3 + c < k" using Suc by linarith+
  have "length (chs[c := ?ch]) = k - 3" "Suc c \<le> k - 3" "l = k - 3 - Suc c" using Suc by simp_all
  from Suc(1) [OF this(3,1,2) Suc(5)] obtain chs' where chs':
    "make_channels xyz_offsets n (map (converted_field pc) [3 + Suc c..<k]) (Suc c) (chs[c := ?ch]) = Inr chs'"
    "length chs' = k - 3"
    "\<forall>i < k - 3. chs' ! i = (if i < Suc c then chs[c := ?ch] ! i
       else \<lparr>channel_name = channel_name (channels pc ! i),
             channel_values = resized 0 n (channel_values (chs[c := ?ch] ! i))\<rparr>)"
    by blast
  have "\<not> is_xyz xyz_offsets (converted_field pc (3 + c))"
    using is_xyz_converted [of "3 + c" pc] assms(1) c by simp
  moreover have "field_name (converted_field pc (3 + c)) = channel_name (channels pc ! c)"
    by (simp add: converted_field_def)
  moreover have "vector_resize 4 0 (of_nat n) (channel_values (chs ! c)) = Inr (resized 0 n (channel_values (chs ! c)))"
    using assms(2,3) by (simp add: vector_resize_def within_max_def unat_of_nat_small)
  ultimately have "make_channels xyz_offsets n (map (converted_field pc) [3 + c..<k]) c chs = Inr chs'"
    using chs'(1) c Suc(3) by (simp only: fields_of_channels) (simp add: vector_ok)
  moreover have "\<forall>i < k - 3. chs' ! i = (if i < c then chs ! i
      else \<lparr>channel_name = channel_name (channels pc ! i), channel_values = resized 0 n (channel_values (chs ! i))\<rparr>)"
    using chs'(3) Suc(3) c by (auto simp: nth_list_update less_Suc_eq)
  ultimately show ?case using chs'(2) by blast
qed

section \<open>Reading the points\<close>

text \<open>Channels with room for \<open>n\<close> values each.\<close>

definition channels_for :: "nat \<Rightarrow> nat \<Rightarrow> ChannelFloat32 list \<Rightarrow> bool" where
  "channels_for n k chs \<longleftrightarrow> length chs = k - 3 \<and> (\<forall>i < k - 3. length (channel_values (chs ! i)) = n)"

definition set_value :: "nat \<Rightarrow> uint32_t \<Rightarrow> ChannelFloat32 \<Rightarrow> ChannelFloat32" where
  "set_value cp w ch = ch\<lparr>channel_values := (channel_values ch)[cp := w]\<rparr>"

lemma converted_field_simps:
  "4 * d < 2 ^ 31 \<Longrightarrow> uint (field_offset (converted_field pc d)) = int (4 * d)"
  "field_datatype (converted_field pc d) = 7"
proof -
  assume "4 * d < 2 ^ 31"
  then have "4 * d < 2 ^ 32" by simp
  then show "uint (field_offset (converted_field pc d)) = int (4 * d)"
    by (simp only: converted_field_def PointField.simps uint_nat unat_of_nat_small)
qed (simp add: converted_field_def)

lemma read_channels_ok:
  assumes m: "float_layout n k m" and cp: "cp < n" and k: "4 * k < 2 ^ 31" "3 \<le> k"
  shows "channels_for n k chs \<Longrightarrow> c \<le> k - 3 \<Longrightarrow>
    \<exists>chs'. read_channels m xyz_offsets cp (map (converted_field pc) [3 + c..<k]) c chs = Inr chs' \<and>
      length chs' = k - 3 \<and>
      (\<forall>i < k - 3. chs' ! i = (if i < c then chs ! i
         else set_value cp (cell_float (cloud_data m) (cp * k + (3 + i))) (chs ! i)))"
proof (induction "k - 3 - c" arbitrary: c chs)
  case 0
  then show ?case by (auto simp: channels_for_def)
next
  case (Suc l)
  let ?w = "cell_float (cloud_data m) (cp * k + (3 + c))"
  let ?chs = "chs[c := set_value cp ?w (chs ! c)]"
  have c: "c < k - 3" "3 + c < k" using Suc by linarith+
  have "channels_for n k ?chs" "Suc c \<le> k - 3" "l = k - 3 - Suc c"
    using Suc by (simp_all add: channels_for_def nth_list_update set_value_def)
  from Suc(1) [OF this(3,1,2)] obtain chs' where chs':
    "read_channels m xyz_offsets cp (map (converted_field pc) [3 + Suc c..<k]) (Suc c) ?chs = Inr chs'"
    "length chs' = k - 3"
    "\<forall>i < k - 3. chs' ! i = (if i < Suc c then ?chs ! i
         else set_value cp (cell_float (cloud_data m) (cp * k + (3 + i))) (?chs ! i))"
    by blast
  have offset: "4 * (3 + c) < 2 ^ 31" using k c by simp
  then have "\<not> is_xyz xyz_offsets (converted_field pc (3 + c))"
    using is_xyz_converted [of "3 + c" pc] by simp
  moreover have "read_float m cp (uint (field_offset (converted_field pc (3 + c))))
      (field_datatype (converted_field pc (3 + c))) = Inr ?w"
    by (simp only: converted_field_simps offset read_float_cell [OF m cp c(2)])
  moreover have "vector_put (channel_values (chs ! c)) cp ?w = Inr ((channel_values (chs ! c))[cp := ?w])"
    using Suc(3) c(1) cp by (simp add: vector_ok channels_for_def)
  ultimately have "read_channels m xyz_offsets cp (map (converted_field pc) [3 + c..<k]) c chs = Inr chs'"
    using chs'(1) c Suc(3) by (simp only: fields_of_channels) (simp add: vector_ok set_value_def channels_for_def)
  moreover have "\<forall>i < k - 3. chs' ! i = (if i < c then chs ! i
         else set_value cp (cell_float (cloud_data m) (cp * k + (3 + i))) (chs ! i))"
    using chs'(3) Suc(3) c by (auto simp: nth_list_update less_Suc_eq channels_for_def)
  ultimately show ?case using chs'(2) by blast
qed

text \<open>The point and the channel values that the cells of a message give.\<close>

definition cell_point :: "uint8_t list \<Rightarrow> nat \<Rightarrow> nat \<Rightarrow> Point32" where
  "cell_point d k i =
     \<lparr>point_x = cell_float d (i * k), point_y = cell_float d (i * k + 1), point_z = cell_float d (i * k + 2)\<rparr>"

lemma read_points_ok:
  assumes m: "float_layout n k m" "cloud_fields m = map (converted_field pc) [0..<k]" and k: "4 * k < 2 ^ 31" "3 \<le> k"
  shows "cp + l = n \<Longrightarrow> length (points out) = n \<Longrightarrow> channels_for n k (channels out) \<Longrightarrow>
    \<exists>out'. read_points m xyz_offsets (7, 7, 7) l cp out = Inr out' \<and> pc_header out' = pc_header out \<and>
      length (points out') = n \<and>
      (\<forall>i < n. points out' ! i = (if i < cp then points out ! i else cell_point (cloud_data m) k i)) \<and>
      channels_for n k (channels out') \<and>
      (\<forall>c < k - 3. channel_name (channels out' ! c) = channel_name (channels out ! c) \<and>
        (\<forall>i < n. channel_values (channels out' ! c) ! i =
          (if i < cp then channel_values (channels out ! c) ! i else cell_float (cloud_data m) (i * k + (3 + c)))))"
proof (induction l arbitrary: cp out)
  case 0
  then show ?case by auto
next
  case (Suc l)
  let ?d = "cloud_data m"
  have cp: "cp < n" using Suc.prems(1) by simp
  have read: "read_float m cp 0 7 = Inr (cell_float ?d (cp * k))"
    "read_float m cp 4 7 = Inr (cell_float ?d (cp * k + 1))"
    "read_float m cp 8 7 = Inr (cell_float ?d (cp * k + 2))"
    using read_float_cell [OF m(1) cp, of 0] read_float_cell [OF m(1) cp, of 1]
      read_float_cell [OF m(1) cp, of 2] k(2) by simp_all
  have xyz: "is_xyz xyz_offsets (converted_field pc 0)" "is_xyz xyz_offsets (converted_field pc 1)"
    "is_xyz xyz_offsets (converted_field pc 2)"
    by (simp_all add: is_xyz_converted)
  obtain chs' where chs':
    "read_channels m xyz_offsets cp (map (converted_field pc) [3 + 0..<k]) 0 (channels out) = Inr chs'"
    "length chs' = k - 3"
    "\<forall>i < k - 3. chs' ! i = set_value cp (cell_float ?d (cp * k + (3 + i))) (channels out ! i)"
    using read_channels_ok [OF m(1) cp k Suc.prems(3), of 0 pc] by auto
  let ?out = "out\<lparr>points := (points out)[cp := cell_point ?d k cp], channels := chs'\<rparr>"
  have fields: "read_channels m xyz_offsets cp (cloud_fields m) 0 (channels out) = Inr chs'"
    using chs'(1) unfolding m(2) xyz_fields [OF k(2)] by (simp only: read_channels.simps xyz if_True)
  have "vector_put (points out) cp (cell_point ?d k cp) = Inr ((points out)[cp := cell_point ?d k cp])"
    using Suc.prems(2) cp by (simp add: vector_ok)
  then have step: "read_points m xyz_offsets (7, 7, 7) (Suc l) cp out = read_points m xyz_offsets (7, 7, 7) l (Suc cp) ?out"
    using read fields unfolding xyz_offsets_def by (simp add: cell_point_def)
  have "channels_for n k chs'" using chs'(2,3) Suc.prems(3) by (simp add: channels_for_def set_value_def)
  then have "Suc cp + l = n" "length (points ?out) = n" "channels_for n k (channels ?out)"
    using Suc.prems by simp_all
  from Suc.IH [OF this] obtain out' where out': "read_points m xyz_offsets (7, 7, 7) l (Suc cp) ?out = Inr out'"
    "pc_header out' = pc_header out" "length (points out') = n" "channels_for n k (channels out')"
    "\<forall>i < n. points out' ! i = (if i < Suc cp then points ?out ! i else cell_point ?d k i)"
    "\<forall>c < k - 3. channel_name (channels out' ! c) = channel_name (channels ?out ! c) \<and>
        (\<forall>i < n. channel_values (channels out' ! c) ! i =
          (if i < Suc cp then channel_values (channels ?out ! c) ! i else cell_float ?d (i * k + (3 + c))))"
    by auto
  have "\<forall>i < n. points out' ! i = (if i < cp then points out ! i else cell_point ?d k i)"
    using out'(5) Suc.prems(2) cp by (auto simp: nth_list_update less_Suc_eq)
  moreover have "\<forall>c < k - 3. channel_name (channels out' ! c) = channel_name (channels out ! c) \<and>
        (\<forall>i < n. channel_values (channels out' ! c) ! i =
          (if i < cp then channel_values (channels out ! c) ! i else cell_float ?d (i * k + (3 + c))))"
    using out'(6) chs'(3) Suc.prems(3) cp
    by (auto simp: nth_list_update less_Suc_eq set_value_def channels_for_def)
  ultimately show ?case using step out'(1-4) by auto
qed

section \<open>There and back\<close>

text \<open>A cloud read from the cells of data, with the names of another one.\<close>

definition read_from_cells :: "PointCloud \<Rightarrow> uint8_t list \<Rightarrow> PointCloud \<Rightarrow> bool" where
  "read_from_cells pc bs pc' \<longleftrightarrow> (let n = length (points pc); k = 3 + length (channels pc) in
     pc_header pc' = pc_header pc \<and>
     length (points pc') = n \<and> (\<forall>i < n. points pc' ! i = cell_point bs k i) \<and> channels_for n k (channels pc') \<and>
     (\<forall>c < k - 3. channel_name (channels pc' ! c) = channel_name (channels pc ! c) \<and>
       (\<forall>i < n. channel_values (channels pc' ! c) ! i = cell_float bs (i * k + (3 + c)))))"

lemma converted_back:
  fixes old :: "uint8_t list"
  assumes fits: "fits pc" and len: "length bs = 4 * (n * k)"
    and n: "n = length (points pc)" and k: "k = 3 + length (channels pc)"
  defines "m \<equiv> (converted_frame pc old)\<lparr>cloud_data := bs\<rparr>"
  shows "\<exists>out'. convertPointCloud2ToPointCloud m out = Inr (True, out') \<and> read_from_cells pc bs out'"
proof -
  have k3: "3 \<le> k" and kmax: "k \<le> max_size 36" and nk: "4 * (n * k) < 2 ^ 31"
    using fits by (simp_all add: fits_def n k sizeof_PointField_def)
  have k4: "4 * k < 2 ^ 31" using kmax by (simp add: max_size_def)
  have "4 * (n * 3) \<le> 4 * (n * k)" using k3 by (intro mult_le_mono2)
  then have n12: "12 * n < 2 ^ 31" using nk by linarith
  then have nmax: "n \<le> max_size 12" "n \<le> max_size 4" "n < 2 ^ 32" by (simp_all add: max_size_def)
  have m: "float_layout n k m" "cloud_fields m = map (converted_field pc) [0..<k]" "cloud_data m = bs"
    using converted_frame_layout [OF fits, of old] len
    by (simp_all add: m_def n k float_layout_def) (simp_all add: converted_frame_def Let_def)
  have frame: "cloud_header m = pc_header pc" "width m = of_nat n" "height m = 1"
    by (simp_all add: m_def converted_frame_def Let_def n)
  let ?ps = "resized new_point n (points out)" and ?chs = "resized new_channel (k - 3) (channels out)"
  have ps: "vector_resize sizeof_Point32 new_point (width m * height m) (points out) = Inr ?ps"
    using nmax by (simp add: frame vector_resize_def within_max_def sizeof_Point32_def unat_of_nat_small)
  have fsize: "(of_nat (length (cloud_fields m)) - 3 :: uint32_t) = of_nat (k - 3)"
    using k3 by (simp add: m(2) of_nat_diff)
  have chs: "vector_resize sizeof_ChannelFloat32 new_channel (of_nat (length (cloud_fields m)) - 3) (channels out) = Inr ?chs"
    using kmax k4 by (simp add: fsize vector_resize_def within_max_def sizeof_ChannelFloat32_def unat_of_nat_small)
  have fs: "cloud_fields m = converted_field pc 0 # converted_field pc 1 # converted_field pc 2 #
      map (converted_field pc) [3 + 0..<k]"
    unfolding m(2) by (rule xyz_fields [OF k3])
  have idx: "getPointCloud2FieldIndex m ''x'' = 0" "getPointCloud2FieldIndex m ''y'' = 1" "getPointCloud2FieldIndex m ''z'' = 2"
    by (simp_all add: getPointCloud2FieldIndex_def fs converted_field_def)
  have get: "vector_get (cloud_fields m) 0 = Inr (converted_field pc 0)"
    "vector_get (cloud_fields m) (nat 1) = Inr (converted_field pc 1)"
    "vector_get (cloud_fields m) (nat 2) = Inr (converted_field pc 2)"
    using k3 by (simp_all add: vector_ok m(2) numeral_2_eq_2)
  have offs: "int_of_uint32 (field_offset (converted_field pc 0)) = 0"
    "int_of_uint32 (field_offset (converted_field pc 1)) = 4" "int_of_uint32 (field_offset (converted_field pc 2)) = 8"
    by (simp_all add: converted_field_def int_of_uint32_small)
  have xyz: "is_xyz xyz_offsets (converted_field pc 0)" "is_xyz xyz_offsets (converted_field pc 1)"
    "is_xyz xyz_offsets (converted_field pc 2)"
    by (simp_all add: is_xyz_converted)
  have "length ?chs = k - 3" by simp
  from make_channels_ok [OF k4 nmax(2,3) this, of 0 pc] k3 obtain chs' where chs':
    "make_channels xyz_offsets n (map (converted_field pc) [3 + 0..<k]) 0 ?chs = Inr chs'" "length chs' = k - 3"
    "\<forall>i < k - 3. chs' ! i = \<lparr>channel_name = channel_name (channels pc ! i),
        channel_values = resized 0 n (channel_values (?chs ! i))\<rparr>"
    by auto
  have make: "make_channels xyz_offsets n (cloud_fields m) 0 ?chs = Inr chs'"
    using chs'(1) unfolding fs by (simp only: make_channels.simps xyz if_True)
  let ?out = "\<lparr>pc_header = pc_header pc, points = ?ps, channels = chs'\<rparr>"
  have "channels_for n k (channels ?out)" using chs'(2,3) by (simp add: channels_for_def)
  from read_points_ok [OF m(1,2) k4 k3 _ _ this, of 0 n] obtain out' where
    "read_points m xyz_offsets (7, 7, 7) n 0 ?out = Inr out'" "pc_header out' = pc_header pc"
    "length (points out') = n" "\<forall>i < n. points out' ! i = cell_point bs k i" "channels_for n k (channels out')"
    "\<forall>c < k - 3. channel_name (channels out' ! c) = channel_name (channels ?out ! c) \<and>
      (\<forall>i < n. channel_values (channels out' ! c) ! i = cell_float bs (i * k + (3 + c)))"
    by (auto simp: m(3))
  note out' = this
  have "convertPointCloud2ToPointCloud m out = Inr (True, out')"
    using make out'(1) unfolding convertPointCloud2ToPointCloud_def
    by (simp add: ps [unfolded frame mult_1_right] chs idx get [simplified] offs offs(2) [simplified] frame Let_def converted_field_simps(2) xyz_offsets_def)
  moreover have "read_from_cells pc bs out'"
    using out'(2-6) chs'(3) unfolding read_from_cells_def Let_def n [symmetric] k [symmetric] by simp
  ultimately show ?thesis by blast
qed

text \<open>What comes back: a channel without one value for each point comes back as zeros.\<close>

definition padded_channel :: "nat \<Rightarrow> ChannelFloat32 \<Rightarrow> ChannelFloat32" where
  "padded_channel n ch = (if length (channel_values ch) = n then ch else ch\<lparr>channel_values := replicate n 0\<rparr>)"

definition padded :: "PointCloud \<Rightarrow> PointCloud" where
  "padded pc = pc\<lparr>channels := map (padded_channel (length (points pc))) (channels pc)\<rparr>"

definition full_channels :: "PointCloud \<Rightarrow> bool" where
  "full_channels pc \<longleftrightarrow> (\<forall>ch \<in> set (channels pc). length (channel_values ch) = length (points pc))"

lemma padded_full: "full_channels pc \<Longrightarrow> padded pc = pc"
  by (cases pc) (simp add: padded_def full_channels_def padded_channel_def map_idI)

lemma cell_zeros: "i < n \<Longrightarrow> cell_float (replicate (4 * n) 0) i = 0"
proof -
  assume "i < n"
  then have "4 * n - 4 * i = 4 + (4 * n - 4 * i - 4)" by simp
  then have "cell (replicate (4 * n) 0) i = [0, 0, 0, 0]"
    by (simp add: cell_def min_def numeral_eq_Suc)
  then show ?thesis by (simp add: cell_float_def word_rcat_zero)
qed

lemma filled_cell:
  assumes "fills n P v d d'" "i < n"
  shows "cell_float d' i = (if P i then v i else cell_float d i)"
  using assms by (simp add: fills_def cell_float_def float_bytes_inverse)

lemma cell_back:
  assumes fills: "fills (n * k) (cell_present pc) (cell_value pc) (resized 0 (4 * (n * k)) old) bs"
    and n: "n = length (points pc)" and k: "k = 3 + length (channels pc)" and ij: "i < n" "j < k"
    and old: "old = [] \<or> row_present pc j"
  shows "cell_float bs (i * k + j) = (if row_present pc j then row_value pc i j else 0)"
proof -
  have c: "i * k + j < n * k" using ij by (rule row_index)
  have "cell_value pc (i * k + j) = row_value pc i j" "cell_present pc (i * k + j) = row_present pc j"
    using cell_parts [of j pc i] ij(2) by (simp_all add: k)
  then show ?thesis using filled_cell [OF fills c] old cell_zeros [OF c] by (auto simp: resized_Nil)
qed

lemma read_padded:
  assumes fills: "fills (n * k) (cell_present pc) (cell_value pc) (resized 0 (4 * (n * k)) old) bs"
    and n: "n = length (points pc)" and k: "k = 3 + length (channels pc)"
    and old: "full_channels pc \<or> old = []" and pc': "read_from_cells pc bs pc'"
  shows "pc' = padded pc"
proof -
  note read = pc' [unfolded read_from_cells_def Let_def, folded n, folded k]
    and read_cell = cell_back [OF fills n k]
  have chs: "channels_for n k (channels pc')" using read by blast
  have "points pc' = points pc"
  proof (rule nth_equalityI)
    show "length (points pc') = length (points pc)" using read n by simp
    fix i assume "i < length (points pc')"
    then have i: "i < n" using read by simp
    have "row_present pc 0" "row_present pc 1" "row_present pc 2" "0 < k" "1 < k" "2 < k"
      by (simp_all add: row_present_def k)
    then show "points pc' ! i = points pc ! i"
      using read i read_cell [OF i, of 0] read_cell [OF i, of 1] read_cell [OF i, of 2]
      by (simp add: cell_point_def row_value_def)
  qed
  moreover have "channels pc' ! c = padded_channel n (channels pc ! c)" if c: "c < k - 3" for c
  proof -
    let ?ch = "channels pc ! c"
    have present: "row_present pc (3 + c) \<longleftrightarrow> length (channel_values ?ch) = n" by (simp add: row_present_def n)
    have "old = [] \<or> row_present pc (3 + c)"
      using old c nth_mem [of c "channels pc"] unfolding present by (auto simp: full_channels_def n k)
    then have "channel_values (channels pc' ! c) ! i = channel_values (padded_channel n ?ch) ! i" if "i < n" for i
      using read_cell [OF that, of "3 + c"] that c read by (simp add: present padded_channel_def row_value_def)
    then have "channel_values (channels pc' ! c) = channel_values (padded_channel n ?ch)"
      using chs c by (intro nth_equalityI) (simp_all add: channels_for_def padded_channel_def)
    moreover have "channel_name (channels pc' ! c) = channel_name (padded_channel n ?ch)"
      using read c by (simp add: padded_channel_def)
    ultimately show ?thesis by simp
  qed
  then have "channels pc' = map (padded_channel n) (channels pc)"
    using chs by (intro nth_equalityI) (simp_all add: channels_for_def k)
  ultimately show ?thesis using read by (simp add: padded_def n)
qed

text \<open>
  C30: a cloud of the old format, converted to the new one and back, comes back with its header, its
  points and its channels, except that a channel that has not one value for each point comes back
  as zeros; this holds whatever the two output messages held before, but for the data of the new
  message when a channel is not full.
\<close>

theorem point_cloud_round_trip:
  assumes "fits pc" and "full_channels pc \<or> cloud_data out = []"
  shows "\<exists>m. convertPointCloudToPointCloud2 pc out = Inr (True, m) \<and>
    convertPointCloud2ToPointCloud m out' = Inr (True, padded pc) \<and> (full_channels pc \<longrightarrow> padded pc = pc)"
proof -
  let ?n = "length (points pc)" and ?k = "3 + length (channels pc)"
  obtain bs where bs: "convertPointCloudToPointCloud2 pc out =
      Inr (True, (converted_frame pc (cloud_data out))\<lparr>cloud_data := bs\<rparr>)"
    "fills (?n * ?k) (cell_present pc) (cell_value pc) (resized 0 (4 * (?n * ?k)) (cloud_data out)) bs"
    using converted_ok [OF assms(1), of out] by blast
  from bs(2) have "length bs = 4 * (?n * ?k)" by (simp add: fills_def)
  from converted_back [OF assms(1) this refl refl] obtain pc' where
    "convertPointCloud2ToPointCloud ((converted_frame pc (cloud_data out))\<lparr>cloud_data := bs\<rparr>) out' = Inr (True, pc')"
    "read_from_cells pc bs pc'"
    by blast
  with read_padded [OF bs(2) refl refl assms(2)] bs(1) padded_full [of pc] show ?thesis by blast
qed

text \<open>Two points with a full channel and an empty one.\<close>

definition scan_header :: Header where
  "scan_header = \<lparr>stamp_sec = 3, stamp_nanosec = 5, frame_id = ''map''\<rparr>"

definition scan_cloud :: PointCloud where
  "scan_cloud = \<lparr>pc_header = scan_header,
     points = [\<lparr>point_x = 0x3F800000, point_y = 0x40000000, point_z = 0\<rparr>, \<lparr>point_x = 1, point_y = 2, point_z = 3\<rparr>],
     channels = [\<lparr>channel_name = ''intensity'', channel_values = [7, 8]\<rparr>, \<lparr>channel_name = ''ring'', channel_values = []\<rparr>]\<rparr>"

definition old_message :: "uint8_t list \<Rightarrow> PointCloud2" where
  "old_message bs = \<lparr>cloud_header = scan_header, height = 0, width = 0, cloud_fields = [], is_bigendian = False,
     point_step = 0, row_step = 0, cloud_data = bs, is_dense = False\<rparr>"

definition new_cloud :: PointCloud where
  "new_cloud = \<lparr>pc_header = scan_header, points = [], channels = []\<rparr>"

theorem point_cloud_round_trip_witness:
  "\<exists>m. convertPointCloudToPointCloud2 scan_cloud (old_message []) = Inr (True, m) \<and>
    convertPointCloud2ToPointCloud m new_cloud =
      Inr (True, scan_cloud\<lparr>channels := [\<lparr>channel_name = ''intensity'', channel_values = [7, 8]\<rparr>,
        \<lparr>channel_name = ''ring'', channel_values = [0, 0]\<rparr>]\<rparr>)"
proof -
  have "fits scan_cloud" by (simp add: fits_def scan_cloud_def max_size_def sizeof_PointField_def)
  moreover have "cloud_data (old_message []) = []" by (simp add: old_message_def)
  moreover have "padded scan_cloud = scan_cloud\<lparr>channels := [\<lparr>channel_name = ''intensity'', channel_values = [7, 8]\<rparr>,
        \<lparr>channel_name = ''ring'', channel_values = [0, 0]\<rparr>]\<rparr>"
    by (simp add: padded_def padded_channel_def scan_cloud_def numeral_2_eq_2)
  ultimately show ?thesis using point_cloud_round_trip [of scan_cloud "old_message []" new_cloud] by auto
qed

section \<open>Where it goes wrong\<close>

text \<open>
  The channel without values is not written at all, so it takes what the output message held before.
\<close>

lemma stale_channel:
  "(case convertPointCloudToPointCloud2 scan_cloud (old_message (replicate 40 255)) of
      Inl e \<Rightarrow> False
    | Inr (b, m) \<Rightarrow> (case convertPointCloud2ToPointCloud m new_cloud of
        Inl e \<Rightarrow> False
      | Inr (b', pc) \<Rightarrow> b' \<and> channel_values (channels pc ! 1) = [0xFFFFFFFF, 0xFFFFFFFF]))"
  by code_simp

text \<open>
  A message of fewer than three fields makes the number of channels wrap around, and the resize throws
  where the function should answer \<^verbatim>\<open>false\<close>.
\<close>

lemma few_fields_throw:
  assumes "length (cloud_fields m) < 3" and "within_max sizeof_Point32 (width m * height m)"
  shows "convertPointCloud2ToPointCloud m out = Inl Length_Error"
proof -
  let ?n = "length (cloud_fields m)"
  have "?n = 0 \<or> ?n = 1 \<or> ?n = 2" using assms(1) by linarith
  then have "\<not> within_max sizeof_ChannelFloat32 (of_nat ?n - 3)"
    by (elim disjE) (simp_all add: within_max_code sizeof_ChannelFloat32_def unsigned_minus_1_eq_mask mask_eq_exp_minus_1)
  then show ?thesis
    using assms(2) by (simp add: convertPointCloud2ToPointCloud_def vector_resize_def)
qed

end
