(* ===== verification/Key_Value.thy ===== *)
theory Key_Value
  imports Ctype_Table "HOL-Library.AList"
begin

text \<open>
  The user data of a participant, \<^verbatim>\<open>rmw/impl/cpp/key_value.hpp\<close>: bytes \<^verbatim>\<open>key=value;key=value;\<close> read
  into a map. A doubled semicolon stands for one in the value, and zeros may follow the last value.
  The class of a byte is that of the table of the targets; \<^verbatim>\<open>rcutils/isalnum_no_locale.h\<close> has the
  same class without the table. A \<^verbatim>\<open>std::map\<close> is an association list, a \<^verbatim>\<open>std::string\<close> its bytes.
\<close>

type_synonym bytes = "uint8_t list"

section \<open>Letters and digits\<close>

definition isalnum :: "uint8_t \<Rightarrow> bool" where
  "isalnum c = is_class (flag_U OR flag_L OR flag_N) (uint c)"

text \<open>The comparisons of a \<^verbatim>\<open>char\<close>, which may be negative.\<close>

definition rcutils_isalnum_no_locale :: "int \<Rightarrow> bool" where
  "rcutils_isalnum_no_locale c =
     (if 0x30 \<le> c \<and> c \<le> 0x39 then True
      else if 0x41 \<le> c \<and> c \<le> 0x5a then True
      else if 0x61 \<le> c \<and> c \<le> 0x7a then True
      else False)"

lemma is_class_or: "is_class (a OR b) c \<longleftrightarrow> is_class a c \<or> is_class b c"
  by (simp add: is_class_def bit.conj_disj_distrib or_eq_0_iff split: option.splits)

lemma alnum_class:
  assumes "- 128 \<le> c" "c \<le> 255"
  shows "is_class (flag_U OR flag_L OR flag_N) c = rcutils_isalnum_no_locale c"
proof -
  have "is_class flag_U c = (65 \<le> c \<and> c \<le> 90)" "is_class flag_L c = (97 \<le> c \<and> c \<le> 122)"
    "is_class flag_N c = (48 \<le> c \<and> c \<le> 57)"
    using ctype_ranges [OF assms, of flag_U "[(65, 90)]"] ctype_ranges [OF assms, of flag_L "[(97, 122)]"]
      ctype_ranges [OF assms, of flag_N "[(48, 57)]"]
    by (simp_all add: ascii_classes_def)
  then show ?thesis by (auto simp: is_class_or rcutils_isalnum_no_locale_def)
qed

section \<open>The parser\<close>

record kv_state =
  keyfound :: bool
  kv_key :: bytes
  kv_value :: bytes
  prev :: uint8_t
  kv_map :: "(bytes \<times> bytes) list"

text \<open>What a round of the loop leads to.\<close>

datatype kv_round = Round kv_state | Break kv_state | Not_Valid

definition semicolon :: uint8_t where "semicolon = 59"
definition equals_sign :: uint8_t where "equals_sign = 61"

definition key_round :: "uint8_t \<Rightarrow> kv_state \<Rightarrow> kv_round" where
  "key_round u8 s =
     (if u8 = equals_sign then
        if kv_key s = [] then Not_Valid else Round (s\<lparr>keyfound := True, prev := u8\<rparr>)
      else if isalnum u8 then Round (s\<lparr>kv_key := kv_key s @ [u8], prev := u8\<rparr>)
      else if u8 = 0 \<and> kv_key s = [] \<and> kv_map s \<noteq> [] then Break s
      else if prev s \<noteq> semicolon \<or> kv_key s \<noteq> [] then Not_Valid
      else Round (s\<lparr>prev := u8\<rparr>))"

definition kv_store :: "kv_state \<Rightarrow> (bytes \<times> bytes) list" where
  "kv_store s = AList.update (kv_key s) (kv_value s) (kv_map s)"

definition kv_flush :: "kv_state \<Rightarrow> kv_state" where
  "kv_flush s = s\<lparr>kv_map := kv_store s, kv_key := [], kv_value := [], keyfound := False\<rparr>"

definition kv_round :: "uint8_t \<Rightarrow> kv_state \<Rightarrow> kv_round" where
  "kv_round u8 s =
     (if keyfound s then
        if u8 = semicolon \<and> prev s \<noteq> semicolon then Round (s\<lparr>prev := u8\<rparr>)
        else if u8 \<noteq> semicolon \<and> prev s = semicolon then
          if kv_value s = [] then Not_Valid else key_round u8 (kv_flush s)
        else Round (s\<lparr>kv_value := kv_value s @ [u8], prev := u8\<rparr>)
      else key_round u8 s)"

fun kv_loop :: "bytes \<Rightarrow> kv_state \<Rightarrow> kv_state option" where
  "kv_loop [] s = Some s"
| "kv_loop (u8 # us) s =
     (case kv_round u8 s of Round s \<Rightarrow> kv_loop us s | Break s \<Rightarrow> Some s | Not_Valid \<Rightarrow> None)"

definition kv_start :: kv_state where
  "kv_start = \<lparr>keyfound = False, kv_key = [], kv_value = [], prev = 0, kv_map = []\<rparr>"

definition kv_finish :: "kv_state \<Rightarrow> (bytes \<times> bytes) list" where
  "kv_finish s =
     (if keyfound s then if kv_value s = [] then [] else kv_store s
      else if kv_key s \<noteq> [] then [] else kv_map s)"

definition parse_key_value :: "bytes \<Rightarrow> (bytes \<times> bytes) list" where
  "parse_key_value kv =
     (if kv = [] then [] else case kv_loop kv kv_start of None \<Rightarrow> [] | Some s \<Rightarrow> kv_finish s)"

section \<open>What can be written\<close>

text \<open>Values in which only semicolons follow a semicolon, and their text.\<close>

definition writable :: "bytes \<Rightarrow> bool" where
  "writable v \<longleftrightarrow> v \<noteq> [] \<and> list_all (\<lambda>c. c = semicolon) (dropWhile (\<lambda>c. c \<noteq> semicolon) v)"

definition is_key :: "bytes \<Rightarrow> bool" where
  "is_key k \<longleftrightarrow> k \<noteq> [] \<and> list_all isalnum k"

definition entry_text :: "bytes \<times> bytes \<Rightarrow> bytes" where
  "entry_text e = fst e @ [equals_sign] @ snd e @ [semicolon]"

definition is_entry :: "bytes \<times> bytes \<Rightarrow> bool" where
  "is_entry e \<longleftrightarrow> is_key (fst e) \<and> writable (snd e)"

definition map_text :: "(bytes \<times> bytes) list \<Rightarrow> bytes" where
  "map_text es = concat (map entry_text es)"

section \<open>Reading an entry\<close>

text \<open>The rest of a run: what the map is at its end.\<close>

definition kv_run :: "bytes \<Rightarrow> kv_state \<Rightarrow> (bytes \<times> bytes) list" where
  "kv_run us s = (case kv_loop us s of None \<Rightarrow> [] | Some s \<Rightarrow> kv_finish s)"

lemma kv_run_Nil: "kv_run [] s = kv_finish s"
  by (simp add: kv_run_def)

lemma kv_run_Cons:
  "kv_run (u # us) s = (case kv_round u s of Round s \<Rightarrow> kv_run us s | Break s \<Rightarrow> kv_finish s | Not_Valid \<Rightarrow> [])"
  by (simp add: kv_run_def split: kv_round.splits)

lemma alnum_bytes: "isalnum u \<Longrightarrow> u \<noteq> semicolon \<and> u \<noteq> equals_sign \<and> u \<noteq> 0"
proof -
  have "\<not> isalnum semicolon" "\<not> isalnum equals_sign" "\<not> isalnum 0"
    by (simp_all add: isalnum_def alnum_class rcutils_isalnum_no_locale_def semicolon_def equals_sign_def)
  then show "isalnum u \<Longrightarrow> u \<noteq> semicolon \<and> u \<noteq> equals_sign \<and> u \<noteq> 0" by auto
qed

lemma signs: "semicolon \<noteq> equals_sign" "semicolon \<noteq> 0" "equals_sign \<noteq> 0"
  by (simp_all add: semicolon_def equals_sign_def)

lemma run_key:
  "list_all isalnum k \<Longrightarrow> \<not> keyfound s \<Longrightarrow>
    \<exists>p. kv_run (k @ us) s = kv_run us (s\<lparr>kv_key := kv_key s @ k, prev := p\<rparr>)"
proof (induction k arbitrary: s)
  case Nil
  have "s\<lparr>prev := prev s\<rparr> = s" by simp
  then show ?case by (metis append_Nil append_Nil2 kv_state.surjective kv_state.update_convs(2))
next
  case (Cons u k)
  then have "kv_round u s = Round (s\<lparr>kv_key := kv_key s @ [u], prev := u\<rparr>)"
    using alnum_bytes [of u] by (simp add: kv_round_def key_round_def)
  moreover obtain p where
    "kv_run (k @ us) (s\<lparr>kv_key := kv_key s @ [u], prev := u\<rparr>) =
      kv_run us (s\<lparr>kv_key := kv_key s @ u # k, prev := p\<rparr>)"
    using Cons.IH [of "s\<lparr>kv_key := kv_key s @ [u], prev := u\<rparr>"] Cons.prems by auto
  ultimately show ?case by (auto simp: kv_run_Cons)
qed

lemma run_value:
  "semicolon \<notin> set v \<Longrightarrow> keyfound s \<Longrightarrow> prev s \<noteq> semicolon \<Longrightarrow>
    \<exists>p. p \<noteq> semicolon \<and> kv_run (v @ us) s = kv_run us (s\<lparr>kv_value := kv_value s @ v, prev := p\<rparr>)"
proof (induction v arbitrary: s)
  case Nil
  have "s\<lparr>kv_value := kv_value s @ [], prev := prev s\<rparr> = s" by simp
  then show ?case using Nil by (metis append_Nil)
next
  case (Cons u v)
  then have "kv_round u s = Round (s\<lparr>kv_value := kv_value s @ [u], prev := u\<rparr>)"
    by (auto simp: kv_round_def)
  moreover obtain p where "p \<noteq> semicolon"
    "kv_run (v @ us) (s\<lparr>kv_value := kv_value s @ [u], prev := u\<rparr>) =
      kv_run us (s\<lparr>kv_value := kv_value s @ u # v, prev := p\<rparr>)"
    using Cons.IH [of "s\<lparr>kv_value := kv_value s @ [u], prev := u\<rparr>"] Cons.prems by auto
  ultimately show ?case by (auto simp: kv_run_Cons)
qed

lemma run_semicolons:
  "keyfound s \<Longrightarrow> prev s = semicolon \<Longrightarrow> list_all (\<lambda>c. c = semicolon) v \<Longrightarrow>
    kv_run (v @ us) s = kv_run us (s\<lparr>kv_value := kv_value s @ v, prev := semicolon\<rparr>)"
proof (induction v arbitrary: s)
  case Nil
  then show ?case by (cases s) simp
next
  case (Cons u v)
  then have "kv_round u s = Round (s\<lparr>kv_value := kv_value s @ [semicolon], prev := semicolon\<rparr>)"
    by (simp add: kv_round_def)
  then show ?case using Cons.IH [of "s\<lparr>kv_value := kv_value s @ [semicolon], prev := semicolon\<rparr>"] Cons.prems
    by (simp add: kv_run_Cons)
qed

lemma same_snoc: "list_all (\<lambda>c. c = x) ys \<Longrightarrow> ys @ [x] = x # ys"
  by (induction ys) simp_all

text \<open>A value with the semicolon that ends it.\<close>

lemma run_whole_value:
  assumes "writable v" "keyfound s" "prev s \<noteq> semicolon" "kv_value s = []"
  shows "kv_run (v @ [semicolon] @ us) s = kv_run us (s\<lparr>kv_value := v, prev := semicolon\<rparr>)"
proof -
  let ?body = "takeWhile (\<lambda>c. c \<noteq> semicolon) v" and ?rear = "dropWhile (\<lambda>c. c \<noteq> semicolon) v"
  have v: "v = ?body @ ?rear" by simp
  have all: "list_all (\<lambda>c. c = semicolon) ?rear" using assms(1) by (simp add: writable_def)
  then have "?rear @ [semicolon] = semicolon # ?rear" by (rule same_snoc)
  then have whole: "v @ [semicolon] @ us = ?body @ semicolon # ?rear @ us"
    by (metis append.assoc append_Cons append_Nil v)
  have "semicolon \<notin> set ?body" by (auto dest: set_takeWhileD)
  from run_value [OF this assms(2,3), of "semicolon # ?rear @ us"] obtain p where p: "p \<noteq> semicolon"
    "kv_run (v @ [semicolon] @ us) s = kv_run (semicolon # ?rear @ us) (s\<lparr>kv_value := ?body, prev := p\<rparr>)"
    unfolding whole using assms(4) by auto
  have "kv_round semicolon (s\<lparr>kv_value := ?body, prev := p\<rparr>) = Round (s\<lparr>kv_value := ?body, prev := semicolon\<rparr>)"
    using assms(2) p(1) by (simp add: kv_round_def)
  then have "kv_run (v @ [semicolon] @ us) s = kv_run (?rear @ us) (s\<lparr>kv_value := ?body, prev := semicolon\<rparr>)"
    by (simp only: p(2) kv_run_Cons kv_round.case)
  then show ?thesis using run_semicolons [OF _ _ all, of "s\<lparr>kv_value := ?body, prev := semicolon\<rparr>" us] assms(2)
    by simp
qed

section \<open>The round trip\<close>

text \<open>The state before an entry, and the one in which the entry waits for its end.\<close>

definition clean :: "kv_state \<Rightarrow> bool" where
  "clean s \<longleftrightarrow> \<not> keyfound s \<and> kv_key s = [] \<and> kv_value s = []"

definition waiting :: "bytes \<times> bytes \<Rightarrow> (bytes \<times> bytes) list \<Rightarrow> kv_state \<Rightarrow> bool" where
  "waiting e es s \<longleftrightarrow> keyfound s \<and> prev s = semicolon \<and> kv_key s = fst e \<and> kv_value s = snd e \<and> kv_map s = es"

definition add_entry :: "bytes \<times> bytes \<Rightarrow> (bytes \<times> bytes) list \<Rightarrow> (bytes \<times> bytes) list" where
  "add_entry e es = AList.update (fst e) (snd e) es"

lemma add_entry_ne: "add_entry e es \<noteq> []"
  by (cases es) (auto simp: add_entry_def)

lemma run_entry:
  assumes "clean s" "is_entry e"
  shows "\<exists>s'. waiting e (kv_map s) s' \<and> kv_run (entry_text e @ us) s = kv_run us s'"
proof -
  obtain k v where e: "e = (k, v)" by (cases e)
  have k: "list_all isalnum k" "k \<noteq> []" and v: "writable v" using assms(2) by (simp_all add: e is_entry_def is_key_def)
  have s: "\<not> keyfound s" "kv_key s = []" "kv_value s = []" using assms(1) by (simp_all add: clean_def)
  obtain p where p: "kv_run (k @ equals_sign # v @ [semicolon] @ us) s =
      kv_run (equals_sign # v @ [semicolon] @ us) (s\<lparr>kv_key := k, prev := p\<rparr>)"
    using run_key [OF k(1) s(1)] s(2) by auto
  let ?s = "s\<lparr>kv_key := k, keyfound := True, prev := equals_sign\<rparr>"
  have "kv_round equals_sign (s\<lparr>kv_key := k, prev := p\<rparr>) = Round ?s"
    using s k(2) by (simp add: kv_round_def key_round_def)
  then have "kv_run (entry_text e @ us) s = kv_run (v @ [semicolon] @ us) ?s"
    using p by (simp add: e entry_text_def kv_run_Cons)
  also have "\<dots> = kv_run us (?s\<lparr>kv_value := v, prev := semicolon\<rparr>)"
    using s(3) signs(1) by (intro run_whole_value [OF v]) auto
  finally show ?thesis
    by (intro exI [of _ "?s\<lparr>kv_value := v, prev := semicolon\<rparr>"]) (simp add: waiting_def e)
qed

text \<open>What comes after an entry: the next one, the end, or zeros.\<close>

lemma run_flush:
  assumes "waiting e es s" "snd e \<noteq> []" "u \<noteq> semicolon"
  shows "kv_run (u # us) s = kv_run (u # us) (kv_flush s)" "clean (kv_flush s)" "kv_map (kv_flush s) = add_entry e es"
proof -
  have "kv_round u s = key_round u (kv_flush s)" using assms by (simp add: kv_round_def waiting_def)
  moreover have "kv_round u (kv_flush s) = key_round u (kv_flush s)" by (simp add: kv_round_def kv_flush_def)
  ultimately show "kv_run (u # us) s = kv_run (u # us) (kv_flush s)" by (simp add: kv_run_Cons)
  show "clean (kv_flush s)" by (simp add: clean_def kv_flush_def)
  show "kv_map (kv_flush s) = add_entry e es"
    using assms(1) by (simp add: kv_flush_def kv_store_def add_entry_def waiting_def)
qed

lemma run_zero:
  assumes "clean s" "kv_map s \<noteq> []"
  shows "kv_run (0 # us) s = kv_map s"
proof -
  have "\<not> isalnum 0" using alnum_bytes [of 0] by auto
  then have "kv_round 0 s = Break s" using assms signs by (simp add: kv_round_def key_round_def clean_def)
  then show ?thesis using assms by (simp add: kv_run_Cons kv_finish_def clean_def)
qed

text \<open>The end of the data: nothing, or a zero with anything behind it.\<close>

definition trailing :: "bytes \<Rightarrow> bool" where
  "trailing us \<longleftrightarrow> us = [] \<or> hd us = 0"

lemma run_end:
  assumes "waiting e es s" "snd e \<noteq> []" "trailing us"
  shows "kv_run us s = add_entry e es"
proof (cases us)
  case Nil
  then show ?thesis
    using assms by (simp add: kv_run_Nil kv_finish_def waiting_def kv_store_def add_entry_def)
next
  case (Cons u us')
  then have "u = 0" using assms(3) by (simp add: trailing_def)
  moreover have "(0 :: uint8_t) \<noteq> semicolon" using signs(2) by auto
  note flush = run_flush [OF assms(1,2) this]
  have "kv_run (0 # us') (kv_flush s) = add_entry e es"
    using run_zero [OF flush(2)] flush(3) add_entry_ne by simp
  ultimately show ?thesis using flush(1) [of us'] by (simp add: Cons)
qed

lemma entry_value: "is_entry e \<Longrightarrow> snd e \<noteq> []"
  by (simp add: is_entry_def writable_def)

lemma entry_head: "is_entry e \<Longrightarrow> \<exists>u us'. entry_text e @ us = u # us' \<and> u \<noteq> semicolon"
proof -
  assume e: "is_entry e"
  then obtain u k where "fst e = u # k" "isalnum u" by (cases "fst e") (auto simp: is_entry_def is_key_def)
  then show ?thesis using alnum_bytes [of u] by (simp add: entry_text_def)
qed

lemma run_waiting_map:
  "list_all is_entry es \<Longrightarrow> waiting e m s \<Longrightarrow> snd e \<noteq> [] \<Longrightarrow> trailing us \<Longrightarrow>
    kv_run (map_text es @ us) s = fold add_entry (e # es) m"
proof (induction es arbitrary: e m s)
  case Nil
  then show ?case using run_end by (simp add: map_text_def)
next
  case (Cons e' es)
  then have e': "is_entry e'" "list_all is_entry es" "snd e' \<noteq> []" by (simp_all add: entry_value)
  obtain u us' where u: "entry_text e' @ map_text es @ us = u # us'" "u \<noteq> semicolon"
    using entry_head [OF e'(1)] by metis
  note flush = run_flush [OF Cons.prems(2,3) u(2)]
  obtain s' where s': "waiting e' (add_entry e m) s'"
    "kv_run (entry_text e' @ map_text es @ us) (kv_flush s) = kv_run (map_text es @ us) s'"
    using run_entry [OF flush(2) e'(1)] flush(3) by metis
  have "kv_run (map_text (e' # es) @ us) s = kv_run (map_text es @ us) s'"
    using flush(1) [of us'] s'(2) u(1) by (simp add: map_text_def)
  then show ?case using Cons.IH [OF e'(2) s'(1) e'(3) Cons.prems(4)] by simp
qed

lemma parse_map_text:
  assumes "list_all is_entry es" "es \<noteq> []" "trailing us"
  shows "parse_key_value (map_text es @ us) = fold add_entry es []"
proof -
  obtain e es' where es: "es = e # es'" using assms(2) by (cases es) auto
  then have e: "is_entry e" "list_all is_entry es'" "snd e \<noteq> []"
    using assms(1) by (simp_all add: entry_value)
  have "clean kv_start" "kv_map kv_start = []" by (simp_all add: clean_def kv_start_def)
  then obtain s where s: "waiting e [] s"
    "kv_run (entry_text e @ map_text es' @ us) kv_start = kv_run (map_text es' @ us) s"
    using run_entry [OF _ e(1)] by metis
  have ne: "map_text es @ us \<noteq> []" by (simp add: es map_text_def entry_text_def)
  have "parse_key_value (map_text es @ us) = kv_run (map_text es @ us) kv_start"
    using ne by (simp only: parse_key_value_def kv_run_def if_False)
  also have "\<dots> = kv_run (map_text es' @ us) s" using s(2) by (simp add: es map_text_def)
  also have "\<dots> = fold add_entry es []"
    unfolding es by (rule run_waiting_map [OF e(2) s(1) e(3) assms(3)])
  finally show ?thesis .
qed

lemma map_of_add_entries: "map_of (fold add_entry es m) = map_of m ++ map_of (rev es)"
proof (induction es arbitrary: m)
  case (Cons e es)
  then show ?case by (cases e) (simp add: add_entry_def update_conv' map_add_def fun_eq_iff split: option.splits)
qed simp

section \<open>Whatever is read can be written\<close>

definition only_trailing :: "bytes \<Rightarrow> bool" where
  "only_trailing v \<longleftrightarrow> list_all (\<lambda>c. c = semicolon) (dropWhile (\<lambda>c. c \<noteq> semicolon) v)"

lemma writable_only_trailing: "writable v \<longleftrightarrow> v \<noteq> [] \<and> only_trailing v"
  by (simp add: writable_def only_trailing_def)

lemma only_trailing_none: "semicolon \<notin> set v \<Longrightarrow> only_trailing v"
  by (induction v) (auto simp: only_trailing_def)

lemma only_trailing_snoc: "only_trailing v \<Longrightarrow> only_trailing (v @ [semicolon])"
  by (induction v) (auto simp: only_trailing_def)

lemma add_entry_all: "list_all P es \<Longrightarrow> P (k, v) \<Longrightarrow> list_all P (AList.update k v es)"
  by (induction es) auto

definition kv_ok :: "kv_state \<Rightarrow> bool" where
  "kv_ok s \<longleftrightarrow> list_all isalnum (kv_key s) \<and> list_all is_entry (kv_map s) \<and> distinct (map fst (kv_map s)) \<and>
     (if keyfound s
      then kv_key s \<noteq> [] \<and> only_trailing (kv_value s) \<and> (prev s \<noteq> semicolon \<longrightarrow> semicolon \<notin> set (kv_value s))
      else kv_value s = [])"

lemma kv_store_ok:
  assumes "kv_ok s" "keyfound s" "kv_value s \<noteq> []"
  shows "list_all is_entry (kv_store s) \<and> distinct (map fst (kv_store s))"
proof -
  have "is_entry (kv_key s, kv_value s)"
    using assms by (simp add: kv_ok_def is_entry_def is_key_def writable_only_trailing)
  then show ?thesis using assms(1) by (simp add: kv_store_def add_entry_all distinct_update kv_ok_def)
qed

lemma key_round_ok:
  assumes "kv_ok s" "\<not> keyfound s"
  shows "case key_round u s of Round s' \<Rightarrow> kv_ok s' | Break s' \<Rightarrow> s' = s | Not_Valid \<Rightarrow> True"
  using assms by (auto simp: key_round_def kv_ok_def only_trailing_def)

lemma kv_round_ok:
  assumes "kv_ok s"
  shows "case kv_round u s of Round s' \<Rightarrow> kv_ok s' | Break s' \<Rightarrow> kv_ok s' | Not_Valid \<Rightarrow> True"
proof (cases "keyfound s")
  case False
  then show ?thesis using key_round_ok [OF assms False, of u] assms by (auto simp: kv_round_def split: kv_round.splits)
next
  case True
  show ?thesis
  proof (cases "u \<noteq> semicolon \<and> prev s = semicolon")
    case flush: True
    have "kv_ok (kv_flush s)" if "kv_value s \<noteq> []"
      using kv_store_ok [OF assms True that] by (simp add: kv_ok_def kv_flush_def)
    then show ?thesis
      using True flush key_round_ok [of "kv_flush s" u]
      by (auto simp: kv_round_def kv_flush_def split: kv_round.splits)
  next
    case False
    then show ?thesis
      using True assms only_trailing_none [of "kv_value s @ [u]"] only_trailing_snoc [of "kv_value s"]
      by (auto simp: kv_round_def kv_ok_def)
  qed
qed

lemma kv_loop_ok: "kv_ok s \<Longrightarrow> kv_loop us s = Some s' \<Longrightarrow> kv_ok s'"
proof (induction us arbitrary: s)
  case (Cons u us)
  then show ?case using kv_round_ok [of s u] by (auto split: kv_round.splits)
qed simp

lemma parse_entries:
  "list_all is_entry (parse_key_value kv) \<and> distinct (map fst (parse_key_value kv))"
proof (cases "kv = [] \<or> kv_loop kv kv_start = None")
  case True
  then show ?thesis by (auto simp: parse_key_value_def)
next
  case False
  then obtain s where s: "kv_loop kv kv_start = Some s" and kv: "kv \<noteq> []" by auto
  have "kv_ok kv_start" by (simp add: kv_ok_def kv_start_def)
  then have ok: "kv_ok s" using s by (rule kv_loop_ok)
  have "list_all is_entry (kv_finish s) \<and> distinct (map fst (kv_finish s))"
    using ok kv_store_ok [OF ok] by (auto simp: kv_finish_def) (auto simp: kv_ok_def)
  then show ?thesis using s kv by (simp add: parse_key_value_def)
qed

lemma update_new: "k \<notin> set (map fst m) \<Longrightarrow> AList.update k v m = m @ [(k, v)]"
  by (induction m) auto

lemma add_new_entries:
  "distinct (map fst (m @ es)) \<Longrightarrow> fold add_entry es m = m @ es"
proof (induction es arbitrary: m)
  case (Cons e es)
  then have "add_entry e m = m @ [e]" by (simp add: add_entry_def update_new)
  then show ?case using Cons.IH [of "m @ [e]"] Cons.prems by simp
qed simp

text \<open>
  C31: the text of a list of entries, whose keys are letters and digits and whose values have
  semicolons only at their end, is read back as the map of these entries, the last one of a key
  counting, whatever follows behind a zero.
\<close>

theorem key_value_roundtrip:
  assumes "list_all is_entry es" and "es \<noteq> []" and "trailing us"
  shows "map_of (parse_key_value (map_text es @ us)) = map_of (rev es)"
  by (simp add: parse_map_text [OF assms] map_of_add_entries)

theorem key_value_roundtrip_witness:
  "map_of (parse_key_value (map_text [([97], [1, 59]), ([98, 49], [0]), ([97], [2])] @ [0, 59, 59])) [97] = Some [2]"
proof -
  have "list_all is_entry [([97], [1, 59]), ([98, 49], [0]), ([97], [2])]"
    by (simp add: is_entry_def is_key_def writable_def isalnum_def alnum_class rcutils_isalnum_no_locale_def semicolon_def)
  moreover have "trailing [0, 59, 59]" by (simp add: trailing_def)
  ultimately show ?thesis
    using key_value_roundtrip [of "[([97], [1, 59]), ([98, 49], [0]), ([97], [2])]" "[0, 59, 59]"] by simp
qed

text \<open>
  C32: whatever the bytes are, the map read from them has each key once, the keys are non-empty and
  of letters and digits, the values are non-empty with semicolons only at their end, and writing the
  map as text and reading it gives it again.
\<close>

theorem parse_key_value_canonical:
  "list_all is_entry (parse_key_value kv) \<and> distinct (map fst (parse_key_value kv)) \<and>
    parse_key_value (map_text (parse_key_value kv)) = parse_key_value kv"
proof -
  let ?es = "parse_key_value kv"
  have es: "list_all is_entry ?es" "distinct (map fst ?es)" using parse_entries [of kv] by simp_all
  have "parse_key_value (map_text ?es) = ?es"
  proof (cases "?es = []")
    case True
    then show ?thesis by (simp add: map_text_def parse_key_value_def)
  next
    case False
    have "fold add_entry ?es [] = ?es" using add_new_entries [of "[]" ?es] es(2) by simp
    moreover have "trailing []" by (simp add: trailing_def)
    ultimately show ?thesis using parse_map_text [OF es(1) False, of "[]"] by simp
  qed
  then show ?thesis using es by simp
qed

text \<open>A value that goes on behind a semicolon cannot be written: after a doubled one it ends.\<close>

lemma inner_semicolon:
  "parse_key_value [97, 61, 1, 59, 59, 2] = [([97], [1, 59])]"
  by (simp add: parse_key_value_def kv_start_def kv_round_def key_round_def kv_flush_def kv_store_def kv_finish_def
      isalnum_def alnum_class rcutils_isalnum_no_locale_def semicolon_def equals_sign_def)

end
