(* ===== verification/Message_Values.thy ===== *)
theory Message_Values
  imports Test_Messages Point_Field_Conversion
begin

text \<open>
  Values of messages: what a member may hold, by its C type, with arrays of their length and bounded
  sequences within their bound. A \<^verbatim>\<open>float\<close> and a \<^verbatim>\<open>double\<close> are the words that hold them, strings are
  their bytes or code units.
\<close>

datatype c_value =
    Bool_v bool
  | Int_v int
  | Float_v uint32_t
  | Double_v uint64_t
  | Text_v "uint8_t list"
  | Text16_v "uint16_t list"
  | List_v "c_value list"
  | Struct_v "(string \<times> c_value) list"

type_synonym assignments = "(string \<times> c_value) list"

section \<open>The values of a type\<close>

definition in_range :: "nat \<Rightarrow> bool \<Rightarrow> c_value \<Rightarrow> bool" where
  "in_range w negative v =
     (case v of
        Int_v i \<Rightarrow> if negative then - (2 ^ (w - 1)) \<le> i \<and> i < 2 ^ (w - 1) else 0 \<le> i \<and> i < 2 ^ w
      | _ \<Rightarrow> False)"

primrec prim_value :: "ros_field_type \<Rightarrow> c_value \<Rightarrow> bool" where
  "prim_value ROS_TYPE_FLOAT v = (case v of Float_v w \<Rightarrow> True | _ \<Rightarrow> False)"
| "prim_value ROS_TYPE_DOUBLE v = (case v of Double_v w \<Rightarrow> True | _ \<Rightarrow> False)"
| "prim_value ROS_TYPE_LONG_DOUBLE v = (case v of Double_v w \<Rightarrow> True | _ \<Rightarrow> False)"
| "prim_value ROS_TYPE_CHAR v = in_range 8 True v"
| "prim_value ROS_TYPE_WCHAR v = in_range 16 False v"
| "prim_value ROS_TYPE_BOOLEAN v = (case v of Bool_v b \<Rightarrow> True | _ \<Rightarrow> False)"
| "prim_value ROS_TYPE_OCTET v = in_range 8 False v"
| "prim_value ROS_TYPE_UINT8 v = in_range 8 False v"
| "prim_value ROS_TYPE_INT8 v = in_range 8 True v"
| "prim_value ROS_TYPE_UINT16 v = in_range 16 False v"
| "prim_value ROS_TYPE_INT16 v = in_range 16 True v"
| "prim_value ROS_TYPE_UINT32 v = in_range 32 False v"
| "prim_value ROS_TYPE_INT32 v = in_range 32 True v"
| "prim_value ROS_TYPE_UINT64 v = in_range 64 False v"
| "prim_value ROS_TYPE_INT64 v = in_range 64 True v"
| "prim_value ROS_TYPE_STRING v = (case v of Text_v s \<Rightarrow> True | _ \<Rightarrow> False)"
| "prim_value ROS_TYPE_WSTRING v = (case v of Text16_v s \<Rightarrow> True | _ \<Rightarrow> False)"
| "prim_value ROS_TYPE_MESSAGE v = False"

fun type_value :: "c_type \<Rightarrow> c_value \<Rightarrow> bool"
  and is_value :: "c_struct \<Rightarrow> c_value \<Rightarrow> bool"
  and member_values :: "(string \<times> c_type) list \<Rightarrow> (string \<times> c_value) list \<Rightarrow> bool"
where
  "type_value (Prim f) v = prim_value f v"
| "type_value Text v = (case v of Text_v s \<Rightarrow> True | _ \<Rightarrow> False)"
| "type_value Text16 v = (case v of Text16_v s \<Rightarrow> True | _ \<Rightarrow> False)"
| "type_value (Sequence t bound) v =
     (case v of List_v vs \<Rightarrow> (bound = 0 \<or> length vs \<le> bound) \<and> list_all (type_value t) vs | _ \<Rightarrow> False)"
| "type_value (Array t n) v = (case v of List_v vs \<Rightarrow> length vs = n \<and> list_all (type_value t) vs | _ \<Rightarrow> False)"
| "type_value (Struct st) v = is_value st v"
| "is_value (C_Struct p n fs) v = (case v of Struct_v ms \<Rightarrow> member_values fs ms | _ \<Rightarrow> False)"
| "member_values [] ms = (ms = [])"
| "member_values ((n, t) # fs) ms =
     (case ms of [] \<Rightarrow> False | (m, v) # ms \<Rightarrow> m = n \<and> type_value t v \<and> member_values fs ms)"

section \<open>Assignments to members\<close>

fun set_member :: "string \<times> c_value \<Rightarrow> c_value \<Rightarrow> c_value" where
  "set_member (n, v) (Struct_v ms) = Struct_v (map (\<lambda>(m, w). (m, if m = n then v else w)) ms)"
| "set_member a v = v"

fun member_of :: "c_value \<Rightarrow> string \<Rightarrow> c_value option" where
  "member_of (Struct_v ms) n = map_of ms n"
| "member_of v n = None"

text \<open>A member that the structure has, with a value of its type.\<close>

fun assignable :: "c_struct \<Rightarrow> string \<times> c_value \<Rightarrow> bool" where
  "assignable (C_Struct p n fs) (m, v) =
     (case map_of fs m of None \<Rightarrow> False | Some t \<Rightarrow> type_value t v)"

definition distinct_members :: "c_struct \<Rightarrow> bool" where
  "distinct_members st = (case st of C_Struct p n fs \<Rightarrow> distinct (map fst fs))"

lemma member_values_set:
  "member_values fs ms \<Longrightarrow> (\<And>t. (n, t) \<in> set fs \<Longrightarrow> type_value t v) \<Longrightarrow>
    member_values fs (map (\<lambda>(m, w). (m, if m = n then v else w)) ms)"
proof (induction fs arbitrary: ms)
  case (Cons f fs)
  obtain m t where f: "f = (m, t)" by (cases f)
  with Cons.prems(1) obtain w ms' where ms: "ms = (m, w) # ms'" "type_value t w" "member_values fs ms'"
    by (auto split: list.splits)
  then show ?case using Cons.IH [of ms'] Cons.prems(2) by (simp add: f)
qed simp

lemma set_member_value:
  assumes "is_value st v" "assignable st a" "distinct_members st"
  shows "is_value st (set_member a v)"
proof -
  obtain p n fs where st: "st = C_Struct p n fs" by (cases st)
  obtain m w where a: "a = (m, w)" by (cases a)
  from assms(1) st obtain ms where v: "v = Struct_v ms" "member_values fs ms" by (auto split: c_value.splits)
  have t: "type_value t w" if "(m, t) \<in> set fs" for t
    using assms(2,3) that map_of_is_SomeI [of fs m t] by (simp add: st a distinct_members_def)
  have "member_values fs (map (\<lambda>(m', w'). (m', if m' = m then w else w')) ms)"
    using v(2) t by (rule member_values_set)
  then show ?thesis by (simp add: st a v(1))
qed

text \<open>A message made by a default constructor and assignments to its members.\<close>

definition assigned :: "assignments \<Rightarrow> c_value \<Rightarrow> c_value" where
  "assigned as v = fold set_member as v"

lemma assigned_value:
  "is_value st v \<Longrightarrow> list_all (assignable st) as \<Longrightarrow> distinct_members st \<Longrightarrow> is_value st (assigned as v)"
  unfolding assigned_def by (induction as arbitrary: v) (simp_all add: set_member_value)

section \<open>Zeros\<close>

primrec zero_prim :: "ros_field_type \<Rightarrow> c_value" where
  "zero_prim ROS_TYPE_FLOAT = Float_v 0"
| "zero_prim ROS_TYPE_DOUBLE = Double_v 0"
| "zero_prim ROS_TYPE_LONG_DOUBLE = Double_v 0"
| "zero_prim ROS_TYPE_CHAR = Int_v 0"
| "zero_prim ROS_TYPE_WCHAR = Int_v 0"
| "zero_prim ROS_TYPE_BOOLEAN = Bool_v False"
| "zero_prim ROS_TYPE_OCTET = Int_v 0"
| "zero_prim ROS_TYPE_UINT8 = Int_v 0"
| "zero_prim ROS_TYPE_INT8 = Int_v 0"
| "zero_prim ROS_TYPE_UINT16 = Int_v 0"
| "zero_prim ROS_TYPE_INT16 = Int_v 0"
| "zero_prim ROS_TYPE_UINT32 = Int_v 0"
| "zero_prim ROS_TYPE_INT32 = Int_v 0"
| "zero_prim ROS_TYPE_UINT64 = Int_v 0"
| "zero_prim ROS_TYPE_INT64 = Int_v 0"
| "zero_prim ROS_TYPE_STRING = Text_v []"
| "zero_prim ROS_TYPE_WSTRING = Text16_v []"
| "zero_prim ROS_TYPE_MESSAGE = Struct_v []"

text \<open>A value of every structure: zeros, and no strings and elements.\<close>

fun zero_of_type :: "c_type \<Rightarrow> c_value"
  and zero_message :: "c_struct \<Rightarrow> c_value"
  and zero_members :: "(string \<times> c_type) list \<Rightarrow> (string \<times> c_value) list"
where
  "zero_of_type (Prim f) = zero_prim f"
| "zero_of_type Text = Text_v []"
| "zero_of_type Text16 = Text16_v []"
| "zero_of_type (Sequence t bound) = List_v []"
| "zero_of_type (Array t n) = List_v (replicate n (zero_of_type t))"
| "zero_of_type (Struct st) = zero_message st"
| "zero_message (C_Struct p n fs) = Struct_v (zero_members fs)"
| "zero_members [] = []"
| "zero_members ((n, t) # fs) = (n, zero_of_type t) # zero_members fs"

fun no_message_prim :: "c_type \<Rightarrow> bool"
  and no_message_prims :: "c_struct \<Rightarrow> bool"
  and no_message_members :: "(string \<times> c_type) list \<Rightarrow> bool"
where
  "no_message_prim (Prim f) = (f \<noteq> ROS_TYPE_MESSAGE)"
| "no_message_prim Text = True"
| "no_message_prim Text16 = True"
| "no_message_prim (Sequence t bound) = no_message_prim t"
| "no_message_prim (Array t n) = no_message_prim t"
| "no_message_prim (Struct st) = no_message_prims st"
| "no_message_prims (C_Struct p n fs) = no_message_members fs"
| "no_message_members [] = True"
| "no_message_members ((n, t) # fs) = (no_message_prim t \<and> no_message_members fs)"

lemma zero_prim_value: "f \<noteq> ROS_TYPE_MESSAGE \<Longrightarrow> prim_value f (zero_prim f)"
  by (cases f) (simp_all add: in_range_def)

lemma zero_values:
  "no_message_prim t \<Longrightarrow> type_value t (zero_of_type t)"
  "no_message_prims st \<Longrightarrow> is_value st (zero_message st)"
  "no_message_members fs \<Longrightarrow> member_values fs (zero_members fs)"
  by (induction t and st and fs rule: zero_of_type_zero_message_zero_members.induct)
    (simp_all add: zero_prim_value list_all_iff)

end
