(* ===== verification/Test_Fixtures.thy ===== *)
theory Test_Fixtures
  imports Message_Values
begin

text \<open>
  The messages and services that \<^verbatim>\<open>test_msgs/message_fixtures.hpp\<close> and \<^verbatim>\<open>service_fixtures.hpp\<close> make for
  tests, as values: the assignments of each block, in order, to the members of a message. The
  default constructor of a message is generated and not in the repository: it is the parameter
  \<open>dflt\<close>. An array or a vector that is filled element by element is the list of its elements.
\<close>

type_synonym default_values = "c_struct \<Rightarrow> c_value"

definition bools :: "bool list \<Rightarrow> c_value" where "bools bs = List_v (map Bool_v bs)"
definition ints :: "int list \<Rightarrow> c_value" where "ints is = List_v (map Int_v is)"
definition floats :: "uint32_t list \<Rightarrow> c_value" where "floats ws = List_v (map Float_v ws)"
definition doubles :: "uint64_t list \<Rightarrow> c_value" where "doubles ws = List_v (map Double_v ws)"
definition texts :: "string list \<Rightarrow> c_value" where "texts ss = List_v (map (\<lambda>s. Text_v (map of_char s)) ss)"
definition texts16 :: "uint16_t list list \<Rightarrow> c_value" where "texts16 ss = List_v (map Text16_v ss)"

lemmas value_lists = bools_def ints_def floats_def doubles_def texts_def texts16_def

text \<open>\<^verbatim>\<open>static_cast\<close> of a \<^verbatim>\<open>size_t\<close> to a signed and an unsigned integer type of \<open>w\<close> bits.\<close>

definition cast_signed :: "nat \<Rightarrow> nat \<Rightarrow> int" where
  "cast_signed w i = (int i + 2 ^ (w - 1)) mod 2 ^ w - 2 ^ (w - 1)"

definition cast_unsigned :: "nat \<Rightarrow> nat \<Rightarrow> int" where
  "cast_unsigned w i = int i mod 2 ^ w"

text \<open>The literals 1.125, -2.125 and 1, as words; \<^verbatim>\<open>1.125 * i\<close> is exact for the numbers that occur.\<close>

definition f1_125 :: uint32_t where "f1_125 = 0x3F900000"
definition fm2_125 :: uint32_t where "fm2_125 = 0xC0080000"
definition f1 :: uint32_t where "f1 = 0x3F800000"
definition d1_125 :: uint64_t where "d1_125 = 0x3FF2000000000000"
definition dm2_125 :: uint64_t where "dm2_125 = 0xC001000000000000"
definition d1 :: uint64_t where "d1 = 0x3FF0000000000000"

definition scaled_float :: "nat \<Rightarrow> uint32_t" where "scaled_float i = float_of_number (Finite False (9 * i) (-3))"
definition scaled_double :: "nat \<Rightarrow> uint64_t" where "scaled_double i = double_of_number (Finite False (9 * i) (-3))"

text \<open>\<^verbatim>\<open>std::to_string(i % 10)\<close>, appended \<open>n\<close> times.\<close>

definition digits_text :: "nat \<Rightarrow> uint8_t list" where
  "digits_text n = map (\<lambda>i. of_nat (48 + i mod 10)) [0..<n]"

section \<open>Messages\<close>

definition get_messages_empty :: "default_values \<Rightarrow> c_value list" where
  "get_messages_empty dflt = [dflt test_msgs__msg__Empty]"

definition basic_types_assignments :: "assignments list" where
  "basic_types_assignments =
    [[(''bool_value'', Bool_v False), (''byte_value'', Int_v 0), (''char_value'', Int_v 0),
      (''float32_value'', Float_v 0), (''float64_value'', Double_v 0),
      (''int8_value'', Int_v 0), (''uint8_value'', Int_v 0), (''int16_value'', Int_v 0),
      (''uint16_value'', Int_v 0), (''int32_value'', Int_v 0), (''uint32_value'', Int_v 0),
      (''int64_value'', Int_v 0), (''uint64_value'', Int_v 0)],
     [(''bool_value'', Bool_v True), (''byte_value'', Int_v 255), (''char_value'', Int_v 255),
      (''float32_value'', Float_v f1_125), (''float64_value'', Double_v d1_125),
      (''int8_value'', Int_v (2 ^ 7 - 1)), (''uint8_value'', Int_v (2 ^ 8 - 1)),
      (''int16_value'', Int_v (2 ^ 15 - 1)), (''uint16_value'', Int_v (2 ^ 16 - 1)),
      (''int32_value'', Int_v (2 ^ 31 - 1)), (''uint32_value'', Int_v (2 ^ 32 - 1)),
      (''int64_value'', Int_v (2 ^ 63 - 1)), (''uint64_value'', Int_v (2 ^ 64 - 1))],
     [(''bool_value'', Bool_v False), (''byte_value'', Int_v 0), (''char_value'', Int_v 0),
      (''float32_value'', Float_v fm2_125), (''float64_value'', Double_v dm2_125),
      (''int8_value'', Int_v (- (2 ^ 7))), (''uint8_value'', Int_v 0),
      (''int16_value'', Int_v (- (2 ^ 15))), (''uint16_value'', Int_v 0),
      (''int32_value'', Int_v (- (2 ^ 31))), (''uint32_value'', Int_v 0),
      (''int64_value'', Int_v (- (2 ^ 63))), (''uint64_value'', Int_v 0)],
     [(''bool_value'', Bool_v True), (''byte_value'', Int_v 1), (''char_value'', Int_v 1),
      (''float32_value'', Float_v f1), (''float64_value'', Double_v d1),
      (''int8_value'', Int_v 1), (''uint8_value'', Int_v 1), (''int16_value'', Int_v 1),
      (''uint16_value'', Int_v 1), (''int32_value'', Int_v 1), (''uint32_value'', Int_v 1),
      (''int64_value'', Int_v 1), (''uint64_value'', Int_v 1)]]"

definition get_messages_basic_types :: "default_values \<Rightarrow> c_value list" where
  "get_messages_basic_types dflt =
     map (\<lambda>as. assigned as (dflt test_msgs__msg__BasicTypes)) basic_types_assignments"

definition get_messages_constants :: "default_values \<Rightarrow> c_value list" where
  "get_messages_constants dflt = [dflt test_msgs__msg__Constants]"

definition get_messages_defaults :: "default_values \<Rightarrow> c_value list" where
  "get_messages_defaults dflt = [dflt test_msgs__msg__Defaults]"

text \<open>The third text is in UTF-8.\<close>

definition hello_umlaut :: "uint8_t list" where
  "hello_umlaut = [72, 101, 108, 108, 195, 182, 32, 87, 195, 182, 114, 108, 100, 33]"

definition strings_assignments :: "assignments list" where
  "strings_assignments =
    [[(''string_value'', Text_v []), (''bounded_string_value'', Text_v [])],
     [(''string_value'', Text_v (map of_char ''Hello world!'')),
      (''bounded_string_value'', Text_v (map of_char ''Hello world!''))],
     [(''string_value'', Text_v hello_umlaut), (''bounded_string_value'', Text_v hello_umlaut)],
     [(''string_value'', Text_v (digits_text 20000)), (''bounded_string_value'', Text_v (digits_text 22))]]"

definition get_messages_strings :: "default_values \<Rightarrow> c_value list" where
  "get_messages_strings dflt = map (\<lambda>as. assigned as (dflt test_msgs__msg__Strings)) strings_assignments"

definition arrays_assignments :: "c_value list \<Rightarrow> assignments" where
  "arrays_assignments basic =
     [(''bool_values'', bools [False, True, False]), (''byte_values'', ints [0, 255, 0]),
      (''char_values'', ints [0, 255, 0]), (''float32_values'', floats [0, f1_125, fm2_125]),
      (''float64_values'', doubles [0, d1_125, dm2_125]),
      (''int8_values'', ints [0, 2 ^ 7 - 1, - (2 ^ 7)]),
      (''uint8_values'', ints [0, 2 ^ 8 - 1, 0]),
      (''int16_values'', ints [0, 2 ^ 15 - 1, - (2 ^ 15)]),
      (''uint16_values'', ints [0, 2 ^ 16 - 1, 0]),
      (''int32_values'', ints [0, 2 ^ 31 - 1, - (2 ^ 31)]),
      (''uint32_values'', ints [0, 2 ^ 32 - 1, 0]),
      (''int64_values'', ints [0, 2 ^ 63 - 1, - (2 ^ 63)]),
      (''uint64_values'', ints [0, 2 ^ 64 - 1, 0]),
      (''string_values'', texts [[], ''max value'', ''min value'']),
      (''basic_types_values'', List_v [basic ! 0, basic ! 1, basic ! 2])]"

definition get_messages_arrays :: "default_values \<Rightarrow> c_value list" where
  "get_messages_arrays dflt =
     (let basic = get_messages_basic_types dflt
      in [assigned (arrays_assignments basic) (dflt test_msgs__msg__Arrays)])"

definition unbounded_assignments :: "c_value list \<Rightarrow> assignments list" where
  "unbounded_assignments basic =
    [[(''bool_values'', List_v []), (''byte_values'', List_v []), (''char_values'', List_v []),
      (''float32_values'', List_v []), (''float64_values'', List_v []),
      (''int8_values'', List_v []), (''uint8_values'', List_v []),
      (''int16_values'', List_v []), (''uint16_values'', List_v []),
      (''int32_values'', List_v []), (''uint32_values'', List_v []),
      (''int64_values'', List_v []), (''uint64_values'', List_v []),
      (''string_values'', List_v []), (''basic_types_values'', List_v []),
      (''alignment_check'', Int_v 0)],
     [(''bool_values'', bools [True]), (''byte_values'', ints [255]),
      (''char_values'', ints [255]), (''float32_values'', floats [f1_125]),
      (''float64_values'', doubles [d1_125]), (''int8_values'', ints [2 ^ 7 - 1]),
      (''uint8_values'', ints [2 ^ 8 - 1]), (''int16_values'', ints [2 ^ 15 - 1]),
      (''uint16_values'', ints [2 ^ 16 - 1]), (''int32_values'', ints [2 ^ 31 - 1]),
      (''uint32_values'', ints [2 ^ 32 - 1]), (''int64_values'', ints [2 ^ 63 - 1]),
      (''uint64_values'', ints [2 ^ 64 - 1]), (''string_values'', texts [''max value'']),
      (''basic_types_values'', List_v [basic ! 0]), (''alignment_check'', Int_v 1)],
     [(''bool_values'', bools [False, True]), (''byte_values'', ints [0, 255]),
      (''char_values'', ints [0, 255]), (''float32_values'', floats [0, f1_125, fm2_125]),
      (''float64_values'', doubles [0, d1_125, dm2_125]),
      (''int8_values'', ints [0, 2 ^ 7 - 1, - (2 ^ 7)]),
      (''uint8_values'', ints [0, 2 ^ 8 - 1]),
      (''int16_values'', ints [0, 2 ^ 15 - 1, - (2 ^ 15)]),
      (''uint16_values'', ints [0, 2 ^ 16 - 1]),
      (''int32_values'', ints [0, 2 ^ 31 - 1, - (2 ^ 31)]),
      (''uint32_values'', ints [0, 2 ^ 32 - 1]),
      (''int64_values'', ints [0, 2 ^ 63 - 1, - (2 ^ 63)]),
      (''uint64_values'', ints [0, 2 ^ 64 - 1]),
      (''string_values'', texts [[], ''max value'', ''optional min value'']),
      (''basic_types_values'', List_v [basic ! 0, basic ! 1, basic ! 2]),
      (''alignment_check'', Int_v 2)],
     [(''bool_values'', List_v (map (\<lambda>i. Bool_v (i mod 2 \<noteq> 0)) [0..<1000])),
      (''byte_values'', List_v (map (\<lambda>i. Int_v (cast_unsigned 8 i)) [0..<1000])),
      (''char_values'', List_v (map (\<lambda>i. Int_v (cast_unsigned 8 (i mod 2 ^ 8))) [0..<1000])),
      (''float32_values'', List_v (map (\<lambda>i. Float_v (scaled_float i)) [0..<1000])),
      (''float64_values'', List_v (map (\<lambda>i. Double_v (scaled_double i)) [0..<1000])),
      (''int8_values'', List_v (map (\<lambda>i. Int_v (cast_signed 8 i)) [0..<1000])),
      (''uint8_values'', List_v (map (\<lambda>i. Int_v (cast_unsigned 8 i)) [0..<1000])),
      (''int16_values'', List_v (map (\<lambda>i. Int_v (cast_signed 16 i)) [0..<1000])),
      (''uint16_values'', List_v (map (\<lambda>i. Int_v (cast_unsigned 16 i)) [0..<1000])),
      (''int32_values'', List_v (map (\<lambda>i. Int_v (cast_signed 32 i)) [0..<1000])),
      (''uint32_values'', List_v (map (\<lambda>i. Int_v (cast_unsigned 32 i)) [0..<1000])),
      (''int64_values'', List_v (map (\<lambda>i. Int_v (cast_signed 64 i)) [0..<1000])),
      (''uint64_values'', List_v (map (\<lambda>i. Int_v (cast_unsigned 64 i)) [0..<1000])),
      (''string_values'', List_v (map (\<lambda>i. Text_v (map of_char (show_nat i))) [0..<1000])),
      (''basic_types_values'', List_v (map (\<lambda>i. basic ! (i mod length basic)) [0..<1000])),
      (''alignment_check'', Int_v 3)],
     [(''alignment_check'', Int_v 4)]]"

definition get_messages_unbounded_sequences :: "default_values \<Rightarrow> c_value list" where
  "get_messages_unbounded_sequences dflt =
     (let basic = get_messages_basic_types dflt
      in map (\<lambda>as. assigned as (dflt test_msgs__msg__UnboundedSequences)) (unbounded_assignments basic))"

definition bounded_assignments :: "c_value list \<Rightarrow> assignments list" where
  "bounded_assignments basic =
    [[(''bool_values'', bools [False, True, False]), (''byte_values'', ints [0, 1, 255]),
      (''char_values'', ints [0, 1, 255]), (''float32_values'', floats [0, f1_125, fm2_125]),
      (''float64_values'', doubles [0, d1_125, dm2_125]),
      (''int8_values'', ints [0, 2 ^ 7 - 1, - (2 ^ 7)]),
      (''uint8_values'', ints [0, 1, 2 ^ 8 - 1]),
      (''int16_values'', ints [0, 2 ^ 15 - 1, - (2 ^ 15)]),
      (''uint16_values'', ints [0, 1, 2 ^ 16 - 1]),
      (''int32_values'', ints [0, 2 ^ 31 - 1, - (2 ^ 31)]),
      (''uint32_values'', ints [0, 1, 2 ^ 32 - 1]),
      (''int64_values'', ints [0, 2 ^ 63 - 1, - (2 ^ 63)]),
      (''uint64_values'', ints [0, 1, 2 ^ 64 - 1]),
      (''string_values'', texts [[], ''max value'', ''optional min value'']),
      (''basic_types_values'', List_v [basic ! 0, basic ! 1, basic ! 2]),
      (''alignment_check'', Int_v 2)],
     [(''alignment_check'', Int_v 4)]]"

definition get_messages_bounded_sequences :: "default_values \<Rightarrow> c_value list" where
  "get_messages_bounded_sequences dflt =
     (let basic = get_messages_basic_types dflt
      in map (\<lambda>as. assigned as (dflt test_msgs__msg__BoundedSequences)) (bounded_assignments basic))"

text \<open>The loops fill three elements from the messages, over again when there are fewer.\<close>

definition three_of :: "c_value list \<Rightarrow> c_value" where
  "three_of msgs = List_v (map (\<lambda>i. msgs ! (i mod length msgs)) [0..<3])"

definition multi_nested_assignments :: "c_value list \<Rightarrow> c_value list \<Rightarrow> c_value list \<Rightarrow> assignments" where
  "multi_nested_assignments arrays bounded unbounded =
     [(''array_of_arrays'', three_of arrays),
      (''array_of_bounded_sequences'', three_of bounded),
      (''array_of_unbounded_sequences'', three_of unbounded),
      (''bounded_sequence_of_arrays'', three_of arrays),
      (''bounded_sequence_of_bounded_sequences'', three_of bounded),
      (''bounded_sequence_of_unbounded_sequences'', three_of unbounded),
      (''unbounded_sequence_of_arrays'', three_of arrays),
      (''unbounded_sequence_of_bounded_sequences'', three_of bounded),
      (''unbounded_sequence_of_unbounded_sequences'', three_of unbounded)]"

definition get_messages_multi_nested :: "default_values \<Rightarrow> c_value list" where
  "get_messages_multi_nested dflt =
     [assigned (multi_nested_assignments (get_messages_arrays dflt) (get_messages_bounded_sequences dflt)
        (get_messages_unbounded_sequences dflt)) (dflt test_msgs__msg__MultiNested)]"

definition get_messages_nested :: "default_values \<Rightarrow> c_value list" where
  "get_messages_nested dflt =
     map (\<lambda>basic. assigned [(''basic_types_value'', basic)] (dflt test_msgs__msg__Nested))
       (get_messages_basic_types dflt)"

text \<open>The members of the two nested messages are assigned one by one.\<close>

definition get_messages_builtins :: "default_values \<Rightarrow> c_value list" where
  "get_messages_builtins dflt =
     [assigned
       [(''duration_value'', assigned [(''sec'', Int_v (- 1234567890)), (''nanosec'', Int_v 123456789)]
          (dflt builtin_interfaces__msg__Duration)),
        (''time_value'', assigned [(''sec'', Int_v (- 1234567890)), (''nanosec'', Int_v 987654321)]
          (dflt builtin_interfaces__msg__Time))]
       (dflt test_msgs__msg__Builtins)]"

definition wstrings_assignments :: "assignments list" where
  "wstrings_assignments =
    [[(''wstring_value'', Text16_v []),
      (''array_of_wstrings'', texts16 [[49], [116, 119, 111], [19977]]),
      (''bounded_sequence_of_wstrings'', texts16 [[111, 110, 101], [20108]]),
      (''unbounded_sequence_of_wstrings'', texts16 [[46], [46, 46], [46, 46, 46], [22235]])],
     [(''wstring_value'', Text16_v [97, 115, 99, 105, 105])],
     [(''wstring_value'', Text16_v [72, 101, 108, 108, 246, 32, 87, 246, 114, 108, 100, 33])],
     [(''wstring_value'', Text16_v [12495, 12525, 12540, 12527, 12540, 12523, 12489])]]"

definition get_messages_wstrings :: "default_values \<Rightarrow> c_value list" where
  "get_messages_wstrings dflt = map (\<lambda>as. assigned as (dflt test_msgs__msg__WStrings)) wstrings_assignments"

section \<open>Services\<close>

definition get_services_empty :: "default_values \<Rightarrow> (c_value \<times> c_value) list" where
  "get_services_empty dflt = [(dflt test_msgs__srv__Empty_Request, dflt test_msgs__srv__Empty_Response)]"

definition basic_services_assignments :: "(assignments \<times> assignments) list" where
  "basic_services_assignments =
    [([(''bool_value'', Bool_v False), (''byte_value'', Int_v 0), (''char_value'', Int_v 0),
       (''float32_value'', Float_v 0), (''float64_value'', Double_v 0),
       (''int8_value'', Int_v 0), (''uint8_value'', Int_v 0), (''int16_value'', Int_v 0),
       (''uint16_value'', Int_v 0), (''int32_value'', Int_v 0), (''uint32_value'', Int_v 0),
       (''int64_value'', Int_v 0), (''uint64_value'', Int_v 0),
       (''string_value'', Text_v (map of_char ''request''))],
      [(''bool_value'', Bool_v False), (''byte_value'', Int_v 0), (''char_value'', Int_v 0),
       (''float32_value'', Float_v 0), (''float64_value'', Double_v 0),
       (''int8_value'', Int_v 0), (''uint8_value'', Int_v 0), (''int16_value'', Int_v 0),
       (''uint16_value'', Int_v 0), (''int32_value'', Int_v 0), (''uint32_value'', Int_v 0),
       (''int64_value'', Int_v 0), (''uint64_value'', Int_v 0),
       (''string_value'', Text_v (map of_char ''reply''))]),
     ([(''bool_value'', Bool_v True), (''byte_value'', Int_v 1), (''char_value'', Int_v 1),
       (''float32_value'', Float_v f1_125), (''float64_value'', Double_v 0x3FF1C28F5C28F5C3),
       (''int8_value'', Int_v 1), (''uint8_value'', Int_v 2), (''int16_value'', Int_v 3),
       (''uint16_value'', Int_v 4), (''int32_value'', Int_v 5), (''uint32_value'', Int_v 6),
       (''int64_value'', Int_v 7), (''uint64_value'', Int_v 8),
       (''string_value'', Text_v (digits_text 20000))],
      [(''bool_value'', Bool_v True), (''byte_value'', Int_v 11), (''char_value'', Int_v 11),
       (''float32_value'', Float_v 0x41320000),
       (''float64_value'', Double_v 0x40263851EB851EB8), (''int8_value'', Int_v 11),
       (''uint8_value'', Int_v 22), (''int16_value'', Int_v 33), (''uint16_value'', Int_v 44),
       (''int32_value'', Int_v 55), (''uint32_value'', Int_v 66), (''int64_value'', Int_v 77),
       (''uint64_value'', Int_v 88), (''string_value'', Text_v (digits_text 20000))])]"

definition get_services_basic_types :: "default_values \<Rightarrow> (c_value \<times> c_value) list" where
  "get_services_basic_types dflt =
     map (\<lambda>(request, reply). (assigned request (dflt test_msgs__srv__BasicTypes_Request),
         assigned reply (dflt test_msgs__srv__BasicTypes_Response))) basic_services_assignments"

text \<open>The request is filled like the message.\<close>

definition arrays_reply_assignments :: "c_value list \<Rightarrow> assignments" where
  "arrays_reply_assignments basic =
     [(''bool_values'', bools [True, False, False]), (''byte_values'', ints [255, 0, 0]),
      (''char_values'', ints [255, 0, 0]), (''float32_values'', floats [f1_125, 0, fm2_125]),
      (''float64_values'', doubles [d1_125, 0, dm2_125]),
      (''int8_values'', ints [2 ^ 7 - 1, 0, - (2 ^ 7)]),
      (''uint8_values'', ints [2 ^ 8 - 1, 0, 0]),
      (''int16_values'', ints [2 ^ 15 - 1, 0, - (2 ^ 15)]),
      (''uint16_values'', ints [2 ^ 16 - 1, 0, 0]),
      (''int32_values'', ints [2 ^ 31 - 1, 0, - (2 ^ 31)]),
      (''uint32_values'', ints [2 ^ 32 - 1, 0, 0]),
      (''int64_values'', ints [2 ^ 63 - 1, 0, - (2 ^ 63)]),
      (''uint64_values'', ints [2 ^ 64 - 1, 0, 0]),
      (''string_values'', texts [''max value'', [], ''min value'']),
      (''basic_types_values'', List_v [basic ! 1, basic ! 0, basic ! 2])]"

definition get_services_arrays :: "default_values \<Rightarrow> (c_value \<times> c_value) list" where
  "get_services_arrays dflt =
     (let basic = get_messages_basic_types dflt
      in [(assigned (arrays_assignments basic) (dflt test_msgs__srv__Arrays_Request),
           assigned (arrays_reply_assignments basic) (dflt test_msgs__srv__Arrays_Response))])"

end
