(* ===== verification/Fixture_Assignments.thy ===== *)
theory Fixture_Assignments
  imports Test_Fixtures
begin

text \<open>
  The assignments of the fixtures fit the members they are for: numbers in the range of the members,
  arrays of their length, bounded sequences within their bounds.
\<close>

section \<open>Assignments\<close>

lemma distinct_fixtures [simp]:
  "distinct_members test_msgs__msg__BasicTypes"
  "distinct_members test_msgs__msg__Strings"
  "distinct_members test_msgs__msg__Arrays"
  "distinct_members test_msgs__msg__UnboundedSequences"
  "distinct_members test_msgs__msg__BoundedSequences"
  "distinct_members test_msgs__msg__MultiNested"
  "distinct_members test_msgs__msg__Nested"
  "distinct_members test_msgs__msg__Builtins"
  "distinct_members test_msgs__msg__WStrings"
  "distinct_members builtin_interfaces__msg__Duration"
  "distinct_members builtin_interfaces__msg__Time"
  "distinct_members test_msgs__srv__BasicTypes_Request"
  "distinct_members test_msgs__srv__BasicTypes_Response"
  "distinct_members test_msgs__srv__Arrays_Request"
  "distinct_members test_msgs__srv__Arrays_Response"
  by code_simp+

lemma basic_assignable: "list_all (list_all (assignable test_msgs__msg__BasicTypes)) basic_types_assignments"
  by code_simp

lemma wstrings_assignable: "list_all (list_all (assignable test_msgs__msg__WStrings)) wstrings_assignments"
  by code_simp

lemma strings_assignable: "list_all (list_all (assignable test_msgs__msg__Strings)) strings_assignments"
  by (simp add: strings_assignments_def test_msgs__msg__Strings_def)

lemma basic_service_assignable:
  "list_all (\<lambda>(request, reply). list_all (assignable test_msgs__srv__BasicTypes_Request) request \<and>
     list_all (assignable test_msgs__srv__BasicTypes_Response) reply) basic_services_assignments"
  by (simp add: basic_services_assignments_def test_msgs__srv__BasicTypes_Request_def
      test_msgs__srv__BasicTypes_Response_def in_range_def)

definition basic_ok :: "c_value list \<Rightarrow> bool" where
  "basic_ok basic \<longleftrightarrow> length basic = 4 \<and> list_all (is_value test_msgs__msg__BasicTypes) basic"

lemma basic_nth: "basic_ok basic \<Longrightarrow> i < 4 \<Longrightarrow> is_value test_msgs__msg__BasicTypes (basic ! i)"
  by (simp add: basic_ok_def list_all_length)

lemma cast_ranges:
  "in_range 8 True (Int_v (cast_signed 8 i))" "in_range 16 True (Int_v (cast_signed 16 i))"
  "in_range 32 True (Int_v (cast_signed 32 i))" "in_range 64 True (Int_v (cast_signed 64 i))"
  "in_range w False (Int_v (cast_unsigned w i))"
  by (simp_all add: in_range_def cast_signed_def cast_unsigned_def)

lemma arrays_assignable:
  assumes "basic_ok basic"
  shows "list_all (assignable test_msgs__msg__Arrays) (arrays_assignments basic)"
  using basic_nth [OF assms, of 0] basic_nth [OF assms, of 1] basic_nth [OF assms, of 2]
  by (simp add: arrays_assignments_def test_msgs__msg__Arrays_def value_lists in_range_def)

lemma arrays_service_assignable:
  assumes "basic_ok basic"
  shows "list_all (assignable test_msgs__srv__Arrays_Request) (arrays_assignments basic)"
    "list_all (assignable test_msgs__srv__Arrays_Response) (arrays_reply_assignments basic)"
  using basic_nth [OF assms, of 0] basic_nth [OF assms, of 1] basic_nth [OF assms, of 2]
  by (simp_all add: arrays_assignments_def arrays_reply_assignments_def test_msgs__srv__Arrays_Request_def
      test_msgs__srv__Arrays_Response_def value_lists in_range_def)

lemma unbounded_assignable:
  assumes "basic_ok basic"
  shows "list_all (list_all (assignable test_msgs__msg__UnboundedSequences)) (unbounded_assignments basic)"
proof -
  have "is_value test_msgs__msg__BasicTypes (basic ! (i mod length basic))" for i
    using assms by (intro basic_nth) (simp_all add: basic_ok_def)
  moreover have "is_value test_msgs__msg__BasicTypes (basic ! 0)" "is_value test_msgs__msg__BasicTypes (basic ! 1)"
    "is_value test_msgs__msg__BasicTypes (basic ! 2)"
    using assms by (auto intro: basic_nth)
  ultimately show ?thesis
    by (simp add: unbounded_assignments_def test_msgs__msg__UnboundedSequences_def value_lists
        list_all_iff cast_ranges del: upt_rec_numeral set_upt) (simp add: in_range_def)
qed

lemma bounded_assignable:
  assumes "basic_ok basic"
  shows "list_all (list_all (assignable test_msgs__msg__BoundedSequences)) (bounded_assignments basic)"
  using basic_nth [OF assms, of 0] basic_nth [OF assms, of 1] basic_nth [OF assms, of 2]
  by (simp add: bounded_assignments_def test_msgs__msg__BoundedSequences_def value_lists in_range_def)

lemma three_values:
  "msgs \<noteq> [] \<Longrightarrow> list_all (is_value st) msgs \<Longrightarrow>
    type_value (Array (Struct st) 3) (three_of msgs) \<and> (b = 0 \<or> b = 3 \<longrightarrow> type_value (Sequence (Struct st) b) (three_of msgs))"
  by (auto simp: three_of_def list_all_length)

lemma multi_nested_assignable:
  assumes "arrays \<noteq> []" "list_all (is_value test_msgs__msg__Arrays) arrays"
    "bounded \<noteq> []" "list_all (is_value test_msgs__msg__BoundedSequences) bounded"
    "unbounded \<noteq> []" "list_all (is_value test_msgs__msg__UnboundedSequences) unbounded"
  shows "list_all (assignable test_msgs__msg__MultiNested) (multi_nested_assignments arrays bounded unbounded)"
  using three_values [OF assms(1,2), of 0] three_values [OF assms(1,2), of 3]
    three_values [OF assms(3,4), of 0] three_values [OF assms(3,4), of 3]
    three_values [OF assms(5,6), of 0] three_values [OF assms(5,6), of 3]
  by (simp add: multi_nested_assignments_def test_msgs__msg__MultiNested_def del: type_value.simps)

end
