(* ===== verification/Fixture_Properties.thy ===== *)
theory Fixture_Properties
  imports Fixture_Assignments
begin























end
