(* ===== verification/Stream_Locks.thy ===== *)
theory Stream_Locks
  imports Prelude "HOL-Library.Multiset"
begin

text \<open>
  The locking macros of the Micro XRCE-DDS client, \<^verbatim>\<open>src/uxr/client/profile/multithread/multithread.h\<close>,
  and the threads that use them. A macro expands to a list of calls of \<^verbatim>\<open>uxr_init_lock\<close>,
  \<^verbatim>\<open>uxr_lock\<close> and \<^verbatim>\<open>uxr_unlock\<close> on mutexes that are fields of the session, of its transport or of
  one of its streams; without \<^verbatim>\<open>UCLIENT_PROFILE_MULTITHREAD\<close> it expands to nothing. The three
  functions and \<^verbatim>\<open>uxr_get_stream_mutex_from_id\<close> belong to the client library, which is not in the
  repository: they are parameters, the former with the laws of a mutex (locale \<open>mutex_library\<close>,
  interpreted on a plain and on a recursive mutex).

  Threads interleave call by call. The lemmas show that threads which take their mutexes in the
  order of a rank never deadlock, that each mutex has at most one holder, and that critical
  sections written with the macros are such threads.
\<close>

section \<open>Mutexes and the calls on them\<close>

text \<open>The sessions and the transports are numbered; a stream is an element of the session's arrays.\<close>

datatype uxrMutex =
    Session_Mutex nat
  | Transport_Mutex nat
  | Output_Best_Effort_Mutex nat nat
  | Output_Reliable_Mutex nat nat
  | Input_Best_Effort_Mutex nat nat
  | Input_Reliable_Mutex nat nat

datatype lock_call = uxr_init_lock uxrMutex | uxr_lock uxrMutex | uxr_unlock uxrMutex

record stream_config =
  max_output_best_effort :: nat
  max_output_reliable :: nat
  max_input_best_effort :: nat
  max_input_reliable :: nat

text \<open>\<^verbatim>\<open>src/uxr/client/config.h\<close>\<close>

definition client_config :: stream_config where
  "client_config = \<lparr>max_output_best_effort = 1, max_output_reliable = 1,
     max_input_best_effort = 1, max_input_reliable = 1\<rparr>"

record uxrStreamStorage =
  output_best_effort_size :: uint8_t
  output_reliable_size :: uint8_t
  input_best_effort_size :: uint8_t
  input_reliable_size :: uint8_t

record uxrSession =
  session_number :: nat
  streams :: uxrStreamStorage

record uxrStreamId =
  raw :: uint8_t
  stream_index :: uint8_t
  stream_type :: uint8_t
  stream_direction :: uint8_t

section \<open>The macros\<close>

text \<open>The first argument says whether \<^verbatim>\<open>UCLIENT_PROFILE_MULTITHREAD\<close> is defined.\<close>

definition UXR_INIT_LOCK :: "bool \<Rightarrow> uxrMutex \<Rightarrow> lock_call list" where
  "UXR_INIT_LOCK mt x = (if mt then [uxr_init_lock x] else [])"

definition UXR_LOCK :: "bool \<Rightarrow> uxrMutex \<Rightarrow> lock_call list" where
  "UXR_LOCK mt x = (if mt then [uxr_lock x] else [])"

definition UXR_UNLOCK :: "bool \<Rightarrow> uxrMutex \<Rightarrow> lock_call list" where
  "UXR_UNLOCK mt x = (if mt then [uxr_unlock x] else [])"

definition UXR_INIT_LOCK_SESSION :: "bool \<Rightarrow> uxrSession \<Rightarrow> lock_call list" where
  "UXR_INIT_LOCK_SESSION mt s = (if mt then [uxr_init_lock (Session_Mutex (session_number s))] else [])"

definition UXR_LOCK_SESSION :: "bool \<Rightarrow> uxrSession \<Rightarrow> lock_call list" where
  "UXR_LOCK_SESSION mt s = (if mt then [uxr_lock (Session_Mutex (session_number s))] else [])"

definition UXR_UNLOCK_SESSION :: "bool \<Rightarrow> uxrSession \<Rightarrow> lock_call list" where
  "UXR_UNLOCK_SESSION mt s = (if mt then [uxr_unlock (Session_Mutex (session_number s))] else [])"

definition UXR_LOCK_TRANSPORT :: "bool \<Rightarrow> nat \<Rightarrow> lock_call list" where
  "UXR_LOCK_TRANSPORT mt comm = (if mt then [uxr_lock (Transport_Mutex comm)] else [])"

definition UXR_UNLOCK_TRANSPORT :: "bool \<Rightarrow> nat \<Rightarrow> lock_call list" where
  "UXR_UNLOCK_TRANSPORT mt comm = (if mt then [uxr_unlock (Transport_Mutex comm)] else [])"

text \<open>\<open>get\<close> is \<^verbatim>\<open>uxr_get_stream_mutex_from_id\<close>; \<open>None\<close> is the null pointer.\<close>

definition UXR_LOCK_STREAM_ID ::
    "(uxrSession \<Rightarrow> uxrStreamId \<Rightarrow> uxrMutex option) \<Rightarrow> bool \<Rightarrow> uxrSession \<Rightarrow> uxrStreamId \<Rightarrow> lock_call list" where
  "UXR_LOCK_STREAM_ID get mt s sid =
     (if mt then case get s sid of Some stream_mutex \<Rightarrow> [uxr_lock stream_mutex] | None \<Rightarrow> [] else [])"

definition UXR_UNLOCK_STREAM_ID ::
    "(uxrSession \<Rightarrow> uxrStreamId \<Rightarrow> uxrMutex option) \<Rightarrow> bool \<Rightarrow> uxrSession \<Rightarrow> uxrStreamId \<Rightarrow> lock_call list" where
  "UXR_UNLOCK_STREAM_ID get mt s sid =
     (if mt then case get s sid of Some stream_mutex \<Rightarrow> [uxr_unlock stream_mutex] | None \<Rightarrow> [] else [])"

text \<open>
  \<^verbatim>\<open>for (uint8_t i = 0; i < size; ++i)\<close> over an array of \<open>cap\<close> elements: an access past the array
  is an error of the model.
\<close>

function stream_loop :: "nat \<Rightarrow> (nat \<Rightarrow> lock_call) \<Rightarrow> uint8_t \<Rightarrow> uint8_t \<Rightarrow> c_error + lock_call list" where
  "stream_loop cap f n i =
     (if i < n then
        if unat i < cap then
          case stream_loop cap f n (i + 1) of Inl e \<Rightarrow> Inl e | Inr cs \<Rightarrow> Inr (f (unat i) # cs)
        else Inl OutOfBounds
      else Inr [])"
  by pat_completeness auto

termination
proof (relation "measure (\<lambda>(cap, f, n, i). unat n - unat i)")
  fix n i :: uint8_t
  assume "i < n"
  then show "((cap, f, n, i + 1), (cap, f, n, i)) \<in> measure (\<lambda>(cap, f, n, i). unat n - unat i)" for cap f
    by unat_arith
qed simp

declare stream_loop.simps [simp del]

definition on_all_input_streams ::
    "(uxrMutex \<Rightarrow> lock_call) \<Rightarrow> stream_config \<Rightarrow> bool \<Rightarrow> uxrSession \<Rightarrow> c_error + lock_call list" where
  "on_all_input_streams call cfg mt s =
     (if mt then
        case stream_loop (max_input_best_effort cfg) (\<lambda>i. call (Input_Best_Effort_Mutex (session_number s) i))
               (input_best_effort_size (streams s)) 0 of
          Inl e \<Rightarrow> Inl e
        | Inr cs \<Rightarrow>
            (case stream_loop (max_input_reliable cfg) (\<lambda>i. call (Input_Reliable_Mutex (session_number s) i))
                    (input_reliable_size (streams s)) 0 of
               Inl e \<Rightarrow> Inl e
             | Inr ds \<Rightarrow> Inr (cs @ ds))
      else Inr [])"

definition UXR_LOCK_ALL_INPUT_STREAMS :: "stream_config \<Rightarrow> bool \<Rightarrow> uxrSession \<Rightarrow> c_error + lock_call list" where
  "UXR_LOCK_ALL_INPUT_STREAMS = on_all_input_streams uxr_lock"

definition UXR_UNLOCK_ALL_INPUT_STREAMS :: "stream_config \<Rightarrow> bool \<Rightarrow> uxrSession \<Rightarrow> c_error + lock_call list" where
  "UXR_UNLOCK_ALL_INPUT_STREAMS = on_all_input_streams uxr_unlock"

section \<open>Threads\<close>

text \<open>
  A thread is the calls it has still to make, with the mutexes it has locked and not unlocked.
  The library is given by three functions of the state of one mutex: what \<^verbatim>\<open>uxr_init_lock\<close> leaves,
  and what \<^verbatim>\<open>uxr_lock\<close> and \<^verbatim>\<open>uxr_unlock\<close> of a thread do, \<open>None\<close> while the call blocks.
\<close>

record thread =
  todo :: "lock_call list"
  holding :: "uxrMutex list"

record 's mutex_functions =
  init_state :: 's
  lock_function :: "nat \<Rightarrow> 's \<Rightarrow> 's option"
  unlock_function :: "nat \<Rightarrow> 's \<Rightarrow> 's option"

fun call_step :: "'s mutex_functions \<Rightarrow> nat \<Rightarrow> lock_call \<Rightarrow> uxrMutex list \<times> (uxrMutex \<Rightarrow> 's) \<Rightarrow>
    (uxrMutex list \<times> (uxrMutex \<Rightarrow> 's)) option" where
  "call_step lib t (uxr_init_lock x) (hs, m) = Some (hs, m(x := init_state lib))"
| "call_step lib t (uxr_lock x) (hs, m) =
     (case lock_function lib t (m x) of None \<Rightarrow> None | Some v \<Rightarrow> Some (x # hs, m(x := v)))"
| "call_step lib t (uxr_unlock x) (hs, m) =
     (case unlock_function lib t (m x) of None \<Rightarrow> None | Some v \<Rightarrow> Some (remove1 x hs, m(x := v)))"

definition thread_step :: "'s mutex_functions \<Rightarrow> nat \<Rightarrow> thread list \<times> (uxrMutex \<Rightarrow> 's) \<Rightarrow>
    (thread list \<times> (uxrMutex \<Rightarrow> 's)) option" where
  "thread_step lib t c = (case c of (ts, m) \<Rightarrow>
     (if t < length ts then
        case todo (ts ! t) of
          [] \<Rightarrow> None
        | a # as \<Rightarrow>
            (case call_step lib t a (holding (ts ! t), m) of
               None \<Rightarrow> None
             | Some (hs, m') \<Rightarrow> Some (ts[t := \<lparr>todo = as, holding = hs\<rparr>], m'))
      else None))"

text \<open>\<open>threads_run lib c n d\<close>: \<open>n\<close> calls, of whichever threads, lead from \<open>c\<close> to \<open>d\<close>.\<close>

inductive threads_run :: "'s mutex_functions \<Rightarrow> thread list \<times> (uxrMutex \<Rightarrow> 's) \<Rightarrow> nat \<Rightarrow>
    thread list \<times> (uxrMutex \<Rightarrow> 's) \<Rightarrow> bool" for lib c where
  threads_start: "threads_run lib c 0 c"
| threads_call: "threads_run lib c n d \<Longrightarrow> thread_step lib t d = Some e \<Longrightarrow> threads_run lib c (Suc n) e"

definition threads_of :: "lock_call list list \<Rightarrow> thread list" where
  "threads_of ps = map (\<lambda>p. \<lparr>todo = p, holding = []\<rparr>) ps"

definition all_done :: "thread list \<Rightarrow> bool" where
  "all_done ts \<longleftrightarrow> (\<forall>th \<in> set ts. todo th = [])"

text \<open>The discipline: mutexes are locked in the order of a rank, and unlocked by their holder.\<close>

fun well_locked :: "(uxrMutex \<Rightarrow> nat) \<Rightarrow> uxrMutex list \<Rightarrow> lock_call list \<Rightarrow> bool" where
  "well_locked rank hs [] \<longleftrightarrow> hs = []"
| "well_locked rank hs (uxr_init_lock x # p) \<longleftrightarrow> False"
| "well_locked rank hs (uxr_lock x # p) \<longleftrightarrow> (\<forall>y \<in> set hs. rank y < rank x) \<and> well_locked rank (x # hs) p"
| "well_locked rank hs (uxr_unlock x # p) \<longleftrightarrow> x \<in> set hs \<and> well_locked rank (remove1 x hs) p"

section \<open>The loops of the macros\<close>

lemma stream_loop_in_bounds:
  "unat n \<le> cap \<Longrightarrow> stream_loop cap f n i = Inr (map f [unat i..<unat n])"
proof (induction cap f n i rule: stream_loop.induct)
  case (1 cap f n i)
  show ?case
  proof (cases "i < n")
    case True
    then have "unat i < unat n" "unat (i + 1) = Suc (unat i)"
      by (simp add: word_less_nat_alt) (use True in unat_arith)
    with 1 True show ?thesis by (simp add: stream_loop.simps [of cap f n i] upt_conv_Cons)
  qed (simp add: stream_loop.simps [of cap f n i] word_less_nat_alt)
qed

lemma stream_loop_out_of_bounds:
  "cap < unat n \<Longrightarrow> unat i \<le> cap \<Longrightarrow> stream_loop cap f n i = Inl OutOfBounds"
proof (induction cap f n i rule: stream_loop.induct)
  case (1 cap f n i)
  then have less: "i < n" by (simp add: word_less_nat_alt)
  then have "unat (i + 1) = Suc (unat i)" by unat_arith
  with 1 less show ?case by (simp add: stream_loop.simps [of cap f n i])
qed

definition input_mutexes :: "uxrSession \<Rightarrow> uxrMutex list" where
  "input_mutexes s =
     map (Input_Best_Effort_Mutex (session_number s)) [0..<unat (input_best_effort_size (streams s))] @
     map (Input_Reliable_Mutex (session_number s)) [0..<unat (input_reliable_size (streams s))]"

definition streams_fit :: "stream_config \<Rightarrow> uxrSession \<Rightarrow> bool" where
  "streams_fit cfg s \<longleftrightarrow>
     unat (input_best_effort_size (streams s)) \<le> max_input_best_effort cfg \<and>
     unat (input_reliable_size (streams s)) \<le> max_input_reliable cfg"

lemma stream_loop_eq:
  "stream_loop cap f n 0 = (if unat n \<le> cap then Inr (map f [0..<unat n]) else Inl OutOfBounds)"
  by (simp add: stream_loop_in_bounds stream_loop_out_of_bounds)

lemma on_all_input_streams_eq:
  "on_all_input_streams call cfg mt s =
     (if mt then if streams_fit cfg s then Inr (map call (input_mutexes s)) else Inl OutOfBounds else Inr [])"
  by (simp add: on_all_input_streams_def streams_fit_def input_mutexes_def stream_loop_eq comp_def)

section \<open>Well-locked programs\<close>

text \<open>The order in which the macro takes the input streams: the best-effort ones first.\<close>

fun stream_rank :: "uxrMutex \<Rightarrow> nat" where
  "stream_rank (Input_Best_Effort_Mutex s i) = i"
| "stream_rank (Input_Reliable_Mutex s i) = 256 + i"
| "stream_rank _ = 512"

lemma well_locked_append:
  "well_locked rank hs p \<Longrightarrow> well_locked rank [] q \<Longrightarrow> well_locked rank hs (p @ q)"
  by (induction rank hs p rule: well_locked.induct) auto

lemma well_locked_unlocks:
  "well_locked rank hs (map uxr_unlock xs)" if "mset xs = mset hs"
  using that
proof (induction xs arbitrary: hs)
  case (Cons x xs)
  then have "x \<in># mset hs" by (metis list.set_intros(1) set_mset_mset)
  moreover from Cons.prems have "mset xs = mset (remove1 x hs)" by (metis add_mset_remove_trivial mset.simps(2) mset_remove1)
  ultimately show ?case using Cons.IH by simp
qed simp

lemma well_locked_locks:
  assumes "sorted_wrt (\<lambda>x y. rank x < rank y) (rev hs @ xs)" and "well_locked rank (rev xs @ hs) p"
  shows "well_locked rank hs (map uxr_lock xs @ p)"
  using assms
proof (induction xs arbitrary: hs)
  case (Cons x xs)
  then have "well_locked rank (x # hs) (map uxr_lock xs @ p)" by (intro Cons.IH) simp_all
  with Cons.prems(1) show ?case by (auto simp: sorted_wrt_append)
qed simp

text \<open>A critical section: the mutexes in the order of the rank, and unlocked in any order.\<close>

lemma well_locked_section:
  "sorted_wrt (\<lambda>x y. rank x < rank y) xs \<Longrightarrow> mset ys = mset xs \<Longrightarrow>
    well_locked rank [] (map uxr_lock xs @ map uxr_unlock ys)"
  by (intro well_locked_locks well_locked_unlocks) simp_all

lemma input_mutexes_sorted: "sorted_wrt (\<lambda>x y. stream_rank x < stream_rank y) (input_mutexes s)"
proof -
  have "unat (input_best_effort_size (streams s)) < 256" using unsigned_less [of "input_best_effort_size (streams s)"] by simp
  then show ?thesis by (auto simp: input_mutexes_def sorted_wrt_append sorted_wrt_map)
qed

section \<open>Threads that keep the discipline\<close>

text \<open>
  The laws of a mutex, with the thread that owns a state of it: an initialised mutex has no owner, a thread
  that locks a free mutex owns it and may unlock it, and a mutex of another thread blocks.
\<close>

locale mutex_library =
  fixes lib :: "'s mutex_functions" and owner :: "'s \<Rightarrow> nat option"
  assumes owner_init: "owner (init_state lib) = None"
    and lock_free: "owner v = None \<Longrightarrow> \<exists>w. lock_function lib t v = Some w \<and> owner w = Some t \<and>
      (\<exists>z. unlock_function lib t w = Some z \<and> owner z = None)"
    and lock_excludes: "owner v = Some u \<Longrightarrow> u \<noteq> t \<Longrightarrow> lock_function lib t v = None"
begin

definition releasable :: "nat \<Rightarrow> 's \<Rightarrow> bool" where
  "releasable t v \<longleftrightarrow> (\<exists>z. unlock_function lib t v = Some z \<and> owner z = None)"

definition disciplined :: "(uxrMutex \<Rightarrow> nat) \<Rightarrow> thread list \<Rightarrow> (uxrMutex \<Rightarrow> 's) \<Rightarrow> bool" where
  "disciplined rank ts m \<longleftrightarrow>
     (\<forall>t < length ts. well_locked rank (holding (ts ! t)) (todo (ts ! t)) \<and> distinct (holding (ts ! t))) \<and>
     (\<forall>x. \<forall>t < length ts. x \<in> set (holding (ts ! t)) \<longleftrightarrow> owner (m x) = Some t) \<and>
     (\<forall>x t. owner (m x) = Some t \<longrightarrow> t < length ts \<and> releasable t (m x))"

lemma lock_free_cases:
  assumes "owner v = None"
  obtains w where "lock_function lib t v = Some w" "owner w = Some t" "releasable t w"
  using lock_free [OF assms, of t] unfolding releasable_def by blast

lemma lock_some_free:
  assumes "lock_function lib t v = Some w" and "owner v \<noteq> Some t"
  shows "owner v = None \<and> owner w = Some t \<and> releasable t w"
proof -
  have "owner v = None" using assms lock_excludes [of v _ t] by (cases "owner v") auto
  then show ?thesis using assms(1) by (metis lock_free_cases option.inject)
qed

lemma disciplined_step:
  assumes inv: "disciplined rank ts m" and step: "thread_step lib t (ts, m) = Some (ts', m')"
  shows "disciplined rank ts' m'"
proof -
  from step obtain a as hs where t: "t < length ts" and todo: "todo (ts ! t) = a # as"
    and call: "call_step lib t a (holding (ts ! t), m) = Some (hs, m')"
    and ts': "ts' = ts[t := \<lparr>todo = as, holding = hs\<rparr>]"
    by (auto simp: thread_step_def split: if_splits list.splits option.splits)
  from inv t have wl: "well_locked rank (holding (ts ! t)) (a # as)" and dist: "distinct (holding (ts ! t))"
    and own: "\<And>x. x \<in> set (holding (ts ! t)) \<longleftrightarrow> owner (m x) = Some t"
    unfolding disciplined_def todo [symmetric] by auto
  show ?thesis
  proof (cases a)
    case (uxr_lock x)
    from call obtain w where w: "lock_function lib t (m x) = Some w" and hs: "hs = x # holding (ts ! t)"
      and m': "m' = m(x := w)"
      unfolding uxr_lock by (auto split: option.splits)
    have new: "x \<notin> set (holding (ts ! t))" using wl uxr_lock by auto
    with w own have "owner (m x) = None \<and> owner w = Some t \<and> releasable t w"
      by (intro lock_some_free) auto
    then show ?thesis
      using inv t wl dist own new uxr_lock unfolding disciplined_def ts' m' hs by (auto simp: nth_list_update)
  next
    case (uxr_unlock x)
    have held: "x \<in> set (holding (ts ! t))" using wl uxr_unlock by simp
    with inv t own have "releasable t (m x)" unfolding disciplined_def by blast
    with call obtain z where "owner z = None" and hs: "hs = remove1 x (holding (ts ! t))" and m': "m' = m(x := z)"
      unfolding uxr_unlock releasable_def by auto
    then show ?thesis
      using inv t wl dist own held uxr_unlock unfolding disciplined_def ts' m' hs by (auto simp: nth_list_update)
  qed (use wl in simp)
qed

text \<open>A thread that cannot go on waits for a mutex of a thread that holds one of smaller rank.\<close>

lemma disciplined_progress:
  assumes inv: "disciplined rank ts m" and todo: "\<not> all_done ts"
  shows "\<exists>t c. thread_step lib t (ts, m) = Some c"
proof (rule ccontr)
  assume "\<not> ?thesis"
  then have stuck: "thread_step lib t (ts, m) = None" for t by (cases "thread_step lib t (ts, m)") auto
  have waits: "\<exists>x as u. todo (ts ! t) = uxr_lock x # as \<and> owner (m x) = Some u \<and> u < length ts \<and> todo (ts ! u) \<noteq> []"
    if "t < length ts" "todo (ts ! t) \<noteq> []" for t
  proof -
    from that obtain a as where a: "todo (ts ! t) = a # as" by (cases "todo (ts ! t)") auto
    with inv that have wl: "well_locked rank (holding (ts ! t)) (a # as)" unfolding disciplined_def by force
    show ?thesis
    proof (cases a)
      case (uxr_lock x)
      with stuck [of t] that a have "lock_function lib t (m x) = None"
        by (auto simp: thread_step_def split: option.splits)
      then obtain u where u: "owner (m x) = Some u" by (cases "owner (m x)") (auto elim: lock_free_cases [of _ t])
      with inv have "u < length ts" "x \<in> set (holding (ts ! u))" unfolding disciplined_def by auto
      moreover from inv this have "todo (ts ! u) \<noteq> []" unfolding disciplined_def by force
      ultimately show ?thesis using a uxr_lock u by auto
    next
      case (uxr_unlock x)
      with wl inv that have "releasable t (m x)" unfolding disciplined_def by auto
      with stuck [of t] that a uxr_unlock show ?thesis by (auto simp: thread_step_def releasable_def)
    qed (use wl in simp)
  qed
  define wants where "wants = {t. t < length ts \<and> todo (ts ! t) \<noteq> []}"
  define wanted where "wanted t = rank (case hd (todo (ts ! t)) of uxr_lock x \<Rightarrow> x)" for t
  have "finite wants" "wants \<noteq> {}" using todo by (auto simp: wants_def all_done_def in_set_conv_nth)
  then obtain t where t: "t \<in> wants" "\<And>u. u \<in> wants \<Longrightarrow> wanted u \<le> wanted t"
    using Max_in [of "wanted ` wants"] Max_ge [of "wanted ` wants"] by (smt (verit) finite_imageI image_iff image_is_empty)
  from t(1) waits obtain x as u where x: "todo (ts ! t) = uxr_lock x # as" "owner (m x) = Some u" "u \<in> wants"
    unfolding wants_def by blast
  with waits obtain y bs where y: "todo (ts ! u) = uxr_lock y # bs" unfolding wants_def by blast
  from inv x have "x \<in> set (holding (ts ! u))" unfolding disciplined_def wants_def by auto
  with inv x y have "rank x < rank y" unfolding disciplined_def wants_def by force
  with t(2) [OF x(3)] show False by (simp add: wanted_def x y)
qed

lemma disciplined_run:
  "threads_run lib c n d \<Longrightarrow> disciplined rank (fst c) (snd c) \<Longrightarrow> disciplined rank (fst d) (snd d)"
proof (induction rule: threads_run.induct)
  case (threads_call n d t e)
  then show ?case using disciplined_step [of rank "fst d" "snd d" t "fst e" "snd e"] by simp
qed

lemma disciplined_threads_of:
  "(\<forall>p \<in> set ps. well_locked rank [] p) \<Longrightarrow> (\<forall>x. owner (m x) = None) \<Longrightarrow> disciplined rank (threads_of ps) m"
  by (auto simp: disciplined_def threads_of_def)

lemma disciplined_exclusive:
  "disciplined rank ts m \<Longrightarrow> t < length ts \<Longrightarrow> u < length ts \<Longrightarrow>
    x \<in> set (holding (ts ! t)) \<Longrightarrow> x \<in> set (holding (ts ! u)) \<Longrightarrow> t = u"
  unfolding disciplined_def by (metis option.inject)

lemma disciplined_done_free:
  assumes "disciplined rank ts m" and "all_done ts"
  shows "owner (m x) = None"
proof (rule ccontr)
  assume "owner (m x) \<noteq> None"
  with assms(1) obtain t where t: "t < length ts" "x \<in> set (holding (ts ! t))"
    unfolding disciplined_def by blast
  with assms have "well_locked rank (holding (ts ! t)) []" unfolding disciplined_def all_done_def by (metis nth_mem)
  with t(2) show False by simp
qed

end

section \<open>Two mutexes that keep the laws\<close>

text \<open>A plain mutex: the state is its owner.\<close>

definition plain_mutex :: "nat option mutex_functions" where
  "plain_mutex = \<lparr>init_state = None,
     lock_function = (\<lambda>t v. if v = None then Some (Some t) else None),
     unlock_function = (\<lambda>t v. if v = Some t then Some None else None)\<rparr>"

interpretation plain: mutex_library plain_mutex "\<lambda>v. v"
  by unfold_locales (simp_all add: plain_mutex_def)

text \<open>A recursive mutex: the state is the owner with the number of times it has locked the mutex.\<close>

definition recursive_mutex :: "(nat \<times> nat) option mutex_functions" where
  "recursive_mutex = \<lparr>init_state = None,
     lock_function = (\<lambda>t v. case v of None \<Rightarrow> Some (Some (t, 1))
       | Some (u, n) \<Rightarrow> if u = t then Some (Some (t, n + 1)) else None),
     unlock_function = (\<lambda>t v. case v of None \<Rightarrow> None
       | Some (u, n) \<Rightarrow> if u = t then Some (if n \<le> 1 then None else Some (t, n - 1)) else None)\<rparr>"

interpretation recursive: mutex_library recursive_mutex "map_option fst"
  by unfold_locales (auto simp: recursive_mutex_def)

section \<open>Critical sections written with the macros\<close>

datatype critical_section =
    Session_Section uxrSession
  | Transport_Section nat
  | Stream_Section uxrSession uxrStreamId
  | Input_Streams_Section uxrSession

fun section_calls ::
    "(uxrSession \<Rightarrow> uxrStreamId \<Rightarrow> uxrMutex option) \<Rightarrow> stream_config \<Rightarrow> bool \<Rightarrow> critical_section \<Rightarrow>
     c_error + lock_call list" where
  "section_calls get cfg mt (Session_Section s) = Inr (UXR_LOCK_SESSION mt s @ UXR_UNLOCK_SESSION mt s)"
| "section_calls get cfg mt (Transport_Section c) = Inr (UXR_LOCK_TRANSPORT mt c @ UXR_UNLOCK_TRANSPORT mt c)"
| "section_calls get cfg mt (Stream_Section s sid) =
     Inr (UXR_LOCK_STREAM_ID get mt s sid @ UXR_UNLOCK_STREAM_ID get mt s sid)"
| "section_calls get cfg mt (Input_Streams_Section s) =
     (case UXR_LOCK_ALL_INPUT_STREAMS cfg mt s of
        Inl e \<Rightarrow> Inl e
      | Inr cs \<Rightarrow> (case UXR_UNLOCK_ALL_INPUT_STREAMS cfg mt s of Inl e \<Rightarrow> Inl e | Inr ds \<Rightarrow> Inr (cs @ ds)))"

fun thread_program ::
    "(uxrSession \<Rightarrow> uxrStreamId \<Rightarrow> uxrMutex option) \<Rightarrow> stream_config \<Rightarrow> bool \<Rightarrow> critical_section list \<Rightarrow>
     c_error + lock_call list" where
  "thread_program get cfg mt [] = Inr []"
| "thread_program get cfg mt (c # cs) =
     (case section_calls get cfg mt c of
        Inl e \<Rightarrow> Inl e
      | Inr p \<Rightarrow> (case thread_program get cfg mt cs of Inl e \<Rightarrow> Inl e | Inr q \<Rightarrow> Inr (p @ q)))"

lemmas single_mutex_macros =
  UXR_LOCK_SESSION_def UXR_UNLOCK_SESSION_def UXR_LOCK_TRANSPORT_def UXR_UNLOCK_TRANSPORT_def
  UXR_LOCK_STREAM_ID_def UXR_UNLOCK_STREAM_ID_def

lemma section_calls_well_locked:
  "section_calls get cfg mt c = Inr p \<Longrightarrow> well_locked stream_rank [] p"
proof (cases c)
  case (Input_Streams_Section s)
  moreover have "well_locked stream_rank [] (map uxr_lock (input_mutexes s) @ map uxr_unlock (input_mutexes s))"
    by (simp add: well_locked_section input_mutexes_sorted)
  moreover assume "section_calls get cfg mt c = Inr p"
  ultimately show ?thesis
    by (auto simp: UXR_LOCK_ALL_INPUT_STREAMS_def UXR_UNLOCK_ALL_INPUT_STREAMS_def on_all_input_streams_eq
        split: if_splits)
qed (auto simp: single_mutex_macros split: option.splits)

lemma thread_program_well_locked:
  "thread_program get cfg mt cs = Inr p \<Longrightarrow> well_locked stream_rank [] p"
  by (induction cs arbitrary: p)
    (auto intro: well_locked_append dest: section_calls_well_locked split: sum.splits)

text \<open>The sections of a session whose streams fit its arrays never leave the arrays.\<close>

lemma thread_program_defined:
  "(\<forall>c \<in> set cs. \<forall>s. c = Input_Streams_Section s \<longrightarrow> streams_fit cfg s) \<Longrightarrow>
    \<exists>p. thread_program get cfg mt cs = Inr p"
proof (induction cs)
  case (Cons c cs)
  then have "\<exists>p. section_calls get cfg mt c = Inr p"
    by (cases c) (auto simp: UXR_LOCK_ALL_INPUT_STREAMS_def UXR_UNLOCK_ALL_INPUT_STREAMS_def on_all_input_streams_eq)
  with Cons show ?case by auto
qed simp

section \<open>Termination\<close>

definition calls_left :: "thread list \<Rightarrow> nat" where
  "calls_left ts = sum_list (map (length \<circ> todo) ts)"

lemma calls_left_step:
  assumes "thread_step lib t (ts, m) = Some (ts', m')"
  shows "Suc (calls_left ts') = calls_left ts"
proof -
  from assms obtain a as hs where t: "t < length ts" "todo (ts ! t) = a # as"
    and ts': "ts' = ts[t := \<lparr>todo = as, holding = hs\<rparr>]"
    by (auto simp: thread_step_def split: if_splits list.splits option.splits)
  have "length a0 \<le> sum_list (map (length \<circ> todo) ts)" if "a0 = todo (ts ! t)" for a0
    using that t(1) member_le_sum_list [of "length (todo (ts ! t))" "map (length \<circ> todo) ts"] by auto
  with t show ?thesis
    by (simp add: calls_left_def ts' map_update sum_list_update)
qed

lemma calls_left_run: "threads_run lib c n d \<Longrightarrow> n + calls_left (fst d) = calls_left (fst c)"
proof (induction rule: threads_run.induct)
  case (threads_call n d t e)
  then show ?case using calls_left_step [of lib t "fst d" "snd d" "fst e" "snd e"] by simp
qed simp

section \<open>Properties\<close>

text \<open>C34: Threads whose programs are sequences of critical sections written with the locking macros never
  deadlock: whatever mutex (or none) belongs to a stream id, on any library that keeps the laws of a mutex
  and with all mutexes free at the start, every interleaving ends after at most as many calls as the programs
  have, a thread that has not ended is there with a call that does not block, and at the end all mutexes
  are free again.\<close>

theorem critical_sections_never_deadlock:
  assumes lib: "mutex_library lib owner"
    and free: "\<forall>x. owner (m x) = None"
    and programs: "list_all2 (\<lambda>cs p. thread_program get cfg mt cs = Inr p) sections ps"
    and run: "threads_run lib (threads_of ps, m) n (ts, m')"
  shows "n \<le> sum_list (map length ps) \<and>
    (if all_done ts then \<forall>x. owner (m' x) = None else \<exists>t c. thread_step lib t (ts, m') = Some c)"
proof -
  have "\<forall>p \<in> set ps. well_locked stream_rank [] p"
    using programs by (induction rule: list_all2_induct) (auto intro: thread_program_well_locked)
  then have inv: "mutex_library.disciplined lib owner stream_rank ts m'"
    using mutex_library.disciplined_run [OF lib run] mutex_library.disciplined_threads_of [OF lib _ free] by simp
  have "n \<le> calls_left (threads_of ps)" using calls_left_run [OF run] by simp
  moreover have "calls_left (threads_of ps) = sum_list (map length ps)"
    by (simp add: calls_left_def threads_of_def comp_def)
  ultimately show ?thesis
    using mutex_library.disciplined_done_free [OF lib inv] mutex_library.disciplined_progress [OF lib inv] by simp
qed

definition example_session :: uxrSession where
  "example_session = \<lparr>session_number = 0, streams = \<lparr>output_best_effort_size = 1, output_reliable_size = 1,
     input_best_effort_size = 1, input_reliable_size = 1\<rparr>\<rparr>"

definition example_programs :: "lock_call list list" where
  "example_programs =
     [[uxr_lock (Input_Best_Effort_Mutex 0 0), uxr_lock (Input_Reliable_Mutex 0 0),
       uxr_unlock (Input_Best_Effort_Mutex 0 0), uxr_unlock (Input_Reliable_Mutex 0 0)],
      [uxr_lock (Input_Reliable_Mutex 0 0), uxr_unlock (Input_Reliable_Mutex 0 0)]]"

text \<open>One thread has one of two input streams, another the other: the first has to wait for it.\<close>

definition example_threads :: "thread list" where
  "example_threads =
     [\<lparr>todo = tl (example_programs ! 0), holding = [Input_Best_Effort_Mutex 0 0]\<rparr>,
      \<lparr>todo = tl (example_programs ! 1), holding = [Input_Reliable_Mutex 0 0]\<rparr>]"

lemma example_run:
  "threads_run recursive_mutex (threads_of example_programs, \<lambda>x. None) 2
     (example_threads, (\<lambda>x. None)(Input_Best_Effort_Mutex 0 0 := Some (0, 1), Input_Reliable_Mutex 0 0 := Some (1, 1)))"
proof -
  have first: "threads_run recursive_mutex (threads_of example_programs, \<lambda>x. None) (Suc 0)
     ((threads_of example_programs)[0 := example_threads ! 0], (\<lambda>x. None)(Input_Best_Effort_Mutex 0 0 := Some (0, 1)))"
    by (rule threads_call [OF threads_start, of _ 0])
      (simp add: thread_step_def threads_of_def example_programs_def example_threads_def recursive_mutex_def)
  have "threads_run recursive_mutex (threads_of example_programs, \<lambda>x. None) (Suc (Suc 0))
     (example_threads, (\<lambda>x. None)(Input_Best_Effort_Mutex 0 0 := Some (0, 1), Input_Reliable_Mutex 0 0 := Some (1, 1)))"
    by (rule threads_call [OF first, of 1])
      (simp add: thread_step_def threads_of_def example_programs_def example_threads_def recursive_mutex_def)
  then show ?thesis by (simp add: numeral_2_eq_2)
qed

lemma example_sections:
  "list_all2 (\<lambda>cs p. thread_program (\<lambda>s sid. Some (Input_Reliable_Mutex 0 0)) client_config True cs = Inr p)
     [[Input_Streams_Section example_session], [Stream_Section example_session \<lparr>raw = 0x80, stream_index = 0, stream_type = 2, stream_direction = 0\<rparr>]]
     example_programs"
  by (simp add: example_programs_def UXR_LOCK_ALL_INPUT_STREAMS_def UXR_UNLOCK_ALL_INPUT_STREAMS_def
      on_all_input_streams_eq streams_fit_def input_mutexes_def example_session_def client_config_def single_mutex_macros)

theorem critical_sections_never_deadlock_witness:
  "\<exists>t c. thread_step recursive_mutex t (example_threads,
     (\<lambda>x. None)(Input_Best_Effort_Mutex 0 0 := Some (0, 1), Input_Reliable_Mutex 0 0 := Some (1, 1))) = Some c"
  using critical_sections_never_deadlock [OF recursive.mutex_library_axioms _ example_sections example_run]
  by (simp add: all_done_def example_threads_def example_programs_def)



end
