(* ===== verification/Fault_Injection.thy ===== *)
theory Fault_Injection
  imports Prelude
begin

text \<open>
  The fault injection macros, \<^verbatim>\<open>src/rcutils/testing/fault_injection.h\<close> and the two macros of
  \<^verbatim>\<open>src/rcutils/macros.h\<close> that place fault points in functions. The four functions on the global
  counter are in the prebuilt library: they are the record \<open>fault_functions\<close>, with the laws of the
  locale \<open>fault_library\<close>. Code with fault points is a tree with one branch for the injected fault.
  The lemmas show what a run of the code does for each value of the counter, and that the loop of
  the test macro runs the code once for each fault point, and once without a fault.
\<close>

section \<open>The functions of the library\<close>

record 's fault_functions =
  rcutils_fault_injection_is_test_complete :: "'s \<Rightarrow> bool"
  rcutils_fault_injection_set_count :: "int \<Rightarrow> 's \<Rightarrow> 's"
  rcutils_fault_injection_get_count :: "'s \<Rightarrow> int"
  rcutils_fault_injection_maybe_fail :: "'s \<Rightarrow> int \<times> 's"

definition RCUTILS_FAULT_INJECTION_NEVER_FAIL :: int where
  "RCUTILS_FAULT_INJECTION_NEVER_FAIL = -1"

definition RCUTILS_FAULT_INJECTION_FAIL_NOW :: int where
  "RCUTILS_FAULT_INJECTION_FAIL_NOW = 0"

lemmas fault_constants = RCUTILS_FAULT_INJECTION_NEVER_FAIL_def RCUTILS_FAULT_INJECTION_FAIL_NOW_def

section \<open>Code with fault points\<close>

text \<open>
  \<open>'e\<close> are the effects of the code, \<open>'p\<close> is what it leaves. The branches of \<open>Fault_Point\<close> are what
  happens with and without an injected fault.
\<close>

datatype ('e, 'p) code =
    Finish 'p
  | Effect 'e "('e, 'p) code"
  | Fault_Point "('e, 'p) code" "('e, 'p) code"
  | Without_Faults "('e, 'p) code" "'p \<Rightarrow> ('e, 'p) code"

datatype 'e event = Did 'e | Injecting_Fault

primrec followed_by :: "('e, 'p) code \<Rightarrow> ('p \<Rightarrow> ('e, 'p) code) \<Rightarrow> ('e, 'p) code" where
  "followed_by (Finish p) k = k p"
| "followed_by (Effect e c) k = Effect e (followed_by c k)"
| "followed_by (Fault_Point f c) k = Fault_Point (followed_by f k) (followed_by c k)"
| "followed_by (Without_Faults b c) k = Without_Faults b (\<lambda>p. followed_by (c p) k)"

text \<open>
  The macros; \<open>en\<close> says whether \<^verbatim>\<open>RCUTILS_ENABLE_FAULT_INJECTION\<close> is defined, and \<open>k\<close> is the code
  behind the macro: behind an early return it is not run. Without the option the macros expand to
  nothing, and the code they are given is gone.
\<close>

definition RCUTILS_FAULT_INJECTION_MAYBE_RETURN_ERROR :: "bool \<Rightarrow> 'p \<Rightarrow> ('e, 'p) code \<Rightarrow> ('e, 'p) code" where
  "RCUTILS_FAULT_INJECTION_MAYBE_RETURN_ERROR en v k = (if en then Fault_Point (Finish v) k else k)"

definition RCUTILS_FAULT_INJECTION_MAYBE_FAIL ::
    "bool \<Rightarrow> ('e, 'p) code \<Rightarrow> ('p \<Rightarrow> ('e, 'p) code) \<Rightarrow> 'p \<Rightarrow> ('e, 'p) code" where
  "RCUTILS_FAULT_INJECTION_MAYBE_FAIL en failure_code k p =
     (if en then Fault_Point (followed_by failure_code k) (k p) else k p)"

definition RCUTILS_NO_FAULT_INJECTION ::
    "bool \<Rightarrow> ('e, 'p) code \<Rightarrow> ('p \<Rightarrow> ('e, 'p) code) \<Rightarrow> 'p \<Rightarrow> ('e, 'p) code" where
  "RCUTILS_NO_FAULT_INJECTION en c k p = (if en then Without_Faults c k else k p)"

definition RCUTILS_CAN_RETURN_WITH_ERROR_OF :: "bool \<Rightarrow> 'p \<Rightarrow> ('e, 'p) code \<Rightarrow> ('e, 'p) code" where
  "RCUTILS_CAN_RETURN_WITH_ERROR_OF en v k =
     (if en then RCUTILS_FAULT_INJECTION_MAYBE_RETURN_ERROR en v k else k)"

definition RCUTILS_CAN_FAIL_WITH ::
    "bool \<Rightarrow> ('e, 'p) code \<Rightarrow> ('p \<Rightarrow> ('e, 'p) code) \<Rightarrow> 'p \<Rightarrow> ('e, 'p) code" where
  "RCUTILS_CAN_FAIL_WITH en failure_code k p =
     (if en then RCUTILS_FAULT_INJECTION_MAYBE_FAIL en failure_code k p else k p)"

text \<open>A run of the code: what it did, what it left, and the counter.\<close>

primrec run_code :: "'s fault_functions \<Rightarrow> ('e, 'p) code \<Rightarrow> 's \<Rightarrow> 'e event list \<times> 'p \<times> 's" where
  "run_code lib (Finish p) s = ([], p, s)"
| "run_code lib (Effect e c) s = (case run_code lib c s of (es, r) \<Rightarrow> (Did e # es, r))"
| "run_code lib (Fault_Point f c) s =
     (case rcutils_fault_injection_maybe_fail lib s of (n, s') \<Rightarrow>
        if RCUTILS_FAULT_INJECTION_FAIL_NOW = n
        then (case run_code lib f s' of (es, r) \<Rightarrow> (Injecting_Fault # es, r))
        else run_code lib c s')"
| "run_code lib (Without_Faults b c) s =
     (let no_fault_injection_count = rcutils_fault_injection_get_count lib s;
          s1 = rcutils_fault_injection_set_count lib RCUTILS_FAULT_INJECTION_NEVER_FAIL s
      in case run_code lib b s1 of (es, p, s2) \<Rightarrow>
           (case run_code lib (c p) (rcutils_fault_injection_set_count lib no_fault_injection_count s2) of
              (es', r) \<Rightarrow> (es @ es', r)))"

text \<open>
  The loop of \<^verbatim>\<open>RCUTILS_FAULT_INJECTION_TEST\<close>: \<^verbatim>\<open>fault_injection_count\<close> is an \<^verbatim>\<open>int\<close>, whose increment
  overflows at its maximum. The code of one iteration may depend on what the last one left. \<open>None\<close>
  means that the fuel, the number of iterations, has run out.
\<close>

primrec fault_injection_loop :: "nat \<Rightarrow> 's fault_functions \<Rightarrow> ('p \<Rightarrow> ('e, 'p) code) \<Rightarrow> int \<Rightarrow> 'p \<Rightarrow> 's \<Rightarrow>
    (c_error + 'e event list list \<times> 'p \<times> 's) option" where
  "fault_injection_loop 0 lib c fault_injection_count p s = None"
| "fault_injection_loop (Suc fuel) lib c fault_injection_count p s =
     (if fault_injection_count < 2 ^ 31 - 1 then
        (case run_code lib (c p) (rcutils_fault_injection_set_count lib fault_injection_count s) of (es, p', s') \<Rightarrow>
           if \<not> rcutils_fault_injection_is_test_complete lib s' then
             map_option (map_sum id (\<lambda>(ess, r). (es # ess, r)))
               (fault_injection_loop fuel lib c (fault_injection_count + 1) p' s')
           else Some (Inr ([es], p', rcutils_fault_injection_set_count lib RCUTILS_FAULT_INJECTION_NEVER_FAIL s')))
      else Some (Inl SignedOverflow))"

definition RCUTILS_FAULT_INJECTION_TEST :: "bool \<Rightarrow> nat \<Rightarrow> 's fault_functions \<Rightarrow> ('p \<Rightarrow> ('e, 'p) code) \<Rightarrow> 'p \<Rightarrow> 's \<Rightarrow>
    (c_error + 'e event list list \<times> 'p \<times> 's) option" where
  "RCUTILS_FAULT_INJECTION_TEST en fuel lib c p s =
     (if en then fault_injection_loop fuel lib c 0 p s else Some (Inr ([], p, s)))"

section \<open>What the code does for a fault at each point\<close>

primrec faultless :: "('e, 'p) code \<Rightarrow> 'e event list \<times> 'p" where
  "faultless (Finish p) = ([], p)"
| "faultless (Effect e c) = apfst ((#) (Did e)) (faultless c)"
| "faultless (Fault_Point f c) = faultless c"
| "faultless (Without_Faults b c) = (case faultless b of (es, p) \<Rightarrow> apfst ((@) es) (faultless (c p)))"

text \<open>The number of fault points on the way of a run without faults.\<close>

primrec fault_points :: "('e, 'p) code \<Rightarrow> nat" where
  "fault_points (Finish p) = 0"
| "fault_points (Effect e c) = fault_points c"
| "fault_points (Fault_Point f c) = Suc (fault_points c)"
| "fault_points (Without_Faults b c) = fault_points (c (snd (faultless b)))"

text \<open>The run with a fault at the point of number \<open>n\<close>, and at no other.\<close>

primrec faulty_at :: "('e, 'p) code \<Rightarrow> nat \<Rightarrow> 'e event list \<times> 'p" where
  "faulty_at (Finish p) n = ([], p)"
| "faulty_at (Effect e c) n = apfst ((#) (Did e)) (faulty_at c n)"
| "faulty_at (Fault_Point f c) n =
     (case n of 0 \<Rightarrow> apfst ((#) Injecting_Fault) (faultless f) | Suc m \<Rightarrow> faulty_at c m)"
| "faulty_at (Without_Faults b c) n = (case faultless b of (es, p) \<Rightarrow> apfst ((@) es) (faulty_at (c p) n))"

definition injected :: "'e event list \<Rightarrow> nat" where
  "injected es = length [e \<leftarrow> es. e = Injecting_Fault]"

lemma injected_simps [simp]:
  "injected [] = 0"
  "injected (Did e # es) = injected es"
  "injected (Injecting_Fault # es) = Suc (injected es)"
  "injected (es @ es') = injected es + injected es'"
  by (simp_all add: injected_def)



lemma faulty_at_beyond: "fault_points c \<le> n \<Longrightarrow> faulty_at c n = faultless c"
proof (induction c arbitrary: n)
  case (Fault_Point f c)
  then show ?case by (cases n) simp_all
qed (auto split: prod.splits)

section \<open>The counter\<close>

text \<open>
  What the comments of the header say of the functions: the counter holds what it was set to, a
  fault point decrements it unless it is negative and fails when it was 0. The header has no comment on
  \<^verbatim>\<open>rcutils_fault_injection_is_test_complete\<close>: the law that the test is complete when the run has left the
  counter not negative is what the promise of the loop, a fault at all points, requires of it.
\<close>

locale fault_library =
  fixes lib :: "'s fault_functions"
  assumes get_set: "rcutils_fault_injection_get_count lib (rcutils_fault_injection_set_count lib n s) = n"
    and fails_with_count: "fst (rcutils_fault_injection_maybe_fail lib s) = rcutils_fault_injection_get_count lib s"
    and decrements: "rcutils_fault_injection_get_count lib (snd (rcutils_fault_injection_maybe_fail lib s)) =
      (if rcutils_fault_injection_get_count lib s < 0 then rcutils_fault_injection_get_count lib s
       else rcutils_fault_injection_get_count lib s - 1)"
    and complete: "rcutils_fault_injection_is_test_complete lib s \<longleftrightarrow> 0 \<le> rcutils_fault_injection_get_count lib s"
begin

lemma run_disabled:
  assumes "rcutils_fault_injection_get_count lib s < 0"
  shows "\<exists>s'. run_code lib c s = (fst (faultless c), snd (faultless c), s') \<and>
    rcutils_fault_injection_get_count lib s' = rcutils_fault_injection_get_count lib s"
  using assms
proof (induction c arbitrary: s)
  case (Effect e c)
  then obtain s' where "run_code lib c s = (fst (faultless c), snd (faultless c), s')"
    "rcutils_fault_injection_get_count lib s' = rcutils_fault_injection_get_count lib s" by blast
  then show ?case by (simp add: apfst_def map_prod_def split_beta)
next
  case (Fault_Point f c)
  obtain n s1 where mf: "rcutils_fault_injection_maybe_fail lib s = (n, s1)" by fastforce
  then have "n = rcutils_fault_injection_get_count lib s"
    "rcutils_fault_injection_get_count lib s1 = rcutils_fault_injection_get_count lib s"
    using fails_with_count [of s] decrements [of s] Fault_Point.prems by simp_all
  then show ?case using Fault_Point.IH(2) [of s1] Fault_Point.prems mf by (simp add: fault_constants)
next
  case (Without_Faults b c)
  define s1 where "s1 = rcutils_fault_injection_set_count lib (-1) s"
  obtain es p where b: "faultless b = (es, p)" by fastforce
  obtain s2 where s2: "run_code lib b s1 = (es, p, s2)"
    using Without_Faults(1) [of s1] b by (auto simp: s1_def get_set)
  define s3 where "s3 = rcutils_fault_injection_set_count lib (rcutils_fault_injection_get_count lib s) s2"
  have g: "rcutils_fault_injection_get_count lib s3 = rcutils_fault_injection_get_count lib s" by (simp add: s3_def get_set)
  with Without_Faults(2) [of "c p" s3] Without_Faults.prems obtain s' where
    "run_code lib (c p) s3 = (fst (faultless (c p)), snd (faultless (c p)), s')"
    "rcutils_fault_injection_get_count lib s' = rcutils_fault_injection_get_count lib s" by auto
  then show ?case using s2 b
    by (simp add: Let_def fault_constants s1_def [symmetric] s3_def [symmetric] apfst_def map_prod_def split_beta)
qed simp

lemma run_counted:
  assumes "rcutils_fault_injection_get_count lib s = int n"
  shows "\<exists>s'. run_code lib c s = (fst (faulty_at c n), snd (faulty_at c n), s') \<and>
    rcutils_fault_injection_get_count lib s' = (if n < fault_points c then -1 else int (n - fault_points c))"
  using assms
proof (induction c arbitrary: s n)
  case (Effect e c)
  then obtain s' where "run_code lib c s = (fst (faulty_at c n), snd (faulty_at c n), s')"
    "rcutils_fault_injection_get_count lib s' = (if n < fault_points c then -1 else int (n - fault_points c))" by blast
  then show ?case by (simp add: apfst_def map_prod_def split_beta)
next
  case (Fault_Point f c)
  obtain k s1 where mf: "rcutils_fault_injection_maybe_fail lib s = (k, s1)" by fastforce
  then have k: "k = int n" and s1: "rcutils_fault_injection_get_count lib s1 = int n - 1"
    using fails_with_count [of s] decrements [of s] Fault_Point.prems by simp_all
  show ?case
  proof (cases n)
    case 0
    with s1 run_disabled [of s1 f] obtain s' where
      "run_code lib f s1 = (fst (faultless f), snd (faultless f), s')" "rcutils_fault_injection_get_count lib s' = -1"
      by auto
    then show ?thesis using mf k 0 by (simp add: fault_constants apfst_def map_prod_def split_beta)
  next
    case (Suc m)
    with s1 Fault_Point.IH(2) [of s1 m] obtain s' where
      "run_code lib c s1 = (fst (faulty_at c m), snd (faulty_at c m), s')"
      "rcutils_fault_injection_get_count lib s' = (if m < fault_points c then -1 else int (m - fault_points c))"
      by auto
    then show ?thesis using mf k Suc by (simp add: fault_constants)
  qed
next
  case (Without_Faults b c)
  define s1 where "s1 = rcutils_fault_injection_set_count lib (-1) s"
  obtain es p where b: "faultless b = (es, p)" by fastforce
  have "rcutils_fault_injection_get_count lib s1 < 0" by (simp add: s1_def get_set)
  then obtain s2 where s2: "run_code lib b s1 = (es, p, s2)" using run_disabled [of s1 b] b by auto
  define s3 where "s3 = rcutils_fault_injection_set_count lib (rcutils_fault_injection_get_count lib s) s2"
  have "rcutils_fault_injection_get_count lib s3 = int n" using Without_Faults.prems by (simp add: s3_def get_set)
  with Without_Faults(2) [of "c p" s3 n] obtain s' where
    "run_code lib (c p) s3 = (fst (faulty_at (c p) n), snd (faulty_at (c p) n), s')"
    "rcutils_fault_injection_get_count lib s' =
      (if n < fault_points (c p) then -1 else int (n - fault_points (c p)))" by auto
  then show ?case using s2 b
    by (simp add: Let_def fault_constants s1_def [symmetric] s3_def [symmetric] apfst_def map_prod_def split_beta)
qed simp

text \<open>The loop from its iteration \<open>k\<close> on.\<close>

lemma loop_from:
  assumes "\<And>p. fault_points (c p) \<le> b" and "b < 2 ^ 31 - 1" and "k \<le> b" and "b < k + fuel"
  shows "\<exists>ess ps s'. fault_injection_loop fuel lib c (int k) p s = Some (Inr (ess, last ps, s')) \<and>
    rcutils_fault_injection_get_count lib s' = -1 \<and> ess \<noteq> [] \<and> k + length ess \<le> Suc b \<and>
    length ps = Suc (length ess) \<and> hd ps = p \<and>
    (\<forall>i < length ess. (ess ! i, ps ! Suc i) = faulty_at (c (ps ! i)) (k + i) \<and>
       (k + i < fault_points (c (ps ! i)) \<longleftrightarrow> Suc i < length ess))"
  using assms(3,4)
proof (induction fuel arbitrary: k p s)
  case (Suc fuel)
  let ?s = "rcutils_fault_injection_set_count lib (int k) s"
  obtain s1 where run: "run_code lib (c p) ?s = (fst (faulty_at (c p) k), snd (faulty_at (c p) k), s1)"
    and s1: "rcutils_fault_injection_get_count lib s1 =
      (if k < fault_points (c p) then -1 else int (k - fault_points (c p)))"
    using run_counted [of ?s k "c p"] get_set by blast
  have small: "int k < 2147483647" using assms(2) Suc.prems(1) by simp
  show ?case
  proof (cases "k < fault_points (c p)")
    case True
    with assms(1) [of p] Suc.prems have "Suc k \<le> b" "b < Suc k + fuel" by simp_all
    from Suc.IH [OF this, of "snd (faulty_at (c p) k)" s1] obtain ess ps s' where
      loop: "fault_injection_loop fuel lib c (int k + 1) (snd (faulty_at (c p) k)) s1 = Some (Inr (ess, last ps, s'))"
      and rest: "rcutils_fault_injection_get_count lib s' = -1" "ess \<noteq> []" "Suc k + length ess \<le> Suc b"
        "length ps = Suc (length ess)" "hd ps = snd (faulty_at (c p) k)"
        "\<forall>i < length ess. (ess ! i, ps ! Suc i) = faulty_at (c (ps ! i)) (Suc k + i) \<and>
           (Suc k + i < fault_points (c (ps ! i)) \<longleftrightarrow> Suc i < length ess)"
      by (auto simp: add.commute)
    have "fault_injection_loop (Suc fuel) lib c (int k) p s =
        Some (Inr (fst (faulty_at (c p) k) # ess, last (p # ps), s'))"
      using run s1 True small loop rest(4) complete [of s1] by auto
    moreover have "\<forall>i < length (fst (faulty_at (c p) k) # ess).
        ((fst (faulty_at (c p) k) # ess) ! i, (p # ps) ! Suc i) = faulty_at (c ((p # ps) ! i)) (k + i) \<and>
        (k + i < fault_points (c ((p # ps) ! i)) \<longleftrightarrow> Suc i < length (fst (faulty_at (c p) k) # ess))"
    proof -
      have "ps ! 0 = snd (faulty_at (c p) k)" using rest(4,5) hd_conv_nth [of ps] by force
      with rest(6) True rest(2) show ?thesis by (auto simp: nth_Cons split: nat.splits)
    qed
    ultimately show ?thesis using rest
      by (intro exI [of _ "fst (faulty_at (c p) k) # ess"] exI [of _ "p # ps"] exI [of _ s']) auto
  next
    case False
    let ?e = "rcutils_fault_injection_set_count lib (-1) s1"
    have "fault_injection_loop (Suc fuel) lib c (int k) p s =
        Some (Inr ([fst (faulty_at (c p) k)], last [p, snd (faulty_at (c p) k)], ?e))"
      using run s1 False small complete [of s1] by (simp add: fault_constants)
    moreover have "rcutils_fault_injection_get_count lib ?e = -1" by (simp add: get_set)
    ultimately show ?thesis using False Suc.prems
      by (intro exI [of _ "[fst (faulty_at (c p) k)]"] exI [of _ "[p, snd (faulty_at (c p) k)]"] exI [of _ ?e]) auto
  qed
qed simp

end

text \<open>A counter that keeps the laws.\<close>

definition fault_counter :: "int fault_functions" where
  "fault_counter = \<lparr>rcutils_fault_injection_is_test_complete = (\<lambda>s. 0 \<le> s),
     rcutils_fault_injection_set_count = (\<lambda>n s. n), rcutils_fault_injection_get_count = (\<lambda>s. s),
     rcutils_fault_injection_maybe_fail = (\<lambda>s. (s, if s < 0 then s else s - 1))\<rparr>"


section \<open>Properties\<close>


text \<open>A function with two fault points, around a piece of code that must not fail.\<close>

definition example_code :: "int \<Rightarrow> (string, int) code" where
  "example_code p = RCUTILS_CAN_RETURN_WITH_ERROR_OF True 1
     (RCUTILS_NO_FAULT_INJECTION True (RCUTILS_CAN_RETURN_WITH_ERROR_OF True 2 (Effect ''quiet'' (Finish 0)))
       (RCUTILS_CAN_FAIL_WITH True (Effect ''errno'' (Finish (-1))) (\<lambda>q. Effect ''done'' (Finish q))) p)"

lemmas fault_macros =
  RCUTILS_CAN_RETURN_WITH_ERROR_OF_def RCUTILS_CAN_FAIL_WITH_def RCUTILS_NO_FAULT_INJECTION_def
  RCUTILS_FAULT_INJECTION_MAYBE_RETURN_ERROR_def RCUTILS_FAULT_INJECTION_MAYBE_FAIL_def


lemma example_test:
  "RCUTILS_FAULT_INJECTION_TEST True 3 fault_counter example_code 0 5 =
     Some (Inr ([[Injecting_Fault], [Did ''quiet'', Injecting_Fault, Did ''errno'', Did ''done''],
       [Did ''quiet'', Did ''done'']], 0, -1))"
  by (simp add: RCUTILS_FAULT_INJECTION_TEST_def eval_nat_numeral example_code_def fault_macros fault_counter_def
      fault_constants)

text \<open>Without the option the test runs nothing, and neither does a block without faults.\<close>

lemma disabled_test_runs_nothing:
  "RCUTILS_FAULT_INJECTION_TEST False fuel lib c p s = Some (Inr ([], p, s))"
  by (simp add: RCUTILS_FAULT_INJECTION_TEST_def)

lemma disabled_block_is_dropped:
  "run_code lib (RCUTILS_NO_FAULT_INJECTION False (Effect e (Finish q)) Finish p) s = ([], p, s)"
  by (simp add: RCUTILS_NO_FAULT_INJECTION_def)

text \<open>Fault injection pauses in a block \<^verbatim>\<open>RCUTILS_NO_FAULT_INJECTION\<close>: whatever the counter is, the block
  runs as without faults, however many fault points it has, and the code behind it runs with the same
  count as without the block.\<close>

lemma no_fault_injection_pauses:
  assumes lib: "fault_library lib" and count: "rcutils_fault_injection_get_count lib s = int n"
  shows "\<exists>s'. run_code lib (RCUTILS_NO_FAULT_INJECTION True block k p) s =
      (fst (faultless block) @ fst (faulty_at (k (snd (faultless block))) n),
       snd (faulty_at (k (snd (faultless block))) n), s') \<and>
    rcutils_fault_injection_get_count lib s' = (if n < fault_points (k (snd (faultless block))) then -1
      else int (n - fault_points (k (snd (faultless block)))))"
  using fault_library.run_counted [OF lib count, of "Without_Faults block k"]
  by (simp add: RCUTILS_NO_FAULT_INJECTION_def case_prod_beta del: run_code.simps cong: if_cong)

end
