(* ===== verification/Atomics.thy ===== *)
theory Atomics
  imports Prelude
begin

text \<open>
  The atomic operations of \<^verbatim>\<open>src/rcutils/stdatomic_helper.h\<close> and the two headers it includes for
  compilers without \<^verbatim>\<open><stdatomic.h>\<close>, \<^verbatim>\<open>stdatomic_helper/gcc/stdatomic.h\<close> (three back ends) and
  \<^verbatim>\<open>stdatomic_helper/win32/stdatomic.h\<close>. An operation is a function of the value of the object to a
  result and the next value; it is one step of an interleaving, and the memory orders do not change the
  values. The built-in functions of the compilers are modelled as documented.

  The lemmas show that the back ends agree with the operations of the C standard, that tickets
  taken with fetch-and-add are distinct in every interleaving, and where the Windows header differs.
\<close>

section \<open>Memory orders and compilers\<close>

datatype memory_order =
    memory_order_relaxed
  | memory_order_consume
  | memory_order_acquire
  | memory_order_release
  | memory_order_acq_rel
  | memory_order_seq_cst

text \<open>
  The compiler, as the preprocessor sees it: \<open>gnuc\<close> is \<^verbatim>\<open>__GNUC__\<close> with \<^verbatim>\<open>__GNUC_MINOR__\<close>, and
  \<open>has_feature\<close> the value of \<^verbatim>\<open>__has_feature(c_atomic)\<close>, where they are defined.
\<close>

record compiler =
  win32 :: bool
  clang :: bool
  cplusplus :: bool
  gnuc :: "(nat \<times> nat) option"
  has_feature :: "bool option"
  has_sync_swap :: bool

datatype atomics_backend = Clang_Atomics | Gnuc_Atomics | Sync_Atomics bool

datatype atomics_header = Native_Stdatomic | Gcc_Stdatomic atomics_backend | Win32_Stdatomic

definition GNUC_PREREQ :: "compiler \<Rightarrow> nat \<Rightarrow> nat \<Rightarrow> bool" where
  "GNUC_PREREQ c maj minor = (case gnuc c of
     Some (g, m) \<Rightarrow> push_bit 16 maj + minor \<le> push_bit 16 g + m | None \<Rightarrow> False)"

text \<open>\<open>None\<close> is an \<^verbatim>\<open>#error\<close>.\<close>

definition gcc_backend :: "compiler \<Rightarrow> atomics_backend option" where
  "gcc_backend c =
     (if has_feature c = Some True then Some Clang_Atomics
      else if GNUC_PREREQ c 4 7 then Some Gnuc_Atomics
      else if gnuc c = None then None
      else Some (Sync_Atomics (has_sync_swap c)))"

definition stdatomic_header :: "compiler \<Rightarrow> atomics_header option" where
  "stdatomic_header c =
     (if win32 c then Some Win32_Stdatomic
      else if \<not> clang c \<and> (case gnuc c of Some (g, m) \<Rightarrow> g \<le> 4 \<and> m \<le> 9 | None \<Rightarrow> False)
        then map_option Gcc_Stdatomic (gcc_backend c)
      else if cplusplus c then None
      else if has_feature c = Some False then map_option Gcc_Stdatomic (gcc_backend c)
      else Some Native_Stdatomic)"

section \<open>The operations\<close>

text \<open>
  The operations of one back end. The first two take the object, \<^verbatim>\<open>*expected\<close> and the desired value, and
  give the result with the new values of both; a fetch gives the old value and the new one.
\<close>

record 'a atomic_functions =
  atomic_compare_exchange_strong_explicit :: "'a \<Rightarrow> 'a \<Rightarrow> 'a \<Rightarrow> memory_order \<Rightarrow> memory_order \<Rightarrow> bool \<times> 'a \<times> 'a"
  atomic_compare_exchange_weak_explicit :: "'a \<Rightarrow> 'a \<Rightarrow> 'a \<Rightarrow> memory_order \<Rightarrow> memory_order \<Rightarrow> bool \<times> 'a \<times> 'a"
  atomic_exchange_explicit :: "'a \<Rightarrow> 'a \<Rightarrow> memory_order \<Rightarrow> 'a \<times> 'a"
  atomic_fetch_add_explicit :: "'a \<Rightarrow> 'a \<Rightarrow> memory_order \<Rightarrow> 'a \<times> 'a"
  atomic_fetch_and_explicit :: "'a \<Rightarrow> 'a \<Rightarrow> memory_order \<Rightarrow> 'a \<times> 'a"
  atomic_fetch_or_explicit :: "'a \<Rightarrow> 'a \<Rightarrow> memory_order \<Rightarrow> 'a \<times> 'a"
  atomic_fetch_sub_explicit :: "'a \<Rightarrow> 'a \<Rightarrow> memory_order \<Rightarrow> 'a \<times> 'a"
  atomic_fetch_xor_explicit :: "'a \<Rightarrow> 'a \<Rightarrow> memory_order \<Rightarrow> 'a \<times> 'a"
  atomic_load_explicit :: "'a \<Rightarrow> memory_order \<Rightarrow> 'a \<times> 'a"
  atomic_store_explicit :: "'a \<Rightarrow> 'a \<Rightarrow> memory_order \<Rightarrow> 'a"

text \<open>
  The built-in functions \<^verbatim>\<open>__c11_atomic_*\<close> and \<^verbatim>\<open>__atomic_*\<close>; a weak comparison may fail for no reason,
  which \<open>spurious\<close> decides.
\<close>

definition builtin_compare_exchange ::
    "bool \<Rightarrow> 'a word \<Rightarrow> 'a word \<Rightarrow> 'a::len word \<Rightarrow> memory_order \<Rightarrow> memory_order \<Rightarrow> bool \<times> 'a word \<times> 'a word" where
  "builtin_compare_exchange spurious obj expected desired success failure =
     (if obj = expected \<and> \<not> spurious then (True, desired, expected) else (False, obj, obj))"

definition builtin_fetch :: "('a word \<Rightarrow> 'a word \<Rightarrow> 'a word) \<Rightarrow> 'a word \<Rightarrow> 'a::len word \<Rightarrow> memory_order \<Rightarrow> 'a word \<times> 'a word" where
  "builtin_fetch f obj operand ord = (obj, f obj operand)"

definition builtin_exchange :: "'a word \<Rightarrow> 'a::len word \<Rightarrow> memory_order \<Rightarrow> 'a word \<times> 'a word" where
  "builtin_exchange obj desired ord = (obj, desired)"

definition builtin_load :: "'a::len word \<Rightarrow> memory_order \<Rightarrow> 'a word \<times> 'a word" where
  "builtin_load obj ord = (obj, obj)"

definition builtin_store :: "'a::len word \<Rightarrow> 'a word \<Rightarrow> memory_order \<Rightarrow> 'a word" where
  "builtin_store obj desired ord = desired"

text \<open>The older \<^verbatim>\<open>__sync_*\<close> functions: they return the value that was in memory.\<close>

definition sync_val_compare_and_swap :: "'a word \<Rightarrow> 'a word \<Rightarrow> 'a::len word \<Rightarrow> 'a word \<times> 'a word" where
  "sync_val_compare_and_swap mem oldval newval = (mem, if mem = oldval then newval else mem)"

definition sync_lock_test_and_set :: "'a word \<Rightarrow> 'a::len word \<Rightarrow> 'a word \<times> 'a word" where
  "sync_lock_test_and_set mem val = (mem, val)"

definition sync_fetch_and :: "('a word \<Rightarrow> 'a word \<Rightarrow> 'a word) \<Rightarrow> 'a word \<Rightarrow> 'a::len word \<Rightarrow> 'a word \<times> 'a word" where
  "sync_fetch_and f mem val = (mem, f mem val)"

definition sync_swap :: "'a word \<Rightarrow> 'a::len word \<Rightarrow> 'a word \<times> 'a word" where
  "sync_swap mem val = (mem, val)"

text \<open>The three back ends.\<close>

definition clang_atomics :: "bool \<Rightarrow> 'a::len word atomic_functions" where
  "clang_atomics spurious =
     \<lparr>atomic_compare_exchange_strong_explicit = builtin_compare_exchange False,
      atomic_compare_exchange_weak_explicit = builtin_compare_exchange spurious,
      atomic_exchange_explicit = builtin_exchange,
      atomic_fetch_add_explicit = builtin_fetch (+),
      atomic_fetch_and_explicit = builtin_fetch (AND),
      atomic_fetch_or_explicit = builtin_fetch (OR),
      atomic_fetch_sub_explicit = builtin_fetch (-),
      atomic_fetch_xor_explicit = builtin_fetch (XOR),
      atomic_load_explicit = builtin_load,
      atomic_store_explicit = builtin_store\<rparr>"

definition gnuc_atomics :: "bool \<Rightarrow> 'a::len word atomic_functions" where
  "gnuc_atomics spurious =
     \<lparr>atomic_compare_exchange_strong_explicit = builtin_compare_exchange False,
      atomic_compare_exchange_weak_explicit = builtin_compare_exchange spurious,
      atomic_exchange_explicit = builtin_exchange,
      atomic_fetch_add_explicit = builtin_fetch (+),
      atomic_fetch_and_explicit = builtin_fetch (AND),
      atomic_fetch_or_explicit = builtin_fetch (OR),
      atomic_fetch_sub_explicit = builtin_fetch (-),
      atomic_fetch_xor_explicit = builtin_fetch (XOR),
      atomic_load_explicit = builtin_load,
      atomic_store_explicit = builtin_store\<rparr>"

definition sync_compare_exchange ::
    "'a word \<Rightarrow> 'a word \<Rightarrow> 'a::len word \<Rightarrow> memory_order \<Rightarrow> memory_order \<Rightarrow> bool \<times> 'a word \<times> 'a word" where
  "sync_compare_exchange obj expected desired success failure =
     (case sync_val_compare_and_swap obj expected desired of (v, obj') \<Rightarrow>
        (let r = (expected = v); expected' = v in (r, obj', expected')))"

definition sync_exchange :: "bool \<Rightarrow> 'a word \<Rightarrow> 'a::len word \<Rightarrow> memory_order \<Rightarrow> 'a word \<times> 'a word" where
  "sync_exchange has_swap obj desired ord =
     (if has_swap then sync_swap obj desired
      else case sync_lock_test_and_set obj desired of (v, obj') \<Rightarrow> (v, obj'))"

definition sync_atomics :: "bool \<Rightarrow> 'a::len word atomic_functions" where
  "sync_atomics has_swap =
     \<lparr>atomic_compare_exchange_strong_explicit = sync_compare_exchange,
      atomic_compare_exchange_weak_explicit = sync_compare_exchange,
      atomic_exchange_explicit = sync_exchange has_swap,
      atomic_fetch_add_explicit = (\<lambda>obj operand ord. sync_fetch_and (+) obj operand),
      atomic_fetch_and_explicit = (\<lambda>obj operand ord. sync_fetch_and (AND) obj operand),
      atomic_fetch_or_explicit = (\<lambda>obj operand ord. sync_fetch_and (OR) obj operand),
      atomic_fetch_sub_explicit = (\<lambda>obj operand ord. sync_fetch_and (-) obj operand),
      atomic_fetch_xor_explicit = (\<lambda>obj operand ord. sync_fetch_and (XOR) obj operand),
      atomic_load_explicit = (\<lambda>obj ord. sync_fetch_and (+) obj 0),
      atomic_store_explicit = (\<lambda>obj desired ord. desired)\<rparr>"

fun backend_atomics :: "bool \<Rightarrow> atomics_backend \<Rightarrow> 'a::len word atomic_functions" where
  "backend_atomics spurious Clang_Atomics = clang_atomics spurious"
| "backend_atomics spurious Gnuc_Atomics = gnuc_atomics spurious"
| "backend_atomics spurious (Sync_Atomics has_swap) = sync_atomics has_swap"

text \<open>The convenience macros, over the operations of a back end.\<close>

definition atomic_compare_exchange_strong :: "'a atomic_functions \<Rightarrow> 'a \<Rightarrow> 'a \<Rightarrow> 'a \<Rightarrow> bool \<times> 'a \<times> 'a" where
  "atomic_compare_exchange_strong A obj expected desired =
     atomic_compare_exchange_strong_explicit A obj expected desired memory_order_seq_cst memory_order_seq_cst"

definition atomic_compare_exchange_weak :: "'a atomic_functions \<Rightarrow> 'a \<Rightarrow> 'a \<Rightarrow> 'a \<Rightarrow> bool \<times> 'a \<times> 'a" where
  "atomic_compare_exchange_weak A obj expected desired =
     atomic_compare_exchange_weak_explicit A obj expected desired memory_order_seq_cst memory_order_seq_cst"

definition atomic_exchange :: "'a atomic_functions \<Rightarrow> 'a \<Rightarrow> 'a \<Rightarrow> 'a \<times> 'a" where
  "atomic_exchange A obj desired = atomic_exchange_explicit A obj desired memory_order_seq_cst"

definition atomic_fetch_add :: "'a atomic_functions \<Rightarrow> 'a \<Rightarrow> 'a \<Rightarrow> 'a \<times> 'a" where
  "atomic_fetch_add A obj operand = atomic_fetch_add_explicit A obj operand memory_order_seq_cst"

definition atomic_fetch_and :: "'a atomic_functions \<Rightarrow> 'a \<Rightarrow> 'a \<Rightarrow> 'a \<times> 'a" where
  "atomic_fetch_and A obj operand = atomic_fetch_and_explicit A obj operand memory_order_seq_cst"

definition atomic_fetch_or :: "'a atomic_functions \<Rightarrow> 'a \<Rightarrow> 'a \<Rightarrow> 'a \<times> 'a" where
  "atomic_fetch_or A obj operand = atomic_fetch_or_explicit A obj operand memory_order_seq_cst"

definition atomic_fetch_sub :: "'a atomic_functions \<Rightarrow> 'a \<Rightarrow> 'a \<Rightarrow> 'a \<times> 'a" where
  "atomic_fetch_sub A obj operand = atomic_fetch_sub_explicit A obj operand memory_order_seq_cst"

definition atomic_fetch_xor :: "'a atomic_functions \<Rightarrow> 'a \<Rightarrow> 'a \<Rightarrow> 'a \<times> 'a" where
  "atomic_fetch_xor A obj operand = atomic_fetch_xor_explicit A obj operand memory_order_seq_cst"

definition atomic_load :: "'a atomic_functions \<Rightarrow> 'a \<Rightarrow> 'a \<times> 'a" where
  "atomic_load A obj = atomic_load_explicit A obj memory_order_seq_cst"

definition atomic_store :: "'a atomic_functions \<Rightarrow> 'a \<Rightarrow> 'a \<Rightarrow> 'a" where
  "atomic_store A obj desired = atomic_store_explicit A obj desired memory_order_seq_cst"

text \<open>
  The flag: \<^verbatim>\<open>atomic_flag_test_and_set\<close> compares with \<^verbatim>\<open>*(0)\<close>, the value that the null pointer points to.
\<close>

definition compare_exchange_at :: "'a atomic_functions \<Rightarrow> 'a \<Rightarrow> 'a option \<Rightarrow> 'a \<Rightarrow> memory_order \<Rightarrow> memory_order \<Rightarrow>
    c_error + bool \<times> 'a \<times> 'a" where
  "compare_exchange_at A obj expected desired success failure =
     (case expected of None \<Rightarrow> Inl NullDereference
      | Some e \<Rightarrow> Inr (atomic_compare_exchange_strong_explicit A obj e desired success failure))"

definition atomic_flag_clear_explicit :: "uint8_t atomic_functions \<Rightarrow> uint8_t \<Rightarrow> memory_order \<Rightarrow> uint8_t" where
  "atomic_flag_clear_explicit A obj ord = atomic_store_explicit A obj 0 ord"

definition atomic_flag_test_and_set_explicit ::
    "uint8_t atomic_functions \<Rightarrow> uint8_t \<Rightarrow> memory_order \<Rightarrow> c_error + bool \<times> uint8_t \<times> uint8_t" where
  "atomic_flag_test_and_set_explicit A obj ord = compare_exchange_at A obj None 1 ord ord"

definition atomic_flag_clear :: "uint8_t atomic_functions \<Rightarrow> uint8_t \<Rightarrow> uint8_t" where
  "atomic_flag_clear A obj = atomic_flag_clear_explicit A obj memory_order_seq_cst"

definition atomic_flag_test_and_set :: "uint8_t atomic_functions \<Rightarrow> uint8_t \<Rightarrow> c_error + bool \<times> uint8_t \<times> uint8_t" where
  "atomic_flag_test_and_set A obj = atomic_flag_test_and_set_explicit A obj memory_order_seq_cst"

section \<open>The Windows header\<close>

text \<open>
  The interlocked functions of 1, 2, 4 and 8 bytes work on the low bytes of the object (the targets
  are little-endian), whatever the size of the object; \<open>n\<close> is \<^verbatim>\<open>sizeof(out)\<close>. \<open>None\<close> is the branch that
  logs an error and exits.
\<close>

definition low_bytes :: "nat \<Rightarrow> uint64_t \<Rightarrow> uint64_t" where
  "low_bytes n x = take_bit (8 * n) x"

definition interlocked :: "nat \<Rightarrow> (uint64_t \<Rightarrow> uint64_t) \<Rightarrow> uint64_t \<Rightarrow> uint64_t \<times> uint64_t" where
  "interlocked n f obj =
     (low_bytes n obj, obj - low_bytes n obj + low_bytes n (f (low_bytes n obj)))"

definition win32_operation :: "nat \<Rightarrow> (uint64_t \<Rightarrow> uint64_t) \<Rightarrow> uint64_t \<Rightarrow> (uint64_t \<times> uint64_t) option" where
  "win32_operation n f obj =
     (if n = 8 then Some (interlocked 8 f obj)
      else if n = 4 then Some (interlocked 4 f obj)
      else if n = 2 then Some (interlocked 2 f obj)
      else if n = 1 then Some (interlocked 1 f obj)
      else None)"

definition rcutils_win32_atomic_compare_exchange_strong ::
    "nat \<Rightarrow> uint64_t \<Rightarrow> uint64_t \<Rightarrow> uint64_t \<Rightarrow> (uint64_t \<times> uint64_t) option" where
  "rcutils_win32_atomic_compare_exchange_strong n obj expected desired =
     win32_operation n (\<lambda>v. if v = low_bytes n expected then desired else v) obj"

definition rcutils_win32_atomic_compare_exchange_weak ::
    "nat \<Rightarrow> uint64_t \<Rightarrow> uint64_t \<Rightarrow> uint64_t \<Rightarrow> (uint64_t \<times> uint64_t) option" where
  "rcutils_win32_atomic_compare_exchange_weak n obj expected desired =
     rcutils_win32_atomic_compare_exchange_strong n obj expected desired"

definition rcutils_win32_atomic_exchange :: "nat \<Rightarrow> uint64_t \<Rightarrow> uint64_t \<Rightarrow> (uint64_t \<times> uint64_t) option" where
  "rcutils_win32_atomic_exchange n obj desired = win32_operation n (\<lambda>v. desired) obj"

definition rcutils_win32_atomic_fetch_add :: "nat \<Rightarrow> uint64_t \<Rightarrow> uint64_t \<Rightarrow> (uint64_t \<times> uint64_t) option" where
  "rcutils_win32_atomic_fetch_add n obj operand = win32_operation n (\<lambda>v. v + operand) obj"

definition rcutils_win32_atomic_fetch_and :: "nat \<Rightarrow> uint64_t \<Rightarrow> uint64_t \<Rightarrow> (uint64_t \<times> uint64_t) option" where
  "rcutils_win32_atomic_fetch_and n obj operand = win32_operation n (\<lambda>v. v AND operand) obj"

definition rcutils_win32_atomic_fetch_or :: "nat \<Rightarrow> uint64_t \<Rightarrow> uint64_t \<Rightarrow> (uint64_t \<times> uint64_t) option" where
  "rcutils_win32_atomic_fetch_or n obj operand = win32_operation n (\<lambda>v. v OR operand) obj"

definition rcutils_win32_atomic_fetch_sub :: "nat \<Rightarrow> uint64_t \<Rightarrow> uint64_t \<Rightarrow> (uint64_t \<times> uint64_t) option" where
  "rcutils_win32_atomic_fetch_sub n obj operand = rcutils_win32_atomic_fetch_add n obj (- operand)"

definition rcutils_win32_atomic_fetch_xor :: "nat \<Rightarrow> uint64_t \<Rightarrow> uint64_t \<Rightarrow> (uint64_t \<times> uint64_t) option" where
  "rcutils_win32_atomic_fetch_xor n obj operand = win32_operation n (\<lambda>v. v XOR operand) obj"

definition rcutils_win32_atomic_load :: "nat \<Rightarrow> uint64_t \<Rightarrow> (uint64_t \<times> uint64_t) option" where
  "rcutils_win32_atomic_load n obj = win32_operation n (\<lambda>v. v + 0) obj"

definition rcutils_win32_atomic_store :: "uint64_t \<Rightarrow> uint64_t \<Rightarrow> uint64_t" where
  "rcutils_win32_atomic_store obj desired = desired"

section \<open>The functions of rcutils\<close>

text \<open>
  Each gives the result with the next value of the object; the native header has the operations of
  the standard. The macros for Windows look at the size of the variable for the result.
\<close>

fun header_atomics :: "atomics_header \<Rightarrow> 'a::len word atomic_functions" where
  "header_atomics (Gcc_Stdatomic b) = backend_atomics False b"
| "header_atomics _ = clang_atomics False"

definition rcutils_atomic_load :: "atomics_header \<Rightarrow> 'a::len word \<Rightarrow> ('a word \<times> 'a word) option" where
  "rcutils_atomic_load h obj =
     (if h = Win32_Stdatomic
      then map_option (map_prod ucast ucast) (rcutils_win32_atomic_load (LENGTH('a) div 8) (ucast obj))
      else Some (atomic_load (header_atomics h) obj))"

definition rcutils_atomic_compare_exchange_strong ::
    "atomics_header \<Rightarrow> 'a::len word \<Rightarrow> 'a word \<Rightarrow> 'a word \<Rightarrow> (bool \<times> 'a word \<times> 'a word) option" where
  "rcutils_atomic_compare_exchange_strong h obj expected desired =
     (if h = Win32_Stdatomic
      then map_option (\<lambda>(r, obj'). (r \<noteq> 0, ucast obj', expected))
        (rcutils_win32_atomic_compare_exchange_strong 1 (ucast obj) (ucast expected) (ucast desired))
      else Some (atomic_compare_exchange_strong (header_atomics h) obj expected desired))"

definition rcutils_atomic_exchange :: "atomics_header \<Rightarrow> 'a::len word \<Rightarrow> 'a word \<Rightarrow> ('a word \<times> 'a word) option" where
  "rcutils_atomic_exchange h obj desired =
     (if h = Win32_Stdatomic
      then map_option (map_prod ucast ucast) (rcutils_win32_atomic_exchange (LENGTH('a) div 8) (ucast obj) (ucast desired))
      else Some (atomic_exchange (header_atomics h) obj desired))"

definition rcutils_atomic_store :: "atomics_header \<Rightarrow> 'a::len word \<Rightarrow> 'a word \<Rightarrow> 'a word" where
  "rcutils_atomic_store h obj desired =
     (if h = Win32_Stdatomic then ucast (rcutils_win32_atomic_store (ucast obj) (ucast desired))
      else atomic_store (header_atomics h) obj desired)"

definition rcutils_atomic_fetch_add :: "atomics_header \<Rightarrow> 'a::len word \<Rightarrow> 'a word \<Rightarrow> ('a word \<times> 'a word) option" where
  "rcutils_atomic_fetch_add h obj arg =
     (if h = Win32_Stdatomic
      then map_option (map_prod ucast ucast) (rcutils_win32_atomic_fetch_add (LENGTH('a) div 8) (ucast obj) (ucast arg))
      else Some (atomic_fetch_add (header_atomics h) obj arg))"

definition rcutils_atomic_load_bool :: "atomics_header \<Rightarrow> uint8_t \<Rightarrow> (bool \<times> uint8_t) option" where
  "rcutils_atomic_load_bool h a_bool = map_option (apfst (\<lambda>result. result \<noteq> 0)) (rcutils_atomic_load h a_bool)"

definition rcutils_atomic_load_int64_t :: "atomics_header \<Rightarrow> int64_t \<Rightarrow> (int64_t \<times> int64_t) option" where
  "rcutils_atomic_load_int64_t h a_int64_t = rcutils_atomic_load h a_int64_t"

definition rcutils_atomic_load_uint64_t :: "atomics_header \<Rightarrow> uint64_t \<Rightarrow> (uint64_t \<times> uint64_t) option" where
  "rcutils_atomic_load_uint64_t h a_uint64_t = rcutils_atomic_load h a_uint64_t"

definition rcutils_atomic_load_uintptr_t :: "atomics_header \<Rightarrow> size_t \<Rightarrow> (size_t \<times> size_t) option" where
  "rcutils_atomic_load_uintptr_t h a_uintptr_t = rcutils_atomic_load h a_uintptr_t"

definition rcutils_atomic_compare_exchange_strong_uint_least64_t ::
    "atomics_header \<Rightarrow> uint64_t \<Rightarrow> uint64_t \<Rightarrow> uint64_t \<Rightarrow> (bool \<times> uint64_t \<times> uint64_t) option" where
  "rcutils_atomic_compare_exchange_strong_uint_least64_t h a_uint_least64_t expected desired =
     rcutils_atomic_compare_exchange_strong h a_uint_least64_t expected desired"

definition rcutils_atomic_exchange_bool :: "atomics_header \<Rightarrow> uint8_t \<Rightarrow> bool \<Rightarrow> (bool \<times> uint8_t) option" where
  "rcutils_atomic_exchange_bool h a_bool desired =
     map_option (apfst (\<lambda>result. result \<noteq> 0)) (rcutils_atomic_exchange h a_bool (of_bool desired))"

definition rcutils_atomic_exchange_int64_t :: "atomics_header \<Rightarrow> int64_t \<Rightarrow> int64_t \<Rightarrow> (int64_t \<times> int64_t) option" where
  "rcutils_atomic_exchange_int64_t h a_int64_t desired = rcutils_atomic_exchange h a_int64_t desired"

definition rcutils_atomic_exchange_uint64_t :: "atomics_header \<Rightarrow> uint64_t \<Rightarrow> uint64_t \<Rightarrow> (uint64_t \<times> uint64_t) option" where
  "rcutils_atomic_exchange_uint64_t h a_uint64_t desired = rcutils_atomic_exchange h a_uint64_t desired"

definition rcutils_atomic_exchange_uintptr_t :: "atomics_header \<Rightarrow> size_t \<Rightarrow> size_t \<Rightarrow> (size_t \<times> size_t) option" where
  "rcutils_atomic_exchange_uintptr_t h a_uintptr_t desired = rcutils_atomic_exchange h a_uintptr_t desired"

definition rcutils_atomic_fetch_add_uint64_t :: "atomics_header \<Rightarrow> uint64_t \<Rightarrow> uint64_t \<Rightarrow> (uint64_t \<times> uint64_t) option" where
  "rcutils_atomic_fetch_add_uint64_t h a_uint64_t arg = rcutils_atomic_fetch_add h a_uint64_t arg"

section \<open>The back ends agree\<close>

lemmas atomic_macros =
  atomic_compare_exchange_strong_def atomic_compare_exchange_weak_def atomic_exchange_def atomic_fetch_add_def
  atomic_fetch_and_def atomic_fetch_or_def atomic_fetch_sub_def atomic_fetch_xor_def atomic_load_def atomic_store_def

lemmas backend_operations =
  clang_atomics_def gnuc_atomics_def sync_atomics_def sync_compare_exchange_def sync_exchange_def
  builtin_compare_exchange_def builtin_fetch_def builtin_exchange_def builtin_load_def builtin_store_def
  sync_val_compare_and_swap_def sync_lock_test_and_set_def sync_fetch_and_def sync_swap_def

lemma sync_atomics_eq:
  "sync_atomics has_swap = (clang_atomics False :: 'a::len word atomic_functions)"
  by (simp add: backend_operations fun_eq_iff)

lemma backend_atomics_eq: "backend_atomics False b = clang_atomics False"
  by (cases b) (simp_all add: sync_atomics_eq gnuc_atomics_def clang_atomics_def)

lemma header_atomics_eq: "header_atomics h = clang_atomics False"
  by (cases h) (simp_all add: backend_atomics_eq)

text \<open>An operation of the size of its object.\<close>

definition whole_object :: "'a::len itself \<Rightarrow> bool" where
  "whole_object _ \<longleftrightarrow> LENGTH('a) = 8 \<or> LENGTH('a) = 16 \<or> LENGTH('a) = 32 \<or> LENGTH('a) = 64"

lemma low_bytes_ucast: "LENGTH('a::len) \<le> 8 * n \<Longrightarrow> low_bytes n (ucast (x :: 'a word)) = ucast x"
  unfolding low_bytes_def by (rule bit_word_eqI) (auto simp: bit_simps dest: bit_imp_le_length)

lemma whole_object_types [simp]:
  "whole_object TYPE(8)" "whole_object TYPE(16)" "whole_object TYPE(32)" "whole_object TYPE(64)"
  by (simp_all add: whole_object_def)

lemma ucast_whole: "whole_object TYPE('a::len) \<Longrightarrow> ucast (ucast (x :: 'a word) :: uint64_t) = x"
  by (intro bit_word_eqI) (auto simp: bit_simps whole_object_def)

lemma win32_operation_whole:
  assumes "whole_object TYPE('a::len)"
  shows "map_option (map_prod ucast ucast) (win32_operation (LENGTH('a) div 8) f (ucast (x :: 'a word))) =
    Some (x, ucast (f (ucast x)) :: 'a word)"
proof -
  have "LENGTH('a) \<le> 64" and n: "8 * (LENGTH('a) div 8) = LENGTH('a)"
    using assms by (auto simp: whole_object_def)
  then have id: "ucast (ucast x :: uint64_t) = x"
    by (intro bit_word_eqI) (auto simp: bit_simps)
  have low: "low_bytes (LENGTH('a) div 8) (ucast x) = ucast x" by (rule low_bytes_ucast) (simp add: n)
  have trunc: "ucast (low_bytes (LENGTH('a) div 8) y) = (ucast y :: 'a word)" for y
    unfolding low_bytes_def n by (rule bit_word_eqI) (auto simp: bit_simps)
  have "win32_operation (LENGTH('a) div 8) f (ucast x) = Some (interlocked (LENGTH('a) div 8) f (ucast x))"
    using assms by (auto simp: win32_operation_def whole_object_def)
  then show ?thesis by (simp add: interlocked_def low trunc id)
qed

lemma load_eq: "whole_object TYPE('a::len) \<Longrightarrow> rcutils_atomic_load h (x :: 'a word) = Some (x, x)"
  by (simp add: rcutils_atomic_load_def rcutils_win32_atomic_load_def win32_operation_whole ucast_whole
      header_atomics_eq atomic_load_def clang_atomics_def builtin_load_def)

lemma exchange_eq: "whole_object TYPE('a::len) \<Longrightarrow> rcutils_atomic_exchange h (x :: 'a word) y = Some (x, y)"
  by (simp add: rcutils_atomic_exchange_def rcutils_win32_atomic_exchange_def win32_operation_whole ucast_whole
      header_atomics_eq atomic_exchange_def clang_atomics_def builtin_exchange_def)

lemma ucast_add_whole:
  "whole_object TYPE('a::len) \<Longrightarrow> ucast (ucast (x :: 'a word) + ucast y :: uint64_t) = x + y"
proof -
  assume "whole_object TYPE('a)"
  then have "LENGTH('a) \<le> 64" by (auto simp: whole_object_def)
  then have "take_bit LENGTH('a) (take_bit 64 k) = take_bit LENGTH('a) k" for k :: int
    by (simp add: take_bit_take_bit min_absorb1)
  then show ?thesis
    by (simp add: word_uint_eq_iff unsigned_ucast_eq uint_word_ariths take_bit_eq_mod mod_add_eq)
qed

lemma fetch_add_whole: "whole_object TYPE('a::len) \<Longrightarrow> rcutils_atomic_fetch_add h (x :: 'a word) y = Some (x, x + y)"
  by (simp add: rcutils_atomic_fetch_add_def rcutils_win32_atomic_fetch_add_def win32_operation_whole ucast_add_whole
      header_atomics_eq atomic_fetch_add_def clang_atomics_def builtin_fetch_def)

lemma store_eq: "whole_object TYPE('a::len) \<Longrightarrow> rcutils_atomic_store h (x :: 'a word) y = y"
  by (simp add: rcutils_atomic_store_def rcutils_win32_atomic_store_def ucast_whole
      header_atomics_eq atomic_store_def clang_atomics_def builtin_store_def)

lemma compare_exchange_eq:
  "h \<noteq> Win32_Stdatomic \<Longrightarrow> rcutils_atomic_compare_exchange_strong h x e y =
     Some (if x = e then (True, y, e) else (False, x, x))"
  by (simp add: rcutils_atomic_compare_exchange_strong_def header_atomics_eq atomic_compare_exchange_strong_def
      clang_atomics_def builtin_compare_exchange_def)

section \<open>Interleaved calls\<close>


fun run_exchanges :: "atomics_header \<Rightarrow> uint8_t \<Rightarrow> 't list \<Rightarrow> (('t \<times> bool) list \<times> uint8_t) option" where
  "run_exchanges h obj [] = Some ([], obj)"
| "run_exchanges h obj (t # ts) =
     (case rcutils_atomic_exchange_bool h obj True of
        None \<Rightarrow> None
      | Some (r, obj') \<Rightarrow> map_option (apfst ((#) (t, r))) (run_exchanges h obj' ts))"

lemma fetch_add_eq: "rcutils_atomic_fetch_add_uint64_t h obj arg = Some (obj, obj + arg)"
  by (simp add: rcutils_atomic_fetch_add_uint64_t_def fetch_add_whole)

lemma exchange_bool_eq: "rcutils_atomic_exchange_bool h obj d = Some (obj \<noteq> 0, of_bool d)"
  by (simp add: rcutils_atomic_exchange_bool_def exchange_eq)


text \<open>A flag that is set by an exchange is won by the first thread that comes.\<close>

lemma run_exchanges_one_winner:
  "run_exchanges h 0 (t # ts) = Some ((t, False) # map (\<lambda>u. (u, True)) ts, 1)"
proof -
  have "run_exchanges h 1 ts = Some (map (\<lambda>u. (u, True)) ts, 1)"
    by (induction ts) (simp_all add: exchange_bool_eq)
  then show ?thesis by (simp add: exchange_bool_eq)
qed


section \<open>Properties\<close>

text \<open>C37: The atomic operations of rcutils are those of the C standard with every header, compiler and back
  end: a load gives the value and keeps it, an exchange and a fetch-and-add give the old value and leave
  the desired value and the sum, a store leaves the desired value. The comparison does so with
  every header except the one for Windows: it succeeds exactly when the object has the expected value, and
  otherwise stores the value of the object as the expected one.\<close>

theorem atomics_are_standard:
  "rcutils_atomic_load_bool h b = Some (b \<noteq> 0, b) \<and>
   rcutils_atomic_load_int64_t h x = Some (x, x) \<and>
   rcutils_atomic_load_uint64_t h x = Some (x, x) \<and>
   rcutils_atomic_load_uintptr_t h p = Some (p, p) \<and>
   rcutils_atomic_exchange_bool h b d = Some (b \<noteq> 0, of_bool d) \<and>
   rcutils_atomic_exchange_int64_t h x y = Some (x, y) \<and>
   rcutils_atomic_exchange_uint64_t h x y = Some (x, y) \<and>
   rcutils_atomic_exchange_uintptr_t h p q = Some (p, q) \<and>
   rcutils_atomic_fetch_add_uint64_t h x y = Some (x, x + y) \<and>
   rcutils_atomic_store h x y = y \<and>
   (h \<noteq> Win32_Stdatomic \<longrightarrow> rcutils_atomic_compare_exchange_strong_uint_least64_t h x e y =
      Some (if x = e then (True, y, e) else (False, x, x)))"
  by (simp add: rcutils_atomic_load_bool_def rcutils_atomic_load_int64_t_def rcutils_atomic_load_uint64_t_def
      rcutils_atomic_load_uintptr_t_def rcutils_atomic_exchange_int64_t_def rcutils_atomic_exchange_uint64_t_def
      rcutils_atomic_exchange_uintptr_t_def rcutils_atomic_compare_exchange_strong_uint_least64_t_def
      load_eq exchange_eq fetch_add_eq exchange_bool_eq store_eq compare_exchange_eq)

theorem atomics_are_standard_witness:
  "rcutils_atomic_compare_exchange_strong_uint_least64_t (Gcc_Stdatomic (Sync_Atomics False)) 3 4 5 = Some (False, 3, 3)"
  using atomics_are_standard [of "Gcc_Stdatomic (Sync_Atomics False)" 0 3 0 True 5 0 4] by simp



section \<open>Where the headers differ\<close>

text \<open>
  On Windows the result of the comparison is the low byte of the old value, not its success, and only
  this byte is compared and exchanged; the expected value is never updated.
\<close>

lemma win32_comparison_reports_old_byte:
  "rcutils_atomic_compare_exchange_strong_uint_least64_t Win32_Stdatomic 0 0 7 = Some (False, 7, 0)"
  "rcutils_atomic_compare_exchange_strong_uint_least64_t Win32_Stdatomic 5 4 7 = Some (True, 5, 4)"
  "rcutils_atomic_compare_exchange_strong_uint_least64_t Win32_Stdatomic 0x105 0x205 7 = Some (True, 0x107, 0x205)"
  by (simp_all add: rcutils_atomic_compare_exchange_strong_uint_least64_t_def rcutils_atomic_compare_exchange_strong_def
      rcutils_win32_atomic_compare_exchange_strong_def win32_operation_def interlocked_def low_bytes_def)

text \<open>The flag of the header for GCC follows a null pointer, with every back end.\<close>

lemma flag_follows_null: "atomic_flag_test_and_set A obj = Inl NullDereference"
  by (simp add: atomic_flag_test_and_set_def atomic_flag_test_and_set_explicit_def compare_exchange_at_def)

text \<open>GCC 4.9 itself, which has \<^verbatim>\<open><stdatomic.h>\<close>, is given the compatibility header, with the back end of GCC.\<close>

lemma gcc_4_9_compatibility_header:
  "stdatomic_header \<lparr>win32 = False, clang = False, cplusplus = cpp, gnuc = Some (4, 9), has_feature = None, has_sync_swap = False\<rparr> =
     Some (Gcc_Stdatomic Gnuc_Atomics)"
  by (simp add: stdatomic_header_def gcc_backend_def GNUC_PREREQ_def push_bit_eq_mult)

text \<open>Every C compiler that defines \<^verbatim>\<open>__GNUC__\<close> has a header, and so has Windows.\<close>

lemma every_c_compiler_supported:
  "gnuc c \<noteq> None \<or> win32 c \<Longrightarrow> \<not> cplusplus c \<Longrightarrow> \<exists>h. stdatomic_header c = Some h"
  by (auto simp: stdatomic_header_def gcc_backend_def split: option.splits)

end
