(* ===== verification/Typesupport_Names.thy ===== *)
theory Typesupport_Names
  imports Prelude "HOL-Library.Sublist"
begin

text \<open>
  The names of the functions that give the type support of an interface. The macros of
  \<^verbatim>\<open>src/rosidl_typesupport_interface/macros.h\<close> join five words with double underscores; the declarations
  in the generated headers and the macros of \<^verbatim>\<open>src/rosidl_runtime_c\<close> that call the functions both use
  them. The lemmas show that the names are not ambiguous for the words that ROS allows.
\<close>

section \<open>The macros\<close>

definition ROSIDL_TYPESUPPORT_INTERFACE__SYMBOL_NAME :: "string \<Rightarrow> string \<Rightarrow> string \<Rightarrow> string \<Rightarrow> string \<Rightarrow> string" where
  "ROSIDL_TYPESUPPORT_INTERFACE__SYMBOL_NAME typesupport_name function_name package_name interface_type interface_name =
     typesupport_name @ ''__'' @ function_name @ ''__'' @ package_name @ ''__'' @ interface_type @ ''__'' @ interface_name"

definition ROSIDL_TYPESUPPORT_INTERFACE__MESSAGE_SYMBOL_NAME :: "string \<Rightarrow> string \<Rightarrow> string \<Rightarrow> string \<Rightarrow> string" where
  "ROSIDL_TYPESUPPORT_INTERFACE__MESSAGE_SYMBOL_NAME typesupport_name package_name interface_type message_name =
     ROSIDL_TYPESUPPORT_INTERFACE__SYMBOL_NAME typesupport_name ''get_message_type_support_handle''
       package_name interface_type message_name"

definition ROSIDL_TYPESUPPORT_INTERFACE__SERVICE_SYMBOL_NAME :: "string \<Rightarrow> string \<Rightarrow> string \<Rightarrow> string \<Rightarrow> string" where
  "ROSIDL_TYPESUPPORT_INTERFACE__SERVICE_SYMBOL_NAME typesupport_name package_name interface_type service_name =
     ROSIDL_TYPESUPPORT_INTERFACE__SYMBOL_NAME typesupport_name ''get_service_type_support_handle''
       package_name interface_type service_name"

definition ROSIDL_TYPESUPPORT_INTERFACE__ACTION_SYMBOL_NAME :: "string \<Rightarrow> string \<Rightarrow> string \<Rightarrow> string \<Rightarrow> string" where
  "ROSIDL_TYPESUPPORT_INTERFACE__ACTION_SYMBOL_NAME typesupport_name package_name interface_type action_name =
     ROSIDL_TYPESUPPORT_INTERFACE__SYMBOL_NAME typesupport_name ''get_action_type_support_handle''
       package_name interface_type action_name"

text \<open>The macros that call the function: the name called.\<close>

definition ROSIDL_GET_MSG_TYPE_SUPPORT :: "string \<Rightarrow> string \<Rightarrow> string \<Rightarrow> string" where
  "ROSIDL_GET_MSG_TYPE_SUPPORT PkgName MsgSubfolder MsgName =
     ROSIDL_TYPESUPPORT_INTERFACE__MESSAGE_SYMBOL_NAME ''rosidl_typesupport_c'' PkgName MsgSubfolder MsgName"

definition ROSIDL_GET_SRV_TYPE_SUPPORT :: "string \<Rightarrow> string \<Rightarrow> string \<Rightarrow> string" where
  "ROSIDL_GET_SRV_TYPE_SUPPORT PkgName SrvSubfolder SrvName =
     ROSIDL_TYPESUPPORT_INTERFACE__SERVICE_SYMBOL_NAME ''rosidl_typesupport_c'' PkgName SrvSubfolder SrvName"

definition ROSIDL_GET_ACTION_TYPE_SUPPORT :: "string \<Rightarrow> string \<Rightarrow> string" where
  "ROSIDL_GET_ACTION_TYPE_SUPPORT PkgName Name =
     ROSIDL_TYPESUPPORT_INTERFACE__ACTION_SYMBOL_NAME ''rosidl_typesupport_c'' PkgName ''action'' Name"

text \<open>An interface of a package, and the symbol of its type support.\<close>

datatype interface_kind = Message_Interface | Service_Interface | Action_Interface

fun interface_symbol :: "interface_kind \<Rightarrow> string \<Rightarrow> string \<Rightarrow> string \<Rightarrow> string \<Rightarrow> string" where
  "interface_symbol Message_Interface = ROSIDL_TYPESUPPORT_INTERFACE__MESSAGE_SYMBOL_NAME"
| "interface_symbol Service_Interface = ROSIDL_TYPESUPPORT_INTERFACE__SERVICE_SYMBOL_NAME"
| "interface_symbol Action_Interface = ROSIDL_TYPESUPPORT_INTERFACE__ACTION_SYMBOL_NAME"

section \<open>Words without double underscores\<close>

text \<open>What ROS allows in the name of a package or an interface: no underscore first or last, no two in a row.\<close>

fun no_double_underscore :: "string \<Rightarrow> bool" where
  "no_double_underscore (a # b # cs) \<longleftrightarrow> \<not> (a = CHR ''_'' \<and> b = CHR ''_'') \<and> no_double_underscore (b # cs)"
| "no_double_underscore _ \<longleftrightarrow> True"

definition clean_word :: "string \<Rightarrow> bool" where
  "clean_word w \<longleftrightarrow> w \<noteq> [] \<and> hd w \<noteq> CHR ''_'' \<and> last w \<noteq> CHR ''_'' \<and> no_double_underscore w"

lemma no_double_underscore_infix: "\<not> no_double_underscore (as @ CHR ''_'' # CHR ''_'' # bs)"
proof (induction as)
  case (Cons a as)
  then show ?case by (cases as) auto
qed simp

text \<open>The end of a clean word can be found.\<close>

lemma clean_word_longer:
  assumes "clean_word (as @ cs)" and "cs @ ''__'' @ y = ''__'' @ x"
  shows "cs = []"
proof (rule ccontr)
  assume "cs \<noteq> []"
  then consider c where "cs = [c]" | c d ds where "cs = c # d # ds" by (metis list.exhaust)
  then show False
  proof cases
    case 1
    with assms show False by (simp add: clean_word_def)
  next
    case 2
    with assms(2) have "as @ cs = as @ CHR ''_'' # CHR ''_'' # ds" by simp
    with assms(1) no_double_underscore_infix show False by (metis clean_word_def)
  qed
qed

lemma clean_word_prefix:
  assumes "clean_word a" "clean_word b" "a @ ''__'' @ x = b @ ''__'' @ y"
  shows "a = b \<and> x = y"
proof -
  obtain cs where "a = b @ cs \<and> cs @ ''__'' @ x = ''__'' @ y \<or> a @ cs = b \<and> ''__'' @ x = cs @ ''__'' @ y"
    using assms(3) unfolding append_eq_append_conv2 by blast
  then have "cs = [] \<and> a = b"
    using assms(1,2) clean_word_longer [of b cs x y] clean_word_longer [of a cs y x] by auto
  then show ?thesis using assms(3) by simp
qed

lemma symbol_name_words:
  assumes "clean_word t" "clean_word t'" "clean_word f" "clean_word f'" "clean_word p" "clean_word p'"
    and "clean_word i" "clean_word i'"
    and eq: "ROSIDL_TYPESUPPORT_INTERFACE__SYMBOL_NAME t f p i n = ROSIDL_TYPESUPPORT_INTERFACE__SYMBOL_NAME t' f' p' i' n'"
  shows "t = t' \<and> f = f' \<and> p = p' \<and> i = i' \<and> n = n'"
proof -
  note eq' = eq [unfolded ROSIDL_TYPESUPPORT_INTERFACE__SYMBOL_NAME_def]
  from clean_word_prefix [OF assms(1,2) eq'] have t: "t = t'"
    and 1: "f @ ''__'' @ p @ ''__'' @ i @ ''__'' @ n = f' @ ''__'' @ p' @ ''__'' @ i' @ ''__'' @ n'" by auto
  from clean_word_prefix [OF assms(3,4) 1] have f: "f = f'"
    and 2: "p @ ''__'' @ i @ ''__'' @ n = p' @ ''__'' @ i' @ ''__'' @ n'" by auto
  from clean_word_prefix [OF assms(5,6) 2] have p: "p = p'" and 3: "i @ ''__'' @ n = i' @ ''__'' @ n'" by auto
  from clean_word_prefix [OF assms(7,8) 3] t f p show ?thesis by auto
qed

definition function_name :: "interface_kind \<Rightarrow> string" where
  "function_name k = (case k of Message_Interface \<Rightarrow> ''get_message_type_support_handle''
     | Service_Interface \<Rightarrow> ''get_service_type_support_handle''
     | Action_Interface \<Rightarrow> ''get_action_type_support_handle'')"

lemma interface_symbol_eq:
  "interface_symbol k t p i n = ROSIDL_TYPESUPPORT_INTERFACE__SYMBOL_NAME t (function_name k) p i n"
  by (cases k) (simp_all add: function_name_def ROSIDL_TYPESUPPORT_INTERFACE__MESSAGE_SYMBOL_NAME_def
      ROSIDL_TYPESUPPORT_INTERFACE__SERVICE_SYMBOL_NAME_def ROSIDL_TYPESUPPORT_INTERFACE__ACTION_SYMBOL_NAME_def)

lemma function_name_clean: "clean_word (function_name k)"
  by (cases k) (simp_all add: function_name_def clean_word_def)

lemma function_name_inj: "function_name k = function_name k' \<Longrightarrow> k = k'"
  by (cases k; cases k') (simp_all add: function_name_def)

section \<open>Properties\<close>

text \<open>C39: The symbols of the type supports are unambiguous: when the type support, the package and the folder of two
  interfaces are words without a double underscore or an underscore at an end, which is what ROS allows,
  two interfaces with the same symbol are the same message, service or action of the same package.\<close>

theorem type_support_symbols_unambiguous:
  assumes "clean_word t" "clean_word p" "clean_word i" "clean_word t'" "clean_word p'" "clean_word i'"
    and "interface_symbol k t p i n = interface_symbol k' t' p' i' n'"
  shows "k = k' \<and> t = t' \<and> p = p' \<and> i = i' \<and> n = n'"
  using symbol_name_words [OF assms(1,4) function_name_clean function_name_clean assms(2,5,3,6)]
    assms(7) function_name_inj by (metis interface_symbol_eq)

theorem type_support_symbols_unambiguous_witness:
  "interface_symbol Message_Interface ''rosidl_typesupport_c'' ''std_msgs'' ''msg'' ''Int32'' \<noteq>
   interface_symbol Message_Interface ''rosidl_typesupport_c'' ''std_msgs'' ''msg'' ''Int32MultiArray''"
  using type_support_symbols_unambiguous [of "''rosidl_typesupport_c''" "''std_msgs''" "''msg''" "''rosidl_typesupport_c''"
      "''std_msgs''" "''msg''" Message_Interface "''Int32''" Message_Interface "''Int32MultiArray''"]
  by (auto simp: clean_word_def)

text \<open>The condition is needed: an underscore at the end of a word makes the symbol ambiguous.\<close>

lemma ambiguous_with_underscore:
  "interface_symbol k t ''a'' ''_b'' n = interface_symbol k t ''a_'' ''b'' n"
  by (simp add: interface_symbol_eq ROSIDL_TYPESUPPORT_INTERFACE__SYMBOL_NAME_def)

text \<open>What \<^verbatim>\<open>ROSIDL_GET_MSG_TYPE_SUPPORT(std_msgs, msg, Int32)\<close> calls.\<close>

lemma get_int32_type_support:
  "ROSIDL_GET_MSG_TYPE_SUPPORT ''std_msgs'' ''msg'' ''Int32'' =
     ''rosidl_typesupport_c__get_message_type_support_handle__std_msgs__msg__Int32''"
  by (simp add: ROSIDL_GET_MSG_TYPE_SUPPORT_def ROSIDL_TYPESUPPORT_INTERFACE__MESSAGE_SYMBOL_NAME_def
      ROSIDL_TYPESUPPORT_INTERFACE__SYMBOL_NAME_def)

end
