(* ===== verification/Error_Macros.thy ===== *)
theory Error_Macros
  imports Prelude Decimal Fault_Injection
begin

text \<open>
  The return codes of the libraries and the macros that report errors: \<^verbatim>\<open>src/rcutils/error_handling.h\<close>,
  its aliases in \<^verbatim>\<open>src/rmw/error_handling.h\<close> and \<^verbatim>\<open>src/rcl/error_handling.h\<close>, the checks of allocators,
  lists, maps and implementation identifiers. The functions that store the message are in the prebuilt library, so a macro is the list of the calls it
  makes; \<^verbatim>\<open>rcutils_snprintf\<close> is a parameter, the text it would write or \<open>None\<close> for an error.
\<close>

section \<open>Return codes\<close>

definition rcutils_return_codes :: "(string \<times> int) list" where
  "rcutils_return_codes =
     [(''RCUTILS_RET_OK'', 0), (''RCUTILS_RET_WARN'', 1), (''RCUTILS_RET_ERROR'', 2), (''RCUTILS_RET_BAD_ALLOC'', 10),
      (''RCUTILS_RET_INVALID_ARGUMENT'', 11), (''RCUTILS_RET_NOT_ENOUGH_SPACE'', 12),
      (''RCUTILS_RET_NOT_INITIALIZED'', 13), (''RCUTILS_RET_NOT_FOUND'', 14),
      (''RCUTILS_RET_STRING_MAP_ALREADY_INIT'', 30), (''RCUTILS_RET_STRING_MAP_INVALID'', 31),
      (''RCUTILS_RET_STRING_KEY_NOT_FOUND'', 32), (''RCUTILS_RET_LOGGING_SEVERITY_MAP_INVALID'', 40),
      (''RCUTILS_RET_LOGGING_SEVERITY_STRING_INVALID'', 41), (''RCUTILS_RET_HASH_MAP_NO_MORE_ENTRIES'', 50)]"

definition rmw_return_codes :: "(string \<times> int) list" where
  "rmw_return_codes =
     [(''RMW_RET_OK'', 0), (''RMW_RET_ERROR'', 1), (''RMW_RET_TIMEOUT'', 2), (''RMW_RET_UNSUPPORTED'', 3),
      (''RMW_RET_BAD_ALLOC'', 10), (''RMW_RET_INVALID_ARGUMENT'', 11), (''RMW_RET_INCORRECT_RMW_IMPLEMENTATION'', 12),
      (''RMW_RET_NODE_NAME_NON_EXISTENT'', 203)]"

definition RMW_RET :: "string \<Rightarrow> int" where
  "RMW_RET name = the (map_of rmw_return_codes name)"

definition rcl_return_codes :: "(string \<times> int) list" where
  "rcl_return_codes =
     [(''RCL_RET_OK'', RMW_RET ''RMW_RET_OK''), (''RCL_RET_ERROR'', RMW_RET ''RMW_RET_ERROR''),
      (''RCL_RET_TIMEOUT'', RMW_RET ''RMW_RET_TIMEOUT''), (''RCL_RET_BAD_ALLOC'', RMW_RET ''RMW_RET_BAD_ALLOC''),
      (''RCL_RET_INVALID_ARGUMENT'', RMW_RET ''RMW_RET_INVALID_ARGUMENT''),
      (''RCL_RET_UNSUPPORTED'', RMW_RET ''RMW_RET_UNSUPPORTED''),
      (''RCL_RET_ALREADY_INIT'', 100), (''RCL_RET_NOT_INIT'', 101), (''RCL_RET_MISMATCHED_RMW_ID'', 102),
      (''RCL_RET_TOPIC_NAME_INVALID'', 103), (''RCL_RET_SERVICE_NAME_INVALID'', 104),
      (''RCL_RET_UNKNOWN_SUBSTITUTION'', 105), (''RCL_RET_ALREADY_SHUTDOWN'', 106),
      (''RCL_RET_NODE_INVALID'', 200), (''RCL_RET_NODE_INVALID_NAME'', 201), (''RCL_RET_NODE_INVALID_NAMESPACE'', 202),
      (''RCL_RET_NODE_NAME_NON_EXISTENT'', 203), (''RCL_RET_PUBLISHER_INVALID'', 300),
      (''RCL_RET_SUBSCRIPTION_INVALID'', 400), (''RCL_RET_SUBSCRIPTION_TAKE_FAILED'', 401),
      (''RCL_RET_CLIENT_INVALID'', 500), (''RCL_RET_CLIENT_TAKE_FAILED'', 501),
      (''RCL_RET_SERVICE_INVALID'', 600), (''RCL_RET_SERVICE_TAKE_FAILED'', 601),
      (''RCL_RET_TIMER_INVALID'', 800), (''RCL_RET_TIMER_CANCELED'', 801),
      (''RCL_RET_WAIT_SET_INVALID'', 900), (''RCL_RET_WAIT_SET_EMPTY'', 901), (''RCL_RET_WAIT_SET_FULL'', 902),
      (''RCL_RET_INVALID_REMAP_RULE'', 1001), (''RCL_RET_WRONG_LEXEME'', 1002), (''RCL_RET_INVALID_ROS_ARGS'', 1003),
      (''RCL_RET_INVALID_PARAM_RULE'', 1010), (''RCL_RET_INVALID_LOG_LEVEL_RULE'', 1020),
      (''RCL_RET_EVENT_INVALID'', 2000), (''RCL_RET_EVENT_TAKE_FAILED'', 2001),
      (''RCL_RET_LIFECYCLE_STATE_REGISTERED'', 3000), (''RCL_RET_LIFECYCLE_STATE_NOT_REGISTERED'', 3001)]"

definition rcl_action_return_codes :: "(string \<times> int) list" where
  "rcl_action_return_codes =
     [(''RCL_RET_ACTION_NAME_INVALID'', 2000), (''RCL_RET_ACTION_GOAL_ACCEPTED'', 2100),
      (''RCL_RET_ACTION_GOAL_REJECTED'', 2101), (''RCL_RET_ACTION_CLIENT_INVALID'', 2102),
      (''RCL_RET_ACTION_CLIENT_TAKE_FAILED'', 2103), (''RCL_RET_ACTION_SERVER_INVALID'', 2200),
      (''RCL_RET_ACTION_SERVER_TAKE_FAILED'', 2201), (''RCL_RET_ACTION_GOAL_HANDLE_INVALID'', 2300),
      (''RCL_RET_ACTION_GOAL_EVENT_INVALID'', 2301)]"

definition unambiguous_codes :: "(string \<times> int) list \<Rightarrow> bool" where
  "unambiguous_codes cs \<longleftrightarrow> distinct (map fst cs) \<and> distinct (map snd cs)"

text \<open>Inside each library a code has one name; two codes of rcl and its actions are the same.\<close>

lemma library_codes_unambiguous:
  "unambiguous_codes rcutils_return_codes" "unambiguous_codes rmw_return_codes"
  "unambiguous_codes rcl_return_codes" "unambiguous_codes rcl_action_return_codes"
  by code_simp+

lemma event_and_action_codes_collide:
  "map_of rcl_return_codes ''RCL_RET_EVENT_INVALID'' = map_of rcl_action_return_codes ''RCL_RET_ACTION_NAME_INVALID''"
  by (simp add: rcl_return_codes_def rcl_action_return_codes_def)

lemma only_collision:
  "set (map snd rcl_return_codes) \<inter> set (map snd rcl_action_return_codes) = {2000}"
  by (simp add: rcl_return_codes_def rcl_action_return_codes_def RMW_RET_def rmw_return_codes_def)

definition RCUTILS_RET :: "string \<Rightarrow> int" where
  "RCUTILS_RET name = the (map_of rcutils_return_codes name)"

section \<open>The configuration and the sizes\<close>

record rcutils_flags =
  RCUTILS_NO_FILESYSTEM :: bool
  RCUTILS_AVOID_DYNAMIC_ALLOCATION :: bool
  stdc_lib_ext1 :: bool

text \<open>\<^verbatim>\<open>src/rcutils/configuration_flags.h\<close>, as it is in the repository.\<close>

definition configuration_flags :: "bool \<Rightarrow> rcutils_flags" where
  "configuration_flags ext1 =
     \<lparr>RCUTILS_NO_FILESYSTEM = True, RCUTILS_AVOID_DYNAMIC_ALLOCATION = True, stdc_lib_ext1 = ext1\<rparr>"

definition RCUTILS_ERROR_STATE_LINE_NUMBER_STR_MAX_LENGTH :: "rcutils_flags \<Rightarrow> nat" where
  "RCUTILS_ERROR_STATE_LINE_NUMBER_STR_MAX_LENGTH cfg = (if \<not> RCUTILS_AVOID_DYNAMIC_ALLOCATION cfg then 20 else 1)"

definition RCUTILS_ERROR_FORMATTING_CHARACTERS :: "rcutils_flags \<Rightarrow> nat" where
  "RCUTILS_ERROR_FORMATTING_CHARACTERS cfg = (if \<not> RCUTILS_AVOID_DYNAMIC_ALLOCATION cfg then 6 else 1)"

definition RCUTILS_ERROR_MESSAGE_MAX_LENGTH :: "rcutils_flags \<Rightarrow> nat" where
  "RCUTILS_ERROR_MESSAGE_MAX_LENGTH cfg = (if \<not> RCUTILS_AVOID_DYNAMIC_ALLOCATION cfg then 1024 else 1)"

definition RCUTILS_ERROR_STATE_MESSAGE_MAX_LENGTH :: "rcutils_flags \<Rightarrow> nat" where
  "RCUTILS_ERROR_STATE_MESSAGE_MAX_LENGTH cfg = (if \<not> RCUTILS_AVOID_DYNAMIC_ALLOCATION cfg then 768 else 1)"

definition RCUTILS_ERROR_STATE_FILE_MAX_LENGTH :: "rcutils_flags \<Rightarrow> nat" where
  "RCUTILS_ERROR_STATE_FILE_MAX_LENGTH cfg =
     (if \<not> RCUTILS_AVOID_DYNAMIC_ALLOCATION cfg then
        RCUTILS_ERROR_MESSAGE_MAX_LENGTH cfg - RCUTILS_ERROR_STATE_MESSAGE_MAX_LENGTH cfg -
        RCUTILS_ERROR_STATE_LINE_NUMBER_STR_MAX_LENGTH cfg - RCUTILS_ERROR_FORMATTING_CHARACTERS cfg - 1
      else 1)"

record rcutils_error_state_t =
  error_message :: string
  error_file :: string
  line_number :: uint64_t

text \<open>A text that an array of \<open>n\<close> characters holds with its terminating zero.\<close>

definition fits_array :: "nat \<Rightarrow> string \<Rightarrow> bool" where
  "fits_array n t \<longleftrightarrow> length t < n"

definition error_state_fits :: "rcutils_flags \<Rightarrow> rcutils_error_state_t \<Rightarrow> bool" where
  "error_state_fits cfg st \<longleftrightarrow>
     fits_array (RCUTILS_ERROR_STATE_MESSAGE_MAX_LENGTH cfg) (error_message st) \<and>
     fits_array (RCUTILS_ERROR_STATE_FILE_MAX_LENGTH cfg) (error_file st)"

text \<open>The text of an error state, as the comments of the header describe it.\<close>

definition error_string :: "rcutils_error_state_t \<Rightarrow> string" where
  "error_string st = error_message st @ '', at '' @ error_file st @ '':'' @ show_nat (unat (line_number st))"

lemmas error_sizes =
  RCUTILS_ERROR_STATE_LINE_NUMBER_STR_MAX_LENGTH_def RCUTILS_ERROR_FORMATTING_CHARACTERS_def
  RCUTILS_ERROR_MESSAGE_MAX_LENGTH_def RCUTILS_ERROR_STATE_MESSAGE_MAX_LENGTH_def
  RCUTILS_ERROR_STATE_FILE_MAX_LENGTH_def

text \<open>The \<^verbatim>\<open>static_assert\<close> of the header.\<close>

lemma sizes_add_up:
  "\<not> RCUTILS_AVOID_DYNAMIC_ALLOCATION cfg \<Longrightarrow>
    RCUTILS_ERROR_MESSAGE_MAX_LENGTH cfg =
      RCUTILS_ERROR_STATE_MESSAGE_MAX_LENGTH cfg + RCUTILS_ERROR_STATE_FILE_MAX_LENGTH cfg +
      RCUTILS_ERROR_STATE_LINE_NUMBER_STR_MAX_LENGTH cfg + RCUTILS_ERROR_FORMATTING_CHARACTERS cfg + 1"
  by (simp add: error_sizes)

lemma line_number_digits: "length (show_nat (unat (n :: uint64_t))) \<le> 20"
proof -
  have "unat n < 2 ^ 64" using unsigned_less [of n] by simp
  also have "(2 ^ 64 :: nat) < 10 ^ 20" by simp
  finally show ?thesis using length_show_nat [of "unat n" 19] by simp
qed

section \<open>The macros\<close>

text \<open>The calls a macro makes, and, for a check that returns from its function, the value returned.\<close>

datatype error_call =
    rcutils_set_error_state string string nat
  | fwrite_stderr string
  | rcutils_log string

type_synonym 'r check = "error_call list \<times> 'r option"

definition RCUTILS_SAFE_FWRITE_TO_STDERR :: "rcutils_flags \<Rightarrow> string \<Rightarrow> error_call list" where
  "RCUTILS_SAFE_FWRITE_TO_STDERR cfg msg =
     (if stdc_lib_ext1 cfg \<and> \<not> RCUTILS_NO_FILESYSTEM cfg then [fwrite_stderr (take 4096 msg)]
      else if \<not> RCUTILS_NO_FILESYSTEM cfg then [fwrite_stderr msg]
      else [])"

text \<open>What \<^verbatim>\<open>rcutils_snprintf\<close> leaves in a buffer of \<open>n\<close> characters.\<close>

definition formatted :: "nat \<Rightarrow> string \<Rightarrow> string" where
  "formatted n t = take (n - 1) t"

definition RCUTILS_SAFE_FWRITE_TO_STDERR_WITH_FORMAT_STRING :: "rcutils_flags \<Rightarrow> string option \<Rightarrow> error_call list" where
  "RCUTILS_SAFE_FWRITE_TO_STDERR_WITH_FORMAT_STRING cfg result =
     (if \<not> RCUTILS_AVOID_DYNAMIC_ALLOCATION cfg then
        (case result of
           None \<Rightarrow> RCUTILS_SAFE_FWRITE_TO_STDERR cfg
             (''Failed to call snprintf for error message formatting'' @ [CHR 10])
         | Some t \<Rightarrow> RCUTILS_SAFE_FWRITE_TO_STDERR cfg (formatted (RCUTILS_ERROR_MESSAGE_MAX_LENGTH cfg) t))
      else [])"

text \<open>\<open>at\<close> is the place of the macro, \<^verbatim>\<open>__FILE__\<close> and \<^verbatim>\<open>__LINE__\<close>.\<close>

definition RCUTILS_SET_ERROR_MSG :: "rcutils_flags \<Rightarrow> string \<times> nat \<Rightarrow> string \<Rightarrow> error_call list" where
  "RCUTILS_SET_ERROR_MSG cfg at msg =
     (if RCUTILS_AVOID_DYNAMIC_ALLOCATION cfg then [] else [rcutils_set_error_state msg (fst at) (snd at)])"

definition RCUTILS_SET_ERROR_MSG_WITH_FORMAT_STRING :: "rcutils_flags \<Rightarrow> string \<times> nat \<Rightarrow> string option \<Rightarrow> error_call list" where
  "RCUTILS_SET_ERROR_MSG_WITH_FORMAT_STRING cfg at result =
     (if RCUTILS_AVOID_DYNAMIC_ALLOCATION cfg then []
      else case result of
          None \<Rightarrow> RCUTILS_SAFE_FWRITE_TO_STDERR cfg
            (''Failed to call snprintf for error message formatting'' @ [CHR 10])
        | Some t \<Rightarrow> RCUTILS_SET_ERROR_MSG cfg at (formatted (RCUTILS_ERROR_MESSAGE_MAX_LENGTH cfg) t))"

text \<open>The statement of the check returns from the function; a pointer that is not null is \<open>Some\<close>.\<close>

definition RCUTILS_CHECK_FOR_NULL_WITH_MSG ::
    "rcutils_flags \<Rightarrow> string \<times> nat \<Rightarrow> 'p option \<Rightarrow> string \<Rightarrow> 'r \<Rightarrow> 'r check" where
  "RCUTILS_CHECK_FOR_NULL_WITH_MSG cfg at pointer msg ret =
     (if pointer = None then (RCUTILS_SET_ERROR_MSG cfg at msg, Some ret) else ([], None))"

definition RCUTILS_CHECK_ARGUMENT_FOR_NULL ::
    "rcutils_flags \<Rightarrow> string \<times> nat \<Rightarrow> string \<Rightarrow> 'p option \<Rightarrow> 'r \<Rightarrow> 'r check" where
  "RCUTILS_CHECK_ARGUMENT_FOR_NULL cfg at argument pointer ret =
     RCUTILS_CHECK_FOR_NULL_WITH_MSG cfg at pointer (argument @ '' argument is null'') ret"

definition RCUTILS_CHECK_ALLOCATOR :: "bool \<Rightarrow> 'r \<Rightarrow> 'r check" where
  "RCUTILS_CHECK_ALLOCATOR valid ret = ([], if \<not> valid then Some ret else None)"

definition RCUTILS_CHECK_ALLOCATOR_WITH_MSG :: "rcutils_flags \<Rightarrow> string \<times> nat \<Rightarrow> bool \<Rightarrow> string \<Rightarrow> 'r \<Rightarrow> 'r check" where
  "RCUTILS_CHECK_ALLOCATOR_WITH_MSG cfg at valid msg ret =
     (if \<not> valid then (RCUTILS_SET_ERROR_MSG cfg at msg, Some ret) else ([], None))"

text \<open>A container is a pointer to a structure, here its field \<^verbatim>\<open>impl\<close>, which is again a pointer.\<close>

definition validate_container ::
    "rcutils_flags \<Rightarrow> string \<times> nat \<Rightarrow> string \<Rightarrow> 'i option option \<Rightarrow> int check" where
  "validate_container cfg at argument container =
     (case RCUTILS_CHECK_ARGUMENT_FOR_NULL cfg at argument container (RCUTILS_RET ''RCUTILS_RET_INVALID_ARGUMENT'') of
        (calls, Some ret) \<Rightarrow> (calls, Some ret)
      | (calls, None) \<Rightarrow>
          (case container of
             Some None \<Rightarrow> (calls @ RCUTILS_SET_ERROR_MSG cfg at (argument @ '' is not initialized''),
               Some (RCUTILS_RET ''RCUTILS_RET_NOT_INITIALIZED''))
           | _ \<Rightarrow> (calls, None)))"

definition ARRAY_LIST_VALIDATE_ARRAY_LIST :: "rcutils_flags \<Rightarrow> string \<times> nat \<Rightarrow> 'i option option \<Rightarrow> int check" where
  "ARRAY_LIST_VALIDATE_ARRAY_LIST cfg at = validate_container cfg at ''array_list''"

definition HASH_MAP_VALIDATE_HASH_MAP :: "rcutils_flags \<Rightarrow> string \<times> nat \<Rightarrow> 'i option option \<Rightarrow> int check" where
  "HASH_MAP_VALIDATE_HASH_MAP cfg at = validate_container cfg at ''map''"

definition RMW_CHECK_TYPE_IDENTIFIERS_MATCH ::
    "rcutils_flags \<Rightarrow> string \<times> nat \<Rightarrow> string \<Rightarrow> string option \<Rightarrow> 'r \<Rightarrow> 'r check" where
  "RMW_CHECK_TYPE_IDENTIFIERS_MATCH cfg at eprosima_microxrcedds_identifier identifier ret =
     (if identifier \<noteq> None \<and> the identifier \<noteq> eprosima_microxrcedds_identifier
      then (RCUTILS_SET_ERROR_MSG cfg at ''Implementation identifiers does not match'', Some ret)
      else ([], None))"

text \<open>A fault point that sets a message and returns; \<open>text_of\<close> is the value as it stands in the source.\<close>

definition RCUTILS_CAN_SET_MSG_AND_RETURN_WITH_ERROR_OF ::
    "bool \<Rightarrow> rcutils_flags \<Rightarrow> string \<times> nat \<Rightarrow> string \<Rightarrow> 'p \<Rightarrow> (error_call, 'p) code \<Rightarrow> (error_call, 'p) code" where
  "RCUTILS_CAN_SET_MSG_AND_RETURN_WITH_ERROR_OF en cfg at text_of ret k =
     (if en then Fault_Point (foldr Effect (RCUTILS_SET_ERROR_MSG cfg at (''Injecting '' @ text_of)) (Finish ret)) k
      else k)"

section \<open>What the checks do\<close>

lemmas check_macros =
  RCUTILS_SET_ERROR_MSG_def RCUTILS_CHECK_FOR_NULL_WITH_MSG_def RCUTILS_CHECK_ARGUMENT_FOR_NULL_def
  validate_container_def ARRAY_LIST_VALIDATE_ARRAY_LIST_def HASH_MAP_VALIDATE_HASH_MAP_def
  RMW_CHECK_TYPE_IDENTIFIERS_MATCH_def RCUTILS_CHECK_ALLOCATOR_def RCUTILS_CHECK_ALLOCATOR_WITH_MSG_def

text \<open>The value that a check returns does not depend on the configuration.\<close>

lemma container_checks:
  "snd (ARRAY_LIST_VALIDATE_ARRAY_LIST cfg at c) =
     (case c of None \<Rightarrow> Some 11 | Some None \<Rightarrow> Some 13 | Some (Some i) \<Rightarrow> None)"
  "snd (HASH_MAP_VALIDATE_HASH_MAP cfg at c) = snd (ARRAY_LIST_VALIDATE_ARRAY_LIST cfg at c)"
  by (auto simp: check_macros RCUTILS_RET_def rcutils_return_codes_def split: option.splits)

text \<open>In the configuration of the repository no error message is ever set.\<close>

lemma no_message_is_set:
  "RCUTILS_SET_ERROR_MSG (configuration_flags e) at msg = []"
  "RCUTILS_SET_ERROR_MSG_WITH_FORMAT_STRING (configuration_flags e) at result = []"
  by (simp_all add: RCUTILS_SET_ERROR_MSG_def RCUTILS_SET_ERROR_MSG_WITH_FORMAT_STRING_def configuration_flags_def)

text \<open>An object without an identifier passes for an object of this implementation.\<close>

lemma null_identifier_matches: "RMW_CHECK_TYPE_IDENTIFIERS_MATCH cfg at own None ret = ([], None)"
  by (simp add: RMW_CHECK_TYPE_IDENTIFIERS_MATCH_def)

text \<open>A formatted message may be longer than the error state holds.\<close>

lemma formatted_message_length:
  "\<not> RCUTILS_AVOID_DYNAMIC_ALLOCATION cfg \<Longrightarrow>
    RCUTILS_SET_ERROR_MSG_WITH_FORMAT_STRING cfg at (Some (replicate 2000 c)) =
      [rcutils_set_error_state (replicate 1023 c) (fst at) (snd at)]"
  by (simp add: RCUTILS_SET_ERROR_MSG_WITH_FORMAT_STRING_def RCUTILS_SET_ERROR_MSG_def formatted_def error_sizes)

section \<open>Properties\<close>

text \<open>The text of an error, message, file and line, fits the error string with its terminating zero
  whatever the message, the file name and the 64-bit line number are, as long as message and file fit
  their arrays; and when dynamic allocation is avoided only the empty string fits.\<close>

lemma error_text_fits:
  assumes "error_state_fits cfg st"
  shows "if RCUTILS_AVOID_DYNAMIC_ALLOCATION cfg
    then error_message st = [] \<and> error_file st = [] \<and> (\<forall>t. fits_array (RCUTILS_ERROR_MESSAGE_MAX_LENGTH cfg) t \<longleftrightarrow> t = [])
    else fits_array (RCUTILS_ERROR_MESSAGE_MAX_LENGTH cfg) (error_string st)"
  using assms line_number_digits [of "line_number st"]
  by (cases "RCUTILS_AVOID_DYNAMIC_ALLOCATION cfg")
    (simp_all add: error_state_fits_def fits_array_def error_string_def error_sizes)

end
