(* ===== verification/Cpp_Guards.thy ===== *)
theory Cpp_Guards
  imports Error_Macros
begin

text \<open>
  The C++ headers that guard against exceptions and mismatched implementations:
  \<^verbatim>\<open>src/rmw/impl/cpp/macros.hpp\<close> and \<^verbatim>\<open>demangle.hpp\<close>; and two small ones, \<^verbatim>\<open>src/tracetools/utils.hpp\<close> and
  \<^verbatim>\<open>src/sensor_msgs/distortion_models.hpp\<close>. An exception is a value; the functions of the C++ runtime
  that demangle names and the formatting of pointers are parameters, and whether a call of
  \<^verbatim>\<open>rcutils_snprintf\<close> or \<^verbatim>\<open>rmw_allocate\<close> fails is an input. Building the message of a caught exception does
  not throw.
\<close>

section \<open>Names of types\<close>

text \<open>\<open>cxa\<close> is \<^verbatim>\<open>abi::__cxa_demangle\<close>, \<open>None\<close> for a status that is not 0.\<close>

definition demangle :: "bool \<Rightarrow> bool \<Rightarrow> (string \<Rightarrow> string option) \<Rightarrow> string \<Rightarrow> string" where
  "demangle win32 avoid_memory_allocation cxa mangled_typeid_name =
     (if \<not> win32 \<or> avoid_memory_allocation then
        case cxa mangled_typeid_name of Some res \<Rightarrow> res | None \<Rightarrow> mangled_typeid_name
      else mangled_typeid_name)"

text \<open>A \<^verbatim>\<open>std::function\<close>: its target, when it is a plain function, and the name of its target type.\<close>

record std_function =
  function_target :: "nat option"
  target_type_name :: string

definition get_symbol_of_function :: "(string \<Rightarrow> string) \<Rightarrow> (nat \<Rightarrow> string) \<Rightarrow> std_function \<Rightarrow> string" where
  "get_symbol_of_function demangle_symbol get_symbol_funcptr f =
     (case function_target f of
        Some funcptr \<Rightarrow> get_symbol_funcptr funcptr
      | None \<Rightarrow> demangle_symbol (target_type_name f))"

definition get_symbol :: "(string \<Rightarrow> string) \<Rightarrow> string \<Rightarrow> string" where
  "get_symbol demangle_symbol typeid_name = demangle_symbol typeid_name"

definition distortion_models :: "string list" where
  "distortion_models = [''plumb_bob'', ''rational_polynomial'', ''equidistant'']"

section \<open>Guards against exceptions\<close>

text \<open>A thrown object: a \<^verbatim>\<open>std::exception\<close> with the name of its type and its \<^verbatim>\<open>what()\<close>, or anything else.\<close>

datatype thrown = Std_Exception string string | Other_Exception

text \<open>What a guarded statement leaves: the calls made, the destination, and whether the action for failures runs.\<close>

definition RMW_TRY_PLACEMENT_NEW ::
    "rcutils_flags \<Rightarrow> string \<times> nat \<Rightarrow> (string \<Rightarrow> string) \<Rightarrow> string \<Rightarrow> 'p option \<Rightarrow> thrown + 'p \<Rightarrow>
     error_call list \<times> 'p option \<times> bool" where
  "RMW_TRY_PLACEMENT_NEW cfg at dem type_name dest constructed =
     (case constructed of
        Inr p \<Rightarrow> ([], Some p, False)
      | Inl (Std_Exception exc what) \<Rightarrow>
          (RCUTILS_SET_ERROR_MSG cfg at (''caught C++ exception '' @ dem exc @ '' constructing '' @ type_name @ '': '' @ what),
           dest, True)
      | Inl Other_Exception \<Rightarrow>
          (RCUTILS_SET_ERROR_MSG cfg at (''caught unknown C++ exception constructing '' @ type_name), dest, True))"

definition RMW_TRY_DESTRUCTOR ::
    "rcutils_flags \<Rightarrow> string \<times> nat \<Rightarrow> (string \<Rightarrow> string) \<Rightarrow> string \<Rightarrow> thrown + unit \<Rightarrow> error_call list \<times> bool" where
  "RMW_TRY_DESTRUCTOR cfg at dem type_name result =
     (case result of
        Inr u \<Rightarrow> ([], False)
      | Inl (Std_Exception exc what) \<Rightarrow>
          (RCUTILS_SET_ERROR_MSG cfg at
             (''caught C++ exception in destructor of '' @ type_name @ '': '' @ dem exc @ '': '' @ what), True)
      | Inl Other_Exception \<Rightarrow>
          (RCUTILS_SET_ERROR_MSG cfg at (''caught unknown C++ exception in destructor of '' @ type_name), True))"

text \<open>This one writes to \<^verbatim>\<open>std::cerr\<close> and keeps the error message that is being handled.\<close>

definition RMW_TRY_DESTRUCTOR_FROM_WITHIN_FAILURE ::
    "string \<times> nat \<Rightarrow> (string \<Rightarrow> string) \<Rightarrow> string \<Rightarrow> thrown + unit \<Rightarrow> error_call list" where
  "RMW_TRY_DESTRUCTOR_FROM_WITHIN_FAILURE at dem type_name result =
     (case result of
        Inr u \<Rightarrow> []
      | Inl (Std_Exception exc what) \<Rightarrow>
          [fwrite_stderr (''caught C++ exception in destructor of '' @ type_name @ '' while handling a failure: '' @
             dem exc @ '': '' @ what @ '', at: '' @ fst at @ '':'' @ show_nat (snd at) @ [CHR 10])]
      | Inl Other_Exception \<Rightarrow>
          [fwrite_stderr (''caught unknown C++ exception in destructor of '' @ type_name @
             '' while handling a failure at: '' @ fst at @ '':'' @ show_nat (snd at) @ [CHR 10])])"

section \<open>Identifiers of implementations\<close>

text \<open>
  An identifier is an address with the text there, or null. The inputs say whether the two calls of
  \<^verbatim>\<open>rcutils_snprintf\<close> fail and what \<^verbatim>\<open>rmw_allocate\<close> returns.
\<close>

type_synonym implementation_id = "(nat \<times> string) option"

record check_inputs =
  first_snprintf_fails :: bool
  allocated :: "nat option"
  second_snprintf_fails :: bool

record check_outcome =
  error_calls :: "error_call list"
  blocks_allocated :: "nat list"
  blocks_freed :: "nat list"
  failure_actions :: nat

definition nothing_done :: check_outcome where
  "nothing_done = \<lparr>error_calls = [], blocks_allocated = [], blocks_freed = [], failure_actions = 0\<rparr>"

text \<open>The text of the message; a null pointer for \<^verbatim>\<open>%s\<close> is undefined.\<close>

definition mismatch_text :: "(implementation_id \<Rightarrow> string) \<Rightarrow> string \<Rightarrow> implementation_id \<Rightarrow> implementation_id \<Rightarrow> c_error + string" where
  "mismatch_text show_pointer element_name element expected =
     (case (element, expected) of
        (Some (a, s), Some (b, t)) \<Rightarrow>
          Inr (element_name @ '' implementation '' @ [CHR 39] @ s @ [CHR 39] @ ''('' @ show_pointer element @
            '') does not match rmw implementation '' @ [CHR 39] @ t @ [CHR 39] @ ''('' @ show_pointer expected @ '')'')
      | _ \<Rightarrow> Inl NullDereference)"

definition check_without_allocation ::
    "rcutils_flags \<Rightarrow> string \<times> nat \<Rightarrow> check_inputs \<Rightarrow> string \<Rightarrow> c_error + check_outcome" where
  "check_without_allocation cfg at inp t =
     (let msg = (if first_snprintf_fails inp then ''RMW_CHECK_TYPE_IDENTIFIERS_MATCH(): rcutils_snprintf() failed''
                 else formatted 1024 t)
      in Inr (nothing_done\<lparr>error_calls := RCUTILS_SET_ERROR_MSG cfg at msg, failure_actions := 1\<rparr>))"

definition check_with_allocation ::
    "rcutils_flags \<Rightarrow> string \<times> nat \<Rightarrow> check_inputs \<Rightarrow> string \<Rightarrow> c_error + check_outcome" where
  "check_with_allocation cfg at inp t =
     (let bytes_that_would_have_been_written = (if first_snprintf_fails inp then -1 else int (length t))
      in if bytes_that_would_have_been_written < 0 then
           Inr (nothing_done\<lparr>error_calls := RCUTILS_SET_ERROR_MSG cfg at
             ''RMW_CHECK_TYPE_IDENTIFIERS_MATCH(): rcutils_snprintf(NULL, 0, ...) failed'', failure_actions := 1\<rparr>)
         else if 2 ^ 31 - 1 \<le> bytes_that_would_have_been_written then Inl SignedOverflow
         else case allocated inp of
             None \<Rightarrow> Inr (nothing_done\<lparr>error_calls := RCUTILS_SET_ERROR_MSG cfg at
               ''RMW_CHECK_TYPE_IDENTIFIERS_MATCH(): rmw_allocate() failed'', failure_actions := 1\<rparr>)
           | Some msg \<Rightarrow> Inr \<lparr>error_calls = RCUTILS_SET_ERROR_MSG cfg at
                 (if second_snprintf_fails inp then ''RMW_CHECK_TYPE_IDENTIFIERS_MATCH(): rcutils_snprintf() failed''
                  else formatted (nat (bytes_that_would_have_been_written + 1)) t),
               blocks_allocated = [msg], blocks_freed = [msg], failure_actions = 1\<rparr>)"

definition RMW_CHECK_TYPE_IDENTIFIERS_MATCH_cpp ::
    "bool \<Rightarrow> rcutils_flags \<Rightarrow> string \<times> nat \<Rightarrow> (implementation_id \<Rightarrow> string) \<Rightarrow> check_inputs \<Rightarrow> string \<Rightarrow>
     implementation_id \<Rightarrow> implementation_id \<Rightarrow> c_error + check_outcome" where
  "RMW_CHECK_TYPE_IDENTIFIERS_MATCH_cpp avoid_memory_allocation cfg at show_pointer inp element_name element expected =
     (if map_option fst element \<noteq> map_option fst expected then
        case mismatch_text show_pointer element_name element expected of
          Inl e \<Rightarrow> Inl e
        | Inr t \<Rightarrow> (if avoid_memory_allocation then check_without_allocation else check_with_allocation) cfg at inp t
      else Inr nothing_done)"

section \<open>What the guards do\<close>

lemmas guard_macros =
  RMW_TRY_PLACEMENT_NEW_def RMW_TRY_DESTRUCTOR_def RMW_TRY_DESTRUCTOR_FROM_WITHIN_FAILURE_def RCUTILS_SET_ERROR_MSG_def

text \<open>The destination changes only when the constructor has not thrown, and then nothing is reported.\<close>

lemma placement_new_guarded:
  "RMW_TRY_PLACEMENT_NEW cfg at dem type_name dest constructed = (calls, dest', failed) \<Longrightarrow>
    (failed \<longleftrightarrow> (\<exists>x. constructed = Inl x)) \<and> (failed \<longrightarrow> dest' = dest) \<and> (\<not> failed \<longrightarrow> calls = [] \<and> constructed = Inr (the dest'))"
proof (cases constructed)
  case (Inl x)
  then show "RMW_TRY_PLACEMENT_NEW cfg at dem type_name dest constructed = (calls, dest', failed) \<Longrightarrow> ?thesis"
    by (cases x) (auto simp: guard_macros)
qed (auto simp: guard_macros)

text \<open>A destructor that throws while a failure is handled does not touch the error message.\<close>

lemma failure_message_kept:
  "c \<in> set (RMW_TRY_DESTRUCTOR_FROM_WITHIN_FAILURE at dem type_name result) \<Longrightarrow> \<exists>t. c = fwrite_stderr t"
proof (cases result)
  case (Inl x)
  then show "c \<in> set (RMW_TRY_DESTRUCTOR_FROM_WITHIN_FAILURE at dem type_name result) \<Longrightarrow> ?thesis"
    by (cases x) (auto simp: guard_macros)
qed (simp add: guard_macros)

text \<open>
  The comment says that nothing is demangled on Windows or when memory allocation is avoided; the condition
  says the opposite for the latter.
\<close>

lemma demangles_when_avoiding_allocation:
  "cxa n = Some res \<Longrightarrow> demangle win32 True cxa n = res"
  by (simp add: demangle_def)

text \<open>An object whose identifier is null, as in a handle that was only zero-initialised, is formatted with \<^verbatim>\<open>%s\<close>.\<close>

lemma null_identifier_undefined:
  "expected \<noteq> None \<Longrightarrow>
    RMW_CHECK_TYPE_IDENTIFIERS_MATCH_cpp avoid cfg at shp inp element_name None expected = Inl NullDereference"
  by (auto simp: RMW_CHECK_TYPE_IDENTIFIERS_MATCH_cpp_def mismatch_text_def)

section \<open>Properties\<close>



end
