(* ===== verification/Spec2Isabelle.thy ===== *)
theory Spec2Isabelle
  imports Message_Library Clock Serial_Line Socket_Properties Ctype_Table
    Type_Info_Properties Rules_Traversal Examples_Properties Logging_Properties
    Image_Encodings Fill_Image Point_Cloud_Round_Trip Key_Value Fixture_Properties
    Stream_Locks Fault_Injection Atomics Typesupport_Names Cpp_Guards
begin

text \<open>
  micro-ROS for RT-Thread. The repository holds the RT-Thread side of a micro-ROS client: two
  utility modules (\<^verbatim>\<open>src/type_utilities.c\<close>, \<^verbatim>\<open>src/string_utilities.c\<close>), three transports
  (\<^verbatim>\<open>src/rtt_serial_transports.c\<close>, \<^verbatim>\<open>src/rtt_udp_transport.c\<close>, \<^verbatim>\<open>src/rtt_tcp_transport.c\<close>), the
  registration of the transports (\<^verbatim>\<open>src/micro_ros_rtt.h\<close>), eight example commands
  (\<^verbatim>\<open>examples/\<close>), the generated C structures of the messages, and the headers of the client
  library, whose code is only there as prebuilt archives.

  How the parts interact. A command of \<^verbatim>\<open>examples/\<close> registers a transport, creates its entities
  with calls of the client library and starts a thread that lets the executor spin. The client
  library calls the operations of the transport, and the callbacks of the command with messages
  whose memory the utilities have prepared: \<^verbatim>\<open>type_utilities.c\<close> walks the introspection
  description of a message type and gives every string and sequence memory from an allocator or
  a static buffer, using the string objects of \<^verbatim>\<open>string_utilities.c\<close> for the dotted name of the
  member under its cursor.

  \<^bold>\<open>Foundation.\<close> \<open>Prelude\<close> has the machine types, the command type \<open>('s, 'a) cmd\<close> (a state to an
  error or a value with the next state), its rules \<open>runs\<close> and the automation. \<open>C_Memory\<close> is a
  memory of blocks of bytes (indeterminate, bytes, pieces of pointers) in which reading or writing
  outside a block, after free, through NULL or from indeterminate bytes is an error value, so that
  "the function runs" includes "no undefined behaviour". \<open>Memory_Regions\<close> has regions, frames
  and ownership of blocks. \<open>Decimal\<close> is the conversion \<^verbatim>\<open>%d\<close>.

  \<^bold>\<open>Allocator\<close> (\<^verbatim>\<open>rcutils/allocator.h\<close>): the record of function pointers; the locales
  \<open>c_allocator\<close> (what malloc, realloc, calloc and free promise) and \<open>total_allocator\<close> (which never
  refuses), interpreted on allocators with an arbitrary policy for refusing, rounding up and
  growing in place. The default allocator of the library is a parameter \<open>dal\<close> of the operations.

  \<^bold>\<open>String_Utilities\<close> (\<^verbatim>\<open>src/string_utilities.c\<close>): the six operations on the byte memory; they
  implement the operations on texts (\<open>holds_string\<close> relates the two); round trip of append and
  remove; the overflow of the first append.

  \<^bold>\<open>Message memory\<close> (\<^verbatim>\<open>src/type_utilities.c\<close>). \<open>Introspection\<close>: descriptions of messages as the
  traversal reads them. \<open>Type_Utilities\<close>: the definitions, function by function, with the static
  variables \<^verbatim>\<open>operation_buffer\<close> and \<^verbatim>\<open>operation_buffer_index\<close> in the record \<open>tu_state\<close>; the one recursive
  function of the code is three mutually recursive ones here, for the message, its members and
  the elements of a sequence of messages. \<open>Message_Layout\<close>: the abstract contract, a walk over
  the description that says which memory a message has (\<open>built_message\<close>) and how large it is.
  \<open>Message_Create\<close>, \<open>Message_Providers\<close>, \<open>Message_Destroy\<close>, \<open>Message_Memory\<close>: creation is proved
  once, in a locale over the source of the memory, and interpreted on the heap and on the static
  buffer; destruction; the public functions. \<open>C_Structs\<close>: C structures, their layout on the
  32-bit target and their descriptions, with the proof that descriptions of structures are
  well-formed. \<open>Memory_Rules\<close>: the rules for the capacity of single members.
  \<open>Message_Properties\<close>: the properties of the public functions. \<open>Type_Info\<close>,
  \<open>Type_Info_Properties\<close>: the textual description of a type. The name tree and the indentation
  are string objects passed by value; \<open>Name_Tree\<close> states the allocators under which the caller's
  copy survives (locale \<open>settled_allocator\<close>: a byte to spare, blocks never move), \<open>Type_Info_Nested\<close>
  and \<open>Rules_Traversal\<close> prove under them that the description of any type, and the sizes with
  memory rules, are those of a plain recursion over the description of the message.

  \<^bold>\<open>Message structures\<close>: \<open>Std_Messages\<close>, \<open>Robot_Messages\<close>, \<open>System_Messages\<close>,
  \<open>Display_Messages\<close>, \<open>Control_Messages\<close> and \<open>Test_Messages\<close> transcribe the structures of the
  \<^verbatim>\<open>detail/*__struct.h\<close> headers, member by member; \<open>Message_Library\<close> applies the theorems on message
  memory to all of them.

  \<^bold>\<open>Clock\<close>: the two versions of \<^verbatim>\<open>clock_gettime\<close>, on 32-bit ticks, with wrap-around.
  \<^bold>\<open>Ctype_Table\<close>: the character table of the serial transport.

  \<^bold>\<open>Serial transport\<close>. \<open>Serial_Transport\<close>: the record \<open>serial_state\<close> of the static variables, the
  operations over the parameter record \<open>rt_env\<close> of the RT-Thread functions (device, semaphore,
  ticks), the receive interrupt, and the step relation that interleaves them; three locales state
  what the operations rely on (the semaphore, the stream of bytes, time). \<open>Serial_Line\<close>: a
  concrete device, on which the locales are interpreted, and the properties. The read loop waits
  for ever when the timeout is -1, and the device decides how often the semaphore wakes it, so its
  definition has fuel: \<open>None\<close> means that the fuel ran out. The fuel that is enough for a given line
  is in the statements of the properties.

  \<^bold>\<open>UDP and TCP transports\<close>. \<open>Socket_Transports\<close>: the record \<open>socket_state\<close> of the static variables,
  the operations over the parameter record \<open>net_env\<close> of the socket functions, and the contract
  \<open>descriptor_transport\<close> for a client of a transport. \<open>Socket_Contracts\<close>: what the socket functions
  promise (locale \<open>sockets\<close>), the proof that the TCP transport meets the contract, and a concrete
  network. \<open>Socket_Properties\<close>: the properties.

  \<^bold>\<open>Examples\<close>. \<open>Examples_Setup\<close>: the commands as sequences of calls; the client library is the
  parameter \<open>api\<close>, which answers each call as it likes, depending on all earlier ones; \<open>legal\<close>
  says that a call uses only what exists. \<open>Examples_Contract\<close>: which commands keep this contract
  and when. The loop that waits for the agent has fuel (one unit for each ping). \<open>Examples_Callbacks\<close>,
  \<open>Examples_Properties\<close>: the callbacks, the ping pong protocol, and the two threads of the robot
  example as a step relation.

  \<^bold>\<open>Logging\<close> (\<^verbatim>\<open>rcutils/logging_macros.h\<close>). \<open>Logging\<close>: the conditions of logging statements on their
  static variables; what the logging library answers during an execution is an input.
  \<open>Logging_Macros\<close>: the seventy macros. \<open>Logging_Conditions\<close>: the locale \<open>log_gate\<close>, with one
  interpretation for each condition. \<open>Logging_Properties\<close>: which executions send the message.

  \<^bold>\<open>Inline C++ headers.\<close> \<open>Cpp_Library\<close> is what they use of the language: exceptions as values, methods
  that may throw after they have changed their object, vectors as lists with the limits of the
  32-bit targets, ints with overflow. Allocations succeed; a pointer into a vector is a distance in
  bytes; the targets are little-endian and allow unaligned access.
  \<open>Image_Encodings\<close> and \<open>Fill_Image\<close> (\<^verbatim>\<open>sensor_msgs/image_encodings.hpp\<close>, \<^verbatim>\<open>fill_image.hpp\<close>): the
  functions on the names of encodings agree with one table, generic names are read back.
  \<open>Point_Cloud\<close>, \<open>Point_Cloud_Modifier\<close>, \<open>Point_Cloud_Iterator\<close>
  (\<^verbatim>\<open>sensor_msgs/impl/point_cloud2_iterator.hpp\<close>): the modifier and its invariant \<open>consistent\<close>, the
  iterators over the fields of the points. The loop over a field has fuel, one unit for each point
  and one for the end; the properties say that this is enough.
  \<open>Float_Formats\<close>, \<open>Point_Field_Conversion\<close> (\<^verbatim>\<open>sensor_msgs/point_field_conversion.hpp\<close>): IEEE formats
  with rounding to the nearest even number, and reading a number of one of eight types.
  \<open>Point_Cloud_Conversion\<close>, \<open>Point_Cloud_Round_Trip\<close> (\<^verbatim>\<open>sensor_msgs/point_cloud_conversion.hpp\<close>): the two
  conversions between the formats of point clouds, and that they are inverse to each other.
  \<open>Key_Value\<close> (\<^verbatim>\<open>rmw/impl/cpp/key_value.hpp\<close>, \<^verbatim>\<open>rcutils/isalnum_no_locale.h\<close>): the parser of the user
  data of a participant, with its grammar; whatever it reads can be written and read again.

  \<^bold>\<open>Test fixtures\<close> (\<^verbatim>\<open>test_msgs/message_fixtures.hpp\<close>, \<^verbatim>\<open>service_fixtures.hpp\<close>). \<open>Message_Values\<close>: what a
  member of a structure may hold, and assignments to members. \<open>Test_Fixtures\<close>: the messages and
  services, over the default values as a parameter. \<open>Fixture_Assignments\<close>, \<open>Fixture_Properties\<close>: they
  are values of the structures of \<open>Test_Messages\<close>.

  \<^bold>\<open>Header macros and inline functions of the client library.\<close> \<open>Stream_Locks\<close>
  (\<^verbatim>\<open>uxr/client/profile/multithread/multithread.h\<close>): the locking macros as calls on mutexes, and threads
  that interleave these calls; the locale \<open>mutex_library\<close> has the laws of a mutex, interpreted on a plain
  and a recursive one, and carries the invariant \<open>disciplined\<close>, from which follow mutual exclusion, freedom
  from deadlock and the end of every run. \<open>Fault_Injection\<close> (\<^verbatim>\<open>rcutils/testing/fault_injection.h\<close>,
  \<^verbatim>\<open>rcutils/macros.h\<close>): code with fault points is a tree with a branch for each fault; the test loop has
  fuel, one unit for each run, and more than the largest number of fault points is enough. The
  functions on the counter are the locale \<open>fault_library\<close>. \<open>Atomics\<close> (\<^verbatim>\<open>rcutils/stdatomic_helper.h\<close> and the
  two headers below it): the choice of header and back end, the operations as single steps on the
  value of the object, their agreement, and interleaved fetch-and-adds. \<open>Typesupport_Names\<close>
  (\<^verbatim>\<open>rosidl_typesupport_interface/macros.h\<close>): the symbols of type supports are unambiguous.
  \<open>Error_Macros\<close> (\<^verbatim>\<open>rcutils/error_handling.h\<close> with the headers of return codes and checks): the codes, the
  sizes of the error state and the calls that the macros make. \<open>Cpp_Guards\<close>
  (\<^verbatim>\<open>rmw/impl/cpp/macros.hpp\<close>, \<^verbatim>\<open>demangle.hpp\<close>, \<^verbatim>\<open>tracetools/utils.hpp\<close>): guards against exceptions and
  mismatched implementations.

  \<^bold>\<open>Not modelled.\<close> The functions of the prebuilt archives (rcl, rclc, rmw, rcutils, the XRCE-DDS
  client, the generated introspection tables and message functions): the repository has only
  their declarations (\<^verbatim>\<open>rcl/\<close>, \<^verbatim>\<open>rclc/\<close>, \<^verbatim>\<open>rmw/\<close>, \<^verbatim>\<open>uxr/\<close>, \<^verbatim>\<open>ucdr/\<close>, the \<^verbatim>\<open>*__functions.h\<close> and
  \<^verbatim>\<open>*__type_support.h\<close> headers), and the data types among them have no operation to be proved of. The same
  holds for the wire types of \<^verbatim>\<open>uxr/client/core/type/xrce_types.h\<close>, and for \<^verbatim>\<open>yaml.h\<close>. RT-Thread, the socket layer and the robot driver are parameters. Threads
  other than the two of the robot example, the receive interrupt, and the users of locks and atomic
  objects are not interleaved, and an access to a shared variable is one step; weak memory is not
  modelled. The printed output of callbacks is left out.
\<close>

end
